(* ===== verification/Pyval.thy ===== *)
theory Pyval
  imports Prelude
begin

text \<open>
  Dynamic Python values: what \<open>json.loads\<close> returns and what provider SDK objects look like to
  the code (an attribute read with \<open>getattr(x, name, None)\<close> and a key read with
  \<open>x.get(name)\<close> are the same lookup here; \<open>PObj\<close> is an object with attributes that is
  not a \<open>Mapping\<close>). A float carries its value and the text its \<open>repr\<close> gives.
\<close>

datatype fl = Fin rat | PosInf | NegInf | NaN

datatype pyval =
    PNone
  | PBool bool
  | PInt int
  | PFloat fl string
  | PStr string
  | PList "pyval list"
  | PDict "(string \<times> pyval) list"
  | PObj "(string \<times> pyval) list"

section \<open>Dictionaries: association lists in insertion order\<close>

definition dget :: "(string \<times> 'v) list \<Rightarrow> string \<Rightarrow> 'v option" where
  "dget d k = map_of d k"

definition dset :: "string \<Rightarrow> 'v \<Rightarrow> (string \<times> 'v) list \<Rightarrow> (string \<times> 'v) list" where
  "dset k v d = AList.update k v d"

text \<open>\<open>d.update(e)\<close>: later bindings of \<open>e\<close> win, new keys go to the end.\<close>

definition dupdate :: "(string \<times> 'v) list \<Rightarrow> (string \<times> 'v) list \<Rightarrow> (string \<times> 'v) list" where
  "dupdate d e = fold (\<lambda>(k, v). dset k v) e d"

lemma dget_dset [simp]: "dget (dset k v d) j = (if j = k then Some v else dget d j)"
  by (simp add: dget_def dset_def update_conv)

lemma dget_simps [simp]:
  "dget [] k = None"
  "dget ((j, v) # d) k = (if j = k then Some v else dget d k)"
  by (simp_all add: dget_def)

lemma dupdate_simps [simp]:
  "dupdate d [] = d"
  "dupdate d ((k, v) # e) = dupdate (dset k v d) e"
  by (simp_all add: dupdate_def)

lemma dget_dupdate_notin: "k \<notin> fst ` set e \<Longrightarrow> dget (dupdate d e) k = dget d k"
  by (induction e arbitrary: d) (auto simp: image_iff)

lemma dget_dupdate:
  "distinct (map fst e) \<Longrightarrow>
   dget (dupdate d e) k = (case dget e k of Some v \<Rightarrow> Some v | None \<Rightarrow> dget d k)"
proof (induction e arbitrary: d)
  case (Cons p e)
  obtain j v where p: "p = (j, v)" by (cases p)
  show ?case
  proof (cases "k = j")
    case True
    with Cons.prems p show ?thesis by (simp add: dget_dupdate_notin)
  next
    case False
    with Cons p show ?thesis by (simp split: option.split)
  qed
qed simp

definition dkeys :: "(string \<times> 'v) list \<Rightarrow> string list" where
  "dkeys d = map fst d"

lemma dget_delete: "dget (AList.delete k d) j = (if j = k then None else dget d j)"
  by (simp add: dget_def delete_conv)

lemma dget_in: "dget d k = Some v \<Longrightarrow> (k, v) \<in> set d"
  by (simp add: dget_def map_of_SomeD)

lemma in_dget: "distinct (map fst d) \<Longrightarrow> (k, v) \<in> set d \<Longrightarrow> dget d k = Some v"
  by (simp add: dget_def)

lemma map_fst_dset: "map fst (dset k v d) = (if k \<in> set (map fst d) then map fst d else map fst d @ [k])"
  by (simp only: dset_def update_keys set_map)

lemma set_dset: "distinct (map fst d) \<Longrightarrow> set (dset k v d) \<subseteq> insert (k, v) (set d)"
proof (rule subsetI, rule insert_iff [THEN iffD2], unfold split_paired_all)
  fix j w assume d: "distinct (map fst d)" "(j, w) \<in> set (dset k v d)"
  then have "dget (dset k v d) j = Some w"
    by (intro in_dget) (auto simp: map_fst_dset)
  then show "(j, w) = (k, v) \<or> (j, w) \<in> set d" by (auto split: if_splits dest: dget_in)
qed

section \<open>Lookup in values\<close>

definition is_mapping :: "pyval \<Rightarrow> bool" where
  "is_mapping v = (case v of PDict _ \<Rightarrow> True | _ \<Rightarrow> False)"

definition or_none :: "pyval option \<Rightarrow> pyval" where
  "or_none x = (case x of None \<Rightarrow> PNone | Some v \<Rightarrow> v)"

definition field :: "pyval \<Rightarrow> string \<Rightarrow> pyval" where
  "field v k = (case v of PDict d \<Rightarrow> or_none (dget d k) | PObj d \<Rightarrow> or_none (dget d k) | _ \<Rightarrow> PNone)"

definition kw :: "(string \<times> pyval) list \<Rightarrow> string \<Rightarrow> pyval" where
  "kw d k = or_none (dget d k)"

definition has_key :: "(string \<times> pyval) list \<Rightarrow> string \<Rightarrow> bool" where
  "has_key d k \<longleftrightarrow> dget d k \<noteq> None"

lemma or_none_simps [simp]: "or_none None = PNone" "or_none (Some v) = v"
  by (simp_all add: or_none_def)

lemma field_simps_val [simp]:
  "field (PDict d) k = or_none (dget d k)"
  "field (PObj d) k = or_none (dget d k)"
  "field PNone k = PNone" "field (PBool b) k = PNone" "field (PInt i) k = PNone"
  "field (PFloat f t) k = PNone" "field (PStr s) k = PNone" "field (PList l) k = PNone"
  by (simp_all add: field_def)

lemma kw_dset: "kw (dset k v d) j = (if j = k then v else kw d j)"
  by (simp add: kw_def)

section \<open>Truth, str, int\<close>

fun truthy :: "pyval \<Rightarrow> bool" where
  "truthy PNone = False"
| "truthy (PBool b) = b"
| "truthy (PInt i) = (i \<noteq> 0)"
| "truthy (PFloat f _) = (f \<noteq> Fin 0)"
| "truthy (PStr s) = (s \<noteq> [])"
| "truthy (PList l) = (l \<noteq> [])"
| "truthy (PDict d) = (d \<noteq> [])"
| "truthy (PObj d) = True"

definition or_val :: "pyval \<Rightarrow> pyval \<Rightarrow> pyval" where
  "or_val x y = (if truthy x then x else y)"

definition is_digit :: "char \<Rightarrow> bool" where
  "is_digit c \<longleftrightarrow> 48 \<le> char_code c \<and> char_code c \<le> 57"

text \<open>\<open>int(text)\<close>: optional sign, digits with single underscores between them.\<close>

fun digits_val :: "nat \<Rightarrow> bool \<Rightarrow> string \<Rightarrow> nat option" where
  "digits_val acc prev [] = (if prev then Some acc else None)"
| "digits_val acc prev (c # cs) =
     (if is_digit c then digits_val (acc * 10 + (char_code c - 48)) True cs
      else if c = CHR ''_'' \<and> prev then digits_val acc False cs else None)"

definition int_of_text :: "string \<Rightarrow> int option" where
  "int_of_text t = (case py_strip t of
       [] \<Rightarrow> None
     | c # cs \<Rightarrow>
         if c = CHR ''-'' then map_option (\<lambda>n. - int n) (digits_val 0 False cs)
         else if c = CHR ''+'' then map_option int (digits_val 0 False cs)
         else map_option int (digits_val 0 False (c # cs)))"

definition trunc_rat :: "rat \<Rightarrow> int" where
  "trunc_rat q = (if q < 0 then - \<lfloor>- q\<rfloor> else \<lfloor>q\<rfloor>)"

fun py_int :: "pyval \<Rightarrow> int res" where
  "py_int (PBool b) = Inr (if b then 1 else 0)"
| "py_int (PInt i) = Inr i"
| "py_int (PFloat (Fin q) _) = Inr (trunc_rat q)"
| "py_int (PFloat NaN _) = Inl PyValueError"
| "py_int (PFloat _ _) = Inl PyOverflowError"
| "py_int (PStr s) = (case int_of_text s of None \<Rightarrow> Inl PyValueError | Some i \<Rightarrow> Inr i)"
| "py_int _ = Inl PyTypeError"

definition hex_char :: "nat \<Rightarrow> char" where
  "hex_char d = ''0123456789abcdef'' ! d"

text \<open>\<open>repr\<close> of a string: single quotes unless the text has one and no double quote.\<close>

definition repr_char :: "char \<Rightarrow> char \<Rightarrow> string" where
  "repr_char q c = (let n = char_code c; bs = char_of (92::nat) in
     if c = q \<or> c = bs then [bs, c]
     else if n = 10 then [bs, CHR ''n''] else if n = 13 then [bs, CHR ''r'']
     else if n = 9 then [bs, CHR ''t'']
     else if n < 32 \<or> n = 127 then [bs, CHR ''x'', hex_char (n div 16), hex_char (n mod 16)]
     else [c])"

definition repr_str :: "string \<Rightarrow> string" where
  "repr_str s = (let sq = char_of (39::nat); dq = char_of (34::nat);
       q = (if sq \<in> set s \<and> dq \<notin> set s then dq else sq)
     in [q] @ concat (map (repr_char q) s) @ [q])"

fun joined :: "string \<Rightarrow> string list \<Rightarrow> string" where
  "joined sep [] = []"
| "joined sep [x] = x"
| "joined sep (x # y # zs) = x @ sep @ joined sep (y # zs)"

fun py_repr :: "pyval \<Rightarrow> string" where
  "py_repr PNone = ''None''"
| "py_repr (PBool b) = (if b then ''True'' else ''False'')"
| "py_repr (PInt i) = int_str i"
| "py_repr (PFloat _ t) = t"
| "py_repr (PStr s) = repr_str s"
| "py_repr (PList l) = ''['' @ joined '', '' (map py_repr l) @ '']''"
| "py_repr (PDict d) = ''{'' @ joined '', '' (map (\<lambda>(k, v). repr_str k @ '': '' @ py_repr v) d) @ ''}''"
| "py_repr (PObj d) = ''<object>''"

definition py_str :: "pyval \<Rightarrow> string" where
  "py_str v = (case v of PStr s \<Rightarrow> s | _ \<Rightarrow> py_repr v)"

lemma py_str_simps [simp]:
  "py_str (PStr s) = s" "py_str PNone = ''None''" "py_str (PInt i) = int_str i"
  "py_str (PBool b) = (if b then ''True'' else ''False'')"
  by (simp_all add: py_str_def)

text \<open>\<open>str(x or "")\<close>.\<close>

definition str_or_empty :: "pyval \<Rightarrow> string" where
  "str_or_empty v = (if truthy v then py_str v else [])"

lemma str_or_empty_simps [simp]:
  "str_or_empty (PStr s) = s" "str_or_empty PNone = []"
  by (simp_all add: str_or_empty_def)

section \<open>Equality and iteration\<close>

text \<open>\<open>==\<close> on JSON values: numbers by value, dictionaries whatever their order.\<close>

fun num_val :: "pyval \<Rightarrow> fl option" where
  "num_val (PBool b) = Some (Fin (if b then 1 else 0))"
| "num_val (PInt i) = Some (Fin (of_int i))"
| "num_val (PFloat f _) = Some f"
| "num_val _ = None"

function (sequential) py_eq :: "pyval \<Rightarrow> pyval \<Rightarrow> bool" where
  "py_eq (PList xs) (PList ys) \<longleftrightarrow> length xs = length ys \<and> list_all (\<lambda>(x, y). py_eq x y) (zip xs ys)"
| "py_eq (PDict d) (PDict e) \<longleftrightarrow> length d = length e \<and>
     list_all (\<lambda>(k, v). case dget e k of None \<Rightarrow> False | Some w \<Rightarrow> py_eq v w) d"
| "py_eq PNone PNone \<longleftrightarrow> True"
| "py_eq (PStr s) (PStr t) \<longleftrightarrow> s = t"
| "py_eq v w \<longleftrightarrow> (case (num_val v, num_val w) of (Some a, Some b) \<Rightarrow> a = b \<and> a \<noteq> NaN | _ \<Rightarrow> False)"
  by pat_completeness auto

termination py_eq
proof (relation "measure (size \<circ> fst)", goal_cases)
  case (2 xs ys p x y)
  then have "x \<in> set xs" by (auto dest: set_zip_leftD)
  then have "size x < Suc (size_list size xs)" by (induction xs) auto
  then show ?case by simp
next
  case (3 d e p k v w)
  then have "(k, v) \<in> set d" by simp
  then show ?case by (induction d) auto
qed simp_all

text \<open>\<open>list(v)\<close>, and \<open>for x in (v or [])\<close>.\<close>

definition py_elems :: "pyval \<Rightarrow> pyval list res" where
  "py_elems v = (case v of
     PList l \<Rightarrow> Inr l
   | PStr s \<Rightarrow> Inr (map (\<lambda>c. PStr [c]) s)
   | PDict d \<Rightarrow> Inr (map (\<lambda>(k, x). PStr k) d)
   | _ \<Rightarrow> Inl PyTypeError)"

definition py_iter :: "pyval \<Rightarrow> pyval list res" where
  "py_iter v = (if \<not> truthy v then Inr [] else py_elems v)"

text \<open>\<open>dict(v).items()\<close>: an object, or an iterable of pairs, keys that are equal put together.\<close>

definition py_pair :: "pyval \<Rightarrow> (pyval \<times> pyval) res" where
  "py_pair v = (case v of
     PList [k, x] \<Rightarrow> (case k of PList _ \<Rightarrow> Inl PyTypeError | PDict _ \<Rightarrow> Inl PyTypeError | _ \<Rightarrow> Inr (k, x))
   | PList _ \<Rightarrow> Inl PyValueError
   | PStr [a, b] \<Rightarrow> Inr (PStr [a], PStr [b])
   | PStr _ \<Rightarrow> Inl PyValueError
   | PDict [(k, _), (l, _)] \<Rightarrow> Inr (PStr k, PStr l)
   | PDict _ \<Rightarrow> Inl PyValueError
   | _ \<Rightarrow> Inl PyTypeError)"

fun put_key :: "pyval \<Rightarrow> pyval \<Rightarrow> (pyval \<times> pyval) list \<Rightarrow> (pyval \<times> pyval) list" where
  "put_key k x [] = [(k, x)]"
| "put_key k x ((j, y) # d) = (if py_eq j k then (j, x) # d else (j, y) # put_key k x d)"

definition py_dict :: "pyval \<Rightarrow> (pyval \<times> pyval) list res" where
  "py_dict v = (case v of
     PDict d \<Rightarrow> Inr (map (\<lambda>(k, x). (PStr k, x)) d)
   | _ \<Rightarrow> bnd (py_elems v) (\<lambda>l. bnd (map_res py_pair l) (\<lambda>ps. Inr (fold (\<lambda>(k, x). put_key k x) ps []))))"

end
