(* ===== verification/Enforcement.thy ===== *)
theory Enforcement
  imports Pyval "HOL-Library.Multiset"
begin

text \<open>
  The local budget: class \<open>Enforcement\<close> of kazenai/enforcement.py and \<open>SharedBudget\<close> of
  kazenai/budget.py. US-dollar amounts and clock readings are exact rationals (binary rounding of
  Python floats is not modelled); every method takes its lock, so it is one atomic step, and
  several callers sharing a budget are an interleaving of steps. \<open>time.monotonic()\<close> is the
  argument \<open>now\<close>.
\<close>

section \<open>State and operations\<close>

record enforcement =
  max_cost_usd :: "rat option"
  calls_per_minute :: "int option"
  window_seconds :: rat
  cumulative_cost_usd :: rat
  pending_projected_usd :: rat
  call_timestamps :: "rat list"

definition enforcement_init :: "rat option \<Rightarrow> int option \<Rightarrow> rat \<Rightarrow> enforcement" where
  "enforcement_init mx cpm w =
     \<lparr>max_cost_usd = mx, calls_per_minute = cpm, window_seconds = w,
      cumulative_cost_usd = 0, pending_projected_usd = 0, call_timestamps = []\<rparr>"

fun popleft_while :: "rat \<Rightarrow> rat list \<Rightarrow> rat list" where
  "popleft_while cutoff [] = []"
| "popleft_while cutoff (t # dq) = (if t < cutoff then popleft_while cutoff dq else t # dq)"

definition prune_locked :: "rat \<Rightarrow> enforcement \<Rightarrow> enforcement" where
  "prune_locked now e =
     (let cutoff = now - window_seconds e
      in e\<lparr>call_timestamps := popleft_while cutoff (call_timestamps e)\<rparr>)"

definition check_local :: "rat \<Rightarrow> rat \<Rightarrow> enforcement \<Rightarrow> rat res \<times> enforcement" where
  "check_local now proj e0 =
     (let e = prune_locked now e0 in
      if (case calls_per_minute e of None \<Rightarrow> False | Some k \<Rightarrow> int (length (call_timestamps e)) \<ge> k)
      then (Inl RateLimitExceeded, e)
      else case max_cost_usd e of
             None \<Rightarrow> (Inr proj, e)
           | Some mx \<Rightarrow>
               let projected_total = cumulative_cost_usd e + pending_projected_usd e + proj
               in if projected_total > mx then (Inl BudgetExceeded, e)
                  else if proj > 0
                       then (Inr proj, e\<lparr>pending_projected_usd := pending_projected_usd e + proj\<rparr>)
                       else (Inr proj, e))"

definition remaining_budget_usd :: "enforcement \<Rightarrow> rat option" where
  "remaining_budget_usd e =
     (case max_cost_usd e of None \<Rightarrow> None
      | Some mx \<Rightarrow> Some (max 0 (mx - (cumulative_cost_usd e + pending_projected_usd e))))"

definition release_projection :: "rat \<Rightarrow> enforcement \<Rightarrow> enforcement" where
  "release_projection released e =
     (if released \<le> 0 then e
      else e\<lparr>pending_projected_usd := max 0 (pending_projected_usd e - released)\<rparr>)"

definition record_call ::
  "rat \<Rightarrow> rat option \<Rightarrow> bool \<Rightarrow> rat \<Rightarrow> enforcement \<Rightarrow> unit res \<times> enforcement" where
  "record_call now cost enforce released e0 =
     (let e1 = prune_locked now e0;
          e2 = e1\<lparr>call_timestamps := call_timestamps e1 @ [now]\<rparr>;
          e3 = (if released > 0
                then e2\<lparr>pending_projected_usd := max 0 (pending_projected_usd e2 - released)\<rparr> else e2);
          e4 = (case cost of None \<Rightarrow> e3
                | Some c \<Rightarrow> e3\<lparr>cumulative_cost_usd := cumulative_cost_usd e3 + c\<rparr>);
          over_budget = (enforce \<and> (case max_cost_usd e4 of None \<Rightarrow> False
                                    | Some mx \<Rightarrow> cumulative_cost_usd e4 > mx))
      in (if over_budget then Inl (StreamCutoff (case cost of None \<Rightarrow> 0 | Some c \<Rightarrow> c)) else Inr (), e4))"

definition snapshot :: "rat \<Rightarrow> enforcement \<Rightarrow> (rat \<times> rat \<times> nat \<times> rat option \<times> int option \<times> rat) \<times> enforcement" where
  "snapshot now e0 =
     (let e = prune_locked now e0
      in ((cumulative_cost_usd e, pending_projected_usd e, length (call_timestamps e),
           max_cost_usd e, calls_per_minute e, window_seconds e), e))"

text \<open>A server decision: \<open>None\<close> is an absent key, \<open>Some None\<close> an explicit null.\<close>

record server_decision =
  sd_window :: "rat option option"
  sd_max_cost :: "rat option option"
  sd_calls :: "int option option"

definition apply_server_decision :: "server_decision \<Rightarrow> enforcement \<Rightarrow> enforcement" where
  "apply_server_decision d e =
     (let e1 = (case sd_window d of Some (Some w) \<Rightarrow> e\<lparr>window_seconds := w\<rparr> | _ \<Rightarrow> e);
          e2 = (case sd_max_cost d of Some v \<Rightarrow> e1\<lparr>max_cost_usd := v\<rparr> | None \<Rightarrow> e1)
      in (case sd_calls d of Some v \<Rightarrow> e2\<lparr>calls_per_minute := v\<rparr> | None \<Rightarrow> e2))"

text \<open>\<open>SharedBudget\<close>: one \<open>Enforcement\<close> with only a cost cap and the default 60 s window.\<close>

record shared_budget =
  sb_max_usd :: rat
  sb_name :: string
  sb_enforcement :: enforcement

definition shared_budget_init :: "rat option \<Rightarrow> string \<Rightarrow> shared_budget res" where
  "shared_budget_init mx name =
     (case mx of None \<Rightarrow> Inl PyValueError
      | Some m \<Rightarrow> if m < 0 then Inl PyValueError
                  else Inr \<lparr>sb_max_usd = m, sb_name = name,
                            sb_enforcement = enforcement_init (Some m) None 60\<rparr>)"

definition spent_usd :: "rat \<Rightarrow> shared_budget \<Rightarrow> rat" where
  "spent_usd now b = (case snapshot now (sb_enforcement b) of ((c, _), _) \<Rightarrow> c)"

definition remaining_usd :: "shared_budget \<Rightarrow> rat option" where
  "remaining_usd b = remaining_budget_usd (sb_enforcement b)"

section \<open>Basic facts\<close>

lemma popleft_while_eq: "popleft_while c ts = dropWhile (\<lambda>t. t < c) ts"
  by (induction ts) auto

lemma popleft_while_sorted: "sorted ts \<Longrightarrow> popleft_while c ts = filter (\<lambda>t. c \<le> t) ts"
  unfolding popleft_while_eq
proof (induction ts)
  case (Cons t ts)
  then show ?case by (cases "t < c") (auto simp: not_less intro!: filter_True [symmetric] order_trans [of c t])
qed simp

lemma prune_simps [simp]:
  "max_cost_usd (prune_locked now e) = max_cost_usd e"
  "calls_per_minute (prune_locked now e) = calls_per_minute e"
  "window_seconds (prune_locked now e) = window_seconds e"
  "cumulative_cost_usd (prune_locked now e) = cumulative_cost_usd e"
  "pending_projected_usd (prune_locked now e) = pending_projected_usd e"
  "call_timestamps (prune_locked now e) = popleft_while (now - window_seconds e) (call_timestamps e)"
  by (simp_all add: prune_locked_def Let_def)

section \<open>The contract of a capped hold ledger\<close>

lemma sum_mset_rat_nonneg: "(\<forall>x\<in>#M. 0 \<le> (x :: rat)) \<Longrightarrow> 0 \<le> sum_mset M"
  by (induction M) auto

lemma sum_mset_rat_remove: "h \<in># hs \<Longrightarrow> sum_mset (hs - {#h#}) = sum_mset hs - (h :: rat)"
  by (auto dest!: multi_member_split)

text \<open>
  What a caller relies on: a granted hold fits under the cap together with everything spent and
  held, settling moves a hold to the spent side at its actual cost, releasing drops it. The lemmas
  bound the exposure by the cap plus the accumulated overruns (cost above the hold).
\<close>

locale hold_ledger =
  fixes grant :: "'t \<Rightarrow> rat \<Rightarrow> 'e \<Rightarrow> 'e option"
    and settle :: "'t \<Rightarrow> rat \<Rightarrow> rat \<Rightarrow> 'e \<Rightarrow> 'e"
    and give_back :: "rat \<Rightarrow> 'e \<Rightarrow> 'e"
    and spent :: "'e \<Rightarrow> rat" and held :: "'e \<Rightarrow> rat" and cap :: "'e \<Rightarrow> rat option"
  assumes grant_law: "grant t p e = Some e' \<Longrightarrow> 0 \<le> p \<Longrightarrow> cap e = Some m \<Longrightarrow>
      spent e' = spent e \<and> held e' = held e + p \<and> cap e' = Some m \<and> spent e + held e + p \<le> m"
    and settle_law: "0 \<le> h \<Longrightarrow> h \<le> held e \<Longrightarrow>
      spent (settle t h c e) = spent e + c \<and> held (settle t h c e) = held e - h
      \<and> cap (settle t h c e) = cap e"
    and give_back_law: "0 \<le> h \<Longrightarrow> h \<le> held e \<Longrightarrow>
      spent (give_back h e) = spent e \<and> held (give_back h e) = held e - h \<and> cap (give_back h e) = cap e"
begin

definition bounded :: "rat \<Rightarrow> rat \<Rightarrow> rat multiset \<Rightarrow> 'e \<Rightarrow> bool" where
  "bounded m over hs e \<longleftrightarrow>
     cap e = Some m \<and> held e = sum_mset hs \<and> (\<forall>h\<in>#hs. 0 \<le> h) \<and> 0 \<le> over
     \<and> spent e + held e \<le> m + over"

lemma open_hold_le:
  assumes "bounded m over hs e" "h \<in># hs" shows "0 \<le> h" "h \<le> held e"
proof -
  from assms have nn: "\<forall>x\<in>#hs. 0 \<le> x" and hd: "held e = sum_mset hs" by (auto simp: bounded_def)
  with assms(2) show "0 \<le> h" by blast
  have "0 \<le> sum_mset (hs - {#h#})"
    using nn by (intro sum_mset_rat_nonneg) (auto dest: in_diffD)
  then show "h \<le> held e" using hd sum_mset_rat_remove [OF assms(2)] by linarith
qed

lemma bounded_grant:
  assumes "bounded m over hs e" "grant t p e = Some e'" "0 \<le> p"
  shows "bounded m over (add_mset p hs) e'"
  using assms grant_law [OF assms(2,3)] by (auto simp: bounded_def)

lemma bounded_settle:
  assumes b: "bounded m over hs e" and h: "h \<in># hs"
  shows "bounded m (over + max 0 (c - h)) (hs - {#h#}) (settle t h c e)"
  using b settle_law [OF open_hold_le [OF b h]] sum_mset_rat_remove [OF h]
  by (auto simp: bounded_def dest: in_diffD)

lemma bounded_give_back:
  assumes b: "bounded m over hs e" and h: "h \<in># hs"
  shows "bounded m over (hs - {#h#}) (give_back h e)"
  using b give_back_law [OF open_hold_le [OF b h]] open_hold_le [OF b h] sum_mset_rat_remove [OF h]
  by (auto simp: bounded_def dest: in_diffD)

lemma bounded_spent:
  assumes "bounded m over hs e" shows "spent e \<le> m + over"
proof -
  have "0 \<le> sum_mset hs" using assms by (intro sum_mset_rat_nonneg) (simp add: bounded_def)
  with assms show ?thesis by (auto simp: bounded_def)
qed

end

text \<open>The methods of \<open>Enforcement\<close> keep the contract.\<close>

definition grant_hold :: "rat \<Rightarrow> rat \<Rightarrow> enforcement \<Rightarrow> enforcement option" where
  "grant_hold now p e = (case check_local now p e of (Inr _, e') \<Rightarrow> Some e' | (Inl _, _) \<Rightarrow> None)"

definition settle_hold :: "rat \<times> bool \<Rightarrow> rat \<Rightarrow> rat \<Rightarrow> enforcement \<Rightarrow> enforcement" where
  "settle_hold t h c e = snd (record_call (fst t) (Some c) (snd t) h e)"

lemma check_local_ok:
  "check_local now p e = (Inr h, e') \<Longrightarrow> max_cost_usd e = Some m \<Longrightarrow> 0 \<le> p \<Longrightarrow>
   h = p \<and> cumulative_cost_usd e' = cumulative_cost_usd e
   \<and> pending_projected_usd e' = pending_projected_usd e + p \<and> max_cost_usd e' = Some m
   \<and> cumulative_cost_usd e + pending_projected_usd e + p \<le> m"
  by (auto simp: check_local_def Let_def not_less split: if_splits option.splits)

lemma check_local_refused:
  "check_local now p e = (Inl x, e') \<Longrightarrow> e' = prune_locked now e"
  by (auto simp: check_local_def Let_def split: if_splits option.splits)

lemma record_call_state [simp]:
  "cumulative_cost_usd (snd (record_call now (Some c) enf r e)) = cumulative_cost_usd e + c"
  "pending_projected_usd (snd (record_call now k enf r e)) =
     (if r > 0 then max 0 (pending_projected_usd e - r) else pending_projected_usd e)"
  "max_cost_usd (snd (record_call now k enf r e)) = max_cost_usd e"
  by (auto simp: record_call_def Let_def split: option.splits)

interpretation enf: hold_ledger
  "\<lambda>t. grant_hold (fst t)" settle_hold release_projection
  cumulative_cost_usd pending_projected_usd max_cost_usd
proof unfold_locales
  fix t :: "rat \<times> bool" and p e e' m
  assume "grant_hold (fst t) p e = Some e'" "0 \<le> p" "max_cost_usd e = Some m"
  then show "cumulative_cost_usd e' = cumulative_cost_usd e \<and>
      pending_projected_usd e' = pending_projected_usd e + p \<and> max_cost_usd e' = Some m \<and>
      cumulative_cost_usd e + pending_projected_usd e + p \<le> m"
    by (auto simp: grant_hold_def split: prod.splits sum.splits dest: check_local_ok)
qed (auto simp: settle_hold_def release_projection_def)

section \<open>Concurrent callers on one budget\<close>

text \<open>
  Any interleaving of callers: each admission that returns leaves its caller with an open hold,
  which that caller later settles at the provider's cost or gives back. \<open>overrun\<close> is a ghost
  field: how much actual costs exceeded their holds so far.
\<close>

record budget_system =
  ledger :: enforcement
  open_holds :: "rat multiset"
  overrun :: rat

inductive budget_step :: "budget_system \<Rightarrow> budget_system \<Rightarrow> bool" where
  admit: "check_local now p (ledger s) = (Inr h, e') \<Longrightarrow> 0 \<le> p \<Longrightarrow>
     budget_step s (s\<lparr>ledger := e', open_holds := add_mset h (open_holds s)\<rparr>)"
| refuse: "check_local now p (ledger s) = (Inl x, e') \<Longrightarrow> budget_step s (s\<lparr>ledger := e'\<rparr>)"
| settle: "h \<in># open_holds s \<Longrightarrow> record_call now (Some c) enf h (ledger s) = (r, e') \<Longrightarrow> 0 \<le> c \<Longrightarrow>
     budget_step s (s\<lparr>ledger := e', open_holds := open_holds s - {#h#},
                      overrun := overrun s + max 0 (c - h)\<rparr>)"
| give_up: "h \<in># open_holds s \<Longrightarrow>
     budget_step s (s\<lparr>ledger := release_projection h (ledger s), open_holds := open_holds s - {#h#}\<rparr>)"
| look: "snapshot now (ledger s) = (v, e') \<Longrightarrow> budget_step s (s\<lparr>ledger := e'\<rparr>)"

inductive budget_reachable :: "rat \<Rightarrow> int option \<Rightarrow> rat \<Rightarrow> budget_system \<Rightarrow> bool" for m cpm w where
  start: "budget_reachable m cpm w
     \<lparr>ledger = enforcement_init (Some m) cpm w, open_holds = {#}, overrun = 0\<rparr>"
| step: "budget_reachable m cpm w s \<Longrightarrow> budget_step s t \<Longrightarrow> budget_reachable m cpm w t"

lemma bounded_prune [simp]:
  "enf.bounded m ov hs (prune_locked now e) = enf.bounded m ov hs e"
  by (simp add: enf.bounded_def)

lemma budget_step_bounded:
  assumes "budget_step s t" "enf.bounded m (overrun s) (open_holds s) (ledger s)"
  shows "enf.bounded m (overrun t) (open_holds t) (ledger t)"
  using assms
proof (induction rule: budget_step.induct)
  case (admit now p s h e')
  then have "grant_hold now p (ledger s) = Some e'" "h = p"
    using admit by (auto simp: grant_hold_def enf.bounded_def dest: check_local_ok)
  with admit.prems admit.hyps(2) enf.bounded_grant
    [of m "overrun s" "open_holds s" "ledger s" "(now, True)" p e']
  show ?case by simp
next
  case (refuse now p s x e')
  from check_local_refused [OF refuse.hyps] refuse.prems show ?case by simp
next
  case (settle h s now c en r e')
  then have "e' = settle_hold (now, en) h c (ledger s)" by (simp add: settle_hold_def)
  with settle enf.bounded_settle [of m "overrun s" "open_holds s" "ledger s" h c "(now, en)"]
  show ?case by simp
next
  case (give_up h s)
  then show ?case using enf.bounded_give_back by auto
next
  case (look now s v e')
  then show ?case by (auto simp: snapshot_def Let_def)
qed

lemma budget_reachable_bounded:
  assumes "budget_reachable m cpm w s" "0 \<le> m"
  shows "enf.bounded m (overrun s) (open_holds s) (ledger s)"
  using assms
proof (induction rule: budget_reachable.induct)
  case start
  then show ?case by (simp add: enf.bounded_def enforcement_init_def)
next
  case (step s t)
  from budget_step_bounded [OF step.hyps(2) step.IH [OF step.prems]] show ?case .
qed

section \<open>Properties\<close>

text \<open>C7: in every interleaving of callers on one capped budget, what is spent plus what is held
  never exceeds the cap by more than the accumulated overruns of actual cost over hold; the held
  amount is exactly the sum of the open holds. Without overruns the cap is a hard limit.\<close>

theorem budget_never_exceeds_cap:
  assumes "budget_reachable m cpm w s" and "0 \<le> m"
  shows "pending_projected_usd (ledger s) = sum_mset (open_holds s)
    \<and> cumulative_cost_usd (ledger s) + pending_projected_usd (ledger s) \<le> m + overrun s
    \<and> cumulative_cost_usd (ledger s) \<le> m + overrun s"
  using budget_reachable_bounded [OF assms] enf.bounded_spent [OF budget_reachable_bounded [OF assms]]
  by (simp add: enf.bounded_def)

theorem budget_never_exceeds_cap_witness:
  "\<exists>s. budget_reachable 5 None 60 s \<and> open_holds s = {#3#}
     \<and> cumulative_cost_usd (ledger s) + pending_projected_usd (ledger s) \<le> 5 + overrun s"
proof -
  let ?s0 = "\<lparr>ledger = enforcement_init (Some 5) None 60, open_holds = {#}, overrun = 0\<rparr>"
  let ?e1 = "(enforcement_init (Some 5) None 60)\<lparr>pending_projected_usd := 3\<rparr>"
  have "budget_step ?s0 (?s0\<lparr>ledger := ?e1, open_holds := add_mset 3 (open_holds ?s0)\<rparr>)"
    by (rule budget_step.admit [of 1 3])
      (simp_all add: check_local_def prune_locked_def enforcement_init_def Let_def)
  from budget_reachable.step [OF budget_reachable.start this]
  have r: "budget_reachable 5 None 60 (?s0\<lparr>ledger := ?e1, open_holds := add_mset 3 (open_holds ?s0)\<rparr>)" .
  have "cumulative_cost_usd ?e1 + pending_projected_usd ?e1 \<le> 5 + 0"
    using budget_never_exceeds_cap [OF r] by simp
  with r show ?thesis
    by (intro exI [of _ "?s0\<lparr>ledger := ?e1, open_holds := add_mset 3 (open_holds ?s0)\<rparr>"]) simp
qed

text \<open>C25: the admission decision on every branch. With the recorded call times in order, the
  rate limit is raised exactly when the calls inside the window already reach it; otherwise the
  budget error is raised exactly when spent plus held plus projected exceeds the cap; otherwise the
  projection is returned and, under a cap, added to the held amount. A refusal takes no hold.\<close>

theorem check_local_decides:
  assumes "sorted (call_timestamps e)" and "check_local now p e = (r, e')"
  shows "(r = Inl RateLimitExceeded \<longleftrightarrow> (\<exists>k. calls_per_minute e = Some k \<and>
            k \<le> int (length (filter (\<lambda>t. now - window_seconds e \<le> t) (call_timestamps e)))))
    \<and> (r \<noteq> Inl RateLimitExceeded \<longrightarrow> (r = Inl BudgetExceeded \<longleftrightarrow> (\<exists>m. max_cost_usd e = Some m \<and>
            m < cumulative_cost_usd e + pending_projected_usd e + p)))
    \<and> (r \<noteq> Inl RateLimitExceeded \<and> r \<noteq> Inl BudgetExceeded \<longrightarrow> r = Inr p)
    \<and> cumulative_cost_usd e' = cumulative_cost_usd e
    \<and> pending_projected_usd e' = pending_projected_usd e +
        (if r = Inr p \<and> max_cost_usd e \<noteq> None then max 0 p else 0)"
proof -
  note [simp] = popleft_while_sorted [OF assms(1)]
  show ?thesis
    using assms(2) by (cases "calls_per_minute e"; cases "max_cost_usd e")
      (auto simp: check_local_def Let_def max_def split: if_splits)
qed

theorem check_local_decides_witness:
  "fst (check_local 100 1 \<lparr>max_cost_usd = Some 2, calls_per_minute = Some 2, window_seconds = 60,
      cumulative_cost_usd = 0, pending_projected_usd = 0, call_timestamps = [30, 50, 90]\<rparr>)
    = Inl RateLimitExceeded"
proof -
  let ?e = "\<lparr>max_cost_usd = Some (2::rat), calls_per_minute = Some 2, window_seconds = 60,
      cumulative_cost_usd = 0, pending_projected_usd = 0, call_timestamps = [30, 50, 90]\<rparr>"
  obtain r e' where re: "check_local 100 1 ?e = (r, e')" by (cases "check_local 100 1 ?e")
  from check_local_decides [OF _ re] have "r = Inl RateLimitExceeded" by simp
  with re show ?thesis by simp
qed

text \<open>The sliding window. A caller that is admitted under a rate limit \<open>k\<close> and then
  records its call leaves at most \<open>k\<close> calls inside the window, and the recorded times stay in
  order when the clock does not go backwards.\<close>
theorem rate_limit_window:
  assumes "sorted (call_timestamps e)" and "\<forall>t\<in>set (call_timestamps e). t \<le> now"
    and "check_local now p e = (Inr h, e')" and "calls_per_minute e = Some k"
    and "record_call now' c enf h e' = (r, e'')" and "now \<le> now'"
  shows "int (length (call_timestamps e'')) \<le> k \<and> sorted (call_timestamps e'')
    \<and> (\<forall>t\<in>set (call_timestamps e''). t \<le> now')"
proof -
  have win: "call_timestamps e' = popleft_while (now - window_seconds e) (call_timestamps e)"
    "int (length (call_timestamps e')) < k"
    using assms(3,4) by (auto simp: check_local_def Let_def split: if_splits option.splits)
  have srt: "sorted (call_timestamps e')" and sub: "set (call_timestamps e') \<subseteq> set (call_timestamps e)"
    using assms(1) by (auto simp: win(1) popleft_while_sorted sorted_wrt_filter)
  have "call_timestamps e'' = popleft_while (now' - window_seconds e') (call_timestamps e') @ [now']"
    using assms(5) by (auto simp: record_call_def Let_def split: option.splits if_splits)
  then have e'': "call_timestamps e'' = filter (\<lambda>t. now' - window_seconds e' \<le> t) (call_timestamps e') @ [now']"
    by (simp add: popleft_while_sorted [OF srt])
  have "length (filter (\<lambda>t. now' - window_seconds e' \<le> t) (call_timestamps e')) \<le> length (call_timestamps e')"
    by (rule length_filter_le)
  moreover have "length (call_timestamps e'') =
      Suc (length (filter (\<lambda>t. now' - window_seconds e' \<le> t) (call_timestamps e')))"
    by (simp add: e'')
  ultimately have "int (length (call_timestamps e'')) \<le> k" using win(2) by linarith
  moreover have upto: "\<forall>t\<in>set (call_timestamps e''). t \<le> now'"
    using sub assms(2,6) by (auto simp: e'' intro: order_trans)
  moreover have "sorted (call_timestamps e'')"
    using srt upto by (auto simp: e'' sorted_append sorted_wrt_filter)
  ultimately show ?thesis by blast
qed

theorem rate_limit_window_witness:
  "\<exists>e'' :: enforcement. int (length (call_timestamps e'')) \<le> 1 \<and> call_timestamps e'' = [7]"
proof -
  let ?e = "enforcement_init None (Some 1) 60"
  have c: "check_local 5 0 ?e = (Inr 0, ?e)"
    by (simp add: check_local_def enforcement_init_def prune_locked_def Let_def)
  let ?e2 = "?e\<lparr>call_timestamps := [7], cumulative_cost_usd := 2\<rparr>"
  have r: "record_call 7 (Some 2) False 0 ?e = (Inr (), ?e2)"
    by (simp add: record_call_def enforcement_init_def prune_locked_def Let_def)
  have "int (length (call_timestamps ?e2)) \<le> 1"
    using rate_limit_window [OF _ _ c _ r, of 1] by (simp add: enforcement_init_def)
  then show ?thesis by (intro exI [of _ ?e2]) simp
qed

text \<open>Headroom agrees with admission. Under a cap and with no rate limit reached, a positive
  projection is admitted exactly when it is at most \<open>remaining_budget_usd\<close>, and afterwards the
  headroom is smaller by exactly the projection.\<close>
theorem remaining_budget_admits:
  assumes "max_cost_usd e = Some m" and "calls_per_minute e = None" and "0 < p"
  shows "((\<exists>e'. check_local now p e = (Inr p, e')) \<longleftrightarrow> p \<le> the (remaining_budget_usd e))
    \<and> (\<forall>e'. check_local now p e = (Inr p, e') \<longrightarrow>
          remaining_budget_usd e' = Some (the (remaining_budget_usd e) - p))"
proof -
  have "check_local now p e = (if m < cumulative_cost_usd e + pending_projected_usd e + p
      then (Inl BudgetExceeded, prune_locked now e)
      else (Inr p, (prune_locked now e)\<lparr>pending_projected_usd := pending_projected_usd e + p\<rparr>))"
    using assms by (simp add: check_local_def Let_def)
  then show ?thesis using assms by (auto simp: remaining_budget_usd_def max_def)
qed

theorem remaining_budget_admits_witness:
  "\<exists>e'. check_local 0 2 (enforcement_init (Some 3) None 60) = (Inr 2, e')"
  using remaining_budget_admits [of "enforcement_init (Some 3) None 60" 3 2 0]
  by (simp add: enforcement_init_def remaining_budget_usd_def)

end
