(* ===== verification/Decimal_Arith.thy ===== *)
theory Decimal_Arith
  imports Pyval
begin

text \<open>
  Python's \<open>decimal\<close> arithmetic in the default context: every operation is the exact result
  rounded half-even to 28 significant digits. Finite decimals are rationals; the constructor
  \<open>Decimal(text)\<close> is exact. The lemmas are the ones the price ceiling rests on: rounding is
  monotone on non-negative values and exact on values of at most 28 digits.
\<close>

section \<open>Half-even rounding to an integer\<close>

definition round_half_even :: "rat \<Rightarrow> int" where
  "round_half_even q =
     (let f = \<lfloor>q\<rfloor>; r = q - of_int f
      in if r < 1 / 2 then f else if 1 / 2 < r then f + 1 else if even f then f else f + 1)"

lemma round_half_even_of_int [simp]: "round_half_even (of_int i) = i"
  by (simp add: round_half_even_def)

lemma round_half_even_bounds:
  "2 * of_int (round_half_even q) \<le> 2 * q + 1" "2 * q - 1 \<le> 2 * of_int (round_half_even q)"
proof -
  show "2 * of_int (round_half_even q) \<le> 2 * q + 1"
    unfolding round_half_even_def Let_def by (auto; linarith)
  show "2 * q - 1 \<le> 2 * of_int (round_half_even q)"
    unfolding round_half_even_def Let_def by (auto; linarith)
qed

lemma round_half_even_floor: "\<lfloor>q\<rfloor> \<le> round_half_even q" "round_half_even q \<le> \<lfloor>q\<rfloor> + 1"
  by (auto simp: round_half_even_def Let_def)

lemma round_half_even_mono:
  assumes "p \<le> q" shows "round_half_even p \<le> round_half_even q"
proof (cases "\<lfloor>p\<rfloor> = \<lfloor>q\<rfloor>")
  case True
  with assms show ?thesis by (auto simp: round_half_even_def Let_def)
next
  case False
  with floor_mono [OF assms] have "\<lfloor>p\<rfloor> + 1 \<le> \<lfloor>q\<rfloor>" by simp
  then show ?thesis using round_half_even_floor(2) [of p] round_half_even_floor(1) [of q] by linarith
qed

lemma round_half_even_eqI:
  assumes "\<bar>q - of_int k\<bar> < 1 / 2" shows "round_half_even q = k"
proof -
  have "(of_int (2 * round_half_even q) :: rat) < of_int (2 * k + 2)"
    "(of_int (2 * k - 2) :: rat) < of_int (2 * round_half_even q)"
    using assms round_half_even_bounds [of q] unfolding of_int_add of_int_mult of_int_diff of_int_numeral
    by linarith+
  then show ?thesis by (simp only: of_int_less_iff)
qed

lemma round_half_even_nonneg: "0 \<le> q \<Longrightarrow> 0 \<le> round_half_even q"
  using round_half_even_mono [of 0 q] round_half_even_of_int [of 0] by simp

section \<open>Decimal exponents\<close>

function ndigits :: "int \<Rightarrow> nat" where
  "ndigits n = (if n < 10 then 1 else Suc (ndigits (n div 10)))"
  by pat_completeness auto
termination
  by (relation "measure nat") auto

declare ndigits.simps [simp del]

lemma ndigits_pos: "0 < ndigits n"
  by (subst ndigits.simps) simp

lemma ndigits_upper: "n < 10 ^ ndigits n"
proof (induction n rule: ndigits.induct)
  case (1 n)
  show ?case
  proof (cases "n < 10")
    case False
    then have "n div 10 < 10 ^ ndigits (n div 10)" using 1 by simp
    then have "n < 10 * 10 ^ ndigits (n div 10)" by linarith
    with False show ?thesis by (simp add: ndigits.simps [of n])
  qed (simp add: ndigits.simps [of n])
qed

lemma ndigits_lower: "0 < n \<Longrightarrow> 10 ^ (ndigits n - 1) \<le> n"
proof (induction n rule: ndigits.induct)
  case (1 n)
  show ?case
  proof (cases "n < 10")
    case False
    then have "10 ^ (ndigits (n div 10) - 1) \<le> n div 10" using 1 by simp
    then have "10 * 10 ^ (ndigits (n div 10) - 1) \<le> n" by linarith
    moreover have "10 * 10 ^ (ndigits (n div 10) - 1) = (10::int) ^ ndigits (n div 10)"
      using ndigits_pos [of "n div 10"] by (metis Suc_diff_1 power_Suc)
    ultimately show ?thesis using False by (simp add: ndigits.simps [of n])
  qed (use 1 in \<open>simp add: ndigits.simps [of n]\<close>)
qed

text \<open>\<open>Decimal.adjusted()\<close> of a positive value: the exponent of its leading digit.\<close>

definition adj_exp :: "rat \<Rightarrow> int" where
  "adj_exp q = (case quotient_of q of (a, b) \<Rightarrow>
     let e = int (ndigits a) - int (ndigits b)
     in if 10 powi e \<le> q then e else e - 1)"

lemma powi_10_pos [simp]: "(0::rat) < 10 powi e"
  by simp

lemma powi_10_nz [simp]: "(10::rat) powi e \<noteq> 0"
  by simp

lemma powi_10_add: "(10::rat) powi (a + b) = 10 powi a * 10 powi b"
  by (simp add: power_int_add)

lemma powi_10_le: "a \<le> b \<Longrightarrow> (10::rat) powi a \<le> 10 powi b"
  by (simp add: power_int_increasing)

lemma powi_10_less: "(10::rat) powi a < 10 powi b \<Longrightarrow> a < b"
  using powi_10_le [of b a] by linarith

lemma adj_exp_bounds:
  assumes "0 < q"
  shows "10 powi adj_exp q \<le> q" "q < 10 powi (adj_exp q + 1)"
proof -
  obtain a b where ab: "quotient_of q = (a, b)" by (cases "quotient_of q")
  have b: "0 < b" using quotient_of_denom_pos [OF ab] .
  have q: "q = of_int a / of_int b" using quotient_of_div [OF ab] .
  with assms b have a: "0 < a" by (simp add: zero_less_divide_iff)
  define m n where "m = ndigits a" and "n = ndigits b"
  have mn: "0 < m" "0 < n" by (simp_all add: m_def n_def ndigits_pos)
  have "a < 10 ^ m" "10 ^ (m - 1) \<le> a" "b < 10 ^ n" "10 ^ (n - 1) \<le> b"
    unfolding m_def n_def by (fact ndigits_upper, fact ndigits_lower [OF a], fact ndigits_upper, fact ndigits_lower [OF b])
  then have "(of_int a::rat) < of_int (10 ^ m)" "(of_int (10 ^ (m - 1))::rat) \<le> of_int a"
    "(of_int b::rat) < of_int (10 ^ n)" "(of_int (10 ^ (n - 1))::rat) \<le> of_int b"
    by (simp_all only: of_int_less_iff of_int_le_iff)
  then have bnds: "(of_int a::rat) < 10 powi int m" "10 powi (int m - 1) \<le> (of_int a::rat)"
    "(of_int b::rat) < 10 powi int n" "10 powi (int n - 1) \<le> (of_int b::rat)"
    using a b mn by (simp_all add: of_nat_diff power_int_def nat_diff_distrib)
  have "q * of_int b < 10 powi (int m - int n + 1) * of_int b"
  proof -
    have "q * of_int b < 10 powi int m" using bnds b by (simp add: q)
    also have "\<dots> = 10 powi (int m - int n + 1) * 10 powi (int n - 1)"
      by (simp flip: powi_10_add)
    also have "\<dots> \<le> 10 powi (int m - int n + 1) * of_int b"
      using bnds by (intro mult_left_mono) simp_all
    finally show ?thesis .
  qed
  then have up: "q < 10 powi (int m - int n + 1)"
    using b by (simp add: mult_less_cancel_right)
  have "10 powi (int m - int n - 1) * of_int b \<le> q * of_int b"
  proof -
    have "10 powi (int m - int n - 1) * (of_int b :: rat) \<le> 10 powi (int m - int n - 1) * 10 powi int n"
      using bnds by (intro mult_left_mono) simp_all
    also have "\<dots> = 10 powi (int m - int n - 1 + int n)" by (rule powi_10_add [symmetric])
    also have "\<dots> = 10 powi (int m - 1)" by simp
    also have "\<dots> \<le> q * of_int b" using bnds b by (simp add: q)
    finally show ?thesis .
  qed
  then have lo: "10 powi (int m - int n - 1) \<le> q"
    using b by (simp add: mult_le_cancel_right)
  show "10 powi adj_exp q \<le> q" "q < 10 powi (adj_exp q + 1)"
    using up lo by (auto simp: adj_exp_def ab Let_def m_def n_def)
qed

section \<open>Rounding to the context precision\<close>

definition dec_round :: "rat \<Rightarrow> rat" where
  "dec_round q = (if q = 0 then 0
     else let u = 10 powi (adj_exp \<bar>q\<bar> - 27) in of_int (round_half_even (q / u)) * u)"

definition d_add :: "rat \<Rightarrow> rat \<Rightarrow> rat" where "d_add a b = dec_round (a + b)"
definition d_mul :: "rat \<Rightarrow> rat \<Rightarrow> rat" where "d_mul a b = dec_round (a * b)"
definition d_div :: "rat \<Rightarrow> rat \<Rightarrow> rat" where "d_div a b = dec_round (a / b)"

lemma dec_round_0 [simp]: "dec_round 0 = 0"
  by (simp add: dec_round_def)

lemma dec_round_nonneg: "0 \<le> q \<Longrightarrow> 0 \<le> dec_round q"
  by (simp add: dec_round_def Let_def round_half_even_nonneg)

lemma dec_round_in_decade:
  assumes "0 < q"
  shows "10 powi adj_exp q \<le> dec_round q" "dec_round q \<le> 10 powi (adj_exp q + 1)"
proof -
  let ?u = "10 powi (adj_exp q - 27) :: rat"
  have lo: "of_int (10 ^ 27) \<le> q / ?u"
  proof -
    have "10 powi (27 + (adj_exp q - 27)) \<le> q"
      using adj_exp_bounds(1) [OF assms] by (simp add: add.commute)
    then show ?thesis unfolding powi_10_add [of 27] by (simp add: pos_le_divide_eq)
  qed
  have hi: "q / ?u \<le> of_int (10 ^ 28)"
  proof -
    have "q \<le> 10 powi (28 + (adj_exp q - 27))"
      using adj_exp_bounds(2) [OF assms] by (simp add: add.commute)
    then show ?thesis unfolding powi_10_add [of 28] by (simp add: pos_divide_le_eq)
  qed
  have "10 ^ 27 \<le> round_half_even (q / ?u)" "round_half_even (q / ?u) \<le> 10 ^ 28"
    using round_half_even_mono [OF lo] round_half_even_mono [OF hi]
    by (simp_all only: round_half_even_of_int)
  then have r: "(of_int (10 ^ 27) :: rat) \<le> of_int (round_half_even (q / ?u))"
    "(of_int (round_half_even (q / ?u)) :: rat) \<le> of_int (10 ^ 28)"
    by (simp_all only: of_int_le_iff)
  have d: "dec_round q = of_int (round_half_even (q / ?u)) * ?u"
    using assms by (simp add: dec_round_def Let_def)
  have "(10::rat) powi adj_exp q = of_int (10 ^ 27) * ?u"
    using powi_10_add [of 27 "adj_exp q - 27"] by simp
  also have "\<dots> \<le> dec_round q" unfolding d using r(1) by (intro mult_right_mono) simp_all
  finally show "10 powi adj_exp q \<le> dec_round q" .
  have "dec_round q \<le> of_int (10 ^ 28) * ?u" unfolding d using r(2) by (intro mult_right_mono) simp_all
  also have "\<dots> = 10 powi (adj_exp q + 1)" using powi_10_add [of 28 "adj_exp q - 27"] by (simp add: add.commute)
  finally show "dec_round q \<le> 10 powi (adj_exp q + 1)" .
qed

lemma adj_exp_mono: "0 < p \<Longrightarrow> p \<le> q \<Longrightarrow> adj_exp p \<le> adj_exp q"
  using adj_exp_bounds [of p] adj_exp_bounds [of q] powi_10_less [of "adj_exp p" "adj_exp q + 1"]
  by linarith

theorem dec_round_mono:
  assumes "0 \<le> p" "p \<le> q" shows "dec_round p \<le> dec_round q"
proof (cases "p = 0")
  case True
  with assms show ?thesis by (simp add: dec_round_nonneg)
next
  case False
  with assms have p: "0 < p" and q: "0 < q" by simp_all
  have le: "adj_exp p \<le> adj_exp q" using p assms(2) by (rule adj_exp_mono)
  show ?thesis
  proof (cases "adj_exp p = adj_exp q")
    case True
    let ?u = "10 powi (adj_exp q - 27) :: rat"
    have "round_half_even (p / ?u) \<le> round_half_even (q / ?u)"
      using assms(2) by (intro round_half_even_mono divide_right_mono) simp_all
    then show ?thesis using p q True by (simp add: dec_round_def Let_def)
  next
    case False
    with le have "(10::rat) powi (adj_exp p + 1) \<le> 10 powi adj_exp q" by (intro powi_10_le) simp
    then show ?thesis using dec_round_in_decade [OF p] dec_round_in_decade [OF q] by linarith
  qed
qed

text \<open>Values of at most 28 significant digits are not changed.\<close>

definition dec_repr :: "rat \<Rightarrow> bool" where
  "dec_repr q \<longleftrightarrow> (\<exists>k m. q = of_int k * 10 powi m \<and> \<bar>k\<bar> < 10 ^ 28)"

lemma dec_reprI: "q = of_int k * 10 powi m \<Longrightarrow> \<bar>k\<bar> < 10 ^ 28 \<Longrightarrow> dec_repr q"
  unfolding dec_repr_def by blast

theorem dec_round_exact:
  assumes "dec_repr q" shows "dec_round q = q"
proof (cases "q = 0")
  case False
  from assms obtain k m where q: "q = of_int k * 10 powi m" and k: "\<bar>k\<bar> < 10 ^ 28"
    unfolding dec_repr_def by blast
  from False q have pos: "0 < \<bar>q\<bar>" by simp
  have "(of_int \<bar>k\<bar> :: rat) < of_int (10 ^ 28)" using k by (simp only: of_int_less_iff)
  then have "\<bar>q\<bar> < of_int (10 ^ 28) * 10 powi m"
    unfolding q by (simp add: abs_mult)
  also have "\<dots> = 10 powi (28 + m)" unfolding powi_10_add [of 28] by simp
  finally have "10 powi adj_exp \<bar>q\<bar> < (10::rat) powi (28 + m)"
    using adj_exp_bounds(1) [OF pos] by linarith
  then have "adj_exp \<bar>q\<bar> < 28 + m" by (rule powi_10_less)
  then obtain j where j: "m - (adj_exp \<bar>q\<bar> - 27) = int j"
    by (intro that [of "nat (m - (adj_exp \<bar>q\<bar> - 27))"]) simp
  let ?u = "10 powi (adj_exp \<bar>q\<bar> - 27) :: rat"
  have "m = int j + (adj_exp \<bar>q\<bar> - 27)" using j by simp
  then have "(10::rat) powi m = 10 powi int j * ?u" by (metis powi_10_add)
  moreover have "q / ?u = of_int k * (10 powi m / ?u)" using q by (metis times_divide_eq_right)
  ultimately have "q / ?u = of_int (k * 10 ^ j)" by simp
  then have "of_int (round_half_even (q / ?u)) = q / ?u" by (metis round_half_even_of_int)
  then show ?thesis using False by (simp add: dec_round_def Let_def)
qed simp

text \<open>A rounded value is representable, so rounding is idempotent.\<close>

lemma dec_repr_dec_round: "0 \<le> q \<Longrightarrow> dec_repr (dec_round q)"
proof (cases "q = 0")
  case False
  assume "0 \<le> q"
  with False have q: "0 < q" by simp
  let ?u = "10 powi (adj_exp q - 27) :: rat" and ?k = "round_half_even (q / (10 powi (adj_exp q - 27)))"
  have d: "dec_round q = of_int ?k * ?u" using q by (simp add: dec_round_def Let_def)
  have "0 \<le> ?k" using q by (intro round_half_even_nonneg) simp
  have "of_int ?k * ?u \<le> of_int (10 ^ 28) * ?u"
    using dec_round_in_decade(2) [OF q] powi_10_add [of 28 "adj_exp q - 27"] unfolding d
    by (simp add: add.commute)
  then have "(of_int ?k :: rat) \<le> of_int (10 ^ 28)" by (simp only: mult_le_cancel_right_pos powi_10_pos)
  then have "?k \<le> 10 ^ 28" by (simp only: of_int_le_iff)
  then consider "?k < 10 ^ 28" | "?k = 10 ^ 28" by linarith
  then show ?thesis
  proof cases
    case 1
    with \<open>0 \<le> ?k\<close> d show ?thesis by (intro dec_reprI [OF d]) simp
  next
    case 2
    with d have "dec_round q = of_int 1 * 10 powi (28 + (adj_exp q - 27))"
      unfolding powi_10_add [of 28] by simp
    then show ?thesis by (rule dec_reprI) simp
  qed
qed (auto intro: dec_reprI [of _ 0 0])

lemma dec_round_idem [simp]: "0 \<le> q \<Longrightarrow> dec_round (dec_round q) = dec_round q"
  by (intro dec_round_exact dec_repr_dec_round)

lemma adj_expI:
  assumes "10 powi e \<le> q" "q < 10 powi (e + 1)" shows "adj_exp q = e"
proof -
  have "0 < q" using assms(1) powi_10_pos [of e] by linarith
  note adj_exp_bounds [OF this]
  then have "(10::rat) powi adj_exp q < 10 powi (e + 1)" "(10::rat) powi e < 10 powi (adj_exp q + 1)"
    using assms by linarith+
  from this [THEN powi_10_less] show ?thesis by linarith
qed

text \<open>Evaluation at a concrete value, given its exponent.\<close>

lemma dec_round_eval:
  assumes "10 powi e \<le> q" "q < 10 powi (e + 1)"
    and "round_half_even (q / 10 powi (e - 27)) = k"
  shows "dec_round q = of_int k * 10 powi (e - 27)"
proof -
  have "0 < q" using assms(1) powi_10_pos [of e] by linarith
  with adj_expI [OF assms(1,2)] assms(3) show ?thesis by (simp add: dec_round_def Let_def)
qed

text \<open>Sums and products of values on a power-of-ten grid stay exact while they fit 28 digits.\<close>

definition on_grid :: "nat \<Rightarrow> rat \<Rightarrow> bool" where
  "on_grid d q \<longleftrightarrow> q * 10 ^ d \<in> \<int>"

lemma on_grid_dec_repr:
  assumes "on_grid d q" "\<bar>q\<bar> * 10 ^ d < 10 ^ 28" shows "dec_repr q"
proof -
  from assms(1) obtain k where k: "q * 10 ^ d = of_int k" by (auto simp: on_grid_def elim: Ints_cases)
  have "of_int \<bar>k\<bar> = \<bar>q * 10 ^ d\<bar>" by (simp add: k)
  also have "\<dots> = \<bar>q\<bar> * 10 ^ d" by (simp add: abs_mult)
  also have "\<dots> < of_int (10 ^ 28)" using assms(2) by simp
  finally have "\<bar>k\<bar> < 10 ^ 28" by (simp only: of_int_less_iff)
  moreover have "q = of_int k * 10 powi (- int d)"
    by (simp add: power_int_minus divide_inverse flip: k)
  ultimately show ?thesis by (rule dec_reprI [rotated])
qed

lemma on_grid_intros [intro, simp]:
  "on_grid d (of_int i)" "on_grid d 0" "on_grid d 1" "on_grid d (of_nat n)" "on_grid d (numeral w)"
  by (simp_all add: on_grid_def)

lemma on_grid_add [intro]: "on_grid d a \<Longrightarrow> on_grid d b \<Longrightarrow> on_grid d (a + b)"
  by (simp add: on_grid_def distrib_right)

lemma on_grid_mult_int [intro]: "on_grid d a \<Longrightarrow> on_grid d (of_int i * a)"
  by (simp add: on_grid_def mult.assoc)

lemma on_grid_div: "on_grid d a \<Longrightarrow> on_grid (d + j) (a / 10 ^ j)"
  by (simp add: on_grid_def power_add)

lemma on_grid_mono:
  assumes "on_grid d a" "d \<le> e" shows "on_grid e a"
proof -
  have "a * 10 ^ e = (a * 10 ^ d) * 10 ^ (e - d)"
    using assms(2) by (simp add: mult.assoc flip: power_add)
  moreover have "(a * 10 ^ d) * 10 ^ (e - d) \<in> \<int>"
    using assms(1) unfolding on_grid_def by (rule Ints_mult) simp
  ultimately show ?thesis by (simp only: on_grid_def)
qed

lemma dec_round_grid:
  "on_grid d q \<Longrightarrow> \<bar>q\<bar> * 10 ^ d < 10 ^ 28 \<Longrightarrow> dec_round q = q"
  by (intro dec_round_exact on_grid_dec_repr)

lemma dec_round_grid_bound:
  assumes "on_grid d q" "0 \<le> q" "q \<le> b" "b * 10 ^ d < 10 ^ 28" shows "dec_round q = q"
proof -
  have "q * 10 ^ d \<le> b * 10 ^ d" using assms(3) by (intro mult_right_mono) simp_all
  then have "q * 10 ^ d < 10 ^ 28" by (rule le_less_trans [OF _ assms(4)])
  with assms(1,2) show ?thesis by (intro dec_round_grid [of d]) (simp_all only: abs_of_nonneg)
qed

text \<open>\<open>Decimal.sqrt\<close>: the square root rounded half-even to 28 digits, by an integer square root.\<close>

function isqrt :: "int \<Rightarrow> int" where
  "isqrt n = (if n \<le> 0 then 0 else let r = 2 * isqrt (n div 4) in if (r + 1) * (r + 1) \<le> n then r + 1 else r)"
  by pat_completeness auto
termination
  by (relation "measure nat") auto

declare isqrt.simps [simp del]

definition d_sqrt :: "rat \<Rightarrow> rat" where
  "d_sqrt q = (if q \<le> 0 then 0
     else let k = 27 - adj_exp q div 2; n = q * 10 powi (2 * k); f = isqrt \<lfloor>n\<rfloor>;
              mid = (of_int f + 1 / 2) * (of_int f + 1 / 2);
              r = (if n < mid then f else if mid < n then f + 1 else if even f then f else f + 1)
          in of_int r * 10 powi (- k))"

section \<open>The constructor \<open>Decimal(text)\<close>\<close>

datatype dec = DFin rat | DInf | DNaN

definition dec_finite :: "dec \<Rightarrow> bool" where
  "dec_finite d \<longleftrightarrow> (case d of DFin _ \<Rightarrow> True | _ \<Rightarrow> False)"

definition digits_nat :: "string \<Rightarrow> nat" where
  "digits_nat s = foldl (\<lambda>n c. n * 10 + (char_code c - 48)) 0 s"

definition dec_exponent :: "string \<Rightarrow> int option" where
  "dec_exponent s = (case s of
       [] \<Rightarrow> Some 0
     | c # r \<Rightarrow>
         if c \<noteq> CHR ''e'' then None
         else let neg = (r \<noteq> [] \<and> hd r = CHR ''-'');
                  ds = (if r \<noteq> [] \<and> (hd r = CHR ''-'' \<or> hd r = CHR ''+'') then tl r else r)
              in if ds = [] \<or> \<not> list_all is_digit ds then None
                 else Some (if neg then - int (digits_nat ds) else int (digits_nat ds)))"

definition dec_number :: "string \<Rightarrow> rat option" where
  "dec_number s = (let ip = takeWhile is_digit s; r = dropWhile is_digit s;
       (fp, r') = (case r of [] \<Rightarrow> ([], r)
         | c # t \<Rightarrow> if c = CHR ''.'' then (takeWhile is_digit t, dropWhile is_digit t) else ([], r))
     in if ip = [] \<and> fp = [] then None
        else map_option (\<lambda>e. of_nat (digits_nat (ip @ fp)) * 10 powi (e - int (length fp)))
               (dec_exponent r'))"

definition parse_dec :: "string \<Rightarrow> dec option" where
  "parse_dec text = (let t = py_lower (filter (\<lambda>c. c \<noteq> CHR ''_'') (py_strip text));
       neg = (t \<noteq> [] \<and> hd t = CHR ''-'');
       b = (if t \<noteq> [] \<and> (hd t = CHR ''-'' \<or> hd t = CHR ''+'') then tl t else t)
     in if b = ''inf'' \<or> b = ''infinity'' then Some DInf
        else if starts_with b ''nan'' \<and> list_all is_digit (drop 3 b) \<or>
                starts_with b ''snan'' \<and> list_all is_digit (drop 4 b) then Some DNaN
        else map_option (\<lambda>q. DFin (if neg then - q else q)) (dec_number b))"

text \<open>\<open>amount.quantize(Decimal("0.000000001"), rounding=ROUND_HALF_EVEN)\<close>: more than 28 digits
  of coefficient raise \<open>InvalidOperation\<close>.\<close>

definition quantize_nanos :: "rat \<Rightarrow> rat res" where
  "quantize_nanos q = (let k = round_half_even (q * 10 ^ 9)
     in if ndigits \<bar>k\<bar> > 28 then Inl InvalidOperation else Inr (of_int k / 10 ^ 9))"

end
