(* ===== verification/Instants.thy ===== *)
theory Instants
  imports Pyval
begin

text \<open>
  \<open>parse_instant\<close> of kazenai/price_catalog.py with the part of \<open>datetime.fromisoformat\<close> it
  uses: \<open>YYYY-MM-DD\<close>, one separator character, \<open>HH[:MM[:SS[.fff[fff]]]]\<close> and a UTC offset
  \<open>+HH:MM[:SS]\<close>. An instant is its number of seconds since 1970-01-01 UTC.
\<close>

text \<open>Day number of a date of the proleptic Gregorian calendar.\<close>

definition days_from_civil :: "int \<Rightarrow> int \<Rightarrow> int \<Rightarrow> int" where
  "days_from_civil y m d =
     (let y' = (if m \<le> 2 then y - 1 else y);
          era = y' div 400; yoe = y' mod 400;
          doy = (153 * ((m + 9) mod 12) + 2) div 5 + d - 1;
          doe = yoe * 365 + yoe div 4 - yoe div 100 + doy
      in era * 146097 + doe - 719468)"

definition days_in_month :: "int \<Rightarrow> int \<Rightarrow> int" where
  "days_in_month y m =
     (if m = 2 then (if y mod 4 = 0 \<and> (y mod 100 \<noteq> 0 \<or> y mod 400 = 0) then 29 else 28)
      else if m = 4 \<or> m = 6 \<or> m = 9 \<or> m = 11 then 30 else 31)"

definition fixed_digits :: "nat \<Rightarrow> string \<Rightarrow> (int \<times> string) option" where
  "fixed_digits n s =
     (if n \<le> length s \<and> list_all is_digit (take n s)
      then map_option (\<lambda>k. (int k, drop n s)) (digits_val 0 False (take n s)) else None)"

definition expect :: "char \<Rightarrow> string \<Rightarrow> string option" where
  "expect c s = (case s of [] \<Rightarrow> None | d # r \<Rightarrow> if d = c then Some r else None)"

definition iso_date :: "string \<Rightarrow> ((int \<times> int \<times> int) \<times> string) option" where
  "iso_date s = Option.bind (fixed_digits 4 s) (\<lambda>(y, s1). Option.bind (expect CHR ''-'' s1) (\<lambda>s2.
     Option.bind (fixed_digits 2 s2) (\<lambda>(m, s3). Option.bind (expect CHR ''-'' s3) (\<lambda>s4.
     Option.bind (fixed_digits 2 s4) (\<lambda>(d, s5).
       if 1 \<le> y \<and> 1 \<le> m \<and> m \<le> 12 \<and> 1 \<le> d \<and> d \<le> days_in_month y m then Some ((y, m, d), s5) else None)))))"

text \<open>\<open>HH[:MM[:SS[.fff[fff]]]]\<close> in seconds, with the rest of the text.\<close>

definition iso_frac :: "string \<Rightarrow> (rat \<times> string) option" where
  "iso_frac s = (case expect CHR ''.'' s of None \<Rightarrow> Some (0, s)
     | Some r \<Rightarrow> (case fixed_digits 6 r of Some (k, r') \<Rightarrow> Some (of_int k / 1000000, r')
                 | None \<Rightarrow> map_option (\<lambda>(k, r'). (of_int k / 1000, r')) (fixed_digits 3 r)))"

definition iso_hms :: "string \<Rightarrow> (rat \<times> string) option" where
  "iso_hms s = Option.bind (fixed_digits 2 s) (\<lambda>(h, s1).
     if h > 23 then None else
     (case expect CHR '':'' s1 of None \<Rightarrow> Some (of_int (h * 3600), s1)
      | Some s2 \<Rightarrow> Option.bind (fixed_digits 2 s2) (\<lambda>(m, s3).
         if m > 59 then None else
         (case expect CHR '':'' s3 of None \<Rightarrow> Some (of_int (h * 3600 + m * 60), s3)
          | Some s4 \<Rightarrow> Option.bind (fixed_digits 2 s4) (\<lambda>(sec, s5).
              if sec > 59 then None
              else map_option (\<lambda>(f, r). (of_int (h * 3600 + m * 60 + sec) + f, r)) (iso_frac s5))))))"

definition iso_offset :: "string \<Rightarrow> rat option option" where
  "iso_offset s = (case s of [] \<Rightarrow> Some None
     | c # r \<Rightarrow>
         if c = CHR ''+'' \<or> c = CHR ''-'' then
           (case iso_hms r of
              Some (q, []) \<Rightarrow> if length r \<ge> 5 then Some (Some (if c = CHR ''-'' then - q else q)) else None
            | _ \<Rightarrow> None)
         else None)"

text \<open>\<open>Some (t, None)\<close> is a datetime without offset.\<close>

definition fromisoformat :: "string \<Rightarrow> (rat \<times> rat option) option" where
  "fromisoformat s = Option.bind (iso_date s) (\<lambda>((y, m, d), r).
     let day = of_int (days_from_civil y m d * 86400) in
     case r of [] \<Rightarrow> Some (day, None)
     | _ # r1 \<Rightarrow> Option.bind (iso_hms r1) (\<lambda>(t, r2).
         map_option (\<lambda>off. (day + t, off)) (iso_offset r2)))"

text \<open>\<open>text.replace("Z", "+00:00")\<close>.\<close>

definition replace_Z :: "string \<Rightarrow> string" where
  "replace_Z s = concat (map (\<lambda>c. if c = CHR ''Z'' then ''+00:00'' else [c]) s)"

definition parse_instant :: "string option \<Rightarrow> rat option res" where
  "parse_instant value = (case value of None \<Rightarrow> Inr None
     | Some v \<Rightarrow>
         if py_strip v = [] then Inr None
         else (case fromisoformat (replace_Z (py_strip v)) of
                 None \<Rightarrow> Inl PricingConfigError
               | Some (t, None) \<Rightarrow> Inl PricingConfigError
               | Some (t, Some off) \<Rightarrow> Inr (Some (t - off))))"

lemma parse_instant_None [simp]: "parse_instant None = Inr None"
  by (simp add: parse_instant_def)

end
