(* ===== verification/Rates.thy ===== *)
theory Rates
  imports Decimal_Arith Instants
begin

text \<open>
  The money core of kazenai/price_catalog.py: the one rule from a decimal amount to integer
  micro-dollars, rate vectors, catalog rows priced at an instant, and the cost of a call's token
  components.
\<close>

section \<open>Amounts\<close>

definition decimal_to_micro_usd :: "dec \<Rightarrow> int res" where
  "decimal_to_micro_usd amount =
     (case amount of
        DFin q \<Rightarrow>
          if q < 0 then Inl PricingConfigError
          else bnd (quantize_nanos q) (\<lambda>nanos. Inr \<lceil>d_mul nanos 1000000\<rceil>)
      | _ \<Rightarrow> Inl PricingConfigError)"

definition micro_usd_to_decimal :: "int \<Rightarrow> rat" where
  "micro_usd_to_decimal micros = d_div (of_int micros) 1000000"

text \<open>\<open>_d\<close>: a rate literal; \<open>Decimal\<close> itself raises on malformed text.\<close>

definition d_rate :: "string option \<Rightarrow> rat option res" where
  "d_rate value = (case value of None \<Rightarrow> Inr None
     | Some t \<Rightarrow> (case parse_dec t of None \<Rightarrow> Inl InvalidOperation
         | Some (DFin q) \<Rightarrow> if q < 0 then Inl PricingConfigError else Inr (Some q)
         | Some _ \<Rightarrow> Inl PricingConfigError))"

section \<open>Rate vectors\<close>

record rate_vector =
  r_input :: rat
  r_cached_input :: "rat option"
  r_cache_write_5m :: "rat option"
  r_cache_write_1h :: "rat option"
  r_output :: rat
  r_image :: "rat option"
  r_tool_per_call :: "rat option"
  r_audio_input :: "rat option"
  r_audio_cached_input :: "rat option"

definition scaled :: "rat \<Rightarrow> rate_vector \<Rightarrow> rate_vector" where
  "scaled multiplier r =
     (if multiplier = 1 then r
      else \<lparr>r_input = d_mul (r_input r) multiplier,
            r_cached_input = map_option (\<lambda>v. d_mul v multiplier) (r_cached_input r),
            r_cache_write_5m = map_option (\<lambda>v. d_mul v multiplier) (r_cache_write_5m r),
            r_cache_write_1h = map_option (\<lambda>v. d_mul v multiplier) (r_cache_write_1h r),
            r_output = d_mul (r_output r) multiplier,
            r_image = map_option (\<lambda>v. d_mul v multiplier) (r_image r),
            r_tool_per_call = map_option (\<lambda>v. d_mul v multiplier) (r_tool_per_call r),
            r_audio_input = map_option (\<lambda>v. d_mul v multiplier) (r_audio_input r),
            r_audio_cached_input = map_option (\<lambda>v. d_mul v multiplier) (r_audio_cached_input r)\<rparr>)"

text \<open>\<open>_rates\<close>. The input and output literals are never \<open>None\<close> at its call sites.\<close>

definition rates ::
  "string \<Rightarrow> string option \<Rightarrow> string option \<Rightarrow> string option \<Rightarrow> string \<Rightarrow> string option
   \<Rightarrow> string option \<Rightarrow> string option \<Rightarrow> string option \<Rightarrow> rate_vector res" where
  "rates inp cached write_5m write_1h out img tool audio audio_cached =
     bnd (d_rate (Some inp)) (\<lambda>i. bnd (d_rate cached) (\<lambda>c. bnd (d_rate write_5m) (\<lambda>w5.
     bnd (d_rate write_1h) (\<lambda>w1. bnd (d_rate (Some out)) (\<lambda>ou. bnd (d_rate img) (\<lambda>im.
     bnd (d_rate tool) (\<lambda>tl. bnd (d_rate audio) (\<lambda>au. bnd (d_rate audio_cached) (\<lambda>ac.
       Inr \<lparr>r_input = the i, r_cached_input = c, r_cache_write_5m = w5, r_cache_write_1h = w1,
            r_output = the ou, r_image = im, r_tool_per_call = tl, r_audio_input = au,
            r_audio_cached_input = ac\<rparr>)))))))))"

section \<open>Catalog rows\<close>

record catalog_row =
  provider :: string
  model :: string
  request_tier :: string
  context_band :: string
  expected_reported_tier :: string
  row_rates :: rate_vector
  certified :: bool
  source_url :: string
  verified_on :: string
  long_context_threshold :: "int option"
  pricing_rule :: string
  label :: string
  catalog_version :: string
  scheduled :: "(string \<times> rate_vector) list"
  valid_until :: "string option"

type_synonym catalog_key = "string \<times> string \<times> string \<times> string"

definition row_key :: "catalog_row \<Rightarrow> catalog_key" where
  "row_key r = (provider r, model r, request_tier r, context_band r)"

text \<open>\<open>CatalogRow.at\<close>. The loop runs over the schedule sorted by its instants.\<close>

fun apply_scheduled :: "rat \<Rightarrow> (rat option \<times> rate_vector) list \<Rightarrow> rate_vector \<Rightarrow> rate_vector" where
  "apply_scheduled now [] r = r"
| "apply_scheduled now ((starts, sr) # xs) r =
     apply_scheduled now xs (case starts of None \<Rightarrow> r | Some t \<Rightarrow> if t \<le> now then sr else r)"

definition row_at :: "rat \<Rightarrow> catalog_row \<Rightarrow> catalog_row res" where
  "row_at now row =
     (if scheduled row = [] \<and> valid_until row = None then Inr row
      else bnd (map_res (\<lambda>(from, sr). bnd (parse_instant (Some from)) (\<lambda>t. Inr (t, sr))) (scheduled row)) (\<lambda>sch.
        let sorted_sch = sort_key (\<lambda>(t, sr). case t of None \<Rightarrow> now | Some x \<Rightarrow> x) sch;
            new_rates = apply_scheduled now sorted_sch (row_rates row)
        in bnd (parse_instant (valid_until row)) (\<lambda>ends.
             Inr (row\<lparr>row_rates := new_rates,
                      certified := certified row \<and>
                        (case ends of None \<Rightarrow> True | Some t \<Rightarrow> \<not> t \<le> now)\<rparr>))))"

section \<open>Cost of token components\<close>

record tokens =
  t_input :: int
  t_cached_input :: int
  t_cache_write_5m :: int
  t_cache_write_1h :: int
  t_output :: int
  t_image :: int
  t_tool_calls :: int
  t_audio_input :: int
  t_audio_cached_input :: int

definition no_tokens :: tokens where
  "no_tokens = \<lparr>t_input = 0, t_cached_input = 0, t_cache_write_5m = 0, t_cache_write_1h = 0,
     t_output = 0, t_image = 0, t_tool_calls = 0, t_audio_input = 0, t_audio_cached_input = 0\<rparr>"

definition effective_component :: "rat option \<Rightarrow> rat \<Rightarrow> rat" where
  "effective_component rate input_rate = (case rate of None \<Rightarrow> input_rate | Some q \<Rightarrow> q)"

text \<open>\<open>Decimal(n) * rate\<close> for a token count \<open>n\<close>, clamped at zero as in the source.\<close>

definition times :: "int \<Rightarrow> rat \<Rightarrow> rat" where
  "times n rate = d_mul (of_int (max 0 n)) rate"

definition component_cost :: "rate_vector \<Rightarrow> tokens \<Rightarrow> rat" where
  "component_cost r t =
     (let image_rate = effective_component (r_image r) (r_input r);
          tool_rate = (case r_tool_per_call r of None \<Rightarrow> 0 | Some q \<Rightarrow> q);
          total = d_div
            (d_add (d_add (d_add (d_add (d_add
               (times (t_input t) (r_input r))
               (times (t_cached_input t) (effective_component (r_cached_input r) (r_input r))))
               (times (t_cache_write_5m t) (effective_component (r_cache_write_5m r) (r_input r))))
               (times (t_cache_write_1h t) (effective_component (r_cache_write_1h r) (r_input r))))
               (times (t_output t) (r_output r)))
               (times (t_image t) image_rate)) 1000000;
          total = d_add total (times (t_tool_calls t) tool_rate)
      in if max 0 (t_audio_input t) \<noteq> 0 \<or> max 0 (t_audio_cached_input t) \<noteq> 0 then
           let audio_rate = effective_component (r_audio_input r) (r_input r);
               audio_cached_rate = (case r_audio_cached_input r of Some q \<Rightarrow> q
                  | None \<Rightarrow> if r_audio_input r = None
                            then effective_component (r_cached_input r) (r_input r) else audio_rate)
           in d_add total (d_div (d_add (times (t_audio_input t) audio_rate)
                                        (times (t_audio_cached_input t) audio_cached_rate)) 1000000)
         else total)"

definition cost_micro_usd :: "rate_vector \<Rightarrow> tokens \<Rightarrow> int res" where
  "cost_micro_usd r t = decimal_to_micro_usd (DFin (component_cost r t))"

section \<open>Lemmas on amounts\<close>

lemma quantize_nanos_Inr:
  assumes "quantize_nanos q = Inr n"
  shows "\<exists>k. n = of_int k / 10 ^ 9 \<and> k = round_half_even (q * 10 ^ 9) \<and> \<bar>k\<bar> < 10 ^ 28"
proof -
  let ?k = "round_half_even (q * 10 ^ 9)"
  from assms have le: "ndigits \<bar>?k\<bar> \<le> 28" and n: "n = of_int ?k / 10 ^ 9"
    by (auto simp: quantize_nanos_def Let_def split: if_splits)
  have "\<bar>?k\<bar> < 10 ^ ndigits \<bar>?k\<bar>" by (rule ndigits_upper)
  also have "\<dots> \<le> 10 ^ 28" using le by (intro power_increasing) simp_all
  finally have "\<bar>?k\<bar> < 10 ^ 28" .
  with n show ?thesis by blast
qed

lemma micros_of_nanos:
  assumes "\<bar>k\<bar> < 10 ^ 28" shows "\<lceil>d_mul (of_int k / 10 ^ 9) 1000000\<rceil> = \<lceil>(of_int k :: rat) / 1000\<rceil>"
proof -
  have e: "(of_int k :: rat) / 10 ^ 9 * 1000000 = of_int k / 1000" by simp
  have "dec_repr (of_int k / 1000)"
    using assms by (intro dec_reprI [of _ k "- 3"]) (simp_all add: power_int_def power_divide)
  then have "dec_round (of_int k / 1000) = of_int k / 1000" by (rule dec_round_exact)
  then show ?thesis unfolding d_mul_def e by (rule arg_cong)
qed

lemma decimal_to_micro_usd_Inr:
  assumes "decimal_to_micro_usd (DFin q) = Inr m"
  shows "0 \<le> q" "m = \<lceil>(of_int (round_half_even (q * 10 ^ 9)) :: rat) / 1000\<rceil>"
proof -
  from assms obtain n where q: "0 \<le> q" and n: "quantize_nanos q = Inr n" "m = \<lceil>d_mul n 1000000\<rceil>"
    by (auto simp: decimal_to_micro_usd_def bnd_eq_Inr split: if_splits)
  from q show "0 \<le> q" .
  from quantize_nanos_Inr [OF n(1)] n(2)
  show "m = \<lceil>(of_int (round_half_even (q * 10 ^ 9)) :: rat) / 1000\<rceil>"
    using micros_of_nanos by blast
qed

lemma decimal_to_micro_usd_small:
  assumes "0 \<le> q" "q < 10 ^ 18"
  shows "decimal_to_micro_usd (DFin q) = Inr \<lceil>(of_int (round_half_even (q * 10 ^ 9)) :: rat) / 1000\<rceil>"
proof -
  let ?k = "round_half_even (q * 10 ^ 9)"
  have "0 \<le> ?k" using assms by (intro round_half_even_nonneg) simp
  have "?k \<le> 10 ^ 27"
    using round_half_even_mono [of "q * 10 ^ 9" "of_int (10 ^ 27)"] assms
    unfolding round_half_even_of_int by simp
  have "ndigits ?k \<le> 28"
  proof (rule ccontr)
    assume big: "\<not> ndigits ?k \<le> 28"
    then have "0 < ?k" using ndigits.simps [of ?k] by (cases "0 < ?k") auto
    have "(10::int) ^ 28 \<le> 10 ^ (ndigits ?k - 1)" using big by (intro power_increasing) simp_all
    also have "\<dots> \<le> ?k" using \<open>0 < ?k\<close> by (rule ndigits_lower)
    finally show False using \<open>?k \<le> 10 ^ 27\<close> by simp
  qed
  then have "quantize_nanos q = Inr (of_int ?k / 10 ^ 9)"
    using \<open>0 \<le> ?k\<close> by (simp add: quantize_nanos_def Let_def)
  with micros_of_nanos [of ?k] \<open>0 \<le> ?k\<close> \<open>?k \<le> 10 ^ 27\<close> assms(1) show ?thesis
    by (simp add: decimal_to_micro_usd_def)
qed

lemma micros_back:
  assumes "0 \<le> m" "m < 10 ^ 24"
  shows "decimal_to_micro_usd (DFin (of_int m / 1000000)) = Inr m"
proof -
  have "(of_int m :: rat) < of_int (10 ^ 24)" using assms(2) by (simp only: of_int_less_iff)
  then have lt: "of_int m / 1000000 < (10::rat) ^ 18" by simp
  have r: "round_half_even (of_int m / 1000000 * 10 ^ 9) = m * 1000"
    by (rule round_half_even_eqI) simp
  show ?thesis using decimal_to_micro_usd_small [OF _ lt] assms(1) unfolding r by simp
qed

lemma micros_mono:
  "p \<le> q \<Longrightarrow> \<lceil>(of_int (round_half_even (p * 10 ^ 9)) :: rat) / 1000\<rceil>
     \<le> \<lceil>(of_int (round_half_even (q * 10 ^ 9)) :: rat) / 1000\<rceil>"
  by (intro ceiling_mono divide_right_mono) (simp_all add: round_half_even_mono)

section \<open>Lemmas on component costs\<close>

definition rates_nonneg :: "rate_vector \<Rightarrow> bool" where
  "rates_nonneg r \<longleftrightarrow> 0 \<le> r_input r \<and> 0 \<le> r_output r \<and>
     (\<forall>x \<in> {r_cached_input r, r_cache_write_5m r, r_cache_write_1h r, r_image r, r_tool_per_call r,
            r_audio_input r, r_audio_cached_input r}. case x of None \<Rightarrow> True | Some q \<Rightarrow> 0 \<le> q)"

definition tokens_le :: "tokens \<Rightarrow> tokens \<Rightarrow> bool" where
  "tokens_le s t \<longleftrightarrow> t_input s \<le> t_input t \<and> t_cached_input s \<le> t_cached_input t \<and>
     t_cache_write_5m s \<le> t_cache_write_5m t \<and> t_cache_write_1h s \<le> t_cache_write_1h t \<and>
     t_output s \<le> t_output t \<and> t_image s \<le> t_image t \<and> t_tool_calls s \<le> t_tool_calls t \<and>
     t_audio_input s \<le> t_audio_input t \<and> t_audio_cached_input s \<le> t_audio_cached_input t"

named_theorems money_mono \<open>monotonicity of the rounded operations on non-negative amounts\<close>

lemma effective_nonneg [simp]:
  "(case x of None \<Rightarrow> True | Some q \<Rightarrow> 0 \<le> q) \<Longrightarrow> 0 \<le> i \<Longrightarrow> 0 \<le> effective_component x i"
  by (simp add: effective_component_def split: option.splits)

lemma times_nonneg [simp]: "0 \<le> r \<Longrightarrow> 0 \<le> times n r"
  by (simp add: times_def d_mul_def dec_round_nonneg)

lemma d_add_nonneg [simp]: "0 \<le> a \<Longrightarrow> 0 \<le> b \<Longrightarrow> 0 \<le> d_add a b"
  by (simp add: d_add_def dec_round_nonneg)

lemma d_div_nonneg [simp]: "0 \<le> a \<Longrightarrow> 0 \<le> b \<Longrightarrow> 0 \<le> d_div a b"
  by (simp add: d_div_def dec_round_nonneg)

lemma times_mono [money_mono]: "0 \<le> r \<Longrightarrow> m \<le> n \<Longrightarrow> times m r \<le> times n r"
  unfolding times_def d_mul_def by (intro dec_round_mono mult_right_mono) simp_all

lemma d_add_mono [money_mono]: "0 \<le> a \<Longrightarrow> 0 \<le> b \<Longrightarrow> a \<le> a' \<Longrightarrow> b \<le> b' \<Longrightarrow> d_add a b \<le> d_add a' b'"
  unfolding d_add_def by (intro dec_round_mono) simp_all

lemma d_div_mono [money_mono]: "0 \<le> a \<Longrightarrow> 0 < c \<Longrightarrow> a \<le> a' \<Longrightarrow> d_div a c \<le> d_div a' c"
  unfolding d_div_def by (intro dec_round_mono divide_right_mono) simp_all

lemma times_0 [simp]: "n \<le> 0 \<Longrightarrow> times n r = 0"
  by (simp add: times_def d_mul_def)

lemma d_add_0 [simp]: "0 \<le> a \<Longrightarrow> 0 \<le> b \<Longrightarrow> d_add (d_add a b) 0 = d_add a b"
  by (simp add: d_add_def)

section \<open>The reference cost, without rounding\<close>

definition plain_cost :: "rate_vector \<Rightarrow> tokens \<Rightarrow> rat" where
  "plain_cost r t =
     (of_int (max 0 (t_input t)) * r_input r
      + of_int (max 0 (t_cached_input t)) * effective_component (r_cached_input r) (r_input r)
      + of_int (max 0 (t_cache_write_5m t)) * effective_component (r_cache_write_5m r) (r_input r)
      + of_int (max 0 (t_cache_write_1h t)) * effective_component (r_cache_write_1h r) (r_input r)
      + of_int (max 0 (t_output t)) * r_output r
      + of_int (max 0 (t_image t)) * effective_component (r_image r) (r_input r)) / 1000000
     + of_int (max 0 (t_tool_calls t)) * (case r_tool_per_call r of None \<Rightarrow> 0 | Some q \<Rightarrow> q)
     + (of_int (max 0 (t_audio_input t)) * effective_component (r_audio_input r) (r_input r)
        + of_int (max 0 (t_audio_cached_input t)) *
            (case r_audio_cached_input r of Some q \<Rightarrow> q
             | None \<Rightarrow> if r_audio_input r = None then effective_component (r_cached_input r) (r_input r)
                       else effective_component (r_audio_input r) (r_input r))) / 1000000"

text \<open>A rate of at most nine decimals below a million dollars, and realistic token counts.\<close>

definition fine_rate :: "rat \<Rightarrow> bool" where
  "fine_rate q \<longleftrightarrow> 0 \<le> q \<and> q \<le> 1000000 \<and> on_grid 9 q"

definition fine_rate_opt :: "rat option \<Rightarrow> bool" where
  "fine_rate_opt x = (case x of None \<Rightarrow> True | Some q \<Rightarrow> fine_rate q)"

definition fine_rates :: "rate_vector \<Rightarrow> bool" where
  "fine_rates r \<longleftrightarrow> fine_rate (r_input r) \<and> fine_rate_opt (r_cached_input r) \<and>
     fine_rate_opt (r_cache_write_5m r) \<and> fine_rate_opt (r_cache_write_1h r) \<and> fine_rate (r_output r) \<and>
     fine_rate_opt (r_image r) \<and> fine_rate_opt (r_tool_per_call r) \<and> fine_rate_opt (r_audio_input r) \<and>
     fine_rate_opt (r_audio_cached_input r)"

definition small_tokens :: "tokens \<Rightarrow> bool" where
  "small_tokens t \<longleftrightarrow> (\<forall>n \<in> {t_input t, t_cached_input t, t_cache_write_5m t, t_cache_write_1h t,
      t_output t, t_image t, t_audio_input t, t_audio_cached_input t}. n \<le> 1000000000)
    \<and> t_tool_calls t \<le> 1000000"

lemma fine_effective: "fine_rate_opt x \<Longrightarrow> fine_rate i \<Longrightarrow> fine_rate (effective_component x i)"
  by (simp add: fine_rate_opt_def effective_component_def split: option.splits)

lemma fine_opt_case:
  "fine_rate_opt x \<Longrightarrow> fine_rate d \<Longrightarrow> fine_rate (case x of None \<Rightarrow> d | Some q \<Rightarrow> q)"
  by (simp add: fine_rate_opt_def split: option.splits)

lemma fine_rate_0 [simp]: "fine_rate 0"
  by (simp add: fine_rate_def)

lemma fine_product:
  assumes "fine_rate r" "n \<le> b" "0 \<le> b"
  shows "0 \<le> of_int (max 0 n) * r" "of_int (max 0 n) * r \<le> of_int b * 1000000"
    "on_grid 9 (of_int (max 0 n) * r)"
proof -
  from assms(1) have r: "0 \<le> r" "r \<le> 1000000" "on_grid 9 r" by (simp_all add: fine_rate_def)
  then show "0 \<le> of_int (max 0 n) * r" "on_grid 9 (of_int (max 0 n) * r)"
    by (simp, blast intro: on_grid_mult_int)
  have "(of_int (max 0 n) :: rat) \<le> of_int b" unfolding of_int_le_iff using assms(2,3) by simp
  then show "of_int (max 0 n) * r \<le> of_int b * 1000000"
    using r by (intro mult_mono) simp_all
qed

lemma times_exact:
  assumes "fine_rate r" "n \<le> 1000000000" shows "times n r = of_int (max 0 n) * r"
  unfolding times_def d_mul_def
  by (rule dec_round_grid_bound [of 9 _ 1000000000000000]) (use fine_product [OF assms] in simp_all)

text \<open>Partial sums of token products: on the nano grid and below \<open>10 ^ 16\<close>.\<close>

definition small_sum :: "nat \<Rightarrow> rat \<Rightarrow> bool" where
  "small_sum j q \<longleftrightarrow> 0 \<le> q \<and> q \<le> of_nat j * 1000000000000000 \<and> on_grid 9 q"

lemma small_sum_product: "fine_rate r \<Longrightarrow> n \<le> 1000000000 \<Longrightarrow> small_sum 1 (of_int (max 0 n) * r)"
  using fine_product [of r n 1000000000] by (simp add: small_sum_def)

lemma small_sum_add: "small_sum i a \<Longrightarrow> small_sum j b \<Longrightarrow> small_sum (i + j) (a + b)"
  by (auto simp: small_sum_def algebra_simps)

lemma d_add_exact: "small_sum j (a + b) \<Longrightarrow> j \<le> 8 \<Longrightarrow> d_add a b = a + b"
proof -
  assume s: "small_sum j (a + b)" and "j \<le> 8"
  then have "(of_nat j :: rat) \<le> of_nat 8" by (simp only: of_nat_le_iff)
  with s have "a + b \<le> 8000000000000000" "0 \<le> a + b" "on_grid 9 (a + b)"
    unfolding small_sum_def by auto
  then show ?thesis unfolding d_add_def by (intro dec_round_grid_bound [of 9 _ 8000000000000000]) simp_all
qed

lemma small_sum_div:
  assumes "small_sum j q" "j \<le> 8"
  shows "d_div q 1000000 = q / 1000000" "0 \<le> q / 1000000" "q / 1000000 \<le> 8000000000"
    "on_grid 15 (q / 1000000)"
proof -
  have "(of_nat j :: rat) \<le> of_nat 8" using assms(2) by (simp only: of_nat_le_iff)
  with assms(1) have q: "0 \<le> q" "q \<le> 8000000000000000" "on_grid 9 q" by (auto simp: small_sum_def)
  then show "0 \<le> q / 1000000" "q / 1000000 \<le> 8000000000" by simp_all
  show g: "on_grid 15 (q / 1000000)" using on_grid_div [OF q(3), of 6] by simp
  show "d_div q 1000000 = q / 1000000"
    unfolding d_div_def using q g by (intro dec_round_grid_bound [of 15 _ 8000000000]) simp_all
qed

lemma d_add_exact15:
  "on_grid 15 a \<Longrightarrow> on_grid 15 b \<Longrightarrow> 0 \<le> a \<Longrightarrow> 0 \<le> b \<Longrightarrow> a + b \<le> 2000000000000 \<Longrightarrow> d_add a b = a + b"
  unfolding d_add_def by (rule dec_round_grid_bound [of 15 _ 2000000000000]) auto

lemma six_sum_exact:
  assumes "small_sum 1 a" "small_sum 1 b" "small_sum 1 c" "small_sum 1 d" "small_sum 1 e" "small_sum 1 f"
  shows "d_div (d_add (d_add (d_add (d_add (d_add a b) c) d) e) f) 1000000 = (a + b + c + d + e + f) / 1000000"
    "0 \<le> (a + b + c + d + e + f) / 1000000" "(a + b + c + d + e + f) / 1000000 \<le> 8000000000"
    "on_grid 15 ((a + b + c + d + e + f) / 1000000)"
proof -
  note s2 = small_sum_add [OF assms(1,2)]
  note s3 = small_sum_add [OF s2 assms(3)]
  note s4 = small_sum_add [OF s3 assms(4)]
  note s5 = small_sum_add [OF s4 assms(5)]
  note s6 = small_sum_add [OF s5 assms(6)]
  have "d_add (d_add (d_add (d_add (d_add a b) c) d) e) f = a + b + c + d + e + f"
    by (simp add: d_add_exact [OF s2] d_add_exact [OF s3] d_add_exact [OF s4] d_add_exact [OF s5] d_add_exact [OF s6])
  with small_sum_div [OF s6] show
    "d_div (d_add (d_add (d_add (d_add (d_add a b) c) d) e) f) 1000000 = (a + b + c + d + e + f) / 1000000"
    "0 \<le> (a + b + c + d + e + f) / 1000000" "(a + b + c + d + e + f) / 1000000 \<le> 8000000000"
    "on_grid 15 ((a + b + c + d + e + f) / 1000000)"
    by simp_all
qed

lemma two_sum_exact:
  assumes "small_sum 1 a" "small_sum 1 b"
  shows "d_div (d_add a b) 1000000 = (a + b) / 1000000"
    "0 \<le> (a + b) / 1000000" "(a + b) / 1000000 \<le> 8000000000" "on_grid 15 ((a + b) / 1000000)"
  using small_sum_div [OF small_sum_add [OF assms]] d_add_exact [OF small_sum_add [OF assms]] by simp_all

lemma component_cost_exact:
  assumes r: "fine_rates r" and t: "small_tokens t"
  shows "component_cost r t = plain_cost r t"
proof -
  define ca where "ca = (case r_audio_cached_input r of Some q \<Rightarrow> q
      | None \<Rightarrow> if r_audio_input r = None then effective_component (r_cached_input r) (r_input r)
                else effective_component (r_audio_input r) (r_input r))"
  define tool where "tool = (case r_tool_per_call r of None \<Rightarrow> 0 | Some q \<Rightarrow> q)"
  have fi: "fine_rate (r_input r)" "fine_rate (r_output r)" "fine_rate_opt (r_cached_input r)"
    "fine_rate_opt (r_cache_write_5m r)" "fine_rate_opt (r_cache_write_1h r)" "fine_rate_opt (r_image r)"
    "fine_rate_opt (r_tool_per_call r)" "fine_rate_opt (r_audio_input r)"
    "fine_rate_opt (r_audio_cached_input r)"
    using r unfolding fine_rates_def by blast+
  have ca: "fine_rate ca"
    unfolding ca_def by (rule fine_opt_case [OF fi(9)]) (simp add: fine_effective fi)
  have tl: "fine_rate tool" unfolding tool_def by (rule fine_opt_case [OF fi(7) fine_rate_0])
  note fr = fi(1,2) fine_effective [OF fi(3,1)] fine_effective [OF fi(4,1)] fine_effective [OF fi(5,1)]
    fine_effective [OF fi(6,1)] fine_effective [OF fi(8,1)] ca tl
  have tk: "t_input t \<le> 1000000000" "t_cached_input t \<le> 1000000000" "t_cache_write_5m t \<le> 1000000000"
    "t_cache_write_1h t \<le> 1000000000" "t_output t \<le> 1000000000" "t_image t \<le> 1000000000"
    "t_audio_input t \<le> 1000000000" "t_audio_cached_input t \<le> 1000000000" "t_tool_calls t \<le> 1000000000"
    "t_tool_calls t \<le> 1000000"
    using t by (simp_all add: small_tokens_def)
  note te = times_exact [OF fr(1) tk(1)] times_exact [OF fr(3) tk(2)] times_exact [OF fr(4) tk(3)]
    times_exact [OF fr(5) tk(4)] times_exact [OF fr(2) tk(5)] times_exact [OF fr(6) tk(6)]
    times_exact [OF fr(7) tk(7)] times_exact [OF fr(8) tk(8)] times_exact [OF fr(9) tk(9)]
  note main = six_sum_exact [OF small_sum_product [OF fr(1) tk(1)] small_sum_product [OF fr(3) tk(2)]
    small_sum_product [OF fr(4) tk(3)] small_sum_product [OF fr(5) tk(4)]
    small_sum_product [OF fr(2) tk(5)] small_sum_product [OF fr(6) tk(6)]]
  note aud = two_sum_exact [OF small_sum_product [OF fr(7) tk(7)] small_sum_product [OF fr(8) tk(8)]]
  have "0 \<le> (1000000 :: int)" by simp
  note tc = fine_product [OF fr(9) tk(10) this]
  have g: "on_grid 15 (of_int (max 0 (t_tool_calls t)) * tool)" using on_grid_mono [OF tc(3)] by simp
  have tot: "d_add x y = x + y" "d_add (x + y) z = x + y + z"
    if "0 \<le> x" "x \<le> 8000000000" "on_grid 15 x" "0 \<le> y" "y \<le> of_int 1000000 * 1000000" "on_grid 15 y"
      "0 \<le> z" "z \<le> 8000000000" "on_grid 15 z" for x y z :: rat
    using that by (auto intro!: d_add_exact15 intro: on_grid_add)
  note tt = tot [OF main(2-4) tc(1,2) g aud(2-4)]
  have "component_cost r t =
      (if max 0 (t_audio_input t) \<noteq> 0 \<or> max 0 (t_audio_cached_input t) \<noteq> 0 then plain_cost r t
       else plain_cost r t - (of_int (max 0 (t_audio_input t)) * effective_component (r_audio_input r) (r_input r)
          + of_int (max 0 (t_audio_cached_input t)) * ca) / 1000000)"
    unfolding component_cost_def plain_cost_def Let_def ca_def [symmetric] tool_def [symmetric]
      te main(1) aud(1) tt by (simp only: add_diff_cancel_right')
  then show ?thesis by (auto split: if_splits)
qed

section \<open>Properties\<close>

text \<open>Rounding to micro-dollars never loses more than half a nano-dollar and never adds a whole
  micro-dollar beyond it, and larger amounts never round to fewer micro-dollars. Negative and
  non-finite amounts are refused with \<open>PricingConfigError\<close>.\<close>
theorem micro_usd_rounding:
  "(\<forall>q m. decimal_to_micro_usd (DFin q) = Inr m \<longrightarrow>
       0 \<le> m \<and> q * 1000000 - 1 / 2000 \<le> of_int m \<and> of_int m < q * 1000000 + 1 + 1 / 2000)
   \<and> (\<forall>p q a b. decimal_to_micro_usd (DFin p) = Inr a \<and> decimal_to_micro_usd (DFin q) = Inr b \<and> p \<le> q
       \<longrightarrow> a \<le> b)
   \<and> (\<forall>q<0. decimal_to_micro_usd (DFin q) = Inl PricingConfigError)
   \<and> decimal_to_micro_usd DInf = Inl PricingConfigError
   \<and> decimal_to_micro_usd DNaN = Inl PricingConfigError"
proof (intro conjI allI impI)
  fix q m assume eq: "decimal_to_micro_usd (DFin q) = Inr m"
  note d = decimal_to_micro_usd_Inr [OF eq]
  let ?k = "round_half_even (q * 10 ^ 9)"
  have "0 \<le> ?k" using d(1) by (intro round_half_even_nonneg) simp
  have c: "(of_int ?k :: rat) / 1000 \<le> of_int m" "of_int m < (of_int ?k :: rat) / 1000 + 1"
    unfolding d(2) by linarith+
  have k: "2 * of_int ?k \<le> 2 * (q * 10 ^ 9) + 1" "2 * (q * 10 ^ 9) - 1 \<le> 2 * of_int ?k"
    by (rule round_half_even_bounds)+
  have "(0::rat) \<le> of_int ?k / 1000" using \<open>0 \<le> ?k\<close> by simp
  then show "0 \<le> m" unfolding d(2) by (simp add: zero_le_ceiling)
  show "q * 1000000 - 1 / 2000 \<le> of_int m" using c(1) k(2) by simp
  show "of_int m < q * 1000000 + 1 + 1 / 2000" using c(2) k(1) by simp
next
  fix p q a b
  assume "decimal_to_micro_usd (DFin p) = Inr a \<and> decimal_to_micro_usd (DFin q) = Inr b \<and> p \<le> q"
  then show "a \<le> b" using decimal_to_micro_usd_Inr(2) [of p a] decimal_to_micro_usd_Inr(2) [of q b]
    micros_mono [of p q] by simp
qed (simp_all add: decimal_to_micro_usd_def)

theorem micro_usd_rounding_witness:
  "decimal_to_micro_usd (DFin (1 / 3)) = Inr 333334 \<and> (0::int) \<le> 333334"
proof -
  have "round_half_even (1 / 3 * 10 ^ 9) = 333333333" by (rule round_half_even_eqI) simp
  moreover have "\<lceil>333333333 / 1000 :: rat\<rceil> = 333334" by (rule ceiling_unique) simp_all
  ultimately have e: "decimal_to_micro_usd (DFin (1 / 3)) = Inr 333334"
    using decimal_to_micro_usd_small [of "1 / 3"] by simp
  with micro_usd_rounding show ?thesis by blast
qed

text \<open>Micro-dollar integers survive the trip through \<open>Decimal\<close>: converting to dollars is
  exact, and converting back gives the same integer.\<close>
theorem micro_usd_roundtrip:
  assumes "0 \<le> m" and "m < 10 ^ 24"
  shows "micro_usd_to_decimal m = of_int m / 1000000
    \<and> decimal_to_micro_usd (DFin (micro_usd_to_decimal m)) = Inr m"
proof -
  have "dec_repr (of_int m / 1000000)"
    using assms by (intro dec_reprI [of _ m "- 6"]) (simp_all add: power_int_def power_divide)
  then have e: "micro_usd_to_decimal m = of_int m / 1000000"
    by (simp add: micro_usd_to_decimal_def d_div_def dec_round_exact)
  from micros_back [OF assms] show ?thesis by (simp only: e simp_thms)
qed

theorem micro_usd_roundtrip_witness:
  "decimal_to_micro_usd (DFin (micro_usd_to_decimal 1250001)) = Inr 1250001"
  using micro_usd_roundtrip [of 1250001] by simp

text \<open>C32: the optimised reading of the price formula. For rates of at most nine decimals and
  realistic token counts no intermediate \<open>Decimal\<close> operation rounds: the computed cost is the
  plain sum of token products.\<close>

theorem component_cost_is_plain_sum:
  assumes "fine_rates r" and "small_tokens t"
  shows "component_cost r t = plain_cost r t"
  using assms by (rule component_cost_exact)

definition gpt_4o_rates :: rate_vector where
  "gpt_4o_rates = \<lparr>r_input = 5 / 2, r_cached_input = Some (5 / 4), r_cache_write_5m = None,
     r_cache_write_1h = None, r_output = 10, r_image = None, r_tool_per_call = None,
     r_audio_input = None, r_audio_cached_input = None\<rparr>"

lemma fine_gpt_4o: "fine_rates gpt_4o_rates"
  by (simp add: fine_rates_def fine_rate_def fine_rate_opt_def gpt_4o_rates_def on_grid_def)

theorem component_cost_is_plain_sum_witness:
  "component_cost gpt_4o_rates (no_tokens\<lparr>t_input := 1000, t_output := 200\<rparr>) = 45 / 10000"
  using component_cost_is_plain_sum [OF fine_gpt_4o, of "no_tokens\<lparr>t_input := 1000, t_output := 200\<rparr>"]
  by (simp add: small_tokens_def no_tokens_def plain_cost_def gpt_4o_rates_def effective_component_def)

lemma component_cost_mono:
  assumes r: "rates_nonneg r" and le: "tokens_le s t"
  shows "component_cost r s \<le> component_cost r t" "0 \<le> component_cost r s"
proof -
  define ca where "ca = (case r_audio_cached_input r of Some q \<Rightarrow> q
      | None \<Rightarrow> if r_audio_input r = None then effective_component (r_cached_input r) (r_input r)
                else effective_component (r_audio_input r) (r_input r))"
  define tool where "tool = (case r_tool_per_call r of None \<Rightarrow> 0 | Some q \<Rightarrow> q)"
  have nn: "0 \<le> r_input r" "0 \<le> r_output r" "0 \<le> effective_component (r_cached_input r) (r_input r)"
    "0 \<le> effective_component (r_cache_write_5m r) (r_input r)"
    "0 \<le> effective_component (r_cache_write_1h r) (r_input r)"
    "0 \<le> effective_component (r_image r) (r_input r)" "0 \<le> effective_component (r_audio_input r) (r_input r)"
    "0 \<le> tool" "0 \<le> ca"
    using r by (auto simp: rates_nonneg_def tool_def ca_def effective_component_def split: option.splits)
  note leD = le [unfolded tokens_le_def]
  define base where "base = (\<lambda>t :: tokens. d_add (d_div (d_add (d_add (d_add (d_add (d_add
       (times (t_input t) (r_input r))
       (times (t_cached_input t) (effective_component (r_cached_input r) (r_input r))))
       (times (t_cache_write_5m t) (effective_component (r_cache_write_5m r) (r_input r))))
       (times (t_cache_write_1h t) (effective_component (r_cache_write_1h r) (r_input r))))
       (times (t_output t) (r_output r)))
       (times (t_image t) (effective_component (r_image r) (r_input r)))) 1000000)
       (times (t_tool_calls t) tool))"
  define audio where "audio = (\<lambda>t :: tokens. d_div (d_add
       (times (t_audio_input t) (effective_component (r_audio_input r) (r_input r)))
       (times (t_audio_cached_input t) ca)) 1000000)"
  have split: "component_cost r u = d_add (base u) (audio u)" for u
  proof (cases "max 0 (t_audio_input u) \<noteq> 0 \<or> max 0 (t_audio_cached_input u) \<noteq> 0")
    case True
    then show ?thesis
      by (simp add: component_cost_def Let_def base_def audio_def ca_def tool_def)
  next
    case False
    then have "t_audio_input u \<le> 0" "t_audio_cached_input u \<le> 0" by auto
    then have z: "audio u = 0" by (simp add: audio_def d_add_def d_div_def)
    from False have "component_cost r u = base u"
      by (simp add: component_cost_def Let_def base_def tool_def)
    then show ?thesis unfolding z using nn by (simp add: base_def)
  qed
  have "base s \<le> base t"
    unfolding base_def using nn leD by (intro money_mono) simp_all
  moreover have "audio s \<le> audio t"
    unfolding audio_def using nn leD by (intro money_mono) simp_all
  moreover have "0 \<le> base s" "0 \<le> audio s" using nn by (simp_all add: base_def audio_def)
  ultimately show "component_cost r s \<le> component_cost r t" "0 \<le> component_cost r s"
    unfolding split by (simp_all add: d_add_mono)
qed

text \<open>More tokens never cost less. With non-negative rates, whatever the size of the numbers
  and the rounding of the intermediate sums, raising any token count cannot lower the price.\<close>
theorem cost_micro_usd_mono:
  assumes "rates_nonneg r" and "tokens_le s t"
    and "cost_micro_usd r s = Inr a" and "cost_micro_usd r t = Inr b"
  shows "a \<le> b"
proof -
  have "component_cost r s \<le> component_cost r t" by (rule component_cost_mono [OF assms(1,2)])
  with micros_mono decimal_to_micro_usd_Inr(2) assms(3,4) show ?thesis
    unfolding cost_micro_usd_def by metis
qed

text \<open>Evaluation of a price at concrete, exactly representable amounts.\<close>

lemma cost_micro_usd_eval:
  assumes "fine_rates r" "small_tokens t" "plain_cost r t * 1000000 = of_int m" "0 \<le> m" "m < 10 ^ 24"
  shows "cost_micro_usd r t = Inr m"
proof -
  have e: "plain_cost r t = of_int m / 1000000" using assms(3) by simp
  have "decimal_to_micro_usd (DFin (of_int m / 1000000)) = Inr m"
    using micros_back [OF assms(4,5)] .
  then show ?thesis unfolding cost_micro_usd_def component_cost_exact [OF assms(1,2)] e .
qed

theorem cost_micro_usd_mono_witness:
  "(25::int) \<le> 50 \<and> cost_micro_usd gpt_4o_rates (no_tokens\<lparr>t_input := 10\<rparr>) = Inr 25
   \<and> cost_micro_usd gpt_4o_rates (no_tokens\<lparr>t_input := 20\<rparr>) = Inr 50"
proof -
  have a: "cost_micro_usd gpt_4o_rates (no_tokens\<lparr>t_input := 10\<rparr>) = Inr 25"
    and b: "cost_micro_usd gpt_4o_rates (no_tokens\<lparr>t_input := 20\<rparr>) = Inr 50"
    by (rule cost_micro_usd_eval [OF fine_gpt_4o];
        simp add: small_tokens_def no_tokens_def plain_cost_def gpt_4o_rates_def effective_component_def)+
  have "rates_nonneg gpt_4o_rates"
    by (simp add: rates_nonneg_def gpt_4o_rates_def)
  from cost_micro_usd_mono [OF this _ a b] show ?thesis using a b by simp
qed

end
