(* ===== verification/Price_Catalog.thy ===== *)
theory Price_Catalog
  imports Rates
begin

text \<open>
  The bundled price catalog of kazenai/price_catalog.py (its tables, row generators and key
  index), the lookups over it, the active bundle, and the token formulas for images and Anthropic
  tools. A decimal literal such as \<open>"12.50"\<close> is \<open>lit 1250 2\<close>.
\<close>

section \<open>Constants and tables\<close>

definition lit :: "int \<Rightarrow> nat \<Rightarrow> rat" where
  "lit n d = of_int n / 10 ^ d"

definition catalog_version_const :: string where "catalog_version_const = ''2026-10-17''"
definition verified_on_const :: string where "verified_on_const = ''2026-10-17''"
definition openai_source :: string where "openai_source = ''https://developers.openai.com/api/docs/pricing''"
definition anthropic_source :: string where
  "anthropic_source = ''https://platform.claude.com/docs/en/about-claude/pricing''"
definition google_source :: string where "google_source = ''https://ai.google.dev/gemini-api/docs/pricing''"
definition deepseek_source :: string where
  "deepseek_source = ''https://api-docs.deepseek.com/quick_start/pricing''"

definition anthropic_client_tool_versions_const :: "string list" where
  "anthropic_client_tool_versions_const =
     [''text_editor_20250728'', ''computer_toolset_20260801'', ''computer_20251124'',
      ''computer_20250124'', ''browser_toolset_20260801'']"

definition openai_long_threshold :: int where "openai_long_threshold = 272000"
definition anthropic_haiku_55_threshold :: int where "anthropic_haiku_55_threshold = 100000"
definition gemini_25_pro_threshold :: int where "gemini_25_pro_threshold = 200000"
definition gpt_56_sol_promo_valid_until :: string where
  "gpt_56_sol_promo_valid_until = ''2026-11-22T00:00:00Z''"
definition gemini_flash_2027_effective :: string where
  "gemini_flash_2027_effective = ''2026-12-31T00:00:00Z''"

definition lit_rates ::
  "rat \<Rightarrow> rat option \<Rightarrow> rat option \<Rightarrow> rat option \<Rightarrow> rat \<Rightarrow> rate_vector" where
  "lit_rates inp cached write_5m write_1h out =
     \<lparr>r_input = inp, r_cached_input = cached, r_cache_write_5m = write_5m, r_cache_write_1h = write_1h,
      r_output = out, r_image = None, r_tool_per_call = None, r_audio_input = None,
      r_audio_cached_input = None\<rparr>"

text \<open>\<open>_row\<close> with the defaults every builtin row uses.\<close>

definition builtin_row ::
  "string \<Rightarrow> string \<Rightarrow> string \<Rightarrow> string \<Rightarrow> string \<Rightarrow> rate_vector \<Rightarrow> string \<Rightarrow> int option \<Rightarrow> string
   \<Rightarrow> (string \<times> rate_vector) list \<Rightarrow> string option \<Rightarrow> catalog_row" where
  "builtin_row prov mdl tier band reported rts source threshold rule sched until =
     \<lparr>provider = prov, model = mdl, request_tier = tier, context_band = band,
      expected_reported_tier = reported, row_rates = rts, certified = True, source_url = source,
      verified_on = verified_on_const, long_context_threshold = threshold, pricing_rule = rule,
      label = ''catalog'', catalog_version = catalog_version_const, scheduled = sched,
      valid_until = until\<rparr>"

type_synonym openai_entry =
  "string \<times> rat \<times> rat option \<times> rat option \<times> rat \<times> rat option \<times> rat option \<times> rat option \<times> rat option"

definition openai_standard :: "openai_entry list" where
  "openai_standard = [
   (''gpt-6-astra'', lit 10 0, Some (lit 1 0), Some (lit 1250 2), lit 50 0, Some (lit 20 0), Some (lit 2 0), Some (lit 25 0), Some (lit 75 0)),
   (''gpt-6.1-sol'', lit 2 0, Some (lit 10 2), Some (lit 250 2), lit 10 0, Some (lit 4 0), Some (lit 20 2), Some (lit 5 0), Some (lit 15 0)),
   (''gpt-6-sol'', lit 2 0, Some (lit 20 2), Some (lit 250 2), lit 10 0, Some (lit 4 0), Some (lit 40 2), Some (lit 5 0), Some (lit 15 0)),
   (''gpt-6-luna'', lit 10 2, Some (lit 1 2), Some (lit 125 3), lit 50 2, Some (lit 20 2), Some (lit 2 2), Some (lit 25 2), Some (lit 75 2)),
   (''gpt-5.6-sol'', lit 4 0, Some (lit 40 2), Some (lit 5 0), lit 20 0, Some (lit 8 0), Some (lit 80 2), Some (lit 10 0), Some (lit 30 0)),
   (''gpt-5.6-terra'', lit 2 0, Some (lit 20 2), Some (lit 250 2), lit 12 0, Some (lit 4 0), Some (lit 40 2), Some (lit 5 0), Some (lit 18 0)),
   (''gpt-5.6-luna'', lit 20 2, Some (lit 2 2), Some (lit 25 2), lit 120 2, Some (lit 40 2), Some (lit 4 2), Some (lit 50 2), Some (lit 180 2)),
   (''gpt-5.5'', lit 5 0, Some (lit 50 2), None, lit 30 0, Some (lit 10 0), Some (lit 1 0), None, Some (lit 45 0)),
   (''gpt-5.5-pro'', lit 30 0, None, None, lit 180 0, Some (lit 60 0), None, None, Some (lit 270 0)),
   (''gpt-5.4'', lit 250 2, Some (lit 25 2), None, lit 15 0, Some (lit 5 0), Some (lit 50 2), None, Some (lit 2250 2)),
   (''gpt-5.4-mini'', lit 75 2, Some (lit 75 3), None, lit 450 2, None, None, None, None),
   (''gpt-5.4-nano'', lit 20 2, Some (lit 2 2), None, lit 125 2, None, None, None, None),
   (''gpt-5.4-pro'', lit 30 0, None, None, lit 180 0, Some (lit 60 0), None, None, Some (lit 270 0)),
   (''gpt-5.2'', lit 175 2, Some (lit 175 3), None, lit 14 0, None, None, None, None),
   (''gpt-5.2-pro'', lit 21 0, None, None, lit 168 0, None, None, None, None),
   (''gpt-5.1'', lit 125 2, Some (lit 125 3), None, lit 10 0, None, None, None, None),
   (''gpt-5'', lit 125 2, Some (lit 125 3), None, lit 10 0, None, None, None, None),
   (''gpt-5-mini'', lit 25 2, Some (lit 25 3), None, lit 2 0, None, None, None, None),
   (''gpt-5-nano'', lit 5 2, Some (lit 5 3), None, lit 40 2, None, None, None, None),
   (''gpt-5-pro'', lit 15 0, None, None, lit 120 0, None, None, None, None),
   (''gpt-4.1'', lit 2 0, Some (lit 50 2), None, lit 8 0, None, None, None, None),
   (''gpt-4.1-mini'', lit 40 2, Some (lit 10 2), None, lit 160 2, None, None, None, None),
   (''gpt-4.1-nano'', lit 10 2, Some (lit 25 3), None, lit 40 2, None, None, None, None),
   (''gpt-4o'', lit 250 2, Some (lit 125 2), None, lit 10 0, None, None, None, None),
   (''gpt-4o-2024-05-13'', lit 5 0, None, None, lit 15 0, None, None, None, None),
   (''gpt-4o-mini'', lit 15 2, Some (lit 75 3), None, lit 60 2, None, None, None, None),
   (''o1'', lit 15 0, Some (lit 750 2), None, lit 60 0, None, None, None, None),
   (''o1-pro'', lit 150 0, None, None, lit 600 0, None, None, None, None),
   (''o3'', lit 2 0, Some (lit 50 2), None, lit 8 0, None, None, None, None),
   (''o3-pro'', lit 20 0, None, None, lit 80 0, None, None, None, None),
   (''o3-mini'', lit 110 2, Some (lit 55 2), None, lit 440 2, None, None, None, None),
   (''o4-mini'', lit 110 2, Some (lit 275 3), None, lit 440 2, None, None, None, None)]"

definition anthropic_standard :: "(string \<times> rat \<times> rat \<times> rat \<times> rat \<times> rat) list" where
  "anthropic_standard = [
   (''claude-fable-5-1'', lit 10 0, lit 1250 2, lit 20 0, lit 25 2, lit 50 0),
   (''claude-fable-5'', lit 10 0, lit 1250 2, lit 20 0, lit 1 0, lit 50 0),
   (''claude-opus-5-5'', lit 4 0, lit 5 0, lit 8 0, lit 20 2, lit 20 0),
   (''claude-opus-5'', lit 5 0, lit 625 2, lit 10 0, lit 50 2, lit 25 0),
   (''claude-opus-4-8'', lit 5 0, lit 625 2, lit 10 0, lit 50 2, lit 25 0),
   (''claude-opus-4-7'', lit 5 0, lit 625 2, lit 10 0, lit 50 2, lit 25 0),
   (''claude-opus-4-6'', lit 5 0, lit 625 2, lit 10 0, lit 50 2, lit 25 0),
   (''claude-opus-4-5'', lit 5 0, lit 625 2, lit 10 0, lit 50 2, lit 25 0),
   (''claude-opus-4-1'', lit 15 0, lit 1875 2, lit 30 0, lit 150 2, lit 75 0),
   (''claude-sonnet-5-5'', lit 2 0, lit 250 2, lit 4 0, lit 10 2, lit 10 0),
   (''claude-sonnet-5'', lit 2 0, lit 250 2, lit 4 0, lit 20 2, lit 10 0),
   (''claude-sonnet-4-6'', lit 3 0, lit 375 2, lit 6 0, lit 30 2, lit 15 0),
   (''claude-sonnet-4-5'', lit 3 0, lit 375 2, lit 6 0, lit 30 2, lit 15 0),
   (''claude-haiku-4-5'', lit 1 0, lit 125 2, lit 2 0, lit 10 2, lit 5 0)]"

section \<open>The row generators\<close>

fun openai_entry_rows :: "openai_entry \<Rightarrow> catalog_row list" where
  "openai_entry_rows (mdl, inp, cached, write, out, lin, lc, lw, lo) =
     (let threshold = (if lin = None then None else Some openai_long_threshold);
          until = (if mdl = ''gpt-5.6-sol'' then Some gpt_56_sol_promo_valid_until else None);
          short = builtin_row ''openai'' mdl ''standard'' ''short'' ''default''
                    (lit_rates inp cached write None out) openai_source threshold
                    ''openai_standard_short'' [] until
      in case (lin, lo) of
           (Some li, Some lou) \<Rightarrow>
             [short, builtin_row ''openai'' mdl ''standard'' ''long'' ''default''
                (lit_rates li lc lw None lou) openai_source threshold ''openai_standard_long'' [] until]
         | _ \<Rightarrow> [short])"

definition openai_rows :: "catalog_row list" where
  "openai_rows = concat (map openai_entry_rows openai_standard) @
     [builtin_row ''openai'' ''gpt-4o'' ''priority'' ''short'' ''priority''
        (lit_rates (lit 425 2) (Some (lit 2125 3)) None None (lit 17 0)) openai_source None
        ''openai_fast_reported_priority'' [] None,
      builtin_row ''openai'' ''gpt-4o'' ''batch'' ''short'' ''batch''
        (lit_rates (lit 125 2) None None None (lit 5 0)) openai_source None ''openai_batch'' [] None,
      builtin_row ''openai'' ''gpt-4o-mini'' ''priority'' ''short'' ''priority''
        (lit_rates (lit 25 2) (Some (lit 125 3)) None None (lit 1 0)) openai_source None
        ''openai_fast_reported_priority'' [] None,
      builtin_row ''openai'' ''gpt-4o-mini'' ''batch'' ''short'' ''batch''
        (lit_rates (lit 75 3) None None None (lit 30 2)) openai_source None ''openai_batch'' [] None]"

definition anthropic_rows :: "catalog_row list" where
  "anthropic_rows =
     map (\<lambda>(mdl, inp, w5, w1, read, out).
        builtin_row ''anthropic'' mdl ''standard'' ''short'' ''standard''
          (lit_rates inp (Some read) (Some w5) (Some w1) out) anthropic_source None
          ''anthropic_standard'' [] None) anthropic_standard @
     [builtin_row ''anthropic'' ''claude-haiku-5-5'' ''standard'' ''short'' ''standard''
        (lit_rates (lit 10 2) (Some (lit 1 2)) (Some (lit 125 3)) (Some (lit 20 2)) (lit 50 2))
        anthropic_source (Some anthropic_haiku_55_threshold) ''anthropic_haiku_5_5_short'' [] None,
      builtin_row ''anthropic'' ''claude-haiku-5-5'' ''standard'' ''long'' ''standard''
        (lit_rates (lit 50 2) (Some (lit 5 2)) (Some (lit 625 3)) (Some (lit 1 0)) (lit 250 2))
        anthropic_source (Some anthropic_haiku_55_threshold) ''anthropic_haiku_5_5_long'' [] None] @
     map (\<lambda>(mdl, inp, w5, w1, read, out).
        builtin_row ''anthropic'' mdl ''batch'' ''short'' ''batch''
          (lit_rates inp (Some read) (Some w5) (Some w1) out) anthropic_source None
          ''anthropic_batch'' [] None)
       [(''claude-sonnet-4-6'', lit 150 2, lit 1875 3, lit 3 0, lit 15 2, lit 750 2),
        (''claude-haiku-4-5'', lit 50 2, lit 625 3, lit 1 0, lit 5 2, lit 250 2)]"

definition google_text :: "(string \<times> rat \<times> rat \<times> rat \<times> int option \<times> rat option \<times> rat option) list" where
  "google_text = [
   (''gemini-3.8-flash'', lit 75 2, lit 75 3, lit 375 2, None, None, None),
   (''gemini-3.6-flash'', lit 75 2, lit 75 3, lit 375 2, None, None, None),
   (''gemini-3.5-flash-lite'', lit 30 2, lit 3 2, lit 250 2, None, None, None),
   (''gemini-2.5-flash'', lit 30 2, lit 3 2, lit 250 2, None, Some (lit 100 2), Some (lit 10 2)),
   (''gemini-2.5-flash-lite'', lit 10 2, lit 1 2, lit 40 2, None, Some (lit 30 2), Some (lit 3 2)),
   (''gemini-2.5-pro'', lit 125 2, lit 125 3, lit 10 0, Some gemini_25_pro_threshold, None, None)]"

definition google_scheduled :: "string \<Rightarrow> (string \<times> rate_vector) list" where
  "google_scheduled mdl =
     (if mdl = ''gemini-3.8-flash'' \<or> mdl = ''gemini-3.6-flash''
      then [(gemini_flash_2027_effective, lit_rates (lit 150 2) (Some (lit 15 2)) None None (lit 750 2))]
      else [])"

definition google_rows :: "catalog_row list" where
  "google_rows =
     map (\<lambda>(mdl, inp, cached, out, threshold, audio, audio_cached).
        builtin_row ''google'' mdl ''standard'' ''short'' ''standard''
          ((lit_rates inp (Some cached) None None out)
             \<lparr>r_audio_input := audio, r_audio_cached_input := audio_cached\<rparr>)
          google_source threshold ''gemini_text_standard'' (google_scheduled mdl) None) google_text @
     [builtin_row ''google'' ''gemini-2.5-pro'' ''standard'' ''long'' ''standard''
        (lit_rates (lit 250 2) (Some (lit 25 2)) None None (lit 15 0)) google_source
        (Some gemini_25_pro_threshold) ''gemini_2_5_pro_long'' [] None]"

definition deepseek_rows :: "catalog_row list" where
  "deepseek_rows =
     map (\<lambda>(mdl, miss, hit, out).
        builtin_row ''deepseek'' mdl ''standard'' ''short'' ''standard''
          (lit_rates miss (Some hit) None None out) deepseek_source None ''deepseek_peak'' [] None)
       [(''deepseek-flash'', lit 30 2, lit 6 3, lit 120 2),
        (''deepseek-v4-pro'', lit 132 2, lit 44 3, lit 396 2)]"

type_synonym catalog = "(catalog_key \<times> catalog_row) list"

text \<open>\<open>_build_catalog\<close>: insert in order, raise on a key that is already there.\<close>

fun add_rows :: "catalog \<Rightarrow> catalog_row list \<Rightarrow> catalog res" where
  "add_rows table [] = Inr table"
| "add_rows table (r # rs) =
     (if row_key r \<in> fst ` set table then Inl PricingConfigError
      else add_rows (table @ [(row_key r, r)]) rs)"

definition build_catalog :: "catalog res" where
  "build_catalog = add_rows [] (openai_rows @ anthropic_rows @ google_rows @ deepseek_rows)"

definition price_catalog :: catalog where
  "price_catalog = (case build_catalog of Inr t \<Rightarrow> t | Inl _ \<Rightarrow> [])"

definition builtin_aliases :: "(string \<times> string) list" where
  "builtin_aliases = [
   (''deepseek-v4-flash'', ''deepseek-flash''),
   (''deepseek-v4-flash-vision-exp'', ''deepseek-flash''),
   (''claude-haiku-4-5-20251001'', ''claude-haiku-4-5''),
   (''claude-sonnet-4-5-20250929'', ''claude-sonnet-4-5''),
   (''claude-opus-4-5-20251101'', ''claude-opus-4-5''),
   (''gpt-4o-mini-2024-07-18'', ''gpt-4o-mini''),
   (''gpt-4o-2024-08-06'', ''gpt-4o''),
   (''gpt-4o-2024-11-20'', ''gpt-4o''),
   (''gpt-4.1-2025-04-14'', ''gpt-4.1''),
   (''gpt-4.1-mini-2025-04-14'', ''gpt-4.1-mini''),
   (''gpt-4.1-nano-2025-04-14'', ''gpt-4.1-nano''),
   (''gpt-5-mini-2025-08-07'', ''gpt-5-mini'')]"

section \<open>Lookups\<close>

definition tlookup :: "catalog \<Rightarrow> catalog_key \<Rightarrow> catalog_row option" where
  "tlookup table k = map_of table k"

definition table_rows :: "catalog \<Rightarrow> catalog_row list" where
  "table_rows table = map snd table"

definition certified_rows :: "catalog_row list" where
  "certified_rows = filter certified (table_rows price_catalog)"

definition uncertified_rows :: "catalog_row list" where
  "uncertified_rows = filter (\<lambda>r. \<not> certified r) (table_rows price_catalog)"

definition standard_short_rates :: "(string \<times> (rat \<times> rat)) list" where
  "standard_short_rates =
     fold (\<lambda>r out. if request_tier r = ''standard'' \<and> context_band r = ''short''
                   then dset (model r) (r_input (row_rates r), r_output (row_rates r)) out else out)
       (table_rows price_catalog) []"

definition provider_for_model :: "catalog \<Rightarrow> string \<Rightarrow> string option" where
  "provider_for_model table mdl =
     (let k = py_lower (py_strip mdl);
          found = remdups (map provider (filter (\<lambda>r. model r = k) (table_rows table)))
      in case found of [p] \<Rightarrow> Some p | _ \<Rightarrow> None)"

definition lookup_row :: "catalog \<Rightarrow> string \<Rightarrow> string \<Rightarrow> string \<Rightarrow> string \<Rightarrow> catalog_row option" where
  "lookup_row table prov mdl tier band = tlookup table (prov, mdl, tier, band)"

definition model_declares_long_band :: "catalog \<Rightarrow> string \<Rightarrow> string \<Rightarrow> string \<Rightarrow> bool" where
  "model_declares_long_band table prov mdl tier = (lookup_row table prov mdl tier ''long'' \<noteq> None)"

section \<open>The active bundle\<close>

record catalog_bundle =
  b_version :: string
  b_source :: string
  b_rows :: catalog
  b_aliases :: "(string \<times> string) list"
  b_client_tool_versions :: "string list"
  b_tool_prompt_tokens :: "(string \<times> (int \<times> int)) list"
  b_tool_prompt_fallback :: int
  b_tool_definition_tokens :: "(string \<times> int) list"
  b_tile_models :: "(string \<times> (int \<times> int)) list"
  b_patch_multipliers :: "(string \<times> rat) list"
  b_patch_sizing :: "(string \<times> (string \<times> (int \<times> int option)) list) list"
  b_inference_geo :: "(string \<times> rat) list"
  b_allowed_speeds :: "string list"
  b_first_party_hosts :: "(string \<times> string list) list"
  b_non_first_party_uplift :: rat
  b_issued_at :: "string option"
  b_expires_at :: "string option"
  b_sha256 :: "string option"

definition bundle_expired :: "rat \<Rightarrow> catalog_bundle \<Rightarrow> bool res" where
  "bundle_expired now b = bnd (parse_instant (b_expires_at b)) (\<lambda>ends.
     Inr (case ends of None \<Rightarrow> False | Some t \<Rightarrow> t \<le> now))"

definition tool_prompt_tokens_const :: "(string \<times> (int \<times> int)) list" where
  "tool_prompt_tokens_const = [
   (''claude-opus-5-5'', (286, 286)),
   (''claude-opus-5'', (286, 406)),
   (''claude-opus-4-8'', (290, 410)),
   (''claude-opus-4-7'', (675, 804)),
   (''claude-opus-4-6'', (497, 589)),
   (''claude-opus-4-5'', (496, 588)),
   (''claude-opus-4-1'', (313, 315)),
   (''claude-sonnet-5-5'', (286, 286)),
   (''claude-sonnet-5'', (354, 474)),
   (''claude-sonnet-4-6'', (497, 589)),
   (''claude-sonnet-4-5'', (496, 588)),
   (''claude-haiku-5-5'', (286, 406)),
   (''claude-haiku-4-5'', (496, 588))]"

definition tool_definition_tokens_const :: "(string \<times> int) list" where
  "tool_definition_tokens_const = [
   (''text_editor_20250728'', 974),
   (''computer_toolset_20260801'', 5050),
   (''browser_toolset_20260801'', 7340),
   (''computer_20251124'', 1310),
   (''computer_20250124'', 1310)]"

definition tile_models_const :: "(string \<times> (int \<times> int)) list" where
  "tile_models_const = [
   (''gpt-5.1'', (70, 140)),
   (''gpt-5'', (70, 140)),
   (''gpt-4o'', (85, 170)),
   (''gpt-4.1'', (85, 170)),
   (''gpt-4o-mini'', (2833, 5667)),
   (''o1'', (75, 150)),
   (''o1-pro'', (75, 150)),
   (''o3'', (75, 150))]"

definition patch_multiplier_const :: "(string \<times> rat) list" where
  "patch_multiplier_const = [
   (''gpt-6-astra'', lit 12 1),
   (''gpt-5.6-sol'', lit 12 1),
   (''gpt-5.6-terra'', lit 12 1),
   (''gpt-5.6-luna'', lit 12 1),
   (''gpt-5.5'', lit 12 1),
   (''gpt-5.4'', lit 12 1),
   (''gpt-5.4-mini'', lit 12 1),
   (''gpt-5.4-nano'', lit 12 1),
   (''gpt-5.2'', lit 12 1),
   (''gpt-5-mini'', lit 12 1),
   (''gpt-5-nano'', lit 15 1),
   (''gpt-4.1-mini'', lit 162 2),
   (''gpt-4.1-nano'', lit 246 2),
   (''o4-mini'', lit 172 2)]"

definition patch_sizing_const :: "(string \<times> (string \<times> (int \<times> int option)) list) list" where
  "patch_sizing_const = [
   (''gpt-6-astra'', [(''low'', (512, None)), (''high'', (65535, Some 2500)), (''original'', (65535, Some 30000))]),
   (''gpt-5.6-sol'', [(''low'', (512, None)), (''high'', (2048, Some 2500)), (''original'', (65535, Some 30000))]),
   (''gpt-5.6-terra'', [(''low'', (512, None)), (''high'', (2048, Some 2500)), (''original'', (65535, Some 30000))]),
   (''gpt-5.6-luna'', [(''low'', (512, None)), (''high'', (2048, Some 2500)), (''original'', (65535, Some 30000))]),
   (''gpt-5.5'', [(''low'', (512, None)), (''high'', (2048, Some 2500)), (''original'', (6000, Some 10000))]),
   (''gpt-5.4'', [(''low'', (2048, Some 6144)), (''high'', (2048, Some 2500)), (''original'', (6000, Some 10000))]),
   (''gpt-5.4-mini'', [(''low'', (2048, Some 6144)), (''high'', (2048, Some 2500)), (''original'', (6000, Some 10000))]),
   (''gpt-5.4-nano'', [(''low'', (2048, Some 6144)), (''high'', (2048, Some 2500)), (''original'', (6000, Some 10000))]),
   (''gpt-5.2'', [(''low'', (2048, Some 6144)), (''high'', (2048, Some 6144))]),
   (''gpt-4.1-mini'', [(''low'', (2048, Some 6144)), (''high'', (2048, Some 6144))])]"

definition patch_sizing_fallback :: "(string \<times> (int \<times> int option)) list" where
  "patch_sizing_fallback =
     [(''low'', (65535, Some 30000)), (''high'', (65535, Some 30000)), (''original'', (65535, Some 30000))]"

definition bundled :: catalog_bundle where
  "bundled = \<lparr>b_version = catalog_version_const, b_source = ''bundled'', b_rows = price_catalog,
     b_aliases = builtin_aliases, b_client_tool_versions = anthropic_client_tool_versions_const,
     b_tool_prompt_tokens = tool_prompt_tokens_const, b_tool_prompt_fallback = 804,
     b_tool_definition_tokens = tool_definition_tokens_const, b_tile_models = tile_models_const,
     b_patch_multipliers = patch_multiplier_const, b_patch_sizing = patch_sizing_const,
     b_inference_geo = [(''global'', 1), (''us'', lit 11 1)], b_allowed_speeds = [''standard''],
     b_first_party_hosts = [(''openai'', [''api.openai.com'']), (''anthropic'', [''api.anthropic.com''])],
     b_non_first_party_uplift = lit 11 1, b_issued_at = None, b_expires_at = None, b_sha256 = None\<rparr>"

text \<open>\<open>active_bundle\<close>: \<open>live\<close> is the module variable \<open>_LIVE\<close>.\<close>

definition active_bundle :: "catalog_bundle option \<Rightarrow> rat \<Rightarrow> catalog_bundle res" where
  "active_bundle live now = (case live of None \<Rightarrow> Inr bundled
     | Some b \<Rightarrow> bnd (bundle_expired now b) (\<lambda>ex. Inr (if ex then bundled else b)))"

definition current_table :: "catalog_bundle option \<Rightarrow> rat \<Rightarrow> catalog res" where
  "current_table live now = bnd (active_bundle live now) (\<lambda>b.
     map_res (\<lambda>(k, r). bnd (row_at now r) (\<lambda>r'. Inr (k, r'))) (b_rows b))"

definition canonical_model_id :: "catalog_bundle \<Rightarrow> string \<Rightarrow> string" where
  "canonical_model_id b mdl = (let k = py_strip mdl in
     case dget (b_aliases b) k of None \<Rightarrow> k | Some c \<Rightarrow> c)"

section \<open>Tool overhead\<close>

text \<open>\<open>getattr(x, "type", d)\<close> or \<open>x.get("type")\<close>.\<close>

definition attr_type :: "pyval \<Rightarrow> pyval \<Rightarrow> pyval" where
  "attr_type v dflt = (case v of PDict d \<Rightarrow> or_none (dget d ''type'')
     | PObj d \<Rightarrow> (case dget d ''type'' of None \<Rightarrow> dflt | Some x \<Rightarrow> x)
     | _ \<Rightarrow> dflt)"

definition anthropic_tool_overhead_tokens :: "catalog_bundle \<Rightarrow> string \<Rightarrow> pyval list \<Rightarrow> pyval \<Rightarrow> int" where
  "anthropic_tool_overhead_tokens b mdl tools tool_choice =
     (let listed = filter (\<lambda>t. t \<noteq> PNone) tools in
      if listed = [] then 0
      else let choice = attr_type tool_choice tool_choice;
               forced = py_lower (py_strip (py_str (or_val choice (PStr ''auto'')))) \<in> {''any'', ''tool''};
               base = (case dget (b_tool_prompt_tokens b) (py_lower (py_strip mdl)) of
                         None \<Rightarrow> b_tool_prompt_fallback b
                       | Some (a, f) \<Rightarrow> if forced then f else a)
           in foldl (\<lambda>total t. total +
                 (case dget (b_tool_definition_tokens b) (str_or_empty (attr_type t PNone)) of
                    None \<Rightarrow> 0 | Some n \<Rightarrow> n)) base listed)"

section \<open>Image tokens\<close>

text \<open>\<open>math.ceil(a / b)\<close> and \<open>int(a / b)\<close> on pixel counts, far below the range where a binary
  quotient could round across an integer.\<close>

definition ceil_div :: "int \<Rightarrow> int \<Rightarrow> int" where
  "ceil_div a b = - ((- a) div b)"

definition fit :: "int \<Rightarrow> int \<Rightarrow> int \<Rightarrow> int \<times> int" where
  "fit w h max_edge =
     (let long_edge = max w h in
      if long_edge \<le> max_edge \<or> long_edge \<le> 0 then (w, h)
      else let scale = d_div (of_int max_edge) (of_int long_edge)
           in (max 1 (round_half_even (d_mul (of_int w) scale)),
               max 1 (round_half_even (d_mul (of_int h) scale))))"

definition tile_tokens :: "int \<Rightarrow> int \<Rightarrow> int \<Rightarrow> int \<Rightarrow> int" where
  "tile_tokens w0 h0 base tile =
     (let (w, h) = fit w0 h0 2048; short = min w h;
          (w', h') = (if short > 768
                      then if w \<le> h then (768, max 1 (h * 768 div short))
                           else (max 1 (w * 768 div short), 768)
                      else (w, h));
          tiles = ceil_div w' 512 * ceil_div h' 512
      in base + tile * tiles)"

definition patches :: "int \<Rightarrow> int \<Rightarrow> int" where
  "patches w h = ceil_div w 32 * ceil_div h 32"

text \<open>The loop that shrinks an image pixel by pixel until it is inside the budget.\<close>

function shrink_to_budget :: "int \<Rightarrow> int \<Rightarrow> int \<Rightarrow> int \<times> int" where
  "shrink_to_budget budget w h =
     (if patches w h > budget \<and> (w > 1 \<or> h > 1)
      then if w \<ge> h \<and> w > 1 then shrink_to_budget budget (w - 1) h
           else if h > 1 then shrink_to_budget budget w (h - 1)
           else (w, h)
      else (w, h))"
  by pat_completeness auto
termination
  by (relation "measure (\<lambda>(b, w, h). nat w + nat h)") auto

declare shrink_to_budget.simps [simp del]

definition patch_tokens :: "int \<Rightarrow> int \<Rightarrow> int \<Rightarrow> int option \<Rightarrow> rat \<Rightarrow> int" where
  "patch_tokens width height max_edge budget multiplier =
     (let (w, h) = fit (max 1 width) (max 1 height) max_edge;
          (w', h') = (case budget of None \<Rightarrow> (w, h)
            | Some b \<Rightarrow>
                if w * h > 0 \<and> patches w h > b
                then let shrink = d_sqrt (d_div (d_mul (d_mul (of_int b) 32) 32) (of_int (w * h)));
                         w1 = max 1 (round_half_even (d_mul (of_int w) shrink));
                         h1 = max 1 (round_half_even (d_mul (of_int h) shrink))
                     in shrink_to_budget b w1 h1
                else (w, h))
      in \<lceil>d_mul (of_int (patches w' h')) multiplier\<rceil>)"

definition openai_image_tokens :: "catalog_bundle \<Rightarrow> string \<Rightarrow> int \<Rightarrow> int \<Rightarrow> string \<Rightarrow> int res" where
  "openai_image_tokens b mdl width height detail =
     (let key = py_lower (py_strip mdl); chosen = py_lower (py_strip (or_str detail ''auto'')) in
      case dget (b_tile_models b) key of
        Some (base, tile) \<Rightarrow>
          let low = base; high = tile_tokens width height base tile in
          Inr (if chosen = ''low'' then low else if chosen = ''auto'' then max low high else high)
      | None \<Rightarrow>
          (case dget (b_patch_multipliers b) key of
             Some mult \<Rightarrow>
               let sizing = (case dget (b_patch_sizing b) key of Some s \<Rightarrow> s | None \<Rightarrow> patch_sizing_fallback);
                   table = map (\<lambda>(name, edge, budget). (name, patch_tokens width height edge budget mult)) sizing
               in (case (if chosen = ''auto'' then None else dget table chosen) of
                     Some t \<Rightarrow> Inr t
                   | None \<Rightarrow> if table = [] then Inl PyValueError else Inr (Max (set (map snd table))))
           | None \<Rightarrow> Inl PricingConfigError))"

definition anthropic_image_tokens :: "string \<Rightarrow> int \<Rightarrow> int \<Rightarrow> int" where
  "anthropic_image_tokens mdl width height =
     (let high_res = list_ex (starts_with mdl)
            [''claude-opus-4-7'', ''claude-opus-4-8'', ''claude-opus-5'', ''claude-sonnet-5'',
             ''claude-fable-'', ''claude-haiku-5''];
          max_edge = (if high_res then 2576 else 1568);
          max_tokens = (if high_res then 4784 else 1568);
          w = max 1 width; h = max 1 height;
          (w', h') = (if max w h > max_edge then fit w h max_edge else (w, h));
          tokens = ceil_div w' 28 * ceil_div h' 28
      in min tokens max_tokens)"

end
