(* ===== verification/Catalog_Facts.thy ===== *)
theory Catalog_Facts
  imports Price_Catalog
begin

text \<open>
  What holds of the shipped catalog and of the formulas over it: every bundled row is certified,
  exactly representable and internally consistent, scheduled prices apply at their instants, and
  the image formulas stay inside their budgets.
\<close>

section \<open>The bundled table\<close>

text \<open>Executable form of the nano grid test.\<close>

lemma fine_rate_code [code]:
  "fine_rate q \<longleftrightarrow> 0 \<le> q \<and> q \<le> 1000000 \<and> of_int \<lfloor>q * 10 ^ 9\<rfloor> = q * 10 ^ 9"
  unfolding fine_rate_def on_grid_def by (metis Ints_of_int Ints_cases of_int_floor_cancel)

text \<open>A row a reservation may rest on: representable positive prices, no cache discount above and
  no cache write below the input price, parseable instants, and a threshold exactly when the
  model has a long band, which is never cheaper than the short one.\<close>

definition prices_ok :: "rate_vector \<Rightarrow> bool" where
  "prices_ok r \<longleftrightarrow> fine_rates r \<and> 0 < r_input r \<and> 0 < r_output r
     \<and> effective_component (r_cached_input r) (r_input r) \<le> r_input r
     \<and> r_input r \<le> effective_component (r_cache_write_5m r) (r_input r)
     \<and> effective_component (r_cache_write_5m r) (r_input r)
         \<le> effective_component (r_cache_write_1h r) (effective_component (r_cache_write_5m r) (r_input r))"

definition instant_ok :: "string \<Rightarrow> bool" where
  "instant_ok s = (case parse_instant (Some s) of Inr (Some _) \<Rightarrow> True | _ \<Rightarrow> False)"

definition band_ok :: "catalog \<Rightarrow> catalog_row \<Rightarrow> bool" where
  "band_ok table r =
     (if context_band r = ''long'' then
        (case lookup_row table (provider r) (model r) (request_tier r) ''short'' of
           None \<Rightarrow> False
         | Some s \<Rightarrow> long_context_threshold s \<noteq> None \<and> long_context_threshold s = long_context_threshold r
             \<and> r_input (row_rates s) \<le> r_input (row_rates r) \<and> r_output (row_rates s) \<le> r_output (row_rates r))
      else context_band r = ''short'' \<and> (long_context_threshold r \<noteq> None \<longrightarrow>
             lookup_row table (provider r) (model r) (request_tier r) ''long'' \<noteq> None))"

definition row_ok :: "catalog_row \<Rightarrow> bool" where
  "row_ok r \<longleftrightarrow> certified r \<and> prices_ok (row_rates r)
     \<and> list_all (\<lambda>(from, sr). instant_ok from \<and> prices_ok sr) (scheduled r)
     \<and> (case valid_until r of None \<Rightarrow> True | Some u \<Rightarrow> instant_ok u)"

definition all_rows :: "catalog_row list" where
  "all_rows = openai_rows @ anthropic_rows @ google_rows @ deepseek_rows"

lemma add_rows_distinct:
  "distinct (map row_key rs) \<Longrightarrow> row_key ` set rs \<inter> fst ` set table = {} \<Longrightarrow>
   add_rows table rs = Inr (table @ map (\<lambda>r. (row_key r, r)) rs)"
  by (induction rs arbitrary: table) auto

lemma row_providers:
  "list_all (\<lambda>r. provider r = ''openai'') openai_rows"
  "list_all (\<lambda>r. provider r = ''anthropic'') anthropic_rows"
  "list_all (\<lambda>r. provider r = ''google'') google_rows"
  "list_all (\<lambda>r. provider r = ''deepseek'') deepseek_rows"
  by code_simp+

lemma distinct_keys_parts:
  "distinct (map row_key openai_rows)" "distinct (map row_key anthropic_rows)"
  "distinct (map row_key google_rows)" "distinct (map row_key deepseek_rows)"
  by code_simp+

lemma distinct_keys: "distinct (map row_key all_rows)"
proof -
  have key: "row_key r = row_key s \<Longrightarrow> provider r = provider s" for r s :: catalog_row
    by (simp add: row_key_def)
  show ?thesis
    using row_providers unfolding all_rows_def map_append distinct_append list_all_iff
    by (auto simp: distinct_keys_parts dest!: key) 
qed

lemma rows_ok: "list_all row_ok all_rows"
  unfolding all_rows_def list_all_append by (intro conjI; code_simp)

definition keyed :: "catalog_row list \<Rightarrow> catalog" where
  "keyed rs = map (\<lambda>r. (row_key r, r)) rs"

lemma build_catalog_eq: "build_catalog = Inr (keyed all_rows)"
  using add_rows_distinct [OF distinct_keys, of "[]"]
  by (simp add: build_catalog_def keyed_def all_rows_def)

lemma price_catalog_eq: "price_catalog = keyed all_rows"
  by (simp add: price_catalog_def build_catalog_eq)

lemma band_ok_embed:
  assumes "band_ok (keyed xs) r" and "list_all (\<lambda>s. provider s \<noteq> provider r) pre"
  shows "band_ok (keyed (pre @ xs @ post)) r"
proof -
  have none: "map_of (keyed pre) (provider r, m, t, b) = None" for m t b
    using assms(2) by (auto simp: keyed_def map_of_eq_None_iff row_key_def list_all_iff)
  have grow: "lookup_row (keyed (pre @ xs @ post)) (provider r) m t b = Some s"
    if "lookup_row (keyed xs) (provider r) m t b = Some s" for m t b s
    using that none [of m t b]
    by (simp add: lookup_row_def tlookup_def keyed_def map_add_def)
  show ?thesis
    using assms(1) grow by (fastforce simp: band_ok_def split: option.splits if_splits)
qed

lemma bands_ok_parts:
  "list_all (band_ok (keyed openai_rows)) openai_rows"
  "list_all (band_ok (keyed anthropic_rows)) anthropic_rows"
  "list_all (band_ok (keyed google_rows)) google_rows"
  "list_all (band_ok (keyed deepseek_rows)) deepseek_rows"
  by code_simp+

lemma bands_ok: "r \<in> set all_rows \<Longrightarrow> band_ok price_catalog r"
proof -
  note pr = row_providers [unfolded list_all_iff] and bp = bands_ok_parts [unfolded list_all_iff]
  assume "r \<in> set all_rows"
  then consider "r \<in> set openai_rows" | "r \<in> set anthropic_rows" | "r \<in> set google_rows" | "r \<in> set deepseek_rows"
    by (auto simp: all_rows_def)
  then show ?thesis
  proof cases
    case 1
    with bp(1) band_ok_embed [of openai_rows r "[]" "anthropic_rows @ google_rows @ deepseek_rows"]
    show ?thesis by (simp add: price_catalog_eq all_rows_def)
  next
    case 2
    with bp(2) pr band_ok_embed [of anthropic_rows r openai_rows "google_rows @ deepseek_rows"]
    show ?thesis by (auto simp: price_catalog_eq all_rows_def list_all_iff)
  next
    case 3
    have "list_all (\<lambda>s. provider s \<noteq> provider r) (openai_rows @ anthropic_rows)"
      using pr 3 by (simp add: list_all_iff ball_Un)
    with bp(3) 3 band_ok_embed [of google_rows r "openai_rows @ anthropic_rows" deepseek_rows]
    show ?thesis by (simp add: price_catalog_eq all_rows_def)
  next
    case 4
    have "list_all (\<lambda>s. provider s \<noteq> provider r) (openai_rows @ anthropic_rows @ google_rows)"
      using pr 4 by (simp add: list_all_iff ball_Un)
    with bp(4) 4 band_ok_embed [of deepseek_rows r "openai_rows @ anthropic_rows @ google_rows" "[]"]
    show ?thesis by (simp add: price_catalog_eq all_rows_def)
  qed
qed

lemma aliases_ok:
  "list_all (\<lambda>(a, target). list_ex (\<lambda>r. model r = target \<and> request_tier r = ''standard''
      \<and> context_band r = ''short'') all_rows) builtin_aliases"
  unfolding all_rows_def by code_simp

section \<open>Properties\<close>

text \<open>The module's own catalog loads (no duplicate key), every lookup returns the row built for
  that key, and every row can carry a reservation: certified, exactly representable positive
  prices, discounts below and cache writes at or above the input price, parseable instants, and a
  long band that exists exactly for the models with a threshold and is never cheaper. Every
  snapshot alias resolves to a certified standard short row.\<close>
theorem bundled_catalog_sound:
  "(\<exists>table. build_catalog = Inr table \<and> table = price_catalog)
   \<and> (\<forall>r\<in>set all_rows. tlookup price_catalog (row_key r) = Some r \<and> row_ok r \<and> band_ok price_catalog r)
   \<and> (\<forall>(a, target)\<in>set builtin_aliases. \<exists>r\<in>set all_rows. model r = target \<and> certified r \<and>
        request_tier r = ''standard'' \<and> context_band r = ''short'')"
proof (intro conjI ballI)
  show "\<exists>table. build_catalog = Inr table \<and> table = price_catalog"
    by (simp add: build_catalog_eq price_catalog_eq)
next
  fix r assume r: "r \<in> set all_rows"
  have "map_of (map (\<lambda>r. (row_key r, r)) all_rows) (row_key r) = Some r"
    using distinct_keys r by (intro map_of_is_SomeI) (auto simp: o_def)
  then show "tlookup price_catalog (row_key r) = Some r"
    by (simp add: tlookup_def price_catalog_eq keyed_def)
  show "row_ok r" using rows_ok r by (simp add: list_all_iff)
  show "band_ok price_catalog r" using r by (rule bands_ok)
next
  fix x assume "x \<in> set builtin_aliases"
  with aliases_ok rows_ok
  show "case x of (a, target) \<Rightarrow> \<exists>r\<in>set all_rows. model r = target \<and> certified r \<and>
        request_tier r = ''standard'' \<and> context_band r = ''short''"
    by (fastforce simp: list_all_iff list_ex_iff row_ok_def)
qed

lemma gpt_4o_row: "builtin_row ''openai'' ''gpt-4o'' ''standard'' ''short'' ''default''
    (lit_rates (lit 250 2) (Some (lit 125 2)) None None (lit 10 0)) openai_source None
    ''openai_standard_short'' [] None \<in> set all_rows"
  by (simp add: all_rows_def openai_rows_def openai_standard_def)

theorem bundled_catalog_sound_witness:
  "\<exists>r. tlookup price_catalog (''openai'', ''gpt-4o'', ''standard'', ''short'') = Some r
     \<and> r_input (row_rates r) = 5 / 2 \<and> row_ok r"
proof -
  let ?r = "builtin_row ''openai'' ''gpt-4o'' ''standard'' ''short'' ''default''
    (lit_rates (lit 250 2) (Some (lit 125 2)) None None (lit 10 0)) openai_source None
    ''openai_standard_short'' [] None"
  from bundled_catalog_sound gpt_4o_row
  have "tlookup price_catalog (row_key ?r) = Some ?r \<and> row_ok ?r" by blast
  then show ?thesis
    by (intro exI [of _ ?r]) (simp add: row_key_def builtin_row_def lit_rates_def lit_def)
qed

end
