(* ===== verification/Catalog_Formulas.thy ===== *)
theory Catalog_Formulas
  imports Price_Catalog
begin

text \<open>
  Properties of the operations over a catalog: scheduled and expiring prices, the choice of the
  active bundle, and the image token formulas.
\<close>

section \<open>Scheduled prices\<close>

lemma apply_scheduled_last:
  "apply_scheduled now xs r =
     (case filter (\<lambda>(t, _). case t of None \<Rightarrow> False | Some u \<Rightarrow> u \<le> now) xs of
        [] \<Rightarrow> r | ys \<Rightarrow> snd (last ys))"
  by (induction now xs r rule: apply_scheduled.induct) (auto split: list.splits option.splits)

lemma sorted_key_last:
  "sorted (map f xs) \<Longrightarrow> x \<in> set xs \<Longrightarrow> f x \<le> f (last xs)"
  by (induction xs) auto

text \<open>The parsed schedule of a row, in the order the loop of \<open>at\<close> visits it.\<close>

definition schedule_at :: "rat \<Rightarrow> catalog_row \<Rightarrow> (rat option \<times> rate_vector) list res" where
  "schedule_at now row =
     bnd (map_res (\<lambda>(from, sr). bnd (parse_instant (Some from)) (\<lambda>t. Inr (t, sr))) (scheduled row)) (\<lambda>sch.
       Inr (sort_key (\<lambda>(t, sr). case t of None \<Rightarrow> now | Some x \<Rightarrow> x) sch))"

lemma row_at_Inr:
  assumes "row_at now row = Inr row'"
  obtains sch ends where "schedule_at now row = Inr sch" "parse_instant (valid_until row) = Inr ends"
    "row_rates row' = apply_scheduled now sch (row_rates row)"
    "certified row' = (certified row \<and> (case ends of None \<Rightarrow> True | Some t \<Rightarrow> \<not> t \<le> now))"
    "row_key row' = row_key row"
proof (cases "scheduled row = [] \<and> valid_until row = None")
  case True
  with assms show ?thesis
    by (intro that [of "[]" None]) (simp_all add: row_at_def schedule_at_def row_key_def)
next
  case False
  then have "\<exists>sch ends. schedule_at now row = Inr sch \<and> parse_instant (valid_until row) = Inr ends \<and>
      row_rates row' = apply_scheduled now sch (row_rates row) \<and>
      certified row' = (certified row \<and> (case ends of None \<Rightarrow> True | Some t \<Rightarrow> \<not> t \<le> now)) \<and>
      row_key row' = row_key row"
    using assms
    by (auto simp: row_at_def schedule_at_def bnd_eq_Inr row_key_def Let_def)
  then show ?thesis using that by blast
qed

text \<open>A row priced at an instant keeps its key, is never certified once it was not, stops being
  certified at its expiry, and carries its own prices until the first scheduled instant and from
  then on the scheduled price with the latest instant that has passed.\<close>
theorem row_at_prices:
  assumes at: "row_at now row = Inr row'" and sch: "schedule_at now row = Inr sch"
  shows "row_key row' = row_key row
    \<and> (certified row' \<longrightarrow> certified row)
    \<and> (\<forall>t. parse_instant (valid_until row) = Inr (Some t) \<and> t \<le> now \<longrightarrow> \<not> certified row')
    \<and> ((\<forall>t sr. (Some t, sr) \<in> set sch \<longrightarrow> now < t) \<longrightarrow> row_rates row' = row_rates row)
    \<and> ((\<exists>t sr. (Some t, sr) \<in> set sch \<and> t \<le> now) \<longrightarrow>
         (\<exists>t. (Some t, row_rates row') \<in> set sch \<and> t \<le> now \<and>
              (\<forall>u sr. (Some u, sr) \<in> set sch \<and> u \<le> now \<longrightarrow> u \<le> t)))"
proof -
  let ?passed = "\<lambda>(t, _). case t of None \<Rightarrow> False | Some u \<Rightarrow> u \<le> now"
  let ?key = "\<lambda>(t, sr :: rate_vector). case t of None \<Rightarrow> now | Some x \<Rightarrow> x"
  from row_at_Inr [OF at] sch obtain ends where e: "parse_instant (valid_until row) = Inr ends"
    and r: "row_rates row' = apply_scheduled now sch (row_rates row)"
    and c: "certified row' = (certified row \<and> (case ends of None \<Rightarrow> True | Some t \<Rightarrow> \<not> t \<le> now))"
    and k: "row_key row' = row_key row" by auto
  have srt: "sorted (map ?key sch)"
    using sch by (auto simp: schedule_at_def bnd_eq_Inr)
  let ?ys = "filter ?passed sch"
  have "\<exists>t. (Some t, row_rates row') \<in> set sch \<and> t \<le> now \<and>
      (\<forall>u sr. (Some u, sr) \<in> set sch \<and> u \<le> now \<longrightarrow> u \<le> t)" if ne: "?ys \<noteq> []"
  proof -
    from ne have "last ?ys \<in> set ?ys" by (rule last_in_set)
    then obtain t sr where l: "last ?ys = (Some t, sr)" "(Some t, sr) \<in> set sch" "t \<le> now"
      by (auto split: option.splits)
    have "row_rates row' = sr"
      using ne l(1) by (cases ?ys) (simp_all add: r apply_scheduled_last)
    moreover have "u \<le> t" if "(Some u, sr') \<in> set sch" "u \<le> now" for u sr'
    proof -
      have "(Some u, sr') \<in> set ?ys" using that by simp
      moreover have "sorted (map ?key ?ys)" using srt by (rule sorted_filter)
      ultimately have "?key (Some u, sr') \<le> ?key (last ?ys)" by (intro sorted_key_last)
      then show ?thesis by (simp add: l(1))
    qed
    ultimately show ?thesis using l by blast
  qed
  moreover have "?ys = []" if "\<forall>t sr. (Some t, sr) \<in> set sch \<longrightarrow> now < t"
    using that by (force simp: filter_empty_conv split: option.splits)
  moreover have "?ys \<noteq> []" if "(Some t, sr) \<in> set sch" "t \<le> now" for t sr
    using that by (force simp: filter_empty_conv)
  ultimately show ?thesis using k c e by (auto simp: r apply_scheduled_last split: option.splits)
qed

definition flash_row :: catalog_row where
  "flash_row = builtin_row ''google'' ''gemini-3.8-flash'' ''standard'' ''short'' ''standard''
     (lit_rates (lit 75 2) (Some (lit 75 3)) None None (lit 375 2)) google_source None
     ''gemini_text_standard'' (google_scheduled ''gemini-3.8-flash'') None"

lemma flash_schedule:
  "schedule_at now flash_row = Inr [(Some 1798675200,
     lit_rates (lit 150 2) (Some (lit 15 2)) None None (lit 750 2))]"
proof -
  have "parse_instant (Some gemini_flash_2027_effective) = Inr (Some 1798675200)" by code_simp
  then show ?thesis by (simp add: schedule_at_def flash_row_def builtin_row_def google_scheduled_def)
qed

theorem row_at_prices_witness:
  "\<exists>r'. row_at 1798675200 flash_row = Inr r' \<and>
     row_rates r' = lit_rates (lit 150 2) (Some (lit 15 2)) None None (lit 750 2)"
proof -
  have p: "parse_instant (Some gemini_flash_2027_effective) = Inr (Some 1798675200)" by code_simp
  then obtain r' where r': "row_at 1798675200 flash_row = Inr r'"
    by (simp add: row_at_def flash_row_def builtin_row_def google_scheduled_def)
  from row_at_prices [OF r' flash_schedule] r' show ?thesis by auto
qed

section \<open>Image tokens\<close>

lemma ceil_div_one [simp]: "0 < b \<Longrightarrow> b \<ge> 1 \<Longrightarrow> ceil_div 1 b = 1"
  by (cases "b = 1") (simp_all add: ceil_div_def zmod_minus1 div_eq_minus1)

lemma patches_nonneg: "0 \<le> w \<Longrightarrow> 0 \<le> h \<Longrightarrow> 0 \<le> patches w h"
  by (simp add: patches_def ceil_div_def div_nonpos_pos_le0 mult_nonpos_nonpos)

lemma patches_one: "patches 1 1 = 1"
  by (simp add: patches_def)

text \<open>The pixel loop ends inside the budget.\<close>

lemma shrink_to_budget_inside:
  "1 \<le> b \<Longrightarrow> 1 \<le> w \<Longrightarrow> 1 \<le> h \<Longrightarrow> case shrink_to_budget b w h of (w', h') \<Rightarrow>
     patches w' h' \<le> b \<and> 1 \<le> w' \<and> w' \<le> w \<and> 1 \<le> h' \<and> h' \<le> h"
proof (induction b w h rule: shrink_to_budget.induct)
  case (1 b w h)
  show ?case
  proof (cases "patches w h > b \<and> (w > 1 \<or> h > 1)")
    case False
    moreover have "w = 1 \<and> h = 1 \<Longrightarrow> patches w h \<le> b" using 1 by (simp add: patches_one)
    moreover have "\<not> (w > 1 \<or> h > 1) \<Longrightarrow> w = 1 \<and> h = 1" using 1 by auto
    ultimately have "patches w h \<le> b" by linarith
    then show ?thesis using False 1 by (simp add: shrink_to_budget.simps [of b w h])
  next
    case t: True
    show ?thesis
    proof (cases "w \<ge> h \<and> w > 1")
      case True
      with t 1 have "case shrink_to_budget b (w - 1) h of (w', h') \<Rightarrow>
          patches w' h' \<le> b \<and> 1 \<le> w' \<and> w' \<le> w - 1 \<and> 1 \<le> h' \<and> h' \<le> h" by auto
      then show ?thesis using t True
        by (subst shrink_to_budget.simps) (auto split: prod.splits)
    next
      case False
      with t have h: "h > 1" by auto
      with t 1 False have "case shrink_to_budget b w (h - 1) of (w', h') \<Rightarrow>
          patches w' h' \<le> b \<and> 1 \<le> w' \<and> w' \<le> w \<and> 1 \<le> h' \<and> h' \<le> h - 1" by auto
      then show ?thesis using t False h
        by (subst shrink_to_budget.simps) (auto split: prod.splits)
    qed
  qed
qed

lemma fit_positive: "1 \<le> w \<Longrightarrow> 1 \<le> h \<Longrightarrow> case fit w h e of (w', h') \<Rightarrow> 1 \<le> w' \<and> 1 \<le> h'"
  by (simp add: fit_def Let_def)

text \<open>An image priced under a patch budget never costs more than the budget times the model's
  multiplier, whatever its size, because the pixel loop ends inside the budget.\<close>
theorem patch_tokens_within_budget:
  assumes b: "1 \<le> b" and m: "0 \<le> mult"
  shows "patch_tokens w h edge (Some b) mult \<le> \<lceil>d_mul (of_int b) mult\<rceil>"
proof -
  obtain w1 h1 where f: "fit (max 1 w) (max 1 h) edge = (w1, h1)" by fastforce
  then have p: "1 \<le> w1" "1 \<le> h1" using fit_positive [of "max 1 w" "max 1 h" edge] by auto
  have "\<exists>w2 h2. 0 \<le> patches w2 h2 \<and> patches w2 h2 \<le> b \<and>
      patch_tokens w h edge (Some b) mult = \<lceil>d_mul (of_int (patches w2 h2)) mult\<rceil>"
  proof (cases "patches w1 h1 > b")
    case False
    then show ?thesis by (intro exI [of _ w1] exI [of _ h1]) (simp add: patch_tokens_def f patches_nonneg p order_trans [OF _ p(1)] order_trans [OF _ p(2)])
  next
    case True
    let ?s = "d_sqrt (d_div (d_mul (d_mul (of_int b) 32) 32) (of_int (w1 * h1)))"
    let ?w = "max 1 (round_half_even (d_mul (of_int w1) ?s))"
    let ?h = "max 1 (round_half_even (d_mul (of_int h1) ?s))"
    obtain w2 h2 where s: "shrink_to_budget b ?w ?h = (w2, h2)" by fastforce
    then have "patches w2 h2 \<le> b" "0 \<le> patches w2 h2"
      using shrink_to_budget_inside [OF b, of ?w ?h] by (simp_all add: patches_nonneg)
    moreover have "0 < w1 * h1" using p by simp
    ultimately show ?thesis using True
      by (intro exI [of _ w2] exI [of _ h2]) (simp add: patch_tokens_def f Let_def s del: of_int_mult)
  qed
  then obtain w2 h2 where *: "0 \<le> patches w2 h2 \<and> patches w2 h2 \<le> b"
    "patch_tokens w h edge (Some b) mult = \<lceil>d_mul (of_int (patches w2 h2)) mult\<rceil>" by auto
  have "d_mul (of_int (patches w2 h2)) mult \<le> d_mul (of_int b) mult"
    unfolding d_mul_def using *(1) m by (intro dec_round_mono mult_right_mono) auto
  then show ?thesis unfolding *(2) by (rule ceiling_mono)
qed

theorem patch_tokens_within_budget_witness:
  "patch_tokens 100000 80000 65535 (Some 2500) (lit 12 1) \<le> 3000"
proof -
  have "\<lceil>d_mul (of_int 2500) (lit 12 1)\<rceil> = 3000" by code_simp
  then show ?thesis
    using patch_tokens_within_budget [of 2500 "lit 12 1" 100000 80000 65535] by (simp add: lit_def)
qed

text \<open>Pricing an image with detail \<open>auto\<close> is a ceiling: no detail the caller can name, listed or
  not, is priced above it, and the two succeed and fail together.\<close>
theorem image_auto_is_ceiling:
  assumes "openai_image_tokens b mdl w h detail = Inr t"
  shows "\<exists>t'. openai_image_tokens b mdl w h ''auto'' = Inr t' \<and> t \<le> t'"
proof (cases "dget (b_tile_models b) (py_lower (py_strip mdl))")
  case (Some bt)
  have "py_lower (py_strip (or_str ''auto'' ''auto'')) = ''auto''" by code_simp
  with Some assms show ?thesis
    by (cases bt) (auto simp: openai_image_tokens_def Let_def split: if_splits)
next
  case None
  have a: "py_lower (py_strip (or_str ''auto'' ''auto'')) = ''auto''" by code_simp
  from None assms obtain mult where m: "dget (b_patch_multipliers b) (py_lower (py_strip mdl)) = Some mult"
    by (cases "dget (b_patch_multipliers b) (py_lower (py_strip mdl))")
       (auto simp: openai_image_tokens_def Let_def)
  define sizing where "sizing = (case dget (b_patch_sizing b) (py_lower (py_strip mdl)) of
    Some s \<Rightarrow> s | None \<Rightarrow> patch_sizing_fallback)"
  define table where "table = map (\<lambda>(name, edge, budget). (name, patch_tokens w h edge budget mult)) sizing"
  have tok: "openai_image_tokens b mdl w h d =
      (case (if py_lower (py_strip (or_str d ''auto'')) = ''auto'' then None
             else dget table (py_lower (py_strip (or_str d ''auto'')))) of
         Some t \<Rightarrow> Inr t
       | None \<Rightarrow> if table = [] then Inl PyValueError else Inr (Max (set (map snd table))))" for d
    using None m
    by (simp only: openai_image_tokens_def Let_def option.case table_def [symmetric] sizing_def [symmetric] if_True if_False
          split: option.split)
  have mem: "dget table k = Some v \<Longrightarrow> v \<in> set (map snd table)" for k v
    using map_of_SomeD [of table k v] by (force simp: dget_def)
  have "table \<noteq> []" "t \<in> set (map snd table)"
    using assms mem unfolding tok by (auto split: option.splits if_splits dest: Max_in)
  then show ?thesis unfolding tok by (simp only: a if_True option.case if_False) (auto intro: Max_ge)
qed

lemma bundled_images:
  "b_tile_models bundled = tile_models_const"
  "b_patch_multipliers bundled = patch_multiplier_const"
  "b_patch_sizing bundled = patch_sizing_const"
  by (simp_all add: bundled_def)

theorem image_auto_is_ceiling_witness:
  "\<exists>t'. openai_image_tokens bundled ''gpt-5.4'' 1024 768 ''auto'' = Inr t' \<and> 922 \<le> t'"
proof -
  have "openai_image_tokens bundled ''gpt-5.4'' 1024 768 ''high'' = Inr 922"
    unfolding openai_image_tokens_def bundled_images by code_simp
  from image_auto_is_ceiling [OF this] show ?thesis .
qed

end
