(* ===== verification/Local_Guards.thy ===== *)
theory Local_Guards
  imports Pyval
begin

text \<open>
  The client-side guards that run before a call leaves the process: the cost circuit breaker
  (kazenai/circuit_breaker.py), the cost trajectory predictor (kazenai/trajectory.py) and the loop
  detector (kazenai/loop_detector.py). Floats are exact rationals. The state serializer of the
  breaker and SHA-1 are code outside the module and are arguments.
\<close>

section \<open>Circuit breaker\<close>

record circuit_breaker =
  cb_budget :: "rat option"
  cb_soft_pct :: rat
  cb_opened :: bool

record breaker_decision =
  bd_opened :: bool
  bd_reason :: string
  bd_resume_token :: string

definition circuit_breaker_init :: "rat option \<Rightarrow> rat \<Rightarrow> circuit_breaker" where
  "circuit_breaker_init b p = \<lparr>cb_budget = b, cb_soft_pct = p, cb_opened = False\<rparr>"

text \<open>\<open>serializer\<close> is what the installed serializer returns or raises; \<open>None\<close> when there is none.\<close>

definition cb_evaluate :: "pyval res option \<Rightarrow> rat \<Rightarrow> circuit_breaker \<Rightarrow> breaker_decision \<times> circuit_breaker" where
  "cb_evaluate serializer projected cb =
     (case cb_budget cb of
        None \<Rightarrow> (\<lparr>bd_opened = False, bd_reason = [], bd_resume_token = []\<rparr>, cb)
      | Some budget \<Rightarrow>
          if cb_opened cb then (\<lparr>bd_opened = True, bd_reason = ''already_open'', bd_resume_token = []\<rparr>, cb)
          else let soft = budget * cb_soft_pct cb in
            if projected \<le> soft then (\<lparr>bd_opened = False, bd_reason = [], bd_resume_token = []\<rparr>, cb)
            else let token = (case serializer of Some (Inr v) \<Rightarrow> str_or_empty v | _ \<Rightarrow> [])
                 in (\<lparr>bd_opened = True, bd_reason = ''projected_cost_exceeds_soft_threshold'',
                      bd_resume_token = token\<rparr>, cb\<lparr>cb_opened := True\<rparr>))"

definition cb_reset :: "circuit_breaker \<Rightarrow> circuit_breaker" where
  "cb_reset cb = cb\<lparr>cb_opened := False\<rparr>"

section \<open>Cost trajectory\<close>

record trajectory =
  tr_budget :: "rat option"
  tr_soft_pause_pct :: rat
  tr_alpha :: rat
  tr_step :: nat
  tr_ema :: rat
  tr_spend :: rat
  tr_max_depth :: int

record trajectory_point =
  tp_step_index :: nat
  tp_current_spend_usd :: rat
  tp_projected_total_cost_usd :: rat
  tp_budget_usd :: "rat option"
  tp_soft_pause_threshold_usd :: "rat option"

definition trajectory_init :: "rat option \<Rightarrow> rat \<Rightarrow> rat \<Rightarrow> trajectory" where
  "trajectory_init b p a = \<lparr>tr_budget = b, tr_soft_pause_pct = p, tr_alpha = a, tr_step = 0,
     tr_ema = 0, tr_spend = 0, tr_max_depth = 0\<rparr>"

definition trajectory_update :: "rat option \<Rightarrow> int \<Rightarrow> trajectory \<Rightarrow> trajectory_point \<times> trajectory" where
  "trajectory_update step_cost depth t0 =
     (let c = (case step_cost of None \<Rightarrow> 0 | Some x \<Rightarrow> x);
          t1 = t0\<lparr>tr_step := tr_step t0 + 1, tr_spend := tr_spend t0 + c\<rparr>;
          t2 = (if depth > tr_max_depth t1 then t1\<lparr>tr_max_depth := depth\<rparr> else t1);
          t3 = (if tr_step t2 = 1 then t2\<lparr>tr_ema := c\<rparr>
                else t2\<lparr>tr_ema := tr_alpha t2 * c + (1 - tr_alpha t2) * tr_ema t2\<rparr>);
          projected = (case tr_budget t3 of None \<Rightarrow> tr_spend t3
            | Some _ \<Rightarrow> let mult = 1 + max 0 (of_int (tr_max_depth t3)) * (1 / 10)
                       in tr_spend t3 + tr_ema t3 * mult * 5);
          soft = (case tr_budget t3 of None \<Rightarrow> None | Some b \<Rightarrow> Some (b * tr_soft_pause_pct t3))
      in (\<lparr>tp_step_index = tr_step t3, tp_current_spend_usd = tr_spend t3,
           tp_projected_total_cost_usd = projected, tp_budget_usd = tr_budget t3,
           tp_soft_pause_threshold_usd = soft\<rparr>, t3))"

fun trajectory_run :: "(rat option \<times> int) list \<Rightarrow> trajectory \<Rightarrow> trajectory" where
  "trajectory_run [] t = t"
| "trajectory_run ((c, d) # cs) t = trajectory_run cs (snd (trajectory_update c d t))"

section \<open>Loop detector\<close>

definition loop_guard_modes :: "string list" where
  "loop_guard_modes = [''record'', ''block'', ''off'']"

definition resolve_loop_guard :: "pyval \<Rightarrow> string res" where
  "resolve_loop_guard mode =
     (case mode of
        PStr s \<Rightarrow> let v = py_lower (py_strip s)
                  in if v \<in> set loop_guard_modes then Inr v else Inl PyValueError
      | _ \<Rightarrow> Inl PyValueError)"

text \<open>The runs of \<open>[a-z0-9]+\<close> in a lowercased text.\<close>

definition token_char :: "char \<Rightarrow> bool" where
  "token_char c \<longleftrightarrow> (let n = char_code c in 97 \<le> n \<and> n \<le> 122 \<or> 48 \<le> n \<and> n \<le> 57)"

fun token_runs :: "string \<Rightarrow> string \<Rightarrow> string list" where
  "token_runs acc [] = (if acc = [] then [] else [rev acc])"
| "token_runs acc (c # cs) =
     (if token_char c then token_runs (c # acc) cs
      else if acc = [] then token_runs [] cs else rev acc # token_runs [] cs)"

definition normalize_tokens :: "string \<Rightarrow> string set" where
  "normalize_tokens text = (if text = [] then {} else set (token_runs [] (py_lower text)))"

definition jaccard :: "string set \<Rightarrow> string set \<Rightarrow> rat" where
  "jaccard a b =
     (if a = {} \<and> b = {} then 1
      else if a = {} \<or> b = {} then 0
      else let inter = card (a \<inter> b); union = card a + card b - inter
           in if union \<noteq> 0 then of_nat inter / of_nat union else 0)"

definition tool_fingerprint :: "(string \<Rightarrow> string) \<Rightarrow> string list \<Rightarrow> string" where
  "tool_fingerprint sha1 names =
     sha1 (joined [char_of (10 :: nat)] (map (\<lambda>t. py_lower (py_strip t)) (filter (\<lambda>t. py_strip t \<noteq> []) names)))"

record loop_scores =
  h1_jaccard :: rat
  h2_tools :: rat
  combined :: rat

record history =
  h_inputs :: "string set list"
  h_tool_fps :: "string list"
  h_tool_counts :: "(string \<times> int) list"

definition empty_history :: history where
  "empty_history = \<lparr>h_inputs = [], h_tool_fps = [], h_tool_counts = []\<rparr>"

record loop_detector =
  ld_max_history :: nat
  ld_tool_history :: nat
  ld_h1_threshold :: rat
  ld_max_subjects :: nat
  ld_shared :: history
  ld_subjects :: "(string \<times> history) list"

definition loop_detector_init :: "nat \<Rightarrow> nat \<Rightarrow> rat \<Rightarrow> int \<Rightarrow> loop_detector" where
  "loop_detector_init mh th thr ms =
     \<lparr>ld_max_history = mh, ld_tool_history = th, ld_h1_threshold = thr, ld_max_subjects = nat (max 0 ms),
      ld_shared = empty_history, ld_subjects = []\<rparr>"

text \<open>\<open>deque(maxlen=n).append\<close>, and \<open>popitem(last=False)\<close> until at most \<open>n\<close> entries are left.\<close>

definition keep_last :: "nat \<Rightarrow> 'a list \<Rightarrow> 'a list" where
  "keep_last n xs = drop (length xs - n) xs"

definition subject_key :: "loop_detector \<Rightarrow> string option \<Rightarrow> string option" where
  "subject_key d subject =
     (case subject of None \<Rightarrow> None
      | Some s \<Rightarrow> if py_strip s = [] \<or> ld_max_subjects d = 0 then None else Some (py_strip s))"

text \<open>\<open>_history_for\<close>: the history to update, and the detector with the subject made the most
  recently active one (its history is then the last entry of the ordered dictionary).\<close>

definition history_for :: "string option \<Rightarrow> loop_detector \<Rightarrow> history \<times> loop_detector" where
  "history_for key d =
     (case key of
        None \<Rightarrow> (ld_shared d, d)
      | Some k \<Rightarrow>
          (case dget (ld_subjects d) k of
             None \<Rightarrow> (empty_history,
               d\<lparr>ld_subjects := keep_last (ld_max_subjects d) (ld_subjects d @ [(k, empty_history)])\<rparr>)
           | Some h \<Rightarrow> (h, d\<lparr>ld_subjects := AList.delete k (ld_subjects d) @ [(k, h)]\<rparr>)))"

definition set_history :: "string option \<Rightarrow> history \<Rightarrow> loop_detector \<Rightarrow> loop_detector" where
  "set_history key h d =
     (case key of None \<Rightarrow> d\<lparr>ld_shared := h\<rparr> | Some k \<Rightarrow> d\<lparr>ld_subjects := dset k h (ld_subjects d)\<rparr>)"

fun scan_inputs :: "string set \<Rightarrow> string set list \<Rightarrow> rat \<Rightarrow> rat" where
  "scan_inputs tokens [] h1 = h1"
| "scan_inputs tokens (p # ps) h1 =
     (let sim = jaccard tokens p in
      if sim > h1 then if sim \<ge> 999 / 1000 then sim else scan_inputs tokens ps sim
      else scan_inputs tokens ps h1)"

text \<open>\<open>counts[k] += n\<close> on a \<open>Counter\<close>.\<close>

definition bump :: "string \<Rightarrow> int \<Rightarrow> (string \<times> int) list \<Rightarrow> (string \<times> int) list" where
  "bump k n cs = dset k ((case dget cs k of None \<Rightarrow> 0 | Some c \<Rightarrow> c) + n) cs"

definition forget_oldest :: "nat \<Rightarrow> history \<Rightarrow> (string \<times> int) list res" where
  "forget_oldest maxlen h =
     (if length (h_tool_fps h) = maxlen
      then case h_tool_fps h of
             [] \<Rightarrow> Inl (OtherExn ''IndexError'')
           | old # _ \<Rightarrow>
               let cs = bump old (- 1) (h_tool_counts h)
               in Inr (if (case dget cs old of None \<Rightarrow> 0 | Some c \<Rightarrow> c) \<le> 0 then AList.delete old cs else cs)
      else Inr (h_tool_counts h))"

definition score_tools :: "nat \<Rightarrow> string \<Rightarrow> history \<Rightarrow> rat res \<times> history" where
  "score_tools maxlen fp h =
     (case forget_oldest maxlen h of
        Inl e \<Rightarrow> (Inl e, h)
      | Inr cs \<Rightarrow>
          let h' = h\<lparr>h_tool_fps := keep_last maxlen (h_tool_fps h @ [fp]), h_tool_counts := bump fp 1 cs\<rparr>;
              c = (case dget (h_tool_counts h') fp of None \<Rightarrow> 0 | Some c \<Rightarrow> c)
          in (Inr (if c \<ge> 3 then 1 else of_int c / 3), h'))"

definition score ::
  "(string \<Rightarrow> string) \<Rightarrow> string \<Rightarrow> string list option \<Rightarrow> string option \<Rightarrow> loop_detector
     \<Rightarrow> loop_scores res \<times> loop_detector" where
  "score sha1 input_text tool_names subject d0 =
     (let tokens = normalize_tokens input_text;
          key = subject_key d0 subject;
          (hist, d) = history_for key d0;
          h1 = scan_inputs tokens (h_inputs hist) 0;
          hist1 = hist\<lparr>h_inputs := keep_last (ld_max_history d) (h_inputs hist @ [tokens])\<rparr>
      in case tool_names of
           None \<Rightarrow> (Inr \<lparr>h1_jaccard = h1, h2_tools = 0, combined = max h1 0\<rparr>, set_history key hist1 d)
         | Some names \<Rightarrow>
             (case score_tools (ld_tool_history d) (tool_fingerprint sha1 names) hist1 of
                (Inl e, h) \<Rightarrow> (Inl e, set_history key h d)
              | (Inr h2, h) \<Rightarrow> (Inr \<lparr>h1_jaccard = h1, h2_tools = h2, combined = max h1 h2\<rparr>, set_history key h d)))"

definition is_loop :: "loop_detector \<Rightarrow> loop_scores \<Rightarrow> bool" where
  "is_loop d s \<longleftrightarrow> h1_jaccard s > ld_h1_threshold d \<or> h2_tools s \<ge> 1"

fun score_all ::
  "(string \<Rightarrow> string) \<Rightarrow> (string \<times> string list option \<times> string option) list \<Rightarrow> loop_detector \<Rightarrow> loop_detector" where
  "score_all sha1 [] d = d"
| "score_all sha1 ((text, tools, subj) # cs) d = score_all sha1 cs (snd (score sha1 text tools subj d))"

section \<open>The breaker and the trajectory\<close>

fun evaluate_all :: "rat list \<Rightarrow> circuit_breaker \<Rightarrow> bool list \<times> circuit_breaker" where
  "evaluate_all [] cb = ([], cb)"
| "evaluate_all (p # ps) cb =
     (let (d, cb1) = cb_evaluate None p cb; (ds, cb2) = evaluate_all ps cb1 in (bd_opened d # ds, cb2))"

lemma evaluate_all_latched:
  assumes "cb_budget cb = Some b"
  shows "fst (evaluate_all ps cb) =
    map (\<lambda>i. cb_opened cb \<or> (\<exists>j \<le> i. ps ! j > b * cb_soft_pct cb)) [0 ..< length ps]"
  using assms
proof (induction ps arbitrary: cb)
  case (Cons p ps)
  have ex: "(\<exists>j \<le> Suc i. (p # ps) ! j > t) \<longleftrightarrow> p > t \<or> (\<exists>j \<le> i. ps ! j > t)" for i t
    by (metis Suc_le_mono Zero_not_Suc le0 not0_implies_Suc nth_Cons_0 nth_Cons_Suc)
  consider "cb_opened cb" | "\<not> cb_opened cb" "p \<le> b * cb_soft_pct cb"
    | "\<not> cb_opened cb" "\<not> p \<le> b * cb_soft_pct cb" by blast
  then show ?case
    by cases (use Cons in \<open>simp_all add: cb_evaluate_def map_upt_Suc Let_def ex split_beta del: upt_Suc\<close>)
qed simp

text \<open>Over any sequence of evaluations of a fresh breaker with a budget, the breaker reports open
  exactly from the first projection above the soft threshold on, and stays open.\<close>
theorem breaker_opens_and_latches:
  "fst (evaluate_all ps (circuit_breaker_init (Some b) pct)) =
     map (\<lambda>i. \<exists>j \<le> i. ps ! j > b * pct) [0 ..< length ps]"
  by (simp add: evaluate_all_latched [where b = b] circuit_breaker_init_def)

definition cost_of :: "rat option \<Rightarrow> rat" where
  "cost_of c = (case c of None \<Rightarrow> 0 | Some x \<Rightarrow> x)"

lemma ema_between:
  fixes a :: rat
  assumes "0 \<le> a" "a \<le> 1" "lo \<le> x" "x \<le> hi" "lo \<le> y" "y \<le> hi"
  shows "lo \<le> a * x + (1 - a) * y" "a * x + (1 - a) * y \<le> hi"
proof -
  have "a * lo + (1 - a) * lo \<le> a * x + (1 - a) * y"
    using assms by (intro add_mono mult_left_mono) auto
  then show "lo \<le> a * x + (1 - a) * y" by (simp add: algebra_simps)
  have "a * x + (1 - a) * y \<le> a * hi + (1 - a) * hi"
    using assms by (intro add_mono mult_left_mono) auto
  then show "a * x + (1 - a) * y \<le> hi" by (simp add: algebra_simps)
qed

lemma trajectory_run_bounds:
  assumes "0 \<le> tr_alpha t" "tr_alpha t \<le> 1" "\<forall>(c, d) \<in> set cs. lo \<le> cost_of c \<and> cost_of c \<le> hi"
    "tr_step t \<noteq> 0 \<Longrightarrow> lo \<le> tr_ema t \<and> tr_ema t \<le> hi"
  shows "tr_step (trajectory_run cs t) = tr_step t + length cs
    \<and> tr_spend (trajectory_run cs t) = tr_spend t + (\<Sum>(c, d)\<leftarrow>cs. cost_of c)
    \<and> (tr_step t \<noteq> 0 \<or> cs \<noteq> [] \<longrightarrow> lo \<le> tr_ema (trajectory_run cs t) \<and> tr_ema (trajectory_run cs t) \<le> hi)"
  using assms
proof (induction cs arbitrary: t)
  case (Cons cd cs)
  obtain c d where cd: "cd = (c, d)" by (cases cd)
  let ?t = "snd (trajectory_update c d t)"
  have f: "tr_alpha ?t = tr_alpha t" "tr_step ?t = tr_step t + 1" "tr_spend ?t = tr_spend t + cost_of c"
    "tr_ema ?t = (if tr_step t = 0 then cost_of c
       else tr_alpha t * cost_of c + (1 - tr_alpha t) * tr_ema t)"
    by (simp_all add: trajectory_update_def Let_def cost_of_def)
  have "lo \<le> tr_ema ?t \<and> tr_ema ?t \<le> hi"
    using Cons.prems ema_between [of "tr_alpha t" lo "cost_of c" hi "tr_ema t"] by (auto simp: f cd)
  then show ?case using Cons.IH [of ?t] Cons.prems by (simp add: f cd)
qed simp

text \<open>After any run of steps whose costs lie between two bounds, with a smoothing factor between
  0 and 1, the trajectory's spend is the sum of the step costs, its smoothed cost lies between the
  bounds, and the next projection is at least the spend by five times the lower bound.\<close>
theorem trajectory_tracks_cost:
  assumes "0 \<le> a" "a \<le> 1" "\<forall>(c, d) \<in> set cs. lo \<le> cost_of c \<and> cost_of c \<le> hi" "0 \<le> lo"
    and c: "lo \<le> cost_of c" "cost_of c \<le> hi"
  shows "tr_spend (trajectory_run cs (trajectory_init (Some b) p a)) = (\<Sum>(c, d)\<leftarrow>cs. cost_of c)
    \<and> (cs \<noteq> [] \<longrightarrow> lo \<le> tr_ema (trajectory_run cs (trajectory_init (Some b) p a)) \<and>
         tr_ema (trajectory_run cs (trajectory_init (Some b) p a)) \<le> hi)
    \<and> tp_projected_total_cost_usd (fst (trajectory_update c d (trajectory_run cs (trajectory_init (Some b) p a))))
        \<ge> (\<Sum>(c, d)\<leftarrow>cs. cost_of c) + cost_of c + 5 * lo"
proof -
  let ?i = "trajectory_init (Some b) p a" let ?t = "trajectory_run cs ?i"
  have keep: "tr_budget (trajectory_run cs t) = tr_budget t" "tr_alpha (trajectory_run cs t) = tr_alpha t" for t
    by (induction cs arbitrary: t) (auto simp: trajectory_update_def Let_def)
  have r: "tr_step ?t = length cs" "tr_spend ?t = (\<Sum>(c, d)\<leftarrow>cs. cost_of c)"
    "cs \<noteq> [] \<Longrightarrow> lo \<le> tr_ema ?t \<and> tr_ema ?t \<le> hi"
    using trajectory_run_bounds [of ?i cs lo hi] assms by (simp_all add: trajectory_init_def)
  let ?u = "snd (trajectory_update c d ?t)"
  have e: "lo \<le> tr_ema ?u"
    using assms ema_between [of a lo "cost_of c" hi "tr_ema ?t"] r keep
    by (auto simp: trajectory_update_def Let_def cost_of_def trajectory_init_def)
  define m where "m = 1 + max 0 (rat_of_int (tr_max_depth ?u)) * (1 / 10)"
  have "1 \<le> m" by (simp add: m_def)
  then have "lo * 5 \<le> tr_ema ?u * m * 5"
    using mult_mono [of lo "tr_ema ?u" 1 m] e \<open>0 \<le> lo\<close> by simp
  moreover have "tp_projected_total_cost_usd (fst (trajectory_update c d ?t)) =
      tr_spend ?t + cost_of c + tr_ema ?u * m * 5"
    using keep [of ?i] by (simp add: trajectory_update_def Let_def cost_of_def m_def trajectory_init_def)
  ultimately show ?thesis using r by simp
qed

theorem trajectory_tracks_cost_witness:
  "tp_projected_total_cost_usd (fst (trajectory_update (Some 2) 1
     (trajectory_run [(Some 1, 0), (Some 3, 2)] (trajectory_init (Some 100) (9/10) (3/10))))) \<ge> 11"
  using trajectory_tracks_cost [of "3/10" "[(Some 1, 0), (Some 3, 2)]" 1 3 "Some 2" 100 "9/10" 1]
  by (simp add: cost_of_def)

section \<open>The loop detector\<close>

lemma length_keep_last [simp]: "length (keep_last n xs) = min n (length xs)"
  by (simp add: keep_last_def)

lemma set_keep_last: "set (keep_last n xs) \<subseteq> set xs"
  by (simp add: keep_last_def set_drop_subset)

lemma keep_last_snoc:
  "length xs \<le> n \<Longrightarrow> 0 < n \<Longrightarrow> keep_last n (xs @ [x]) = (if length xs = n then tl xs else xs) @ [x]"
  by (cases xs) (auto simp: keep_last_def)

lemma keep_last_snoc_in: "0 < n \<Longrightarrow> x \<in> set (keep_last n (xs @ [x]))"
  by (simp add: keep_last_def)

text \<open>The counter of a history is the number of occurrences in its window.\<close>

definition counts_window :: "(string \<times> int) list \<Rightarrow> string list \<Rightarrow> bool" where
  "counts_window cs fps \<longleftrightarrow>
     (\<forall>k. dget cs k = (if k \<in> set fps then Some (int (count_list fps k)) else None))"

definition history_ok :: "nat \<Rightarrow> nat \<Rightarrow> history \<Rightarrow> bool" where
  "history_ok mh th h \<longleftrightarrow> length (h_inputs h) \<le> mh \<and> length (h_tool_fps h) \<le> th
     \<and> counts_window (h_tool_counts h) (h_tool_fps h)"

lemma counts_window_bump: "counts_window cs fps \<Longrightarrow> counts_window (bump k 1 cs) (fps @ [k])"
  by (auto simp: counts_window_def bump_def)

lemma forget_oldest_ok:
  assumes "counts_window (h_tool_counts h) (h_tool_fps h)" "0 < n"
  shows "\<exists>cs. forget_oldest n h = Inr cs \<and>
    counts_window cs (if length (h_tool_fps h) = n then tl (h_tool_fps h) else h_tool_fps h)"
proof (cases "length (h_tool_fps h) = n")
  case True
  then obtain old fps where f: "h_tool_fps h = old # fps" using assms(2) by (cases "h_tool_fps h") auto
  have "dget (h_tool_counts h) old = Some (1 + int (count_list fps old))"
    using assms(1) f by (simp add: counts_window_def)
  moreover have "int (count_list fps old) \<le> 0 \<longleftrightarrow> old \<notin> set fps"
    by (simp add: count_list_0_iff)
  ultimately show ?thesis
    using True assms(1) f count_list_0_iff [of fps old]
    by (auto simp: forget_oldest_def bump_def counts_window_def dget_delete Let_def)
next
  case False
  then show ?thesis using assms by (simp add: forget_oldest_def)
qed

lemma score_tools_ok:
  assumes h: "history_ok mh n h" and n: "0 < n"
  obtains h' where
    "score_tools n fp h = (Inr (let c = count_list (h_tool_fps h') fp in if c \<ge> 3 then 1 else of_nat c / 3), h')"
    "history_ok mh n h'" "h_inputs h' = h_inputs h" "h_tool_fps h' = keep_last n (h_tool_fps h @ [fp])"
proof -
  obtain cs where cs: "forget_oldest n h = Inr cs"
    and w: "counts_window cs (if length (h_tool_fps h) = n then tl (h_tool_fps h) else h_tool_fps h)"
    using forget_oldest_ok [of h n] h n by (auto simp: history_ok_def)
  let ?h = "h\<lparr>h_tool_fps := keep_last n (h_tool_fps h @ [fp]), h_tool_counts := bump fp 1 cs\<rparr>"
  have w': "counts_window (bump fp 1 cs) (keep_last n (h_tool_fps h @ [fp]))"
    using counts_window_bump [OF w, of fp] h n by (simp add: keep_last_snoc history_ok_def)
  then have "dget (bump fp 1 cs) fp = Some (int (count_list (keep_last n (h_tool_fps h @ [fp])) fp))"
    using keep_last_snoc_in [OF n] by (simp add: counts_window_def)
  then have "score_tools n fp h = (Inr (let c = count_list (h_tool_fps ?h) fp in if c \<ge> 3 then 1 else of_nat c / 3), ?h)"
    by (simp add: score_tools_def cs Let_def)
  moreover have "history_ok mh n ?h" using h w' by (simp add: history_ok_def)
  ultimately show ?thesis by (rule that) simp_all
qed

definition detector_ok :: "loop_detector \<Rightarrow> bool" where
  "detector_ok d \<longleftrightarrow>
     history_ok (ld_max_history d) (ld_tool_history d) (ld_shared d) \<and>
     (\<forall>(k, h) \<in> set (ld_subjects d). history_ok (ld_max_history d) (ld_tool_history d) h) \<and>
     distinct (map fst (ld_subjects d)) \<and> length (ld_subjects d) \<le> ld_max_subjects d"

lemma empty_history_ok [simp]: "history_ok mh th empty_history"
  by (simp add: history_ok_def empty_history_def counts_window_def)

text \<open>What \<open>_history_for\<close> does to a well-formed detector: the key is present (as the most recent
  entry), every other history is as before or dropped, and the bounds are kept.\<close>

lemma keep_last_front:
  "0 < m \<Longrightarrow> length xs \<le> m \<Longrightarrow> \<exists>ys. keep_last m (xs @ [x]) = ys @ [x] \<and> set ys \<subseteq> set xs
     \<and> length ys < m \<and> (distinct (map f xs) \<longrightarrow> distinct (map f ys))"
  by (rule exI [of _ "if length xs = m then tl xs else xs"])
     (cases xs; auto simp: keep_last_def)

lemma length_delete_present:
  "dget d k = Some h \<Longrightarrow> length (AList.delete k d) < length d"
  by (induction d) (auto simp: length_delete_le le_imp_less_Suc split: if_splits)

lemma history_for_ok:
  assumes d: "detector_ok d" and k: "0 < ld_max_subjects d" "history_for (Some k) d = (h, d')"
  obtains front where "ld_subjects d' = front @ [(k, h)]" "set front \<subseteq> set (ld_subjects d)"
    "detector_ok d'" "ld_shared d' = ld_shared d"
    "d' = d\<lparr>ld_subjects := ld_subjects d'\<rparr>" "history_ok (ld_max_history d) (ld_tool_history d) h"
proof (cases "dget (ld_subjects d) k")
  case None
  then have k': "k \<notin> set (map fst (ld_subjects d))" by (simp add: dget_def map_of_eq_None_iff)
  obtain front where f: "keep_last (ld_max_subjects d) (ld_subjects d @ [(k, empty_history)]) = front @ [(k, empty_history)]"
    "set front \<subseteq> set (ld_subjects d)" "length front < ld_max_subjects d" "distinct (map fst front)"
    using keep_last_front [of "ld_max_subjects d" "ld_subjects d" "(k, empty_history)" fst] d k
    by (auto simp: detector_ok_def)
  have kf: "k \<notin> fst ` set front" using k' f(2) by auto
  have "\<forall>(j, h) \<in> set front. history_ok (ld_max_history d) (ld_tool_history d) h"
    using d f(2) unfolding detector_ok_def by blast
  then show ?thesis using that [of front] d k(2) None kf f
    by (auto simp: history_for_def detector_ok_def)
next
  case (Some h0)
  let ?f = "AList.delete k (ld_subjects d)"
  have "set ?f \<subseteq> set (ld_subjects d)" by (simp add: AList.delete_eq)
  moreover have "length ?f < length (ld_subjects d)" using Some by (rule length_delete_present)
  moreover have "distinct (map fst ?f)" "k \<notin> fst ` set ?f"
    using d by (simp_all add: detector_ok_def distinct_delete AList.delete_notin_dom)
  ultimately show ?thesis using that [of ?f] d k Some dget_in [OF Some]
    by (fastforce simp: history_for_def detector_ok_def)
qed

text \<open>The history a key reads, and what one call to \<open>score\<close> does to it.\<close>

definition detector_history :: "loop_detector \<Rightarrow> string option \<Rightarrow> history" where
  "detector_history d key = (case key of None \<Rightarrow> ld_shared d
     | Some k \<Rightarrow> (case dget (ld_subjects d) k of None \<Rightarrow> empty_history | Some h \<Rightarrow> h))"

lemma detector_history_ok:
  "detector_ok d \<Longrightarrow> history_ok (ld_max_history d) (ld_tool_history d) (detector_history d key)"
  by (auto simp: detector_history_def detector_ok_def split: option.splits dest!: dget_in)

text \<open>Looking a history up and storing it back changes only that history, up to evictions.\<close>

lemma dget_subset:
  "set xs \<subseteq> set ys \<Longrightarrow> distinct (map fst ys) \<Longrightarrow> dget xs k = None \<or> dget xs k = dget ys k"
  by (cases "dget xs k") (auto dest!: dget_in intro!: in_dget [symmetric])

lemma store_history:
  assumes d: "detector_ok d" and k: "history_for key d = (h0, d1)" "\<And>k. key = Some k \<Longrightarrow> 0 < ld_max_subjects d"
    and h: "history_ok (ld_max_history d) (ld_tool_history d) h"
  shows "h0 = detector_history d key \<and> detector_ok (set_history key h d1) \<and>
    detector_history (set_history key h d1) key = h \<and>
    (key \<noteq> None \<longrightarrow> ld_shared (set_history key h d1) = ld_shared d) \<and>
    (\<forall>key'. key' \<noteq> key \<longrightarrow> detector_history (set_history key h d1) key' \<in> {detector_history d key', empty_history}) \<and>
    set_history key h d1 = d\<lparr>ld_shared := ld_shared (set_history key h d1),
      ld_subjects := ld_subjects (set_history key h d1)\<rparr> \<and>
    ld_max_history d1 = ld_max_history d \<and> ld_tool_history d1 = ld_tool_history d"
proof (cases key)
  case None
  then show ?thesis using d k(1) h
    by (auto simp: history_for_def set_history_def detector_history_def detector_ok_def)
next
  case (Some k0)
  from history_for_ok [OF d k(2) [OF Some] k(1) [unfolded Some]] obtain front where f:
    "ld_subjects d1 = front @ [(k0, h0)]" "set front \<subseteq> set (ld_subjects d)" "detector_ok d1"
    "ld_shared d1 = ld_shared d" "d1 = d\<lparr>ld_subjects := ld_subjects d1\<rparr>" .
  have par: "ld_max_history d1 = ld_max_history d" "ld_tool_history d1 = ld_tool_history d"
    "ld_max_subjects d1 = ld_max_subjects d" by (subst f(5), simp)+
  have dist: "distinct (map fst (ld_subjects d1))" using f(3) by (simp add: detector_ok_def)
  have "history_ok (ld_max_history d1) (ld_tool_history d1) h'" if "(j, h') \<in> set (dset k0 h (ld_subjects d1))" for j h'
    using that set_dset [OF dist, of k0 h] f(3) h by (auto simp: detector_ok_def par)
  moreover have "map fst (dset k0 h (ld_subjects d1)) = map fst (ld_subjects d1)"
    by (simp add: map_fst_dset f(1))
  then have "distinct (map fst (dset k0 h (ld_subjects d1)))"
    "length (dset k0 h (ld_subjects d1)) = length (ld_subjects d1)"
    using dist by (simp, metis length_map)
  ultimately have ok: "detector_ok (set_history key h d1)"
    using f(3) by (auto simp: set_history_def Some detector_ok_def)
  have other: "dget (ld_subjects d1) j = None \<or> dget (ld_subjects d1) j = dget (ld_subjects d) j" if "j \<noteq> k0" for j
  proof -
    have "dget (ld_subjects d1) j = dget front j"
      using that by (simp add: f(1) dget_def map_add_def split: option.split)
    then show ?thesis using dget_subset [OF f(2), of j] d by (simp add: detector_ok_def)
  qed
  have "h0 = detector_history d key"
    using k(1) by (auto simp: Some history_for_def detector_history_def split: option.splits)
  moreover have "detector_history (set_history key h d1) key' \<in> {detector_history d key', empty_history}"
    if "key' \<noteq> key" for key'
  proof (cases key')
    case None
    then show ?thesis by (simp add: detector_history_def set_history_def \<open>key = Some k0\<close> f(4))
  next
    case (Some j)
    with that \<open>key = Some k0\<close> have "j \<noteq> k0" by simp
    from other [OF this] this show ?thesis
      by (auto simp: detector_history_def set_history_def Some \<open>key = Some k0\<close> split: option.split)
  qed
  moreover have "set_history key h d1 = d\<lparr>ld_shared := ld_shared (set_history key h d1),
      ld_subjects := ld_subjects (set_history key h d1)\<rparr>"
    by (subst f(5)) (simp add: set_history_def Some f(4))
  moreover have "detector_history (set_history key h d1) key = h"
    by (simp add: set_history_def Some detector_history_def)
  moreover have "ld_shared (set_history key h d1) = ld_shared d"
    by (simp add: set_history_def Some f(4))
  ultimately show ?thesis using ok par(1,2) by blast
qed

definition tool_window :: "(string \<Rightarrow> string) \<Rightarrow> nat \<Rightarrow> string list option \<Rightarrow> history \<Rightarrow> string list" where
  "tool_window sha1 n tools h = (case tools of None \<Rightarrow> h_tool_fps h
     | Some names \<Rightarrow> keep_last n (h_tool_fps h @ [tool_fingerprint sha1 names]))"

definition tool_score :: "(string \<Rightarrow> string) \<Rightarrow> nat \<Rightarrow> string list option \<Rightarrow> history \<Rightarrow> rat" where
  "tool_score sha1 n tools h = (case tools of None \<Rightarrow> 0
     | Some names \<Rightarrow>
         let c = count_list (tool_window sha1 n tools h) (tool_fingerprint sha1 names)
         in if c \<ge> 3 then 1 else of_nat c / 3)"

lemma subject_key_pos: "subject_key d s = Some k \<Longrightarrow> 0 < ld_max_subjects d"
  by (auto simp: subject_key_def split: option.splits if_splits)

lemma score_effect:
  fixes sha1 :: "string \<Rightarrow> string"
  assumes d: "detector_ok d" and n: "0 < ld_tool_history d"
    and sc: "score sha1 text tools subj d = (r, d')"
  defines "key \<equiv> subject_key d subj" and "hist \<equiv> detector_history d (subject_key d subj)"
  shows "(\<exists>s. r = Inr s \<and> h1_jaccard s = scan_inputs (normalize_tokens text) (h_inputs hist) 0 \<and>
      h2_tools s = tool_score sha1 (ld_tool_history d) tools hist \<and> combined s = max (h1_jaccard s) (h2_tools s)) \<and>
    detector_ok d' \<and>
    h_inputs (detector_history d' key) = keep_last (ld_max_history d) (h_inputs hist @ [normalize_tokens text]) \<and>
    h_tool_fps (detector_history d' key) = tool_window sha1 (ld_tool_history d) tools hist \<and>
    (key \<noteq> None \<longrightarrow> ld_shared d' = ld_shared d) \<and>
    (\<forall>key'. key' \<noteq> key \<longrightarrow> detector_history d' key' \<in> {detector_history d key', empty_history}) \<and>
    d' = d\<lparr>ld_shared := ld_shared d', ld_subjects := ld_subjects d'\<rparr>"
proof -
  obtain h0 d1 where hf: "history_for key d = (h0, d1)" by fastforce
  have pos: "0 < ld_max_subjects d" if "key = Some k" for k
    using that subject_key_pos by (simp add: key_def)
  note st = store_history [OF d hf pos]
  have h0: "h0 = hist" "ld_max_history d1 = ld_max_history d" "ld_tool_history d1 = ld_tool_history d"
    using st [OF _ empty_history_ok] by (simp_all add: hist_def key_def)
  have hok: "history_ok (ld_max_history d) (ld_tool_history d) hist"
    using detector_history_ok [OF d] by (simp add: hist_def)
  let ?h1 = "hist\<lparr>h_inputs := keep_last (ld_max_history d) (h_inputs hist @ [normalize_tokens text])\<rparr>"
  have h1ok: "history_ok (ld_max_history d) (ld_tool_history d) ?h1"
    using hok by (simp add: history_ok_def)
  show ?thesis
  proof (cases tools)
    case None
    from sc have r: "r = Inr \<lparr>h1_jaccard = scan_inputs (normalize_tokens text) (h_inputs hist) 0,
        h2_tools = 0, combined = max (scan_inputs (normalize_tokens text) (h_inputs hist) 0) 0\<rparr>"
      and d': "d' = set_history key ?h1 d1"
      by (simp_all add: score_def Let_def hf None h0 flip: key_def)
    show ?thesis using st [OF _ h1ok] unfolding d' r
      by (simp add: tool_window_def tool_score_def None)
  next
    case (Some names)
    from score_tools_ok [OF h1ok n, of "tool_fingerprint sha1 names"] obtain h2 where h2:
      "score_tools (ld_tool_history d) (tool_fingerprint sha1 names) ?h1 =
         (Inr (let c = count_list (h_tool_fps h2) (tool_fingerprint sha1 names) in if c \<ge> 3 then 1 else of_nat c / 3), h2)"
      "history_ok (ld_max_history d) (ld_tool_history d) h2" "h_inputs h2 = h_inputs ?h1"
      "h_tool_fps h2 = keep_last (ld_tool_history d) (h_tool_fps ?h1 @ [tool_fingerprint sha1 names])" .
    have ts: "tool_score sha1 (ld_tool_history d) tools hist =
        (let c = count_list (h_tool_fps h2) (tool_fingerprint sha1 names) in if c \<ge> 3 then 1 else of_nat c / 3)"
      by (simp add: tool_score_def tool_window_def Some h2(4))
    from sc have r: "r = Inr \<lparr>h1_jaccard = scan_inputs (normalize_tokens text) (h_inputs hist) 0,
        h2_tools = tool_score sha1 (ld_tool_history d) tools hist,
        combined = max (scan_inputs (normalize_tokens text) (h_inputs hist) 0)
          (tool_score sha1 (ld_tool_history d) tools hist)\<rparr>"
      and d': "d' = set_history key h2 d1"
      by (auto simp: score_def hf Some h0 h2(1) ts [unfolded Some] Let_def key_def [symmetric])
    show ?thesis using st [OF _ h2(2)] unfolding d' r
      by (simp add: tool_window_def Some h2(3,4))
  qed
qed

lemma score_all_ok:
  "detector_ok d \<Longrightarrow> 0 < ld_tool_history d \<Longrightarrow>
     detector_ok (score_all sha1 cs d) \<and> ld_max_history (score_all sha1 cs d) = ld_max_history d
     \<and> ld_tool_history (score_all sha1 cs d) = ld_tool_history d
     \<and> ld_h1_threshold (score_all sha1 cs d) = ld_h1_threshold d
     \<and> ld_max_subjects (score_all sha1 cs d) = ld_max_subjects d"
proof (induction cs arbitrary: d)
  case (Cons c cs)
  obtain tx tools subj where c: "c = (tx, tools, subj)" by (cases c)
  obtain r d' where sc: "score sha1 tx tools subj d = (r, d')" by fastforce
  note e = score_effect [OF Cons.prems sc]
  have "ld_max_history d' = ld_max_history d" "ld_tool_history d' = ld_tool_history d"
    "ld_h1_threshold d' = ld_h1_threshold d" "ld_max_subjects d' = ld_max_subjects d"
    using e by (metis loop_detector.select_convs loop_detector.surjective loop_detector.update_convs)+
  then show ?case using Cons.IH [of d'] Cons.prems e by (simp add: c sc)
qed simp

lemma init_ok: "detector_ok (loop_detector_init mh th thr ms)"
  by (simp add: detector_ok_def loop_detector_init_def)

text \<open>Whatever requests a fresh detector scores, it keeps at most \<open>max_subjects\<close> customers, each
  named once, no history grows beyond its bounds, and every tool counter equals the number of
  occurrences in the history's window.\<close>
theorem loop_detector_bounded:
  assumes th: "0 < th" and d: "d = score_all sha1 cs (loop_detector_init mh th thr ms)"
  shows "length (ld_subjects d) \<le> nat (max 0 ms) \<and> distinct (map fst (ld_subjects d)) \<and>
    (\<forall>h \<in> insert (ld_shared d) (snd ` set (ld_subjects d)).
       length (h_inputs h) \<le> mh \<and> length (h_tool_fps h) \<le> th \<and>
       (\<forall>fp. dget (h_tool_counts h) fp =
          (if fp \<in> set (h_tool_fps h) then Some (int (count_list (h_tool_fps h) fp)) else None)))"
proof -
  have "detector_ok d" "ld_max_history d = mh" "ld_tool_history d = th" "ld_max_subjects d = nat (max 0 ms)"
    using score_all_ok [OF init_ok, of mh th thr ms sha1 cs] th by (simp_all add: d loop_detector_init_def)
  then show ?thesis
    by (auto simp: detector_ok_def history_ok_def counts_window_def)
qed

theorem loop_detector_bounded_witness:
  "length (ld_subjects (score_all id [(''a'', Some [''t''], Some ''x''), (''b'', None, Some ''y'')]
     (loop_detector_init 1 1 (17/20) 1))) \<le> 1"
  using loop_detector_bounded [of 1 _ id "[(''a'', Some [''t''], Some ''x''), (''b'', None, Some ''y'')]" 1 "17/20" 1, OF _ refl]
  by simp

text \<open>In any reachable detector, the scores of a request depend only on the history of its own
  customer: the best similarity with a retained input and the number of times its tool sequence
  occurs in the window. The request is appended to that history; every other customer's history is
  left alone or evicted whole, and the shared history of calls naming no customer is never touched
  by a call that names one.\<close>
theorem score_is_per_subject:
  assumes th: "0 < th" and d: "d = score_all sha1 cs (loop_detector_init mh th thr ms)"
    and sc: "score sha1 text tools subj d = (r, d')"
  shows "(\<exists>s. r = Inr s \<and>
        h1_jaccard s = scan_inputs (normalize_tokens text) (h_inputs (detector_history d (subject_key d subj))) 0 \<and>
        h2_tools s = tool_score sha1 th tools (detector_history d (subject_key d subj))) \<and>
    h_inputs (detector_history d' (subject_key d subj)) =
      keep_last mh (h_inputs (detector_history d (subject_key d subj)) @ [normalize_tokens text]) \<and>
    h_tool_fps (detector_history d' (subject_key d subj)) =
      tool_window sha1 th tools (detector_history d (subject_key d subj)) \<and>
    (\<forall>key. key \<noteq> subject_key d subj \<longrightarrow>
       detector_history d' key \<in> {detector_history d key, empty_history} \<and>
       (key = None \<longrightarrow> detector_history d' key = detector_history d key))"
proof -
  have *: "detector_ok d" "ld_max_history d = mh" "ld_tool_history d = th"
    using score_all_ok [OF init_ok, of mh th thr ms sha1 cs] th by (simp_all add: d loop_detector_init_def)
  show ?thesis using score_effect [OF *(1) _ sc] th
    by (auto simp: *(2,3) detector_history_def)
qed

theorem score_is_per_subject_witness:
  "\<exists>r d'. score id ''hello world'' (Some [''search'']) (Some ''acme'')
       (score_all id [(''hello'', None, None)] (loop_detector_init 32 64 (17/20) 64)) = (r, d') \<and>
     detector_history d' None =
       detector_history (score_all id [(''hello'', None, None)] (loop_detector_init 32 64 (17/20) 64)) None"
proof -
  let ?d = "score_all id [(''hello'', None, None)] (loop_detector_init 32 64 (17/20) 64)"
  obtain r d' where sc: "score id ''hello world'' (Some [''search'']) (Some ''acme'') ?d = (r, d')" by fastforce
  have "subject_key ?d (Some ''acme'') \<noteq> None" by code_simp
  then show ?thesis using score_is_per_subject [OF _ refl sc] sc by auto
qed

lemma jaccard_same [simp]: "finite t \<Longrightarrow> jaccard t t = 1"
  by (cases "t = {}") (simp_all add: jaccard_def Let_def)

lemma finite_normalize_tokens [simp]: "finite (normalize_tokens text)"
  by (simp add: normalize_tokens_def)

lemma scan_inputs_ge: "h1 \<le> scan_inputs t ps h1"
  by (induction t ps h1 rule: scan_inputs.induct) (auto simp: Let_def)

lemma scan_inputs_repeat:
  "finite t \<Longrightarrow> t \<in> set ps \<Longrightarrow> 999 / 1000 \<le> scan_inputs t ps h1"
proof (induction ps arbitrary: h1)
  case (Cons p ps)
  have "999 / 1000 \<le> scan_inputs t ps h1" if "1 \<le> h1"
    using that scan_inputs_ge [of h1 t ps] by linarith
  then show ?case using Cons by (auto simp: Let_def not_less)
qed simp

text \<open>A request equal to one still in its customer's window is reported as a loop (for any
  threshold below 0.999), and so is the third occurrence of one tool sequence in the window; the
  customer's earlier requests decide, whatever other customers sent in between.\<close>
theorem repeats_are_loops:
  assumes th: "0 < th" and d: "d = score_all sha1 cs (loop_detector_init mh th thr ms)"
    and sc: "score sha1 text tools subj d = (Inr s, d')"
    and rep: "normalize_tokens text \<in> set (h_inputs (detector_history d (subject_key d subj))) \<and> thr < 999 / 1000
      \<or> (\<exists>names. tools = Some names \<and>
           count_list (tool_window sha1 th tools (detector_history d (subject_key d subj)))
             (tool_fingerprint sha1 names) \<ge> 3)"
  shows "is_loop d' s"
proof -
  have *: "detector_ok d" "ld_tool_history d = th" "ld_h1_threshold d = thr"
    using score_all_ok [OF init_ok, of mh th thr ms sha1 cs] th by (simp_all add: d loop_detector_init_def)
  note e = score_effect [OF *(1) _ sc]
  have thr': "ld_h1_threshold d' = thr"
    using e th *(2,3) by (metis loop_detector.select_convs(3) loop_detector.surjective loop_detector.update_convs(5,6))
  from rep show ?thesis
  proof (elim disjE conjE exE)
    assume "normalize_tokens text \<in> set (h_inputs (detector_history d (subject_key d subj)))" "thr < 999 / 1000"
    then show ?thesis
      using e th *(2) scan_inputs_repeat [of "normalize_tokens text" "h_inputs (detector_history d (subject_key d subj))" 0]
      by (auto simp: is_loop_def thr')
  next
    fix names assume "tools = Some names" "count_list (tool_window sha1 th tools
      (detector_history d (subject_key d subj))) (tool_fingerprint sha1 names) \<ge> 3"
    then show ?thesis using e th *(2) by (auto simp: is_loop_def tool_score_def Let_def)
  qed
qed

theorem repeats_are_loops_witness:
  "\<exists>s d'. score id ''retry the tool'' None (Some ''acme'')
       (score_all id [(''Retry, the TOOL!'', None, Some '' acme ''), (''x'', None, Some ''b'')]
         (loop_detector_init 32 64 (17/20) 64)) = (Inr s, d') \<and> is_loop d' s"
proof -
  let ?d = "score_all id [(''Retry, the TOOL!'', None, Some '' acme ''), (''x'', None, Some ''b'')]
         (loop_detector_init 32 64 (17/20) 64)"
  obtain r d' where sc: "score id ''retry the tool'' None (Some ''acme'') ?d = (r, d')" by fastforce
  from score_is_per_subject [OF _ refl sc] obtain s where s: "r = Inr s" by auto
  have "normalize_tokens ''retry the tool'' \<in> set (h_inputs (detector_history ?d (subject_key ?d (Some ''acme''))))"
    by code_simp
  then show ?thesis using repeats_are_loops [OF _ refl sc [unfolded s]] sc s by auto
qed

end
