(* ===== verification/Lifecycle_Config.thy ===== *)
theory Lifecycle_Config
  imports Pyval
begin

text \<open>
  One deployment mode and one effective lifecycle from the environment:
  kazenai/deployment.py and kazenai/lifecycle_config.py. The environment is an association list.
  Log messages are not modelled; the \<open>sources\<close>, \<open>deprecations\<close> and \<open>diagnostics\<close> of the
  snapshot are.
\<close>

type_synonym env = "(string \<times> string) list"

text \<open>\<open>_norm(env.get(k))\<close> and \<open>os.getenv(k, "").strip().lower()\<close>.\<close>

definition env_norm :: "env \<Rightarrow> string \<Rightarrow> string" where
  "env_norm e k = (case dget e k of None \<Rightarrow> [] | Some v \<Rightarrow> py_lower (py_strip v))"

definition env_set :: "env \<Rightarrow> string \<Rightarrow> bool" where
  "env_set e k \<longleftrightarrow> (case dget e k of None \<Rightarrow> False | Some v \<Rightarrow> py_strip v \<noteq> [])"

section \<open>Deployment mode\<close>

definition mode_env_vars :: "string list" where
  "mode_env_vars = [''KAZENAI_DEPLOYMENT_MODE'', ''KAZENAI_ENV'', ''KAZENAI_FINOPS_ENV'', ''KAZENAI_AGENTLENS_ENV'']"

definition mode_aliases :: "(string \<times> string) list" where
  "mode_aliases = [
     (''development'', ''development''), (''dev'', ''development''), (''local'', ''development''),
     (''test'', ''test''), (''testing'', ''test''), (''ci'', ''test''),
     (''staging'', ''staging''), (''stage'', ''staging''),
     (''production'', ''production''), (''prod'', ''production''), (''saas'', ''production'')]"

definition restrictiveness :: "string \<Rightarrow> nat" where
  "restrictiveness m = (if m = ''development'' then 0 else if m = ''test'' then 1
     else if m = ''staging'' then 2 else 3)"

definition production_like_modes :: "string list" where
  "production_like_modes = [''staging'', ''production'']"

definition deployment_mode_signals :: "env \<Rightarrow> (string \<times> string) list" where
  "deployment_mode_signals e =
     filter (\<lambda>(_, raw). raw \<noteq> []) (map (\<lambda>k. (k, env_norm e k)) mode_env_vars)"

definition canonical_mode :: "bool \<Rightarrow> string \<Rightarrow> string res" where
  "canonical_mode strict raw = (case dget mode_aliases raw of
       Some m \<Rightarrow> Inr m
     | None \<Rightarrow> if strict then Inl DeploymentModeConflict else Inr ''production'')"

text \<open>\<open>max(distinct, key=rank)\<close> on a non-empty list.\<close>

fun most_restrictive :: "string list \<Rightarrow> string" where
  "most_restrictive [] = ''development''"
| "most_restrictive [m] = m"
| "most_restrictive (m # m' # ms) =
     most_restrictive ((if restrictiveness m' > restrictiveness m then m' else m) # ms)"

definition resolve_deployment_mode :: "env \<Rightarrow> bool \<Rightarrow> string res" where
  "resolve_deployment_mode e strict =
     bnd (map_res (\<lambda>(_, raw). canonical_mode strict raw) (deployment_mode_signals e)) (\<lambda>modes.
       if modes = [] then Inr ''development''
       else let distinct = remdups modes in
         if length distinct > 1
         then if strict then Inl DeploymentModeConflict else Inr (most_restrictive distinct)
         else Inr (hd distinct))"

definition is_production_like :: "env \<Rightarrow> bool" where
  "is_production_like e \<longleftrightarrow>
     (case resolve_deployment_mode e False of Inr m \<Rightarrow> m \<in> set production_like_modes | Inl _ \<Rightarrow> False)"

definition validate_deployment_mode_startup :: "env \<Rightarrow> string res" where
  "validate_deployment_mode_startup e =
     (case resolve_deployment_mode e True of Inr m \<Rightarrow> Inr m | Inl _ \<Rightarrow> Inl SystemExit)"

definition env_truthy :: "env \<Rightarrow> string \<Rightarrow> bool option" where
  "env_truthy e k = (let raw = env_norm e k in
     if raw \<in> {''1'', ''true'', ''yes'', ''on''} then Some True
     else if raw \<in> {''0'', ''false'', ''no'', ''off''} then Some False else None)"

definition is_dev_env :: "env \<Rightarrow> bool" where
  "is_dev_env e \<longleftrightarrow> env_norm e ''KAZENAI_ENV'' = ''dev''"

definition enforcement_mode_value :: "env \<Rightarrow> string \<Rightarrow> string" where
  "enforcement_mode_value e k =
     (let raw = env_norm e k in if raw \<in> {''fail_closed'', ''fail_open''} then raw else ''fail_closed'')"

definition enforcement_vars :: "string list" where
  "enforcement_vars =
     [''KAZENAI_ENFORCEMENT_MODE'', ''KAZENAI_FINOPS_ENFORCEMENT_MODE'', ''KAZENAI_FINOPS_RESERVATION_MODE'']"

definition validate_prod_fail_closed_posture :: "env \<Rightarrow> unit res" where
  "validate_prod_fail_closed_posture e =
     (if \<not> is_production_like e then Inr ()
      else for_each (\<lambda>var. raise_if (env_norm e var = ''fail_open'') SystemExit) enforcement_vars)"

definition canonical_default_org :: "env \<Rightarrow> string \<Rightarrow> string" where
  "canonical_default_org e dev_default =
     (case dget e ''KAZENAI_DEFAULT_ORG_ID'' of None \<Rightarrow> dev_default
      | Some v \<Rightarrow> if py_strip v \<noteq> [] then py_strip v else dev_default)"

definition require_canonical_default_org :: "env \<Rightarrow> unit res" where
  "require_canonical_default_org e =
     raise_if (is_production_like e \<and> \<not> env_set e ''KAZENAI_DEFAULT_ORG_ID'') SystemExit"

section \<open>Effective lifecycle\<close>

record effective_lifecycle =
  lc_profile :: string
  lc_accounting_mode :: string
  lc_failure_policy :: string
  lc_accounting_owner :: string
  lc_lifecycle_version :: string
  lc_config_version :: string
  lc_source :: string
  lc_sources :: "(string \<times> string) list"
  lc_deprecations :: "string list"
  lc_diagnostics :: "string list"

definition uses_reservation_settlement :: "effective_lifecycle \<Rightarrow> bool" where
  "uses_reservation_settlement c \<longleftrightarrow>
     lc_profile c = ''control'' \<and> lc_accounting_mode c = ''reservation_settlement''"

definition is_control :: "effective_lifecycle \<Rightarrow> bool" where
  "is_control c \<longleftrightarrow> lc_profile c = ''control''"

definition profile_env_keys :: "string list" where
  "profile_env_keys = [''KAZENAI_FINOPS_CONTROL_PROFILE'', ''KAZENAI_CONTROL_PROFILE'', ''KAZENAI_PROFILE'']"

definition strict_env_key :: string where "strict_env_key = ''KAZENAI_FINOPS_STRICT_BUDGET''"

definition finops_url_keys :: "string list" where
  "finops_url_keys = [''KAZENAI_FINOPS_URL'', ''KAZENAI_FINOPS_INGEST_URL'']"

definition lifecycle_version_control :: string where
  "lifecycle_version_control = ''reservation.lifecycle.v1''"

definition lifecycle_version_legacy :: string where
  "lifecycle_version_legacy = ''legacy.check_reconcile.v1''"

definition classify_profile_token :: "string \<Rightarrow> string option res" where
  "classify_profile_token raw =
     (if raw = [] then Inr None
      else if raw \<in> {''1'', ''true'', ''yes'', ''control''} then Inr (Some ''control'')
      else if raw \<in> {''0'', ''false'', ''no'', ''off'', ''legacy'', ''disabled''} then Inr (Some ''legacy'')
      else Inl (LifecycleConfigError ''invalid''))"

definition classify_strict_token :: "string \<Rightarrow> bool option res" where
  "classify_strict_token raw =
     (if raw = [] then Inr None
      else if raw \<in> {''1'', ''true'', ''yes'', ''strict''} then Inr (Some True)
      else if raw \<in> {''0'', ''false'', ''no'', ''off'', ''disabled''} then Inr (Some False)
      else Inl (LifecycleConfigError ''invalid''))"

definition map_accounting_owner_to_enforcement :: "string \<Rightarrow> string" where
  "map_accounting_owner_to_enforcement owner =
     (if py_lower (py_strip owner) \<in> {''server'', ''gateway''} then ''gateway'' else ''sdk'')"

text \<open>\<open>tuple(dict.fromkeys(xs))\<close>.\<close>

definition first_occurrences :: "string list \<Rightarrow> string list" where
  "first_occurrences xs = rev (remdups (rev xs))"

text \<open>The loop over the profile aliases: \<open>(sources, classified, deprecations)\<close>.\<close>

fun scan_profiles ::
  "env \<Rightarrow> string list \<Rightarrow> ((string \<times> string) list \<times> (string \<times> string) list \<times> string list) res" where
  "scan_profiles e [] = Inr ([], [], [])"
| "scan_profiles e (key # keys) =
     (let raw = env_norm e key in
      if raw = [] then scan_profiles e keys
      else bnd (classify_profile_token raw) (\<lambda>lbl.
           bnd (scan_profiles e keys) (\<lambda>(sources, classified, deprecations).
             (case lbl of
                None \<Rightarrow> Inr ((key, raw) # sources, classified, deprecations)
              | Some l \<Rightarrow> Inr ((key, raw) # sources, (key, l) # classified,
                  (if key \<noteq> ''KAZENAI_FINOPS_CONTROL_PROFILE''
                   then [key @ '' is a compatible alias; prefer KAZENAI_FINOPS_CONTROL_PROFILE'']
                   else []) @ deprecations)))))"

definition strict_deprecation :: string where
  "strict_deprecation = ''KAZENAI_FINOPS_STRICT_BUDGET selects failure_policy only; it does not enable reservation.lifecycle.v1''"

definition legacy_deprecation :: string where
  "legacy_deprecation = ''explicit legacy lifecycle is deprecated and will be removed in KazenAI 2.0''"

text \<open>The Control branch and the legacy branch: \<open>(failure_policy, source, diagnostics)\<close>.\<close>

definition control_policy :: "env \<Rightarrow> bool option \<Rightarrow> bool \<Rightarrow> string \<Rightarrow> (string \<times> string \<times> string list) res" where
  "control_policy e strict_enabled allow_ambiguous source =
     (if strict_enabled = Some False \<and> \<not> allow_ambiguous then Inl (LifecycleConfigError ''conflict'')
      else let d1 = (if strict_enabled = Some False \<and> allow_ambiguous
                     then [''ambiguous_migration: Control profile retained fail_closed despite STRICT_BUDGET disable'']
                     else []);
               enf = env_norm e ''KAZENAI_ENFORCEMENT_MODE'';
               rsv = env_norm e ''KAZENAI_FINOPS_RESERVATION_MODE''
           in if enf = ''fail_open'' \<or> rsv = ''fail_open''
              then Inr (''fail_open'', source, d1 @
                [''effective_failure_policy=fail_open: ENFORCEMENT_MODE/RESERVATION_MODE=fail_open applied under Control profile''])
              else Inr (''fail_closed'', source, d1))"

definition legacy_policy ::
  "env \<Rightarrow> bool option \<Rightarrow> string \<Rightarrow> string \<Rightarrow> string option \<Rightarrow> (string \<times> string \<times> string list) res" where
  "legacy_policy e strict_enabled source resolved_mode deployment_mode =
     bnd (if strict_enabled = Some True
          then Inr (''fail_closed'', if source = ''unset'' then strict_env_key else source, [])
          else bnd (case deployment_mode of
                      Some m \<Rightarrow> if m \<noteq> [] then resolve_deployment_mode [(''KAZENAI_DEPLOYMENT_MODE'', m)] False
                                else Inr resolved_mode
                    | None \<Rightarrow> Inr resolved_mode) (\<lambda>mode.
               if mode \<in> set production_like_modes \<and> strict_enabled \<noteq> Some False
               then Inr (''fail_closed'', source,
                 [''production_default: legacy profile uses fail_closed in production-like modes''])
               else Inr (''fail_open'', source, [])))
       (\<lambda>(policy, src, diags).
          let enf = env_norm e ''KAZENAI_ENFORCEMENT_MODE'';
              rsv = env_norm e ''KAZENAI_FINOPS_RESERVATION_MODE'';
              policy' = (if enf \<in> {''fail_open'', ''fail_closed''} then enf
                         else if rsv \<in> {''fail_open'', ''fail_closed''} then rsv else policy)
          in Inr (policy', src, diags))"

definition resolve_owner :: "string \<Rightarrow> string res" where
  "resolve_owner accounting_owner =
     (let o1 = or_str (py_lower (py_strip (or_str accounting_owner ''sdk''))) ''sdk'';
          o2 = (if o1 = ''gateway'' then ''server'' else o1)
      in if o2 \<in> {''sdk'', ''server''} then Inr o2 else Inl (LifecycleConfigError ''invalid''))"

definition ambiguity_allowed :: "env \<Rightarrow> bool option \<Rightarrow> bool" where
  "ambiguity_allowed e allow = (case allow of Some b \<Rightarrow> b
     | None \<Rightarrow> env_norm e ''KAZENAI_LIFECYCLE_MIGRATION_ALLOW_AMBIGUOUS'' \<in> {''1'', ''true'', ''yes''})"

text \<open>Reading the aliases: \<open>(sources, classified, deprecations, strict_enabled)\<close>.\<close>

definition read_signals ::
  "env \<Rightarrow> ((string \<times> string) list \<times> (string \<times> string) list \<times> string list \<times> bool option) res" where
  "read_signals e =
     bnd (scan_profiles e profile_env_keys) (\<lambda>(sources, classified, deprecations).
     let strict_raw = env_norm e strict_env_key in
     if strict_raw = [] then Inr (sources, classified, deprecations, None)
     else bnd (classify_strict_token strict_raw) (\<lambda>strict_enabled.
       Inr (sources @ [(strict_env_key, strict_raw)], classified, deprecations @ [strict_deprecation],
            strict_enabled)))"

text \<open>The winning profile: \<open>(profile, source, sources)\<close>.\<close>

definition choose_profile ::
  "env \<Rightarrow> (string \<times> string) list \<Rightarrow> (string \<times> string \<times> (string \<times> string) list) res" where
  "choose_profile e sources1 =
     (let finops_url_key = find (env_set e) finops_url_keys;
          sources = (case finops_url_key of None \<Rightarrow> sources1 | Some k \<Rightarrow> dset k ''configured'' sources1)
      in case find (\<lambda>key. dget sources key \<noteq> None) profile_env_keys of
           None \<Rightarrow> if finops_url_key \<noteq> None then Inr (''control'', ''default_finops_configured'', sources)
                   else Inr (''legacy'', ''unset'', sources)
         | Some key \<Rightarrow> bnd (classify_profile_token (the (dget sources key))) (\<lambda>lbl.
             Inr ((case lbl of None \<Rightarrow> ''legacy'' | Some l \<Rightarrow> l), key, sources)))"

definition effective_policy :: "env \<Rightarrow> string \<Rightarrow> string list \<Rightarrow> string \<times> string list" where
  "effective_policy e policy diags =
     (if policy = ''fail_open'' \<and> env_norm e ''KAZENAI_ENV'' \<noteq> ''dev''
      then (''fail_closed'', diags @
        [''fail_open_ignored: fail_open applies only with KAZENAI_ENV=dev; effective policy is fail_closed''])
      else (policy, diags))"

definition resolve_effective_lifecycle ::
  "env \<Rightarrow> bool option \<Rightarrow> string \<Rightarrow> string option \<Rightarrow> effective_lifecycle res" where
  "resolve_effective_lifecycle e allow accounting_owner deployment_mode =
     bnd (case resolve_deployment_mode e True of
            Inl _ \<Rightarrow> Inl (LifecycleConfigError ''conflict'') | Inr m \<Rightarrow> Inr m) (\<lambda>resolved_mode.
     bnd (read_signals e) (\<lambda>(sources1, classified, deprecations, strict_enabled).
     bnd (raise_if (length (remdups (map snd classified)) > 1 \<and> \<not> ambiguity_allowed e allow)
            (LifecycleConfigError ''conflict'')) (\<lambda>_.
     bnd (choose_profile e sources1) (\<lambda>(profile, source, sources).
     bnd (if profile = ''control'' then control_policy e strict_enabled (ambiguity_allowed e allow) source
          else legacy_policy e strict_enabled source resolved_mode deployment_mode) (\<lambda>(policy, source', diags).
     bnd (resolve_owner accounting_owner) (\<lambda>owner.
       Inr \<lparr>lc_profile = profile,
            lc_accounting_mode =
              (if profile = ''control'' then ''reservation_settlement'' else ''legacy_check_reconcile''),
            lc_failure_policy = fst (effective_policy e policy diags),
            lc_accounting_owner = owner,
            lc_lifecycle_version =
              (if profile = ''control'' then lifecycle_version_control else lifecycle_version_legacy),
            lc_config_version = ''control-config.v1'', lc_source = source', lc_sources = sources,
            lc_deprecations = first_occurrences
              (if profile = ''legacy'' \<and> classified \<noteq> [] then deprecations @ [legacy_deprecation] else deprecations),
            lc_diagnostics = snd (effective_policy e policy diags)\<rparr>))))))"

definition control_profile_active :: "env \<Rightarrow> bool res" where
  "control_profile_active e = bnd (resolve_effective_lifecycle e None ''sdk'' None) (\<lambda>c. Inr (is_control c))"

definition lifecycle_budget_enabled :: "env \<Rightarrow> bool res" where
  "lifecycle_budget_enabled e =
     bnd (resolve_effective_lifecycle e None ''sdk'' None) (\<lambda>c. Inr (uses_reservation_settlement c))"

text \<open>\<open>deployment.enforcement_fail_closed\<close> and \<open>finops_reservation_fail_closed\<close>: the resolver's policy,
  or their own variable when the resolver raises.\<close>

definition fail_closed_from :: "string \<Rightarrow> env \<Rightarrow> bool" where
  "fail_closed_from var e =
     (case resolve_effective_lifecycle e None ''sdk'' None of
        Inr cfg \<Rightarrow> lc_failure_policy cfg \<noteq> ''fail_open''
      | Inl _ \<Rightarrow>
          let raw = env_norm e var in
          if raw \<in> {''fail_closed'', ''fail_open''}
          then if raw = ''fail_closed'' then True else \<not> is_dev_env e
          else True)"

definition enforcement_fail_closed :: "env \<Rightarrow> bool" where
  "enforcement_fail_closed = fail_closed_from ''KAZENAI_ENFORCEMENT_MODE''"

definition finops_reservation_fail_closed :: "env \<Rightarrow> bool" where
  "finops_reservation_fail_closed = fail_closed_from ''KAZENAI_FINOPS_RESERVATION_MODE''"

text \<open>\<open>assert_compatible_with_server\<close>: the server's authenticated capability document.\<close>

definition assert_compatible_with_server :: "env \<Rightarrow> pyval \<Rightarrow> effective_lifecycle res" where
  "assert_compatible_with_server e server =
     bnd (resolve_effective_lifecycle e None ''sdk'' None) (\<lambda>client.
     let caps = (if is_mapping (field server ''capabilities'') then field server ''capabilities'' else server);
         server_eff = (if is_mapping (field server ''effective_lifecycle'')
                       then field server ''effective_lifecycle'' else PDict []);
         supports = truthy (field caps ''reservation_settlement'');
         server_lifecycle = py_str (or_val (field server_eff ''lifecycle_version'')
           (PStr (if supports then lifecycle_version_control else lifecycle_version_legacy)))
     in if uses_reservation_settlement client \<and> \<not> supports then Inl ClientServerLifecycleMismatch
        else if uses_reservation_settlement client \<and> server_lifecycle \<notin> {[], lifecycle_version_control}
        then Inl ClientServerLifecycleMismatch
        else Inr client)"

section \<open>The mode is fail-safe\<close>

definition safe_mode :: "string \<Rightarrow> string" where
  "safe_mode raw = (case dget mode_aliases raw of Some m \<Rightarrow> m | None \<Rightarrow> ''production'')"

lemma canonical_mode_lax [simp]: "canonical_mode False raw = Inr (safe_mode raw)"
  by (simp add: canonical_mode_def safe_mode_def split: option.split)

lemma map_res_all: "(\<And>x. x \<in> set xs \<Longrightarrow> f x = Inr (g x)) \<Longrightarrow> map_res f xs = Inr (map g xs)"
  by (induction xs) auto

lemma most_restrictive_max:
  "ms \<noteq> [] \<Longrightarrow> most_restrictive ms \<in> set ms \<and>
     (\<forall>m \<in> set ms. restrictiveness m \<le> restrictiveness (most_restrictive ms))"
proof (induction ms rule: most_restrictive.induct)
  case (3 m m' ms)
  let ?w = "if restrictiveness m' > restrictiveness m then m' else m"
  have "most_restrictive (?w # ms) \<in> set (?w # ms) \<and>
     (\<forall>x \<in> set (?w # ms). restrictiveness x \<le> restrictiveness (most_restrictive (?w # ms)))"
    using 3 by simp
  then show ?case by (auto split: if_splits)
qed auto

lemma restrictiveness_hd: "length (remdups ms) \<le> 1 \<Longrightarrow> m \<in> set ms \<Longrightarrow> m = hd (remdups ms)"
  by (metis One_nat_def le_Suc_eq le_zero_eq length_0_conv length_Suc_conv list.sel(1) list.set_cases
      set_remdups list.distinct(1) set_ConsD)

lemma lax_mode:
  defines "modes e \<equiv> map (\<lambda>(_, raw). safe_mode raw) (deployment_mode_signals e)"
  shows "resolve_deployment_mode e False =
    Inr (if modes e = [] then ''development'' else most_restrictive (remdups (modes e)))"
proof -
  have "map_res (\<lambda>(_, raw). canonical_mode False raw) (deployment_mode_signals e) = Inr (modes e)"
    unfolding modes_def by (rule map_res_all) auto
  moreover have "most_restrictive ms = hd ms" if "length ms \<le> 1" "ms \<noteq> []" for ms
    using that by (cases ms rule: most_restrictive.cases) auto
  ultimately show ?thesis by (auto simp: resolve_deployment_mode_def Let_def not_less)
qed

lemma canonical_mode_strict: "canonical_mode True raw = Inr m \<longleftrightarrow> dget mode_aliases raw = Some m"
  by (simp add: canonical_mode_def split: option.split)

lemma strict_mode:
  assumes "resolve_deployment_mode e True = Inr m"
  shows "(\<forall>(k, raw) \<in> set (deployment_mode_signals e). dget mode_aliases raw = Some m) \<and>
    (deployment_mode_signals e = [] \<longrightarrow> m = ''development'')"
proof -
  let ?sg = "deployment_mode_signals e"
  from assms obtain modes where m: "map_res (\<lambda>(_, raw). canonical_mode True raw) ?sg = Inr modes"
    by (auto simp: resolve_deployment_mode_def bnd_eq_Inr)
  show ?thesis
  proof (cases "modes = []")
    case True
    then show ?thesis using assms m map_res_Inr [OF m] by (simp add: resolve_deployment_mode_def)
  next
    case False
    with assms m have l: "length (remdups modes) \<le> 1" and h: "m = hd (remdups modes)"
      by (simp_all add: resolve_deployment_mode_def Let_def split: if_splits)
    have "dget mode_aliases raw = Some m" if "(k, raw) \<in> set ?sg" for k raw
    proof -
      from that obtain i where i: "i < length ?sg" "?sg ! i = (k, raw)" by (auto simp: in_set_conv_nth)
      then have "canonical_mode True raw = Inr (modes ! i)" "i < length modes"
        using map_res_Inr [OF m] by auto
      then show ?thesis using restrictiveness_hd [OF l] h
        by (metis canonical_mode_strict nth_mem)
    qed
    moreover have "?sg \<noteq> []" using False map_res_Inr [OF m] by auto
    ultimately show ?thesis by auto
  qed
qed

text \<open>Resolving the deployment mode never raises outside strict mode and is never less restrictive
  than any signal (an unknown value counting as production); in strict mode it succeeds only when
  every signal is known and they all agree, with the same result.\<close>
theorem deployment_mode_fail_safe:
  "\<exists>m. resolve_deployment_mode e False = Inr m \<and>
     (\<forall>(k, raw) \<in> set (deployment_mode_signals e). restrictiveness (safe_mode raw) \<le> restrictiveness m) \<and>
     (\<forall>m'. resolve_deployment_mode e True = Inr m' \<longrightarrow> m' = m \<and>
        (\<forall>(k, raw) \<in> set (deployment_mode_signals e). dget mode_aliases raw = Some m'))"
proof -
  let ?sg = "deployment_mode_signals e"
  let ?ms = "map (\<lambda>(_, raw). safe_mode raw) ?sg"
  let ?m = "if ?ms = [] then ''development'' else most_restrictive (remdups ?ms)"
  have "restrictiveness (safe_mode raw) \<le> restrictiveness ?m" if "(k, raw) \<in> set ?sg" for k raw
    using that most_restrictive_max [of "remdups ?ms"] by force
  moreover have "m' = ?m" if m': "resolve_deployment_mode e True = Inr m'" for m'
  proof (cases "?sg = []")
    case False
    then have "most_restrictive (remdups ?ms) \<in> set ?ms" using most_restrictive_max [of "remdups ?ms"] by simp
    then obtain k raw where k: "(k, raw) \<in> set ?sg" and "most_restrictive (remdups ?ms) = safe_mode raw" by auto
    moreover have "safe_mode raw = m'" using strict_mode [OF m'] k by (auto simp: safe_mode_def)
    ultimately show ?thesis using False by simp
  qed (use strict_mode [OF m'] in simp)
  ultimately show ?thesis using lax_mode [of e] strict_mode by (intro exI [of _ ?m]) blast
qed

theorem deployment_mode_fail_safe_witness:
  "\<exists>m. resolve_deployment_mode [(''KAZENAI_ENV'', ''dev''), (''KAZENAI_FINOPS_ENV'', ''prd'')] False = Inr m \<and>
     restrictiveness m \<ge> 3"
proof -
  let ?e = "[(''KAZENAI_ENV'', ''dev''), (''KAZENAI_FINOPS_ENV'', ''prd'')]"
  have "(''KAZENAI_FINOPS_ENV'', ''prd'') \<in> set (deployment_mode_signals ?e)" "restrictiveness (safe_mode ''prd'') = 3"
    by code_simp+
  then show ?thesis using deployment_mode_fail_safe [of ?e] by fastforce
qed

section \<open>The effective lifecycle\<close>

definition profile_of :: "string \<Rightarrow> string" where
  "profile_of raw = (if raw \<in> {''1'', ''true'', ''yes'', ''control''} then ''control'' else ''legacy'')"

definition first_profile_key :: "env \<Rightarrow> string option" where
  "first_profile_key e = find (\<lambda>k. env_norm e k \<noteq> []) profile_env_keys"

lemma classify_profile_of:
  "classify_profile_token raw = Inr lbl \<Longrightarrow> raw \<noteq> [] \<Longrightarrow> lbl = Some (profile_of raw)"
  by (auto simp: classify_profile_token_def profile_of_def split: if_splits)

lemma scan_profiles_Inr:
  "scan_profiles e keys = Inr (s, c, d) \<Longrightarrow>
     s = filter (\<lambda>(_, r). r \<noteq> []) (map (\<lambda>k. (k, env_norm e k)) keys) \<and>
     c = map (\<lambda>(k, r). (k, profile_of r)) s"
proof (induction keys arbitrary: s c d)
  case (Cons key keys)
  show ?case
  proof (cases "env_norm e key = []")
    case True
    with Cons show ?thesis by simp
  next
    case False
    with Cons.prems obtain lbl s1 c1 d1 where
      *: "classify_profile_token (env_norm e key) = Inr lbl" "scan_profiles e keys = Inr (s1, c1, d1)"
      and r: "(case lbl of None \<Rightarrow> Inr ((key, env_norm e key) # s1, c1, d1)
              | Some l \<Rightarrow> Inr ((key, env_norm e key) # s1, (key, l) # c1,
                  (if key \<noteq> ''KAZENAI_FINOPS_CONTROL_PROFILE''
                   then [key @ '' is a compatible alias; prefer KAZENAI_FINOPS_CONTROL_PROFILE'']
                   else []) @ d1)) = (Inr (s, c, d) :: ((string \<times> string) list \<times> (string \<times> string) list \<times> string list) res)"
      by (auto simp: bnd_eq_Inr Let_def)
    have "lbl = Some (profile_of (env_norm e key))" using classify_profile_of [OF *(1) False] .
    then show ?thesis using r Cons.IH [OF *(2)] False by auto
  qed
qed simp

lemma resolve_stages:
  assumes "resolve_effective_lifecycle e allow own dm = Inr cfg"
  obtains mode s c d strict profile src sources policy src' diags where
    "read_signals e = Inr (s, c, d, strict)"
    "length (remdups (map snd c)) \<le> 1 \<or> ambiguity_allowed e allow"
    "choose_profile e s = Inr (profile, src, sources)"
    "(if profile = ''control'' then control_policy e strict (ambiguity_allowed e allow) src
      else legacy_policy e strict src mode dm) = Inr (policy, src', diags)"
    "lc_profile cfg = profile"
    "lc_accounting_mode cfg = (if profile = ''control'' then ''reservation_settlement'' else ''legacy_check_reconcile'')"
    "lc_failure_policy cfg = fst (effective_policy e policy diags)"
  using assms unfolding resolve_effective_lifecycle_def bnd_eq_Inr split_paired_Ex prod.case raise_if_simps
  by (elim exE conjE) (auto simp: not_less)

lemma classify_strict_False:
  "classify_strict_token r = Inr st \<Longrightarrow>
     r \<in> {''0'', ''false'', ''no'', ''off'', ''disabled''} \<longleftrightarrow> st = Some False"
  by (auto simp: classify_strict_token_def split: if_splits)

lemma classify_strict_Nil: "classify_strict_token [] = Inr None"
  by (simp add: classify_strict_token_def)

lemma read_signals_strict:
  "read_signals e = Inr (s, c, d, strict) \<Longrightarrow> classify_strict_token (env_norm e strict_env_key) = Inr strict"
  unfolding read_signals_def Let_def bnd_eq_Inr split_paired_Ex prod.case
  by (elim exE conjE) (auto simp: bnd_eq_Inr classify_strict_Nil split: if_split_asm)

lemma dget_filter_map:
  "dget (filter (\<lambda>(_, r). r \<noteq> []) (map (\<lambda>k. (k, f k)) keys)) k =
     (if k \<in> set keys \<and> f k \<noteq> [] then Some (f k) else None)"
  by (induction keys) auto

lemma dget_append: "dget (xs @ ys) k = (case dget xs k of None \<Rightarrow> dget ys k | Some v \<Rightarrow> Some v)"
  by (simp add: dget_def map_add_def split: option.split)

lemma strict_key_not_profile: "strict_env_key \<notin> set profile_env_keys"
  by (simp add: strict_env_key_def profile_env_keys_def)

lemma read_signals_Inr:
  assumes "read_signals e = Inr (s, c, d, strict)"
  shows "c = map (\<lambda>(k, r). (k, profile_of r)) (filter (\<lambda>(_, r). r \<noteq> []) (map (\<lambda>k. (k, env_norm e k)) profile_env_keys))"
    and "k \<in> set profile_env_keys \<Longrightarrow> dget s k = (if env_norm e k = [] then None else Some (env_norm e k))"
    and "env_norm e strict_env_key \<in> {''0'', ''false'', ''no'', ''off'', ''disabled''} \<longleftrightarrow> strict = Some False"
proof -
  from assms obtain s0 d0 where sc: "scan_profiles e profile_env_keys = Inr (s0, c, d0)"
    and s: "s = s0 @ (if env_norm e strict_env_key = [] then [] else [(strict_env_key, env_norm e strict_env_key)])"
    by (auto simp: read_signals_def bnd_eq_Inr Let_def split: if_splits)
  note s0 = scan_profiles_Inr [OF sc]
  show "c = map (\<lambda>(k, r). (k, profile_of r)) (filter (\<lambda>(_, r). r \<noteq> []) (map (\<lambda>k. (k, env_norm e k)) profile_env_keys))"
    using s0 by blast
  show "dget s k = (if env_norm e k = [] then None else Some (env_norm e k))" if "k \<in> set profile_env_keys"
    using that strict_key_not_profile s0
    by (auto simp: s dget_append dget_filter_map split: option.split)
  show "env_norm e strict_env_key \<in> {''0'', ''false'', ''no'', ''off'', ''disabled''} \<longleftrightarrow> strict = Some False"
    by (rule classify_strict_False [OF read_signals_strict [OF assms]])
qed

lemma choose_profile_Inr:
  assumes "read_signals e = Inr (s, c, d, strict)" "choose_profile e s = Inr (profile, src, sources)"
  shows "profile = (case first_profile_key e of Some k \<Rightarrow> profile_of (env_norm e k)
     | None \<Rightarrow> if \<exists>k \<in> set finops_url_keys. env_set e k then ''control'' else ''legacy'')"
proof -
  note lk = read_signals_Inr(2) [OF assms(1)]
  let ?s2 = "case find (env_set e) finops_url_keys of None \<Rightarrow> s | Some k \<Rightarrow> dset k ''configured'' s"
  have "dget ?s2 k = dget s k" if "k \<in> set profile_env_keys" for k
    using that by (auto simp: find_Some_iff finops_url_keys_def profile_env_keys_def split: option.split)
  with lk have lk2: "dget ?s2 k = (if env_norm e k = [] then None else Some (env_norm e k))"
    if "k \<in> set profile_env_keys" for k using that by simp
  then have "find (\<lambda>key. dget ?s2 key \<noteq> None) profile_env_keys = first_profile_key e"
    unfolding first_profile_key_def by (intro find_cong) auto
  moreover have "env_norm e k \<noteq> [] \<and> k \<in> set profile_env_keys" if "first_profile_key e = Some k" for k
    using that by (auto simp: first_profile_key_def find_Some_iff)
  moreover have "find (env_set e) finops_url_keys \<noteq> None \<longleftrightarrow> (\<exists>k \<in> set finops_url_keys. env_set e k)"
    by (auto simp: find_None_iff)
  ultimately show ?thesis
    using assms(2) lk2 classify_profile_of
    unfolding choose_profile_def Let_def
    by (cases "first_profile_key e") (fastforce simp: bnd_eq_Inr split: if_splits)+
qed

text \<open>The resolved profile is the one of the first profile variable that is set, else Control when a
  FinOps URL is configured and legacy otherwise; Control and only Control uses
  reservation/settlement. Unless ambiguity is allowed, every set profile variable agrees with the
  resolved profile, and Control never resolves with strict budgets switched off.\<close>
theorem lifecycle_profile_precedence:
  assumes r: "resolve_effective_lifecycle e allow own dm = Inr cfg"
  shows "lc_profile cfg = (case first_profile_key e of Some k \<Rightarrow> profile_of (env_norm e k)
      | None \<Rightarrow> if \<exists>k \<in> set finops_url_keys. env_set e k then ''control'' else ''legacy'')
    \<and> (uses_reservation_settlement cfg \<longleftrightarrow> is_control cfg)
    \<and> (\<not> ambiguity_allowed e allow \<longrightarrow>
        (\<forall>k \<in> set profile_env_keys. env_norm e k \<noteq> [] \<longrightarrow> profile_of (env_norm e k) = lc_profile cfg) \<and>
        (is_control cfg \<longrightarrow> env_norm e strict_env_key \<notin> {''0'', ''false'', ''no'', ''off'', ''disabled''}))"
proof -
  from resolve_stages [OF r] obtain mode s c d strict profile src sources policy src' diags where st:
    "read_signals e = Inr (s, c, d, strict)"
    "length (remdups (map snd c)) \<le> 1 \<or> ambiguity_allowed e allow"
    "choose_profile e s = Inr (profile, src, sources)"
    "(if profile = ''control'' then control_policy e strict (ambiguity_allowed e allow) src
      else legacy_policy e strict src mode dm) = Inr (policy, src', diags)"
    "lc_profile cfg = profile"
    "lc_accounting_mode cfg = (if profile = ''control'' then ''reservation_settlement'' else ''legacy_check_reconcile'')" .
  note prof = choose_profile_Inr [OF st(1,3)]
  have agree: "profile_of (env_norm e k) = profile"
    if amb: "\<not> ambiguity_allowed e allow" and k: "k \<in> set profile_env_keys" "env_norm e k \<noteq> []" for k
  proof -
    have l: "length (remdups (map snd c)) \<le> 1" using st(2) amb by blast
    have mem: "profile_of (env_norm e j) \<in> set (map snd c)"
      if "j \<in> set profile_env_keys" "env_norm e j \<noteq> []" for j
      using that by (force simp: read_signals_Inr(1) [OF st(1)])
    from k obtain j where j: "first_profile_key e = Some j"
      by (cases "first_profile_key e") (auto simp: first_profile_key_def find_None_iff)
    then have "j \<in> set profile_env_keys" "env_norm e j \<noteq> []"
      by (auto simp: first_profile_key_def find_Some_iff)
    then show ?thesis
      using restrictiveness_hd [OF l mem [OF k]] restrictiveness_hd [OF l mem] prof j by simp
  qed
  have "env_norm e strict_env_key \<notin> {''0'', ''false'', ''no'', ''off'', ''disabled''}"
    if "\<not> ambiguity_allowed e allow" "profile = ''control''"
    using that st(4) unfolding read_signals_Inr(3) [OF st(1)] by (auto simp: control_policy_def)
  then show ?thesis using agree prof st(5,6)
    by (simp add: uses_reservation_settlement_def is_control_def)
qed

theorem lifecycle_profile_precedence_witness:
  "\<exists>cfg. resolve_effective_lifecycle
       [(''KAZENAI_CONTROL_PROFILE'', '' Control ''), (''KAZENAI_ENV'', ''prod'')] None ''sdk'' None = Inr cfg \<and>
     lc_profile cfg = ''control'' \<and> uses_reservation_settlement cfg"
proof -
  let ?e = "[(''KAZENAI_CONTROL_PROFILE'', '' Control ''), (''KAZENAI_ENV'', ''prod'')]"
  have "case resolve_effective_lifecycle ?e None ''sdk'' None of Inr _ \<Rightarrow> True | Inl _ \<Rightarrow> False" by code_simp
  then obtain cfg where cfg: "resolve_effective_lifecycle ?e None ''sdk'' None = Inr cfg" by (auto split: sum.splits)
  have "first_profile_key ?e = Some ''KAZENAI_CONTROL_PROFILE''"
    "profile_of (env_norm ?e ''KAZENAI_CONTROL_PROFILE'') = ''control''" by code_simp+
  then show ?thesis using lifecycle_profile_precedence [OF cfg] cfg by (auto simp: is_control_def)
qed

text \<open>Failing open needs explicit local development: both unavailability policies, whether read from
  the resolved lifecycle or from their own variable when the lifecycle cannot be resolved, are
  fail-closed unless \<open>KAZENAI_ENV=dev\<close>, and the resolver never reports \<open>fail_open\<close> elsewhere.\<close>
theorem fail_open_only_in_dev:
  assumes "\<not> is_dev_env e"
  shows "enforcement_fail_closed e \<and> finops_reservation_fail_closed e \<and>
    (\<forall>allow own dm cfg. resolve_effective_lifecycle e allow own dm = Inr cfg \<longrightarrow> lc_failure_policy cfg \<noteq> ''fail_open'')"
proof -
  have r: "lc_failure_policy cfg \<noteq> ''fail_open''" if "resolve_effective_lifecycle e allow own dm = Inr cfg"
    for allow own dm cfg
    by (rule resolve_stages [OF that]) (use assms in \<open>simp add: effective_policy_def is_dev_env_def\<close>)
  then have "fail_closed_from var e" for var
    using assms by (auto simp: fail_closed_from_def Let_def split: sum.split)
  then show ?thesis using r by (simp add: enforcement_fail_closed_def finops_reservation_fail_closed_def)
qed

theorem fail_open_only_in_dev_witness:
  "enforcement_fail_closed [(''KAZENAI_ENFORCEMENT_MODE'', ''fail_open''), (''KAZENAI_ENV'', ''development'')]"
proof -
  have "\<not> is_dev_env [(''KAZENAI_ENFORCEMENT_MODE'', ''fail_open''), (''KAZENAI_ENV'', ''development'')]" by code_simp
  from fail_open_only_in_dev [OF this] show ?thesis by blast
qed

end
