(* ===== verification/Urls.thy ===== *)
theory Urls
  imports Pyval
begin

text \<open>
  The parts of \<open>urllib.parse.urlsplit\<close> the code uses: an optional scheme, an authority after
  \<open>//\<close>, then the path up to a query or fragment; and the URL helpers of kazenai/ingest_url.py.
\<close>

definition scheme_char :: "char \<Rightarrow> bool" where
  "scheme_char c \<longleftrightarrow> (let n = char_code c in 97 \<le> n \<and> n \<le> 122 \<or> 65 \<le> n \<and> n \<le> 90 \<or> 48 \<le> n \<and> n \<le> 57
     \<or> c \<in> {CHR ''+'', CHR ''-'', CHR ''.''})"

definition url_rest :: "string \<Rightarrow> string" where
  "url_rest url =
     (let sch = before (CHR '':'') url in
      if sch \<noteq> url \<and> sch \<noteq> [] \<and> list_all scheme_char sch \<and>
         (let n = char_code (hd sch) in 97 \<le> n \<and> n \<le> 122 \<or> 65 \<le> n \<and> n \<le> 90)
      then drop (length sch + 1) url else url)"

definition not_delim :: "char \<Rightarrow> bool" where
  "not_delim c \<longleftrightarrow> c \<notin> {CHR ''/'', CHR ''?'', CHR ''#''}"

definition url_netloc :: "string \<Rightarrow> string" where
  "url_netloc url = (let r = url_rest url in if starts_with r ''//'' then takeWhile not_delim (drop 2 r) else [])"

definition url_path :: "string \<Rightarrow> string" where
  "url_path url = (let r = url_rest url;
       body = (if starts_with r ''//'' then dropWhile not_delim (drop 2 r) else r)
     in before (CHR ''?'') (before (CHR ''#'') body))"

text \<open>\<open>hostname\<close>: after the last \<open>@\<close>, inside brackets or up to the port, in lower case.\<close>

definition url_hostname :: "string \<Rightarrow> string" where
  "url_hostname url =
     (let h = last (split_on (CHR ''@'') (url_netloc url)) in
      py_lower (if CHR ''['' \<in> set h then before (CHR '']'') (tl (dropWhile (\<lambda>c. c \<noteq> CHR ''['') h))
                else before (CHR '':'') h))"

section \<open>Ingest URLs\<close>

definition normalize_ingest_base_url :: "string \<Rightarrow> string" where
  "normalize_ingest_base_url url =
     (let raw = py_strip url in
      if raw = [] then []
      else let trimmed = rstrip_char (CHR ''/'') raw; l = py_lower trimmed in
        if ends_with l ''/v1/events'' then rstrip_char (CHR ''/'') (take (length trimmed - 10) trimmed)
        else if ends_with l ''/events'' then rstrip_char (CHR ''/'') (take (length trimmed - 7) trimmed)
        else trimmed)"

definition ingest_post_url :: "string \<Rightarrow> string" where
  "ingest_post_url u = (let base = normalize_ingest_base_url u in if base = [] then [] else base @ ''/v1/events'')"

definition split_ingest_url :: "string \<Rightarrow> string \<times> string" where
  "split_ingest_url url = (let base = normalize_ingest_base_url url in
     if base = [] then ([], []) else (base, ingest_post_url base))"

definition is_loopback_or_private_host :: "string \<Rightarrow> bool" where
  "is_loopback_or_private_host url \<longleftrightarrow> (let host = url_hostname url in
     host \<in> {''localhost'', ''127.0.0.1'', ''::1''} \<or> starts_with host ''10.'' \<or>
     starts_with host ''192.168.'' \<or> starts_with host ''172.'')"

end
