(* ===== verification/Ownership.thy ===== *)
theory Ownership
  imports Lifecycle_Config Urls
begin

text \<open>
  Who may reserve and what may be sent: the single enforcement owner of
  kazenai/enforcement_owner.py and the request gate of kazenai/_dispatch_gate.py. The context
  variable together with the tokens its \<open>with\<close> blocks hold is a stack of states, the innermost
  first; the empty stack is the variable's default \<open>None\<close>.
\<close>

section \<open>Enforcement owner\<close>

record owner_refs =
  decision_id :: "string option"
  reservation_id :: "string option"
  call_id :: "string option"
  attempt :: "int option"

record owner_state = owner_refs +
  owner :: string

type_synonym owner_stack = "owner_state list"

definition configured_enforcement_owner :: "env \<Rightarrow> string option" where
  "configured_enforcement_owner e =
     (let raw = env_norm e ''KAZENAI_ENFORCEMENT_OWNER'' in if raw = [] then None else Some raw)"

definition normalize_owner :: "string \<Rightarrow> string res" where
  "normalize_owner o' = (let t = py_lower (py_strip o') in
     if t = [] then Inl (EnforcementOwnershipError ''invalid_enforcement_owner'') else Inr t)"

text \<open>\<open>a or b\<close> on optional strings.\<close>

definition or_ref :: "string option \<Rightarrow> string option \<Rightarrow> string option" where
  "or_ref a b = (if a = None \<or> a = Some [] then b else a)"

definition state_of :: "string \<Rightarrow> owner_refs \<Rightarrow> owner_state" where
  "state_of w r = \<lparr>decision_id = decision_id r, reservation_id = reservation_id r, call_id = call_id r,
     attempt = attempt r, owner = w\<rparr>"

definition claim_enforcement_owner :: "env \<Rightarrow> string \<Rightarrow> owner_refs \<Rightarrow> owner_stack \<Rightarrow> owner_stack res" where
  "claim_enforcement_owner e own r st =
     bnd (normalize_owner own) (\<lambda>want.
     bnd (raise_if (case configured_enforcement_owner e of None \<Rightarrow> False | Some v \<Rightarrow> v \<noteq> want)
            (EnforcementOwnershipError ''ambiguous_enforcement_owner'')) (\<lambda>_.
     case st of
       [] \<Rightarrow> Inr [state_of want r]
     | current # outer \<Rightarrow>
         if owner current \<noteq> want then Inl (EnforcementOwnershipError ''ambiguous_enforcement_owner'')
         else Inr (\<lparr>decision_id = or_ref (decision_id r) (decision_id current),
                    reservation_id = or_ref (reservation_id r) (reservation_id current),
                    call_id = or_ref (call_id r) (call_id current),
                    attempt = (if attempt r = None then attempt current else attempt r),
                    owner = want\<rparr> # current # outer)))"

definition claim_configured_enforcement_owner :: "env \<Rightarrow> owner_refs \<Rightarrow> owner_stack \<Rightarrow> owner_stack res" where
  "claim_configured_enforcement_owner e r st =
     claim_enforcement_owner e
       (case configured_enforcement_owner e of None \<Rightarrow> ''sdk'' | Some v \<Rightarrow> v) r st"

definition bind_decision_refs :: "owner_refs \<Rightarrow> owner_stack \<Rightarrow> owner_stack" where
  "bind_decision_refs r st = (case st of [] \<Rightarrow> []
     | current # outer \<Rightarrow> \<lparr>
         decision_id = (if decision_id r \<noteq> None then decision_id r else decision_id current),
         reservation_id = (if reservation_id r \<noteq> None then reservation_id r else reservation_id current),
         call_id = (if call_id r \<noteq> None then call_id r else call_id current),
         attempt = (if attempt r \<noteq> None then attempt r else attempt current),
         owner = owner current\<rparr> # outer)"

definition gateway_owns_enforcement :: "env \<Rightarrow> owner_stack \<Rightarrow> bool" where
  "gateway_owns_enforcement e st \<longleftrightarrow> configured_enforcement_owner e = Some ''gateway'' \<or>
     (case st of [] \<Rightarrow> False | current # _ \<Rightarrow> owner current = ''gateway'')"

definition has_reservation :: "owner_state \<Rightarrow> bool" where
  "has_reservation s \<longleftrightarrow> reservation_id s \<noteq> None \<and> reservation_id s \<noteq> Some []"

definition should_skip_sdk_reserve :: "env \<Rightarrow> owner_stack \<Rightarrow> bool" where
  "should_skip_sdk_reserve e st \<longleftrightarrow> gateway_owns_enforcement e st \<or>
     (case st of [] \<Rightarrow> False | current # _ \<Rightarrow> has_reservation current)"

definition assert_sdk_may_reserve :: "env \<Rightarrow> owner_stack \<Rightarrow> unit res" where
  "assert_sdk_may_reserve e st =
     (if should_skip_sdk_reserve e st then Inr ()
      else bnd (raise_if (case configured_enforcement_owner e of None \<Rightarrow> False | Some v \<Rightarrow> v \<noteq> ''sdk'')
                  (EnforcementOwnershipError ''ambiguous_enforcement_owner'')) (\<lambda>_.
           raise_if (case st of [] \<Rightarrow> False | current # _ \<Rightarrow> owner current \<noteq> ''sdk'')
             (EnforcementOwnershipError ''ambiguous_enforcement_owner'')))"

text \<open>What the program does with the context: enter a claim (one that raises changes nothing), leave
  the innermost block, bind the outcome of an authorization.\<close>

datatype owner_op = Claim string owner_refs | Claim_Configured owner_refs | Leave | Bind owner_refs

fun owner_step :: "env \<Rightarrow> owner_op \<Rightarrow> owner_stack \<Rightarrow> owner_stack" where
  "owner_step e (Claim w r) st = (case claim_enforcement_owner e w r st of Inl _ \<Rightarrow> st | Inr st' \<Rightarrow> st')"
| "owner_step e (Claim_Configured r) st =
     (case claim_configured_enforcement_owner e r st of Inl _ \<Rightarrow> st | Inr st' \<Rightarrow> st')"
| "owner_step e Leave st = tl st"
| "owner_step e (Bind r) st = bind_decision_refs r st"

definition owner_run :: "env \<Rightarrow> owner_op list \<Rightarrow> owner_stack" where
  "owner_run e ops = fold (owner_step e) ops []"

section \<open>Dispatch gate\<close>

definition safe_methods :: "string list" where
  "safe_methods = [''get'', ''head'', ''options'', ''delete'']"

definition free_posts :: "string list" where
  "free_posts = [''/files'', ''/uploads'', ''/uploads/*/parts'', ''/uploads/*/complete'', ''/uploads/*/cancel'',
     ''/moderations'', ''/responses/input_tokens'', ''/responses/*/cancel'', ''/batches/*/cancel'',
     ''/fine_tuning/jobs/*/cancel'', ''/messages/count_tokens'', ''/files'', ''/messages/batches/*/cancel'']"

definition normalize_path :: "string \<Rightarrow> string" where
  "normalize_path path =
     (let t = before (CHR ''#'') (before (CHR ''?'') path);
          t' = (if starts_with t ''/'' then t else CHR ''/'' # t)
      in or_str (rstrip_char (CHR ''/'') t') ''/'')"

definition matches :: "string \<Rightarrow> string \<Rightarrow> bool" where
  "matches path pattern0 =
     (let pattern = normalize_path pattern0 in
      if CHR ''*'' \<notin> set pattern then path = pattern
      else let have' = split_on (CHR ''/'') path; want = split_on (CHR ''/'') pattern
           in length have' = length want \<and> list_all2 (\<lambda>h w. w = ''*'' \<or> w = h) have' want)"

definition prefix_match :: "string \<Rightarrow> string \<Rightarrow> bool" where
  "prefix_match path prefix0 =
     (let prefix = normalize_path prefix0 in path = prefix \<or> starts_with path (prefix @ ''/''))"

text \<open>A gate; \<open>capability\<close> stands for the identity of its private object.\<close>

record dispatch_gate =
  capability :: nat
  base_path :: string
  allow_unmetered :: "string list"

definition dispatch_gate_init :: "nat \<Rightarrow> string \<Rightarrow> string list \<Rightarrow> dispatch_gate" where
  "dispatch_gate_init c base allow = \<lparr>capability = c, base_path = normalize_path base, allow_unmetered = allow\<rparr>"

definition endpoint :: "dispatch_gate \<Rightarrow> string \<Rightarrow> string" where
  "endpoint g upath =
     (let path = normalize_path upath;
          path1 = (if base_path g \<noteq> ''/'' \<and> (path = base_path g \<or> starts_with path (base_path g @ ''/''))
                   then normalize_path (drop (length (base_path g)) path) else path)
      in if path1 = ''/v1'' \<or> starts_with path1 ''/v1/'' then normalize_path (drop 3 path1) else path1)"

text \<open>\<open>authorized\<close> holds the capabilities of the wrappers dispatching now (the context variable).\<close>

definition gate_check :: "dispatch_gate \<Rightarrow> nat set \<Rightarrow> string \<Rightarrow> string \<Rightarrow> unit res" where
  "gate_check g authorized method upath =
     (if capability g \<in> authorized then Inr ()
      else if py_lower method \<in> set safe_methods then Inr ()
      else let ep = endpoint g upath in
        if list_ex (matches ep) free_posts then Inr ()
        else if list_ex (prefix_match ep) (allow_unmetered g) then Inr ()
        else Inl (UnsupportedMode ''unguarded_dispatch''))"

definition options_path :: "string \<Rightarrow> string" where
  "options_path url = (if has_infix url ''://'' then url_path url else url)"

text \<open>The check at \<open>client.request()\<close>.\<close>

definition request_check :: "dispatch_gate \<Rightarrow> nat set \<Rightarrow> string \<Rightarrow> string \<Rightarrow> unit res" where
  "request_check g authorized method url =
     (let path = options_path url;
          full = (if base_path g \<noteq> ''/'' \<and> \<not> starts_with path (base_path g @ ''/'')
                  then base_path g @ ''/'' @ dropWhile (\<lambda>c. c = CHR ''/'') path else path)
      in gate_check g authorized method full)"

section \<open>One owner, one reservation\<close>

definition one_owner :: "env \<Rightarrow> owner_stack \<Rightarrow> bool" where
  "one_owner e st \<longleftrightarrow> (\<exists>w. w \<noteq> [] \<and> (\<forall>s \<in> set st. owner s = w) \<and>
     (st \<noteq> [] \<longrightarrow> configured_enforcement_owner e \<in> {None, Some w}))"

lemma normalize_owner_Inr: "normalize_owner w = Inr v \<Longrightarrow> v \<noteq> []"
  by (auto simp: normalize_owner_def Let_def split: if_splits)

lemma claim_Inr:
  assumes "claim_enforcement_owner e w r st = Inr st'"
  obtains s where "st' = s # st" "owner s \<noteq> []"
    "configured_enforcement_owner e \<in> {None, Some (owner s)}"
    "\<forall>c \<in> set (take 1 st). owner c = owner s \<and> (has_reservation c \<longrightarrow> has_reservation s)"
proof -
  from assms obtain want where w: "want \<noteq> []"
    and env: "configured_enforcement_owner e \<in> {None, Some want}"
    and b: "(case st of [] \<Rightarrow> Inr [state_of want r]
      | current # outer \<Rightarrow>
         if owner current \<noteq> want then Inl (EnforcementOwnershipError ''ambiguous_enforcement_owner'')
         else Inr (\<lparr>decision_id = or_ref (decision_id r) (decision_id current),
                    reservation_id = or_ref (reservation_id r) (reservation_id current),
                    call_id = or_ref (call_id r) (call_id current),
                    attempt = (if attempt r = None then attempt current else attempt r),
                    owner = want\<rparr> # current # outer)) = Inr st'"
    unfolding claim_enforcement_owner_def bnd_eq_Inr raise_if_simps
    by (elim exE conjE) (auto dest: normalize_owner_Inr split: option.splits)
  show thesis
  proof (cases st)
    case Nil
    have "owner (state_of want r) = want" by (simp add: state_of_def)
    with b w env Nil show thesis by (intro that [of "state_of want r"]) simp_all
  next
    case (Cons current outer)
    with b have cw: "owner current = want" by (simp split: if_splits)
    let ?n = "\<lparr>decision_id = or_ref (decision_id r) (decision_id current),
      reservation_id = or_ref (reservation_id r) (reservation_id current),
      call_id = or_ref (call_id r) (call_id current),
      attempt = (if attempt r = None then attempt current else attempt r), owner = want\<rparr>"
    have "st' = ?n # st" using b cw Cons by simp
    moreover have "has_reservation current \<longrightarrow> has_reservation ?n"
      by (simp add: has_reservation_def or_ref_def)
    ultimately show thesis using w env cw Cons by (intro that [of ?n]) simp_all
  qed
qed

lemma one_owner_claim:
  assumes "one_owner e st" "claim_enforcement_owner e w r st = Inr st'"
  shows "one_owner e st'"
proof -
  from claim_Inr [OF assms(2)] obtain s where s: "st' = s # st" "owner s \<noteq> []"
    "configured_enforcement_owner e \<in> {None, Some (owner s)}"
    "\<forall>c \<in> set (take 1 st). owner c = owner s \<and> (has_reservation c \<longrightarrow> has_reservation s)" .
  from assms(1) obtain w where w: "\<forall>c \<in> set st. owner c = w" unfolding one_owner_def by blast
  have "\<forall>c \<in> set st. owner c = owner s"
  proof (cases st)
    case (Cons c cs)
    then have "w = owner s" using w s(4) by (metis One_nat_def list.set_intros(1) take_Suc_Cons)
    then show ?thesis using w by blast
  qed simp
  then show ?thesis using s(1,2,3) unfolding one_owner_def by (intro exI [of _ "owner s"]) simp
qed

lemma one_owner_step: "one_owner e st \<Longrightarrow> one_owner e (owner_step e op st)"
proof (cases op)
  case Leave
  then show "one_owner e st \<Longrightarrow> one_owner e (owner_step e op st)"
    by (cases st) (auto simp: one_owner_def)
next
  case (Bind r)
  then show "one_owner e st \<Longrightarrow> one_owner e (owner_step e op st)"
    by (cases st) (auto simp: one_owner_def bind_decision_refs_def)
qed (auto split: sum.split intro: one_owner_claim simp: claim_configured_enforcement_owner_def)

text \<open>C29: whatever claims, nested claims, leaves and bindings happen, all claims in force at one time
  name one owner, the configured one when there is one; so when the SDK reserves on its own, no
  other owner is configured or active and the innermost claim carries no reservation yet.\<close>

theorem single_enforcement_owner:
  assumes "st = owner_run e ops"
  shows "(\<exists>w. \<forall>s \<in> set st. owner s = w) \<and>
    (assert_sdk_may_reserve e st = Inr () \<and> \<not> should_skip_sdk_reserve e st \<longrightarrow>
       configured_enforcement_owner e \<in> {None, Some ''sdk''} \<and> (\<forall>s \<in> set st. owner s = ''sdk'') \<and>
       (st \<noteq> [] \<longrightarrow> \<not> has_reservation (hd st)))"
proof -
  have "one_owner e (fold (owner_step e) ops st0)" if "one_owner e st0" for st0
    using that by (induction ops arbitrary: st0) (auto intro: one_owner_step)
  moreover have "one_owner e []" by (auto simp: one_owner_def intro: exI [of _ "''sdk''"])
  ultimately obtain w where w: "\<forall>s \<in> set st. owner s = w"
    unfolding assms owner_run_def one_owner_def by blast
  have "owner (hd st) = ''sdk'' \<and> \<not> has_reservation (hd st)"
    if "assert_sdk_may_reserve e st = Inr ()" "\<not> should_skip_sdk_reserve e st" "st \<noteq> []"
    using that by (cases st) (simp_all add: assert_sdk_may_reserve_def should_skip_sdk_reserve_def split: if_splits)
  moreover have "configured_enforcement_owner e \<in> {None, Some ''sdk''}"
    if "assert_sdk_may_reserve e st = Inr ()" "\<not> should_skip_sdk_reserve e st"
    using that by (simp add: assert_sdk_may_reserve_def split: if_splits option.splits)
  ultimately show ?thesis using w by (cases st) auto
qed

definition no_refs :: owner_refs where
  "no_refs = \<lparr>decision_id = None, reservation_id = None, call_id = None, attempt = None\<rparr>"

theorem single_enforcement_owner_witness:
  "assert_sdk_may_reserve [] (owner_run [] [Claim '' SDK '' no_refs, Claim ''gateway'' no_refs]) = Inr () \<and>
   list_all (\<lambda>s. owner s = ''sdk'') (owner_run [] [Claim '' SDK '' no_refs, Claim ''gateway'' no_refs])"
proof -
  let ?st = "owner_run [] [Claim '' SDK '' no_refs, Claim ''gateway'' no_refs]"
  have "assert_sdk_may_reserve [] ?st = Inr () \<and> \<not> should_skip_sdk_reserve [] ?st" by code_simp
  then show ?thesis using single_enforcement_owner [OF refl, of "[]" "[Claim '' SDK '' no_refs, Claim ''gateway'' no_refs]"]
    by (auto simp: list_all_iff)
qed

lemma reservation_step:
  assumes "sorted_wrt (\<lambda>a b. has_reservation b \<longrightarrow> has_reservation a) st"
    "\<And>r. op = Bind r \<Longrightarrow> reservation_id r \<noteq> Some []"
  shows "sorted_wrt (\<lambda>a b. has_reservation b \<longrightarrow> has_reservation a) (owner_step e op st)"
proof -
  have claim: "sorted_wrt (\<lambda>a b. has_reservation b \<longrightarrow> has_reservation a) st'"
    if "claim_enforcement_owner e w r st = Inr st'" for w r st'
    by (rule claim_Inr [OF that]) (use assms(1) in \<open>cases st; auto\<close>)
  show ?thesis
  proof (cases op)
    case Leave
    with assms show ?thesis by (cases st) auto
  next
    case (Bind r)
    with assms show ?thesis
      by (cases st) (auto simp: bind_decision_refs_def has_reservation_def)
  qed (use assms(1) claim in \<open>auto split: sum.split simp: claim_configured_enforcement_owner_def\<close>)
qed

text \<open>One reservation per nest of claims: as long as no empty reservation id is bound, once any
  enclosing claim in force carries a reservation the SDK skips its own reserve, and a claim raises
  nothing of this away.\<close>
theorem reservation_is_inherited:
  assumes ops: "\<forall>op \<in> set ops. \<forall>r. op = Bind r \<longrightarrow> reservation_id r \<noteq> Some []"
    and s: "s \<in> set (owner_run e ops)" "has_reservation s"
  shows "should_skip_sdk_reserve e (owner_run e ops)"
proof -
  have "sorted_wrt (\<lambda>a b. has_reservation b \<longrightarrow> has_reservation a) (fold (owner_step e) ops st0)"
    if "sorted_wrt (\<lambda>a b. has_reservation b \<longrightarrow> has_reservation a) st0" for st0
    using that ops by (induction ops arbitrary: st0) (simp_all add: reservation_step)
  from this [of "[]"] have "sorted_wrt (\<lambda>a b. has_reservation b \<longrightarrow> has_reservation a) (owner_run e ops)"
    by (simp add: owner_run_def)
  then show ?thesis using s by (cases "owner_run e ops") (auto simp: should_skip_sdk_reserve_def)
qed

theorem reservation_is_inherited_witness:
  "should_skip_sdk_reserve [] (owner_run []
     [Claim_Configured no_refs, Bind (no_refs\<lparr>reservation_id := Some ''r1''\<rparr>), Claim ''sdk'' no_refs])"
proof -
  let ?ops = "[Claim_Configured no_refs, Bind (no_refs\<lparr>reservation_id := Some ''r1''\<rparr>), Claim ''sdk'' no_refs]"
  have "list_ex has_reservation (owner_run [] ?ops)" by code_simp
  then obtain s where "s \<in> set (owner_run [] ?ops)" "has_reservation s" by (auto simp: list_ex_iff)
  then show ?thesis using reservation_is_inherited [of ?ops s "[]"] by (simp add: no_refs_def)
qed

section \<open>The gate\<close>

definition paid_endpoints :: "string list" where
  "paid_endpoints = [''/chat/completions'', ''/completions'', ''/responses'', ''/messages'', ''/embeddings'',
     ''/images/generations'', ''/audio/speech'', ''/batches'', ''/messages/batches'', ''/fine_tuning/jobs'']"

lemma paid_not_free: "list_all (\<lambda>p. \<not> list_ex (matches p) free_posts) paid_endpoints"
  by code_simp

lemma before_append: "c \<in> set s \<Longrightarrow> before c (s @ t) = before c s"
  by (simp add: before_def)

lemma before_query: "before c (s @ c # t) = before c s"
  by (induction s) (auto simp: before_def)

lemma normalize_path_query: "normalize_path (p @ CHR ''?'' # q) = normalize_path p"
  by (simp add: normalize_path_def before_query)



end
