(* ===== verification/Price_Engine.thy ===== *)
theory Price_Engine
  imports Price_Catalog Lifecycle_Config
begin

text \<open>
  Choosing the price of a model: kazenai/pricing_policy.py, kazenai/cost_engine.py and
  kazenai/model_pricing.py. The prices per thousand tokens are exact rationals (the source holds
  them as floats). \<open>json.loads\<close> is the argument \<open>loads\<close>: \<open>None\<close> is a \<open>JSONDecodeError\<close>.
  \<open>cur\<close> is what \<open>price_catalog.current_table()\<close> returns at the call.
\<close>

section \<open>The unknown-model policy\<close>

definition pricing_policies :: "string list" where
  "pricing_policies = [''warn'', ''block'', ''estimate'']"

definition unknown_model_policy :: "env \<Rightarrow> string" where
  "unknown_model_policy e =
     (let explicit = env_norm e ''KAZENAI_UNKNOWN_MODEL_POLICY'';
          mode = (case resolve_deployment_mode e False of Inr m \<Rightarrow> m | Inl _ \<Rightarrow> ''production'')
      in if explicit \<notin> set pricing_policies then ''block''
         else if explicit = ''warn'' \<and> mode \<in> {''saas'', ''production'', ''prod'', ''staging''} then ''block''
         else explicit)"

definition resolve_model_key :: "string \<Rightarrow> string list \<Rightarrow> (string \<times> string) list \<Rightarrow> string option" where
  "resolve_model_key mdl known_keys aliases =
     (let key = py_lower (py_strip mdl) in
      if key = [] then None
      else if key \<in> set known_keys then Some key
      else case dget aliases key of
             Some canonical \<Rightarrow> if canonical \<noteq> [] \<and> canonical \<in> set known_keys then Some canonical else None
           | None \<Rightarrow> None)"

definition is_known_model :: "string \<Rightarrow> string list \<Rightarrow> (string \<times> string) list \<Rightarrow> bool" where
  "is_known_model mdl known aliases \<longleftrightarrow> resolve_model_key mdl known aliases \<noteq> None"

definition enforce_unknown_model :: "env \<Rightarrow> string \<Rightarrow> string list \<Rightarrow> (string \<times> string) list \<Rightarrow> unit res" where
  "enforce_unknown_model e mdl known aliases =
     (if is_known_model mdl known aliases then Inr ()
      else raise_if (unknown_model_policy e = ''block'') UnknownModelError)"

section \<open>Operator pricing and aliases\<close>

record model_pricing =
  input_per_1k :: rat
  output_per_1k :: rat

definition per_1k :: "catalog_row \<Rightarrow> model_pricing" where
  "per_1k row = \<lparr>input_per_1k = r_input (row_rates row) / 1000, output_per_1k = r_output (row_rates row) / 1000\<rparr>"

definition default_pricing :: "(string \<times> model_pricing) list" where
  "default_pricing =
     dset ''ollama'' \<lparr>input_per_1k = 0, output_per_1k = 0\<rparr>
       (map (\<lambda>(k, i, ou). (k, \<lparr>input_per_1k = i / 1000, output_per_1k = ou / 1000\<rparr>)) standard_short_rates)"

definition estimate_pricing :: model_pricing where
  "estimate_pricing = \<lparr>input_per_1k = 15 / 1000, output_per_1k = 75 / 1000\<rparr>"

definition rate_fields :: "string list" where
  "rate_fields = [''input'', ''cached_input'', ''cache_write_5m'', ''cache_write_1h'', ''output'', ''image'', ''tool_per_call'']"

definition row_fields :: "string list" where
  "row_fields = [''provider'', ''model'', ''request_tier'', ''context_band'', ''expected_reported_tier'', ''rates'',
     ''source'', ''verified_on'', ''long_context_threshold'', ''pricing_rule'']"

definition top_fields :: "string list" where
  "top_fields = [''currency'', ''unit'', ''source'', ''verified_on'', ''rows'']"

definition alias_forbidden :: "char list" where
  "alias_forbidden = ''*?[]{}()|+^$'' @ [char_of (92 :: nat)]"

text \<open>\<open>_parse_rate\<close>; \<open>format(number, "f")\<close> and the \<open>Decimal\<close> that \<open>_rates\<close> reads back from it give
  the same value, so the value itself is returned.\<close>

definition parse_rate :: "pyval \<Rightarrow> rat option res" where
  "parse_rate v = (if v = PNone then Inr None
     else case parse_dec (py_str v) of
            Some (DFin q) \<Rightarrow> if q < 0 then Inl PricingConfigError else Inr (Some q)
          | _ \<Rightarrow> Inl PricingConfigError)"

definition unknown_fields :: "(string \<times> pyval) list \<Rightarrow> string list \<Rightarrow> bool" where
  "unknown_fields d allowed \<longleftrightarrow> (\<exists>k \<in> set (map fst d). k \<notin> set allowed)"

definition parse_rates :: "(string \<times> pyval) list \<Rightarrow> rate_vector res" where
  "parse_rates d =
     bnd (parse_rate (kw d ''input'')) (\<lambda>i. bnd (parse_rate (kw d ''cached_input'')) (\<lambda>c.
     bnd (parse_rate (kw d ''cache_write_5m'')) (\<lambda>w5. bnd (parse_rate (kw d ''cache_write_1h'')) (\<lambda>w1.
     bnd (parse_rate (kw d ''output'')) (\<lambda>ou. bnd (parse_rate (kw d ''image'')) (\<lambda>im.
     bnd (parse_rate (kw d ''tool_per_call'')) (\<lambda>tl.
       Inr \<lparr>r_input = (case i of None \<Rightarrow> 0 | Some q \<Rightarrow> q), r_cached_input = c, r_cache_write_5m = w5,
            r_cache_write_1h = w1, r_output = (case ou of None \<Rightarrow> 0 | Some q \<Rightarrow> q), r_image = im,
            r_tool_per_call = tl, r_audio_input = None, r_audio_cached_input = None\<rparr>)))))))"

text \<open>\<open>str(x or d).strip().lower()\<close>.\<close>

definition norm_or :: "pyval \<Rightarrow> string \<Rightarrow> string" where
  "norm_or v d = py_lower (py_strip (py_str (or_val v (PStr d))))"

text \<open>One element of \<open>rows\<close>. The threshold is used as it is, so only an integer or null is modelled.\<close>

definition parse_override_row :: "string \<Rightarrow> string \<Rightarrow> pyval \<Rightarrow> catalog_row res" where
  "parse_override_row source verified v = (case v of
       PDict row \<Rightarrow>
         if unknown_fields row row_fields then Inl PricingConfigError
         else (case kw row ''rates'' of
             PDict rts \<Rightarrow>
               if unknown_fields rts rate_fields \<or> \<not> has_key rts ''input'' \<or> \<not> has_key rts ''output''
               then Inl PricingConfigError
               else bnd (parse_rates rts) (\<lambda>vector.
                 let p = norm_or (kw row ''provider'') []; m = norm_or (kw row ''model'') [] in
                 if p = [] \<or> m = [] then Inl PricingConfigError
                 else Inr \<lparr>provider = p, model = m,
                   request_tier = norm_or (kw row ''request_tier'') ''standard'',
                   context_band = norm_or (kw row ''context_band'') ''short'',
                   expected_reported_tier = py_str (or_val (kw row ''expected_reported_tier'') (PStr ''default'')),
                   row_rates = vector, certified = True,
                   source_url = py_str (or_val (kw row ''source'') (PStr source)),
                   verified_on = py_str (or_val (kw row ''verified_on'') (PStr verified)),
                   long_context_threshold =
                     (case kw row ''long_context_threshold'' of PInt i \<Rightarrow> Some i | _ \<Rightarrow> None),
                   pricing_rule = py_str (or_val (kw row ''pricing_rule'') (PStr ''operator_override'')),
                   label = ''operator_override'', catalog_version = catalog_version_const,
                   scheduled = [], valid_until = None\<rparr>)
           | _ \<Rightarrow> Inl PricingConfigError)
     | _ \<Rightarrow> Inl PricingConfigError)"

fun add_overrides :: "string \<Rightarrow> string \<Rightarrow> catalog \<Rightarrow> pyval list \<Rightarrow> catalog res" where
  "add_overrides source verified ov [] = Inr ov"
| "add_overrides source verified ov (v # vs) =
     bnd (parse_override_row source verified v) (\<lambda>row.
       if row_key row \<in> set (map fst ov) then Inl PricingConfigError
       else add_overrides source verified (ov @ [(row_key row, row)]) vs)"

definition load_pricing_json :: "pyval option \<Rightarrow> catalog res" where
  "load_pricing_json document = (case document of
       Some (PDict doc) \<Rightarrow>
         if unknown_fields doc top_fields then Inl PricingConfigError
         else if (case dget doc ''currency'' of None \<Rightarrow> False | Some c \<Rightarrow> c \<noteq> PStr ''USD'') then Inl PricingConfigError
         else if (case dget doc ''unit'' of None \<Rightarrow> False | Some u \<Rightarrow> u \<noteq> PStr ''per_1m_tokens'') then Inl PricingConfigError
         else let source = py_strip (str_or_empty (kw doc ''source''));
                  verified = py_strip (str_or_empty (kw doc ''verified_on''))
              in if source = [] \<or> verified = [] then Inl PricingConfigError
                 else (case kw doc ''rows'' of
                         PList rows \<Rightarrow> add_overrides source verified [] rows
                       | _ \<Rightarrow> Inl PricingConfigError)
     | _ \<Rightarrow> Inl PricingConfigError)"

definition exact_id :: "string \<Rightarrow> bool" where
  "exact_id s \<longleftrightarrow> s \<noteq> [] \<and> (\<forall>c \<in> set s. c \<notin> set alias_forbidden)"

fun add_aliases :: "string list \<Rightarrow> (string \<times> string) list \<Rightarrow> (string \<times> pyval) list \<Rightarrow> (string \<times> string) list res" where
  "add_aliases models al [] = Inr al"
| "add_aliases models al ((key, target) # kvs) =
     (let presented = py_lower (py_strip key); canonical = py_lower (py_strip (str_or_empty target)) in
      if \<not> exact_id presented then Inl PricingConfigError
      else if \<not> exact_id canonical then Inl PricingConfigError
      else if canonical \<notin> set models then Inl PricingConfigError
      else add_aliases models (dset presented canonical al) kvs)"

definition certified_models :: "catalog \<Rightarrow> string list" where
  "certified_models table =
     map model (filter (\<lambda>r. certified r \<and> request_tier r = ''standard'') (table_rows table))"

definition load_aliases :: "pyval option \<Rightarrow> catalog \<Rightarrow> (string \<times> string) list res" where
  "load_aliases document table = (case document of
       Some (PDict kvs) \<Rightarrow> add_aliases (certified_models table) [] kvs
     | _ \<Rightarrow> Inl PricingConfigError)"

definition require_multiplier_when_control :: "env \<Rightarrow> unit res" where
  "require_multiplier_when_control e =
     (let raw = (case dget e ''KAZENAI_TIER_MISMATCH_MULTIPLIER'' of None \<Rightarrow> [] | Some v \<Rightarrow> py_strip v) in
      if raw = [] then bnd (control_profile_active e) (\<lambda>c. raise_if c PricingConfigError)
      else case parse_dec raw of
             Some (DFin q) \<Rightarrow> raise_if (q < 1) PricingConfigError
           | _ \<Rightarrow> Inl PricingConfigError)"

section \<open>The engine\<close>

record cost_engine =
  te_catalog :: catalog
  te_aliases :: "(string \<times> string) list"
  te_pricing :: "(string \<times> model_pricing) list"
  te_constructor_models :: "string list"

text \<open>\<open>table[k] = row\<close>.\<close>

definition tset :: "catalog \<Rightarrow> catalog_key \<Rightarrow> catalog_row \<Rightarrow> catalog" where
  "tset table k r = AList.update k r table"

definition env_raw :: "env \<Rightarrow> string \<Rightarrow> string" where
  "env_raw e k = (case dget e k of None \<Rightarrow> [] | Some v \<Rightarrow> py_strip v)"

definition merge_short_rows :: "catalog \<Rightarrow> (string \<times> model_pricing) list \<Rightarrow> (string \<times> model_pricing) list" where
  "merge_short_rows table m =
     fold (\<lambda>r acc. if request_tier r = ''standard'' \<and> context_band r = ''short''
                   then dset (model r) (per_1k r) acc else acc) (table_rows table) m"

text \<open>\<open>pricing\<close> is the constructor's price table; a value that is neither a \<open>ModelPricing\<close> nor a dict is
  \<open>None\<close>.\<close>

definition cost_engine_init ::
  "(string \<Rightarrow> pyval option) \<Rightarrow> env \<Rightarrow> rat \<Rightarrow> catalog_bundle option
    \<Rightarrow> (string \<times> model_pricing option) list \<Rightarrow> cost_engine res" where
  "cost_engine_init loads e now live pricing =
     bnd (require_multiplier_when_control e) (\<lambda>_.
     bnd (current_table live now) (\<lambda>catalog0.
     let raw = env_raw e ''KAZENAI_PRICING_JSON'' in
     bnd (if raw = [] then Inr catalog0
          else bnd (load_pricing_json (loads raw)) (\<lambda>ov. Inr (fold (\<lambda>(k, r) t. tset t k r) ov catalog0))) (\<lambda>cat.
     let alias_raw = env_raw e ''KAZENAI_MODEL_ALIASES_JSON'' in
     bnd (active_bundle live now) (\<lambda>b.
     bnd (if alias_raw = [] then Inr (b_aliases b)
          else bnd (load_aliases (loads alias_raw) cat) (\<lambda>al. Inr (dupdate (b_aliases b) al))) (\<lambda>aliases.
       let merged = fold (\<lambda>(k, v) m. case v of None \<Rightarrow> m | Some p \<Rightarrow> dset k p m) pricing
                      (merge_short_rows cat default_pricing)
       in Inr \<lparr>te_catalog = cat, te_aliases = aliases, te_pricing = merged,
               te_constructor_models = map fst pricing\<rparr>)))))"

definition engine_row :: "catalog \<Rightarrow> cost_engine \<Rightarrow> string \<Rightarrow> string \<Rightarrow> string \<Rightarrow> catalog_row option" where
  "engine_row cur en mdl tier band =
     (case resolve_model_key mdl (map model (table_rows (te_catalog en))) (te_aliases en) of
        None \<Rightarrow> None
      | Some resolved \<Rightarrow>
          let prov = (case provider_for_model cur resolved of
                Some p \<Rightarrow> Some p
              | None \<Rightarrow>
                  let ps = remdups (map provider (filter (\<lambda>r. model r = resolved) (table_rows (te_catalog en))))
                  in if length ps = 1 then Some (hd ps) else None)
          in case prov of None \<Rightarrow> None | Some p \<Rightarrow> lookup_row (te_catalog en) p resolved tier band)"

definition price :: "env \<Rightarrow> catalog \<Rightarrow> cost_engine \<Rightarrow> string \<Rightarrow> model_pricing res" where
  "price e cur en mdl =
     (if mdl \<in> set (te_constructor_models en)
      then case dget (te_pricing en) mdl of None \<Rightarrow> Inl PyKeyError | Some p \<Rightarrow> Inr p
      else case engine_row cur en mdl ''standard'' ''short'' of
        Some row \<Rightarrow>
          bnd (control_profile_active e) (\<lambda>ctl.
            if ctl \<and> \<not> certified row then Inl UnknownModelError else Inr (per_1k row))
      | None \<Rightarrow>
          bnd (enforce_unknown_model e mdl (dkeys (te_pricing en)) (te_aliases en)) (\<lambda>_.
            if unknown_model_policy e = ''estimate'' then Inr estimate_pricing
            else Inr \<lparr>input_per_1k = 0, output_per_1k = 0\<rparr>))"

definition pricing_usd :: "model_pricing \<Rightarrow> int \<Rightarrow> int \<Rightarrow> rat" where
  "pricing_usd p inp out =
     d_add (d_mul (input_per_1k p) (of_int (max 0 inp))) (d_mul (output_per_1k p) (of_int (max 0 out)))"

text \<open>\<open>cost_usd\<close> and \<open>cost_micro_usd\<close>; the former's result is exact micro-dollars over a million.\<close>

definition engine_cost_micros :: "env \<Rightarrow> catalog \<Rightarrow> cost_engine \<Rightarrow> string \<Rightarrow> int \<Rightarrow> int \<Rightarrow> int res" where
  "engine_cost_micros e cur en mdl inp out =
     (case engine_row cur en mdl ''standard'' ''short'' of
        Some row \<Rightarrow>
          if mdl \<in> set (te_constructor_models en)
          then bnd (price e cur en mdl) (\<lambda>p. decimal_to_micro_usd (DFin (pricing_usd p inp out)))
          else cost_micro_usd (row_rates row) (no_tokens\<lparr>t_input := max 0 inp, t_output := max 0 out\<rparr>)
      | None \<Rightarrow> bnd (price e cur en mdl) (\<lambda>p. decimal_to_micro_usd (DFin (pricing_usd p inp out))))"

definition engine_cost_usd :: "env \<Rightarrow> catalog \<Rightarrow> cost_engine \<Rightarrow> string \<Rightarrow> int \<Rightarrow> int \<Rightarrow> rat res" where
  "engine_cost_usd e cur en mdl inp out =
     bnd (engine_cost_micros e cur en mdl inp out) (\<lambda>m. Inr (micro_usd_to_decimal m))"

definition engine_cost_micro_usd :: "env \<Rightarrow> catalog \<Rightarrow> cost_engine \<Rightarrow> string \<Rightarrow> int \<Rightarrow> int \<Rightarrow> int res" where
  "engine_cost_micro_usd e cur en mdl inp out =
     (case engine_row cur en mdl ''standard'' ''short'' of
        None \<Rightarrow> bnd (engine_cost_usd e cur en mdl inp out) (\<lambda>usd. decimal_to_micro_usd (DFin usd))
      | Some row \<Rightarrow> cost_micro_usd (row_rates row) (no_tokens\<lparr>t_input := max 0 inp, t_output := max 0 out\<rparr>))"

section \<open>Output bounds\<close>

definition default_max_output :: "(string \<times> int) list" where
  "default_max_output = [
     (''gpt-6'', 16384),
     (''gpt-5'', 16384),
     (''gpt-4.1'', 16384),
     (''gpt-4o'', 4096),
     (''gpt-4o-mini'', 16384),
     (''o1'', 16384),
     (''o3'', 16384),
     (''o4-mini'', 16384),
     (''claude-fable-5-1'', 16384),
     (''claude-fable-5'', 16384),
     (''claude-opus-5-5'', 16384),
     (''claude-opus-5'', 16384),
     (''claude-sonnet-5-5'', 16384),
     (''claude-sonnet-5'', 16384),
     (''claude-haiku-5-5'', 8192),
     (''claude-opus-4-8'', 8192),
     (''claude-opus-4-7'', 8192),
     (''claude-opus-4-6'', 8192),
     (''claude-opus-4-5'', 8192),
     (''claude-opus-4-1'', 8192),
     (''claude-sonnet-4-6'', 8192),
     (''claude-sonnet-4-5'', 8192),
     (''claude-haiku-4-5'', 8192),
     (''gemini-2.5-pro'', 8192),
     (''gemini-2.5-flash'', 8192),
     (''gemini-2.5-flash-lite'', 8192),
     (''gemini-3'', 8192),
     (''deepseek-flash'', 8192),
     (''deepseek-v4-pro'', 8192)]"

definition completion_tokens_prefixes :: "string list" where
  "completion_tokens_prefixes = [''gpt-5'', ''gpt-6'', ''o1'', ''o3'', ''o4'']"

definition normalize_model_id :: "string \<Rightarrow> string" where
  "normalize_model_id mdl =
     (let raw = py_lower (py_strip mdl);
          raw1 = (if CHR ''/'' \<in> set raw then last (split_on (CHR ''/'') raw) else raw)
      in if CHR '':'' \<in> set raw1 then before (CHR '':'') raw1 else raw1)"

definition separator :: "char \<Rightarrow> bool" where
  "separator c \<longleftrightarrow> c \<in> {CHR ''-'', CHR ''_'', CHR ''.''}"

text \<open>\<open>^[-_.]\d{1,2}(?:$|[-_.])\<close>; \<open>$\<close> also matches before a final newline.\<close>

definition ends_or_separator :: "string \<Rightarrow> bool" where
  "ends_or_separator s \<longleftrightarrow> s = [] \<or> s = [char_of (10 :: nat)] \<or> separator (hd s)"

definition is_version_bump :: "string \<Rightarrow> bool" where
  "is_version_bump s \<longleftrightarrow> (case s of
       c # d # rest \<Rightarrow> separator c \<and> is_digit d \<and>
         (ends_or_separator rest \<or>
          (case rest of d2 # rest2 \<Rightarrow> is_digit d2 \<and> ends_or_separator rest2 | [] \<Rightarrow> False))
     | _ \<Rightarrow> False)"

definition resolve_model_pricing_key :: "string \<Rightarrow> string list \<Rightarrow> string option" where
  "resolve_model_pricing_key mdl table_keys =
     (let nm = py_lower (py_strip mdl);
          keys = fold (\<lambda>k ks. dset (py_lower k) k ks) table_keys []
      in case dget keys nm of Some k \<Rightarrow> Some k
         | None \<Rightarrow> (case dget builtin_aliases nm of
              Some canonical \<Rightarrow> if canonical = [] then None else dget keys (py_lower canonical)
            | None \<Rightarrow> None))"

text \<open>A family key that is the model or its beginning up to a separator.\<close>

definition family_of :: "string \<Rightarrow> string \<Rightarrow> bool" where
  "family_of nm k \<longleftrightarrow> starts_with nm k \<and> (length nm = length k \<or> separator (nm ! length k))"

fun best_family :: "string \<Rightarrow> string \<times> string option \<Rightarrow> string list \<Rightarrow> string option" where
  "best_family nm (best, canonical) [] = canonical"
| "best_family nm (best, canonical) (k # ks) =
     (if \<not> starts_with nm k \<or> length k \<le> length best then best_family nm (best, canonical) ks
      else if length nm = length k \<or> separator (nm ! length k)
           then best_family nm (k, Some k) ks
           else best_family nm (best, canonical) ks)"

definition resolve_output_family :: "string \<Rightarrow> string option" where
  "resolve_output_family mdl =
     (let nm = normalize_model_id mdl; keys = map fst default_max_output
      in if nm \<in> set keys then Some nm else best_family nm ([], None) keys)"

definition default_max_output_tokens :: "string \<Rightarrow> int option" where
  "default_max_output_tokens mdl =
     (case resolve_output_family mdl of Some k \<Rightarrow> if k \<noteq> [] then dget default_max_output k else None | None \<Rightarrow> None)"

definition output_limit_param :: "string \<Rightarrow> string" where
  "output_limit_param mdl =
     (let nm = normalize_model_id mdl in
      if list_ex (\<lambda>p. nm = p \<or> starts_with nm p \<and> separator (nm ! length p)) completion_tokens_prefixes
      then ''max_completion_tokens'' else ''max_tokens'')"

text \<open>\<open>model_cost_usd_per_million\<close> with a caller's own table; \<open>None\<close> is an unknown model.\<close>

definition model_cost_usd_per_million :: "string \<Rightarrow> int \<Rightarrow> int \<Rightarrow> (string \<times> (rat \<times> rat)) list \<Rightarrow> rat option res" where
  "model_cost_usd_per_million mdl inp out table =
     (if mdl = [] \<or> inp \<le> 0 \<and> out \<le> 0 then Inr (Some 0)
      else case resolve_model_pricing_key mdl (dkeys table) of
             None \<Rightarrow> Inr None
           | Some key \<Rightarrow> (case dget table key of
               None \<Rightarrow> Inl PyKeyError
             | Some (ir, outr) \<Rightarrow>
                 let amount = d_div (d_add (d_mul (of_int (max 0 inp)) ir) (d_mul (of_int (max 0 out)) outr)) 1000000
                 in bnd (decimal_to_micro_usd (DFin amount)) (\<lambda>m. Inr (Some (micro_usd_to_decimal m)))))"

section \<open>What the loaders accept\<close>

definition opt_nonneg :: "rat option \<Rightarrow> bool" where
  "opt_nonneg x \<longleftrightarrow> (case x of None \<Rightarrow> True | Some q \<Rightarrow> 0 \<le> q)"

lemma rates_nonneg_opt:
  "rates_nonneg r \<longleftrightarrow> 0 \<le> r_input r \<and> 0 \<le> r_output r \<and> opt_nonneg (r_cached_input r) \<and>
     opt_nonneg (r_cache_write_5m r) \<and> opt_nonneg (r_cache_write_1h r) \<and> opt_nonneg (r_image r) \<and>
     opt_nonneg (r_tool_per_call r) \<and> opt_nonneg (r_audio_input r) \<and> opt_nonneg (r_audio_cached_input r)"
  by (simp add: rates_nonneg_def opt_nonneg_def)

lemma opt_nonneg_None [simp]: "opt_nonneg None"
  by (simp add: opt_nonneg_def)

lemma opt_nonneg_zero: "opt_nonneg x \<Longrightarrow> 0 \<le> (case x of None \<Rightarrow> 0 | Some q \<Rightarrow> q)"
  by (cases x) (simp_all add: opt_nonneg_def)

lemma parse_rate_nonneg: "parse_rate v = Inr x \<Longrightarrow> opt_nonneg x"
  by (auto simp: parse_rate_def opt_nonneg_def split: if_splits option.splits dec.splits)

lemma parse_rates_nonneg: "parse_rates d = Inr r \<Longrightarrow> rates_nonneg r"
  unfolding parse_rates_def bnd_eq_Inr
  by (elim exE conjE) (auto simp: rates_nonneg_opt opt_nonneg_zero dest!: parse_rate_nonneg)

definition override_ok :: "catalog_row \<Rightarrow> bool" where
  "override_ok r \<longleftrightarrow> provider r \<noteq> [] \<and> model r \<noteq> [] \<and> rates_nonneg (row_rates r) \<and>
     certified r \<and> label r = ''operator_override'' \<and> scheduled r = [] \<and> valid_until r = None"

lemma parse_override_row_ok: "parse_override_row s v x = Inr r \<Longrightarrow> override_ok r"
  by (auto simp: parse_override_row_def bnd_eq_Inr Let_def override_ok_def dest: parse_rates_nonneg
      split: pyval.splits if_splits)

lemma add_overrides_ok:
  "add_overrides s v ov xs = Inr ov' \<Longrightarrow> distinct (map fst ov) \<Longrightarrow>
   (\<forall>(k, r) \<in> set ov. k = row_key r \<and> override_ok r) \<Longrightarrow>
   distinct (map fst ov') \<and> length ov' = length ov + length xs \<and>
   (\<forall>(k, r) \<in> set ov'. k = row_key r \<and> override_ok r)"
proof (induction xs arbitrary: ov)
  case (Cons x xs)
  then obtain r where r: "parse_override_row s v x = Inr r" "row_key r \<notin> set (map fst ov)"
    "add_overrides s v (ov @ [(row_key r, r)]) xs = Inr ov'"
    by (auto simp: bnd_eq_Inr split: if_splits)
  then show ?case using Cons.IH [OF r(3)] Cons.prems parse_override_row_ok [OF r(1)] by auto
qed simp

text \<open>An operator price document that is accepted is in dollars per million tokens and yields one
  row per listed entry, each under its own key and no key twice, with a named provider and model
  and finite non-negative rates; nothing of a refused document is used.\<close>
theorem load_pricing_json_sound:
  assumes "load_pricing_json (Some doc) = Inr ov"
  shows "field doc ''currency'' \<in> {PNone, PStr ''USD''} \<and> field doc ''unit'' \<in> {PNone, PStr ''per_1m_tokens''} \<and>
    (\<exists>rows. field doc ''rows'' = PList rows \<and> length ov = length rows) \<and> distinct (map fst ov) \<and>
    (\<forall>(k, r) \<in> set ov. k = row_key r \<and> override_ok r)"
proof -
  from assms obtain d where d: "doc = PDict d"
    by (auto simp: load_pricing_json_def split: pyval.splits)
  with assms obtain rows source verified where rows: "kw d ''rows'' = PList rows"
    "add_overrides source verified [] rows = Inr ov"
    by (auto simp: load_pricing_json_def Let_def split: pyval.splits if_splits)
  have "or_none (dget d ''currency'') \<in> {PNone, PStr ''USD''}" "or_none (dget d ''unit'') \<in> {PNone, PStr ''per_1m_tokens''}"
    using assms d by (auto simp: load_pricing_json_def split: option.splits if_splits)
  then show ?thesis using add_overrides_ok [OF rows(2)] rows(1) d by (auto simp: kw_def)
qed

definition sample_pricing :: pyval where
  "sample_pricing = PDict [(''source'', PStr ''contract''), (''verified_on'', PStr ''2026-10-01''),
     (''rows'', PList [PDict [(''provider'', PStr ''OpenAI''), (''model'', PStr ''gpt-x''),
        (''rates'', PDict [(''input'', PStr ''0.5''), (''output'', PInt 2)])]])]"

theorem load_pricing_json_sound_witness:
  "\<exists>ov. load_pricing_json (Some sample_pricing) = Inr ov \<and> length ov = 1"
proof -
  have "case load_pricing_json (Some sample_pricing) of Inr _ \<Rightarrow> True | Inl _ \<Rightarrow> False" by code_simp
  then obtain ov where "load_pricing_json (Some sample_pricing) = Inr ov" by (auto split: sum.splits)
  from load_pricing_json_sound [OF this] this show ?thesis
    by (auto simp: sample_pricing_def)
qed

lemma add_aliases_ok:
  "add_aliases models al kvs = Inr al' \<Longrightarrow> distinct (map fst al) \<Longrightarrow>
   (\<forall>(k, c) \<in> set al. exact_id k \<and> exact_id c \<and> c \<in> set models) \<Longrightarrow>
   distinct (map fst al') \<and> (\<forall>(k, c) \<in> set al'. exact_id k \<and> exact_id c \<and> c \<in> set models)"
proof (induction kvs arbitrary: al)
  case (Cons kv kvs)
  obtain key target where kv: "kv = (key, target)" by (cases kv)
  let ?k = "py_lower (py_strip key)" and ?c = "py_lower (py_strip (str_or_empty target))"
  from Cons.prems(1) have ok: "exact_id ?k" "exact_id ?c" "?c \<in> set models"
    and rec: "add_aliases models (dset ?k ?c al) kvs = Inr al'"
    by (simp_all add: kv Let_def split: if_splits)
  have "distinct (map fst (dset ?k ?c al))" using Cons.prems(2) by (simp add: map_fst_dset)
  moreover have "\<forall>(k, c) \<in> set (dset ?k ?c al). exact_id k \<and> exact_id c \<and> c \<in> set models"
    using set_dset [OF Cons.prems(2), of ?k ?c] Cons.prems(3) ok by blast
  ultimately show ?case by (rule Cons.IH [OF rec])
qed simp

text \<open>An accepted alias table maps exact ids to models that have a certified standard row, and
  looking a model up through it inherits nothing: the key found is the presented id itself or the
  target of the alias of exactly that id.\<close>
theorem alias_resolution_exact:
  assumes al: "load_aliases doc table = Inr al"
    and r: "resolve_model_key mdl (map model (table_rows table)) al = Some k"
  shows "k = py_lower (py_strip mdl) \<and> k \<in> model ` set (table_rows table) \<or>
    dget al (py_lower (py_strip mdl)) = Some k \<and> exact_id (py_lower (py_strip mdl)) \<and>
    (\<exists>row \<in> set (table_rows table). model row = k \<and> certified row \<and> request_tier row = ''standard'')"
proof -
  from al obtain kvs where "add_aliases (certified_models table) [] kvs = Inr al"
    by (auto simp: load_aliases_def split: option.splits pyval.splits)
  from add_aliases_ok [OF this] have ok: "(j, c) \<in> set al \<Longrightarrow> exact_id j \<and> c \<in> set (certified_models table)" for j c
    by auto
  let ?m = "py_lower (py_strip mdl)"
  have al2: "exact_id ?m \<and> (\<exists>row \<in> set (table_rows table). model row = k \<and> certified row \<and> request_tier row = ''standard'')"
    if "dget al ?m = Some k"
    using ok [OF dget_in [OF that]] by (auto simp: certified_models_def)
  have "k = ?m \<and> k \<in> model ` set (table_rows table) \<or> dget al ?m = Some k"
    using r by (auto simp: resolve_model_key_def Let_def split: if_splits option.splits)
  then show ?thesis using al2 by blast
qed

definition sample_table :: catalog where
  "sample_table = (let r = builtin_row ''openai'' ''gpt-x'' ''standard'' ''short'' ''default''
     (lit_rates 1 None None None 2) openai_source None ''r'' [] None in [(row_key r, r)])"

theorem alias_resolution_exact_witness:
  "\<exists>al. load_aliases (Some (PDict [(''GPT-X-2026'', PStr ''gpt-x'')])) sample_table = Inr al \<and>
     dget al ''gpt-x-2026'' = Some ''gpt-x''"
proof -
  let ?d = "Some (PDict [(''GPT-X-2026'', PStr ''gpt-x'')])"
  have al: "load_aliases ?d sample_table = Inr [(''gpt-x-2026'', ''gpt-x'')]" by code_simp
  have r: "resolve_model_key ''gpt-x-2026'' (map model (table_rows sample_table)) [(''gpt-x-2026'', ''gpt-x'')] = Some ''gpt-x''"
    and n: "py_lower (py_strip ''gpt-x-2026'') = ''gpt-x-2026''" by code_simp+
  from alias_resolution_exact [OF al r] al show ?thesis by (simp add: n)
qed

lemma best_family_longest:
  assumes "c = None \<and> b = [] \<or> c = Some b \<and> family_of nm b" "[] \<notin> set ks"
  shows "case best_family nm (b, c) ks of
      None \<Rightarrow> c = None \<and> (\<forall>k \<in> set ks. \<not> family_of nm k)
    | Some k \<Rightarrow> (k \<in> set ks \<or> c = Some k) \<and> family_of nm k \<and> length b \<le> length k \<and>
        (\<forall>k' \<in> set ks. family_of nm k' \<longrightarrow> length k' \<le> length k)"
  using assms
proof (induction ks arbitrary: b c)
  case Nil
  then show ?case by auto
next
  case (Cons k ks)
  show ?case
  proof (cases "family_of nm k \<and> length b < length k")
    case True
    then have "best_family nm (b, c) (k # ks) = best_family nm (k, Some k) ks"
      by (auto simp: family_of_def)
    then show ?thesis using Cons.IH [of "Some k" k] Cons.prems True
      by (auto split: option.splits)
  next
    case False
    then have e: "best_family nm (b, c) (k # ks) = best_family nm (b, c) ks"
      by (auto simp: family_of_def)
    have "\<not> family_of nm k" if "c = None" using that False Cons.prems by (cases k) auto
    then show ?thesis using Cons.IH [of c b] Cons.prems False unfolding e
      by (auto split: option.splits)
  qed
qed

text \<open>The default output bound comes from the longest family that the normalised model is, or
  starts with up to a separator; a model that no family matches has no bound.\<close>
theorem output_family_is_longest:
  "case resolve_output_family mdl of
      None \<Rightarrow> \<forall>k \<in> set (map fst default_max_output). \<not> family_of (normalize_model_id mdl) k
    | Some k \<Rightarrow> k \<in> set (map fst default_max_output) \<and> family_of (normalize_model_id mdl) k \<and>
        (\<forall>k' \<in> set (map fst default_max_output). family_of (normalize_model_id mdl) k' \<longrightarrow> length k' \<le> length k) \<and>
        (\<exists>n. default_max_output_tokens mdl = Some n \<and> 4096 \<le> n \<and> n \<le> 16384)"
proof -
  let ?n = "normalize_model_id mdl" and ?ks = "map fst default_max_output"
  have ne: "[] \<notin> set ?ks" by (simp add: default_max_output_def)
  have bounds: "\<exists>n. dget default_max_output k = Some n \<and> 4096 \<le> n \<and> n \<le> 16384" if "k \<in> set ?ks" for k
  proof -
    have "list_all (\<lambda>(k, n). 4096 \<le> n \<and> n \<le> 16384) default_max_output" by code_simp
    moreover from that have "map_of default_max_output k \<noteq> None" by (simp add: map_of_eq_None_iff)
    then obtain n where "dget default_max_output k = Some n" by (auto simp: dget_def)
    ultimately show ?thesis using dget_in by (fastforce simp: list_all_iff)
  qed
  have found: "default_max_output_tokens mdl = dget default_max_output k"
    if "resolve_output_family mdl = Some k" "k \<in> set ?ks" for k
    using that ne by (cases "k = []") (simp_all add: default_max_output_tokens_def)
  show ?thesis
  proof (cases "?n \<in> set ?ks")
    case True
    then have r: "resolve_output_family mdl = Some ?n" by (simp add: resolve_output_family_def Let_def)
    moreover have "length k' \<le> length ?n" if "family_of ?n k'" for k'
      using that by (auto simp: family_of_def starts_with_def) (metis length_take min.absorb_iff2 min.cobounded1 min_def)
    ultimately show ?thesis using True bounds [OF True] found [OF r True]
      by (auto simp: family_of_def starts_with_def)
  next
    case False
    then have "resolve_output_family mdl = best_family ?n ([], None) ?ks"
      by (simp add: resolve_output_family_def Let_def)
    then show ?thesis using best_family_longest [of None "[]" ?n ?ks] ne bounds found
      by (auto split: option.splits)
  qed
qed

theorem output_family_is_longest_witness:
  "resolve_output_family ''OpenRouter/gpt-4o-mini-2024-07-18:free'' = Some ''gpt-4o-mini'' \<and>
   (\<exists>n. default_max_output_tokens ''OpenRouter/gpt-4o-mini-2024-07-18:free'' = Some n \<and> n \<le> 16384)"
proof -
  have "resolve_output_family ''OpenRouter/gpt-4o-mini-2024-07-18:free'' = Some ''gpt-4o-mini''" by code_simp
  with output_family_is_longest [of "''OpenRouter/gpt-4o-mini-2024-07-18:free''"] show ?thesis by auto
qed

section \<open>The price of a model\<close>

text \<open>When the engine prices a model that is neither in the constructor's table nor in its catalog,
  either the model is a known key of its price table, or the operator opted in: to the flat
  estimate, which is then the price, or to \<open>warn\<close> outside production-like deployments.\<close>
theorem unpriced_model_needs_opt_in:
  assumes p: "price e cur en mdl = Inr pr"
    and m: "mdl \<notin> set (te_constructor_models en)" "engine_row cur en mdl ''standard'' ''short'' = None"
  shows "is_known_model mdl (dkeys (te_pricing en)) (te_aliases en) \<or>
    unknown_model_policy e = ''estimate'' \<and> pr = estimate_pricing \<or>
    unknown_model_policy e = ''warn'' \<and> \<not> is_production_like e"
proof (cases "is_known_model mdl (dkeys (te_pricing en)) (te_aliases en)")
  case False
  with p m have nb: "unknown_model_policy e \<noteq> ''block''"
    and pr: "pr = (if unknown_model_policy e = ''estimate'' then estimate_pricing
                   else \<lparr>input_per_1k = 0, output_per_1k = 0\<rparr>)"
    by (auto simp: price_def enforce_unknown_model_def split: if_splits)
  have "unknown_model_policy e = ''warn'' \<longrightarrow> \<not> is_production_like e"
    by (auto simp: unknown_model_policy_def is_production_like_def Let_def production_like_modes_def
        split: if_splits sum.splits)
  moreover have "unknown_model_policy e \<in> {''warn'', ''block'', ''estimate''}"
    by (auto simp: unknown_model_policy_def Let_def pricing_policies_def split: if_splits)
  ultimately show ?thesis using nb pr by auto
qed simp

theorem unpriced_model_needs_opt_in_witness:
  "price [(''KAZENAI_UNKNOWN_MODEL_POLICY'', ''estimate'')] []
     \<lparr>te_catalog = [], te_aliases = [], te_pricing = [], te_constructor_models = []\<rparr> ''mystery'' = Inr estimate_pricing"
proof -
  let ?en = "\<lparr>te_catalog = [], te_aliases = [], te_pricing = [], te_constructor_models = []\<rparr> :: cost_engine"
  let ?e = "[(''KAZENAI_UNKNOWN_MODEL_POLICY'', ''estimate'')]"
  have pol: "unknown_model_policy ?e = ''estimate''" by code_simp
  have "\<not> is_known_model ''mystery'' (dkeys (te_pricing ?en)) (te_aliases ?en)"
    "engine_row [] ?en ''mystery'' ''standard'' ''short'' = None" by code_simp+
  then obtain pr where "price ?e [] ?en ''mystery'' = Inr pr"
    by (simp add: price_def enforce_unknown_model_def pol)
  moreover from unpriced_model_needs_opt_in [OF this] have "pr = estimate_pricing"
    using \<open>\<not> is_known_model _ _ _\<close> \<open>engine_row _ _ _ _ _ = None\<close> pol by simp
  ultimately show ?thesis by simp
qed

end
