(* ===== verification/Request_Rules.thy ===== *)
theory Request_Rules
  imports Price_Engine Urls
begin

text \<open>
  The local checks kazenai/request_pricing.py makes before a provider call is priced: the effective
  request, the pinned tier, \<open>n\<close>, tools, modifiers, cache writes, documents and images, the sizes
  that bound the input, and the in-process admission breaker. Requests are dictionaries of dynamic
  values. The provider's SDK client, Pillow and \<open>model_dump\<close> of third-party objects are arguments.
\<close>

type_synonym kwargs = "(string \<times> pyval) list"

definition refuse :: "string \<Rightarrow> 'a res" where
  "refuse code = Inl (UnsupportedMode code)"

text \<open>\<open>for x in (v or ())\<close> and \<open>for x in v\<close>.\<close>

fun iter_val :: "pyval \<Rightarrow> pyval list res" where
  "iter_val (PList l) = Inr l"
| "iter_val (PDict d) = Inr (map (\<lambda>(k, _). PStr k) d)"
| "iter_val (PStr s) = Inr (map (\<lambda>c. PStr [c]) s)"
| "iter_val _ = Inl PyTypeError"

definition iter_or_empty :: "pyval \<Rightarrow> pyval list res" where
  "iter_or_empty v = (if truthy v then iter_val v else Inr [])"

section \<open>The request\<close>

definition integer_n :: "pyval \<Rightarrow> int res" where
  "integer_n v = (case v of
       PNone \<Rightarrow> Inr 1
     | PInt i \<Rightarrow> if i < 1 then refuse ''n_not_integer'' else Inr i
     | _ \<Rightarrow> refuse ''n_not_integer'')"

definition tool_type :: "pyval \<Rightarrow> string option" where
  "tool_type tool = (let raw = field tool ''type'' in if raw = PNone then None else Some (py_str raw))"

definition sdk_transport_keys :: "string list" where
  "sdk_transport_keys = [''extra_body'', ''extra_headers'', ''extra_query'', ''timeout'']"

definition effective_request :: "kwargs \<Rightarrow> kwargs res" where
  "effective_request kws =
     (let view = filter (\<lambda>(k, _). k \<notin> set sdk_transport_keys) kws in
      case kw kws ''extra_body'' of
        PNone \<Rightarrow> Inr view
      | PDict extra \<Rightarrow> Inr (dupdate view extra)
      | _ \<Rightarrow> refuse ''extra_body_unsupported'')"

definition pin_tier :: "string \<Rightarrow> string" where
  "pin_tier prov = (if prov = ''anthropic'' then ''standard_only'' else ''default'')"

definition unset :: "pyval \<Rightarrow> bool" where
  "unset v \<longleftrightarrow> v = PNone \<or> v = PStr []"

definition pin_service_tier :: "string \<Rightarrow> kwargs \<Rightarrow> kwargs res" where
  "pin_service_tier prov kws0 =
     bnd (case kw kws0 ''extra_body'' of
            PDict extra \<Rightarrow>
              if has_key extra ''service_tier''
              then let rq = kw extra ''service_tier'' in
                if unset rq
                then Inr (dset ''extra_body'' (PDict (dset ''service_tier'' (PStr (pin_tier prov)) extra)) kws0)
                else if py_str rq \<noteq> pin_tier prov then refuse ''service_tier_unsupported''
                else Inr kws0
              else Inr kws0
          | _ \<Rightarrow> Inr kws0) (\<lambda>kws.
     if unset (kw kws ''service_tier'')
     then Inr (dset ''service_tier'' (PStr (pin_tier prov)) kws)
     else if py_str (kw kws ''service_tier'') \<noteq> pin_tier prov then refuse ''service_tier_unsupported''
     else Inr kws)"

definition refused_tool_prefixes :: "string list" where
  "refused_tool_prefixes = [''web_search'', ''web_fetch'', ''code_execution'']"

definition validate_tool :: "catalog_bundle \<Rightarrow> string \<Rightarrow> string \<Rightarrow> pyval \<Rightarrow> unit res" where
  "validate_tool b prov surface tool =
     (let ty = tool_type tool in
      if prov = ''anthropic'' then
        (case ty of None \<Rightarrow> Inr ()
         | Some t \<Rightarrow>
             if t = ''custom'' then Inr ()
             else if list_ex (starts_with t) refused_tool_prefixes
                  \<or> list_ex (\<lambda>i. t = i \<or> starts_with t (i @ ''_'')) refused_tool_prefixes
             then refuse ''anthropic_server_tool_unsupported''
             else if t \<notin> set (b_client_tool_versions b) then refuse ''anthropic_tool_unsupported''
             else Inr ())
      else if surface = ''responses'' then
        (if ty \<notin> {Some ''function'', Some ''custom''} then refuse ''responses_builtin_tool_unsupported'' else Inr ())
      else if ty \<noteq> Some ''function'' then refuse ''chat_tool_unsupported'' else Inr ())"

definition given :: "kwargs \<Rightarrow> string \<Rightarrow> bool" where
  "given v k \<longleftrightarrow> kw v k \<noteq> PNone"

definition validate_tools :: "catalog_bundle \<Rightarrow> string \<Rightarrow> string \<Rightarrow> kwargs \<Rightarrow> unit res" where
  "validate_tools b prov surface v =
     (if given v ''mcp_servers'' then refuse ''mcp_servers_unsupported''
      else if given v ''container'' then refuse ''container_unsupported''
      else bnd (if prov = ''openai'' \<and> surface = ''chat'' then
                  if given v ''web_search_options'' then refuse ''web_search_options_unsupported''
                  else bnd (if given v ''modalities'' then iter_val (kw v ''modalities'') else Inr []) (\<lambda>ms.
                    if list_ex (\<lambda>m. py_str m = ''audio'') ms then refuse ''audio_output_unsupported''
                    else if given v ''audio'' then refuse ''audio_output_unsupported''
                    else Inr ())
                else Inr ()) (\<lambda>_.
           bnd (iter_or_empty (kw v ''tools'')) (\<lambda>tools. for_each (validate_tool b prov surface) tools)))"

definition norm_text :: "pyval \<Rightarrow> string" where
  "norm_text v = py_lower (py_strip (py_str v))"

definition validate_request_modifiers :: "catalog_bundle \<Rightarrow> string \<Rightarrow> kwargs \<Rightarrow> unit res" where
  "validate_request_modifiers b prov v =
     (if prov \<noteq> ''anthropic'' then Inr ()
      else let speed = kw v ''speed''; geo = kw v ''inference_geo'' in
        if speed \<noteq> PNone \<and> norm_text speed \<notin> set (b_allowed_speeds b) then refuse ''fast_mode_unsupported''
        else if geo \<noteq> PNone \<and> dget (b_inference_geo b) (norm_text geo) = None
        then refuse ''inference_geo_unsupported'' else Inr ())"

section \<open>The client and the price multiplier\<close>

text \<open>What the code reads from a provider client: the \<open>base_url\<close> attribute (its own or its inner
  client's), the exact input counters it exposes (\<open>None\<close>: not callable) and the fields they accept.\<close>

record provider_client =
  cl_base_url :: pyval
  cl_inner_base_url :: pyval
  cl_anthropic_counter :: "(kwargs \<Rightarrow> pyval res) option"
  cl_openai_counter :: "(kwargs \<Rightarrow> pyval res) option"
  cl_accepts :: "string list option"
  cl_text_format :: "pyval \<Rightarrow> pyval option"

definition client_host :: "provider_client option \<Rightarrow> string option" where
  "client_host client = (case client of None \<Rightarrow> None
     | Some c \<Rightarrow>
         let raw = (if cl_base_url c \<noteq> PNone then cl_base_url c else cl_inner_base_url c) in
         if raw = PNone then None
         else let h = (case raw of PObj d \<Rightarrow> or_none (dget d ''host'') | _ \<Rightarrow> PNone);
                  host = (if h \<noteq> PNone then h else PStr (url_hostname (py_str raw)));
                  text = py_lower (py_strip (str_or_empty host))
              in if text = [] then None else Some text)"

fun endpoint_multipliers :: "(string \<times> rat) list \<Rightarrow> (string \<times> pyval) list \<Rightarrow> (string \<times> rat) list res" where
  "endpoint_multipliers acc [] = Inr acc"
| "endpoint_multipliers acc ((host, v) # kvs) =
     (let name = py_lower (py_strip host) in
      if name = [] \<or> list_ex (\<lambda>c. c \<in> set ''*?/[] '') name then Inl PricingConfigError
      else case parse_dec (py_str v) of
             Some (DFin q) \<Rightarrow> if q < 1 then Inl PricingConfigError
                              else endpoint_multipliers (dset name q acc) kvs
           | _ \<Rightarrow> Inl PricingConfigError)"

definition operator_endpoint_multipliers :: "(string \<Rightarrow> pyval option) \<Rightarrow> env \<Rightarrow> (string \<times> rat) list res" where
  "operator_endpoint_multipliers loads e =
     (let raw = env_raw e ''KAZENAI_ENDPOINT_PRICE_MULTIPLIERS'' in
      if raw = [] then Inr []
      else case loads raw of Some (PDict d) \<Rightarrow> endpoint_multipliers [] d | _ \<Rightarrow> Inl PricingConfigError)"

definition price_multiplier ::
  "(string \<Rightarrow> pyval option) \<Rightarrow> env \<Rightarrow> catalog_bundle \<Rightarrow> string \<Rightarrow> provider_client option \<Rightarrow> kwargs
    \<Rightarrow> (rat \<times> string list) res" where
  "price_multiplier loads e b prov client v =
     (let geo = kw v ''inference_geo'';
          factor = (if prov = ''anthropic'' \<and> geo \<noteq> PNone
                    then (case dget (b_inference_geo b) (norm_text geo) of None \<Rightarrow> 1 | Some q \<Rightarrow> q) else 1);
          m1 = (if factor \<noteq> 1 then d_mul 1 factor else 1);
          r1 = (if factor \<noteq> 1 then [''inference_geo:'' @ norm_text geo] else []);
          first_party = (case dget (b_first_party_hosts b) prov of None \<Rightarrow> [] | Some hs \<Rightarrow> hs)
      in case client_host client of
           None \<Rightarrow> Inr (m1, r1)
         | Some host \<Rightarrow>
             if first_party = [] \<or> host \<in> set first_party then Inr (m1, r1)
             else bnd (operator_endpoint_multipliers loads e) (\<lambda>decl.
               let declared = dget decl host;
                   f2 = (case declared of Some q \<Rightarrow> q | None \<Rightarrow> b_non_first_party_uplift b)
               in if f2 \<noteq> 1
                  then Inr (d_mul m1 f2, r1 @ [''endpoint:'' @
                         (if declared \<noteq> None then ''operator_declared'' else ''non_first_party'')])
                  else Inr (m1, r1)))"

section \<open>Cache writes, documents and images\<close>

fun see_cache :: "pyval \<Rightarrow> string \<Rightarrow> string" where
  "see_cache (PDict d) found =
     (let found1 = (case or_none (dget d ''cache_control'') of
            PDict control \<Rightarrow>
              let ttl = py_str (or_val (kw control ''ttl'') (PStr ''5m'')) in
              if ttl \<in> {''1h'', ''1hour'', ''hour''} then ''1h''
              else if found \<noteq> ''1h'' then ''5m'' else found
          | _ \<Rightarrow> found)
      in fold (\<lambda>(_, v) f. see_cache v f) d found1)"
| "see_cache (PList l) found = fold see_cache l found"
| "see_cache _ found = found"

definition cache_write_kind :: "kwargs \<Rightarrow> string" where
  "cache_write_kind v = see_cache (PDict v) ''none''"

definition walk_content :: "kwargs \<Rightarrow> pyval list" where
  "walk_content v = filter (\<lambda>x. x \<noteq> PNone) (map (kw v) [''messages'', ''input'', ''system''])"

fun iter_parts :: "pyval \<Rightarrow> (string \<times> pyval) list list" where
  "iter_parts (PDict d) = d # concat (map (\<lambda>(_, v). iter_parts v) d)"
| "iter_parts (PList l) = concat (map iter_parts l)"
| "iter_parts _ = []"

definition document_types :: "string list" where
  "document_types = [''file'', ''input_file'', ''document'', ''input_document'', ''container'']"

definition image_types :: "string list" where
  "image_types = [''image'', ''image_url'', ''input_image'']"

definition part_kind :: "(string \<times> pyval) list \<Rightarrow> string" where
  "part_kind part = str_or_empty (kw part ''type'')"

definition is_document :: "(string \<times> pyval) list \<Rightarrow> bool" where
  "is_document part \<longleftrightarrow> part_kind part \<in> set document_types
     \<or> has_key part ''file_id'' \<and> part_kind part \<notin> set image_types
     \<or> (case kw part ''source'' of
          PDict source \<Rightarrow> kw source ''type'' \<in> {PStr ''file'', PStr ''file_id''} | _ \<Rightarrow> False)"

record image_desc =
  im_detail :: string
  im_url :: pyval
  im_source :: pyval
  im_file_id :: pyval

definition detail_of :: "pyval \<Rightarrow> string" where
  "detail_of v = py_str (or_val v (PStr ''auto''))"

definition image_payload :: "(string \<times> pyval) list \<Rightarrow> image_desc option" where
  "image_payload part =
     (let kind = part_kind part;
          source = (if is_mapping (kw part ''source'') then kw part ''source'' else PNone) in
      if kind \<notin> set image_types \<and> \<not> has_key part ''image_url'' then None
      else case kw part ''image_url'' of
        PDict u \<Rightarrow> Some \<lparr>im_detail = detail_of (kw u ''detail''), im_url = kw u ''url'', im_source = PNone,
                         im_file_id = kw part ''file_id''\<rparr>
      | PStr s \<Rightarrow> Some \<lparr>im_detail = detail_of (kw part ''detail''), im_url = PStr s, im_source = PNone,
                        im_file_id = kw part ''file_id''\<rparr>
      | other \<Rightarrow>
          if kind = ''input_image'' then
            Some \<lparr>im_detail = detail_of (kw part ''detail''), im_url = other, im_source = source,
                  im_file_id = kw part ''file_id''\<rparr>
          else if kind = ''image'' then
            Some \<lparr>im_detail = detail_of (kw part ''detail''),
                  im_url = field source ''url'', im_source = source,
                  im_file_id = or_val (kw part ''file_id'') (field source ''file_id'')\<rparr>
          else None)"

definition collect_images :: "kwargs \<Rightarrow> image_desc list \<times> bool" where
  "collect_images v =
     (let parts = concat (map iter_parts (walk_content v)) in
      (concat (map (\<lambda>p. if is_document p then [] else case image_payload p of None \<Rightarrow> [] | Some i \<Rightarrow> [i]) parts),
       list_ex is_document parts))"

section \<open>Inline images\<close>

text \<open>\<open>base64.b64decode(s, validate=True)\<close>: characters of the alphabet, then at most two \<open>=\<close>.\<close>

definition b64_value :: "char \<Rightarrow> nat option" where
  "b64_value c = (let n = char_code c in
     if 65 \<le> n \<and> n \<le> 90 then Some (n - 65) else if 97 \<le> n \<and> n \<le> 122 then Some (n - 71)
     else if 48 \<le> n \<and> n \<le> 57 then Some (n + 4) else if c = CHR ''+'' then Some 62
     else if c = CHR ''/'' then Some 63 else None)"

fun b64_bytes :: "nat list \<Rightarrow> string option" where
  "b64_bytes (a # b # c # d # r) = map_option (\<lambda>t.
     char_of (a * 4 + b div 16) # char_of (b mod 16 * 16 + c div 4) # char_of (c mod 4 * 64 + d) # t) (b64_bytes r)"
| "b64_bytes [a, b, c] = Some [char_of (a * 4 + b div 16), char_of (b mod 16 * 16 + c div 4)]"
| "b64_bytes [a, b] = Some [char_of (a * 4 + b div 16)]"
| "b64_bytes [a] = None"
| "b64_bytes [] = Some []"

definition b64decode :: "string \<Rightarrow> string option" where
  "b64decode s =
     (let body = takeWhile (\<lambda>c. c \<noteq> CHR ''='') s; pad = dropWhile (\<lambda>c. c \<noteq> CHR ''='') s in
      if list_all (\<lambda>c. b64_value c \<noteq> None) body \<and> list_all (\<lambda>c. c = CHR ''='') pad \<and> length pad \<le> 2
         \<and> (length body mod 4 = 2 \<longrightarrow> length pad = 2) \<and> (length body mod 4 = 3 \<longrightarrow> 1 \<le> length pad)
      then b64_bytes (map (\<lambda>c. the (b64_value c)) body) else None)"

definition decode_inline :: "string \<Rightarrow> string res" where
  "decode_inline encoded =
     (if int (length encoded) > 10 * 1024 * 1024 then refuse ''image_encoded_too_large''
      else case b64decode encoded of
             None \<Rightarrow> refuse ''image_malformed''
           | Some raw \<Rightarrow> if int (length raw) > 8 * 1024 * 1024 then refuse ''image_decoded_too_large'' else Inr raw)"

definition split_data_url :: "string \<Rightarrow> string option res" where
  "split_data_url url =
     (if \<not> starts_with url ''data:'' then Inr None
      else if CHR '','' \<notin> set url then refuse ''image_malformed''
      else if \<not> has_infix (before (CHR '','') url) '';base64'' then refuse ''image_malformed''
      else Inr (Some (drop (length (before (CHR '','') url) + 1) url)))"

text \<open>What Pillow says of the bytes: not installed, decompression bomb, another failure, or format,
  width, height and frame count.\<close>

datatype pil = Pil_Missing | Pil_Bomb | Pil_Bad | Pil_Image string int int int

definition byte_ws :: "char \<Rightarrow> bool" where
  "byte_ws c \<longleftrightarrow> (let n = char_code c in n = 32 \<or> 9 \<le> n \<and> n \<le> 13)"

definition inspect_image_bytes :: "(string \<Rightarrow> pil) \<Rightarrow> string \<Rightarrow> (string \<times> int \<times> int \<times> int) res" where
  "inspect_image_bytes pillow raw =
     (if list_ex (starts_with (dropWhile byte_ws raw)) [''<svg'', ''<?xml'', ''<SVG'', ''%PDF'', ''<!DOCTYPE'']
      then refuse ''image_format_rejected''
      else case pillow raw of
        Pil_Missing \<Rightarrow> refuse ''image_pillow_missing''
      | Pil_Bomb \<Rightarrow> refuse ''image_decompression_bomb''
      | Pil_Bad \<Rightarrow> refuse ''image_malformed''
      | Pil_Image fmt w h frames \<Rightarrow>
          if map (\<lambda>c. if 97 \<le> char_code c \<and> char_code c \<le> 122 then char_of (char_code c - 32) else c) fmt
               \<notin> {''JPEG'', ''PNG'', ''GIF'', ''WEBP''} then refuse ''image_format_rejected''
          else if frames > 1 then refuse ''image_too_many_frames''
          else if w > 8000 \<or> h > 8000 \<or> w < 1 \<or> h < 1 then refuse ''image_dimensions''
          else if w * h > 20000000 then refuse ''image_pixels''
          else Inr (fmt, w, h, frames))"

definition inline_b64 :: "image_desc \<Rightarrow> string option res" where
  "inline_b64 im =
     (if is_mapping (im_source im) \<and> str_or_empty (field (im_source im) ''type'') = ''base64''
      then Inr (Some (str_or_empty (field (im_source im) ''data'')))
      else case im_url im of PStr u \<Rightarrow> split_data_url u | _ \<Rightarrow> Inr None)"

definition image_tokens_one :: "(string \<Rightarrow> pil) \<Rightarrow> catalog_bundle \<Rightarrow> string \<Rightarrow> string \<Rightarrow> image_desc \<Rightarrow> int res" where
  "image_tokens_one pillow b prov mdl im =
     bnd (inline_b64 im) (\<lambda>encoded.
       if truthy (im_file_id im) \<or> is_mapping (im_source im) \<and>
            str_or_empty (field (im_source im) ''type'') \<in> {''url'', ''file''}
       then refuse ''image_reference_unsupported''
       else if (case im_url im of PStr u \<Rightarrow> u \<noteq> [] \<and> \<not> starts_with u ''data:'' | _ \<Rightarrow> False)
       then refuse ''image_reference_unsupported''
       else case encoded of
         None \<Rightarrow> refuse ''image_not_inline''
       | Some enc \<Rightarrow>
           if enc = [] then refuse ''image_not_inline''
           else bnd (decode_inline enc) (\<lambda>raw. bnd (inspect_image_bytes pillow raw) (\<lambda>(_, w, h, _).
             if prov = ''anthropic'' then Inr (anthropic_image_tokens mdl w h)
             else (case openai_image_tokens b mdl w h (or_str (im_detail im) ''auto'') of
                     Inl PricingConfigError \<Rightarrow> refuse ''image_formula_uncertified''
                   | r \<Rightarrow> r))))"

definition image_tokens_for :: "(string \<Rightarrow> pil) \<Rightarrow> catalog_bundle \<Rightarrow> string \<Rightarrow> string \<Rightarrow> image_desc list \<Rightarrow> int res" where
  "image_tokens_for pillow b prov mdl ims =
     bnd (map_res (image_tokens_one pillow b prov mdl) ims) (\<lambda>ts. Inr (sum_list ts))"

section \<open>Counters and sizes\<close>

definition has_exact_counter :: "provider_client option \<Rightarrow> string \<Rightarrow> string \<Rightarrow> bool" where
  "has_exact_counter client prov surface \<longleftrightarrow> (case client of None \<Rightarrow> False
     | Some c \<Rightarrow> if prov = ''anthropic'' then cl_anthropic_counter c \<noteq> None
                 else prov = ''openai'' \<and> surface = ''responses'' \<and> cl_openai_counter c \<noteq> None)"

definition counter_fields :: "string \<Rightarrow> string list" where
  "counter_fields prov =
     (if prov = ''anthropic'' then [''model'', ''messages'', ''system'', ''tools'', ''tool_choice'', ''thinking'',
        ''mcp_servers'', ''output_config'', ''output_format'', ''cache_control'']
      else if prov = ''openai'' then [''model'', ''input'', ''instructions'', ''tools'', ''tool_choice'',
        ''parallel_tool_calls'', ''reasoning'', ''text'', ''truncation'', ''conversation'',
        ''previous_response_id'', ''personality'']
      else [])"

definition counter_kwargs :: "provider_client \<Rightarrow> string \<Rightarrow> kwargs \<Rightarrow> kwargs" where
  "counter_kwargs c prov v =
     (let accepted = (case cl_accepts c of None \<Rightarrow> counter_fields prov
            | Some names \<Rightarrow> filter (\<lambda>n. n \<noteq> ''timeout'' \<and> \<not> starts_with n ''extra_'') names);
          out = filter (\<lambda>(k, _). k \<in> set accepted) v
      in if prov = ''openai'' \<and> has_key v ''text_format'' \<and> ''text'' \<in> set accepted \<and> \<not> has_key out ''text''
         then case cl_text_format c (kw v ''text_format'') of
                None \<Rightarrow> out | Some fmt \<Rightarrow> dset ''text'' (PDict [(''format'', fmt)]) out
         else out)"

definition call_counter :: "provider_client option \<Rightarrow> string \<Rightarrow> kwargs \<Rightarrow> int res" where
  "call_counter client prov v =
     (let result = (case client of None \<Rightarrow> Inl (OtherExn ''AttributeError'')
        | Some c \<Rightarrow> (case (if prov = ''anthropic'' then cl_anthropic_counter c else cl_openai_counter c) of
             None \<Rightarrow> Inl (OtherExn ''AttributeError'') | Some f \<Rightarrow> f (counter_kwargs c prov v)))
      in case result of
           Inl (UnsupportedMode code) \<Rightarrow> Inl (UnsupportedMode code)
         | Inl _ \<Rightarrow> refuse ''input_counter_failed''
         | Inr r \<Rightarrow>
             (case py_int (field r ''input_tokens'') of
                Inr i \<Rightarrow> Inr (max 0 i)
              | Inl PyOverflowError \<Rightarrow> Inl PyOverflowError
              | Inl _ \<Rightarrow> refuse ''input_counter_failed''))"

text \<open>\<open>_estimate_input_tokens\<close> of kazenai/monitor.py; \<open>lv\<close> counts the levels left of its depth bound.
  Strings are their UTF-8 bytes.\<close>

fun size_upto :: "nat \<Rightarrow> pyval \<Rightarrow> int" where
  "size_upto 0 v = 64"
| "size_upto (Suc lv) PNone = 0"
| "size_upto (Suc lv) (PStr s) = int (length s)"
| "size_upto (Suc lv) (PBool b) = int (length (py_str (PBool b)))"
| "size_upto (Suc lv) (PInt i) = int (length (int_str i))"
| "size_upto (Suc lv) (PFloat f t) = int (length t)"
| "size_upto (Suc lv) (PDict d) =
     fold (\<lambda>(k, v) total. total + size_upto lv (PStr k) + size_upto lv v + 2) d 2"
| "size_upto (Suc lv) (PList l) = 2 + sum_list (map (\<lambda>x. size_upto lv x + 1) l)"
| "size_upto (Suc lv) (PObj d) = int (length (py_repr (PObj d)))"

definition estimate_input_tokens :: "kwargs \<Rightarrow> int" where
  "estimate_input_tokens v =
     (let body = filter (\<lambda>(k, _). k \<notin> {''model'', ''stream'', ''stream_options'', ''max_tokens'',
            ''max_completion_tokens'', ''max_output_tokens''}) v
      in max 2000 (size_upto 33 (PDict body) + 64))"

fun first_limit :: "kwargs \<Rightarrow> string list \<Rightarrow> int option res" where
  "first_limit v [] = Inr None"
| "first_limit v (k # ks) =
     (if kw v k = PNone then first_limit v ks
      else case py_int (kw v k) of
             Inr i \<Rightarrow> Inr (Some (max 0 i))
           | Inl PyOverflowError \<Rightarrow> Inl PyOverflowError
           | Inl _ \<Rightarrow> Inr None)"

definition max_output_tokens :: "kwargs \<Rightarrow> int res" where
  "max_output_tokens v =
     bnd (first_limit v [''max_output_tokens'', ''max_completion_tokens'', ''max_tokens'']) (\<lambda>lim.
       Inr (case lim of Some i \<Rightarrow> i
            | None \<Rightarrow> (case default_max_output_tokens (str_or_empty (kw v ''model'')) of None \<Rightarrow> 0 | Some n \<Rightarrow> n)))"

text \<open>\<open>_apply_output_token_bound\<close>.\<close>

fun clamp_first :: "int \<Rightarrow> kwargs \<Rightarrow> string list \<Rightarrow> kwargs option" where
  "clamp_first bound v [] = None"
| "clamp_first bound v (k # ks) =
     (if kw v k = PNone then clamp_first bound v ks
      else Some (case py_int (kw v k) of
             Inl _ \<Rightarrow> v
           | Inr requested \<Rightarrow> if requested > bound then dset k (PInt bound) v else v))"

definition apply_output_token_bound :: "bool \<Rightarrow> kwargs \<Rightarrow> kwargs res" where
  "apply_output_token_bound responses v =
     (let mdl = py_strip (str_or_empty (kw v ''model'')) in
      if mdl = [] then Inr v
      else case default_max_output_tokens mdl of
        None \<Rightarrow> Inr v
      | Some bound \<Rightarrow>
          if responses then
            (if kw v ''max_output_tokens'' = PNone then Inr (dset ''max_output_tokens'' (PInt bound) v)
             else case py_int (kw v ''max_output_tokens'') of
                    Inr i \<Rightarrow> Inr (if i > bound then dset ''max_output_tokens'' (PInt bound) v else v)
                  | Inl PyOverflowError \<Rightarrow> Inl PyOverflowError
                  | Inl _ \<Rightarrow> Inr v)
          else (case clamp_first bound v [''max_tokens'', ''max_completion_tokens''] of
                  Some v' \<Rightarrow> Inr v'
                | None \<Rightarrow> Inr (dset (output_limit_param mdl) (PInt bound) v)))"

text \<open>\<open>_strict_json_bytes\<close>; \<open>dump\<close> is \<open>model_dump\<close> of a third-party object.\<close>

definition add_sizes :: "int option \<Rightarrow> int option \<Rightarrow> int option" where
  "add_sizes a b = (case a of None \<Rightarrow> None | Some x \<Rightarrow> map_option ((+) x) b)"

fun strict_json_bytes :: "((string \<times> pyval) list \<Rightarrow> pyval option) \<Rightarrow> nat \<Rightarrow> pyval \<Rightarrow> int option" where
  "strict_json_bytes dump 0 v = None"
| "strict_json_bytes dump (Suc lv) PNone = Some 5"
| "strict_json_bytes dump (Suc lv) (PBool b) = Some 5"
| "strict_json_bytes dump (Suc lv) (PInt i) = Some (int (length (int_str i)))"
| "strict_json_bytes dump (Suc lv) (PFloat f t) = Some (int (length t))"
| "strict_json_bytes dump (Suc lv) (PStr s) = Some (int (length s) + 2)"
| "strict_json_bytes dump (Suc lv) (PDict d) =
     fold (\<lambda>(k, v) total. add_sizes total (map_option ((+) (int (length k) + 4)) (strict_json_bytes dump lv v))) d (Some 2)"
| "strict_json_bytes dump (Suc lv) (PList l) =
     fold (\<lambda>v total. add_sizes total (map_option ((+) 1) (strict_json_bytes dump lv v))) l (Some 2)"
| "strict_json_bytes dump (Suc lv) (PObj d) =
     (case dump d of None \<Rightarrow> None | Some v \<Rightarrow> strict_json_bytes dump lv v)"

definition rendered_fields :: "string list" where
  "rendered_fields = [''tools'', ''functions'', ''response_format'']"

definition text_message :: "pyval \<Rightarrow> bool" where
  "text_message m \<longleftrightarrow> field m ''audio'' = PNone \<and>
     (case field m ''content'' of
        PList parts \<Rightarrow> list_all (\<lambda>p. field p ''type'' \<in> {PStr ''text'', PStr ''refusal''}) parts
      | _ \<Rightarrow> True)"

definition chat_input_upper_bound :: "((string \<times> pyval) list \<Rightarrow> pyval option) \<Rightarrow> kwargs \<Rightarrow> int option" where
  "chat_input_upper_bound dump v =
     (case or_val (kw v ''messages'') (PList []) of
        PList messages \<Rightarrow>
          if \<not> list_all text_message messages then None
          else
            let body = filter (\<lambda>(k, _). k \<noteq> ''model'') v;
                sz = strict_json_bytes dump 65 (PDict (filter (\<lambda>(k, _). k \<notin> set rendered_fields) body));
                rendered = strict_json_bytes dump 65 (PDict (filter (\<lambda>(k, _). k \<in> set rendered_fields) body));
                tools = or_val (kw v ''tools'') (or_val (kw v ''functions'') (PList []));
                tool_count = (case tools of PList l \<Rightarrow> int (length l) | _ \<Rightarrow> 0)
            in (case (sz, rendered) of
                  (Some s, Some r) \<Rightarrow> Some (s + 4 * r + 256 + 16 * int (length messages) + 64 * tool_count)
                | _ \<Rightarrow> None)
      | _ \<Rightarrow> None)"

section \<open>The admission breaker\<close>

type_synonym breaker_key = "string \<times> string \<times> string \<times> string"

record breaker_entry =
  opened_at :: rat
  held_micro_usd :: int
  entry_state :: string

record tier_breaker =
  tb_open :: "(breaker_key \<times> breaker_entry) list"
  tb_audit :: "(breaker_key \<times> int) list"

definition clear_tier_breaker :: tier_breaker where
  "clear_tier_breaker = \<lparr>tb_open = [], tb_audit = []\<rparr>"

definition unresolved_tier_state :: "rat \<Rightarrow> rat \<Rightarrow> string" where
  "unresolved_tier_state opened now =
     (if now - opened \<ge> 35 * 86400 then ''unknown_charge'' else ''pending_reconciliation'')"

definition breaker_hit :: "string \<Rightarrow> string \<Rightarrow> string \<Rightarrow> breaker_key \<Rightarrow> bool" where
  "breaker_hit org prov mdl k \<longleftrightarrow> (case k of (o', p, m, _) \<Rightarrow> o' = org \<and> p = prov \<and> m = mdl)"

definition check_breaker :: "rat \<Rightarrow> string \<Rightarrow> string \<Rightarrow> string \<Rightarrow> tier_breaker \<Rightarrow> unit res \<times> tier_breaker" where
  "check_breaker now org prov mdl tb =
     (case find (\<lambda>(k, _). breaker_hit org prov mdl k) (tb_open tb) of
        None \<Rightarrow> (Inr (), tb)
      | Some (k, entry) \<Rightarrow>
          (refuse ''unknown_tier_circuit_open'',
           tb\<lparr>tb_open := AList.update k (entry\<lparr>entry_state := unresolved_tier_state (opened_at entry) now\<rparr>) (tb_open tb)\<rparr>))"

definition open_breaker :: "rat \<Rightarrow> string \<Rightarrow> string \<Rightarrow> string \<Rightarrow> string \<Rightarrow> int \<Rightarrow> tier_breaker \<Rightarrow> tier_breaker" where
  "open_breaker now org prov mdl tier held tb =
     (let key = (org, prov, mdl, tier);
          tb1 = (if key \<in> set (map fst (tb_open tb)) then tb
                 else tb\<lparr>tb_open := tb_open tb @ [(key,
                   \<lparr>opened_at = now, held_micro_usd = held, entry_state = ''pending_reconciliation''\<rparr>)]\<rparr>)
      in tb1\<lparr>tb_audit := tb_audit tb1 @ [(key, held)]\<rparr>)"

definition tier_multiplier :: "env \<Rightarrow> rat res" where
  "tier_multiplier e =
     (let raw = env_raw e ''KAZENAI_TIER_MISMATCH_MULTIPLIER'' in
      if raw = [] then bnd (control_profile_active e) (\<lambda>c. if c then Inl PricingConfigError else Inr 1)
      else case parse_dec raw of
             Some (DFin q) \<Rightarrow> if q < 1 then Inl PricingConfigError else Inr q
           | _ \<Rightarrow> Inl PricingConfigError)"

end
