(* ===== verification/Request_Facts.thy ===== *)
theory Request_Facts
  imports Request_Rules
begin

text \<open>
  Properties of the local checks of a request: the pinned tier in the sent body, the cache-write
  kind, and the sizes that bound a request's input tokens.
\<close>

section \<open>The pinned tier\<close>

lemma dget_filter_keys: "dget (filter (\<lambda>(k, _). P k) d) j = (if P j then dget d j else None)"
  by (induction d) auto

lemma kw_filter: "kw (filter (\<lambda>(k, _). k \<notin> S) d) j = (if j \<in> S then PNone else kw d j)"
  by (simp add: kw_def dget_filter_keys)

lemma kw_dupdate:
  "distinct (map fst e) \<Longrightarrow> kw (dupdate d e) k = (if has_key e k then kw e k else kw d k)"
  by (simp add: kw_def dget_dupdate has_key_def split: option.split)

definition pinned :: "string \<Rightarrow> kwargs \<Rightarrow> bool" where
  "pinned prov d \<longleftrightarrow> py_str (kw d ''service_tier'') = pin_tier prov"

lemma pinned_dset: "pinned prov (dset ''service_tier'' (PStr (pin_tier prov)) d)"
  by (simp add: pinned_def kw_dset)

text \<open>What pinning leaves in the arguments: the tier itself, and the tier of \<open>extra_body\<close>.\<close>

lemma pin_service_tier_Inr:
  assumes "pin_service_tier prov kws0 = Inr kws"
  shows "pinned prov kws \<and>
    (\<forall>extra. kw kws ''extra_body'' = PDict extra \<longrightarrow> has_key extra ''service_tier'' \<longrightarrow> pinned prov extra)
    \<and> (\<forall>extra0. kw kws0 ''extra_body'' = PDict extra0 \<longrightarrow> (\<exists>extra. kw kws ''extra_body'' = PDict extra \<and>
          (distinct (map fst extra0) \<longrightarrow> distinct (map fst extra))))
    \<and> (\<not> is_mapping (kw kws0 ''extra_body'') \<longrightarrow> kw kws ''extra_body'' = kw kws0 ''extra_body'')"
proof -
  from assms obtain kws1 where one:
    "(case kw kws0 ''extra_body'' of
        PDict extra \<Rightarrow>
          if has_key extra ''service_tier''
          then let rq = kw extra ''service_tier'' in
            if unset rq
            then Inr (dset ''extra_body'' (PDict (dset ''service_tier'' (PStr (pin_tier prov)) extra)) kws0)
            else if py_str rq \<noteq> pin_tier prov then refuse ''service_tier_unsupported'' else Inr kws0
          else Inr kws0
      | _ \<Rightarrow> Inr kws0) = Inr kws1"
    and two: "(if unset (kw kws1 ''service_tier'')
       then Inr (dset ''service_tier'' (PStr (pin_tier prov)) kws1)
       else if py_str (kw kws1 ''service_tier'') \<noteq> pin_tier prov then refuse ''service_tier_unsupported''
       else Inr kws1) = Inr kws"
    unfolding pin_service_tier_def bnd_eq_Inr by blast
  from two have p: "pinned prov kws" and eb: "kw kws ''extra_body'' = kw kws1 ''extra_body''"
    by (auto simp: pinned_def kw_dset refuse_def split: if_splits)
  show ?thesis
  proof (cases "is_mapping (kw kws0 ''extra_body'')")
    case True
    then obtain extra0 where e0: "kw kws0 ''extra_body'' = PDict extra0"
      by (auto simp: is_mapping_def split: pyval.splits)
    from one e0 have "kw kws1 ''extra_body'' = PDict extra0 \<and> (has_key extra0 ''service_tier'' \<longrightarrow> pinned prov extra0) \<or>
        kw kws1 ''extra_body'' = PDict (dset ''service_tier'' (PStr (pin_tier prov)) extra0)"
      by (auto simp: Let_def pinned_def refuse_def kw_dset split: if_splits)
    then show ?thesis using p eb e0 pinned_dset
      by (auto simp: map_fst_dset is_mapping_def)
  next
    case False
    then have "kws1 = kws0" using one by (auto simp: is_mapping_def split: pyval.splits)
    then show ?thesis using p eb False by (auto simp: is_mapping_def)
  qed
qed

text \<open>C31: once the service tier is pinned, the request the provider receives carries the standard tier,
  wherever the caller put a tier: in the arguments, in \<open>extra_body\<close> (which overrides them in the sent
  body), as null or as the empty string.\<close>

theorem pinned_tier_reaches_provider:
  assumes p: "pin_service_tier prov kws0 = Inr kws" and v: "effective_request kws = Inr view"
    and d: "\<forall>extra. kw kws0 ''extra_body'' = PDict extra \<longrightarrow> distinct (map fst extra)"
  shows "py_str (kw view ''service_tier'') = pin_tier prov"
proof -
  note pin = pin_service_tier_Inr [OF p]
  let ?base = "filter (\<lambda>(k, _). k \<notin> set sdk_transport_keys) kws"
  have base: "kw ?base ''service_tier'' = kw kws ''service_tier''"
    unfolding kw_filter by (simp add: sdk_transport_keys_def)
  show ?thesis
  proof (cases "is_mapping (kw kws0 ''extra_body'')")
    case True
    then obtain extra0 where "kw kws0 ''extra_body'' = PDict extra0"
      by (auto simp: is_mapping_def split: pyval.splits)
    with pin d obtain extra where e: "kw kws ''extra_body'' = PDict extra" "distinct (map fst extra)" by blast
    with v have "view = dupdate ?base extra" by (simp add: effective_request_def)
    then show ?thesis using e pin base by (simp add: kw_dupdate pinned_def)
  next
    case False
    with pin v have "view = ?base"
      by (auto simp: effective_request_def is_mapping_def refuse_def split: pyval.splits)
    then show ?thesis using pin base by (simp add: pinned_def)
  qed
qed

theorem pinned_tier_reaches_provider_witness:
  "\<exists>kws view. pin_service_tier ''openai'' [(''model'', PStr ''gpt-4o''), (''service_tier'', PStr ''default''),
       (''extra_body'', PDict [(''service_tier'', PNone), (''n'', PInt 2)])] = Inr kws \<and>
     effective_request kws = Inr view \<and> py_str (kw view ''service_tier'') = ''default''"
proof -
  let ?k = "[(''model'', PStr ''gpt-4o''), (''service_tier'', PStr ''default''),
       (''extra_body'', PDict [(''service_tier'', PNone), (''n'', PInt 2)])]"
  have c: "case pin_service_tier ''openai'' ?k of Inl _ \<Rightarrow> False
      | Inr kws \<Rightarrow> (case effective_request kws of Inl _ \<Rightarrow> False | Inr _ \<Rightarrow> True)" by code_simp
  then obtain kws view where k: "pin_service_tier ''openai'' ?k = Inr kws" "effective_request kws = Inr view"
    by (auto split: sum.splits)
  moreover have "pin_tier ''openai'' = ''default''" by code_simp
  ultimately show ?thesis using pinned_tier_reaches_provider [OF k] by (auto simp: kw_def)
qed

section \<open>The cache-write kind\<close>

definition cache_mark :: "(string \<times> pyval) list \<Rightarrow> string option" where
  "cache_mark d = (case or_none (dget d ''cache_control'') of
     PDict control \<Rightarrow> Some (if py_str (or_val (kw control ''ttl'') (PStr ''5m'')) \<in> {''1h'', ''1hour'', ''hour''}
                         then ''1h'' else ''5m'')
   | _ \<Rightarrow> None)"

text \<open>The longest cache write any mapping of the request asks for.\<close>

definition longest_mark :: "(string \<times> pyval) list list \<Rightarrow> string" where
  "longest_mark parts = (if Some ''1h'' \<in> cache_mark ` set parts then ''1h''
     else if Some ''5m'' \<in> cache_mark ` set parts then ''5m'' else ''none'')"

definition longer :: "string \<Rightarrow> string \<Rightarrow> string" where
  "longer a b = (if a = ''1h'' \<or> b = ''1h'' then ''1h'' else if a = ''5m'' \<or> b = ''5m'' then ''5m'' else ''none'')"

definition kind_ok :: "string \<Rightarrow> bool" where
  "kind_ok a \<longleftrightarrow> a \<in> {''none'', ''5m'', ''1h''}"

lemma longest_mark_Nil: "longest_mark [] = ''none''"
  by (simp add: longest_mark_def)

lemma longest_mark_append: "longest_mark (xs @ ys) = longer (longest_mark xs) (longest_mark ys)"
  by (auto simp: longest_mark_def longer_def)

lemma longest_mark_Cons: "longest_mark (d # xs) = longer (longest_mark [d]) (longest_mark xs)"
  using longest_mark_append [of "[d]" xs] by simp

lemma longer_props:
  "kind_ok (longer a b)" "kind_ok a \<Longrightarrow> longer a ''none'' = a"
  "longer (longer a b) c = longer a (longer b c)"
  by (auto simp: longer_def kind_ok_def)

lemma cache_mark_cases: "cache_mark d = None \<or> cache_mark d = Some ''1h'' \<or> cache_mark d = Some ''5m''"
  by (auto simp: cache_mark_def split: pyval.split)

lemma longest_mark_one: "longest_mark [d] = (case cache_mark d of None \<Rightarrow> ''none'' | Some m \<Rightarrow> m)"
  using cache_mark_cases [of d] by (elim disjE) (simp_all add: longest_mark_def)

lemma see_fold:
  assumes "\<And>x f. x \<in> set xs \<Longrightarrow> kind_ok f \<Longrightarrow> see_cache (g x) f = longer f (longest_mark (iter_parts (g x)))"
    "kind_ok f"
  shows "fold (\<lambda>x f. see_cache (g x) f) xs f = longer f (longest_mark (concat (map (\<lambda>x. iter_parts (g x)) xs)))"
  using assms
proof (induction xs arbitrary: f)
  case (Cons x xs)
  then show ?case by (simp add: longer_props longest_mark_append)
qed (simp add: longest_mark_Nil longer_props)

lemma see_cache_longest: "kind_ok f \<Longrightarrow> see_cache v f = longer f (longest_mark (iter_parts v))"
proof (induction v arbitrary: f rule: iter_parts.induct)
  case (1 d)
  have f1: "(case or_none (dget d ''cache_control'') of
        PDict control \<Rightarrow>
          let ttl = py_str (or_val (kw control ''ttl'') (PStr ''5m'')) in
          if ttl \<in> {''1h'', ''1hour'', ''hour''} then ''1h'' else if f \<noteq> ''1h'' then ''5m'' else f
      | _ \<Rightarrow> f) = longer f (longest_mark [d])"
    using 1(2) unfolding longest_mark_one
    by (cases "or_none (dget d ''cache_control'')") (auto simp: cache_mark_def longer_def kind_ok_def Let_def)
  have "see_cache (PDict d) f = fold (\<lambda>x g. see_cache (snd x) g) d (longer f (longest_mark [d]))"
    unfolding see_cache.simps Let_def f1 [unfolded Let_def] case_prod_beta ..
  also have "\<dots> = longer (longer f (longest_mark [d]))
      (longest_mark (concat (map (\<lambda>x. iter_parts (snd x)) d)))"
    using 1(1) by (intro see_fold) (auto simp: longer_props split_beta)
  also have "\<dots> = longer f (longest_mark (iter_parts (PDict d)))"
    unfolding iter_parts.simps case_prod_beta
      longest_mark_Cons [of d "concat (map (\<lambda>x. iter_parts (snd x)) d)"] longer_props(3) ..
  finally show ?case .
next
  case (2 l)
  have ih: "see_cache (id x) g = longer g (longest_mark (iter_parts (id x)))" if "x \<in> set l" "kind_ok g" for x g
    unfolding id_apply by (rule 2(1) [OF that])
  from see_fold [of l id f, OF ih 2(2)] show ?case
    unfolding see_cache.simps iter_parts.simps id_apply .
qed (auto simp: longest_mark_Nil longer_props)

text \<open>The cache-write kind a request is reserved at is the longest one any mapping in it asks for,
  at whatever depth and in whatever order they occur: one hour if any asks for an hour, else five
  minutes if any asks at all, else none.\<close>
theorem cache_write_kind_longest:
  "cache_write_kind v = longest_mark (iter_parts (PDict v))"
  unfolding cache_write_kind_def
  by (subst see_cache_longest) (auto simp: kind_ok_def longer_def longest_mark_def)

section \<open>Sizes bound the text of a request\<close>

text \<open>The bytes of every string and every key of a value, and its nesting depth.\<close>

fun text_bytes :: "pyval \<Rightarrow> int" where
  "text_bytes (PStr s) = int (length s)"
| "text_bytes (PDict d) = sum_list (map (\<lambda>(k, v). int (length k) + text_bytes v) d)"
| "text_bytes (PList l) = sum_list (map text_bytes l)"
| "text_bytes _ = 0"

fun nesting :: "pyval \<Rightarrow> nat" where
  "nesting (PDict d) = Suc (fold max (map (\<lambda>(_, v). nesting v) d) 1)"
| "nesting (PList l) = Suc (fold max (map nesting l) 0)"
| "nesting _ = 1"

lemma add_sizes_Some: "add_sizes a b = Some n \<longleftrightarrow> (\<exists>x y. a = Some x \<and> b = Some y \<and> n = x + y)"
  by (auto simp: add_sizes_def split: option.splits)

lemma fold_sizes:
  assumes "fold (\<lambda>x total. add_sizes total (map_option ((+) (c x)) (f x))) xs (Some a) = Some n"
    "\<And>x m. x \<in> set xs \<Longrightarrow> f x = Some m \<Longrightarrow> t x \<le> c x + m"
  shows "a + sum_list (map t xs) \<le> n"
  using assms
proof (induction xs arbitrary: a)
  case (Cons x xs)
  have none: "fold (\<lambda>x total. add_sizes total (map_option ((+) (c x)) (f x))) ys None = None" for ys
    by (induction ys) (auto simp: add_sizes_def)
  from Cons.prems(1) none obtain m where m: "f x = Some m"
    by (cases "f x") (auto simp: add_sizes_def)
  with Cons.IH [of "a + (c x + m)"] Cons.prems show ?case by (fastforce simp: add_sizes_def)
qed simp

lemma text_bytes_nonneg: "0 \<le> text_bytes v"
  by (induction v rule: text_bytes.induct) (auto intro!: sum_list_nonneg simp: case_prod_beta)

lemma strict_json_bytes_text: "strict_json_bytes dump lv v = Some n \<Longrightarrow> text_bytes v \<le> n"
proof (induction dump lv v arbitrary: n rule: strict_json_bytes.induct)
  case (7 dump lv d)
  have "2 + sum_list (map (\<lambda>x. int (length (fst x)) + text_bytes (snd x)) d) \<le> n"
    using 7(2) unfolding strict_json_bytes.simps case_prod_beta
    by (rule fold_sizes) (use 7(1) in force)
  then show ?case by (simp add: case_prod_beta')
next
  case (8 dump lv l)
  have "2 + sum_list (map text_bytes l) \<le> n"
    using 8(2) unfolding strict_json_bytes.simps
    by (rule fold_sizes) (use 8(1) in force)
  then show ?case by simp
next
  case (9 dump lv d)
  then show ?case using text_bytes_nonneg order_trans by (fastforce split: option.splits)
qed auto

lemma text_bytes_filter:
  "text_bytes (PDict (filter P d)) + text_bytes (PDict (filter (\<lambda>x. \<not> P x) d)) = text_bytes (PDict d)"
  by (induction d) auto

text \<open>The bound that lets a Chat Completions request use a model's standard price band counts at
  least every byte of every string and key the request carries besides the model name, plus the
  framing allowance, so a text whose tokens cover at least a byte each cannot exceed it.\<close>
theorem chat_bound_covers_text:
  assumes "chat_input_upper_bound dump v = Some n"
  shows "256 + text_bytes (PDict (filter (\<lambda>(k, _). k \<noteq> ''model'') v)) \<le> n"
proof -
  let ?body = "filter (\<lambda>(k, _). k \<noteq> ''model'') v"
  define plain where "plain = filter (\<lambda>(k, _). k \<notin> set rendered_fields) ?body"
  define rend where "rend = filter (\<lambda>(k, _). k \<in> set rendered_fields) ?body"
  define tools where "tools = or_val (kw v ''tools'') (or_val (kw v ''functions'') (PList []))"
  from assms obtain messages where m: "or_val (kw v ''messages'') (PList []) = PList messages"
    unfolding chat_input_upper_bound_def by (cases "or_val (kw v ''messages'') (PList [])") simp_all
  note def = assms [unfolded chat_input_upper_bound_def Let_def m tools_def [symmetric]
      plain_def [symmetric] rend_def [symmetric], simplified]
  from def obtain s where s: "strict_json_bytes dump 65 (PDict plain) = Some s"
    by (cases "strict_json_bytes dump 65 (PDict plain)") (simp_all split: if_splits)
  from def s obtain r where r: "strict_json_bytes dump 65 (PDict rend) = Some r"
    by (cases "strict_json_bytes dump 65 (PDict rend)") (simp_all split: if_splits)
  from def s r have n: "n = s + 4 * r + 256 + 16 * int (length messages) +
      64 * (case tools of PList l \<Rightarrow> int (length l) | _ \<Rightarrow> 0)"
    by (simp split: if_splits)
  have "(0 :: int) \<le> (case tools of PList l \<Rightarrow> int (length l) | _ \<Rightarrow> 0)" by (cases tools) auto
  moreover have "text_bytes (PDict plain) + text_bytes (PDict rend) = text_bytes (PDict ?body)"
    using text_bytes_filter [of "\<lambda>(k, _). k \<notin> set rendered_fields" ?body] by (simp add: case_prod_beta' plain_def rend_def)
  ultimately show ?thesis
    using strict_json_bytes_text [OF s] strict_json_bytes_text [OF r] text_bytes_nonneg [of "PDict rend"]
    unfolding n by linarith
qed

theorem chat_bound_covers_text_witness:
  "\<exists>n. chat_input_upper_bound (\<lambda>_. None) [(''model'', PStr ''gpt-5.5''),
       (''messages'', PList [PDict [(''role'', PStr ''user''), (''content'', PStr ''hello'')]])] = Some n \<and> 256 + 28 \<le> n"
proof -
  let ?v = "[(''model'', PStr ''gpt-5.5''),
       (''messages'', PList [PDict [(''role'', PStr ''user''), (''content'', PStr ''hello'')]])]"
  have "case chat_input_upper_bound (\<lambda>_. None) ?v of Some _ \<Rightarrow> True | None \<Rightarrow> False" by code_simp
  then obtain n where n: "chat_input_upper_bound (\<lambda>_. None) ?v = Some n" by (auto split: option.splits)
  have "text_bytes (PDict (filter (\<lambda>(k, _). k \<noteq> ''model'') ?v)) = 28" by code_simp
  with chat_bound_covers_text [OF n] n show ?thesis by auto
qed

lemma size_fold: "fold (\<lambda>x total. total + g x) xs (a :: int) = a + sum_list (map g xs)"
  by (induction xs arbitrary: a) auto

lemma fold_max_le: "fold max (xs :: nat list) a \<le> n \<longleftrightarrow> a \<le> n \<and> (\<forall>x \<in> set xs. x \<le> n)"
  by (induction xs arbitrary: a) auto

lemma nesting_pos [simp]: "nesting v \<noteq> 0"
  by (cases v) auto

lemma size_upto_covers: "nesting v \<le> lv \<Longrightarrow> text_bytes v \<le> size_upto lv v"
proof (induction lv v rule: size_upto.induct)
  case (7 lv d)
  have lv: "1 \<le> lv" and le: "x \<in> set d \<Longrightarrow> nesting (snd x) \<le> lv" for x
    using 7(3) by (auto simp: fold_max_le case_prod_beta)
  obtain lv' where lv': "lv = Suc lv'" using lv by (cases lv) auto
  have "sum_list (map (\<lambda>x. int (length (fst x)) + text_bytes (snd x)) d) \<le>
      sum_list (map (\<lambda>x. size_upto lv (PStr (fst x)) + size_upto lv (snd x) + 2) d)"
    using 7(2) le by (intro sum_list_mono) (force simp: lv')
  moreover have "fold (\<lambda>(k, v) total. total + size_upto lv (PStr k) + size_upto lv v + 2) d 2 =
      2 + sum_list (map (\<lambda>x. size_upto lv (PStr (fst x)) + size_upto lv (snd x) + 2) d)"
    using size_fold [of "\<lambda>x. size_upto lv (PStr (fst x)) + size_upto lv (snd x) + 2" d 2]
    by (simp only: case_prod_beta' add.assoc)
  ultimately show ?case by (simp add: case_prod_beta')
next
  case (8 lv l)
  then have "sum_list (map text_bytes l) \<le> sum_list (map (\<lambda>x. size_upto lv x + 1) l)"
    by (intro sum_list_mono) (force simp: fold_max_le)
  then show ?case by simp
qed auto

text \<open>The local input estimate is at least the number of bytes of the text a request carries (the
  model and the token limits aside), and never below the floor of 2000, for every request nested at
  most 33 levels deep.\<close>
theorem estimate_covers_text:
  assumes "nesting (PDict v) \<le> 33"
  shows "2000 \<le> estimate_input_tokens v \<and>
    64 + text_bytes (PDict (filter (\<lambda>(k, _). k \<notin> {''model'', ''stream'', ''stream_options'', ''max_tokens'',
            ''max_completion_tokens'', ''max_output_tokens''}) v)) \<le> estimate_input_tokens v"
proof -
  have "nesting (PDict (filter P v)) \<le> nesting (PDict v)" for P
    using fold_max_le [of "map (\<lambda>(_, v). nesting v) v" 1 "fold max (map (\<lambda>(_, v). nesting v) v) 1"]
    by (auto simp: fold_max_le)
  then have "nesting (PDict (filter P v)) \<le> 33" for P using assms order_trans by blast
  from size_upto_covers [OF this] show ?thesis unfolding estimate_input_tokens_def Let_def
    by (simp add: max_def) (smt (verit))
qed

theorem estimate_covers_text_witness:
  "3064 \<le> estimate_input_tokens [(''messages'', PList [PDict [(''content'', PStr (replicate 3000 (CHR ''a'')))]])]"
proof -
  have n: "nesting (PDict [(''messages'', PList [PDict [(''content'', PStr (replicate 3000 (CHR ''a'')))]])]) \<le> 33"
    by simp
  from estimate_covers_text [OF n] show ?thesis by simp
qed

text \<open>The depth cap of the estimate: text nested deeper than 33 levels is counted as 64 bytes, whatever
  its length, so the estimate is not an upper bound there.\<close>

fun nested :: "nat \<Rightarrow> pyval \<Rightarrow> pyval" where
  "nested 0 v = v"
| "nested (Suc k) v = PList [nested k v]"

lemma size_nested: "size_upto k (nested (k + j) v) = 64 + 3 * int k"
  by (induction k) auto

lemma text_nested [simp]: "text_bytes (nested k v) = text_bytes v"
  by (induction k) auto

theorem deep_text_is_not_counted:
  "\<exists>v. estimate_input_tokens v = 2000 \<and> int n \<le> text_bytes (PDict v)"
proof (intro exI conjI)
  let ?v = "[(''input'', nested 40 (PStr (replicate n (CHR ''a''))))]"
  have "size_upto 32 (nested (32 + 8) (PStr (replicate n (CHR ''a'')))) = 64 + 3 * int 32" by (rule size_nested)
  moreover have "size_upto 33 (PDict ?v) = 2 + 5 + size_upto 32 (nested 40 (PStr (replicate n (CHR ''a'')))) + 2"
    by (simp add: eval_nat_numeral del: nested.simps)
  ultimately show "estimate_input_tokens ?v = 2000"
    by (simp add: estimate_input_tokens_def del: size_upto.simps nested.simps)
  show "int n \<le> text_bytes (PDict ?v)" by (simp del: nested.simps)
qed

end
