(* ===== verification/Request_Pricing.thy ===== *)
theory Request_Pricing
  imports Request_Rules
begin

text \<open>
  Reserving and settling one provider call: the rest of kazenai/request_pricing.py. \<open>prepare\<close> turns
  a request into a frozen pricing basis and a reserved amount; \<open>settle_usage\<close> prices the reported
  usage on it. The active catalog table, the installed bundle and the aliases are arguments (what
  \<open>_catalog_table()\<close>, \<open>active_bundle()\<close> and \<open>_aliases()\<close> return), the breaker is the state.
\<close>

record pricing_world =
  w_env :: env
  w_loads :: "string \<Rightarrow> pyval option"
  w_pillow :: "string \<Rightarrow> pil"
  w_dump :: "(string \<times> pyval) list \<Rightarrow> pyval option"
  w_now :: rat
  w_bundle :: catalog_bundle
  w_engine :: cost_engine

definition w_table :: "pricing_world \<Rightarrow> catalog" where
  "w_table w = te_catalog (w_engine w)"

definition w_aliases :: "pricing_world \<Rightarrow> (string \<times> string) list" where
  "w_aliases w = dupdate (b_aliases (w_bundle w)) (te_aliases (w_engine w))"

record pricing_decision =
  pd_catalog_version :: string
  pd_provider :: string
  pd_canonical_model_id :: string
  pd_presented_model_id :: string
  pd_request_tier :: string
  pd_expected_reported_tier :: string
  pd_context_band :: string
  pd_rate_vector :: rate_vector
  pd_pricing_source :: string
  pd_pricing_basis :: string
  pd_label :: string
  pd_input_token_count_source :: string
  pd_pricing_rule :: string
  pd_long_context_threshold :: "int option"
  pd_threshold_decision :: string
  pd_spend_bound :: string
  pd_n :: int
  pd_reserved_micro_usd :: int
  pd_cache_write_kind :: string
  pd_certified :: bool
  pd_verified_on :: string
  pd_projected_input_tokens :: int
  pd_projected_output_tokens :: int
  pd_projected_image_tokens :: int
  pd_price_multiplier :: rat
  pd_price_modifiers :: "string list"

record call_pricing =
  cp_decision :: pricing_decision
  cp_hold_for_reconciliation :: bool
  cp_reservation_state :: string
  cp_pricing_basis :: string
  cp_held_exposure_usd :: rat
  cp_usage_evidence :: "(string \<times> string) list"
  cp_exposure_source :: string
  cp_settled_components :: "tokens option"

definition reserved_usd :: "pricing_decision \<Rightarrow> rat" where
  "reserved_usd d = micro_usd_to_decimal (pd_reserved_micro_usd d)"

definition call_pricing_init :: "pricing_decision \<Rightarrow> call_pricing" where
  "call_pricing_init d = \<lparr>cp_decision = d, cp_hold_for_reconciliation = False, cp_reservation_state = ''reserved'',
     cp_pricing_basis = pd_pricing_basis d, cp_held_exposure_usd = reserved_usd d, cp_usage_evidence = [],
     cp_exposure_source = ''certified_row'', cp_settled_components = None\<rparr>"

definition opt_int :: "int option \<Rightarrow> pyval" where
  "opt_int x = (case x of None \<Rightarrow> PNone | Some i \<Rightarrow> PInt i)"

definition reserve_body_fields :: "pricing_decision \<Rightarrow> kwargs" where
  "reserve_body_fields d =
     (let rule = (if pd_context_band d = ''long'' then ''long_context'' else ''standard'');
          source0 = pd_input_token_count_source d;
          source = (if source0 \<in> {''estimate'', ''provider_count''} then source0
                    else if has_infix source0 ''provider'' then ''provider_count'' else ''estimate'');
          threshold = (if pd_threshold_decision d \<in> {''not_applicable'', ''below'', ''crossed''}
                       then pd_threshold_decision d
                       else if pd_context_band d = ''long'' then ''crossed'' else ''not_applicable'');
          kind = pd_cache_write_kind d; inp = pd_projected_input_tokens d
      in [(''provider'', PStr (pd_provider d)), (''model'', PStr (pd_presented_model_id d)),
          (''pricing'', PDict [
             (''catalog_version'', PStr (pd_catalog_version d)),
             (''canonical_model_id'', PStr (pd_canonical_model_id d)),
             (''request_tier'', PStr (pd_request_tier d)), (''context_band'', PStr (pd_context_band d)),
             (''input_token_count_source'', PStr source), (''rule'', PStr rule),
             (''long_context_threshold'', opt_int (pd_long_context_threshold d)),
             (''threshold_decision'', PStr threshold),
             (''spend_bound'', PStr (if pd_spend_bound d \<in> {''bounded'', ''none''} then pd_spend_bound d else ''bounded'')),
             (''basis'', PStr ''rate_card''),
             (''usage'', PDict [
                (''input_tokens'', PInt (if kind \<in> {''5m'', ''1h''} then 0 else inp)),
                (''cache_write_5m_tokens'', PInt (if kind = ''5m'' then inp else 0)),
                (''cache_write_1h_tokens'', PInt (if kind = ''1h'' then inp else 0)),
                (''output_tokens'', PInt (pd_projected_output_tokens d)),
                (''image_tokens'', PInt (pd_projected_image_tokens d))])])])"

section \<open>Preparing a call\<close>

definition resolve_canonical :: "pricing_world \<Rightarrow> string \<Rightarrow> string res" where
  "resolve_canonical w presented =
     (let known = map model (table_rows (w_table w)) in
      case resolve_model_key presented known (w_aliases w) of
        Some c \<Rightarrow> Inr c
      | None \<Rightarrow> bnd (enforce_unknown_model (w_env w) presented known (w_aliases w)) (\<lambda>_. Inr presented))"

definition select_row :: "pricing_world \<Rightarrow> string \<Rightarrow> string \<Rightarrow> string \<Rightarrow> catalog_row res" where
  "select_row w prov canonical band =
     (case lookup_row (w_table w) prov canonical ''standard'' band of
        None \<Rightarrow> Inl UnknownModelError
      | Some row \<Rightarrow> bnd (control_profile_active (w_env w)) (\<lambda>ctl.
          if ctl \<and> \<not> certified row then Inl UnknownModelError else Inr row))"

definition require_chat_below_long_band ::
  "pricing_world \<Rightarrow> kwargs \<Rightarrow> string \<Rightarrow> string \<Rightarrow> image_desc list \<Rightarrow> unit res" where
  "require_chat_below_long_band w view prov canonical images =
     bnd (select_row w prov canonical ''short'') (\<lambda>row.
       let bound = (if images \<noteq> [] then None else chat_input_upper_bound (w_dump w) view) in
       case (long_context_threshold row, bound) of
         (Some t, Some b) \<Rightarrow> if b > t then refuse ''long_context_chat_unsupported'' else Inr ()
       | _ \<Rightarrow> refuse ''long_context_chat_unsupported'')"

definition check_local_image :: "pricing_world \<Rightarrow> image_desc \<Rightarrow> unit res" where
  "check_local_image w im =
     (if truthy (im_file_id im) then Inr ()
      else if (case im_url im of PStr u \<Rightarrow> starts_with u ''http://'' \<or> starts_with u ''https://'' | _ \<Rightarrow> False) then Inr ()
      else if is_mapping (im_source im) \<and> str_or_empty (field (im_source im) ''type'') = ''url'' then Inr ()
      else bnd (inline_b64 im) (\<lambda>enc. case enc of
             Some t \<Rightarrow> if t = [] then Inr ()
                       else bnd (decode_inline t) (\<lambda>raw. bnd (inspect_image_bytes (w_pillow w) raw) (\<lambda>_. Inr ()))
           | None \<Rightarrow> Inr ()))"

text \<open>The token components \<open>_build\<close> prices: all the input at the rate of the cache write the request
  declares, when it declares one.\<close>

definition reserved_tokens :: "string \<Rightarrow> int \<Rightarrow> int \<Rightarrow> int \<Rightarrow> tokens" where
  "reserved_tokens cache_kind input_tokens output_tokens image_tokens =
     no_tokens\<lparr>t_input := (if cache_kind \<in> {''5m'', ''1h''} then 0 else input_tokens),
       t_cache_write_5m := (if cache_kind = ''5m'' then input_tokens else 0),
       t_cache_write_1h := (if cache_kind = ''1h'' then input_tokens else 0),
       t_output := output_tokens, t_image := image_tokens\<rparr>"

definition build ::
  "string \<Rightarrow> string \<Rightarrow> string \<Rightarrow> catalog_row \<Rightarrow> int \<Rightarrow> int \<Rightarrow> int \<Rightarrow> int \<Rightarrow> string \<Rightarrow> string \<Rightarrow> string
   \<Rightarrow> string \<Rightarrow> rat \<Rightarrow> string list \<Rightarrow> call_pricing res" where
  "build presented canonical prov row n input_tokens output_tokens image_tokens count_source
         threshold_decision spend_bound cache_kind multiplier modifiers =
     (let rts = scaled multiplier (row_rates row);
          toks = reserved_tokens cache_kind input_tokens output_tokens image_tokens
      in bnd (cost_micro_usd rts toks) (\<lambda>micros.
         Inr (call_pricing_init \<lparr>
           pd_catalog_version = catalog_version row, pd_provider = prov, pd_canonical_model_id = canonical,
           pd_presented_model_id = presented, pd_request_tier = request_tier row,
           pd_expected_reported_tier = expected_reported_tier row, pd_context_band = context_band row,
           pd_rate_vector = rts, pd_pricing_source = source_url row,
           pd_pricing_basis = (if label row = ''operator_override'' then ''operator_override'' else ''catalog''),
           pd_label = label row, pd_input_token_count_source = count_source, pd_pricing_rule = pricing_rule row,
           pd_long_context_threshold = long_context_threshold row, pd_threshold_decision = threshold_decision,
           pd_spend_bound = spend_bound, pd_n = n,
           pd_reserved_micro_usd =
             (if micros \<le> 0 \<and> (input_tokens \<noteq> 0 \<or> output_tokens \<noteq> 0 \<or> image_tokens \<noteq> 0) then 0 else micros),
           pd_cache_write_kind = cache_kind, pd_certified = certified row, pd_verified_on = verified_on row,
           pd_projected_input_tokens = input_tokens, pd_projected_output_tokens = output_tokens,
           pd_projected_image_tokens = image_tokens, pd_price_multiplier = multiplier,
           pd_price_modifiers = modifiers\<rparr>)))"

text \<open>How the input is counted: by the provider's exact counter when the model has a long-context
  price band or the request has images and the client can count, by the local estimate otherwise.\<close>

definition count_input ::
  "provider_client option \<Rightarrow> string \<Rightarrow> string \<Rightarrow> kwargs \<Rightarrow> bool \<Rightarrow> bool \<Rightarrow> int option \<Rightarrow> (int \<times> string) res" where
  "count_input client prov surface view needs_counter images counted =
     (let has = has_exact_counter client prov surface in
      if needs_counter \<or> images \<and> has then
        if \<not> has then refuse ''input_counter_unavailable''
        else bnd (case counted of Some c \<Rightarrow> Inr c | None \<Rightarrow> call_counter client prov view) (\<lambda>c.
               Inr (c, ''provider_exact_counter''))
      else Inr (estimate_input_tokens view, ''local_byte_estimate''))"

text \<open>\<open>_prepare\<close> after the tier is pinned and the breaker is checked.\<close>

definition price_request ::
  "pricing_world \<Rightarrow> string \<Rightarrow> string \<Rightarrow> provider_client option \<Rightarrow> string list \<Rightarrow> int option \<Rightarrow> kwargs
    \<Rightarrow> call_pricing res" where
  "price_request w prov0 surface client observe_unbounded counted view =
     bnd (integer_n (kw view ''n'')) (\<lambda>n.
     bnd (validate_tools (w_bundle w) prov0 surface view) (\<lambda>_.
     bnd (validate_request_modifiers (w_bundle w) prov0 view) (\<lambda>_.
     let (images, document) = collect_images view;
         observe_images = (''images'' \<in> set observe_unbounded) in
     bnd (raise_if document (UnsupportedMode ''document_reference_unsupported'')) (\<lambda>_.
     bnd (if images \<noteq> [] \<and> \<not> observe_images \<and> has_exact_counter client prov0 surface
          then for_each (check_local_image w) images else Inr ()) (\<lambda>_.
     let presented = py_strip (str_or_empty (kw view ''model'')) in
     bnd (resolve_canonical w (py_lower presented)) (\<lambda>canonical.
     let prov = (case provider_for_model (w_table w) canonical of None \<Rightarrow> prov0 | Some p \<Rightarrow> p);
         long_band = model_declares_long_band (w_table w) prov canonical ''standard'' in
     bnd (if long_band \<and> surface = ''chat'' then require_chat_below_long_band w view prov canonical images
          else Inr ()) (\<lambda>_.
     let needs_counter = (long_band \<and> surface \<noteq> ''chat'') in
     bnd (count_input client prov surface view needs_counter (images \<noteq> [] \<and> \<not> observe_images) counted)
       (\<lambda>(counted_tokens, count_source).
     bnd (if prov = ''anthropic'' \<and> count_source = ''local_byte_estimate''
          then bnd (iter_or_empty (kw view ''tools'')) (\<lambda>tools. Inr (counted_tokens +
                 anthropic_tool_overhead_tokens (w_bundle w) canonical tools (kw view ''tool_choice'')))
          else Inr counted_tokens) (\<lambda>input_tokens.
     bnd (price_multiplier (w_loads w) (w_env w) (w_bundle w) prov client view) (\<lambda>(multiplier, modifiers).
     bnd (if images \<noteq> [] \<and> \<not> observe_images \<and> count_source \<noteq> ''provider_exact_counter''
          then image_tokens_for (w_pillow w) (w_bundle w) prov canonical images else Inr 0) (\<lambda>image_tokens.
     bnd (select_row w prov canonical ''short'') (\<lambda>short_row.
     bnd (case long_context_threshold short_row of
            None \<Rightarrow> Inr (short_row, ''no_long_band'')
          | Some t \<Rightarrow> if input_tokens > t
                      then bnd (select_row w prov canonical ''long'') (\<lambda>r. Inr (r, ''long''))
                      else Inr (short_row, ''short'')) (\<lambda>(row, threshold_decision).
     bnd (max_output_tokens view) (\<lambda>out.
       build presented canonical prov row n input_tokens (max 0 out * n) image_tokens count_source
         threshold_decision (if images \<noteq> [] \<and> observe_images then ''none'' else ''bounded'')
         (cache_write_kind view) multiplier modifiers))))))))))))))"

text \<open>\<open>_prepare\<close> and \<open>prepare_provider_call\<close>: the priced call, the pinned arguments, the breaker.\<close>

definition prepare ::
  "pricing_world \<Rightarrow> string \<Rightarrow> string \<Rightarrow> provider_client option \<Rightarrow> string \<Rightarrow> string list \<Rightarrow> int option \<Rightarrow> kwargs
    \<Rightarrow> tier_breaker \<Rightarrow> (call_pricing \<times> kwargs) res \<times> tier_breaker" where
  "prepare w prov surface client org observe_unbounded counted kws0 tb =
     (case bnd (pin_service_tier prov kws0) (\<lambda>kws. bnd (effective_request kws) (\<lambda>view. Inr (kws, view))) of
        Inl x \<Rightarrow> (Inl x, tb)
      | Inr (kws, view) \<Rightarrow>
          (case check_breaker (w_now w) org prov (str_or_empty (kw view ''model'')) tb of
             (Inl x, tb1) \<Rightarrow> (Inl x, tb1)
           | (Inr _, tb1) \<Rightarrow>
               (bnd (price_request w prov surface client observe_unbounded counted view) (\<lambda>cp. Inr (cp, kws)), tb1)))"

section \<open>Usage\<close>

fun usage_field :: "pyval \<Rightarrow> string list \<Rightarrow> int res" where
  "usage_field usage [] = Inr 0"
| "usage_field usage (k # ks) =
     (if field usage k = PNone then usage_field usage ks
      else case py_int (field usage k) of
             Inr i \<Rightarrow> Inr i
           | Inl PyOverflowError \<Rightarrow> Inl PyOverflowError
           | Inl _ \<Rightarrow> Inr 0)"

fun nested_value :: "pyval \<Rightarrow> string list \<Rightarrow> int res" where
  "nested_value v [] =
     (case py_int (or_val v (PInt 0)) of
        Inr i \<Rightarrow> Inr i | Inl PyOverflowError \<Rightarrow> Inl PyOverflowError | Inl _ \<Rightarrow> Inr 0)"
| "nested_value v (k # ks) = (if v = PNone then Inr 0 else nested_value (field v k) ks)"

definition or_else :: "int res \<Rightarrow> int res \<Rightarrow> int res" where
  "or_else a b = bnd a (\<lambda>x. if x = 0 then b else Inr x)"

text \<open>\<open>name in usage\<close> for a mapping, \<open>getattr(usage, name, None) is not None\<close> for an object.\<close>

definition reports :: "pyval \<Rightarrow> string \<Rightarrow> bool" where
  "reports usage k \<longleftrightarrow> (case usage of PDict d \<Rightarrow> has_key d k | _ \<Rightarrow> field usage k \<noteq> PNone)"

text \<open>The arithmetic of \<open>usage_components\<close> on the fields read.\<close>

definition split_usage ::
  "int \<Rightarrow> int \<Rightarrow> int \<Rightarrow> int \<Rightarrow> int \<Rightarrow> int \<Rightarrow> int \<Rightarrow> int \<Rightarrow> bool \<Rightarrow> bool \<Rightarrow> tokens" where
  "split_usage prompt output cached0 audio0 write_5m0 write_1h creation cache_read has_prompt normalized =
     (let write_5m = (if write_5m0 = 0 \<and> write_1h = 0 \<and> creation \<noteq> 0 then creation else write_5m0);
          (uncached0, cached) =
            (if has_prompt \<and> cached0 \<noteq> 0 then (max 0 (prompt - cached0), cached0)
             else if cache_read \<noteq> 0 \<or> creation \<noteq> 0 \<or> write_5m \<noteq> 0 \<or> write_1h \<noteq> 0 then (prompt, cached0)
             else (prompt, 0));
          uncached = (if normalized then max 0 (uncached0 - write_5m - write_1h) else uncached0);
          audio = min (max 0 audio0) uncached
      in no_tokens\<lparr>t_input := uncached - audio, t_cached_input := cached, t_cache_write_5m := write_5m,
           t_cache_write_1h := write_1h, t_output := output, t_audio_input := audio\<rparr>)"

definition usage_components :: "pyval \<Rightarrow> tokens res" where
  "usage_components usage =
     bnd (usage_field usage [''prompt_tokens'', ''input_tokens'']) (\<lambda>prompt.
     bnd (usage_field usage [''completion_tokens'', ''output_tokens'']) (\<lambda>output.
     bnd (or_else (nested_value usage [''prompt_tokens_details'', ''cached_tokens''])
            (or_else (nested_value usage [''input_tokens_details'', ''cached_tokens''])
               (usage_field usage [''cache_read_input_tokens'']))) (\<lambda>cached.
     bnd (or_else (nested_value usage [''prompt_tokens_details'', ''audio_tokens''])
            (nested_value usage [''input_tokens_details'', ''audio_tokens''])) (\<lambda>audio.
     bnd (nested_value usage [''cache_creation'', ''ephemeral_5m_input_tokens'']) (\<lambda>w5.
     bnd (nested_value usage [''cache_creation'', ''ephemeral_1h_input_tokens'']) (\<lambda>w1.
     bnd (if w5 = 0 \<and> w1 = 0
          then bnd (nested_value usage [''prompt_tokens_details'', ''cache_creation_token_details'', ''ephemeral_5m_input_tokens'']) (\<lambda>a.
               bnd (nested_value usage [''prompt_tokens_details'', ''cache_creation_token_details'', ''ephemeral_1h_input_tokens'']) (\<lambda>b.
                 Inr (a, b)))
          else Inr (w5, w1)) (\<lambda>(write_5m, write_1h).
     bnd (usage_field usage [''cache_creation_input_tokens'']) (\<lambda>creation.
     bnd (usage_field usage [''cache_read_input_tokens'']) (\<lambda>cache_read.
       Inr (split_usage prompt output cached audio write_5m write_1h creation cache_read
              (reports usage ''prompt_tokens'' \<or> reports usage ''input_tokens_details'' \<or>
               reports usage ''prompt_tokens_details'')
              (reports usage ''prompt_tokens'')))))))))))"

definition reported_service_tier :: "pyval \<Rightarrow> pyval \<Rightarrow> string option" where
  "reported_service_tier usage response =
     (if truthy (field usage ''service_tier'') then Some (py_str (field usage ''service_tier''))
      else if truthy (field response ''service_tier'') then Some (py_str (field response ''service_tier''))
      else None)"

section \<open>Settlement\<close>

definition other_tier_row :: "catalog \<Rightarrow> pricing_decision \<Rightarrow> string \<Rightarrow> catalog_row option" where
  "other_tier_row table d tier =
     (case lookup_row table (pd_provider d) (pd_canonical_model_id d) tier (pd_context_band d) of
        Some r \<Rightarrow> Some r
      | None \<Rightarrow> lookup_row table (pd_provider d) (pd_canonical_model_id d) tier ''short'')"

text \<open>Pricing the usage on a rate vector: the components are recorded before they are priced.\<close>

definition price_usage :: "rate_vector \<Rightarrow> pyval \<Rightarrow> call_pricing \<Rightarrow> int res \<times> call_pricing" where
  "price_usage rts usage cp =
     (case usage_components usage of
        Inl x \<Rightarrow> (Inl x, cp)
      | Inr c \<Rightarrow>
          let cp1 = cp\<lparr>cp_settled_components := Some c\<rparr> in
          (case cost_micro_usd rts c of
             Inl x \<Rightarrow> (Inl x, cp1)
           | Inr m \<Rightarrow> (Inr m, if cp_hold_for_reconciliation cp1
                             then cp1\<lparr>cp_held_exposure_usd := micro_usd_to_decimal m\<rparr> else cp1)))"

text \<open>A reported tier with no certified row: the exposure is held at the operator's multiplier, never
  below the reservation. \<open>format_f\<close> is \<open>format(number, "f")\<close>, used only in evidence.\<close>

definition hold_unknown ::
  "pricing_world \<Rightarrow> (rat \<Rightarrow> string) \<Rightarrow> string \<Rightarrow> string \<Rightarrow> pyval \<Rightarrow> call_pricing \<Rightarrow> tier_breaker
    \<Rightarrow> int res \<times> call_pricing \<times> tier_breaker" where
  "hold_unknown w format_f org tier usage cp tb =
     (let d = cp_decision cp in
      case tier_multiplier (w_env w) of
        Inl x \<Rightarrow> (Inl x, cp, tb)
      | Inr mult \<Rightarrow>
          (case usage_components usage of
             Inl x \<Rightarrow> (Inl x, cp, tb)
           | Inr c \<Rightarrow>
               let cp1 = cp\<lparr>cp_settled_components := Some c\<rparr> in
               (case bnd (cost_micro_usd (pd_rate_vector d) c) (\<lambda>base.
                       decimal_to_micro_usd (DFin (d_mul (micro_usd_to_decimal base) mult))) of
                  Inl x \<Rightarrow> (Inl x, cp1, tb)
                | Inr held0 \<Rightarrow>
                    let held = (if held0 < pd_reserved_micro_usd d then pd_reserved_micro_usd d else held0) in
                    (Inr held,
                     cp1\<lparr>cp_hold_for_reconciliation := True, cp_reservation_state := ''pending_reconciliation'',
                         cp_pricing_basis := ''unknown_tier'', cp_exposure_source := ''operator_risk_multiplier'',
                         cp_held_exposure_usd := micro_usd_to_decimal held,
                         cp_usage_evidence := [(''service_tier'', tier), (''provider'', pd_provider d),
                           (''canonical_model_id'', pd_canonical_model_id d),
                           (''exposure_source'', ''operator_risk_multiplier''), (''pricing_basis'', ''unknown_tier''),
                           (''label'', ''estimate''), (''multiplier'', format_f mult)]\<rparr>,
                     open_breaker (w_now w) org (pd_provider d) (pd_canonical_model_id d) tier held tb))))"

definition settle_usage ::
  "pricing_world \<Rightarrow> (rat \<Rightarrow> string) \<Rightarrow> string \<Rightarrow> string option \<Rightarrow> pyval \<Rightarrow> call_pricing \<Rightarrow> tier_breaker
    \<Rightarrow> int res \<times> call_pricing \<times> tier_breaker" where
  "settle_usage w format_f org reported_tier usage cp0 tb =
     (let d = cp_decision cp0;
          tier = (case reported_tier of Some t \<Rightarrow> t
                  | None \<Rightarrow> (case reported_service_tier usage PNone of Some t \<Rightarrow> t | None \<Rightarrow> []));
          cp = cp0\<lparr>cp_exposure_source := ''certified_row''\<rparr>
      in if tier = [] \<or> tier = pd_expected_reported_tier d
         then (case price_usage (pd_rate_vector d) usage cp of (r, cp') \<Rightarrow> (r, cp', tb))
         else (case other_tier_row (w_table w) d tier of
             Some other \<Rightarrow>
               if certified other then
                 (case price_usage (scaled (pd_price_multiplier d) (row_rates other)) usage
                    (cp\<lparr>cp_hold_for_reconciliation := True, cp_reservation_state := ''pending_reconciliation'',
                        cp_exposure_source := ''certified_unexpected_tier'',
                        cp_usage_evidence := [(''service_tier'', tier), (''provider'', pd_provider d),
                          (''canonical_model_id'', pd_canonical_model_id d),
                          (''exposure_source'', ''certified_unexpected_tier''),
                          (''catalog_version'', catalog_version other), (''pricing_rule'', pricing_rule other)]\<rparr>) of
                    (r, cp') \<Rightarrow> (r, cp',
                      open_breaker (w_now w) org (pd_provider d) (pd_canonical_model_id d) tier 0 tb))
               else hold_unknown w format_f org tier usage cp tb
           | None \<Rightarrow> hold_unknown w format_f org tier usage cp tb))"

section \<open>Evidence\<close>

definition tokens_evidence :: "tokens \<Rightarrow> kwargs" where
  "tokens_evidence t = [(''input_tokens'', PInt (t_input t)), (''cached_input_tokens'', PInt (t_cached_input t)),
     (''cache_write_5m_tokens'', PInt (t_cache_write_5m t)), (''cache_write_1h_tokens'', PInt (t_cache_write_1h t)),
     (''output_tokens'', PInt (t_output t)), (''audio_input_tokens'', PInt (t_audio_input t))]"

definition setdefault :: "string \<Rightarrow> pyval \<Rightarrow> kwargs \<Rightarrow> kwargs" where
  "setdefault k v d = (if has_key d k then d else dset k v d)"

definition settlement_evidence :: "(rat \<Rightarrow> string) \<Rightarrow> call_pricing option \<Rightarrow> kwargs" where
  "settlement_evidence format_f pricing = (case pricing of None \<Rightarrow> []
     | Some cp \<Rightarrow>
         let d = cp_decision cp;
             out0 = map (\<lambda>(k, v). (k, PStr v)) (cp_usage_evidence cp);
             out1 = (case cp_settled_components cp of None \<Rightarrow> out0
                     | Some t \<Rightarrow> dset ''tokens'' (PDict (tokens_evidence t)) out0);
             out2 = (if pd_price_multiplier d \<noteq> 1
                     then dset ''price_modifiers'' (PList (map PStr (pd_price_modifiers d)))
                            (dset ''price_multiplier'' (PStr (format_f (pd_price_multiplier d))) out1)
                     else out1)
         in setdefault ''catalog_version'' (PStr (pd_catalog_version d)) out2)"

definition pricing_evidence :: "call_pricing option \<Rightarrow> kwargs" where
  "pricing_evidence pricing = (case pricing of None \<Rightarrow> []
     | Some cp \<Rightarrow>
         let f0 = reserve_body_fields (cp_decision cp);
             f1 = (if cp_usage_evidence cp \<noteq> []
                   then dset ''usage_evidence'' (PDict (map (\<lambda>(k, v). (k, PStr v)) (cp_usage_evidence cp))) f0 else f0)
         in dset ''pricing_basis'' (PStr (cp_pricing_basis cp))
              (dset ''reservation_state'' (PStr (cp_reservation_state cp)) f1))"

section \<open>What the post-call cost is\<close>

text \<open>\<open>TokenCostEngine.from_usage\<close>: tokens and cost of a reported usage, on the call's frozen basis
  when there is one (\<open>settle_usage\<close> then), on the current row or the unknown-model policy otherwise.\<close>

definition from_usage_row ::
  "env \<Rightarrow> catalog \<Rightarrow> cost_engine \<Rightarrow> string \<Rightarrow> pyval \<Rightarrow> (int \<times> int \<times> rat) res" where
  "from_usage_row e cur en mdl usage =
     bnd (if usage = PNone then Inr no_tokens else usage_components usage) (\<lambda>c.
       let inp = t_input c + t_cached_input c + t_cache_write_5m c + t_cache_write_1h c;
           out = t_output c
       in case engine_row cur en mdl ''standard'' ''short'' of
            None \<Rightarrow> bnd (engine_cost_usd e cur en mdl inp out) (\<lambda>usd. Inr (inp, out, usd))
          | Some row \<Rightarrow> bnd (cost_micro_usd (row_rates row) c) (\<lambda>m. Inr (inp, out, micro_usd_to_decimal m)))"

end
