(* ===== verification/Settlement_Facts.thy ===== *)
theory Settlement_Facts
  imports Request_Pricing
begin

text \<open>
  What settlement promises (\<open>settle_usage\<close>, \<open>usage_components\<close> and the tier breaker of
  kazenai/request_pricing.py): usage inside the reservation never costs more than was reserved, every
  prompt token is billed exactly once, an unknown tier is held and closes admission.
\<close>

section \<open>The reservation covers the settlement\<close>

definition reserved_rate :: "string \<Rightarrow> rate_vector \<Rightarrow> rat" where
  "reserved_rate kind r =
     (if kind = ''5m'' then effective_component (r_cache_write_5m r) (r_input r)
      else if kind = ''1h'' then effective_component (r_cache_write_1h r) (r_input r) else r_input r)"

text \<open>No component of the usage is dearer than the rate the input was reserved at.\<close>

definition rates_within :: "rat \<Rightarrow> rate_vector \<Rightarrow> tokens \<Rightarrow> bool" where
  "rates_within k r c \<longleftrightarrow>
     (t_input c \<noteq> 0 \<longrightarrow> r_input r \<le> k) \<and>
     (t_cached_input c \<noteq> 0 \<longrightarrow> effective_component (r_cached_input r) (r_input r) \<le> k) \<and>
     (t_cache_write_5m c \<noteq> 0 \<longrightarrow> effective_component (r_cache_write_5m r) (r_input r) \<le> k) \<and>
     (t_cache_write_1h c \<noteq> 0 \<longrightarrow> effective_component (r_cache_write_1h r) (r_input r) \<le> k) \<and>
     (t_audio_input c \<noteq> 0 \<longrightarrow> effective_component (r_audio_input r) (r_input r) \<le> k)"

definition prompt_side :: "tokens \<Rightarrow> int list" where
  "prompt_side c = [t_input c, t_cached_input c, t_cache_write_5m c, t_cache_write_1h c, t_audio_input c]"

definition usage_within :: "int \<Rightarrow> int \<Rightarrow> tokens \<Rightarrow> bool" where
  "usage_within inp out c \<longleftrightarrow> list_all (\<lambda>n. 0 \<le> n) (prompt_side c) \<and> sum_list (prompt_side c) \<le> inp \<and>
     t_output c \<le> out \<and> t_image c = 0 \<and> t_tool_calls c = 0 \<and> t_audio_cached_input c = 0"

lemma plain_cost_reserved:
  "plain_cost r (reserved_tokens kind inp out img) =
     (of_int (max 0 inp) * reserved_rate kind r + of_int (max 0 out) * r_output r
      + of_int (max 0 img) * effective_component (r_image r) (r_input r)) / 1000000"
  by (simp add: plain_cost_def reserved_tokens_def reserved_rate_def no_tokens_def)

lemma product_within: "0 \<le> n \<Longrightarrow> (n \<noteq> 0 \<longrightarrow> r \<le> k) \<Longrightarrow> of_int n * r \<le> of_int n * (k :: rat)"
  by (cases "n = 0") (simp_all add: mult_left_mono)

lemma plain_cost_within:
  assumes u: "usage_within inp out c" and k: "rates_within (reserved_rate kind r) r c"
    and nn: "0 \<le> reserved_rate kind r" "0 \<le> r_output r" "0 \<le> effective_component (r_image r) (r_input r)"
  shows "plain_cost r c \<le> plain_cost r (reserved_tokens kind inp out img)"
proof -
  let ?k = "reserved_rate kind r"
  have n: "0 \<le> t_input c" "0 \<le> t_cached_input c" "0 \<le> t_cache_write_5m c" "0 \<le> t_cache_write_1h c"
    "0 \<le> t_audio_input c" using u by (simp_all add: usage_within_def prompt_side_def)
  have "of_int (t_input c) * r_input r + of_int (t_cached_input c) * effective_component (r_cached_input r) (r_input r)
      + of_int (t_cache_write_5m c) * effective_component (r_cache_write_5m r) (r_input r)
      + of_int (t_cache_write_1h c) * effective_component (r_cache_write_1h r) (r_input r)
      + of_int (t_audio_input c) * effective_component (r_audio_input r) (r_input r)
    \<le> of_int (t_input c) * ?k + of_int (t_cached_input c) * ?k + of_int (t_cache_write_5m c) * ?k
      + of_int (t_cache_write_1h c) * ?k + of_int (t_audio_input c) * ?k"
    using k n unfolding rates_within_def by (intro add_mono product_within) simp_all
  also have "\<dots> = of_int (sum_list (prompt_side c)) * ?k"
    by (simp add: prompt_side_def distrib_right)
  also have "\<dots> \<le> of_int (max 0 inp) * ?k"
  proof (rule mult_right_mono [OF _ nn(1)])
    have "sum_list (prompt_side c) \<le> max 0 inp" using u by (simp add: usage_within_def le_max_iff_disj)
    then show "(of_int (sum_list (prompt_side c)) :: rat) \<le> of_int (max 0 inp)" by (simp only: of_int_le_iff)
  qed
  finally have p: "of_int (t_input c) * r_input r + of_int (t_cached_input c) * effective_component (r_cached_input r) (r_input r)
      + of_int (t_cache_write_5m c) * effective_component (r_cache_write_5m r) (r_input r)
      + of_int (t_cache_write_1h c) * effective_component (r_cache_write_1h r) (r_input r)
      + of_int (t_audio_input c) * effective_component (r_audio_input r) (r_input r) \<le> of_int (max 0 inp) * ?k" .
  have o: "of_int (max 0 (t_output c)) * r_output r \<le> of_int (max 0 out) * r_output r"
  proof (rule mult_right_mono [OF _ nn(2)])
    have "max 0 (t_output c) \<le> max 0 out" using u by (auto simp: usage_within_def max_def)
    then show "(of_int (max 0 (t_output c)) :: rat) \<le> of_int (max 0 out)" by (simp only: of_int_le_iff)
  qed
  have i: "0 \<le> of_int (max 0 img) * effective_component (r_image r) (r_input r)" using nn(3) by simp
  have c: "t_image c = 0" "t_tool_calls c = 0" "t_audio_cached_input c = 0" using u by (simp_all add: usage_within_def)
  have m: "max 0 (t_input c) = t_input c" "max 0 (t_cached_input c) = t_cached_input c"
    "max 0 (t_cache_write_5m c) = t_cache_write_5m c" "max 0 (t_cache_write_1h c) = t_cache_write_1h c"
    "max 0 (t_audio_input c) = t_audio_input c" using n by simp_all
  have "plain_cost r c =
     (of_int (t_input c) * r_input r + of_int (t_cached_input c) * effective_component (r_cached_input r) (r_input r)
      + of_int (t_cache_write_5m c) * effective_component (r_cache_write_5m r) (r_input r)
      + of_int (t_cache_write_1h c) * effective_component (r_cache_write_1h r) (r_input r)
      + of_int (t_audio_input c) * effective_component (r_audio_input r) (r_input r)
      + of_int (max 0 (t_output c)) * r_output r) / 1000000"
    unfolding plain_cost_def c m by (simp add: add_divide_distrib)
  also have "\<dots> \<le> plain_cost r (reserved_tokens kind inp out img)"
    unfolding plain_cost_reserved using p o i by (intro divide_right_mono) linarith+
  finally show ?thesis .
qed

lemma fine_ratesD:
  assumes "fine_rates r"
  shows "fine_rate (r_input r)" "fine_rate (r_output r)" "fine_rate (effective_component (r_image r) (r_input r))"
    "fine_rate (reserved_rate kind r)"
  using assms unfolding fine_rates_def reserved_rate_def by (auto intro: fine_effective)

lemma cost_of_plain:
  assumes "fine_rates r" "small_tokens t" "0 \<le> plain_cost r t" "plain_cost r t < 10 ^ 18"
  shows "cost_micro_usd r t = Inr \<lceil>(of_int (round_half_even (plain_cost r t * 10 ^ 9)) :: rat) / 1000\<rceil>"
  using decimal_to_micro_usd_small [OF assms(3,4)] component_cost_exact [OF assms(1,2)]
  by (simp add: cost_micro_usd_def)

lemma plain_cost_reserved_bounds:
  assumes r: "fine_rates r" and "inp \<le> 1000000000" "out \<le> 1000000000" "img \<le> 1000000000"
  shows "0 \<le> plain_cost r (reserved_tokens kind inp out img)"
    "plain_cost r (reserved_tokens kind inp out img) < 10 ^ 18"
proof -
  note f = fine_ratesD [OF r]
  note i = fine_product [OF f(4) assms(2), of kind] and o = fine_product [OF f(2) assms(3)]
    and im = fine_product [OF f(3) assms(4)]
  have "0 \<le> (1000000000::int)" by simp
  note b = i(1,2) [OF this] o(1,2) [OF this] im(1,2) [OF this]
  show "0 \<le> plain_cost r (reserved_tokens kind inp out img)"
    unfolding plain_cost_reserved using b by (intro divide_nonneg_nonneg add_nonneg_nonneg) simp_all
  show "plain_cost r (reserved_tokens kind inp out img) < 10 ^ 18"
    unfolding plain_cost_reserved using b by (simp add: field_simps)
qed

lemma small_reserved:
  "inp \<le> 1000000000 \<Longrightarrow> out \<le> 1000000000 \<Longrightarrow> img \<le> 1000000000 \<Longrightarrow> small_tokens (reserved_tokens kind inp out img)"
  by (simp add: small_tokens_def reserved_tokens_def no_tokens_def)

lemma small_within:
  assumes u: "usage_within inp out c" and "inp \<le> 1000000000" "out \<le> 1000000000"
  shows "small_tokens c"
proof -
  have "n \<le> sum_list (prompt_side c)" if "n \<in> set (prompt_side c)" for n
    using u that by (auto simp: usage_within_def prompt_side_def)
  then have "n \<le> 1000000000" if "n \<in> set (prompt_side c)" for n
    using that u assms(2) by (fastforce simp: usage_within_def)
  then show ?thesis using u assms(3) by (auto simp: small_tokens_def usage_within_def prompt_side_def)
qed

lemma plain_cost_nonneg:
  assumes r: "fine_rates r" and u: "usage_within inp out c"
  shows "0 \<le> plain_cost r c"
proof -
  have e: "0 \<le> r_input r" "0 \<le> r_output r" "0 \<le> effective_component (r_cached_input r) (r_input r)"
    "0 \<le> effective_component (r_cache_write_5m r) (r_input r)" "0 \<le> effective_component (r_cache_write_1h r) (r_input r)"
    "0 \<le> effective_component (r_audio_input r) (r_input r)"
    using r fine_effective unfolding fine_rates_def fine_rate_def by (blast+)
  then show ?thesis using u unfolding plain_cost_def usage_within_def by (simp add: add_nonneg_nonneg)
qed

lemma decimal_to_micro_usd_nonneg:
  assumes "decimal_to_micro_usd (DFin q) = Inr m" shows "0 \<le> m"
proof -
  note d = decimal_to_micro_usd_Inr [OF assms]
  have "0 \<le> round_half_even (q * 10 ^ 9)" using d(1) by (intro round_half_even_nonneg) simp
  then show ?thesis unfolding d(2) by (simp add: zero_le_divide_iff le_ceiling_iff)
qed

lemma build_Inr:
  assumes "build presented canonical prov row n inp out img src td sb kind mult mods = Inr cp"
  shows "cp = call_pricing_init (cp_decision cp)" "pd_rate_vector (cp_decision cp) = scaled mult (row_rates row)"
    "pd_expected_reported_tier (cp_decision cp) = expected_reported_tier row"
    "cost_micro_usd (scaled mult (row_rates row)) (reserved_tokens kind inp out img)
       = Inr (pd_reserved_micro_usd (cp_decision cp))"
proof -
  from assms obtain m where m: "cost_micro_usd (scaled mult (row_rates row)) (reserved_tokens kind inp out img) = Inr m"
    by (auto simp: build_def Let_def bnd_eq_Inr)
  have "0 \<le> m" using m unfolding cost_micro_usd_def by (rule decimal_to_micro_usd_nonneg)
  then show "cp = call_pricing_init (cp_decision cp)" "pd_rate_vector (cp_decision cp) = scaled mult (row_rates row)"
    "pd_expected_reported_tier (cp_decision cp) = expected_reported_tier row"
    "cost_micro_usd (scaled mult (row_rates row)) (reserved_tokens kind inp out img)
       = Inr (pd_reserved_micro_usd (cp_decision cp))"
    using assms m by (auto simp: build_def Let_def call_pricing_init_def)
qed

text \<open>C13: a call that stays inside what was reserved settles at no more than the reservation. When
  the reported tier is the priced one, the usage has at most the projected prompt and output tokens
  and none of its components is dearer than the rate the input was reserved at, settlement succeeds,
  its amount is at most the reserved one, nothing is held and the breaker stays as it is.\<close>

theorem settlement_within_reservation:
  assumes b: "build presented canonical prov row n inp out img src td sb kind mult mods = Inr cp"
    and f: "fine_rates (scaled mult (row_rates row))"
    and small: "inp \<le> 1000000000" "out \<le> 1000000000" "img \<le> 1000000000"
    and c: "usage_components usage = Inr c" and u: "usage_within inp out c"
    and k: "rates_within (reserved_rate kind (scaled mult (row_rates row))) (scaled mult (row_rates row)) c"
  shows "\<exists>m cp'. settle_usage w fmt org (Some (expected_reported_tier row)) usage cp tb = (Inr m, cp', tb) \<and>
    m \<le> pd_reserved_micro_usd (cp_decision cp) \<and> \<not> cp_hold_for_reconciliation cp' \<and>
    cp_reservation_state cp' = ''reserved'' \<and> cp_settled_components cp' = Some c"
proof -
  let ?r = "scaled mult (row_rates row)"
  note b = build_Inr [OF b] and res = plain_cost_reserved_bounds [OF f small, of kind]
  have nn: "0 \<le> reserved_rate kind ?r" "0 \<le> r_output ?r" "0 \<le> effective_component (r_image ?r) (r_input ?r)"
    using fine_ratesD [OF f] by (auto simp: fine_rate_def)
  have le: "plain_cost ?r c \<le> plain_cost ?r (reserved_tokens kind inp out img)"
    by (rule plain_cost_within [OF u k nn])
  then have lt: "plain_cost ?r c < 10 ^ 18" using res(2) by linarith
  define m where "m = \<lceil>(of_int (round_half_even (plain_cost ?r c * 10 ^ 9)) :: rat) / 1000\<rceil>"
  have m: "cost_micro_usd ?r c = Inr m"
    unfolding m_def by (rule cost_of_plain [OF f small_within [OF u small(1,2)] plain_cost_nonneg [OF f u] lt])
  have "m \<le> pd_reserved_micro_usd (cp_decision cp)"
    using micros_mono [OF le] b(4) cost_of_plain [OF f small_reserved [OF small, of kind] res] by (simp add: m_def)
  moreover have h: "cp_hold_for_reconciliation cp = False" "cp_reservation_state cp = ''reserved''"
    by (subst b(1), simp add: call_pricing_init_def)+
  ultimately show ?thesis using m c
    by (simp add: settle_usage_def price_usage_def b(2,3) Let_def)
qed

definition gpt_4o_row :: catalog_row where
  "gpt_4o_row = builtin_row ''openai'' ''gpt-4o'' ''standard'' ''short'' ''default'' gpt_4o_rates openai_source None
     ''standard'' [] None"

definition gpt_4o_usage :: pyval where
  "gpt_4o_usage = PDict [(''prompt_tokens'', PInt 1000), (''completion_tokens'', PInt 150),
     (''prompt_tokens_details'', PDict [(''cached_tokens'', PInt 400)])]"

lemma gpt_4o_components:
  "usage_components gpt_4o_usage = Inr (no_tokens\<lparr>t_input := 600, t_cached_input := 400, t_output := 150\<rparr>)"
  by code_simp

lemma gpt_4o_reserved:
  "cost_micro_usd gpt_4o_rates (reserved_tokens '''' 1000 200 0) = Inr 4500"
  by (rule cost_micro_usd_eval [OF fine_gpt_4o])
    (simp_all add: small_tokens_def no_tokens_def plain_cost_def gpt_4o_rates_def effective_component_def reserved_tokens_def)

definition gpt_4o_call :: call_pricing where
  "gpt_4o_call = (case build ''gpt-4o'' ''gpt-4o'' ''openai'' gpt_4o_row 1 1000 200 0 ''local_byte_estimate''
     ''no_long_band'' ''bounded'' '''' 1 [] of Inr cp \<Rightarrow> cp | Inl _ \<Rightarrow> undefined)"

lemma gpt_4o_build:
  "build ''gpt-4o'' ''gpt-4o'' ''openai'' gpt_4o_row 1 1000 200 0 ''local_byte_estimate'' ''no_long_band''
     ''bounded'' '''' 1 [] = Inr gpt_4o_call"
  by (simp add: gpt_4o_call_def build_def gpt_4o_row_def builtin_row_def scaled_def gpt_4o_reserved)

theorem settlement_within_reservation_witness:
  "\<forall>w fmt tb. \<exists>m cp'. settle_usage w fmt ''org'' (Some ''default'') gpt_4o_usage gpt_4o_call tb = (Inr m, cp', tb) \<and> m \<le> 4500"
proof (intro allI)
  fix w fmt tb
  let ?c = "no_tokens\<lparr>t_input := 600, t_cached_input := 400, t_output := 150\<rparr>"
  have r: "scaled 1 (row_rates gpt_4o_row) = gpt_4o_rates" "expected_reported_tier gpt_4o_row = ''default''"
    by (simp_all add: scaled_def gpt_4o_row_def builtin_row_def)
  have m: "pd_reserved_micro_usd (cp_decision gpt_4o_call) = 4500"
    using build_Inr(4) [OF gpt_4o_build] gpt_4o_reserved unfolding r by simp
  have u: "usage_within 1000 200 ?c" by (simp add: usage_within_def prompt_side_def no_tokens_def)
  have k: "rates_within (reserved_rate '''' gpt_4o_rates) gpt_4o_rates ?c"
    by (simp add: rates_within_def reserved_rate_def gpt_4o_rates_def effective_component_def no_tokens_def)
  show "\<exists>m cp'. settle_usage w fmt ''org'' (Some ''default'') gpt_4o_usage gpt_4o_call tb = (Inr m, cp', tb) \<and> m \<le> 4500"
    using settlement_within_reservation [OF gpt_4o_build _ _ _ _ gpt_4o_components u, unfolded r m, OF fine_gpt_4o _ _ _ k,
      of w fmt "''org''" tb] by auto
qed

section \<open>Every prompt token is billed once\<close>

lemma split_usage_total:
  assumes "0 \<le> cached" "0 \<le> w5" "0 \<le> w1" "0 \<le> creation" "0 \<le> prompt" "cached + max (w5 + w1) creation \<le> prompt"
  shows "sum_list (prompt_side (split_usage prompt output cached audio w5 w1 creation read True True)) = prompt"
proof -
  define w where "w = (if w5 = 0 \<and> w1 = 0 \<and> creation \<noteq> 0 then creation else w5)"
  have w: "cached + w + w1 \<le> prompt" "0 \<le> w" using assms by (auto simp: w_def max_def split: if_splits)
  have u: "max 0 (prompt - cached - w - w1) = prompt - cached - w - w1" "max 0 (prompt - cached) = prompt - cached"
    "max 0 (prompt - w - w1) = prompt - w - w1" using w assms by (simp_all add: max_def)
  show ?thesis unfolding split_usage_def w_def [symmetric] Let_def prompt_side_def no_tokens_def
    using u by (cases "cached = 0") simp_all
qed

lemma split_usage_cache_apart:
  assumes "0 \<le> read" "0 \<le> w5" "0 \<le> w1" "0 \<le> creation" "0 \<le> prompt"
  shows "sum_list (prompt_side (split_usage prompt output read audio w5 w1 creation read False False)) =
     prompt + read + (if w5 = 0 \<and> w1 = 0 then creation else w5 + w1)"
  using assms by (auto simp: split_usage_def prompt_side_def no_tokens_def Let_def)

text \<open>The usage shapes of the three APIs are read so that every prompt token is billed exactly
  once: OpenAI chat and responses usage count the cached and audio tokens inside the prompt,
  Anthropic usage counts the cache reads and writes apart from it.\<close>
theorem prompt_tokens_billed_once:
  assumes "0 \<le> p" "0 \<le> ca" "0 \<le> au" "0 \<le> rd" "0 \<le> w5" "0 \<le> w1" "ca \<le> p"
  shows "(\<exists>c. usage_components (PDict [(''prompt_tokens'', PInt p), (''completion_tokens'', PInt out),
             (''prompt_tokens_details'', PDict [(''cached_tokens'', PInt ca), (''audio_tokens'', PInt au)])]) = Inr c
           \<and> sum_list (prompt_side c) = p \<and> t_output c = out) \<and>
    (\<exists>c. usage_components (PDict [(''input_tokens'', PInt p), (''output_tokens'', PInt out),
             (''input_tokens_details'', PDict [(''cached_tokens'', PInt ca)])]) = Inr c
           \<and> sum_list (prompt_side c) = p \<and> t_output c = out) \<and>
    (\<exists>c. usage_components (PDict [(''input_tokens'', PInt p), (''output_tokens'', PInt out),
             (''cache_read_input_tokens'', PInt rd), (''cache_creation_input_tokens'', PInt (w5 + w1)),
             (''cache_creation'', PDict [(''ephemeral_5m_input_tokens'', PInt w5), (''ephemeral_1h_input_tokens'', PInt w1)])]) = Inr c
           \<and> sum_list (prompt_side c) = p + rd + w5 + w1 \<and> t_output c = out)"
  using assms
  by (auto simp: usage_components_def or_else_def reports_def field_def split_usage_def prompt_side_def no_tokens_def Let_def
      or_val_def has_key_def dget_def)

theorem prompt_tokens_billed_once_witness:
  "\<exists>c. usage_components (PDict [(''prompt_tokens'', PInt 10), (''completion_tokens'', PInt 3),
       (''prompt_tokens_details'', PDict [(''cached_tokens'', PInt 4), (''audio_tokens'', PInt 1)])]) = Inr c
     \<and> sum_list (prompt_side c) = 10"
  using prompt_tokens_billed_once [of 10 4 1 0 0 0 3] by auto

section \<open>Unknown tiers\<close>

lemma open_breaker_hit:
  "fst (check_breaker now' org prov mdl (open_breaker now org prov mdl tier held tb)) = refuse ''unknown_tier_circuit_open''"
proof -
  let ?tb = "open_breaker now org prov mdl tier held tb"
  have "(org, prov, mdl, tier) \<in> set (map fst (tb_open ?tb))" by (simp add: open_breaker_def Let_def)
  then obtain e where "((org, prov, mdl, tier), e) \<in> set (tb_open ?tb)" by auto
  then have "find (\<lambda>(k, _). breaker_hit org prov mdl k) (tb_open ?tb) \<noteq> None"
    by (auto simp: find_None_iff breaker_hit_def intro!: exI [of _ "((org, prov, mdl, tier), e)"])
  then show ?thesis by (auto simp: check_breaker_def)
qed

lemma find_append: "find P (xs @ ys) = (case find P xs of None \<Rightarrow> find P ys | Some x \<Rightarrow> Some x)"
  by (induction xs) simp_all

lemma open_breaker_other:
  assumes "(org', prov', mdl') \<noteq> (org, prov, mdl)"
  shows "fst (check_breaker now' org' prov' mdl' (open_breaker now org prov mdl tier held tb)) =
    fst (check_breaker now' org' prov' mdl' tb)"
  using assms by (auto simp: check_breaker_def open_breaker_def Let_def find_append breaker_hit_def split: option.splits)


definition unlisted_world :: pricing_world where
  "unlisted_world = \<lparr>w_env = [(''KAZENAI_TIER_MISMATCH_MULTIPLIER'', ''2'')], w_loads = (\<lambda>_. None), w_pillow = undefined,
     w_dump = (\<lambda>_. None), w_now = 0, w_bundle = bundled,
     w_engine = \<lparr>te_catalog = [((''openai'', ''gpt-4o'', ''standard'', ''short''), gpt_4o_row)], te_aliases = [],
       te_pricing = [], te_constructor_models = []\<rparr>\<rparr>"

lemma gpt_4o_decision:
  "pd_provider (cp_decision gpt_4o_call) = ''openai''" "pd_canonical_model_id (cp_decision gpt_4o_call) = ''gpt-4o''"
  "pd_expected_reported_tier (cp_decision gpt_4o_call) = ''default''" "pd_context_band (cp_decision gpt_4o_call) = ''short''"
  "pd_rate_vector (cp_decision gpt_4o_call) = gpt_4o_rates" "pd_reserved_micro_usd (cp_decision gpt_4o_call) = 4500"
  by (simp_all add: gpt_4o_call_def build_def gpt_4o_row_def builtin_row_def scaled_def gpt_4o_reserved call_pricing_init_def)

lemma unlisted_tier: "other_tier_row (w_table unlisted_world) (cp_decision gpt_4o_call) ''turbo'' = None"
  unfolding other_tier_row_def gpt_4o_decision by (simp add: w_table_def unlisted_world_def lookup_row_def tlookup_def)

lemma unlisted_hold:
  "\<exists>cp' tb'. settle_usage unlisted_world fmt ''org'' (Some ''turbo'') gpt_4o_usage gpt_4o_call tb = (Inr 7000, cp', tb')"
proof -
  have m: "tier_multiplier (w_env unlisted_world) = Inr 2" unfolding unlisted_world_def pricing_world.simps by code_simp
  have c: "cost_micro_usd gpt_4o_rates (no_tokens\<lparr>t_input := 600, t_cached_input := 400, t_output := 150\<rparr>) = Inr 3500"
    by (rule cost_micro_usd_eval [OF fine_gpt_4o])
      (simp_all add: small_tokens_def no_tokens_def plain_cost_def gpt_4o_rates_def effective_component_def)
  have e: "dec_repr (7 / 2000)" "dec_repr (7 / 1000)"
    using dec_reprI [of "7 / 2000" 35 "- 4"] dec_reprI [of "7 / 1000" 7 "- 3"] by (simp_all add: power_int_def power_divide)
  have d: "micro_usd_to_decimal 3500 = 7 / 2000" "d_mul (7 / 2000) 2 = 7 / 1000"
    using e by (simp_all add: micro_usd_to_decimal_def d_div_def d_mul_def dec_round_exact)
  have h: "decimal_to_micro_usd (DFin (7 / 1000)) = Inr 7000" using micros_back [of 7000] by simp
  show ?thesis
    by (simp add: settle_usage_def Let_def unlisted_tier gpt_4o_decision hold_unknown_def gpt_4o_components c d h m)
qed


text \<open>What the open breaker stops. After a tier of a canonical model is held, \<open>prepare\<close> refuses
  exactly the requests that present the canonical id itself to its provider; every other request is
  decided as if the breaker had not opened.\<close>
theorem breaker_stops_presented_id:
  assumes "pin_service_tier prov kws0 = Inr kws" "effective_request kws = Inr view"
  shows "fst (prepare w prov surface client org obs counted kws0 (open_breaker now org p mdl tier held tb)) =
    (if prov = p \<and> str_or_empty (kw view ''model'') = mdl then refuse ''unknown_tier_circuit_open''
     else fst (prepare w prov surface client org obs counted kws0 tb))"
proof -
  let ?m = "str_or_empty (kw view ''model'')"
  have e: "fst (prepare w prov surface client org obs counted kws0 t) =
     bnd (fst (check_breaker (w_now w) org prov ?m t)) (\<lambda>_.
       bnd (price_request w prov surface client obs counted view) (\<lambda>cp. Inr (cp, kws)))" for t
    using assms by (auto simp: prepare_def split: prod.split sum.split)
  show ?thesis
  proof (cases "prov = p \<and> ?m = mdl")
    case True
    then show ?thesis unfolding e by (simp add: open_breaker_hit refuse_def)
  next
    case False
    then have "fst (check_breaker (w_now w) org prov ?m (open_breaker now org p mdl tier held tb)) =
      fst (check_breaker (w_now w) org prov ?m tb)" by (intro open_breaker_other) auto
    with False show ?thesis unfolding e by auto
  qed
qed

lemma cased_request:
  "pin_service_tier ''openai'' [(''model'', PStr ''GPT-4o'')] = Inr [(''model'', PStr ''GPT-4o''), (''service_tier'', PStr ''default'')]"
  "effective_request [(''model'', PStr ''GPT-4o''), (''service_tier'', PStr ''default'')] =
     Inr [(''model'', PStr ''GPT-4o''), (''service_tier'', PStr ''default'')]"
  by code_simp+

theorem breaker_stops_presented_id_witness:
  "\<forall>w client tb. fst (prepare w ''openai'' ''chat'' client ''org'' [] None [(''model'', PStr ''GPT-4o'')]
       (open_breaker 0 ''org'' ''openai'' ''gpt-4o'' ''turbo'' 7000 tb)) =
     fst (prepare w ''openai'' ''chat'' client ''org'' [] None [(''model'', PStr ''GPT-4o'')] tb)"
  using breaker_stops_presented_id [OF cased_request] by (simp add: kw_def dget_def str_or_empty_def)

text \<open>The breaker of a canonical model does not see a request that spells the model in another case,
  although that request is priced as the same model.\<close>

theorem cased_id_is_same_model:
  assumes "''gpt-4o'' \<in> set (map model (table_rows (w_table w)))"
  shows "resolve_canonical w (py_lower ''GPT-4o'') = Inr ''gpt-4o''"
proof -
  have l: "py_lower ''GPT-4o'' = ''gpt-4o''" by code_simp
  have s: "py_lower (py_strip ''gpt-4o'') = ''gpt-4o''" by code_simp
  have "resolve_model_key ''gpt-4o'' ks al = Some ''gpt-4o''" if "''gpt-4o'' \<in> set ks" for ks al
    unfolding resolve_model_key_def s using that by simp
  then show ?thesis unfolding resolve_canonical_def l Let_def by (simp only: assms option.case)
qed

end
