(* ===== verification/Spool.thy ===== *)
theory Spool
  imports Prelude
begin

text \<open>
  The contract the two durable queues of the SDK share (kazenai/retry_queue.py and
  kazenai/spine/settle_queue.py): a journal of keys that survives every operation but its
  acknowledgment. The queues' theories discharge the laws for their models; what a sequence of
  operations does to the journal is proved here once.
\<close>

locale spool =
  fixes ok :: "'s \<Rightarrow> bool"
    and journal :: "'s \<Rightarrow> 'k set"
    and step :: "'op \<Rightarrow> 's \<Rightarrow> 's"
    and adds :: "'op \<Rightarrow> 's \<Rightarrow> 'k set"
    and drops :: "'op \<Rightarrow> 's \<Rightarrow> 'k set"
  assumes ok_step: "ok s \<Longrightarrow> ok (step p s)"
    and journal_keeps: "ok s \<Longrightarrow> journal s \<union> adds p s \<subseteq> journal (step p s) \<union> drops p s"
    and journal_only: "ok s \<Longrightarrow> journal (step p s) \<subseteq> journal s \<union> adds p s"
begin

definition run :: "'op list \<Rightarrow> 's \<Rightarrow> 's" where
  "run ops s = fold step ops s"

lemma run_simps [simp]:
  "run [] s = s"
  "run (p # ops) s = run ops (step p s)"
  by (simp_all add: run_def)

lemma ok_run: "ok s \<Longrightarrow> ok (run ops s)"
  by (induction ops arbitrary: s) (simp_all add: ok_step)

text \<open>The keys dropped at some point of a run, and those added.\<close>

fun dropped :: "'op list \<Rightarrow> 's \<Rightarrow> 'k set" where
  "dropped [] s = {}"
| "dropped (p # ops) s = drops p s \<union> dropped ops (step p s)"

fun added :: "'op list \<Rightarrow> 's \<Rightarrow> 'k set" where
  "added [] s = {}"
| "added (p # ops) s = adds p s \<union> added ops (step p s)"

lemma nothing_lost: "ok s \<Longrightarrow> journal s \<union> added ops s \<subseteq> journal (run ops s) \<union> dropped ops s"
proof (induction ops arbitrary: s)
  case (Cons p ops)
  from Cons.IH [OF ok_step [OF Cons.prems], of p] journal_keeps [OF Cons.prems, of p] show ?case by auto
qed simp

lemma nothing_invented: "ok s \<Longrightarrow> journal (run ops s) \<subseteq> journal s \<union> added ops s"
proof (induction ops arbitrary: s)
  case (Cons p ops)
  from Cons.IH [OF ok_step [OF Cons.prems], of p] journal_only [OF Cons.prems, of p] show ?case by auto
qed simp

lemma kept_until_dropped: "ok s \<Longrightarrow> k \<in> journal s \<Longrightarrow> k \<notin> dropped ops s \<Longrightarrow> k \<in> journal (run ops s)"
  using nothing_lost by fastforce

lemma dropped_when: "k \<in> dropped ops s \<Longrightarrow> \<exists>pre p post. ops = pre @ p # post \<and> k \<in> drops p (run pre s)"
proof (induction ops arbitrary: s)
  case (Cons p ops)
  show ?case
  proof (cases "k \<in> drops p s")
    case True
    then show ?thesis by (intro exI [of _ "[]"] exI [of _ p] exI [of _ ops]) simp
  next
    case False
    with Cons obtain pre q post where "ops = pre @ q # post" "k \<in> drops q (run pre (step p s))" by fastforce
    then show ?thesis by (intro exI [of _ "p # pre"] exI [of _ q] exI [of _ post]) simp
  qed
qed simp

end

end
