(* ===== verification/Retry_Queue.thy ===== *)
theory Retry_Queue
  imports Pyval Spool
begin

text \<open>
  The offline event queue of the HTTP sink (kazenai/retry_queue.py): a SQLite table of pending
  events with leases, and a dead letter table. One call is one transaction under the queue's lock, so
  it is one step here. The clock reading, the size of the database file and \<open>json.dumps\<close> and
  \<open>json.loads\<close> are arguments.
\<close>

record pending_row =
  rq_id :: int
  created_at_ms :: int
  rq_event_id :: "string option"
  rq_org_id :: "string option"
  payload_json :: string
  rq_attempts :: int
  lease_until_ms :: int
  rq_poison :: int

record dead_row =
  moved_at_ms :: int
  dl_event_id :: "string option"
  dl_org_id :: "string option"
  dl_payload_json :: string
  dl_attempts :: int
  dl_reason :: string

record queue_stats =
  st_enqueued :: int
  st_deduped :: int
  st_acked :: int
  st_nacked :: int
  st_poison :: int
  st_disk_full :: int
  st_rejected_tenant :: int

record retry_queue =
  q_org :: "string option"
  max_pending :: int
  max_disk_bytes :: int
  max_attempts :: int
  lease_ttl_ms :: int
  pending_events :: "pending_row list"
  dead_letter :: "dead_row list"
  next_row_id :: int
  q_stats :: queue_stats

record leased_event =
  le_row_id :: int
  le_event :: pyval
  le_attempts :: int
  le_event_id :: "string option"
  le_org_id :: "string option"

definition none_if_empty :: "string \<Rightarrow> string option" where
  "none_if_empty s = (if s = [] then None else Some s)"

definition retry_queue_init :: "string option \<Rightarrow> (string \<Rightarrow> string option) \<Rightarrow> int \<Rightarrow> int \<Rightarrow> int \<Rightarrow> int \<Rightarrow> retry_queue" where
  "retry_queue_init org env mp md ma ttl =
     \<lparr>q_org = none_if_empty (py_strip (or_str (case org of None \<Rightarrow> [] | Some s \<Rightarrow> s) (case env ''KAZENAI_ORG_ID'' of None \<Rightarrow> [] | Some s \<Rightarrow> s))),
      max_pending = mp, max_disk_bytes = md, max_attempts = ma, lease_ttl_ms = ttl,
      pending_events = [], dead_letter = [], next_row_id = 1,
      q_stats = \<lparr>st_enqueued = 0, st_deduped = 0, st_acked = 0, st_nacked = 0, st_poison = 0, st_disk_full = 0,
        st_rejected_tenant = 0\<rparr>\<rparr>"

section \<open>Enqueue\<close>

definition clean_text :: "(string \<times> pyval) list \<Rightarrow> string \<Rightarrow> string option" where
  "clean_text ev k = none_if_empty (py_strip (str_or_empty (kw ev k)))"

definition pending_count :: "retry_queue \<Rightarrow> int" where
  "pending_count q = int (length (filter (\<lambda>r. rq_poison r = 0) (pending_events q)))"

definition dead_letter_count :: "retry_queue \<Rightarrow> int" where
  "dead_letter_count q = int (length (dead_letter q))"

definition deduped :: "retry_queue \<Rightarrow> retry_queue" where
  "deduped q = q\<lparr>q_stats := (q_stats q)\<lparr>st_deduped := st_deduped (q_stats q) + 1\<rparr>\<rparr>"

definition disk_full :: "retry_queue \<Rightarrow> retry_queue" where
  "disk_full q = q\<lparr>q_stats := (q_stats q)\<lparr>st_disk_full := st_disk_full (q_stats q) + 1\<rparr>\<rparr>"

text \<open>\<open>INSERT INTO pending_events\<close> under the unique index on non-empty event ids: \<open>None\<close> is the
  \<open>IntegrityError\<close>.\<close>

definition insert_pending :: "int \<Rightarrow> string option \<Rightarrow> string option \<Rightarrow> string \<Rightarrow> retry_queue \<Rightarrow> retry_queue option" where
  "insert_pending now ev org payload q =
     (if ev \<noteq> None \<and> ev \<noteq> Some [] \<and> ev \<in> rq_event_id ` set (pending_events q) then None
      else Some (q\<lparr>pending_events := pending_events q @ [\<lparr>rq_id = next_row_id q, created_at_ms = now, rq_event_id = ev,
          rq_org_id = org, payload_json = payload, rq_attempts = 0, lease_until_ms = 0, rq_poison = 0\<rparr>],
        next_row_id := next_row_id q + 1\<rparr>))"

definition enqueue ::
  "int \<Rightarrow> int \<Rightarrow> ((string \<times> pyval) list \<Rightarrow> string option) \<Rightarrow> (string \<times> pyval) list \<Rightarrow> retry_queue
    \<Rightarrow> string res \<times> retry_queue" where
  "enqueue now disk_bytes dumps event q =
     (let event_id = clean_text event ''event_id''; org_id = clean_text event ''org_id'' in
      if q_org q \<noteq> None \<and> org_id \<noteq> None \<and> org_id \<noteq> q_org q then
        (Inr ''rejected_tenant'',
         q\<lparr>q_stats := (q_stats q)\<lparr>st_rejected_tenant := st_rejected_tenant (q_stats q) + 1\<rparr>\<rparr>)
      else if disk_bytes \<ge> max_disk_bytes q then (Inr ''rejected_disk'', disk_full q)
      else if pending_count q \<ge> max_pending q then (Inr ''rejected_disk'', disk_full q)
      else if event_id \<noteq> None \<and> event_id \<in> rq_event_id ` set (pending_events q) then (Inr ''duplicate'', deduped q)
      else if event_id \<noteq> None \<and> event_id \<in> dl_event_id ` set (dead_letter q) then (Inr ''duplicate'', deduped q)
      else case dumps event of
             None \<Rightarrow> (Inl PyTypeError, q)
           | Some text \<Rightarrow>
               (case insert_pending now event_id (if org_id = None then q_org q else org_id) text q of
                  None \<Rightarrow> (Inr ''duplicate'', deduped q)
                | Some q' \<Rightarrow> (Inr ''applied'',
                    q'\<lparr>q_stats := (q_stats q')\<lparr>st_enqueued := st_enqueued (q_stats q') + 1\<rparr>\<rparr>)))"

section \<open>Lease, ack, nack\<close>

definition delete_row :: "int \<Rightarrow> retry_queue \<Rightarrow> retry_queue" where
  "delete_row i q = q\<lparr>pending_events := filter (\<lambda>r. rq_id r \<noteq> i) (pending_events q)\<rparr>"

definition update_row :: "int \<Rightarrow> (pending_row \<Rightarrow> pending_row) \<Rightarrow> retry_queue \<Rightarrow> retry_queue" where
  "update_row i f q = q\<lparr>pending_events := map (\<lambda>r. if rq_id r = i then f r else r) (pending_events q)\<rparr>"

definition bury :: "int \<Rightarrow> string \<Rightarrow> pending_row \<Rightarrow> retry_queue \<Rightarrow> retry_queue" where
  "bury now reason r q =
     (let q1 = delete_row (rq_id r) (q\<lparr>dead_letter := dead_letter q @ [\<lparr>moved_at_ms = now, dl_event_id = rq_event_id r,
           dl_org_id = rq_org_id r, dl_payload_json = payload_json r, dl_attempts = rq_attempts r, dl_reason = reason\<rparr>]\<rparr>)
      in q1\<lparr>q_stats := (q_stats q1)\<lparr>st_poison := st_poison (q_stats q1) + 1\<rparr>\<rparr>)"

text \<open>\<open>SELECT ... WHERE poison=0 AND lease_until_ms <= now ORDER BY id LIMIT limit\<close>; SQLite reads a
  negative limit as none.\<close>

definition due_rows :: "int \<Rightarrow> int \<Rightarrow> retry_queue \<Rightarrow> pending_row list" where
  "due_rows now limit q =
     (let rows = sort_key rq_id (filter (\<lambda>r. rq_poison r = 0 \<and> lease_until_ms r \<le> now) (pending_events q))
      in if limit < 0 then rows else take (nat limit) rows)"

fun lease_rows :: "int \<Rightarrow> (string \<Rightarrow> pyval option) \<Rightarrow> pending_row list \<Rightarrow> retry_queue \<Rightarrow> leased_event list \<times> retry_queue" where
  "lease_rows now loads [] q = ([], q)"
| "lease_rows now loads (r # rs) q =
     (case loads (payload_json r) of
        None \<Rightarrow> lease_rows now loads rs (bury now ''json_parse'' r q)
      | Some payload \<Rightarrow>
          (let q1 = update_row (rq_id r) (\<lambda>x. x\<lparr>lease_until_ms := now + lease_ttl_ms q, rq_attempts := rq_attempts x + 1\<rparr>) q;
               ev = \<lparr>le_row_id = rq_id r, le_event = payload, le_attempts = rq_attempts r + 1,
                     le_event_id = (if rq_event_id r = Some [] then None else rq_event_id r),
                     le_org_id = (if rq_org_id r = Some [] then None else rq_org_id r)\<rparr>
           in case lease_rows now loads rs q1 of (evs, q2) \<Rightarrow> (ev # evs, q2)))"

definition lease :: "int \<Rightarrow> (string \<Rightarrow> pyval option) \<Rightarrow> int \<Rightarrow> retry_queue \<Rightarrow> leased_event list \<times> retry_queue" where
  "lease now loads limit q = lease_rows now loads (due_rows now limit q) q"

definition ack :: "int list \<Rightarrow> retry_queue \<Rightarrow> retry_queue" where
  "ack ids q =
     (if ids = [] then q
      else q\<lparr>pending_events := filter (\<lambda>r. rq_id r \<notin> set ids) (pending_events q),
             q_stats := (q_stats q)\<lparr>st_acked := st_acked (q_stats q) + int (length ids)\<rparr>\<rparr>)"

definition nack_one :: "int \<Rightarrow> string \<Rightarrow> int \<Rightarrow> retry_queue \<Rightarrow> retry_queue" where
  "nack_one now reason i q =
     (case find (\<lambda>r. rq_id r = i) (pending_events q) of
        None \<Rightarrow> q
      | Some r \<Rightarrow>
          if rq_attempts r \<ge> max_attempts q then bury now reason r q
          else let q1 = update_row i (\<lambda>x. x\<lparr>lease_until_ms := 0\<rparr>) q
               in q1\<lparr>q_stats := (q_stats q1)\<lparr>st_nacked := st_nacked (q_stats q1) + 1\<rparr>\<rparr>)"

definition nack :: "int \<Rightarrow> string \<Rightarrow> int list \<Rightarrow> retry_queue \<Rightarrow> retry_queue" where
  "nack now reason ids q = fold (nack_one now reason) ids q"

definition drain :: "int \<Rightarrow> (string \<Rightarrow> pyval option) \<Rightarrow> int \<Rightarrow> retry_queue \<Rightarrow> pyval list \<times> retry_queue" where
  "drain now loads limit q =
     (case lease now loads limit q of (evs, q1) \<Rightarrow> (map le_event evs, ack (map le_row_id evs) q1))"

end
