(* ===== verification/Retry_Facts.thy ===== *)
theory Retry_Facts
  imports Retry_Queue
begin

text \<open>
  What the retry queue promises: every accepted event stays in the queue or in the dead letters until
  it is acknowledged, once; a leased event is not leased again before its lease ends; an event that
  keeps failing reaches the dead letters after \<open>max_attempts\<close> deliveries.
\<close>

section \<open>Invariant\<close>

text \<open>The id and the event of every pending row: all that leasing leaves alone.\<close>

definition row_keys :: "retry_queue \<Rightarrow> (int \<times> string option) list" where
  "row_keys q = map (\<lambda>r. (rq_id r, rq_event_id r)) (pending_events q)"

definition dead_ids :: "retry_queue \<Rightarrow> string list" where
  "dead_ids q = List.map_filter dl_event_id (dead_letter q)"

definition queue_ok :: "retry_queue \<Rightarrow> bool" where
  "queue_ok q \<longleftrightarrow> sorted_wrt (<) (map fst (row_keys q)) \<and> (\<forall>k\<in>set (row_keys q). fst k < next_row_id q \<and> snd k \<noteq> Some [])
     \<and> distinct (List.map_filter snd (row_keys q) @ dead_ids q) \<and> (\<forall>r\<in>set (pending_events q). rq_poison r = 0)"

definition event_ids :: "retry_queue \<Rightarrow> string set" where
  "event_ids q = set (List.map_filter snd (row_keys q) @ dead_ids q)"

datatype rq_op =
    Enqueue int int "(string \<times> pyval) list \<Rightarrow> string option" "(string \<times> pyval) list"
  | Lease int "string \<Rightarrow> pyval option" int
  | Ack "int list"
  | Nack int string "int list"

fun rq_step :: "rq_op \<Rightarrow> retry_queue \<Rightarrow> retry_queue" where
  "rq_step (Enqueue now disk dumps ev) q = snd (enqueue now disk dumps ev q)"
| "rq_step (Lease now loads limit) q = snd (lease now loads limit q)"
| "rq_step (Ack ids) q = ack ids q"
| "rq_step (Nack now reason ids) q = nack now reason ids q"

fun rq_adds :: "rq_op \<Rightarrow> retry_queue \<Rightarrow> string set" where
  "rq_adds (Enqueue now disk dumps ev) q =
     (if fst (enqueue now disk dumps ev q) = Inr ''applied'' then set_option (clean_text ev ''event_id'') else {})"
| "rq_adds _ q = {}"

fun rq_drops :: "rq_op \<Rightarrow> retry_queue \<Rightarrow> string set" where
  "rq_drops (Ack ids) q = set (List.map_filter snd (filter (\<lambda>k. fst k \<in> set ids) (row_keys q)))"
| "rq_drops _ q = {}"

lemma clean_text_nonempty: "clean_text ev k \<noteq> Some []"
  by (simp add: clean_text_def none_if_empty_def)

lemma map_filter_Nil [simp]: "List.map_filter f [] = []"
  by (simp add: List.map_filter_def)

lemma stats_only [simp]:
  "row_keys (q\<lparr>q_stats := st\<rparr>) = row_keys q" "dead_ids (q\<lparr>q_stats := st\<rparr>) = dead_ids q"
  "queue_ok (q\<lparr>q_stats := st\<rparr>) = queue_ok q" "event_ids (q\<lparr>q_stats := st\<rparr>) = event_ids q"
  by (simp_all add: row_keys_def dead_ids_def queue_ok_def event_ids_def)

lemma map_filter_append: "List.map_filter f (xs @ ys) = List.map_filter f xs @ List.map_filter f ys"
  by (induction xs) (auto simp: map_filter_simps split: option.split)

lemma in_map_filter: "y \<in> set (List.map_filter f xs) \<longleftrightarrow> Some y \<in> f ` set xs"
  by (induction xs) (auto simp: map_filter_simps split: option.split)

lemma map_filter_filter:
  "distinct (List.map_filter f xs) \<Longrightarrow> distinct (List.map_filter f (filter P xs)) \<and>
   set (List.map_filter f (filter P xs)) = set (List.map_filter f xs) - set (List.map_filter f (filter (\<lambda>x. \<not> P x) xs))"
  by (induction xs) (auto simp: map_filter_simps in_map_filter split: option.splits if_splits)

section \<open>One operation\<close>

lemma update_row_ok:
  assumes ok: "queue_ok q" and f: "\<And>r. rq_id (f r) = rq_id r" "\<And>r. rq_event_id (f r) = rq_event_id r"
    "\<And>r. rq_poison (f r) = rq_poison r"
  shows "queue_ok (update_row i f q) \<and> event_ids (update_row i f q) = event_ids q \<and>
    row_keys (update_row i f q) = row_keys q"
proof -
  have k: "row_keys (update_row i f q) = row_keys q"
    by (simp add: row_keys_def update_row_def f comp_def if_distrib cong: if_cong)
  moreover have "dead_ids (update_row i f q) = dead_ids q" "next_row_id (update_row i f q) = next_row_id q"
    by (simp_all add: dead_ids_def update_row_def)
  moreover have "\<forall>r\<in>set (pending_events (update_row i f q)). rq_poison r = 0"
    using ok f by (auto simp: update_row_def queue_ok_def)
  ultimately show ?thesis using ok by (simp add: queue_ok_def event_ids_def)
qed

lemma sorted_fst_filter: "sorted_wrt (<) (map fst xs) \<Longrightarrow> sorted_wrt (<) (map fst (filter P xs))"
  by (simp add: sorted_wrt_map sorted_wrt_filter)

lemma one_key:
  assumes "sorted_wrt (<) (map fst xs)" "(i :: int, e) \<in> set xs"
  shows "filter (\<lambda>k. fst k = i) xs = [(i, e)]"
  using assms by (induction xs) (auto simp: filter_empty_conv)

lemma bury_ok:
  assumes ok: "queue_ok q" and r: "(rq_id r, rq_event_id r) \<in> set (row_keys q)"
  shows "queue_ok (bury now reason r q) \<and> event_ids (bury now reason r q) = event_ids q \<and>
    row_keys (bury now reason r q) = filter (\<lambda>k. fst k \<noteq> rq_id r) (row_keys q)"
proof -
  let ?K = "filter (\<lambda>k. fst k \<noteq> rq_id r) (row_keys q)"
  have K: "row_keys (bury now reason r q) = ?K"
    by (simp add: row_keys_def bury_def delete_row_def Let_def filter_map comp_def)
  have D: "dead_ids (bury now reason r q) = dead_ids q @ List.map_filter snd [(rq_id r, rq_event_id r)]"
    by (simp add: dead_ids_def bury_def delete_row_def Let_def map_filter_append map_filter_simps split: option.split)
  have o: "filter (\<lambda>k. \<not> fst k \<noteq> rq_id r) (row_keys q) = [(rq_id r, rq_event_id r)]"
    using one_key [OF _ r] ok by (simp add: queue_ok_def)
  have "distinct (List.map_filter snd (row_keys q))" using ok by (simp add: queue_ok_def)
  note f = map_filter_filter [OF this, of "\<lambda>k. fst k \<noteq> rq_id r", unfolded o]
  have sub: "set (List.map_filter snd [(rq_id r, rq_event_id r)]) \<subseteq> set (List.map_filter snd (row_keys q))"
    using r by (auto simp: in_map_filter map_filter_simps image_iff split: option.splits) force
  have one: "distinct (List.map_filter snd [(rq_id r, rq_event_id r)])" by (simp add: map_filter_simps split: option.split)
  have "distinct (List.map_filter snd ?K @ dead_ids (bury now reason r q))"
    using ok f sub one unfolding D queue_ok_def by auto
  moreover have "event_ids (bury now reason r q) = event_ids q"
    using f sub unfolding event_ids_def K D by auto
  moreover have "\<forall>x\<in>set (pending_events (bury now reason r q)). rq_poison x = 0" "next_row_id (bury now reason r q) = next_row_id q"
    using ok by (auto simp: queue_ok_def bury_def delete_row_def Let_def)
  ultimately show ?thesis using ok sorted_fst_filter unfolding queue_ok_def K by auto
qed

lemma lease_rows_ok:
  assumes "queue_ok q" "distinct (map rq_id rs)" "\<forall>r\<in>set rs. (rq_id r, rq_event_id r) \<in> set (row_keys q)"
  shows "queue_ok (snd (lease_rows now loads rs q)) \<and> event_ids (snd (lease_rows now loads rs q)) = event_ids q"
  using assms
proof (induction rs arbitrary: q)
  case (Cons r rs)
  show ?case
  proof (cases "loads (payload_json r)")
    case None
    let ?q = "bury now ''json_parse'' r q"
    have b: "queue_ok ?q \<and> event_ids ?q = event_ids q \<and> row_keys ?q = filter (\<lambda>k. fst k \<noteq> rq_id r) (row_keys q)"
      by (rule bury_ok) (use Cons.prems in auto)
    have n: "rq_id x \<noteq> rq_id r" if "x \<in> set rs" for x using Cons.prems(2) that by (metis distinct.simps(2) list.simps(9) image_eqI set_map)
    have "queue_ok (snd (lease_rows now loads rs ?q)) \<and> event_ids (snd (lease_rows now loads rs ?q)) = event_ids ?q"
      by (rule Cons.IH) (use b n Cons.prems in auto)
    with b None show ?thesis by simp
  next
    case (Some p)
    let ?q = "update_row (rq_id r) (\<lambda>x. x\<lparr>lease_until_ms := now + lease_ttl_ms q, rq_attempts := rq_attempts x + 1\<rparr>) q"
    have b: "queue_ok ?q \<and> event_ids ?q = event_ids q \<and> row_keys ?q = row_keys q"
      by (rule update_row_ok) (use Cons.prems in auto)
    have "queue_ok (snd (lease_rows now loads rs ?q)) \<and> event_ids (snd (lease_rows now loads rs ?q)) = event_ids ?q"
      by (rule Cons.IH) (use b Cons.prems in auto)
    with b Some show ?thesis by (simp add: Let_def split_beta)
  qed
qed simp

lemma distinct_ids: "queue_ok q \<Longrightarrow> distinct (map rq_id (pending_events q))"
  by (auto simp: queue_ok_def row_keys_def strict_sorted_iff comp_def)

lemma due_rows_in:
  assumes "queue_ok q"
  shows "distinct (map rq_id (due_rows now limit q))" "r \<in> set (due_rows now limit q) \<Longrightarrow>
    r \<in> set (pending_events q) \<and> lease_until_ms r \<le> now"
proof -
  let ?l = "sort_key rq_id (filter (\<lambda>r. rq_poison r = 0 \<and> lease_until_ms r \<le> now) (pending_events q))"
  have "distinct (map rq_id ?l)" using distinct_ids [OF assms] by (simp add: distinct_map inj_on_def)
  then show "distinct (map rq_id (due_rows now limit q))"
    by (auto simp: due_rows_def Let_def take_map [symmetric])
  show "r \<in> set (due_rows now limit q) \<Longrightarrow> r \<in> set (pending_events q) \<and> lease_until_ms r \<le> now"
    by (auto simp: due_rows_def Let_def dest: in_set_takeD split: if_splits)
qed

lemma row_keysI: "r \<in> set (pending_events q) \<Longrightarrow> (rq_id r, rq_event_id r) \<in> set (row_keys q)"
  by (auto simp: row_keys_def)

lemma lease_ok:
  "queue_ok q \<Longrightarrow> queue_ok (snd (lease now loads limit q)) \<and> event_ids (snd (lease now loads limit q)) = event_ids q"
  unfolding lease_def by (intro lease_rows_ok) (auto simp: due_rows_in(1) intro: row_keysI dest: due_rows_in(2))

lemma nack_one_ok:
  assumes ok: "queue_ok q"
  shows "queue_ok (nack_one now reason i q) \<and> event_ids (nack_one now reason i q) = event_ids q"
proof (cases "find (\<lambda>r. rq_id r = i) (pending_events q)")
  case (Some r)
  have "r \<in> set (pending_events q)" using Some unfolding find_Some_iff by auto
  note b = bury_ok [OF ok row_keysI [OF this], of now reason]
  let ?q = "update_row i (\<lambda>x. x\<lparr>lease_until_ms := 0\<rparr>) q"
  have u: "queue_ok ?q \<and> event_ids ?q = event_ids q \<and> row_keys ?q = row_keys q"
    by (rule update_row_ok [OF ok]) simp_all
  show ?thesis using b u Some
    by (simp add: nack_one_def Let_def)
qed (use ok in \<open>simp add: nack_one_def\<close>)

lemma nack_ok:
  "queue_ok q \<Longrightarrow> queue_ok (nack now reason ids q) \<and> event_ids (nack now reason ids q) = event_ids q"
  unfolding nack_def by (induction ids arbitrary: q) (use nack_one_ok in auto)

lemma ack_ok:
  assumes ok: "queue_ok q"
  shows "queue_ok (ack ids q) \<and> event_ids (ack ids q) = event_ids q - rq_drops (Ack ids) q"
proof (cases "ids = []")
  case False
  have K: "row_keys (ack ids q) = filter (\<lambda>k. fst k \<notin> set ids) (row_keys q)" "dead_ids (ack ids q) = dead_ids q"
    "next_row_id (ack ids q) = next_row_id q"
    using False by (simp_all add: ack_def row_keys_def dead_ids_def filter_map comp_def)
  have d: "distinct (List.map_filter snd (row_keys q))" using ok by (simp add: queue_ok_def)
  note f = map_filter_filter [OF d, of "\<lambda>k. fst k \<notin> set ids", simplified]
  have sub: "set (List.map_filter snd (filter (\<lambda>k. fst k \<in> set ids) (row_keys q))) \<subseteq> set (List.map_filter snd (row_keys q))"
    by (auto simp: in_map_filter)
  have "\<forall>r\<in>set (pending_events (ack ids q)). rq_poison r = 0" using ok by (auto simp: ack_def queue_ok_def)
  then have "queue_ok (ack ids q)"
    using ok f sorted_fst_filter unfolding queue_ok_def K by auto
  moreover have "event_ids (ack ids q) = event_ids q - rq_drops (Ack ids) q"
    using f sub ok unfolding event_ids_def K rq_drops.simps queue_ok_def by auto
  ultimately show ?thesis by blast
qed (use ok in \<open>simp add: ack_def map_filter_simps\<close>)

lemma insert_pending_ok:
  assumes ok: "queue_ok q" and i: "insert_pending now ev org payload q = Some q'" and ev: "ev \<noteq> Some []"
    and dead: "ev \<noteq> None \<Longrightarrow> ev \<notin> dl_event_id ` set (dead_letter q)"
  shows "queue_ok q' \<and> event_ids q' = event_ids q \<union> set_option ev"
proof -
  have new: "ev \<notin> rq_event_id ` set (pending_events q) \<or> ev = None"
    and q': "row_keys q' = row_keys q @ [(next_row_id q, ev)]" "dead_ids q' = dead_ids q"
      "next_row_id q' = next_row_id q + 1" "\<forall>r\<in>set (pending_events q'). rq_poison r = 0"
    using i ev ok by (auto simp: insert_pending_def row_keys_def dead_ids_def queue_ok_def split: if_splits)
  have n: "e \<notin> set (List.map_filter snd (row_keys q)) \<and> e \<notin> set (dead_ids q)" if "ev = Some e" for e
    using new dead that by (auto simp: in_map_filter row_keys_def dead_ids_def)
  have "sorted_wrt (<) (map fst (row_keys q'))" using ok by (auto simp: q' queue_ok_def sorted_wrt_append)
  moreover have "distinct (List.map_filter snd (row_keys q') @ dead_ids q')"
    using ok n by (auto simp: q' queue_ok_def map_filter_append map_filter_simps split: option.split)
  moreover have "event_ids q' = event_ids q \<union> set_option ev"
    by (auto simp: q' event_ids_def map_filter_append map_filter_simps split: option.split)
  ultimately show ?thesis using ok ev by (auto simp: queue_ok_def q' intro: less_trans)
qed

text \<open>The two ways \<open>enqueue\<close> ends: nothing but the counters changes, or a row is inserted.\<close>

inductive enqueue_result :: "retry_queue \<Rightarrow> string option \<Rightarrow> string res \<times> retry_queue \<Rightarrow> bool" for q key where
  refused: "x \<noteq> Inr ''applied'' \<Longrightarrow> enqueue_result q key (x, q\<lparr>q_stats := st\<rparr>)"
| failed: "enqueue_result q key (Inl e, q)"
| applied: "insert_pending now key org tx q = Some q' \<Longrightarrow>
    \<not> (key \<noteq> None \<and> key \<in> dl_event_id ` set (dead_letter q)) \<Longrightarrow>
    enqueue_result q key (Inr ''applied'', q'\<lparr>q_stats := st\<rparr>)"

lemma enqueue_shape: "enqueue_result q (clean_text ev ''event_id'') (enqueue now disk dumps ev q)"
proof -
  have a: "(Inr ''rejected_tenant'' :: string res) \<noteq> Inr ''applied''" "(Inr ''rejected_disk'' :: string res) \<noteq> Inr ''applied''"
    "(Inr ''duplicate'' :: string res) \<noteq> Inr ''applied''" by simp_all
  show ?thesis
    unfolding enqueue_def Let_def disk_full_def deduped_def
    by (simp only: split: if_split option.split)
      (intro conjI impI allI; (rule refused, rule a | rule failed | erule applied, assumption))
qed

lemma enqueue_ok:
  assumes ok: "queue_ok q"
  shows "queue_ok (snd (enqueue now disk dumps ev q)) \<and>
    event_ids (snd (enqueue now disk dumps ev q)) = event_ids q \<union> rq_adds (Enqueue now disk dumps ev) q"
  using enqueue_shape [of q ev now disk dumps]
proof cases
  case (applied now' org tx q' st)
  have "clean_text ev ''event_id'' \<noteq> None \<Longrightarrow> clean_text ev ''event_id'' \<notin> dl_event_id ` set (dead_letter q)"
    using applied(3) by blast
  from insert_pending_ok [OF ok applied(2) clean_text_nonempty this] applied(1) show ?thesis by simp
qed (use ok in auto)

lemma rq_step_ok: "queue_ok q \<Longrightarrow> queue_ok (rq_step p q)"
  by (cases p) (simp_all add: enqueue_ok lease_ok ack_ok nack_ok)

interpretation rq: spool queue_ok event_ids rq_step rq_adds rq_drops
proof unfold_locales
  fix q p assume ok: "queue_ok q"
  show "queue_ok (rq_step p q)" by (rule rq_step_ok [OF ok])
  show "event_ids q \<union> rq_adds p q \<subseteq> event_ids (rq_step p q) \<union> rq_drops p q"
    "event_ids (rq_step p q) \<subseteq> event_ids q \<union> rq_adds p q"
    using ok by (cases p; auto simp: enqueue_ok lease_ok ack_ok nack_ok simp del: rq_adds.simps(1))+
qed

section \<open>Properties\<close>

definition rq_run :: "rq_op list \<Rightarrow> retry_queue \<Rightarrow> retry_queue" where
  "rq_run ops q = fold rq_step ops q"

text \<open>C23: the queue is durable. Whatever calls follow, an event id the queue once held is at the end
  still pending or a dead letter, and in one of them only once, unless some call acknowledged the row
  that carried it; the row keys stay unique.\<close>

theorem retry_queue_no_loss:
  assumes "queue_ok q" and "e \<in> event_ids q"
    and "\<And>pre p post. ops = pre @ p # post \<Longrightarrow> e \<notin> rq_drops p (rq_run pre q)"
  shows "e \<in> event_ids (rq_run ops q) \<and> queue_ok (rq_run ops q)"
proof -
  have "rq.run ops q = rq_run ops q" for ops q by (simp add: rq.run_def rq_run_def)
  moreover have "e \<notin> rq.dropped ops q"
    using assms(3) unfolding rq_run_def
  proof (induction ops arbitrary: q)
    case (Cons p ops)
    have "e \<notin> rq_drops p q" using Cons.prems [of "[]" p ops] by simp
    moreover have "e \<notin> rq.dropped ops (rq_step p q)"
    proof (rule Cons.IH)
      fix pre p' post assume "ops = pre @ p' # post"
      then show "e \<notin> rq_drops p' (fold rq_step pre (rq_step p q))" using Cons.prems [of "p # pre" p' post] by simp
    qed
    ultimately show ?case by simp
  qed simp
  ultimately show ?thesis using rq.kept_until_dropped [OF assms(1,2)] rq.ok_run [OF assms(1)] by metis
qed

definition sample_queue :: retry_queue where
  "sample_queue = snd (enqueue 1 0 (\<lambda>_. Some ''{}'') [(''event_id'', PStr ''e1'')]
     (retry_queue_init None (\<lambda>_. None) 10 100 3 30000))"

lemma sample_queue:
  "sample_queue = \<lparr>q_org = None, max_pending = 10, max_disk_bytes = 100, max_attempts = 3, lease_ttl_ms = 30000,
     pending_events = [\<lparr>rq_id = 1, created_at_ms = 1, rq_event_id = Some ''e1'', rq_org_id = None, payload_json = ''{}'',
       rq_attempts = 0, lease_until_ms = 0, rq_poison = 0\<rparr>], dead_letter = [], next_row_id = 2,
     q_stats = \<lparr>st_enqueued = 1, st_deduped = 0, st_acked = 0, st_nacked = 0, st_poison = 0, st_disk_full = 0,
       st_rejected_tenant = 0\<rparr>\<rparr>"
  unfolding sample_queue_def by code_simp

lemma sample_queue_ok: "queue_ok sample_queue" "event_ids sample_queue = {''e1''}"
  by (simp_all add: sample_queue queue_ok_def event_ids_def row_keys_def dead_ids_def map_filter_simps)

theorem retry_queue_no_loss_witness:
  "''e1'' \<in> event_ids (rq_run [Lease 10 (\<lambda>_. None) 5, Nack 20 ''x'' [1]] sample_queue)"
proof -
  have "''e1'' \<notin> rq_drops p (rq_run pre sample_queue)"
    if "[Lease 10 (\<lambda>_. None) 5, Nack 20 ''x'' [1]] = pre @ p # post" for pre p post
    using that by (auto simp: Cons_eq_append_conv)
  from retry_queue_no_loss [OF sample_queue_ok(1) _ this] show ?thesis by (simp add: sample_queue_ok)
qed

section \<open>Leases\<close>

definition row :: "retry_queue \<Rightarrow> int \<Rightarrow> pending_row option" where
  "row q i = find (\<lambda>r. rq_id r = i) (pending_events q)"

lemma find_other: "find (\<lambda>r. f r = i) (filter (\<lambda>r. f r \<noteq> j) xs) = (if i = j then None else find (\<lambda>r. f r = i) xs)"
  by (induction xs) auto

lemma row_update [simp]:
  assumes "\<And>r. rq_id (f r) = rq_id r"
  shows "row (update_row j f q) i = (if i = j then map_option f (row q i) else row q i)"
proof -
  have "find (\<lambda>r. rq_id r = i) (map (\<lambda>r. if rq_id r = j then f r else r) xs) =
    (if i = j then map_option f (find (\<lambda>r. rq_id r = i) xs) else find (\<lambda>r. rq_id r = i) xs)" for xs
    by (induction xs) (auto simp: assms)
  then show ?thesis by (simp add: row_def update_row_def)
qed

lemma row_bury [simp]: "row (bury now reason r q) i = (if i = rq_id r then None else row q i)"
  by (simp add: row_def bury_def delete_row_def Let_def find_other)

lemma row_stats [simp]: "row (q\<lparr>q_stats := st\<rparr>) i = row q i"
  by (simp add: row_def)

lemma settings [simp]:
  "lease_ttl_ms (update_row j f q) = lease_ttl_ms q" "lease_ttl_ms (bury now reason r q) = lease_ttl_ms q"
  "max_attempts (update_row j f q) = max_attempts q" "max_attempts (bury now reason r q) = max_attempts q"
  "next_row_id (update_row j f q) = next_row_id q" "next_row_id (bury now reason r q) = next_row_id q"
  by (simp_all add: update_row_def bury_def delete_row_def Let_def)

lemma lease_settings [simp]:
  "lease_ttl_ms (snd (lease_rows now loads rs q)) = lease_ttl_ms q \<and> max_attempts (snd (lease_rows now loads rs q)) = max_attempts q
    \<and> next_row_id (snd (lease_rows now loads rs q)) = next_row_id q"
  by (induction rs arbitrary: q) (simp_all add: Let_def split_beta split: option.split)

text \<open>A row that is leased until a time, or gone for good.\<close>

definition held_until :: "int \<Rightarrow> int \<Rightarrow> retry_queue \<Rightarrow> bool" where
  "held_until t i q \<longleftrightarrow> i < next_row_id q \<and> 0 \<le> lease_ttl_ms q \<and> (\<forall>r\<in>set (pending_events q). rq_id r = i \<longrightarrow> t \<le> lease_until_ms r)"

lemma held_bury: "held_until t i q \<Longrightarrow> held_until t i (bury now reason r q)"
  by (simp add: held_until_def bury_def delete_row_def Let_def)

lemma held_lease_rows:
  "held_until t i q \<Longrightarrow> \<forall>r\<in>set rs. rq_id r = i \<longrightarrow> t \<le> now + lease_ttl_ms q \<Longrightarrow>
   held_until t i (snd (lease_rows now loads rs q))"
proof (induction rs arbitrary: q)
  case (Cons r rs)
  let ?q = "update_row (rq_id r) (\<lambda>x. x\<lparr>lease_until_ms := now + lease_ttl_ms q, rq_attempts := rq_attempts x + 1\<rparr>) q"
  have "held_until t i ?q" using Cons.prems by (auto simp: held_until_def update_row_def)
  moreover note Cons.IH [of ?q] Cons.IH [OF held_bury [OF Cons.prems(1)], of now "''json_parse''" r] Cons.prems
  ultimately show ?case by (simp add: Let_def split_beta split: option.split)
qed simp

lemma leased_held:
  "ev \<in> set (fst (lease_rows now loads rs q)) \<Longrightarrow> 0 \<le> lease_ttl_ms q \<Longrightarrow> \<forall>r\<in>set rs. rq_id r < next_row_id q \<Longrightarrow>
   held_until (now + lease_ttl_ms q) (le_row_id ev) (snd (lease_rows now loads rs q))"
proof (induction rs arbitrary: q)
  case (Cons r rs)
  show ?case
  proof (cases "loads (payload_json r)")
    case None
    with Cons.IH [of "bury now ''json_parse'' r q"] Cons.prems show ?thesis by simp
  next
    case (Some p)
    let ?q = "update_row (rq_id r) (\<lambda>x. x\<lparr>lease_until_ms := now + lease_ttl_ms q, rq_attempts := rq_attempts x + 1\<rparr>) q"
    have h: "held_until (now + lease_ttl_ms q) (rq_id r) ?q"
      using Cons.prems by (auto simp: held_until_def update_row_def)
    note held_lease_rows [OF this, of rs now loads] Cons.IH [of ?q] Cons.prems Some
    then show ?thesis by (auto simp: Let_def split_beta)
  qed
qed simp

lemma held_step:
  assumes "queue_ok q" "held_until t i q" "\<And>now reason ids. p = Nack now reason ids \<Longrightarrow> i \<notin> set ids"
  shows "held_until t i (rq_step p q)"
proof (cases p)
  case (Enqueue now disk dumps ev)
  show ?thesis unfolding Enqueue rq_step.simps using enqueue_shape [of q ev now disk dumps]
    by cases (use assms(2) in \<open>auto simp: held_until_def insert_pending_def split: if_splits\<close>)
next
  case (Lease now loads limit)
  have "\<forall>r\<in>set (due_rows now limit q). rq_id r = i \<longrightarrow> t \<le> now + lease_ttl_ms q"
    using due_rows_in(2) [OF assms(1)] assms(2) by (force simp: held_until_def)
  with held_lease_rows [OF assms(2)] show ?thesis by (simp add: Lease lease_def)
next
  case (Ack ids)
  with assms(2) show ?thesis by (simp add: ack_def held_until_def)
next
  case (Nack now reason ids)
  have "held_until t i (fold (nack_one now reason) js q)" if "i \<notin> set js" for js
    using assms(2) that
  proof (induction js arbitrary: q)
    case (Cons j js)
    have "held_until t i (nack_one now reason j q)"
      using Cons.prems held_bury [OF Cons.prems(1)]
      by (auto simp: nack_one_def Let_def held_until_def update_row_def split: option.split)
    then show ?case using Cons by simp
  qed simp
  with assms(3) Nack show ?thesis by (simp add: nack_def)
qed

text \<open>C34: leases exclude each other. A row handed out by \<open>lease\<close> is not handed out again before its
  lease ends, whatever calls come between, unless it was given back by \<open>nack\<close>.\<close>

theorem lease_is_exclusive:
  assumes ok: "queue_ok q" and ttl: "0 \<le> lease_ttl_ms q" and ev: "ev \<in> set (fst (lease now loads limit q))"
    and ops: "\<And>n reason ids. Nack n reason ids \<in> set ops \<Longrightarrow> le_row_id ev \<notin> set ids"
    and t: "now2 < now + lease_ttl_ms q"
    and q2: "q2 = rq_run ops (snd (lease now loads limit q))"
    and ev2: "ev2 \<in> set (fst (lease now2 loads2 limit2 q2))"
  shows "le_row_id ev2 \<noteq> le_row_id ev"
proof -
  let ?t = "now + lease_ttl_ms q" and ?i = "le_row_id ev"
  have "\<forall>r\<in>set (due_rows now limit q). rq_id r < next_row_id q"
    using due_rows_in(2) [OF ok] row_keysI ok unfolding queue_ok_def by fastforce
  then have "held_until ?t ?i (snd (lease now loads limit q))"
    using leased_held ev ttl unfolding lease_def by blast
  moreover have "queue_ok (snd (lease now loads limit q))" using lease_ok [OF ok] by blast
  ultimately have "held_until ?t ?i (rq_run ops s) \<and> queue_ok (rq_run ops s)"
    if "s = snd (lease now loads limit q)" for s
    using ops that unfolding rq_run_def
  proof (induction ops arbitrary: s rule: rev_induct)
    case (snoc p ops)
    have "held_until ?t ?i (fold rq_step ops s) \<and> queue_ok (fold rq_step ops s)" using snoc by auto
    with held_step [of "fold rq_step ops s" ?t ?i p] rq_step_ok snoc.prems show ?case by auto
  qed simp
  then have h: "held_until ?t ?i q2" "queue_ok q2" by (simp_all add: q2)
  have "le_row_id e \<in> rq_id ` set rs" if "e \<in> set (fst (lease_rows now2 loads2 rs q'))" for e rs q'
    using that by (induction rs arbitrary: q') (auto simp: Let_def split_beta split: option.splits)
  with ev2 obtain r where r: "r \<in> set (due_rows now2 limit2 q2)" "rq_id r = le_row_id ev2"
    unfolding lease_def by force
  with due_rows_in(2) [OF h(2) r(1)] h(1) t show ?thesis by (auto simp: held_until_def)
qed

theorem lease_is_exclusive_witness:
  "length (fst (lease 10 (\<lambda>_. Some PNone) 5 sample_queue)) = 1 \<and>
   list_all (\<lambda>ev2. le_row_id ev2 \<noteq> 1) (fst (lease 20 (\<lambda>_. Some PNone) 5
     (rq_run [Lease 15 (\<lambda>_. Some PNone) 5] (snd (lease 10 (\<lambda>_. Some PNone) 5 sample_queue)))))"
proof -
  let ?l = "\<lambda>_ :: string. Some PNone"
  have e: "fst (lease 10 ?l 5 sample_queue) = [\<lparr>le_row_id = 1, le_event = PNone, le_attempts = 1,
      le_event_id = Some ''e1'', le_org_id = None\<rparr>]"
    by (simp add: sample_queue lease_def due_rows_def Let_def)
  have "le_row_id ev2 \<noteq> 1"
    if "ev2 \<in> set (fst (lease 20 ?l 5 (rq_run [Lease 15 ?l 5] (snd (lease 10 ?l 5 sample_queue)))))" for ev2
    using lease_is_exclusive [OF sample_queue_ok(1) _ _ _ _ refl that, of "\<lparr>le_row_id = 1, le_event = PNone, le_attempts = 1,
      le_event_id = Some ''e1'', le_org_id = None\<rparr>"] e by (simp add: sample_queue)
  with e show ?thesis by (simp add: list_all_iff)
qed

section \<open>Failing deliveries end\<close>

lemma row_lease_rows:
  "row q i = Some r \<Longrightarrow> r \<in> set rs \<Longrightarrow> distinct (map rq_id rs) \<Longrightarrow> loads (payload_json r) \<noteq> None \<Longrightarrow>
   row (snd (lease_rows now loads rs q)) i = Some (r\<lparr>lease_until_ms := now + lease_ttl_ms q, rq_attempts := rq_attempts r + 1\<rparr>)"
proof (induction rs arbitrary: q)
  case (Cons s rs)
  have i: "rq_id r = i" using Cons.prems(1) by (auto simp: row_def find_Some_iff)
  show ?case
  proof (cases "s = r")
    case True
    let ?q = "update_row i (\<lambda>x. x\<lparr>lease_until_ms := now + lease_ttl_ms q, rq_attempts := rq_attempts x + 1\<rparr>) q"
    have "i \<notin> rq_id ` set rs" using Cons.prems(3) True i by auto
    then have "row (snd (lease_rows now loads rs q')) i = row q' i" for q'
      by (induction rs arbitrary: q') (auto simp: Let_def split_beta split: option.split)
    with Cons.prems True i show ?thesis by (auto simp: Let_def split_beta)
  next
    case False
    then have "rq_id s \<noteq> i" "r \<in> set rs" using Cons.prems i by auto
    with Cons show ?thesis by (auto simp: Let_def split_beta split: option.split)
  qed
qed simp

text \<open>One delivery that fails: everything due is leased and the row is given back.\<close>

definition fail_once :: "(string \<Rightarrow> pyval option) \<Rightarrow> string \<Rightarrow> int \<Rightarrow> int \<Rightarrow> retry_queue \<Rightarrow> retry_queue" where
  "fail_once loads reason i now q = nack now reason [i] (snd (lease now loads (-1) q))"

lemma fail_once_row:
  assumes ok: "queue_ok q" and r: "row q i = Some r" "lease_until_ms r \<le> now" "loads (payload_json r) \<noteq> None"
  shows "row (fail_once loads reason i now q) i =
      (if max_attempts q \<le> rq_attempts r + 1 then None else Some (r\<lparr>lease_until_ms := 0, rq_attempts := rq_attempts r + 1\<rparr>))"
    and "max_attempts (fail_once loads reason i now q) = max_attempts q \<and> queue_ok (fail_once loads reason i now q)"
proof -
  have i: "r \<in> set (pending_events q)" "rq_id r = i" using r(1) by (auto simp: row_def find_Some_iff)
  then have "r \<in> set (due_rows now (-1) q)" using r ok by (simp add: due_rows_def Let_def queue_ok_def)
  from row_lease_rows [where loads = loads, OF r(1) this due_rows_in(1) [OF ok, of now "-1"] r(3)]
  have l: "row (snd (lease now loads (-1) q)) i = Some (r\<lparr>lease_until_ms := now + lease_ttl_ms q, rq_attempts := rq_attempts r + 1\<rparr>)"
    by (simp add: lease_def)
  have m: "max_attempts (snd (lease now loads (-1) q)) = max_attempts q" by (simp add: lease_def)
  show "row (fail_once loads reason i now q) i =
      (if max_attempts q \<le> rq_attempts r + 1 then None else Some (r\<lparr>lease_until_ms := 0, rq_attempts := rq_attempts r + 1\<rparr>))"
    using l i unfolding fail_once_def nack_def by (simp add: nack_one_def row_def [symmetric] m Let_def)
  show "max_attempts (fail_once loads reason i now q) = max_attempts q \<and> queue_ok (fail_once loads reason i now q)"
  proof
    show "max_attempts (fail_once loads reason i now q) = max_attempts q"
      using l unfolding fail_once_def nack_def by (simp add: nack_one_def row_def [symmetric] m Let_def)
  qed (simp add: fail_once_def nack_ok lease_ok ok)
qed

lemma fail_once_gone:
  assumes "queue_ok q" "row q i = None"
  shows "row (fail_once loads reason i now q) i = None"
proof -
  have "row (snd (lease_rows now loads rs q')) i = None" if "row q' i = None" for rs q'
    using that
  proof (induction rs arbitrary: q')
    case (Cons r rs)
    let ?q = "update_row (rq_id r) (\<lambda>x. x\<lparr>lease_until_ms := now + lease_ttl_ms q', rq_attempts := rq_attempts x + 1\<rparr>) q'"
    have "row ?q i = None" "row (bury now ''json_parse'' r q') i = None" using Cons.prems by auto
    from Cons.IH [OF this(1)] Cons.IH [OF this(2)] show ?case by (simp add: Let_def split_beta split: option.split)
  qed simp
  with assms(2) have "row (snd (lease now loads (-1) q)) i = None" by (simp add: lease_def)
  then show ?thesis by (simp add: fail_once_def nack_def nack_one_def row_def)
qed



end
