(* ===== verification/Stream_Attempt.thy ===== *)
theory Stream_Attempt
  imports Request_Pricing Enforcement
begin

text \<open>
  One provider stream attempt, from its hold to its single settlement: kazenai/streaming/lifecycle.py,
  the settlement vocabulary of kazenai/lifecycle_transitions.py, kazenai/provider_errors.py and the
  post-call price \<open>_postcall_cost_usd\<close> of kazenai/monitor.py. Floats are exact rationals. The FinOps
  callbacks are arguments: what they return, whether they raise, whether they are interrupted.
\<close>

section \<open>Settlement vocabulary\<close>

definition known_reservation_states :: "string list" where
  "known_reservation_states = [''reserved'', ''in_flight'', ''settled'', ''cancelled_before_call'', ''pending_reconciliation'']"

definition settle_event_suffix :: "(string \<times> string) list" where
  "settle_event_suffix = [(''provider_started'', ''started''), (''usage_known'', ''usage''), (''outcome_unknown'', ''unknown''),
     (''cancel_before_call'', ''cancelled''), (''replay_pending'', ''replay'')]"

record attempt_identities =
  operation_id :: string
  ai_call_id :: string
  ai_attempt :: int
  attempt_id :: string
  idempotency_key :: string

text \<open>The three fresh ids are what \<open>new_id()\<close> would return at its three calls.\<close>

definition create_attempt_identities ::
  "string \<Rightarrow> string \<Rightarrow> string \<Rightarrow> string option \<Rightarrow> string option \<Rightarrow> int \<Rightarrow> string option \<Rightarrow> string option \<Rightarrow> attempt_identities" where
  "create_attempt_identities n1 n2 n3 op cid att aid idem =
     (let clean = (\<lambda>x. py_strip (case x of None \<Rightarrow> [] | Some s \<Rightarrow> s));
          op' = or_str (clean op) (''op_'' @ n1);
          cid' = or_str (clean cid) (''call_'' @ n2);
          att' = max 1 (if att = 0 then 1 else att);
          aid' = or_str (clean aid) (cid' @ '':attempt:'' @ int_str att');
          idem' = or_str (clean idem) (''reserve:'' @ cid' @ '':'' @ int_str att' @ '':'' @ n3)
      in \<lparr>operation_id = op', ai_call_id = cid', ai_attempt = att', attempt_id = aid', idempotency_key = idem'\<rparr>)"

definition settle_idempotency_key :: "string \<Rightarrow> string \<Rightarrow> string res" where
  "settle_idempotency_key reservation_id event =
     (case dget settle_event_suffix event of
        None \<Rightarrow> Inl PyValueError
      | Some sfx \<Rightarrow> Inr (''settle:'' @ reservation_id @ '':'' @ sfx))"

definition build_settle_payload ::
  "string \<Rightarrow> string \<Rightarrow> int \<Rightarrow> string \<Rightarrow> string \<Rightarrow> int option \<Rightarrow> string \<Rightarrow> string option \<Rightarrow> string option
    \<Rightarrow> (string \<times> pyval) list \<Rightarrow> (string \<times> pyval) list res" where
  "build_settle_payload reservation_id cid att org event actual version idem capability evidence =
     bnd (case idem of Some k \<Rightarrow> (if k = [] then settle_idempotency_key reservation_id event else Inr k)
          | None \<Rightarrow> settle_idempotency_key reservation_id event) (\<lambda>key.
     let payload = [(''lifecycle_version'', PStr version), (''reservation_id'', PStr reservation_id), (''call_id'', PStr cid),
           (''attempt'', PInt (max 1 att)), (''idempotency_key'', PStr key), (''event'', PStr event), (''org_id'', PStr org)];
         payload1 = (case capability of None \<Rightarrow> payload
           | Some c \<Rightarrow> if c = [] then payload else dset ''settlement_capability'' (PStr c) payload)
     in if event = ''usage_known''
        then (case actual of None \<Rightarrow> Inl PyValueError
              | Some a \<Rightarrow>
                  let payload2 = dset ''actual_usd_micros'' (PInt a) payload1
                  in Inr (if evidence = [] then payload2 else dset ''usage_evidence'' (PDict evidence) payload2))
        else Inr payload1)"

definition classify_settlement_delivery :: "bool \<Rightarrow> bool \<Rightarrow> bool \<Rightarrow> string" where
  "classify_settlement_delivery local_finalized financial_ack authoritative_usage =
     (if \<not> local_finalized then ''open''
      else if financial_ack \<and> authoritative_usage then ''settled''
      else if financial_ack \<and> \<not> authoritative_usage then ''pending_usage''
      else if authoritative_usage \<and> \<not> financial_ack then ''exact_usage_pending_settlement''
      else ''pending_reconciliation'')"

definition eq_int :: "pyval \<Rightarrow> int \<Rightarrow> bool res" where
  "eq_int v i = (case py_int v of Inr j \<Rightarrow> Inr (j = i) | Inl PyOverflowError \<Rightarrow> Inl PyOverflowError | Inl _ \<Rightarrow> Inr False)"

definition settlement_evidence_matches :: "pyval \<Rightarrow> string \<Rightarrow> int \<Rightarrow> string \<Rightarrow> int option \<Rightarrow> bool res" where
  "settlement_evidence_matches reservation cid att rid actual =
     (if str_or_empty (field reservation ''reservation_id'') \<noteq> rid then Inr False
      else if str_or_empty (field reservation ''call_id'') \<noteq> cid then Inr False
      else bnd (eq_int (or_val (field reservation ''attempt'') (PInt 0)) att) (\<lambda>same.
        if \<not> same then Inr False
        else if str_or_empty (field reservation ''state'') \<noteq> ''settled'' then Inr False
        else if field reservation ''settle_result'' \<notin> {PNone, PStr ''applied'', PStr ''duplicate''} then Inr False
        else case actual of None \<Rightarrow> Inr True
             | Some a \<Rightarrow>
                 let stored = or_val (field reservation ''last_settle_json'') (PDict []);
                     s0 = (if is_mapping stored then field stored ''actual_usd_micros'' else PNone);
                     s1 = (if s0 = PNone then field reservation ''actual_usd_micros'' else s0)
                 in if s1 = PNone then Inr False else eq_int s1 a))"

text \<open>\<open>is_definitive_provider_rejection\<close>: on an exception with a \<open>status_code\<close> or a response that has
  one. An overflowing status escapes the handler, as \<open>OverflowError\<close> is neither of the caught types.\<close>

definition ambiguous_4xx :: "int list" where
  "ambiguous_4xx = [408, 409, 499]"

definition is_definitive_provider_rejection :: "pyval \<Rightarrow> bool res" where
  "is_definitive_provider_rejection e =
     (let status = (if field e ''status_code'' \<noteq> PNone then field e ''status_code''
                    else field (field e ''response'') ''status_code'') in
      if status = PNone then Inr False
      else case py_int status of
             Inr code \<Rightarrow> Inr (400 \<le> code \<and> code < 500 \<and> code \<notin> set ambiguous_4xx)
           | Inl PyOverflowError \<Rightarrow> Inl PyOverflowError
           | Inl _ \<Rightarrow> Inr False)"

section \<open>Usage snapshots\<close>

datatype stream_outcome =
  COMPLETE | CUTOFF | CLIENT_CANCELLED | PROVIDER_ERROR | REJECTED | TRANSPORT_ERROR | UNKNOWN

record stream_usage =
  prompt_tokens :: "int option"
  completion_tokens :: "int option"
  input_tokens :: "int option"
  output_tokens :: "int option"
  total_tokens :: "int option"
  usage_raw :: pyval
  authoritative :: bool

definition no_usage :: stream_usage where
  "no_usage = \<lparr>prompt_tokens = None, completion_tokens = None, input_tokens = None, output_tokens = None,
     total_tokens = None, usage_raw = PNone, authoritative = False\<rparr>"

definition pick :: "'a option \<Rightarrow> 'a option \<Rightarrow> 'a option" where
  "pick new old = (case new of Some x \<Rightarrow> Some x | None \<Rightarrow> old)"

definition merged :: "stream_usage \<Rightarrow> stream_usage \<Rightarrow> stream_usage" where
  "merged self newer =
     (let prompt = pick (prompt_tokens newer) (prompt_tokens self);
          completion = pick (completion_tokens newer) (completion_tokens self);
          inp = pick (input_tokens newer) (input_tokens self);
          out = pick (output_tokens newer) (output_tokens self);
          effective_input = pick prompt inp;
          effective_output = pick completion out;
          total = (case (effective_input, effective_output) of
                     (Some i, Some j) \<Rightarrow> Some (i + j)
                   | _ \<Rightarrow> pick (total_tokens newer) (total_tokens self));
          raw = (case (usage_raw self, usage_raw newer) of
                   (PDict a, PDict b) \<Rightarrow> PDict (dupdate (dupdate [] a) b)
                 | (PDict a, _) \<Rightarrow> PDict (dupdate [] a)
                 | (_, PDict b) \<Rightarrow> PDict (dupdate [] b)
                 | (a, b) \<Rightarrow> (if b \<noteq> PNone then b else a));
          complete_counts = (total \<noteq> None \<or> effective_input \<noteq> None \<and> effective_output \<noteq> None)
      in \<lparr>prompt_tokens = prompt, completion_tokens = completion, input_tokens = inp, output_tokens = out,
          total_tokens = total, usage_raw = raw,
          authoritative = (complete_counts \<and> (authoritative self \<or> authoritative newer))\<rparr>)"

definition as_openai_style :: "stream_usage \<Rightarrow> (string \<times> int) list option" where
  "as_openai_style u =
     (if \<not> authoritative u \<and> total_tokens u = None \<and> prompt_tokens u = None then None
      else
        let prompt = pick (prompt_tokens u) (input_tokens u);
            completion = pick (completion_tokens u) (output_tokens u);
            total = (case total_tokens u of Some t \<Rightarrow> Some t
              | None \<Rightarrow> (case (prompt, completion) of (Some p, Some c) \<Rightarrow> Some (p + c) | _ \<Rightarrow> None));
            out = (case prompt of None \<Rightarrow> [] | Some p \<Rightarrow> [(''prompt_tokens'', p), (''input_tokens'', p)])
              @ (case completion of None \<Rightarrow> [] | Some c \<Rightarrow> [(''completion_tokens'', c), (''output_tokens'', c)])
              @ (case total of None \<Rightarrow> [] | Some t \<Rightarrow> [(''total_tokens'', t)])
        in if out = [] then None else Some out)"

section \<open>The post-call price\<close>

text \<open>\<open>_field\<close> of \<open>_postcall_cost_usd\<close>: the first field present, as an int; any failure ends in the
  handler, which is \<open>None\<close> here.\<close>

fun first_field :: "pyval \<Rightarrow> string list \<Rightarrow> int res" where
  "first_field u [] = Inr 0"
| "first_field u (k # ks) = (if field u k = PNone then first_field u ks else py_int (field u k))"

text \<open>Returns the cost and what became of the frozen basis and of the tier breaker: an exception after
  \<open>settle_usage\<close> changed them leaves the changes.\<close>

definition postcall_cost_usd ::
  "pricing_world \<Rightarrow> catalog \<Rightarrow> (rat \<Rightarrow> string) \<Rightarrow> string \<Rightarrow> string \<Rightarrow> pyval \<Rightarrow> int option \<Rightarrow> rat option
    \<Rightarrow> call_pricing option \<Rightarrow> tier_breaker \<Rightarrow> rat option \<times> call_pricing option \<times> tier_breaker" where
  "postcall_cost_usd w cur format_f org mdl usage tokens_used rate pricing tb =
     (let flat = (case (tokens_used, rate) of
        (Some t, Some r) \<Rightarrow> if r \<noteq> 0 then (Some (of_int t * r / 1000), pricing, tb)
                           else (None, pricing, tb)
      | _ \<Rightarrow> (None, pricing, tb)) in
     case fst flat of Some c \<Rightarrow> flat
     | None \<Rightarrow>
        if py_strip mdl = [] \<or> usage = PNone then (None, pricing, tb)
        else case (first_field usage [''prompt_tokens'', ''input_tokens''], first_field usage [''completion_tokens'', ''output_tokens'']) of
          (Inr _, Inr _) \<Rightarrow>
            (case pricing of
               Some cp \<Rightarrow>
                 (case settle_usage w format_f org (reported_service_tier usage PNone) usage cp tb of
                    (Inr m, cp', tb') \<Rightarrow> (Some (micro_usd_to_decimal m), Some cp', tb')
                  | (Inl _, cp', tb') \<Rightarrow> (None, Some cp', tb'))
             | None \<Rightarrow>
                 (case from_usage_row (w_env w) cur (w_engine w) (py_strip mdl) usage of
                    Inr (_, _, c) \<Rightarrow> (if c > 0 then Some c else None, None, tb)
                  | Inl _ \<Rightarrow> (None, None, tb)))
        | _ \<Rightarrow> (None, pricing, tb))"

section \<open>The attempt\<close>

record stream_attempt =
  held_projection :: rat
  reserved :: bool
  sa_model :: string
  sa_usd_per_1k :: rat
  stream_cutoff_usd :: "rat option"
  settle_usd_per_1k :: "rat option"
  has_reconcile :: bool
  has_pending :: bool
  has_reconcile_async :: bool
  has_pending_async :: bool
  has_postcall :: bool
  first_byte :: "rat option"
  observed_usage :: stream_usage
  estimated_output_tokens :: int
  estimated_spend_usd :: rat
  upstream_close_attempted :: bool
  upstream_close_ok :: bool
  finalized :: bool
  finalize_in_progress :: bool
  terminal_outcome :: "stream_outcome option"
  financial_pending :: bool
  cost_confidence :: string
  pricing_call :: "call_pricing option"

definition note_first_byte :: "rat \<Rightarrow> stream_attempt \<Rightarrow> stream_attempt" where
  "note_first_byte now a = (if first_byte a = None then a\<lparr>first_byte := Some now\<rparr> else a)"

definition observe_usage :: "stream_usage \<Rightarrow> stream_attempt \<Rightarrow> stream_attempt" where
  "observe_usage u a =
     (if authoritative u \<or> total_tokens u \<noteq> None \<or> prompt_tokens u \<noteq> None \<or> completion_tokens u \<noteq> None
         \<or> input_tokens u \<noteq> None \<or> output_tokens u \<noteq> None \<or> usage_raw u \<noteq> PNone
      then a\<lparr>observed_usage := merged (observed_usage a) u\<rparr> else a)"

definition observe_text_estimate :: "string \<Rightarrow> stream_attempt \<Rightarrow> stream_attempt" where
  "observe_text_estimate s a =
     (if s = [] then a
      else let tokens = max 1 (int (length s) div 4);
               a1 = a\<lparr>estimated_output_tokens := estimated_output_tokens a + tokens\<rparr>
           in if sa_usd_per_1k a \<noteq> 0
              then a1\<lparr>estimated_spend_usd := estimated_spend_usd a + of_int tokens * sa_usd_per_1k a / 1000\<rparr> else a1)"

definition should_cutoff :: "stream_attempt \<Rightarrow> bool" where
  "should_cutoff a = (case stream_cutoff_usd a of None \<Rightarrow> False | Some c \<Rightarrow> estimated_spend_usd a \<ge> c)"

definition mark_upstream_close :: "bool \<Rightarrow> stream_attempt \<Rightarrow> stream_attempt" where
  "mark_upstream_close ok a = a\<lparr>upstream_close_attempted := True, upstream_close_ok := ok\<rparr>"

definition tier_hold_usd :: "stream_attempt \<Rightarrow> rat option" where
  "tier_hold_usd a = (case pricing_call a of None \<Rightarrow> None
     | Some cp \<Rightarrow> if cp_hold_for_reconciliation cp then Some (cp_held_exposure_usd cp) else None)"

text \<open>What the terminal path decides before any callback: the amount, the confidence, whether the
  settlement is pending, whether the usage is authoritative.\<close>

definition settle_plan :: "stream_outcome \<Rightarrow> bool \<Rightarrow> rat option \<Rightarrow> rat option \<Rightarrow> rat \<times> string \<times> bool \<times> bool" where
  "settle_plan outcome auth cost hold =
     (if hold \<noteq> None \<and> outcome = COMPLETE \<and> auth then (the hold, ''pending_reconciliation'', True, False)
      else if outcome = COMPLETE \<and> auth \<and> cost \<noteq> None then (the cost, ''exact'', False, True)
      else if outcome = REJECTED then (0, ''exact'', False, False)
      else if outcome = COMPLETE \<and> \<not> auth then (0, ''pending'', True, False)
      else (0, ''pending'', True, False))"

text \<open>What a FinOps callback does: returns (was it \<open>True\<close>?), raises an \<open>Exception\<close>, or is interrupted by
  a \<open>BaseException\<close> such as a cancellation.\<close>

datatype callback = Returned bool | Raised | Interrupted

datatype stream_effect =
    Reconcile_Called rat
  | Pending_Called
  | Call_Recorded rat rat
  | Event_Emitted rat "int option"

definition begin_finalize :: "stream_outcome \<Rightarrow> stream_usage option \<Rightarrow> stream_attempt \<Rightarrow> stream_attempt" where
  "begin_finalize outcome usage a =
     (let a1 = a\<lparr>terminal_outcome := Some outcome\<rparr>
      in case usage of None \<Rightarrow> a1 | Some u \<Rightarrow> observe_usage u a1)"

text \<open>The price of the observed usage, when it is authoritative.\<close>

definition price_attempt ::
  "(string \<Rightarrow> pyval \<Rightarrow> int option \<Rightarrow> rat option \<Rightarrow> call_pricing option \<Rightarrow> rat option \<times> call_pricing option)
    \<Rightarrow> stream_attempt \<Rightarrow> rat option \<times> int option \<times> stream_attempt" where
  "price_attempt postcall a =
     (let u = observed_usage a; usage_dict = as_openai_style u;
          tokens_used = (case usage_dict of None \<Rightarrow> None | Some d \<Rightarrow> dget d ''total_tokens'')
      in if authoritative u \<and> has_postcall a
         then (case postcall (sa_model a)
                 (if usage_raw u \<noteq> PNone then usage_raw u
                  else case usage_dict of None \<Rightarrow> PNone | Some d \<Rightarrow> PDict (map (\<lambda>(k, i). (k, PInt i)) d))
                 tokens_used (if settle_usd_per_1k a = Some 0 then None else settle_usd_per_1k a) (pricing_call a) of
               (cost, cp) \<Rightarrow> (cost, tokens_used, a\<lparr>pricing_call := cp\<rparr>))
         else (None, tokens_used, a))"

text \<open>The end of both \<open>finalize\<close> and \<open>_complete_local\<close>: the delivery class, the flags, the local ledger
  (whose exception is swallowed) and the event.\<close>

definition complete_local ::
  "rat \<Rightarrow> rat \<Rightarrow> int option \<Rightarrow> bool \<Rightarrow> bool \<Rightarrow> string \<Rightarrow> bool \<Rightarrow> stream_attempt \<Rightarrow> enforcement
    \<Rightarrow> stream_effect list \<times> stream_attempt \<times> enforcement" where
  "complete_local now settle_cost tokens_used authoritative_usage pending confidence ack a e =
     (let delivery = classify_settlement_delivery True ack authoritative_usage;
          (pend, conf) = (if delivery = ''exact_usage_pending_settlement'' then (True, ''exact_usage_pending_settlement'')
                          else if delivery = ''settled'' then (False, ''exact'') else (pending, confidence));
          recorded = (if conf = ''pending_reconciliation'' \<or> starts_with conf ''exact'' then settle_cost else 0)
      in ([Call_Recorded recorded (held_projection a), Event_Emitted settle_cost tokens_used],
          a\<lparr>financial_pending := pend, cost_confidence := conf\<rparr>,
          snd (record_call now (Some recorded) False (held_projection a) e)))"

definition finalize ::
  "rat \<Rightarrow> (string \<Rightarrow> pyval \<Rightarrow> int option \<Rightarrow> rat option \<Rightarrow> call_pricing option \<Rightarrow> rat option \<times> call_pricing option)
    \<Rightarrow> (rat \<Rightarrow> callback) \<Rightarrow> stream_outcome \<Rightarrow> stream_usage option \<Rightarrow> stream_attempt \<Rightarrow> enforcement
    \<Rightarrow> unit res \<times> stream_effect list \<times> stream_attempt \<times> enforcement" where
  "finalize now postcall reconcile outcome usage a0 e =
     (if finalized a0 then (Inr (), [], a0, e)
      else
        let a1 = begin_finalize outcome usage (a0\<lparr>finalized := True\<rparr>);
            (cost, tokens_used, a2) = price_attempt postcall a1;
            (settle_cost, confidence, pending, auth_usage) =
              settle_plan outcome (authoritative (observed_usage a2)) cost (tier_hold_usd a2);
            obligation = (reserved a2 \<and> has_reconcile a2)
        in if obligation \<and> \<not> pending
           then (case reconcile settle_cost of
                   Interrupted \<Rightarrow> (Inl (OtherExn ''BaseException''), [Reconcile_Called settle_cost], a2, e)
                 | r \<Rightarrow>
                     let ack = (r = Returned True);
                         (pend, conf) = (if ack then (pending, confidence) else (True, ''exact_usage_pending_settlement''));
                         marks = (if reserved a2 \<and> has_pending a2 \<and> pend then [Pending_Called] else []);
                         (effs, a3, e') = complete_local now settle_cost tokens_used auth_usage pend conf ack a2 e
                     in (Inr (), Reconcile_Called settle_cost # marks @ effs, a3, e'))
           else
             let marks = (if reserved a2 \<and> has_pending a2 \<and> pending then [Pending_Called] else []);
                 (effs, a3, e') = complete_local now settle_cost tokens_used auth_usage pending confidence
                    (\<not> obligation \<and> \<not> pending) a2 e
             in (Inr (), marks @ effs, a3, e'))"

text \<open>\<open>finalize_async\<close>, run to its end: the awaited callbacks are the async ones when there are any. The
  pending callback's own failure is swallowed. On an interrupted reconcile the settlement is marked
  pending, the local bookkeeping is finished and the interruption goes on.\<close>

definition finalize_async ::
  "rat \<Rightarrow> (string \<Rightarrow> pyval \<Rightarrow> int option \<Rightarrow> rat option \<Rightarrow> call_pricing option \<Rightarrow> rat option \<times> call_pricing option)
    \<Rightarrow> (rat \<Rightarrow> callback) \<Rightarrow> stream_outcome \<Rightarrow> stream_usage option \<Rightarrow> stream_attempt \<Rightarrow> enforcement
    \<Rightarrow> unit res \<times> stream_effect list \<times> stream_attempt \<times> enforcement" where
  "finalize_async now postcall reconcile outcome usage a0 e =
     (if finalized a0 \<or> finalize_in_progress a0 then (Inr (), [], a0, e)
      else
        let a1 = begin_finalize outcome usage (a0\<lparr>finalize_in_progress := True\<rparr>);
            (cost, tokens_used, a2) = price_attempt postcall a1;
            (settle_cost, confidence, pending, auth_usage) =
              settle_plan outcome (authoritative (observed_usage a2)) cost (tier_hold_usd a2);
            obligation = (reserved a2 \<and> (has_reconcile_async a2 \<or> has_reconcile a2));
            pending_cb = (has_pending_async a2 \<or> has_pending a2);
            finish = (\<lambda>pend conf ack.
              let marks = (if reserved a2 \<and> pending_cb \<and> pend then [Pending_Called] else []);
                  (effs, a3, e') = complete_local now settle_cost tokens_used auth_usage pend conf ack a2 e
              in (marks @ effs, a3\<lparr>finalized := True, finalize_in_progress := False\<rparr>, e'))
        in if obligation \<and> \<not> pending
           then (case reconcile settle_cost of
                   Interrupted \<Rightarrow>
                     (case finish True ''exact_usage_pending_settlement'' False of
                        (effs, a3, e') \<Rightarrow> (Inl (OtherExn ''BaseException''), Reconcile_Called settle_cost # effs, a3, e'))
                 | r \<Rightarrow>
                     let ack = (r = Returned True)
                     in case finish (if ack then pending else True) (if ack then confidence else ''exact_usage_pending_settlement'') ack of
                          (effs, a3, e') \<Rightarrow> (Inr (), Reconcile_Called settle_cost # effs, a3, e'))
           else (case finish pending confidence (\<not> obligation \<and> \<not> pending) of
                   (effs, a3, e') \<Rightarrow> (Inr (), effs, a3, e')))"

end
