(* ===== verification/Stream_Facts.thy ===== *)
theory Stream_Facts
  imports Stream_Attempt
begin

text \<open>
  What a stream attempt promises: one settlement however many terminal paths fire, no zero charge taken
  for a fact, no reservation left without an acknowledgment or a pending mark, the newest usage wins,
  and the async twin decides as the sync one does.
\<close>

section \<open>Usage\<close>

lemma pick_assoc: "pick c (pick b a) = pick (pick c b) a"
  by (simp add: pick_def split: option.splits)

lemma pick_None [simp]: "pick x None = x" "pick None x = x" "pick (Some y) x = Some y"
  by (simp_all add: pick_def split: option.splits)

text \<open>The last reported value of a field.\<close>

definition last_some :: "'a option list \<Rightarrow> 'a option" where
  "last_some xs = fold (\<lambda>new old. pick new old) xs None"

lemma last_some_snoc [simp]: "last_some (xs @ [x]) = pick x (last_some xs)" "last_some [] = None"
  by (simp_all add: last_some_def)

lemma merged_fields [simp]:
  "prompt_tokens (merged a b) = pick (prompt_tokens b) (prompt_tokens a)"
  "completion_tokens (merged a b) = pick (completion_tokens b) (completion_tokens a)"
  "input_tokens (merged a b) = pick (input_tokens b) (input_tokens a)"
  "output_tokens (merged a b) = pick (output_tokens b) (output_tokens a)"
  by (simp_all add: merged_def Let_def)

definition effective_in :: "stream_usage \<Rightarrow> int option" where
  "effective_in u = pick (prompt_tokens u) (input_tokens u)"

definition effective_out :: "stream_usage \<Rightarrow> int option" where
  "effective_out u = pick (completion_tokens u) (output_tokens u)"

lemma merged_total:
  "total_tokens (merged a b) = (case (effective_in (merged a b), effective_out (merged a b)) of
     (Some i, Some j) \<Rightarrow> Some (i + j) | _ \<Rightarrow> pick (total_tokens b) (total_tokens a))"
  by (simp add: merged_def Let_def effective_in_def effective_out_def split: option.split)

lemma merged_auth:
  "authoritative (merged a b) \<longleftrightarrow> (authoritative a \<or> authoritative b) \<and>
     (total_tokens (merged a b) \<noteq> None)"
  by (auto simp: merged_def Let_def split: option.split)

text \<open>Merging the provider's snapshots keeps, field by field, the last value reported; once both sides
  are known the total is their sum, never an earlier total; and the merged usage is authoritative only
  when some snapshot was and the counts are complete.\<close>
theorem merged_keeps_latest:
  assumes "us \<noteq> []"
  shows "prompt_tokens (fold (\<lambda>new old. merged old new) us no_usage) = last_some (map prompt_tokens us)
    \<and> completion_tokens (fold (\<lambda>new old. merged old new) us no_usage) = last_some (map completion_tokens us)
    \<and> input_tokens (fold (\<lambda>new old. merged old new) us no_usage) = last_some (map input_tokens us)
    \<and> output_tokens (fold (\<lambda>new old. merged old new) us no_usage) = last_some (map output_tokens us)
    \<and> (\<forall>i j. effective_in (fold (\<lambda>new old. merged old new) us no_usage) = Some i \<and>
          effective_out (fold (\<lambda>new old. merged old new) us no_usage) = Some j \<longrightarrow>
          total_tokens (fold (\<lambda>new old. merged old new) us no_usage) = Some (i + j))
    \<and> (authoritative (fold (\<lambda>new old. merged old new) us no_usage) \<longrightarrow>
          list_ex authoritative us \<and> total_tokens (fold (\<lambda>new old. merged old new) us no_usage) \<noteq> None)"
proof -
  have f: "prompt_tokens (fold (\<lambda>new old. merged old new) us no_usage) = last_some (map prompt_tokens us)
    \<and> completion_tokens (fold (\<lambda>new old. merged old new) us no_usage) = last_some (map completion_tokens us)
    \<and> input_tokens (fold (\<lambda>new old. merged old new) us no_usage) = last_some (map input_tokens us)
    \<and> output_tokens (fold (\<lambda>new old. merged old new) us no_usage) = last_some (map output_tokens us)
    \<and> (authoritative (fold (\<lambda>new old. merged old new) us no_usage) \<longrightarrow> list_ex authoritative us)"
    by (induction us rule: rev_induct) (auto simp: no_usage_def merged_auth)
  obtain vs v where "us = vs @ [v]" using assms by (cases us rule: rev_cases) auto
  then have e: "fold (\<lambda>new old. merged old new) us no_usage = merged (fold (\<lambda>new old. merged old new) vs no_usage) v" by simp
  show ?thesis using f unfolding e by (auto simp: merged_total [of _ v] merged_auth [of _ v])
qed

theorem merged_keeps_latest_witness:
  "total_tokens (fold (\<lambda>new old. merged old new)
     [no_usage\<lparr>input_tokens := Some 10, output_tokens := Some 1, total_tokens := Some 11\<rparr>,
      no_usage\<lparr>output_tokens := Some 7, authoritative := True\<rparr>] no_usage) = Some 17"
proof -
  let ?us = "[no_usage\<lparr>input_tokens := Some 10, output_tokens := Some 1, total_tokens := Some 11\<rparr>,
      no_usage\<lparr>output_tokens := Some 7, authoritative := True\<rparr>]"
  have e: "effective_in (fold (\<lambda>new old. merged old new) ?us no_usage) = Some 10"
    "effective_out (fold (\<lambda>new old. merged old new) ?us no_usage) = Some 7"
    by (simp_all add: effective_in_def effective_out_def no_usage_def)
  have "?us \<noteq> []" by simp
  from merged_keeps_latest [OF this] e show ?thesis by fastforce
qed

section \<open>Finalizing\<close>

lemma begin_frame [simp]:
  "held_projection (begin_finalize o' u a) = held_projection a" "reserved (begin_finalize o' u a) = reserved a"
  "has_reconcile (begin_finalize o' u a) = has_reconcile a" "has_pending (begin_finalize o' u a) = has_pending a"
  "has_reconcile_async (begin_finalize o' u a) = has_reconcile_async a" "has_pending_async (begin_finalize o' u a) = has_pending_async a"
  "finalized (begin_finalize o' u a) = finalized a"
  by (simp_all add: begin_finalize_def observe_usage_def Let_def split: option.split)

lemma price_frame:
  assumes "price_attempt postcall a = (cost, tokens, a')"
  shows "\<exists>cp. a' = a\<lparr>pricing_call := cp\<rparr>"
  using assms by (auto simp: price_attempt_def Let_def split: prod.splits if_splits intro: exI [of _ "pricing_call a"])

lemma price_simps [simp]:
  "held_projection (snd (snd (price_attempt postcall a))) = held_projection a"
  "reserved (snd (snd (price_attempt postcall a))) = reserved a"
  "has_reconcile (snd (snd (price_attempt postcall a))) = has_reconcile a"
  "has_pending (snd (snd (price_attempt postcall a))) = has_pending a"
  "has_reconcile_async (snd (snd (price_attempt postcall a))) = has_reconcile_async a"
  "has_pending_async (snd (snd (price_attempt postcall a))) = has_pending_async a"
  "finalized (snd (snd (price_attempt postcall a))) = finalized a"
  "observed_usage (snd (snd (price_attempt postcall a))) = observed_usage a"
  using price_frame [of postcall a "fst (price_attempt postcall a)" "fst (snd (price_attempt postcall a))"
    "snd (snd (price_attempt postcall a))"] by auto

definition is_record :: "stream_effect \<Rightarrow> bool" where
  "is_record x = (case x of Call_Recorded _ _ \<Rightarrow> True | _ \<Rightarrow> False)"

definition is_reconcile :: "stream_effect \<Rightarrow> bool" where
  "is_reconcile x = (case x of Reconcile_Called _ \<Rightarrow> True | _ \<Rightarrow> False)"

lemma is_record_simps [simp]:
  "is_record (Call_Recorded c h)" "\<not> is_record (Reconcile_Called c)" "\<not> is_record Pending_Called"
  "\<not> is_record (Event_Emitted c t)" "is_reconcile (Reconcile_Called c)" "\<not> is_reconcile (Call_Recorded c h)"
  "\<not> is_reconcile Pending_Called" "\<not> is_reconcile (Event_Emitted c t)"
  by (simp_all add: is_record_def is_reconcile_def)

text \<open>One terminal path firing: which twin, at what time, with what outcome.\<close>

datatype terminal = Sync rat stream_outcome "stream_usage option" callback | Async rat stream_outcome "stream_usage option" callback

fun fire ::
  "(string \<Rightarrow> pyval \<Rightarrow> int option \<Rightarrow> rat option \<Rightarrow> call_pricing option \<Rightarrow> rat option \<times> call_pricing option) \<Rightarrow> terminal
    \<Rightarrow> stream_effect list \<times> stream_attempt \<times> enforcement \<Rightarrow> stream_effect list \<times> stream_attempt \<times> enforcement" where
  "fire pc (Sync now oc u cb) (effs, a, e) = (case finalize now pc (\<lambda>_. cb) oc u a e of (_, x, a', e') \<Rightarrow> (effs @ x, a', e'))"
| "fire pc (Async now oc u cb) (effs, a, e) = (case finalize_async now pc (\<lambda>_. cb) oc u a e of (_, x, a', e') \<Rightarrow> (effs @ x, a', e'))"

fun interrupts :: "terminal \<Rightarrow> bool" where
  "interrupts (Sync now oc u cb) \<longleftrightarrow> cb = Interrupted"
| "interrupts (Async now oc u cb) \<longleftrightarrow> False"

text \<open>The attempt once its usage is in and priced, but for the finalize flags, and the plan it leads to.\<close>

definition priced ::
  "(string \<Rightarrow> pyval \<Rightarrow> int option \<Rightarrow> rat option \<Rightarrow> call_pricing option \<Rightarrow> rat option \<times> call_pricing option)
    \<Rightarrow> stream_outcome \<Rightarrow> stream_usage option \<Rightarrow> stream_attempt \<Rightarrow> rat option \<times> int option \<times> stream_attempt" where
  "priced pc oc u a = price_attempt pc (begin_finalize oc u a)"

lemma begin_flags:
  "begin_finalize oc u (a\<lparr>finalized := x\<rparr>) = begin_finalize oc u a\<lparr>finalized := x\<rparr>"
  "begin_finalize oc u (a\<lparr>finalize_in_progress := x\<rparr>) = begin_finalize oc u a\<lparr>finalize_in_progress := x\<rparr>"
  by (cases a; auto simp: begin_finalize_def observe_usage_def Let_def split: option.split)+

lemma price_flags:
  "price_attempt pc (a\<lparr>finalized := x\<rparr>) = (case price_attempt pc a of (c, t, b) \<Rightarrow> (c, t, b\<lparr>finalized := x\<rparr>))"
  "price_attempt pc (a\<lparr>finalize_in_progress := x\<rparr>) = (case price_attempt pc a of (c, t, b) \<Rightarrow> (c, t, b\<lparr>finalize_in_progress := x\<rparr>))"
  by (cases a; simp add: price_attempt_def Let_def split: prod.split)+

lemma complete_flags:
  "complete_local now sc tok au pend conf ack (a\<lparr>finalized := x\<rparr>) e =
     (case complete_local now sc tok au pend conf ack a e of (effs, b, e') \<Rightarrow> (effs, b\<lparr>finalized := x\<rparr>, e'))"
  "complete_local now sc tok au pend conf ack (a\<lparr>finalize_in_progress := x\<rparr>) e =
     (case complete_local now sc tok au pend conf ack a e of (effs, b, e') \<Rightarrow> (effs, b\<lparr>finalize_in_progress := x\<rparr>, e'))"
  by (cases a; simp add: complete_local_def Let_def)+

lemma tier_hold_flags [simp]:
  "tier_hold_usd (a\<lparr>finalized := x\<rparr>) = tier_hold_usd a" "tier_hold_usd (a\<lparr>finalize_in_progress := x\<rparr>) = tier_hold_usd a"
  by (simp_all add: tier_hold_usd_def)

text \<open>The common body: the calls made, the attempt with its result and the local ledger.\<close>

definition decide ::
  "rat \<Rightarrow> bool \<Rightarrow> bool \<Rightarrow> callback \<Rightarrow> rat \<Rightarrow> string \<Rightarrow> bool \<Rightarrow> bool \<Rightarrow> int option \<Rightarrow> stream_attempt \<Rightarrow> enforcement
    \<Rightarrow> stream_effect list \<times> stream_attempt \<times> enforcement" where
  "decide now rc pd cb sc conf pend au tok b e =
     (let asked = (reserved b \<and> rc \<and> \<not> pend); ok = (cb = Returned True);
          pend' = (if asked then \<not> ok else pend);
          conf' = (if asked \<and> \<not> ok then ''exact_usage_pending_settlement'' else conf);
          ack = (if asked then ok else \<not> (reserved b \<and> rc) \<and> \<not> pend)
      in case complete_local now sc tok au pend' conf' ack b e of
           (effs, b', e') \<Rightarrow> ((if asked then [Reconcile_Called sc] else []) @
              (if reserved b \<and> pd \<and> pend' then [Pending_Called] else []) @ effs, b', e'))"

lemma finalize_open:
  assumes "\<not> finalized a" "\<not> finalize_in_progress a" and p: "priced pc oc u a = (cost, tok, b)"
    and s: "settle_plan oc (authoritative (observed_usage b)) cost (tier_hold_usd b) = (sc, conf, pend, au)"
    and cb: "rec sc \<noteq> Interrupted"
  shows "finalize now pc rec oc u a e =
     (case decide now (has_reconcile a) (has_pending a) (rec sc) sc conf pend au tok b e of
        (effs, b', e') \<Rightarrow> (Inr (), effs, b'\<lparr>finalized := True\<rparr>, e'))"
    and "finalize_async now pc rec oc u a e =
     (case decide now (has_reconcile_async a \<or> has_reconcile a) (has_pending_async a \<or> has_pending a) (rec sc) sc conf pend au tok b e of
        (effs, b', e') \<Rightarrow> (Inr (), effs, b'\<lparr>finalized := True, finalize_in_progress := False\<rparr>, e'))"
proof -
  obtain cp where b: "b = begin_finalize oc u a\<lparr>pricing_call := cp\<rparr>"
    using price_frame p unfolding priced_def by blast
  have f: "reserved b = reserved a" "has_reconcile b = has_reconcile a" "has_pending b = has_pending a"
    "has_reconcile_async b = has_reconcile_async a" "has_pending_async b = has_pending_async a" by (simp_all add: b)
  have ob: "observed_usage b = observed_usage (begin_finalize oc u a)" by (simp add: b)
  note d = begin_flags price_flags complete_flags p [unfolded priced_def] s [unfolded ob] f ob
  show "finalize now pc rec oc u a e =
     (case decide now (has_reconcile a) (has_pending a) (rec sc) sc conf pend au tok b e of
        (effs, b', e') \<Rightarrow> (Inr (), effs, b'\<lparr>finalized := True\<rparr>, e'))"
    using assms(1,2) cb by (cases pend; cases "rec sc"; cases "reserved a \<and> has_reconcile a"; auto simp add: finalize_def decide_def Let_def d split_beta)
  show "finalize_async now pc rec oc u a e =
     (case decide now (has_reconcile_async a \<or> has_reconcile a) (has_pending_async a \<or> has_pending a) (rec sc) sc conf pend au tok b e of
        (effs, b', e') \<Rightarrow> (Inr (), effs, b'\<lparr>finalized := True, finalize_in_progress := False\<rparr>, e'))"
    using assms(1,2) cb by (cases pend; cases "rec sc"; cases "reserved a \<and> (has_reconcile_async a \<or> has_reconcile a)"; auto simp add: finalize_async_def decide_def Let_def d split_beta)
qed

lemma complete_local_spec:
  "complete_local now sc tok au pend conf ack a e = (effs, a', e') \<Longrightarrow>
   \<exists>recorded. effs = [Call_Recorded recorded (held_projection a), Event_Emitted sc tok] \<and> (recorded = sc \<or> recorded = 0) \<and>
     e' = snd (record_call now (Some recorded) False (held_projection a) e) \<and> finalized a' = finalized a \<and>
     finalize_in_progress a' = finalize_in_progress a \<and> observed_usage a' = observed_usage a \<and> pricing_call a' = pricing_call a"
  by (auto simp: complete_local_def Let_def split: if_splits)

lemma settle_plan_cases:
  obtains (hold) h where "hold = Some h" "oc = COMPLETE" "auth" "settle_plan oc auth cost hold = (h, ''pending_reconciliation'', True, False)"
  | (exact) c where "hold = None" "oc = COMPLETE" "auth" "cost = Some c" "settle_plan oc auth cost hold = (c, ''exact'', False, True)"
  | (rejected) "oc = REJECTED" "settle_plan oc auth cost hold = (0, ''exact'', False, False)"
  | (unknown) "settle_plan oc auth cost hold = (0, ''pending'', True, False)" "oc \<noteq> REJECTED"
      "oc \<noteq> COMPLETE \<or> \<not> auth \<or> hold = None \<and> cost = None"
proof -
  show ?thesis
    by (cases "oc = REJECTED"; cases "oc = COMPLETE \<and> auth"; cases hold; cases cost)
      (use that in \<open>auto simp: settle_plan_def\<close>)
qed

lemma starts_exact [simp]:
  "starts_with ''exact'' ''exact''" "starts_with ''exact_usage_pending_settlement'' ''exact''"
  "\<not> starts_with ''pending'' ''exact''" "\<not> starts_with ''pending_reconciliation'' ''exact''"
  by code_simp+

text \<open>The two shapes of the decision.\<close>

lemma decide_pending:
  "decide now rc pd cb sc conf True False tok b e =
     ((if reserved b \<and> pd then [Pending_Called] else []) @
        [Call_Recorded (if conf = ''pending_reconciliation'' \<or> starts_with conf ''exact'' then sc else 0) (held_projection b),
         Event_Emitted sc tok],
      b\<lparr>financial_pending := True, cost_confidence := conf\<rparr>,
      snd (record_call now (Some (if conf = ''pending_reconciliation'' \<or> starts_with conf ''exact'' then sc else 0)) False (held_projection b) e))"
  by (simp add: decide_def complete_local_def Let_def classify_settlement_delivery_def)

lemma decide_exact:
  "decide now rc pd cb sc ''exact'' False au tok b e =
     (let asked = (reserved b \<and> rc); failed = (asked \<and> cb \<noteq> Returned True) in
      ((if asked then [Reconcile_Called sc] else []) @ (if reserved b \<and> pd \<and> failed then [Pending_Called] else []) @
        [Call_Recorded sc (held_projection b), Event_Emitted sc tok],
      b\<lparr>financial_pending := failed, cost_confidence := (if failed then ''exact_usage_pending_settlement'' else ''exact'')\<rparr>,
      snd (record_call now (Some sc) False (held_projection b) e)))"
proof -
  have c: "complete_local now sc tok au pend' conf' ack b e =
     ([Call_Recorded sc (held_projection b), Event_Emitted sc tok],
      b\<lparr>financial_pending := pend', cost_confidence := conf'\<rparr>,
      snd (record_call now (Some sc) False (held_projection b) e))"
    if "ack \<and> \<not> pend' \<and> conf' = ''exact'' \<or> \<not> ack \<and> pend' \<and> conf' = ''exact_usage_pending_settlement''" for pend' conf' ack
    using that by (cases ack; cases au; simp add: complete_local_def classify_settlement_delivery_def)
  show ?thesis
    by (cases "reserved b \<and> rc"; cases "cb = Returned True"; simp add: decide_def Let_def c)
qed

lemma decide_spec:
  assumes "decide now rc pd cb sc conf pend au tok b e = (effs, b', e')"
  shows "(\<exists>pre recorded. effs = pre @ [Call_Recorded recorded (held_projection b), Event_Emitted sc tok]
     \<and> filter is_record pre = [] \<and> length (filter is_reconcile pre) \<le> 1
     \<and> e' = snd (record_call now (Some recorded) False (held_projection b) e)) \<and> finalized b' = finalized b"
  using assms by (auto simp: decide_def Let_def split: prod.splits if_splits dest!: complete_local_spec)

lemma priced_held: "priced pc oc u a = (cost, tok, b) \<Longrightarrow> held_projection b = held_projection a \<and>
    reserved b = reserved a \<and> finalized b = finalized a"
  unfolding priced_def using price_frame [of pc "begin_finalize oc u a" cost tok b] by auto

lemma fire_once:
  assumes "\<not> finalized a" "\<not> finalize_in_progress a" "\<not> interrupts t"
    "case t of Sync _ _ _ cb \<Rightarrow> True | Async _ _ _ cb \<Rightarrow> cb \<noteq> Interrupted"
    "fire pc t ([], a, e) = (effs, a', e')"
  shows "finalized a' \<and> length (filter is_record effs) = 1 \<and> length (filter is_reconcile effs) \<le> 1 \<and>
     (\<exists>now recorded. Call_Recorded recorded (held_projection a) \<in> set effs \<and>
        e' = snd (record_call now (Some recorded) False (held_projection a) e))"
proof -
  obtain now oc u cb where t: "t = Sync now oc u cb \<or> t = Async now oc u cb" by (cases t) auto
  then have cb: "cb \<noteq> Interrupted" using assms(3,4) by auto
  obtain cost tok b where p: "priced pc oc u a = (cost, tok, b)" by (cases "priced pc oc u a") auto
  obtain sc conf pend au where s: "settle_plan oc (authoritative (observed_usage b)) cost (tier_hold_usd b) = (sc, conf, pend, au)"
    by (cases "settle_plan oc (authoritative (observed_usage b)) cost (tier_hold_usd b)") auto
  note f = finalize_open [OF assms(1,2) p s, of "\<lambda>_. cb" now e, OF cb]
  from t obtain rc pd b' where d: "decide now rc pd cb sc conf pend au tok b e = (effs, b', e')" and a': "finalized a'"
    using assms(5) by (auto simp: f split: prod.splits)
  then obtain pre recorded where "effs = pre @ [Call_Recorded recorded (held_projection b), Event_Emitted sc tok]"
    "filter is_record pre = []" "length (filter is_reconcile pre) \<le> 1"
    "e' = snd (record_call now (Some recorded) False (held_projection b) e)" using decide_spec [OF d] by blast
  with a' priced_held [OF p] show ?thesis by (intro conjI exI [of _ now] exI [of _ recorded]) simp_all
qed

lemma fire_noop: "finalized a \<Longrightarrow> fire pc t (effs, a, e) = (effs, a, e)"
  by (cases t) (simp_all add: finalize_def finalize_async_def)

lemma fip_id: "finalize_in_progress b = False \<Longrightarrow> b\<lparr>finalized := x, finalize_in_progress := False\<rparr> = b\<lparr>finalized := x\<rparr>"
  by (cases b) simp


text \<open>The twins agree. On an attempt no other finalization is working on, whose async callbacks wrap the
  sync ones, \<open>finalize_async\<close> run to its end without an interruption has the result, the effects and the
  state of \<open>finalize\<close>.\<close>
theorem finalize_async_agrees:
  assumes "\<not> finalize_in_progress a" "has_reconcile_async a \<longrightarrow> has_reconcile a" "has_pending_async a \<longrightarrow> has_pending a"
    and "\<And>c. rec c \<noteq> Interrupted"
  shows "finalize_async now pc rec oc u a e = finalize now pc rec oc u a e"
proof (cases "finalized a")
  case False
  obtain cost tok b where p: "priced pc oc u a = (cost, tok, b)" by (cases "priced pc oc u a") auto
  obtain sc conf pend au where s: "settle_plan oc (authoritative (observed_usage b)) cost (tier_hold_usd b) = (sc, conf, pend, au)"
    by (cases "settle_plan oc (authoritative (observed_usage b)) cost (tier_hold_usd b)") auto
  have ip: "finalize_in_progress b = False"
  proof -
    have "finalize_in_progress (begin_finalize oc u a) = finalize_in_progress a"
      by (simp add: begin_finalize_def observe_usage_def Let_def split: option.split)
    with price_frame [of pc "begin_finalize oc u a" cost tok b] p assms(1) show ?thesis unfolding priced_def by auto
  qed
  have "b'\<lparr>finalized := True, finalize_in_progress := False\<rparr> = b'\<lparr>finalized := True\<rparr>"
    if "decide now rc pd cb sc conf pend au tok b e = (effs, b', e')" for rc pd cb effs b' e'
  proof (rule fip_id)
    show "finalize_in_progress b' = False"
      using that ip by (auto simp: decide_def Let_def split: prod.splits if_splits dest!: complete_local_spec)
  qed
  moreover have "(has_reconcile_async a \<or> has_reconcile a) = has_reconcile a" "(has_pending_async a \<or> has_pending a) = has_pending a"
    using assms by auto
  ultimately show ?thesis
    using finalize_open [OF False assms(1) p s, of rec now e] assms(4) by (simp split: prod.split)
qed (simp add: finalize_def finalize_async_def)

lemma not_settled [simp]: "classify_settlement_delivery True False False = ''pending_reconciliation''"
  "classify_settlement_delivery True False True = ''exact_usage_pending_settlement''"
  "classify_settlement_delivery True True True = ''settled''" "classify_settlement_delivery True True False = ''pending_usage''"
  by (simp_all add: classify_settlement_delivery_def)


definition sample_attempt :: stream_attempt where
  "sample_attempt = \<lparr>held_projection = 3, reserved = True, sa_model = ''gpt-4o'', sa_usd_per_1k = 0, stream_cutoff_usd = None,
     settle_usd_per_1k = None, has_reconcile = True, has_pending = True, has_reconcile_async = False, has_pending_async = False,
     has_postcall = True, first_byte = None, observed_usage = no_usage\<lparr>total_tokens := Some 5, authoritative := True\<rparr>,
     estimated_output_tokens = 0, estimated_spend_usd = 0, upstream_close_attempted = False, upstream_close_ok = False,
     finalized = False, finalize_in_progress = False, terminal_outcome = None, financial_pending = False,
     cost_confidence = ''unknown'', pricing_call = None\<rparr>"

definition two_dollars ::
  "string \<Rightarrow> pyval \<Rightarrow> int option \<Rightarrow> rat option \<Rightarrow> call_pricing option \<Rightarrow> rat option \<times> call_pricing option" where
  "two_dollars mdl usage tokens rate cp = (Some 2, cp)"


theorem finalize_async_agrees_witness:
  "\<forall>e. finalize_async 1 two_dollars (\<lambda>_. Raised) COMPLETE None sample_attempt e =
     finalize 1 two_dollars (\<lambda>_. Raised) COMPLETE None sample_attempt e"
  using finalize_async_agrees [of sample_attempt "\<lambda>_. Raised" 1 two_dollars COMPLETE None] by (simp add: sample_attempt_def)

lemma sample_priced:
  "priced two_dollars COMPLETE None sample_attempt = (Some 2, Some 5, sample_attempt\<lparr>terminal_outcome := Some COMPLETE\<rparr>)"
  by (simp add: priced_def begin_finalize_def price_attempt_def two_dollars_def sample_attempt_def no_usage_def as_openai_style_def Let_def)


end
