(* ===== verification/Settle_Queue.thy ===== *)
theory Settle_Queue
  imports Urls Spool Decimal_Arith "HOL-Library.Char_ord" "HOL-Library.List_Lexorder"
begin

text \<open>
  The file-backed settlement queue (kazenai/spine/settle_queue.py). A directory is an association list
  from file names to contents; a content is the JSON value a file holds, or \<open>None\<close> when it does not
  parse; a value written to a file is read back as it is. One method call is one step here; what happens
  between the file operations of two processes is the subject of Settle_Race. \<open>sha\<close> stands for
  \<open>hashlib.sha256(...).hexdigest()\<close>, \<open>dump\<close> for \<open>json.dumps(..., sort_keys=True)\<close>.
\<close>

section \<open>Values\<close>

text \<open>\<open>float(v)\<close>.\<close>

definition py_float :: "pyval \<Rightarrow> fl res" where
  "py_float v = (case v of
     PBool b \<Rightarrow> Inr (Fin (if b then 1 else 0))
   | PInt i \<Rightarrow> Inr (Fin (of_int i))
   | PFloat f _ \<Rightarrow> Inr f
   | PStr s \<Rightarrow> (case parse_dec s of
       None \<Rightarrow> Inl PyValueError
     | Some (DFin q) \<Rightarrow> Inr (Fin q)
     | Some DInf \<Rightarrow> Inr (if starts_with (py_strip s) ''-'' then NegInf else PosInf)
     | Some DNaN \<Rightarrow> Inr NaN)
   | _ \<Rightarrow> Inl PyTypeError)"

text \<open>\<open>x <= y\<close> for a float and a finite number.\<close>

definition fl_le :: "fl \<Rightarrow> rat \<Rightarrow> bool" where
  "fl_le f q \<longleftrightarrow> (case f of Fin p \<Rightarrow> p \<le> q | NegInf \<Rightarrow> True | _ \<Rightarrow> False)"

text \<open>\<open>urlsplit(url)\<close> as \<open>_destination\<close> reads it.\<close>

definition url_scheme :: "string \<Rightarrow> string" where
  "url_scheme url = (if url_rest url = url then [] else py_lower (before (CHR '':'') url))"

definition destination :: "string \<Rightarrow> string \<times> string \<times> string" where
  "destination url = (let u = py_strip url
     in (py_lower (url_scheme u), py_lower (url_netloc u), rstrip_char (CHR ''/'') (url_path u)))"

section \<open>Identities\<close>

definition pre_send_grace :: rat where "pre_send_grace = 10"

definition pre_send_grace_s :: "(string \<Rightarrow> string option) \<Rightarrow> rat" where
  "pre_send_grace_s env =
     (let raw = or_str (case env ''KAZENAI_FINOPS_RESERVE_TIMEOUT_S'' of None \<Rightarrow> ''0.8'' | Some s \<Rightarrow> s) ''0.8'';
          timeout = (case py_float (PStr raw) of Inr (Fin q) \<Rightarrow> q | _ \<Rightarrow> 4 / 5)
      in max pre_send_grace (4 * timeout))"

definition material :: "(string \<times> pyval) list \<Rightarrow> string \<Rightarrow> string \<Rightarrow> (string \<times> pyval) list res" where
  "material body org base =
     bnd (py_int (or_val (kw body ''attempt'') (PInt 0))) (\<lambda>att.
       Inr [(''idempotency_key'', PStr (str_or_empty (kw body ''idempotency_key''))),
            (''org_id'', PStr (or_str org (str_or_empty (kw body ''org_id'')))),
            (''base_url'', PStr (rstrip_char (CHR ''/'') base)),
            (''event'', PStr (str_or_empty (kw body ''event''))),
            (''reservation_id'', PStr (str_or_empty (kw body ''reservation_id''))),
            (''call_id'', PStr (str_or_empty (kw body ''call_id''))),
            (''attempt'', PInt att),
            (''actual_usd_micros'', kw body ''actual_usd_micros''),
            (''lifecycle_version'', PStr (str_or_empty (kw body ''lifecycle_version'')))])"

definition intent_fingerprint ::
  "(string \<Rightarrow> string) \<Rightarrow> ((string \<times> pyval) list \<Rightarrow> string) \<Rightarrow> (string \<times> pyval) list \<Rightarrow> string \<Rightarrow> string \<Rightarrow> string res" where
  "intent_fingerprint sha dump body org base = bnd (material body org base) (\<lambda>m. Inr (sha (dump m)))"

definition claim_identity :: "(string \<Rightarrow> string) \<Rightarrow> string \<Rightarrow> string \<Rightarrow> string \<Rightarrow> string" where
  "claim_identity sha org base idem =
     (let z = [char_of (0 :: nat)] in sha (org @ z @ rstrip_char (CHR ''/'') base @ z @ idem))"

definition record_name :: "string \<Rightarrow> string" where
  "record_name fp = take 40 fp @ ''.json''"

definition claim_name :: "string \<Rightarrow> string" where
  "claim_name identity = take 40 identity @ ''.claim''"

section \<open>Claims\<close>

type_synonym payload = "(string \<times> pyval) list"

record settle_queue =
  pending_dir :: "(string \<times> pyval option) list"
  claims_dir :: "(string \<times> pyval option \<times> rat) list"
  quarantine_dir :: "(string \<times> pyval option) list"

definition stale_claim_s :: rat where "stale_claim_s = 300"

definition read_claim :: "settle_queue \<Rightarrow> string \<Rightarrow> payload option" where
  "read_claim q name = (case map_of (claims_dir q) name of Some (Some (PDict d), _) \<Rightarrow> Some d | _ \<Rightarrow> None)"

definition record_exists :: "settle_queue \<Rightarrow> string \<Rightarrow> bool" where
  "record_exists q name \<longleftrightarrow> name \<in> fst ` set (pending_dir q)"

definition claim_mtime :: "settle_queue \<Rightarrow> string \<Rightarrow> rat" where
  "claim_mtime q name = (case map_of (claims_dir q) name of Some (_, t) \<Rightarrow> t | None \<Rightarrow> 0)"

definition claim_fp :: "payload \<Rightarrow> string" where
  "claim_fp claim = str_or_empty (kw claim ''fingerprint'')"

definition claim_is_orphaned :: "rat \<Rightarrow> payload \<Rightarrow> string \<Rightarrow> settle_queue \<Rightarrow> bool" where
  "claim_is_orphaned now claim name q \<longleftrightarrow>
     (let fp = claim_fp claim in
      if fp \<noteq> [] \<and> record_exists q (record_name fp) then False
      else case (if truthy (kw claim ''claimed_at'') then py_float (kw claim ''claimed_at'') else Inr (Fin (claim_mtime q name))) of
             Inr (Fin since) \<Rightarrow> now - since \<ge> stale_claim_s
           | Inr NegInf \<Rightarrow> True
           | _ \<Rightarrow> False)"

definition remove_claim_if :: "string \<Rightarrow> string \<Rightarrow> settle_queue \<Rightarrow> settle_queue" where
  "remove_claim_if name fp q =
     (case read_claim q name of
        None \<Rightarrow> q
      | Some current \<Rightarrow> if claim_fp current \<noteq> fp then q else q\<lparr>claims_dir := AList.delete name (claims_dir q)\<rparr>)"

text \<open>\<open>os.link\<close>: the claim appears at once, or the name is taken.\<close>

definition link_claim :: "rat \<Rightarrow> string \<Rightarrow> string \<Rightarrow> settle_queue \<Rightarrow> settle_queue option" where
  "link_claim now name fp q =
     (if name \<in> fst ` set (claims_dir q) then None
      else Some (q\<lparr>claims_dir := (name, Some (PDict [(''fingerprint'', PStr fp), (''claimed_at'', PFloat (Fin now) [])]), now)
                     # claims_dir q\<rparr>))"

fun acquire_rounds :: "nat \<Rightarrow> rat \<Rightarrow> string \<Rightarrow> string \<Rightarrow> settle_queue \<Rightarrow> unit res \<times> settle_queue" where
  "acquire_rounds 0 now name fp q = (Inl SettleIntentConflict, q)"
| "acquire_rounds (Suc n) now name fp q =
     (case read_claim q name of
        Some existing \<Rightarrow>
          if claim_fp existing = fp then (Inr (), q)
          else if claim_is_orphaned now existing name q
               then acquire_rounds n now name fp (remove_claim_if name (claim_fp existing) q)
               else (Inl SettleIntentConflict, q)
      | None \<Rightarrow>
          (case link_claim now name fp q of
             None \<Rightarrow> acquire_rounds n now name fp q
           | Some q' \<Rightarrow> (Inr (), q')))"

definition acquire_claim :: "rat \<Rightarrow> string \<Rightarrow> string \<Rightarrow> settle_queue \<Rightarrow> unit res \<times> settle_queue" where
  "acquire_claim now identity fp q = acquire_rounds 8 now (claim_name identity) fp q"

definition claim_binds :: "string \<Rightarrow> string \<Rightarrow> settle_queue \<Rightarrow> bool" where
  "claim_binds identity fp q = (case read_claim q (claim_name identity) of None \<Rightarrow> False | Some c \<Rightarrow> claim_fp c = fp)"

definition dict_field :: "payload \<Rightarrow> string \<Rightarrow> payload" where
  "dict_field d k = (case kw d k of PDict b \<Rightarrow> b | _ \<Rightarrow> [])"

text \<open>The identity a record's claim has.\<close>

definition record_identity :: "(string \<Rightarrow> string) \<Rightarrow> payload \<Rightarrow> string" where
  "record_identity sha r = claim_identity sha (str_or_empty (kw r ''org_id'')) (str_or_empty (kw r ''base_url''))
     (str_or_empty (kw (dict_field r ''body'') ''idempotency_key''))"

definition release_claim_for :: "(string \<Rightarrow> string) \<Rightarrow> payload \<Rightarrow> settle_queue \<Rightarrow> settle_queue" where
  "release_claim_for sha r q =
     (if str_or_empty (kw (dict_field r ''body'') ''idempotency_key'') = [] then q
      else remove_claim_if (claim_name (record_identity sha r)) (str_or_empty (kw r ''fingerprint'')) q)"

section \<open>Records\<close>

definition read_record :: "settle_queue \<Rightarrow> string \<Rightarrow> payload option" where
  "read_record q name = (case map_of (pending_dir q) name of Some (Some (PDict d)) \<Rightarrow> Some d | _ \<Rightarrow> None)"

definition write_record :: "string \<Rightarrow> payload \<Rightarrow> settle_queue \<Rightarrow> settle_queue" where
  "write_record name r q = q\<lparr>pending_dir := AList.update name (Some (PDict r)) (pending_dir q)\<rparr>"

definition remove_record :: "string \<Rightarrow> settle_queue \<Rightarrow> settle_queue" where
  "remove_record name q = q\<lparr>pending_dir := AList.delete name (pending_dir q)\<rparr>"

definition ack ::
  "(string \<Rightarrow> string) \<Rightarrow> string \<Rightarrow> string option \<Rightarrow> bool \<Rightarrow> settle_queue \<Rightarrow> bool \<times> settle_queue" where
  "ack sha name fp release_claim q =
     (if \<not> record_exists q name then (False, q)
      else if (case fp of None \<Rightarrow> False | Some f \<Rightarrow> f \<noteq> [] \<and>
                 (case read_record q name of None \<Rightarrow> True | Some r \<Rightarrow> kw r ''fingerprint'' \<noteq> PStr f))
      then (False, q)
      else (True,
        case read_record q name of
          Some r \<Rightarrow> if release_claim then release_claim_for sha r (remove_record name q) else remove_record name q
        | None \<Rightarrow> remove_record name q))"

definition new_record ::
  "rat \<Rightarrow> rat \<Rightarrow> string \<Rightarrow> string \<Rightarrow> payload \<Rightarrow> string \<Rightarrow> string \<Rightarrow> string \<Rightarrow> string \<Rightarrow> payload" where
  "new_record now grace rid fp body error base key org =
     [(''fingerprint'', PStr fp), (''record_id'', PStr rid), (''body'', PDict body), (''error'', PStr error),
      (''base_url'', PStr base), (''api_key'', PStr key), (''org_id'', PStr org), (''enqueued_at'', PFloat (Fin now) []),
      (''attempts'', PInt 0),
      (''next_attempt_at'', PFloat (Fin (now + (if error = ''pre_send'' then grace else 0))) [])]"

definition same_intent :: "settle_queue \<Rightarrow> string \<Rightarrow> string \<Rightarrow> payload \<Rightarrow> string \<Rightarrow> string \<Rightarrow> bool" where
  "same_intent q name fp body org base =
     (case read_record q name of
        None \<Rightarrow> False
      | Some r \<Rightarrow> kw r ''fingerprint'' = PStr fp \<and> py_eq (kw r ''body'') (PDict body) \<and>
                  str_or_empty (kw r ''org_id'') = org \<and> str_or_empty (kw r ''base_url'') = base)"

text \<open>\<open>enqueue\<close>. \<open>rid\<close> is the fresh record id, \<open>grace\<close> is \<open>_pre_send_grace_s()\<close>. The claim is checked again after
  the record is written, and the record withdrawn when another intent holds it by then.\<close>

definition enqueue ::
  "(string \<Rightarrow> string) \<Rightarrow> (payload \<Rightarrow> string) \<Rightarrow> rat \<Rightarrow> rat \<Rightarrow> string \<Rightarrow> payload \<Rightarrow> string \<Rightarrow> string \<Rightarrow> string \<Rightarrow> string \<Rightarrow> bool
    \<Rightarrow> settle_queue \<Rightarrow> string res \<times> settle_queue" where
  "enqueue sha dump now grace rid body error base_url api_key org_id persist q =
     (let org = or_str org_id (str_or_empty (kw body ''org_id''));
          base = rstrip_char (CHR ''/'') base_url;
          idem = str_or_empty (kw body ''idempotency_key'');
          identity = claim_identity sha org base idem in
      case intent_fingerprint sha dump body org base of
        Inl x \<Rightarrow> (Inl x, q)
      | Inr fp \<Rightarrow>
          let name = record_name fp in
          (case (if idem = [] then (Inr (), q) else acquire_claim now identity fp q) of
             (Inl x, q1) \<Rightarrow> (Inl x, q1)
           | (Inr _, q1) \<Rightarrow>
               if same_intent q1 name fp body org base then (Inr name, q1)
               else
                 let q2 = write_record name (new_record now grace rid fp body error base (if persist then api_key else []) org) q1
                 in if idem = [] \<or> claim_binds identity fp q2 then (Inr name, q2)
                    else (case acquire_claim now identity fp q2 of
                            (Inr _, q3) \<Rightarrow> (Inr name, q3)
                          | (Inl x, q3) \<Rightarrow> (Inl x, snd (ack sha name (Some fp) False q3)))))"

definition quarantine :: "string \<Rightarrow> settle_queue \<Rightarrow> settle_queue" where
  "quarantine name q =
     (case map_of (pending_dir q) name of
        None \<Rightarrow> q
      | Some c \<Rightarrow> q\<lparr>pending_dir := AList.delete name (pending_dir q), quarantine_dir := quarantine_dir q @ [(name, c)]\<rparr>)"

fun list_names :: "string list \<Rightarrow> settle_queue \<Rightarrow> (string \<times> payload) list \<times> settle_queue" where
  "list_names [] q = ([], q)"
| "list_names (name # names) q =
     (if \<not> ends_with name ''.json'' then list_names names q
      else case map_of (pending_dir q) name of
             None \<Rightarrow> list_names names q
           | Some (Some (PDict d)) \<Rightarrow>
               if is_mapping (kw d ''body'')
               then (case list_names names q of (out, q') \<Rightarrow> ((name, d) # out, q'))
               else list_names names (quarantine name q)
           | Some _ \<Rightarrow> list_names names (quarantine name q))"

definition list_pending :: "settle_queue \<Rightarrow> (string \<times> payload) list \<times> settle_queue" where
  "list_pending q = list_names (sort (map fst (pending_dir q))) q"

definition backoff_base_s :: rat where "backoff_base_s = 1"
definition backoff_cap_s :: rat where "backoff_cap_s = 300"

text \<open>\<open>random.uniform(0, ceiling)\<close> is \<open>u * ceiling\<close> for a \<open>u\<close> between 0 and 1. The server's hint is a float; its
  \<open>max\<close> and \<open>min\<close> keep the first argument when the hint is not a number.\<close>

definition backoff_wait :: "rat \<Rightarrow> int \<Rightarrow> fl option \<Rightarrow> rat" where
  "backoff_wait u attempts retry_after =
     (let ceiling = min backoff_cap_s (backoff_base_s * 2 powi (min attempts 16));
          wait = u * ceiling
      in case retry_after of
           None \<Rightarrow> wait
         | Some (Fin h) \<Rightarrow> min backoff_cap_s (max wait h)
         | Some PosInf \<Rightarrow> backoff_cap_s
         | Some _ \<Rightarrow> min backoff_cap_s wait)"

definition schedule_retry :: "rat \<Rightarrow> rat \<Rightarrow> string \<times> payload \<Rightarrow> fl option \<Rightarrow> settle_queue \<Rightarrow> unit res \<times> settle_queue" where
  "schedule_retry now u item retry_after q =
     (case item of (name, r) \<Rightarrow>
        if name = [] then (Inr (), q)
        else case py_int (or_val (kw r ''attempts'') (PInt 0)) of
               Inl x \<Rightarrow> (Inl x, q)
             | Inr n \<Rightarrow>
                 let attempts = n + 1;
                     kept = filter (\<lambda>(k, _). \<not> starts_with k ''_'') r;
                     r' = dset ''next_attempt_at'' (PFloat (Fin (now + backoff_wait u attempts retry_after)) [])
                            (dset ''attempts'' (PInt attempts) kept)
                 in (Inr (), write_record name r' q))"

definition release :: "rat \<Rightarrow> string \<Rightarrow> string option \<Rightarrow> settle_queue \<Rightarrow> bool \<times> settle_queue" where
  "release now name fp q =
     (case read_record q name of
        None \<Rightarrow> (False, q)
      | Some r \<Rightarrow>
          if kw r ''error'' \<noteq> PStr ''pre_send'' then (False, q)
          else if (case fp of None \<Rightarrow> False | Some f \<Rightarrow> f \<noteq> [] \<and> str_or_empty (kw r ''fingerprint'') \<noteq> f) then (False, q)
          else (True, write_record name (dset ''next_attempt_at'' (PFloat (Fin now) [])
                        (dset ''error'' (PStr ''sender_unacked'') r)) q))"

text \<open>\<open>_backfill_claims\<close>, run when a queue is opened.\<close>

definition backfill_one :: "(string \<Rightarrow> string) \<Rightarrow> rat \<Rightarrow> string \<times> payload \<Rightarrow> settle_queue \<Rightarrow> settle_queue" where
  "backfill_one sha now item q =
     (let r = snd item; idem = str_or_empty (kw (dict_field r ''body'') ''idempotency_key'');
          fp = str_or_empty (kw r ''fingerprint''); identity = record_identity sha r
      in if idem = [] \<or> fp = [] then q
         else if claim_name identity \<in> fst ` set (claims_dir q) then q
         else snd (acquire_claim now identity fp q))"

definition open_queue :: "(string \<Rightarrow> string) \<Rightarrow> rat \<Rightarrow> settle_queue \<Rightarrow> settle_queue" where
  "open_queue sha now q = (case list_pending q of (items, q1) \<Rightarrow> fold (backfill_one sha now) items q1)"

end
