(* ===== verification/Settle_Delivery.thy ===== *)
theory Settle_Delivery
  imports Settle_Queue
begin

text \<open>
  Delivering settlements to Agent FinOps: \<open>_post_settle_sync\<close> and its helpers in kazenai/spine/guard.py,
  and the flusher of kazenai/spine/settle_queue.py. The HTTP exchange is an argument: what the server
  (or the transport) answers to a body. Tracing spans are left out.
\<close>

unbundle bit_operations_syntax

section \<open>Answers\<close>

datatype http_result =
    Http_Ok string
  | Http_Error int "string option" string
  | Http_Fail

definition finops_result_ack :: "pyval \<Rightarrow> string \<Rightarrow> bool" where
  "finops_result_ack payload event \<longleftrightarrow> (case payload of
     PDict d \<Rightarrow>
       let code = py_lower (py_strip (str_or_empty (or_val (kw d ''result'') (kw d ''status'')))) in
       if event = ''usage_known'' then code \<in> {''applied'', ''duplicate''}
       else if event \<in> {''provider_started'', ''cancel_before_call'', ''outcome_unknown'', ''replay_pending''} then
         (if event \<in> {''outcome_unknown'', ''replay_pending''} then code \<in> {''applied'', ''duplicate'', ''pending''}
          else code \<in> {''applied'', ''duplicate''})
       else code \<in> {''applied'', ''duplicate''}
   | _ \<Rightarrow> False)"

text \<open>\<open>_retry_after_seconds\<close> with its cap of 300; \<open>http_date\<close> is \<open>_http_date_delay_seconds\<close>.\<close>

definition retry_after_seconds :: "(string \<Rightarrow> rat option) \<Rightarrow> string option \<Rightarrow> rat option" where
  "retry_after_seconds http_date header =
     (let raw = py_strip (case header of None \<Rightarrow> [] | Some s \<Rightarrow> s) in
      if raw = [] then None
      else case py_float (PStr raw) of
             Inr (Fin q) \<Rightarrow> if q < 0 then None else Some (min 300 q)
           | Inr NegInf \<Rightarrow> None
           | Inr _ \<Rightarrow> Some 300
           | Inl _ \<Rightarrow> (case http_date raw of None \<Rightarrow> None | Some q \<Rightarrow> if q < 0 then None else Some (min 300 q)))"

definition permanent_settle_conflicts :: "string list" where
  "permanent_settle_conflicts = [''idempotency_payload_mismatch'']"

definition permanent_settle_rejection :: "(string \<Rightarrow> pyval option) \<Rightarrow> int \<Rightarrow> string \<Rightarrow> (int \<times> string) option" where
  "permanent_settle_rejection loads status body =
     (if status = 408 \<or> status = 429 \<or> \<not> (400 \<le> status \<and> status < 500) then None
      else
        let parsed = (case loads (or_str body ''{}'') of None \<Rightarrow> PDict [] | Some v \<Rightarrow> v);
            detail = (if is_mapping parsed then field parsed ''detail'' else PNone);
            code0 = (if is_mapping detail then str_or_empty (field detail ''error_code'') else []);
            code = (if status = 409 \<and> code0 \<notin> set permanent_settle_conflicts then or_str code0 ''http_409'' else code0)
        in Some (status, or_str code (''http_'' @ int_str status)))"

section \<open>One POST\<close>

datatype post_result = Posted bool | Rejected int string | Retry int "rat option" | Post_Raised exn

record post_env =
  pe_sha :: "string \<Rightarrow> string"
  pe_dump :: "payload \<Rightarrow> string"
  pe_loads :: "string \<Rightarrow> pyval option"
  pe_http_date :: "string \<Rightarrow> rat option"
  pe_now :: rat
  pe_grace :: rat
  pe_record_id :: string

definition journal_settle_intent :: "post_env \<Rightarrow> payload \<Rightarrow> string \<Rightarrow> string \<Rightarrow> string \<Rightarrow> settle_queue \<Rightarrow> (string \<times> string) res \<times> settle_queue" where
  "journal_settle_intent pe payload base org error q =
     (case intent_fingerprint (pe_sha pe) (pe_dump pe) payload org base of
        Inl x \<Rightarrow> (Inl x, q)
      | Inr fp \<Rightarrow>
          (case enqueue (pe_sha pe) (pe_dump pe) (pe_now pe) (pe_grace pe) (pe_record_id pe) payload error base [] org False q of
             (Inl x, q') \<Rightarrow> (Inl x, q')
           | (Inr path, q') \<Rightarrow> (Inr (path, fp), q')))"

text \<open>\<open>_enqueue_settle_intent\<close>: every failure is swallowed.\<close>

definition enqueue_settle_intent :: "post_env \<Rightarrow> payload \<Rightarrow> string \<Rightarrow> string \<Rightarrow> string \<Rightarrow> settle_queue \<Rightarrow> settle_queue" where
  "enqueue_settle_intent pe payload base org error q = snd (journal_settle_intent pe payload base org error q)"

definition payload_ints :: "payload \<Rightarrow> unit res" where
  "payload_ints payload =
     bnd (py_int (or_val (kw payload ''attempt'') (PInt 0))) (\<lambda>_.
     bnd (if kw payload ''actual_usd_micros'' = PNone then Inr 0 else py_int (kw payload ''actual_usd_micros'')) (\<lambda>_. Inr ()))"

definition post_settle ::
  "post_env \<Rightarrow> (payload \<Rightarrow> http_result) \<Rightarrow> string \<Rightarrow> string \<Rightarrow> payload \<Rightarrow> bool \<Rightarrow> bool \<Rightarrow> bool \<Rightarrow> settle_queue
    \<Rightarrow> post_result \<times> settle_queue" where
  "post_settle pe http base org payload enqueue_on_failure journal_before_send raise_on_permanent q =
     (case payload_ints payload of
        Inl x \<Rightarrow> (Post_Raised x, q)
      | Inr _ \<Rightarrow>
          let event = str_or_empty (kw payload ''event'');
              journals = (journal_before_send \<and> enqueue_on_failure);
              journaled = (if journals then journal_settle_intent pe payload base org ''pre_send'' q else (Inr ([], []), q))
          in (case journaled of
                (Inl x, q1) \<Rightarrow> (Post_Raised x, q1)
              | (Inr (path, fp), q1) \<Rightarrow>
                  let unsent = (\<lambda>error. if enqueue_on_failure \<and> path = []
                         then enqueue_settle_intent pe payload base org error q1 else q1);
                      give_back = (\<lambda>q2. if path \<noteq> [] \<and> fp \<noteq> [] then snd (release (pe_now pe) path (Some fp) q2) else q2)
                  in (case http payload of
                        Http_Ok raw \<Rightarrow>
                          let parsed = (case pe_loads pe (or_str raw ''{}'') of Some (PDict d) \<Rightarrow> PDict d | _ \<Rightarrow> PDict []) in
                          if finops_result_ack parsed event
                          then (Posted True, if path \<noteq> [] \<and> fp \<noteq> [] then snd (ack (pe_sha pe) path (Some fp) True q1) else q1)
                          else (Posted False, give_back (unsent (''result_'' @
                                  or_str (str_or_empty (or_val (field parsed ''result'') (field parsed ''status''))) ''unacked'')))
                      | Http_Error status header body \<Rightarrow>
                          (case (if raise_on_permanent then permanent_settle_rejection (pe_loads pe) status body else None) of
                             Some (st, code) \<Rightarrow> (Rejected st code, give_back q1)
                           | None \<Rightarrow>
                               if raise_on_permanent \<and> (status \<in> {408, 429} \<or> status \<ge> 500)
                               then (Retry status (retry_after_seconds (pe_http_date pe) header), give_back q1)
                               else (Posted False, give_back (unsent (''http_'' @ int_str status))))
                      | Http_Fail \<Rightarrow> (Posted False, give_back (unsent ''transport_error'')))))"

section \<open>The flusher\<close>

definition queue_dir_unsafe :: "(int \<times> int) option \<Rightarrow> int \<Rightarrow> bool" where
  "queue_dir_unsafe st euid \<longleftrightarrow> (case st of None \<Rightarrow> True | Some (uid, mode) \<Rightarrow> uid \<noteq> euid \<or> mode AND 18 \<noteq> 0)"

record flush_result =
  fr_applied :: nat
  fr_failed :: nat
  fr_rejected :: nat
  fr_refused :: nat
  fr_locked :: nat

definition no_flush :: flush_result where
  "no_flush = \<lparr>fr_applied = 0, fr_failed = 0, fr_rejected = 0, fr_refused = 0, fr_locked = 0\<rparr>"

definition failed_one :: "flush_result \<Rightarrow> flush_result" where
  "failed_one c = c\<lparr>fr_failed := fr_failed c + 1\<rparr>"

text \<open>\<open>schedule_retry\<close> where the flusher calls it outside its \<open>try\<close>, and inside the handlers: an exception
  leaves the flush.\<close>

definition retry_later :: "post_env \<Rightarrow> rat \<Rightarrow> string \<times> payload \<Rightarrow> fl option \<Rightarrow> flush_result \<Rightarrow> settle_queue
    \<Rightarrow> flush_result res \<times> settle_queue" where
  "retry_later pe u item hint c q =
     (case schedule_retry (pe_now pe) u item hint q of
        (Inl x, q') \<Rightarrow> (Inl x, q')
      | (Inr _, q') \<Rightarrow> (Inr (failed_one c), q'))"

definition flush_item ::
  "post_env \<Rightarrow> (string \<Rightarrow> rat) \<Rightarrow> (payload \<Rightarrow> http_result) \<Rightarrow> string \<Rightarrow> string \<times> payload \<Rightarrow> flush_result \<Rightarrow> settle_queue
    \<Rightarrow> flush_result res \<times> settle_queue" where
  "flush_item pe u http base item c q =
     (let name = fst item; r = snd item; body = dict_field r ''body'';
          fp = str_or_empty (kw r ''fingerprint'') in
      if body = [] \<or> name = [] then (Inr c, q)
      else case py_float (or_val (kw r ''next_attempt_at'') (PInt 0)) of
        Inl x \<Rightarrow> (Inl x, q)
      | Inr due \<Rightarrow>
          if (case due of Fin t \<Rightarrow> t > pe_now pe | PosInf \<Rightarrow> True | _ \<Rightarrow> False) then (Inr c, q)
          else
            let org = or_str (str_or_empty (kw r ''org_id'')) (str_or_empty (kw body ''org_id'')) in
            if base = [] then retry_later pe (u name) item None c q
            else
              let stored = str_or_empty (kw r ''base_url'') in
              if stored \<noteq> [] \<and> destination stored \<noteq> destination base
              then (Inr (c\<lparr>fr_rejected := fr_rejected c + 1\<rparr>), quarantine name q)
              else
                case (if fp = [] then intent_fingerprint (pe_sha pe) (pe_dump pe) body org base else Inr fp) of
                  Inl x \<Rightarrow> (Inl x, q)
                | Inr expected \<Rightarrow>
                    (case post_settle pe http base org body False False True q of
                       (Posted True, q1) \<Rightarrow>
                         (case ack (pe_sha pe) name (Some expected) True q1 of
                            (True, q2) \<Rightarrow> (Inr (c\<lparr>fr_applied := fr_applied c + 1\<rparr>), q2)
                          | (False, q2) \<Rightarrow> (Inr (failed_one c), q2))
                     | (Posted False, q1) \<Rightarrow> retry_later pe (u name) item None c q1
                     | (Retry _ hint, q1) \<Rightarrow> retry_later pe (u name) item (map_option Fin hint) c q1
                     | (Rejected _ _, q1) \<Rightarrow> (Inr (c\<lparr>fr_rejected := fr_rejected c + 1\<rparr>), quarantine name q1)
                     | (Post_Raised _, q1) \<Rightarrow> retry_later pe (u name) item None c q1))"

fun flush_items ::
  "post_env \<Rightarrow> (string \<Rightarrow> rat) \<Rightarrow> (payload \<Rightarrow> http_result) \<Rightarrow> string \<Rightarrow> (string \<times> payload) list \<Rightarrow> flush_result \<Rightarrow> settle_queue
    \<Rightarrow> flush_result res \<times> settle_queue" where
  "flush_items pe u http base [] c q = (Inr c, q)"
| "flush_items pe u http base (item # items) c q =
     (case flush_item pe u http base item c q of
        (Inl x, q') \<Rightarrow> (Inl x, q')
      | (Inr c', q') \<Rightarrow> flush_items pe u http base items c' q')"

definition finops_url :: "(string \<Rightarrow> string option) \<Rightarrow> string" where
  "finops_url env =
     (let get = (\<lambda>k. py_strip (case env k of None \<Rightarrow> [] | Some s \<Rightarrow> s))
      in rstrip_char (CHR ''/'') (or_str (get ''KAZENAI_FINOPS_URL'') (get ''KAZENAI_FINOPS_INGEST_URL'')))"

definition flush_locked ::
  "post_env \<Rightarrow> (string \<Rightarrow> string option) \<Rightarrow> (string \<Rightarrow> rat) \<Rightarrow> (payload \<Rightarrow> http_result) \<Rightarrow> bool \<Rightarrow> string \<Rightarrow> settle_queue
    \<Rightarrow> flush_result res \<times> settle_queue" where
  "flush_locked pe env u http unsafe default_base q =
     (if unsafe then (Inr (no_flush\<lparr>fr_refused := 1\<rparr>), q)
      else case list_pending q of (items, q1) \<Rightarrow>
             flush_items pe u http (rstrip_char (CHR ''/'') (or_str default_base (finops_url env))) items no_flush q1)"

text \<open>\<open>flush_pending_settlements\<close> without the file of its last outcome, and the exit code of \<open>main\<close>.\<close>

definition flush_pending ::
  "post_env \<Rightarrow> (string \<Rightarrow> string option) \<Rightarrow> (string \<Rightarrow> rat) \<Rightarrow> (payload \<Rightarrow> http_result) \<Rightarrow> bool \<Rightarrow> bool \<Rightarrow> string \<Rightarrow> settle_queue
    \<Rightarrow> flush_result res \<times> settle_queue" where
  "flush_pending pe env u http owned unsafe default_base q =
     (if \<not> owned then (Inr (no_flush\<lparr>fr_locked := 1\<rparr>), q) else flush_locked pe env u http unsafe default_base q)"

definition flush_exit_code :: "flush_result \<Rightarrow> int" where
  "flush_exit_code c = (if fr_locked c \<noteq> 0 then 3 else if fr_failed c \<noteq> 0 \<or> fr_rejected c \<noteq> 0 \<or> fr_refused c \<noteq> 0 then 1 else 0)"

end
