(* ===== verification/Settle_Facts.thy ===== *)
theory Settle_Facts
  imports Settle_Delivery
begin

text \<open>
  What the settlement queue promises, one call at a time and with crashes between the file operations
  of a call: one exact intent per idempotency key, no intent dropped before FinOps acknowledged it, and
  backoff inside its bounds; and where the flusher falls short of its comments.
\<close>

section \<open>Invariant\<close>

abbreviation rec_fp :: "payload \<Rightarrow> string" where
  "rec_fp r \<equiv> str_or_empty (kw r ''fingerprint'')"

abbreviation rec_idem :: "payload \<Rightarrow> string" where
  "rec_idem r \<equiv> str_or_empty (kw (dict_field r ''body'') ''idempotency_key'')"

definition bound :: "settle_queue \<Rightarrow> string \<Rightarrow> string \<Rightarrow> bool" where
  "bound q name fp \<longleftrightarrow> (\<exists>c. read_claim q name = Some c \<and> claim_fp c = fp)"

text \<open>A record named by its fingerprint, with a body, whose idempotency key is claimed for it.\<close>

definition rec_ok :: "(string \<Rightarrow> string) \<Rightarrow> settle_queue \<Rightarrow> string \<Rightarrow> payload \<Rightarrow> bool" where
  "rec_ok sha q name r \<longleftrightarrow> rec_fp r \<noteq> [] \<and> name = record_name (rec_fp r) \<and> kw r ''fingerprint'' = PStr (rec_fp r)
     \<and> is_mapping (kw r ''body'') \<and> (rec_idem r \<noteq> [] \<longrightarrow> bound q (claim_name (record_identity sha r)) (rec_fp r))"

definition queue_ok :: "(string \<Rightarrow> string) \<Rightarrow> settle_queue \<Rightarrow> bool" where
  "queue_ok sha q \<longleftrightarrow> distinct (map fst (pending_dir q)) \<and>
     (\<forall>name c. map_of (pending_dir q) name = Some c \<longrightarrow> (\<exists>r. c = Some (PDict r) \<and> rec_ok sha q name r))"

lemma queue_okD:
  assumes "queue_ok sha q" "read_record q name = Some r" shows "rec_ok sha q name r"
  using assms by (auto simp: queue_ok_def read_record_def split: option.splits pyval.splits)

lemma record_exists_map: "record_exists q name \<longleftrightarrow> map_of (pending_dir q) name \<noteq> None"
  by (simp add: record_exists_def map_of_eq_None_iff)

lemma ok_exists: "queue_ok sha q \<Longrightarrow> record_exists q name \<longleftrightarrow> (\<exists>r. read_record q name = Some r)"
proof (cases "map_of (pending_dir q) name")
  case (Some c)
  moreover assume "queue_ok sha q"
  ultimately obtain r where "c = Some (PDict r)" unfolding queue_ok_def by blast
  with Some show ?thesis by (simp add: record_exists_map read_record_def)
qed (simp add: record_exists_map read_record_def)

lemma bound_cong: "claims_dir q' = claims_dir q \<Longrightarrow> bound q' = bound q"
  by (simp add: bound_def read_claim_def fun_eq_iff)

lemma rec_ok_cong:
  assumes "claims_dir q' = claims_dir q" shows "rec_ok sha q' name r = rec_ok sha q name r"
  unfolding rec_ok_def bound_cong [OF assms] ..

section \<open>Claims\<close>

lemma read_claim_delete:
  "read_claim (q\<lparr>claims_dir := AList.delete name (claims_dir q)\<rparr>) name' = (if name' = name then None else read_claim q name')"
  by (simp add: read_claim_def delete_conv)

lemma remove_claim_frame [simp]:
  "pending_dir (remove_claim_if name fp q) = pending_dir q" "quarantine_dir (remove_claim_if name fp q) = quarantine_dir q"
  by (simp_all add: remove_claim_if_def split: option.split)

lemma bound_remove:
  "bound (remove_claim_if name fp q) name' fp' \<longleftrightarrow> bound q name' fp' \<and> \<not> (name' = name \<and> fp' = fp)"
proof (cases "read_claim q name")
  case None
  then show ?thesis by (auto simp: remove_claim_if_def bound_def)
next
  case (Some c)
  then show ?thesis by (auto simp: remove_claim_if_def bound_def read_claim_delete)
qed

lemma link_claim_spec:
  assumes "link_claim now name fp q = Some q'" "fp \<noteq> []"
  shows "pending_dir q' = pending_dir q" "quarantine_dir q' = quarantine_dir q"
    "bound q' name' fp' \<longleftrightarrow> (if name' = name then fp' = fp else bound q name' fp')" "\<not> bound q name fp'"
proof -
  from assms have q': "name \<notin> fst ` set (claims_dir q)"
    "q' = q\<lparr>claims_dir := (name, Some (PDict [(''fingerprint'', PStr fp), (''claimed_at'', PFloat (Fin now) [])]), now) # claims_dir q\<rparr>"
    by (auto simp: link_claim_def split: if_splits)
  then show "pending_dir q' = pending_dir q" "quarantine_dir q' = quarantine_dir q" by simp_all
  have "map_of (claims_dir q) name = None" using q'(1) by (simp add: map_of_eq_None_iff)
  then show "\<not> bound q name fp'" by (simp add: bound_def read_claim_def)
  show "bound q' name' fp' \<longleftrightarrow> (if name' = name then fp' = fp else bound q name' fp')"
    by (auto simp: q'(2) bound_def read_claim_def claim_fp_def kw_def)
qed

text \<open>Taking a claim never takes one a record needs.\<close>

lemma acquire_rounds_spec:
  assumes "acquire_rounds n now name fp q = (r, q')" "queue_ok sha q" "fp \<noteq> []"
  shows "pending_dir q' = pending_dir q \<and> quarantine_dir q' = quarantine_dir q \<and> queue_ok sha q' \<and> (r = Inr () \<longrightarrow> bound q' name fp)"
  using assms
proof (induction n arbitrary: q)
  case (Suc n)
  show ?case
  proof (cases "read_claim q name")
    case None
    show ?thesis
    proof (cases "link_claim now name fp q")
      case (Some q1)
      note l = link_claim_spec [OF Some Suc.prems(3)]
      have "queue_ok sha q1"
        using Suc.prems(2) l(4) unfolding queue_ok_def l(1) rec_ok_def l(3) by (metis (no_types, lifting))
      then show ?thesis using Suc.prems(1) None Some l by (auto simp: l(3))
    qed (use Suc None in auto)
  next
    case (Some c)
    show ?thesis
    proof (cases "claim_fp c \<noteq> fp \<and> claim_is_orphaned now c name q")
      case True
      let ?q = "remove_claim_if name (claim_fp c) q"
      have free: "\<not> (claim_name (record_identity sha r) = name \<and> rec_fp r = claim_fp c)"
        if "map_of (pending_dir q) nm = Some (Some (PDict r))" "rec_ok sha q nm r" for nm r
        using that True by (auto simp: claim_is_orphaned_def Let_def record_exists_map rec_ok_def)
      have "queue_ok sha ?q"
        using Suc.prems(2) free unfolding queue_ok_def remove_claim_frame rec_ok_def bound_remove
        by (metis (no_types, lifting))
      with Suc.IH [of ?q] Suc.prems Some True show ?thesis by auto
    next
      case False
      with Suc.prems Some show ?thesis by (auto simp: bound_def split: if_splits)
    qed
  qed
qed auto

section \<open>Files\<close>

lemma read_record_write: "read_record (write_record name r q) name' = (if name' = name then Some r else read_record q name')"
  by (simp add: read_record_def write_record_def update_conv)

lemma read_record_remove: "read_record (remove_record name q) name' = (if name' = name then None else read_record q name')"
  by (simp add: read_record_def remove_record_def delete_conv)

lemma files_frame [simp]:
  "claims_dir (write_record name r q) = claims_dir q" "claims_dir (remove_record name q) = claims_dir q"
  "quarantine_dir (write_record name r q) = quarantine_dir q" "quarantine_dir (remove_record name q) = quarantine_dir q"
  "claims_dir (quarantine name q) = claims_dir q"
  by (simp_all add: write_record_def remove_record_def quarantine_def split: option.split)

lemma ok_write:
  assumes "queue_ok sha q" "rec_ok sha q name r" shows "queue_ok sha (write_record name r q)"
  using assms unfolding queue_ok_def rec_ok_cong [OF files_frame(1)]
  by (auto simp: write_record_def update_conv distinct_update)

lemma ok_remove: "queue_ok sha q \<Longrightarrow> queue_ok sha (remove_record name q)"
  unfolding queue_ok_def rec_ok_cong [OF files_frame(2)]
  by (auto simp: remove_record_def delete_conv distinct_delete)

lemma ok_quarantine:
  assumes ok: "queue_ok sha q" shows "queue_ok sha (quarantine name q)"
proof (cases "map_of (pending_dir q) name")
  case (Some c)
  have "queue_ok sha (remove_record name q)" by (rule ok_remove [OF ok])
  then show ?thesis using Some
    unfolding queue_ok_def rec_ok_cong [OF files_frame(2)] rec_ok_cong [OF files_frame(5)]
    by (simp add: quarantine_def remove_record_def)
qed (simp add: quarantine_def ok)

text \<open>The names kept: pending or set aside.\<close>

definition journal :: "settle_queue \<Rightarrow> string set" where
  "journal q = fst ` set (pending_dir q) \<union> fst ` set (quarantine_dir q)"

lemma journal_files:
  "journal (write_record name r q) = insert name (journal q)"
  "journal (quarantine name q) = journal q"
  "journal (remove_record name q) = (fst ` set (pending_dir q) - {name}) \<union> fst ` set (quarantine_dir q)"
proof -
  show "journal (write_record name r q) = insert name (journal q)"
    by (auto simp: journal_def write_record_def dom_update)
  show "journal (remove_record name q) = (fst ` set (pending_dir q) - {name}) \<union> fst ` set (quarantine_dir q)"
    by (simp add: journal_def remove_record_def delete_keys [unfolded set_map [symmetric]] flip: set_map)
  show "journal (quarantine name q) = journal q"
  proof (cases "map_of (pending_dir q) name")
    case (Some c)
    then have "name \<in> fst ` set (pending_dir q)" by (force dest: map_of_SomeD)
    moreover have "fst ` set (AList.delete name (pending_dir q)) = fst ` set (pending_dir q) - {name}"
      by (simp add: delete_keys flip: set_map)
    ultimately show ?thesis using Some by (auto simp: journal_def quarantine_def)
  qed (simp add: quarantine_def)
qed

section \<open>Operations\<close>

lemma str_simps: "str_or_empty (kw [(k, PStr s)] k) = s"
  by (simp add: kw_def)

lemma rec_ok_new:
  assumes "fp \<noteq> []" "idem = str_or_empty (kw body ''idempotency_key'')"
    "idem \<noteq> [] \<longrightarrow> bound q (claim_name (claim_identity sha org (rstrip_char (CHR ''/'') base) idem)) fp"
  shows "rec_ok sha q (record_name fp) (new_record now grace rid fp body error (rstrip_char (CHR ''/'') base) key org)"
  using assms by (simp add: rec_ok_def new_record_def kw_def record_identity_def dict_field_def is_mapping_def)

lemma enqueue_spec:
  assumes "enqueue sha dump now grace rid body error base key org persist q = (r, q')" "queue_ok sha q" "\<forall>x. sha x \<noteq> []"
  shows "queue_ok sha q' \<and> (case r of Inl _ \<Rightarrow> journal q' = journal q \<and> pending_dir q' = pending_dir q
    | Inr name \<Rightarrow> journal q' = insert name (journal q) \<and> name \<in> fst ` set (pending_dir q') \<and>
       (\<forall>name'. name' \<noteq> name \<longrightarrow> read_record q' name' = read_record q name'))"
proof -
  define o' b' idem identity where "o' = or_str org (str_or_empty (kw body ''org_id''))"
    and "b' = rstrip_char (CHR ''/'') base" and "idem = str_or_empty (kw body ''idempotency_key'')"
    and "identity = claim_identity sha o' b' idem"
  note d = o'_def [symmetric] b'_def [symmetric] idem_def [symmetric] identity_def [symmetric]
  show ?thesis
  proof (cases "intent_fingerprint sha dump body o' b'")
    case (Inl x)
    have "r = Inl x" "q' = q" using assms(1) unfolding enqueue_def Let_def d by (simp_all add: Inl)
    with assms(2) show ?thesis by simp
  next
    case (Inr fp)
    have fp: "fp \<noteq> []" using Inr assms(3) by (auto simp: intent_fingerprint_def bnd_eq_Inr)
    obtain r1 q1 where 1: "(if idem = [] then (Inr (), q) else acquire_claim now identity fp q) = (r1, q1)" by fastforce
    have a: "pending_dir q1 = pending_dir q \<and> quarantine_dir q1 = quarantine_dir q \<and> queue_ok sha q1 \<and>
        (r1 = Inr () \<longrightarrow> idem \<noteq> [] \<longrightarrow> bound q1 (claim_name identity) fp)"
      using 1 acquire_rounds_spec [of 8 now "claim_name identity" fp q _ _ sha] assms(2) fp
      unfolding acquire_claim_def by (auto split: if_splits)
    have j: "journal q1 = journal q" using a by (simp add: journal_def)
    show ?thesis
    proof (cases r1)
      case (Inl x)
      then show ?thesis using assms(1) Inr 1 a j unfolding enqueue_def Let_def d by auto
    next
      case r1: (Inr v)
      then have b: "idem \<noteq> [] \<longrightarrow> bound q1 (claim_name identity) fp" using a by (simp add: unit_eq)
      let ?rec = "new_record now grace rid fp body error b' (if persist then key else []) o'"
      let ?q2 = "write_record (record_name fp) ?rec q1"
      have ok: "queue_ok sha ?q2"
      proof (rule ok_write)
        show "queue_ok sha q1" using a by blast
        show "rec_ok sha q1 (record_name fp) ?rec"
          using b rec_ok_new [OF fp idem_def, of q1 sha o' base now grace rid error "if persist then key else []"]
          by (simp add: b'_def identity_def)
      qed
      have binds: "idem = [] \<or> claim_binds identity fp ?q2"
        using b by (auto simp: bound_def claim_binds_def read_claim_def write_record_def)
      have e: "enqueue sha dump now grace rid body error base key org persist q =
          (if same_intent q1 (record_name fp) fp body o' b' then (Inr (record_name fp), q1) else (Inr (record_name fp), ?q2))"
        using Inr 1 r1 binds unfolding enqueue_def Let_def d by simp
      have "record_name fp \<in> fst ` set (pending_dir q1)" if "same_intent q1 (record_name fp) fp body o' b'"
        using that by (force simp: same_intent_def read_record_def split: option.splits dest: map_of_SomeD)
      note in1 = this
      have in2: "record_name fp \<in> fst ` set (pending_dir ?q2)" by (simp add: write_record_def dom_update)
      have same1: "read_record q1 nm = read_record q nm" for nm using a by (simp add: read_record_def)
      then have same2: "read_record ?q2 nm = read_record q nm" if "nm \<noteq> record_name fp" for nm
        using that by (simp add: read_record_write)
      have j2: "journal ?q2 = insert (record_name fp) (journal q)" by (simp add: journal_files j)
      show ?thesis
      proof (cases "same_intent q1 (record_name fp) fp body o' b'")
        case True
        then have r: "r = Inr (record_name fp)" "q' = q1" using e assms(1) by simp_all
        have "journal q1 = insert (record_name fp) (journal q)" using in1 [OF True] j unfolding journal_def by auto
        then show ?thesis unfolding r using in1 [OF True] same1 a by simp
      next
        case False
        then have r: "r = Inr (record_name fp)" "q' = ?q2" using e assms(1) by simp_all
        show ?thesis unfolding r using in2 same2 j2 ok by simp
      qed
    qed
  qed
qed

lemma ok_release_claim:
  assumes ok: "queue_ok sha q" and r: "read_record q name = Some r"
  shows "queue_ok sha (release_claim_for sha r (remove_record name q))"
proof -
  note r = queue_okD [OF ok r]
  let ?q = "\<lambda>cn. remove_claim_if cn (rec_fp r) (remove_record name q)"
  have "rec_ok sha (?q cn) nm r'" if "rec_ok sha q nm r'" "nm \<noteq> name" for cn nm r'
    using that r unfolding rec_ok_def bound_remove bound_cong [OF files_frame(2)] by auto
  moreover have "map_of (pending_dir (?q cn)) nm = (if nm = name then None else map_of (pending_dir q) nm)"
    "distinct (map fst (pending_dir (?q cn)))" for cn nm
    using ok by (simp_all add: remove_record_def delete_conv distinct_delete queue_ok_def)
  ultimately have "queue_ok sha (?q cn)" for cn
    using ok unfolding queue_ok_def by (metis (no_types, lifting) option.distinct(1))
  then show ?thesis using ok_remove [OF ok] by (simp add: release_claim_for_def)
qed

lemma release_claim_frame [simp]:
  "pending_dir (release_claim_for sha r q) = pending_dir q" "quarantine_dir (release_claim_for sha r q) = quarantine_dir q"
  by (simp_all add: release_claim_for_def)

lemma ack_spec:
  assumes "ack sha name fp rel q = (b, q')" "queue_ok sha q"
  shows "queue_ok sha q' \<and> journal q \<subseteq> insert name (journal q') \<and> journal q' \<subseteq> journal q \<and> (\<not> b \<longrightarrow> q' = q) \<and>
    quarantine_dir q' = quarantine_dir q \<and> (\<forall>nm. nm \<noteq> name \<longrightarrow> read_record q' nm = read_record q nm)"
proof (cases "read_record q name")
  case None
  then have "b = False \<and> q' = q" using assms ok_exists [OF assms(2)] by (auto simp: ack_def)
  with assms(2) show ?thesis by blast
next
  case (Some r)
  show ?thesis
  proof (cases b)
    case False
    then have "q' = q" using assms by (auto simp: ack_def Let_def Some split: if_splits option.splits)
    with assms(2) False show ?thesis by blast
  next
    case True
    then have q': "q' = (if rel then release_claim_for sha r (remove_record name q) else remove_record name q)"
      using assms by (auto simp: ack_def Let_def Some split: if_splits option.splits)
    have p: "pending_dir q' = AList.delete name (pending_dir q)" "quarantine_dir q' = quarantine_dir q"
      unfolding q' by (simp_all add: remove_record_def)
    have "queue_ok sha q'" unfolding q' using ok_release_claim [OF assms(2) Some] ok_remove [OF assms(2)] by simp
    moreover have "journal q \<subseteq> insert name (journal q')" "journal q' \<subseteq> journal q"
      unfolding journal_def p by (auto simp: delete_keys simp flip: set_map)
    moreover have "read_record q' nm = read_record q nm" if "nm \<noteq> name" for nm
      using that by (simp add: read_record_def p delete_conv)
    ultimately show ?thesis using True p by blast
  qed
qed

lemma kw_filter_keeps: "(\<And>v. P (k, v)) \<Longrightarrow> kw (filter P d) k = kw d k"
  by (induction d) (auto simp: kw_def)

lemma rec_ok_fields:
  assumes "rec_ok sha q name r" "\<And>k. k \<in> {''fingerprint'', ''body'', ''org_id'', ''base_url''} \<Longrightarrow> kw r' k = kw r k"
  shows "rec_ok sha q name r'"
  using assms by (simp add: rec_ok_def record_identity_def dict_field_def)

definition same_record :: "payload \<Rightarrow> payload \<Rightarrow> bool" where
  "same_record r r' \<longleftrightarrow> (\<forall>k\<in>{''fingerprint'', ''body'', ''org_id'', ''base_url''}. kw r' k = kw r k)"

lemma schedule_retry_spec:
  assumes "schedule_retry now u (name, r) hint q = (x, q')" "queue_ok sha q" "read_record q name = Some r"
  shows "queue_ok sha q' \<and> journal q' = journal q \<and> quarantine_dir q' = quarantine_dir q \<and>
    (\<exists>r'. read_record q' name = Some r' \<and> same_record r r') \<and> (\<forall>nm. nm \<noteq> name \<longrightarrow> read_record q' nm = read_record q nm)"
proof (cases "q' = q")
  case True
  with assms show ?thesis by (auto simp: same_record_def)
next
  case False
  then obtain n where q': "q' = write_record name (dset ''next_attempt_at'' (PFloat (Fin (now + backoff_wait u (n + 1) hint)) [])
      (dset ''attempts'' (PInt (n + 1)) (filter (\<lambda>(k, _). \<not> starts_with k ''_'') r))) q"
    using assms(1) by (auto simp: schedule_retry_def Let_def split: if_splits sum.splits)
  let ?r = "dset ''next_attempt_at'' (PFloat (Fin (now + backoff_wait u (n + 1) hint)) [])
      (dset ''attempts'' (PInt (n + 1)) (filter (\<lambda>(k, _). \<not> starts_with k ''_'') r))"
  have s: "\<not> starts_with ''fingerprint'' ''_''" "\<not> starts_with ''body'' ''_''" "\<not> starts_with ''org_id'' ''_''"
    "\<not> starts_with ''base_url'' ''_''" by code_simp+
  have k: "same_record r ?r" by (simp add: same_record_def kw_dset kw_filter_keeps s)
  then have "rec_ok sha q name ?r"
    using rec_ok_fields [OF queue_okD [OF assms(2,3)], of ?r] unfolding same_record_def by blast
  then have "queue_ok sha q'" unfolding q' by (rule ok_write [OF assms(2)])
  moreover have "name \<in> journal q" using ok_exists [OF assms(2), of name] assms(3) by (simp add: record_exists_def journal_def)
  ultimately show ?thesis using k unfolding q' by (auto simp: journal_files read_record_write)
qed

lemma release_spec:
  assumes "release now name fp q = (b, q')" "queue_ok sha q"
  shows "queue_ok sha q' \<and> journal q' = journal q \<and> quarantine_dir q' = quarantine_dir q"
proof (cases b)
  case True
  then obtain r where r: "read_record q name = Some r"
    and q': "q' = write_record name (dset ''next_attempt_at'' (PFloat (Fin now) []) (dset ''error'' (PStr ''sender_unacked'') r)) q"
    using assms(1) by (auto simp: release_def split: option.splits if_splits)
  have "rec_ok sha q name (dset ''next_attempt_at'' (PFloat (Fin now) []) (dset ''error'' (PStr ''sender_unacked'') r))"
    by (rule rec_ok_fields [OF queue_okD [OF assms(2) r]]) (auto simp: kw_dset)
  then have "queue_ok sha q'" unfolding q' by (rule ok_write [OF assms(2)])
  moreover have "name \<in> journal q" using ok_exists [OF assms(2), of name] r by (simp add: record_exists_def journal_def)
  ultimately show ?thesis unfolding q' by (auto simp: journal_files)
qed (use assms in \<open>auto simp: release_def split: option.splits if_splits\<close>)

section \<open>The flusher\<close>

lemma ends_with_append [simp]: "ends_with (x @ y) y"
  by (simp add: ends_with_def)

lemma record_name_json [simp]: "ends_with (record_name fp) ''.json''"
  by (simp add: record_name_def)

lemma record_name_nonempty [simp]: "record_name fp \<noteq> []"
  by (simp add: record_name_def)

lemma list_names_ok:
  assumes "queue_ok sha q" "distinct names"
  shows "snd (list_names names q) = q \<and> distinct (map fst (fst (list_names names q))) \<and>
    set (fst (list_names names q)) = {(n, r). n \<in> set names \<and> read_record q n = Some r}"
  using assms(2)
proof (induction names)
  case (Cons n names)
  show ?case
  proof (cases "map_of (pending_dir q) n")
    case None
    then have "read_record q n = None" by (simp add: read_record_def)
    with None Cons show ?thesis by auto
  next
    case (Some c)
    with assms(1) obtain r where c: "c = Some (PDict r)" and ok: "rec_ok sha q n r" unfolding queue_ok_def by blast
    then have rr: "read_record q n = Some r" and e: "ends_with n ''.json''" and m: "is_mapping (kw r ''body'')"
      using Some by (auto simp: read_record_def rec_ok_def)
    obtain out q' where l: "list_names names q = (out, q')" by fastforce
    have "list_names (n # names) q = ((n, r) # out, q')" using Some c e m l by simp
    moreover have "n \<notin> fst ` set out" using Cons l by auto
    ultimately show ?thesis using Cons l rr by auto
  qed
qed simp

lemma list_pending_ok:
  assumes "queue_ok sha q"
  shows "snd (list_pending q) = q" "distinct (map fst (fst (list_pending q)))"
    "set (fst (list_pending q)) = {(n, r). read_record q n = Some r}"
proof -
  have d: "distinct (sort (map fst (pending_dir q)))" using assms by (simp add: queue_ok_def)
  note l = list_names_ok [OF assms d]
  then show "snd (list_pending q) = q" "distinct (map fst (fst (list_pending q)))" by (simp_all add: list_pending_def)
  have "n \<in> fst ` set (pending_dir q)" if "read_record q n = Some r" for n r
    using that ok_exists [OF assms] by (auto simp: record_exists_def)
  with l show "set (fst (list_pending q)) = {(n, r). read_record q n = Some r}" by (auto simp: list_pending_def)
qed

text \<open>FinOps acknowledged a body: its answer names the transition applied.\<close>

definition finops_acks :: "post_env \<Rightarrow> (payload \<Rightarrow> http_result) \<Rightarrow> payload \<Rightarrow> bool" where
  "finops_acks pe http body \<longleftrightarrow> (case http body of
     Http_Ok raw \<Rightarrow> finops_result_ack (case pe_loads pe (or_str raw ''{}'') of Some (PDict d) \<Rightarrow> PDict d | _ \<Rightarrow> PDict [])
                      (str_or_empty (kw body ''event''))
   | _ \<Rightarrow> False)"

lemma post_settle_pure:
  "\<exists>r. post_settle pe http base org body False False True q = (r, q) \<and> (r = Posted True \<longrightarrow> finops_acks pe http body)"
  by (auto simp: post_settle_def finops_acks_def Let_def split: sum.split http_result.split option.split pyval.split)

text \<open>What one item may do: nothing, be rescheduled with the same intent, be set aside as it is, or go
  because FinOps acknowledged it.\<close>

definition item_fate :: "post_env \<Rightarrow> (payload \<Rightarrow> http_result) \<Rightarrow> string \<Rightarrow> payload \<Rightarrow> settle_queue \<Rightarrow> bool" where
  "item_fate pe http name r q \<longleftrightarrow>
     (\<exists>r'. read_record q name = Some r' \<and> same_record r r') \<or> name \<in> fst ` set (quarantine_dir q) \<or>
     finops_acks pe http (dict_field r ''body'')"

lemma item_fate_here: "read_record q name = Some r \<Longrightarrow> item_fate pe http name r q"
  by (auto simp: item_fate_def same_record_def)

lemma quarantine_spec:
  assumes "queue_ok sha q" "read_record q name = Some r"
  shows "name \<in> fst ` set (quarantine_dir (quarantine name q)) \<and> fst ` set (quarantine_dir q) \<subseteq> fst ` set (quarantine_dir (quarantine name q))"
    "nm \<noteq> name \<Longrightarrow> read_record (quarantine name q) nm = read_record q nm"
proof -
  obtain c where c: "map_of (pending_dir q) name = Some c" using assms(2) by (auto simp: read_record_def split: option.splits)
  then show "name \<in> fst ` set (quarantine_dir (quarantine name q)) \<and> fst ` set (quarantine_dir q) \<subseteq> fst ` set (quarantine_dir (quarantine name q))"
    by (auto simp: quarantine_def)
  show "nm \<noteq> name \<Longrightarrow> read_record (quarantine name q) nm = read_record q nm"
    using c by (simp add: quarantine_def read_record_def delete_conv)
qed

definition advances :: "(string \<Rightarrow> string) \<Rightarrow> post_env \<Rightarrow> (payload \<Rightarrow> http_result) \<Rightarrow> string \<Rightarrow> payload \<Rightarrow> settle_queue \<Rightarrow> settle_queue \<Rightarrow> bool" where
  "advances sha pe http name r q q' \<longleftrightarrow> queue_ok sha q' \<and> journal q' \<subseteq> journal q \<and> item_fate pe http name r q' \<and>
     fst ` set (quarantine_dir q) \<subseteq> fst ` set (quarantine_dir q') \<and> (\<forall>nm. nm \<noteq> name \<longrightarrow> read_record q' nm = read_record q nm)"

lemma flush_item_advances:
  assumes ok: "queue_ok sha q" and r: "read_record q name = Some r" and pe: "pe_sha pe = sha"
    and f: "flush_item pe u http base (name, r) c q = (x, q')"
  shows "advances sha pe http name r q q'"
proof -
  have stay: "advances sha pe http name r q q"
    using ok item_fate_here [OF r] by (simp add: advances_def)
  have later: "advances sha pe http name r q q2" if "retry_later pe (u name) (name, r) hint c q = (y, q2)" for hint y q2
  proof -
    obtain z where "schedule_retry (pe_now pe) (u name) (name, r) hint q = (z, q2)"
      using \<open>retry_later pe (u name) (name, r) hint c q = (y, q2)\<close> by (auto simp: retry_later_def split: prod.splits sum.splits)
    from schedule_retry_spec [OF this ok r] show ?thesis by (auto simp: advances_def item_fate_def)
  qed
  have aside: "advances sha pe http name r q (quarantine name q)"
    using quarantine_spec [OF ok r] ok_quarantine [OF ok] by (auto simp: advances_def item_fate_def journal_files)
  have acked: "advances sha pe http name r q q2" if "ack sha name fp True q = (b, q2)" "finops_acks pe http (dict_field r ''body'')" for fp b q2
    using ack_spec [OF that(1) ok] that(2) by (auto simp: advances_def item_fate_def)
  obtain p where p: "post_settle pe http base (or_str (str_or_empty (kw r ''org_id'')) (str_or_empty (kw (dict_field r ''body'') ''org_id'')))
      (dict_field r ''body'') False False True q = (p, q)" "p = Posted True \<longrightarrow> finops_acks pe http (dict_field r ''body'')"
    using post_settle_pure by blast
  show ?thesis
    using f stay later aside acked p(2)
    by (auto simp: flush_item_def Let_def p(1) pe split: if_splits sum.splits fl.splits post_result.splits bool.splits prod.splits)
qed

lemma flush_items_spec:
  assumes "flush_items pe u http base items c q = (x, q')" "queue_ok sha q" "pe_sha pe = sha"
    "distinct (map fst items)" "\<forall>(n, r)\<in>set items. read_record q n = Some r"
  shows "queue_ok sha q' \<and> journal q' \<subseteq> journal q \<and> fst ` set (quarantine_dir q) \<subseteq> fst ` set (quarantine_dir q') \<and>
    (\<forall>(n, r)\<in>set items. item_fate pe http n r q') \<and> (\<forall>n. n \<notin> fst ` set items \<longrightarrow> read_record q' n = read_record q n)"
  using assms(1,2,4,5)
proof (induction items arbitrary: c q)
  case (Cons item items)
  obtain n r where i: "item = (n, r)" by fastforce
  obtain y q1 where 1: "flush_item pe u http base (n, r) c q = (y, q1)" by fastforce
  have r: "read_record q n = Some r" using Cons.prems(4) i by simp
  note a = flush_item_advances [OF Cons.prems(2) r assms(3) 1, unfolded advances_def]
  have rest: "\<forall>(m, s)\<in>set items. read_record q1 m = Some s" "n \<notin> fst ` set items"
  proof -
    show n: "n \<notin> fst ` set items" using Cons.prems(3) i by simp
    have "read_record q1 m = Some s" if "(m, s) \<in> set items" for m s
    proof -
      have "m \<noteq> n" using n that by force
      moreover have "read_record q m = Some s" using Cons.prems(4) that by auto
      ultimately show ?thesis using a by simp
    qed
    then show "\<forall>(m, s)\<in>set items. read_record q1 m = Some s" by blast
  qed
  show ?case
  proof (cases y)
    case (Inl e)
    then have "q' = q1" using Cons.prems(1) 1 i by simp
    with a rest show ?thesis unfolding i by (auto intro: item_fate_here)
  next
    case (Inr c')
    then have f: "flush_items pe u http base items c' q1 = (x, q')" using Cons.prems(1) 1 i by simp
    have "distinct (map fst items)" using Cons.prems(3) by simp
    note IH0 = Cons.IH [OF f conjunct1 [OF a] this rest(1)]
    note IH = conjunct1 [OF IH0] conjunct1 [OF conjunct2 [OF IH0]] conjunct1 [OF conjunct2 [OF conjunct2 [OF IH0]]]
      conjunct1 [OF conjunct2 [OF conjunct2 [OF conjunct2 [OF IH0]]]] conjunct2 [OF conjunct2 [OF conjunct2 [OF conjunct2 [OF IH0]]]]
    have "read_record q' n = read_record q1 n" using IH(5) rest(2) by blast
    then have "item_fate pe http n r q'" using a IH(3) unfolding item_fate_def by auto
    then have "\<forall>(n, r)\<in>set (item # items). item_fate pe http n r q'" using IH(4) i by simp
    moreover have "\<forall>m. m \<notin> fst ` set (item # items) \<longrightarrow> read_record q' m = read_record q m"
      using IH(5) a i by simp
    moreover have "journal q' \<subseteq> journal q" by (rule subset_trans [OF IH(2)]) (use a in simp)
    moreover have "fst ` set (quarantine_dir q) \<subseteq> fst ` set (quarantine_dir q')"
      by (rule subset_trans [OF _ IH(3)]) (use a in simp)
    ultimately show ?thesis using IH(1) by (intro conjI)
  qed
qed simp

lemma flush_pending_spec:
  assumes "flush_pending pe env u http owned unsafe base q = (x, q')" "queue_ok sha q" "pe_sha pe = sha"
  shows "queue_ok sha q' \<and> journal q' \<subseteq> journal q \<and> fst ` set (quarantine_dir q) \<subseteq> fst ` set (quarantine_dir q') \<and>
    (\<forall>n r. read_record q n = Some r \<longrightarrow> item_fate pe http n r q')"
proof (cases "owned \<and> \<not> unsafe")
  case True
  obtain items where i: "list_pending q = (items, q)" using list_pending_ok(1) [OF assms(2)] by (metis prod.collapse)
  note l = list_pending_ok(2,3) [OF assms(2), unfolded i fst_conv]
  have "flush_items pe u http (rstrip_char (CHR ''/'') (or_str base (finops_url env))) items no_flush q = (x, q')"
    using assms(1) True i by (simp add: flush_pending_def flush_locked_def)
  from flush_items_spec [OF this assms(2,3) l(1)] l(2) show ?thesis by auto
next
  case False
  then have "q' = q" using assms(1) by (cases owned; cases unsafe) (auto simp: flush_pending_def flush_locked_def)
  with assms(2) show ?thesis by (auto intro: item_fate_here)
qed

text \<open>C11: no settlement is lost by the flusher. Whatever FinOps or the network answers, and wherever an
  exception stops the flush, a record that was pending is afterwards still pending with the same intent,
  or set aside in the quarantine, or FinOps acknowledged its body; the claims stay in order.\<close>

theorem flush_never_loses:
  assumes "queue_ok sha q" and "pe_sha pe = sha" and "read_record q name = Some r"
    and "flush_pending pe env u http owned unsafe base q = (x, q')"
  shows "((\<exists>r'. read_record q' name = Some r' \<and> same_record r r') \<or> name \<in> fst ` set (quarantine_dir q')
      \<or> finops_acks pe http (dict_field r ''body'')) \<and> queue_ok sha q'"
  using flush_pending_spec [OF assms(4,1,2)] assms(3) unfolding item_fate_def by blast

section \<open>Sequences of calls\<close>

datatype sq_op =
    Enqueue rat rat string payload string string string string bool
  | Enqueue_Crash rat string string
  | Ack string "string option"
  | Ack_Crash string "string option"
  | Release rat string "string option"
  | Flush post_env "string \<Rightarrow> string option" "string \<Rightarrow> rat" "payload \<Rightarrow> http_result" bool bool string

text \<open>The crashes: the claim is taken and no record written; the record is removed and its claim kept.\<close>

fun sq_step :: "(string \<Rightarrow> string) \<Rightarrow> (payload \<Rightarrow> string) \<Rightarrow> sq_op \<Rightarrow> settle_queue \<Rightarrow> settle_queue" where
  "sq_step sha dump (Enqueue now grace rid body error base key org persist) q =
     snd (enqueue sha dump now grace rid body error base key org persist q)"
| "sq_step sha dump (Enqueue_Crash now identity fp) q = snd (acquire_claim now identity (sha fp) q)"
| "sq_step sha dump (Ack name fp) q = snd (ack sha name fp True q)"
| "sq_step sha dump (Ack_Crash name fp) q = snd (ack sha name fp False q)"
| "sq_step sha dump (Release now name fp) q = snd (release now name fp q)"
| "sq_step sha dump (Flush pe env u http owned unsafe base) q =
     snd (flush_pending (pe\<lparr>pe_sha := sha, pe_dump := dump\<rparr>) env u http owned unsafe base q)"

fun sq_adds :: "(string \<Rightarrow> string) \<Rightarrow> (payload \<Rightarrow> string) \<Rightarrow> sq_op \<Rightarrow> settle_queue \<Rightarrow> string set" where
  "sq_adds sha dump (Enqueue now grace rid body error base key org persist) q =
     (case fst (enqueue sha dump now grace rid body error base key org persist q) of Inl _ \<Rightarrow> {} | Inr name \<Rightarrow> {name})"
| "sq_adds sha dump _ q = {}"

fun sq_drops :: "(string \<Rightarrow> string) \<Rightarrow> (payload \<Rightarrow> string) \<Rightarrow> sq_op \<Rightarrow> settle_queue \<Rightarrow> string set" where
  "sq_drops sha dump (Ack name fp) q = {name}"
| "sq_drops sha dump (Ack_Crash name fp) q = {name}"
| "sq_drops sha dump (Flush pe env u http owned unsafe base) q =
     {name. \<exists>r. read_record q name = Some r \<and> finops_acks (pe\<lparr>pe_sha := sha, pe_dump := dump\<rparr>) http (dict_field r ''body'')}"
| "sq_drops sha dump _ q = {}"

definition sq_ok :: "(string \<Rightarrow> string) \<Rightarrow> settle_queue \<Rightarrow> bool" where
  "sq_ok sha q \<longleftrightarrow> queue_ok sha q \<and> (\<forall>x. sha x \<noteq> [])"

interpretation sq: spool "sq_ok sha" journal "sq_step sha dump" "sq_adds sha dump" "sq_drops sha dump" for sha dump
proof unfold_locales
  fix q p assume ok: "sq_ok sha q"
  then have q: "queue_ok sha q" and h: "\<forall>x. sha x \<noteq> []" by (simp_all add: sq_ok_def)
  have "queue_ok sha (sq_step sha dump p q) \<and> journal q \<union> sq_adds sha dump p q \<subseteq> journal (sq_step sha dump p q) \<union> sq_drops sha dump p q
      \<and> journal (sq_step sha dump p q) \<subseteq> journal q \<union> sq_adds sha dump p q"
  proof (cases p)
    case (Enqueue now grace rid body error base key org persist)
    obtain r q' where "enqueue sha dump now grace rid body error base key org persist q = (r, q')" by fastforce
    with enqueue_spec [OF this q h] Enqueue show ?thesis by (auto split: sum.splits)
  next
    case (Enqueue_Crash now identity fp)
    obtain r q' where e: "acquire_rounds 8 now (claim_name identity) (sha fp) q = (r, q')" by fastforce
    with acquire_rounds_spec [OF this q] h Enqueue_Crash show ?thesis by (auto simp: acquire_claim_def journal_def)
  next
    case (Ack name fp)
    obtain b q' where "ack sha name fp True q = (b, q')" by fastforce
    with ack_spec [OF this q] Ack show ?thesis by auto
  next
    case (Ack_Crash name fp)
    obtain b q' where "ack sha name fp False q = (b, q')" by fastforce
    with ack_spec [OF this q] Ack_Crash show ?thesis by auto
  next
    case (Release now name fp)
    obtain b q' where "release now name fp q = (b, q')" by fastforce
    with release_spec [OF this q] Release show ?thesis by auto
  next
    case (Flush pe env u http owned unsafe base)
    let ?pe = "pe\<lparr>pe_sha := sha, pe_dump := dump\<rparr>"
    obtain x q' where f: "flush_pending ?pe env u http owned unsafe base q = (x, q')" by fastforce
    have kept: "n \<in> journal q' \<union> sq_drops sha dump p q" if m: "n \<in> journal q" for n
    proof (cases "n \<in> fst ` set (quarantine_dir q)")
      case True
      then show ?thesis using flush_pending_spec [OF f q] unfolding journal_def by auto
    next
      case False
      then obtain r where r: "read_record q n = Some r"
        using m ok_exists [OF q] by (auto simp: journal_def record_exists_def)
      then have "item_fate ?pe http n r q'" using flush_pending_spec [OF f q] by auto
      then consider "\<exists>r'. read_record q' n = Some r'" | "n \<in> fst ` set (quarantine_dir q')"
        | "finops_acks ?pe http (dict_field r ''body'')" unfolding item_fate_def by blast
      then show ?thesis
      proof cases
        case 1
        then have "record_exists q' n" using ok_exists [of sha q' n] flush_pending_spec [OF f q] by simp
        then show ?thesis by (simp add: journal_def record_exists_def)
      next
        case 2
        then show ?thesis by (simp add: journal_def)
      next
        case 3
        with r show ?thesis by (auto simp: Flush)
      qed
    qed
    then show ?thesis using flush_pending_spec [OF f q] f unfolding Flush by auto
  qed
  with h show "sq_ok sha (sq_step sha dump p q)"
    "journal q \<union> sq_adds sha dump p q \<subseteq> journal (sq_step sha dump p q) \<union> sq_drops sha dump p q"
    "journal (sq_step sha dump p q) \<subseteq> journal q \<union> sq_adds sha dump p q" by (simp_all add: sq_ok_def)
qed

definition empty_queue :: settle_queue where
  "empty_queue = \<lparr>pending_dir = [], claims_dir = [], quarantine_dir = []\<rparr>"

lemma empty_queue_ok: "queue_ok sha empty_queue"
  by (simp add: queue_ok_def empty_queue_def)

definition sq_run :: "(string \<Rightarrow> string) \<Rightarrow> (payload \<Rightarrow> string) \<Rightarrow> sq_op list \<Rightarrow> settle_queue \<Rightarrow> settle_queue" where
  "sq_run sha dump ops q = fold (sq_step sha dump) ops q"

lemma sq_run_eq: "sq.run sha dump ops q = sq_run sha dump ops q"
  by (simp add: sq.run_def sq_run_def)


text \<open>C12: the settlement queue is durable: through any such sequence a journaled record is kept, pending
  or in the quarantine, until its sender acknowledges it or a flush during which FinOps acknowledged it.\<close>

theorem settle_queue_no_loss:
  assumes "\<forall>x. sha x \<noteq> []" and "queue_ok sha q" and "name \<in> journal q"
    and "\<And>pre p post. ops = pre @ p # post \<Longrightarrow> name \<notin> sq_drops sha dump p (sq_run sha dump pre q)"
  shows "name \<in> journal (sq_run sha dump ops q) \<and> queue_ok sha (sq_run sha dump ops q)"
proof -
  have ok: "sq_ok sha q" using assms(1,2) by (simp add: sq_ok_def)
  have "name \<notin> sq.dropped sha dump ops q"
    using assms(4) unfolding sq_run_def
  proof (induction ops arbitrary: q)
    case (Cons p ops)
    have "name \<notin> sq_drops sha dump p q" using Cons.prems [of "[]" p ops] by simp
    moreover have "name \<notin> sq.dropped sha dump ops (sq_step sha dump p q)"
    proof (rule Cons.IH)
      fix pre p' post assume "ops = pre @ p' # post"
      then show "name \<notin> sq_drops sha dump p' (fold (sq_step sha dump) pre (sq_step sha dump p q))"
        using Cons.prems [of "p # pre" p' post] by simp
    qed
    ultimately show ?case by simp
  qed simp
  with sq.kept_until_dropped [OF ok assms(3)] sq.ok_run [OF ok] show ?thesis by (simp add: sq_run_eq sq_ok_def)
qed

section \<open>Witnesses\<close>

definition toy_sha :: "string \<Rightarrow> string" where "toy_sha s = CHR ''h'' # s"
definition toy_dump :: "payload \<Rightarrow> string" where "toy_dump m = str_or_empty (kw m ''event'')"

definition body1 :: payload where
  "body1 = [(''idempotency_key'', PStr ''k1''), (''event'', PStr ''usage_known''), (''actual_usd_micros'', PInt 4200)]"

definition queue1 :: settle_queue where
  "queue1 = snd (enqueue toy_sha toy_dump 0 10 ''rid'' body1 ''pre_send'' ''https://finops/'' [] ''acme'' False empty_queue)"

definition record1 :: payload where
  "record1 = new_record 0 10 ''rid'' ''husage_known'' body1 ''pre_send'' ''https://finops'' [] ''acme''"

lemma queue1_step: "queue1 = sq_run toy_sha toy_dump [Enqueue 0 10 ''rid'' body1 ''pre_send'' ''https://finops/'' [] ''acme'' False] empty_queue"
  by (simp add: queue1_def sq_run_def)

lemma queue1: "pending_dir queue1 = [(''husage_known.json'', Some (PDict record1))]" "quarantine_dir queue1 = []"
  unfolding queue1_def record1_def by code_simp+

lemma read_queue1: "read_record queue1 ''husage_known.json'' = Some record1"
  by (simp add: read_record_def queue1)

lemma queue1_ok: "queue_ok toy_sha queue1"
proof -
  have "sq_ok toy_sha empty_queue" using empty_queue_ok by (simp add: sq_ok_def toy_sha_def)
  then show ?thesis unfolding queue1_step using sq.ok_run [of toy_sha empty_queue toy_dump] by (simp add: sq_run_eq sq_ok_def)
qed

definition toy_env :: post_env where
  "toy_env = \<lparr>pe_sha = toy_sha, pe_dump = toy_dump, pe_loads = (\<lambda>_. None), pe_http_date = (\<lambda>_. None), pe_now = 20,
     pe_grace = 10, pe_record_id = ''rid2''\<rparr>"

theorem flush_never_loses_witness:
  "\<forall>env u base. let q' = snd (flush_pending toy_env env u (\<lambda>_. Http_Error 503 None []) True False base queue1) in
     ''husage_known.json'' \<in> journal q'"
proof (intro allI)
  fix env u base
  obtain x q' where f: "flush_pending toy_env env u (\<lambda>_. Http_Error 503 None []) True False base queue1 = (x, q')" by fastforce
  have "pe_sha toy_env = toy_sha" by (simp add: toy_env_def)
  from flush_never_loses [OF queue1_ok this read_queue1 f]
  have "name \<in> journal q'" if "name = ''husage_known.json''" for name
    using that ok_exists [of toy_sha q' name] by (auto simp: finops_acks_def journal_def record_exists_def)
  with f show "let q' = snd (flush_pending toy_env env u (\<lambda>_. Http_Error 503 None []) True False base queue1) in
     ''husage_known.json'' \<in> journal q'" by simp
qed


theorem settle_queue_no_loss_witness:
  "''husage_known.json'' \<in> journal (sq_run toy_sha toy_dump [Release 5 ''husage_known.json'' None] queue1)"
proof -
  have "''husage_known.json'' \<notin> sq_drops toy_sha toy_dump p (sq_run toy_sha toy_dump pre queue1)"
    if "[Release 5 ''husage_known.json'' None] = pre @ p # post" for pre p post
    using that by (auto simp: Cons_eq_append_conv)
  from settle_queue_no_loss [OF _ queue1_ok _ this] show ?thesis by (simp add: toy_sha_def journal_def queue1)
qed

end
