(* ===== verification/Settle_Findings.thy ===== *)
theory Settle_Findings
  imports Settle_Facts
begin

text \<open>
  The bounds of the backoff, and where the flusher does not do what its comments say: a drifted record is
  acknowledged, a record without a fingerprint is sent for ever, one malformed record stops every flush,
  and the list of permanent conflicts decides nothing.
\<close>

lemma backoff_ceiling: "0 \<le> min backoff_cap_s (backoff_base_s * 2 powi (min attempts 16))"
  by (simp add: backoff_cap_s_def backoff_base_s_def)

theorem backoff_bounds:
  assumes "0 \<le> u" "u \<le> 1"
  shows "0 \<le> backoff_wait u attempts hint \<and> backoff_wait u attempts hint \<le> 300
    \<and> (\<forall>h. hint = Some (Fin h) \<and> h \<le> 300 \<longrightarrow> h \<le> backoff_wait u attempts hint)
    \<and> (hint = None \<longrightarrow> backoff_wait u attempts hint \<le> 2 powi (min attempts 16))"
proof -
  let ?c = "min backoff_cap_s (backoff_base_s * 2 powi (min attempts 16))"
  have c: "0 \<le> ?c" "?c \<le> 300" "?c \<le> 2 powi (min attempts 16)" by (simp_all add: backoff_cap_s_def backoff_base_s_def)
  have w: "0 \<le> u * ?c" using assms(1) c(1) by (rule mult_nonneg_nonneg)
  have w2: "u * ?c \<le> ?c" by (rule mult_left_le_one_le [OF c(1) assms])
  define w where "w = u * ?c"
  have e: "backoff_wait u attempts hint = (case hint of None \<Rightarrow> w | Some (Fin h) \<Rightarrow> min 300 (max w h)
      | Some PosInf \<Rightarrow> 300 | Some _ \<Rightarrow> min 300 w)"
    unfolding backoff_wait_def Let_def w_def backoff_cap_s_def ..
  have "0 \<le> w" "w \<le> 300" "w \<le> 2 powi (min attempts 16)" using w w2 c unfolding w_def by linarith+
  then show ?thesis unfolding e by (auto split: option.split fl.split)
qed

text \<open>A hint above the cap is not waited for.\<close>

theorem long_hint_is_cut: "300 < h \<Longrightarrow> 0 \<le> u \<Longrightarrow> u \<le> 1 \<Longrightarrow> backoff_wait u attempts (Some (Fin h)) < h"
  using backoff_bounds [of u attempts "Some (Fin h)"] by linarith

text \<open>A due record that FinOps acknowledges is applied on its stored fingerprint alone: its body may have
  drifted to another intent.\<close>

theorem drifted_record_is_applied:
  assumes "read_record q name = Some r" "name \<noteq> []" "kw r ''fingerprint'' = PStr fp" "fp \<noteq> []"
    and "dict_field r ''body'' \<noteq> []" "kw r ''next_attempt_at'' = PNone" "0 \<le> pe_now pe" "base \<noteq> []" "kw r ''base_url'' = PNone"
    and "payload_ints (dict_field r ''body'') = Inr ()" "finops_acks pe http (dict_field r ''body'')"
    and drifted: "intent_fingerprint (pe_sha pe) (pe_dump pe) (dict_field r ''body'') org base \<noteq> Inr fp"
  shows "fst (flush_item pe u http base (name, r) c q) = Inr (c\<lparr>fr_applied := fr_applied c + 1\<rparr>) \<and>
    read_record (snd (flush_item pe u http base (name, r) c q)) name = None"
proof -
  have ex: "record_exists q name"
    using assms(1) by (auto simp: record_exists_map read_record_def split: option.splits)
  have post: "post_settle pe http base o' (dict_field r ''body'') False False True q = (Posted True, q)" for o'
    using assms(10,11) by (auto simp: post_settle_def finops_acks_def Let_def split: http_result.splits)
  have a: "ack (pe_sha pe) name (Some fp) True q = (True, release_claim_for (pe_sha pe) r (remove_record name q))"
    using ex assms(1,3,4) by (simp add: ack_def)
  have "py_float (or_val (kw r ''next_attempt_at'') (PInt 0)) = Inr (Fin 0)" using assms(6) by (simp add: or_val_def py_float_def)
  then have "flush_item pe u http base (name, r) c q =
      (Inr (c\<lparr>fr_applied := fr_applied c + 1\<rparr>), release_claim_for (pe_sha pe) r (remove_record name q))"
    using assms post a by (simp add: flush_item_def Let_def)
  moreover have "read_record (release_claim_for (pe_sha pe) r (remove_record name q)) name = None"
    using read_record_remove [of name q name] by (simp add: read_record_def)
  ultimately show ?thesis by simp
qed

text \<open>A record without a fingerprint is delivered, acknowledged by FinOps, and stays as it is: due again.\<close>

theorem unfingerprinted_record_stays:
  assumes "read_record q name = Some r" "name \<noteq> []" "kw r ''fingerprint'' = PNone"
    and "dict_field r ''body'' \<noteq> []" "kw r ''next_attempt_at'' = PNone" "0 \<le> pe_now pe" "base \<noteq> []" "kw r ''base_url'' = PNone"
    and "payload_ints (dict_field r ''body'') = Inr ()" "finops_acks pe http (dict_field r ''body'')"
    and "\<forall>x. pe_sha pe x \<noteq> []"
  shows "flush_item pe u http base (name, r) c q = (Inr (failed_one c), q)"
proof -
  have ex: "record_exists q name"
    using assms(1) by (auto simp: record_exists_map read_record_def split: option.splits)
  have post: "post_settle pe http base o' (dict_field r ''body'') False False True q = (Posted True, q)" for o'
    using assms(9,10) by (auto simp: post_settle_def finops_acks_def Let_def split: http_result.splits)
  obtain i where "py_int (or_val (kw (dict_field r ''body'') ''attempt'') (PInt 0)) = Inr i"
    using assms(9) by (auto simp: payload_ints_def bnd_eq_Inr)
  then obtain fp where fp: "intent_fingerprint (pe_sha pe) (pe_dump pe) (dict_field r ''body'') o' base = Inr (fp o')" "fp o' \<noteq> []" for o'
    using assms(11) by (simp add: intent_fingerprint_def material_def)
  have a: "ack (pe_sha pe) name (Some (fp o')) True q = (False, q)" for o' using ex assms(1,3) fp(2) by (simp add: ack_def)
  have "py_float (or_val (kw r ''next_attempt_at'') (PInt 0)) = Inr (Fin 0)" using assms(5) by (simp add: or_val_def py_float_def)
  then show ?thesis using assms post a fp by (simp add: flush_item_def Let_def)
qed

text \<open>A record whose due time is not a number ends the flush before every record behind it.\<close>

theorem malformed_due_stops_flush:
  assumes "kw r ''next_attempt_at'' = PStr ''soon''" "dict_field r ''body'' \<noteq> []" "name \<noteq> []"
  shows "flush_items pe u http base ((name, r) # items) c q = (Inl PyValueError, q)"
proof -
  have "py_float (or_val (kw r ''next_attempt_at'') (PInt 0)) = Inl PyValueError"
    unfolding assms(1) by code_simp
  then show ?thesis using assms by (simp add: flush_item_def Let_def)
qed

text \<open>Every conflict is final, whatever its code.\<close>

theorem every_conflict_is_permanent: "permanent_settle_rejection loads 409 body \<noteq> None"
  by (simp add: permanent_settle_rejection_def Let_def)

end
