(* ===== verification/Settle_Race.thy ===== *)
theory Settle_Race
  imports Settle_Queue
begin

text \<open>
  Several processes on one settlement queue directory (kazenai/spine/settle_queue.py), for one idempotency
  key: the file operations of \<open>_acquire_claim\<close>, \<open>enqueue\<close> and \<open>ack\<close> one at a time. A claim is its fingerprint
  and its time; a record is its fingerprint. A step of a process is one file operation, or one section
  under the claims lock, with the decision that follows it.
\<close>

record race_files =
  claim :: "(string \<times> rat) option"
  records :: "string set"
  clock :: rat

text \<open>Where a process is. The flag tells the second acquisition, after the record was written, from the
  first; the number counts the rounds left of the eight.\<close>

datatype pc =
    Idle
  | Reading string nat bool
  | Removing string string nat bool
  | Linking string nat bool
  | Holding string
  | Written string
  | Withdrawing string
  | Returned string
  | Raised string
  | Acked string

definition got :: "string \<Rightarrow> bool \<Rightarrow> pc" where
  "got fp again = (if again then Returned fp else Holding fp)"

definition refused :: "string \<Rightarrow> bool \<Rightarrow> pc" where
  "refused fp again = (if again then Withdrawing fp else Raised fp)"

definition orphaned :: "race_files \<Rightarrow> string \<times> rat \<Rightarrow> bool" where
  "orphaned f c \<longleftrightarrow> fst c \<notin> records f \<and> clock f - snd c \<ge> stale_claim_s"

definition drop_claim :: "string \<Rightarrow> race_files \<Rightarrow> race_files" where
  "drop_claim fp f = (case claim f of Some (c, t) \<Rightarrow> if c = fp then f\<lparr>claim := None\<rparr> else f | None \<Rightarrow> f)"

fun proc_step :: "race_files \<Rightarrow> pc \<Rightarrow> (race_files \<times> pc) option" where
  "proc_step f (Reading fp 0 again) = Some (f, refused fp again)"
| "proc_step f (Reading fp (Suc n) again) = Some (f,
     case claim f of
       None \<Rightarrow> Linking fp n again
     | Some (c, t) \<Rightarrow> if c = fp then got fp again
                      else if orphaned f (c, t) then Removing fp c n again else refused fp again)"
| "proc_step f (Removing fp other n again) = Some (drop_claim other f, Reading fp n again)"
| "proc_step f (Linking fp n again) =
     (case claim f of
        None \<Rightarrow> Some (f\<lparr>claim := Some (fp, clock f)\<rparr>, got fp again)
      | Some _ \<Rightarrow> Some (f, Reading fp n again))"
| "proc_step f (Holding fp) =
     (if fp \<in> records f then Some (f, Returned fp) else Some (f\<lparr>records := insert fp (records f)\<rparr>, Written fp))"
| "proc_step f (Written fp) =
     Some (f, case claim f of Some (c, t) \<Rightarrow> if c = fp then Returned fp else Reading fp 8 True | None \<Rightarrow> Reading fp 8 True)"
| "proc_step f (Withdrawing fp) = Some (f\<lparr>records := records f - {fp}\<rparr>, Raised fp)"
| "proc_step f (Acked fp) = Some (drop_claim fp f, Idle)"
| "proc_step f _ = None"

record race =
  files :: race_files
  procs :: "pc list"
  acks :: nat

text \<open>The interleavings: time passes, an idle process calls \<open>enqueue\<close>, an idle process that delivered a
  record acknowledges it, a process makes a step.\<close>

inductive race_step :: "race \<Rightarrow> race \<Rightarrow> bool" where
  tick: "0 \<le> d \<Longrightarrow> race_step s (s\<lparr>files := (files s)\<lparr>clock := clock (files s) + d\<rparr>\<rparr>)"
| call: "i < length (procs s) \<Longrightarrow> procs s ! i = Idle \<Longrightarrow> race_step s (s\<lparr>procs := (procs s)[i := Reading fp 8 False]\<rparr>)"
| ack: "i < length (procs s) \<Longrightarrow> procs s ! i = Idle \<Longrightarrow> fp \<in> records (files s) \<Longrightarrow>
    race_step s (s\<lparr>files := (files s)\<lparr>records := records (files s) - {fp}\<rparr>, procs := (procs s)[i := Acked fp], acks := Suc (acks s)\<rparr>)"
| move: "i < length (procs s) \<Longrightarrow> proc_step (files s) (procs s ! i) = Some (f, p) \<Longrightarrow>
    race_step s (s\<lparr>files := f, procs := (procs s)[i := p]\<rparr>)"

inductive race_reachable :: "race \<Rightarrow> bool" where
  start: "race_reachable \<lparr>files = \<lparr>claim = None, records = {}, clock = 0\<rparr>, procs = replicate n Idle, acks = 0\<rparr>"
| step: "race_reachable s \<Longrightarrow> race_step s s' \<Longrightarrow> race_reachable s'"

section \<open>Concurrent enqueues\<close>

text \<open>While no claim can be stale and nothing was acknowledged: the claim, once there, stays, and only its
  fingerprint gets past it.\<close>

fun past_claim :: "pc \<Rightarrow> string option" where
  "past_claim (Holding fp) = Some fp"
| "past_claim (Written fp) = Some fp"
| "past_claim (Returned fp) = Some fp"
| "past_claim _ = None"

fun tame :: "pc \<Rightarrow> bool" where
  "tame (Removing _ _ _ _) = False"
| "tame (Reading _ _ again) = (\<not> again)"
| "tame (Linking _ _ again) = (\<not> again)"
| "tame (Withdrawing _) = False"
| "tame (Acked _) = False"
| "tame _ = True"

definition pc_ok :: "race_files \<Rightarrow> pc \<Rightarrow> bool" where
  "pc_ok f p \<longleftrightarrow> tame p \<and> (\<forall>fp. past_claim p = Some fp \<longrightarrow> (\<exists>t. claim f = Some (fp, t))) \<and>
     (\<forall>fp. p \<in> {Written fp, Returned fp} \<longrightarrow> fp \<in> records f)"

definition quiet :: "race \<Rightarrow> bool" where
  "quiet s \<longleftrightarrow> clock (files s) < stale_claim_s \<and> acks s = 0"

definition files_ok :: "race_files \<Rightarrow> bool" where
  "files_ok f \<longleftrightarrow> (\<forall>fp\<in>records f. \<exists>t. claim f = Some (fp, t))"

definition race_inv :: "race \<Rightarrow> bool" where
  "race_inv s \<longleftrightarrow> 0 \<le> clock (files s) \<and> (\<forall>c t. claim (files s) = Some (c, t) \<longrightarrow> 0 \<le> t) \<and>
     (quiet s \<longrightarrow> (\<forall>p\<in>set (procs s). pc_ok (files s) p) \<and> files_ok (files s))"

text \<open>What a process does to the files keeps the others' positions right.\<close>

lemma not_orphaned: "0 \<le> t \<Longrightarrow> clock f < stale_claim_s \<Longrightarrow> \<not> orphaned f (c, t)"
  by (simp add: orphaned_def)

lemma proc_step_ok:
  assumes "proc_step f p = Some (f', p')" "pc_ok f p" "files_ok f"
    and "\<forall>c t. claim f = Some (c, t) \<longrightarrow> 0 \<le> t" "clock f < stale_claim_s"
  shows "pc_ok f' p' \<and> files_ok f' \<and> (\<forall>x. pc_ok f x \<longrightarrow> pc_ok f' x)"
proof (cases p)
  case (Reading fp n again)
  with assms show ?thesis
    by (cases n; cases "claim f") (force simp: pc_ok_def got_def refused_def not_orphaned split: if_splits)+
next
  case (Linking fp n again)
  with assms show ?thesis
    by (cases "claim f") (force simp: pc_ok_def files_ok_def got_def)+
next
  case (Holding fp)
  with assms show ?thesis by (cases "fp \<in> records f") (force simp: pc_ok_def files_ok_def)+
next
  case (Written fp)
  with assms show ?thesis by (cases "claim f") (force simp: pc_ok_def)+
qed (use assms in \<open>simp_all add: pc_ok_def\<close>)

lemma proc_step_frame:
  assumes "proc_step f p = Some (f', p')"
  shows "clock f' = clock f \<and> (\<forall>c t. claim f' = Some (c, t) \<longrightarrow> claim f = Some (c, t) \<or> t = clock f)"
  using assms
  by (cases "(f, p)" rule: proc_step.cases) (auto simp: drop_claim_def split: option.splits if_splits)

lemma race_inv_step:
  assumes "race_inv s" "race_step s s'"
  shows "race_inv s'"
  using assms(2)
proof (cases rule: race_step.cases)
  case (tick d)
  then show ?thesis using assms(1) by (auto simp: race_inv_def quiet_def pc_ok_def files_ok_def)
next
  case (call i fp)
  then show ?thesis using assms(1) set_update_subset_insert [of "procs s" i "Reading fp 8 False"]
    by (auto simp: race_inv_def quiet_def pc_ok_def)
next
  case (ack i fp)
  then show ?thesis using assms(1) by (auto simp: race_inv_def quiet_def)
next
  case (move i f p)
  note fr = proc_step_frame [OF move(3)]
  have "(\<forall>x\<in>set (procs s'). pc_ok (files s') x) \<and> files_ok (files s')" if "quiet s'"
  proof -
    have q: "quiet s" using that move fr by (simp add: quiet_def)
    then have "pc_ok (files s) (procs s ! i)" "files_ok (files s)" "\<forall>c t. claim (files s) = Some (c, t) \<longrightarrow> 0 \<le> t"
      "clock (files s) < stale_claim_s" "\<forall>x\<in>set (procs s). pc_ok (files s) x"
      using assms(1) move(2) by (auto simp: race_inv_def quiet_def)
    with proc_step_ok [OF move(3)] show ?thesis
      using move set_update_subset_insert [of "procs s" i p] by auto
  qed
  then show ?thesis using assms(1) move fr by (auto simp: race_inv_def)
qed

lemma race_reachable_inv: "race_reachable s \<Longrightarrow> race_inv s"
proof (induction rule: race_reachable.induct)
  case (start n)
  show ?case by (simp add: race_inv_def pc_ok_def files_ok_def)
qed (rule race_inv_step)


section \<open>Schedules: the agreement at work, and two records for one key\<close>

text \<open>An executable schedule: a process to move, to call or to acknowledge.\<close>

datatype order = Call nat string | Deliver nat string | Move nat | Wait rat

fun obey :: "order \<Rightarrow> race \<Rightarrow> race option" where
  "obey (Call i fp) s = (if i < length (procs s) \<and> procs s ! i = Idle
     then Some (s\<lparr>procs := (procs s)[i := Reading fp 8 False]\<rparr>) else None)"
| "obey (Deliver i fp) s = (if i < length (procs s) \<and> procs s ! i = Idle \<and> fp \<in> records (files s)
     then Some (s\<lparr>files := (files s)\<lparr>records := records (files s) - {fp}\<rparr>, procs := (procs s)[i := Acked fp], acks := Suc (acks s)\<rparr>) else None)"
| "obey (Move i) s = (if i < length (procs s) then (case proc_step (files s) (procs s ! i) of None \<Rightarrow> None
     | Some (f, p) \<Rightarrow> Some (s\<lparr>files := f, procs := (procs s)[i := p]\<rparr>)) else None)"
| "obey (Wait d) s = (if 0 \<le> d then Some (s\<lparr>files := (files s)\<lparr>clock := clock (files s) + d\<rparr>\<rparr>) else None)"

fun obey_all :: "order list \<Rightarrow> race \<Rightarrow> race option" where
  "obey_all [] s = Some s"
| "obey_all (x # xs) s = (case obey x s of None \<Rightarrow> None | Some s' \<Rightarrow> obey_all xs s')"

lemma obey_step: "obey x s = Some s' \<Longrightarrow> race_step s s'"
  by (cases x) (auto split: if_splits option.splits intro: race_step.intros)

lemma obey_all_reachable: "obey_all xs s = Some s' \<Longrightarrow> race_reachable s \<Longrightarrow> race_reachable s'"
  by (induction xs arbitrary: s) (auto split: option.splits dest: obey_step intro: race_reachable.step)

definition race0 :: "nat \<Rightarrow> race" where
  "race0 n = \<lparr>files = \<lparr>claim = None, records = {}, clock = 0\<rparr>, procs = replicate n Idle, acks = 0\<rparr>"

lemma read_round: "0 < n \<Longrightarrow> proc_step f (Reading fp n again) = Some (f,
    case claim f of
      None \<Rightarrow> Linking fp (n - 1) again
    | Some (c, t) \<Rightarrow> if c = fp then got fp again
                     else if orphaned f (c, t) then Removing fp c (n - 1) again else refused fp again)"
  using proc_step.simps(2) [of f fp "n - 1" again] by simp

lemma race0_lists: "race0 2 = \<lparr>files = \<lparr>claim = None, records = {}, clock = 0\<rparr>, procs = [Idle, Idle], acks = 0\<rparr>"
  "race0 4 = \<lparr>files = \<lparr>claim = None, records = {}, clock = 0\<rparr>, procs = [Idle, Idle, Idle, Idle], acks = 0\<rparr>"
  by (simp_all add: race0_def numeral_eq_Suc)

lemmas run_simps = race0_lists read_round got_def refused_def orphaned_def stale_claim_s_def drop_claim_def

definition agree_run :: "string \<Rightarrow> string \<Rightarrow> order list" where
  "agree_run a b = [Call 0 a, Call 1 b, Move 0, Move 1, Move 1, Move 0, Move 0, Move 1, Move 1]"

definition ack_run :: "string \<Rightarrow> string \<Rightarrow> order list" where
  "ack_run a b = [Call 0 a, Move 0, Move 0, Move 0, Move 0,
     Deliver 1 a, Call 2 a, Move 2, Move 2, Move 2, Move 1, Call 3 b, Move 3, Move 3, Move 3, Move 3]"

definition stall_run :: "string \<Rightarrow> string \<Rightarrow> order list" where
  "stall_run a b = [Call 0 a, Move 0, Move 0, Wait 300, Call 1 b, Move 1, Move 0, Move 0, Move 1, Move 1, Move 1, Move 1, Move 1]"

lemma agree_run_end: "a \<noteq> b \<Longrightarrow> obey_all (agree_run a b) (race0 2) =
    Some \<lparr>files = \<lparr>claim = Some (b, 0), records = {b}, clock = 0\<rparr>, procs = [Raised a, Returned b], acks = 0\<rparr>"
  by (simp add: agree_run_def run_simps)

lemma ack_run_end: "a \<noteq> b \<Longrightarrow> obey_all (ack_run a b) (race0 4) =
    Some \<lparr>files = \<lparr>claim = Some (b, 0), records = {b, a}, clock = 0\<rparr>,
          procs = [Returned a, Idle, Returned a, Returned b], acks = 1\<rparr>"
  by (simp add: ack_run_def run_simps)

lemma stall_run_end: "a \<noteq> b \<Longrightarrow> obey_all (stall_run a b) (race0 2) =
    Some \<lparr>files = \<lparr>claim = Some (b, 300), records = {b, a}, clock = 300\<rparr>, procs = [Returned a, Returned b], acks = 0\<rparr>"
  by (simp add: stall_run_def run_simps)


text \<open>With an acknowledgment in between, the claim of a record journaled again can be released under it, at
  once: then two intents stand journaled for one key, both calls having returned.\<close>

theorem race_two_intents_after_ack:
  assumes "a \<noteq> b"
  shows "\<exists>s. race_reachable s \<and> clock (files s) = 0 \<and> records (files s) = {a, b} \<and>
     Returned a \<in> set (procs s) \<and> Returned b \<in> set (procs s)"
proof -
  from obey_all_reachable [OF ack_run_end [OF assms]]
  have "race_reachable \<lparr>files = \<lparr>claim = Some (b, 0), records = {b, a}, clock = 0\<rparr>,
          procs = [Returned a, Idle, Returned a, Returned b], acks = 1\<rparr>"
    by (simp add: race0_def race_reachable.start)
  then show ?thesis by (intro exI conjI) (assumption, simp_all add: insert_commute)
qed

text \<open>Without any acknowledgment, a writer that stalls for \<open>STALE_CLAIM_S\<close> after its claim and goes on between
  another's judgement that the claim is orphaned and its removal has the same effect: the removal does not
  judge again.\<close>

theorem race_two_intents_after_stall:
  assumes "a \<noteq> b"
  shows "\<exists>s. race_reachable s \<and> acks s = 0 \<and> records (files s) = {a, b} \<and>
     Returned a \<in> set (procs s) \<and> Returned b \<in> set (procs s)"
proof -
  from obey_all_reachable [OF stall_run_end [OF assms]]
  have "race_reachable \<lparr>files = \<lparr>claim = Some (b, 300), records = {b, a}, clock = 300\<rparr>,
          procs = [Returned a, Returned b], acks = 0\<rparr>"
    by (simp add: race0_def race_reachable.start)
  then show ?thesis by (intro exI conjI) (assumption, simp_all add: insert_commute)
qed

end
