(* ===== verification/Attribution.thy ===== *)
theory Attribution
  imports Pyval
begin

text \<open>
  Business attribution (kazenai/attribution.py): the optional identifiers of a call, the nested scopes that
  set them, and the fields they put in a FinOps reserve body. The context variable with the tokens its
  \<open>with\<close> blocks hold is a stack, the innermost scope first; the empty stack is the default \<open>None\<close>.
\<close>

record attribution =
  at_subject :: "string option"
  at_feature :: "string option"
  at_workflow :: "string option"
  at_operation :: "string option"
  at_attempt :: "string option"

definition no_attribution :: attribution where
  "no_attribution = \<lparr>at_subject = None, at_feature = None, at_workflow = None, at_operation = None, at_attempt = None\<rparr>"

text \<open>\<open>if x\<close> on an optional string.\<close>

definition filled :: "string option \<Rightarrow> bool" where
  "filled x \<longleftrightarrow> x \<noteq> None \<and> x \<noteq> Some []"

definition or_opt :: "string option \<Rightarrow> string option \<Rightarrow> string option" where
  "or_opt a b = (if filled a then a else b)"

definition attribution_state :: "attribution \<Rightarrow> string" where
  "attribution_state c =
     (if filled (at_subject c) then ''attributed''
      else if filled (at_feature c) \<or> filled (at_workflow c) then ''unknown'' else ''unattributed'')"

definition clean :: "string option \<Rightarrow> string option" where
  "clean v = (case v of None \<Rightarrow> None | Some s \<Rightarrow> (let t = py_strip s in if t = [] then None else Some t))"

definition normalized :: "attribution \<Rightarrow> attribution" where
  "normalized c = \<lparr>at_subject = clean (at_subject c), at_feature = clean (at_feature c), at_workflow = clean (at_workflow c),
     at_operation = clean (at_operation c), at_attempt = clean (at_attempt c)\<rparr>"

definition put_ref :: "string \<Rightarrow> string option \<Rightarrow> (string \<times> string) list \<Rightarrow> (string \<times> string) list" where
  "put_ref k v d = (if filled v then dset k (the v) d else d)"

definition attribution_version :: string where
  "attribution_version = ''business.attribution.v1''"

definition attribution_to_dict :: "attribution \<Rightarrow> (string \<times> string) list" where
  "attribution_to_dict c0 =
     (let c = normalized c0 in
      put_ref ''attempt_id'' (at_attempt c)
       (put_ref ''operation_id'' (at_operation c)
         (put_ref ''workflow_id'' (at_workflow c)
           (put_ref ''feature_id'' (at_feature c)
             (put_ref ''business_subject_ref'' (at_subject c)
               [(''attribution_version'', attribution_version), (''attribution_state'', attribution_state c)])))))"

definition merge_field :: "string option \<Rightarrow> string option \<Rightarrow> string option res" where
  "merge_field p c =
     (if \<not> filled c then Inr p
      else if filled p \<and> p \<noteq> c then Inl (OtherExn ''AttributionConflict'') else Inr c)"

definition merge_nested :: "attribution \<Rightarrow> attribution \<Rightarrow> attribution res" where
  "merge_nested parent child =
     bnd (merge_field (at_subject parent) (at_subject child)) (\<lambda>s.
     bnd (merge_field (at_feature parent) (at_feature child)) (\<lambda>f.
     bnd (merge_field (at_workflow parent) (at_workflow child)) (\<lambda>w.
     bnd (merge_field (at_operation parent) (at_operation child)) (\<lambda>p.
     bnd (merge_field (at_attempt parent) (at_attempt child)) (\<lambda>a.
       Inr (normalized \<lparr>at_subject = s, at_feature = f, at_workflow = w, at_operation = p, at_attempt = a\<rparr>))))))"

section \<open>Scopes\<close>

text \<open>Entering \<open>use_attribution\<close> and \<open>use_child_operation\<close>.\<close>

definition use_attribution :: "attribution \<Rightarrow> attribution list \<Rightarrow> attribution list res" where
  "use_attribution ctx st =
     (case st of
        [] \<Rightarrow> Inr [normalized ctx]
      | parent # outer \<Rightarrow> bnd (merge_nested parent (normalized ctx)) (\<lambda>effective. Inr (effective # st)))"

definition use_child_operation :: "string \<Rightarrow> string option \<Rightarrow> attribution list \<Rightarrow> attribution list" where
  "use_child_operation operation attempt st =
     (let base = (case st of [] \<Rightarrow> no_attribution | parent # outer \<Rightarrow> parent)
      in normalized (base\<lparr>at_operation := Some operation, at_attempt := attempt\<rparr>) # st)"

definition assert_customer_id :: "bool \<Rightarrow> attribution list \<Rightarrow> unit res" where
  "assert_customer_id required st =
     (if \<not> required then Inr ()
      else case st of
             [] \<Rightarrow> Inl (OtherExn ''CustomerIdRequired'')
           | current # outer \<Rightarrow>
               if filled (at_subject (normalized current)) then Inr () else Inl (OtherExn ''CustomerIdRequired''))"

definition resolve_attribution :: "attribution \<Rightarrow> string option \<Rightarrow> attribution list \<Rightarrow> attribution" where
  "resolve_attribution given feature st =
     (let kwargs = normalized (given\<lparr>at_feature := (if at_feature given \<noteq> None then at_feature given else feature)\<rparr>)
      in case st of
           [] \<Rightarrow> kwargs
         | ambient # outer \<Rightarrow> normalized
             \<lparr>at_subject = or_opt (at_subject ambient) (at_subject kwargs),
              at_feature = or_opt (at_feature ambient) (at_feature kwargs),
              at_workflow = or_opt (at_workflow ambient) (at_workflow kwargs),
              at_operation = or_opt (at_operation ambient) (at_operation kwargs),
              at_attempt = or_opt (at_attempt ambient) (at_attempt kwargs)\<rparr>)"

definition attribution_for_reserve_body :: "attribution \<Rightarrow> string option \<Rightarrow> attribution list \<Rightarrow> (string \<times> string) list" where
  "attribution_for_reserve_body given feature st =
     (let c = resolve_attribution given feature st in
      put_ref ''attempt_id'' (at_attempt c)
       (put_ref ''operation_id'' (at_operation c)
         (put_ref ''workflow_id'' (at_workflow c)
           (put_ref ''business_subject_ref'' (at_subject c)
             (put_ref ''feature'' (at_feature c)
               (put_ref ''feature_id'' (at_feature c) [(''attribution_state'', attribution_state c)]))))))"

definition forbidden_parts :: "string list" where
  "forbidden_parts = [''api_key'', ''authorization'', ''password'', ''secret'', ''token'', ''cookie'', ''messages'', ''prompt'',
     ''content'', ''inputs'', ''outputs'']"

definition assert_metadata_only :: "string list \<Rightarrow> unit res" where
  "assert_metadata_only keys = for_each (\<lambda>key.
     let lowered = map (\<lambda>c. if c = CHR ''-'' then CHR ''_'' else c) (py_lower (py_strip key))
     in raise_if (list_ex (has_infix lowered) forbidden_parts) PyValueError) keys"

section \<open>The customer of a scope\<close>

text \<open>What a program does with scopes; an entry that raises leaves the stack as it was.\<close>

datatype scope_op = Enter attribution | Child string "string option" | Exit

fun scope_step :: "scope_op \<Rightarrow> attribution list \<Rightarrow> attribution list" where
  "scope_step (Enter c) st = (case use_attribution c st of Inl _ \<Rightarrow> st | Inr st' \<Rightarrow> st')"
| "scope_step (Child p a) st = use_child_operation p a st"
| "scope_step Exit st = tl st"

lemma dropWhile_none: "dropWhile P s = [] \<longleftrightarrow> (\<forall>x\<in>set s. P x)"
  by (induction s) auto

lemma dropWhile_again [simp]: "dropWhile P (dropWhile P s) = dropWhile P s"
  by (induction s) auto

lemma dropWhile_snoc_id: "s = [] \<or> \<not> P (hd s) \<Longrightarrow> dropWhile P s = s"
  by (cases s) auto

lemma py_strip_idem [simp]: "py_strip (py_strip s) = py_strip s"
proof -
  let ?a = "dropWhile is_ws s"
  let ?b = "rev (dropWhile is_ws (rev ?a))"
  have "?b = [] \<or> \<not> is_ws (hd ?b)"
  proof (cases "?b = []")
    case False
    obtain ws where a: "?a = ?b @ ws"
    proof
      show "?a = ?b @ rev (takeWhile is_ws (rev ?a))"
        by (metis rev_append rev_rev_ident takeWhile_dropWhile_id)
    qed
    with False have "hd ?a = hd ?b" by (metis hd_append2)
    moreover from a False have "?a \<noteq> []" by (metis append_is_Nil_conv)
    ultimately show ?thesis using hd_dropWhile by metis
  qed simp
  then have "dropWhile is_ws ?b = ?b" by (rule dropWhile_snoc_id)
  then show ?thesis by (simp add: py_strip_def)
qed

lemma clean_simps [simp]: "clean None = None" "clean (clean v) = clean v"
  by (simp_all add: clean_def Let_def split: option.split)

lemma clean_filled: "filled (clean v) \<longleftrightarrow> clean v \<noteq> None"
  by (simp add: clean_def filled_def Let_def split: option.split)

lemma normalized_idem [simp]: "normalized (normalized c) = normalized c"
  by (simp add: normalized_def)

text \<open>Every scope on the stack is normalized, and inherits what the scope around it names.\<close>

definition keeps :: "string option \<Rightarrow> string option \<Rightarrow> bool" where
  "keeps outer inner \<longleftrightarrow> (outer \<noteq> None \<longrightarrow> inner = outer)"

fun nested :: "attribution list \<Rightarrow> bool" where
  "nested [] \<longleftrightarrow> True"
| "nested [c] \<longleftrightarrow> normalized c = c"
| "nested (c # d # st) \<longleftrightarrow> normalized c = c \<and> keeps (at_subject d) (at_subject c) \<and> keeps (at_feature d) (at_feature c) \<and>
     keeps (at_workflow d) (at_workflow c) \<and> nested (d # st)"

lemma nested_tl: "nested st \<Longrightarrow> nested (tl st)"
  by (cases st rule: nested.cases) simp_all

lemma nested_hd: "nested (c # st) \<Longrightarrow> normalized c = c"
  by (cases st) simp_all

lemma clean_id: "normalized c = c \<Longrightarrow> clean (at_subject c) = at_subject c \<and> clean (at_feature c) = at_feature c \<and>
    clean (at_workflow c) = at_workflow c"
  by (metis attribution.select_convs(1,2,3) normalized_def)

lemma merge_field_keeps:
  "merge_field p c = Inr v \<Longrightarrow> clean p = p \<Longrightarrow> clean c = c \<Longrightarrow> keeps p (clean v)"
  using clean_filled [of p] clean_filled [of c] by (auto simp: merge_field_def keeps_def split: if_splits)

lemma scope_step_nested:
  assumes "nested st"
  shows "nested (scope_step x st)"
proof (cases x)
  case (Enter c)
  show ?thesis
  proof (cases "use_attribution c st")
    case (Inr st')
    show ?thesis
    proof (cases st)
      case Nil
      with Inr Enter show ?thesis by (auto simp: use_attribution_def)
    next
      case (Cons d outer)
      have d: "normalized d = d" using assms Cons nested_hd by blast
      from Inr Cons obtain eff where e: "merge_nested d (normalized c) = Inr eff" "st' = eff # st"
        by (auto simp: use_attribution_def bnd_eq_Inr)
      then have "normalized eff = eff" "keeps (at_subject d) (at_subject eff)" "keeps (at_feature d) (at_feature eff)"
        "keeps (at_workflow d) (at_workflow eff)"
        using clean_id [OF d] by (auto simp: merge_nested_def bnd_eq_Inr normalized_def dest: merge_field_keeps)
      with e Cons Enter Inr assms show ?thesis by simp
    qed
  qed (use Enter assms in simp)
next
  case (Child p a)
  with assms show ?thesis
    by (cases st) (auto simp: use_child_operation_def Let_def normalized_def keeps_def dest!: nested_hd clean_id)
qed (use assms in \<open>simp add: nested_tl\<close>)

lemma scope_run_nested: "nested (fold scope_step ops [])"
proof -
  have "nested st \<Longrightarrow> nested (fold scope_step ops st)" for st
    by (induction ops arbitrary: st) (simp_all add: scope_step_nested)
  then show ?thesis by simp
qed

lemma nested_subject:
  assumes "nested st" "d \<in> set st" "at_subject d = Some s"
  shows "at_subject (hd st) = Some s"
  using assms by (induction st rule: nested.induct) (auto simp: keeps_def)

lemma put_ref_get: "dget (put_ref k v d) j = (if j = k \<and> filled v then v else dget d j)"
  by (auto simp: put_ref_def filled_def)

text \<open>A call is charged to its customer. Once a scope names a customer, whatever scopes and child
  operations are entered and left inside it, a reservation made there carries that customer in its body,
  whatever identifiers the caller passes, and the reservation is not refused for want of one.\<close>
theorem customer_is_inherited:
  assumes "st = fold scope_step ops []" and "d \<in> set st" and "at_subject d = Some s"
  shows "dget (attribution_for_reserve_body given feature st) ''business_subject_ref'' = Some s \<and>
    dget (attribution_for_reserve_body given feature st) ''attribution_state'' = Some ''attributed'' \<and>
    assert_customer_id required st = Inr ()"
proof -
  obtain c outer where st: "st = c # outer" using assms(2) by (cases st) auto
  have n: "nested st" using assms(1) scope_run_nested by simp
  then have c: "at_subject c = Some s" using nested_subject [OF n assms(2,3)] st by simp
  moreover have "clean (at_subject c) = at_subject c" using n st nested_hd clean_id by blast
  ultimately have f: "clean (Some s) = Some s" "filled (Some s)" using clean_filled [of "Some s"] by simp_all
  then have "at_subject (resolve_attribution given feature st) = Some s"
    using c by (simp add: resolve_attribution_def st normalized_def or_opt_def Let_def)
  then show ?thesis using f c
    by (simp add: attribution_for_reserve_body_def put_ref_get attribution_state_def assert_customer_id_def st normalized_def Let_def)
qed

theorem customer_is_inherited_witness:
  "let c = no_attribution\<lparr>at_subject := Some '' acme ''\<rparr>;
       st = fold scope_step [Enter c, Child ''op'' None, Enter (no_attribution\<lparr>at_subject := Some ''other''\<rparr>)] []
   in dget (attribution_for_reserve_body (no_attribution\<lparr>at_subject := Some ''evil''\<rparr>) None st) ''business_subject_ref'' = Some ''acme''"
proof -
  define st where "st = fold scope_step [Enter (no_attribution\<lparr>at_subject := Some '' acme ''\<rparr>), Child ''op'' None,
      Enter (no_attribution\<lparr>at_subject := Some ''other''\<rparr>)] []"
  have "list_ex (\<lambda>d. at_subject d = Some ''acme'') st" unfolding st_def by code_simp
  then obtain d where "d \<in> set st" "at_subject d = Some ''acme''" by (auto simp: list_ex_iff)
  from customer_is_inherited [OF st_def this] show ?thesis by (simp add: st_def Let_def)
qed

end
