(* ===== verification/Org_Policy.thy ===== *)
theory Org_Policy
  imports Pyval
begin

text \<open>
  What an organization chose for calls made while Agent FinOps cannot be reached
  (kazenai/spine/org_policy.py): the setting seen in a capabilities document, kept in the memory of each
  process and in files the processes of a machine share. The digest is an argument, and so is whether a
  write to the disk succeeds. A file holds its parsed JSON, \<open>None\<close> when it does not parse.
\<close>

definition policies :: "string list" where
  "policies = [''fail_open'', ''fail_closed'']"

record policy_key =
  pk_url :: string
  pk_org :: string
  pk_fp :: string

record policy_entry =
  pe_policy :: string
  pe_org :: string

definition policy_key :: "(string \<Rightarrow> string) \<Rightarrow> string \<Rightarrow> string \<Rightarrow> string \<Rightarrow> policy_key" where
  "policy_key sha base org_id api_key =
     (let secret = py_strip api_key
      in \<lparr>pk_url = rstrip_char (CHR ''/'') base, pk_org = py_strip org_id, pk_fp = (if secret = [] then [] else take 32 (sha secret))\<rparr>)"

definition usable :: "policy_key \<Rightarrow> bool" where
  "usable k \<longleftrightarrow> pk_url k \<noteq> [] \<and> pk_org k \<noteq> []"

definition policy_path :: "(string \<Rightarrow> string) \<Rightarrow> policy_key \<Rightarrow> string" where
  "policy_path sha k = take 40 (sha (joined ''|'' [pk_url k, pk_org k, pk_fp k])) @ ''.json''"

definition policy_from_capabilities :: "pyval \<Rightarrow> string option" where
  "policy_from_capabilities caps =
     (let block = (if is_mapping caps then field caps ''org_policy'' else PNone);
          value = (if is_mapping block then field block ''when_unreachable'' else PNone)
      in case value of PStr s \<Rightarrow> if s \<in> set policies then Some s else None | _ \<Rightarrow> None)"

definition reported_org :: "pyval \<Rightarrow> string" where
  "reported_org caps =
     (let block = (if is_mapping caps then field caps ''org_policy'' else PNone);
          value = (if is_mapping block then field block ''org_id'' else PNone)
      in take 200 (py_strip (str_or_empty value)))"

type_synonym policy_memory = "policy_key \<Rightarrow> policy_entry option"
type_synonym policy_disk = "string \<Rightarrow> pyval option option"

text \<open>The counts of calls let through since the last warning.\<close>

type_synonym warned = "string \<Rightarrow> (rat \<times> int) option"

text \<open>\<open>remember\<close>. The seconds are what \<open>seen_at\<close> records; nothing reads them.\<close>

definition remember ::
  "(string \<Rightarrow> string) \<Rightarrow> bool \<Rightarrow> rat \<Rightarrow> string \<Rightarrow> string \<Rightarrow> string \<Rightarrow> pyval \<Rightarrow> policy_memory \<times> policy_disk \<Rightarrow> policy_memory \<times> policy_disk" where
  "remember sha write_ok now base org_id api_key caps s =
     (case s of (m, d) \<Rightarrow>
      (let k = policy_key sha base org_id api_key in
       case policy_from_capabilities caps of
         None \<Rightarrow> (m, d)
       | Some p \<Rightarrow>
           if \<not> usable k then (m, d)
           else let entry = \<lparr>pe_policy = p, pe_org = or_str (reported_org caps) (pk_org k)\<rparr>
                in if m k = Some entry then (m, d)
                   else (m(k \<mapsto> entry),
                         if write_ok
                         then d(policy_path sha k \<mapsto> Some (PDict [(''when_unreachable'', PStr p), (''org_id'', PStr (pe_org entry)),
                                                           (''seen_at'', PFloat (Fin now) [])]))
                         else d)))"

text \<open>\<open>_lookup\<close>: memory, then the file, which then fills the memory.\<close>

definition stored_entry :: "policy_key \<Rightarrow> pyval option option \<Rightarrow> policy_entry option" where
  "stored_entry k file = (case file of
     Some (Some (PDict stored)) \<Rightarrow>
       (case kw stored ''when_unreachable'' of
          PStr p \<Rightarrow> if p \<in> set policies
                    then Some \<lparr>pe_policy = p, pe_org = or_str (take 200 (py_strip (str_or_empty (kw stored ''org_id'')))) (pk_org k)\<rparr> else None
        | _ \<Rightarrow> None)
   | _ \<Rightarrow> None)"

definition lookup :: "(string \<Rightarrow> string) \<Rightarrow> policy_key \<Rightarrow> policy_memory \<times> policy_disk \<Rightarrow> policy_entry option \<times> policy_memory" where
  "lookup sha k s =
     (case s of (m, d) \<Rightarrow>
      (if \<not> usable k then (None, m)
       else case m k of Some e \<Rightarrow> (Some e, m)
         | None \<Rightarrow> (case stored_entry k (d (policy_path sha k)) of
                      None \<Rightarrow> (None, m)
                    | Some e \<Rightarrow> (Some e, m(k \<mapsto> e)))))"

definition allows_fail_open :: "(string \<Rightarrow> string) \<Rightarrow> string \<Rightarrow> string \<Rightarrow> string \<Rightarrow> policy_memory \<times> policy_disk \<Rightarrow> bool" where
  "allows_fail_open sha base org_id api_key s =
     (case fst (lookup sha (policy_key sha base org_id api_key) s) of None \<Rightarrow> False | Some e \<Rightarrow> pe_policy e = ''fail_open'')"

definition reported_org_id :: "(string \<Rightarrow> string) \<Rightarrow> string \<Rightarrow> string \<Rightarrow> string \<Rightarrow> policy_memory \<times> policy_disk \<Rightarrow> string" where
  "reported_org_id sha base org_id api_key s =
     (case fst (lookup sha (policy_key sha base org_id api_key) s) of None \<Rightarrow> py_strip org_id | Some e \<Rightarrow> pe_org e)"

text \<open>\<open>note_fail_open_call\<close>: the number of calls the warning names, when there is a warning.\<close>

definition note_fail_open_call :: "rat \<Rightarrow> string \<Rightarrow> warned \<Rightarrow> int option \<times> warned" where
  "note_fail_open_call now org w =
     (let (last, count) = (case w org of None \<Rightarrow> (0, 0) | Some e \<Rightarrow> e); count' = count + 1
      in if now - last < 60 \<and> last \<noteq> 0 then (None, w(org \<mapsto> (last, count')))
         else (Some count', w(org \<mapsto> (now, 0))))"

section \<open>Processes sharing a disk\<close>

text \<open>What happens on one machine: a process sees a capabilities document for its URL, org and key, it
  reads the setting (which fills its memory), it starts again with an empty memory.\<close>

datatype policy_event =
    Saw nat bool rat string string string pyval
  | Asked nat string string string
  | Restarted nat

type_synonym machine = "(nat \<Rightarrow> policy_memory) \<times> policy_disk"

fun policy_step :: "(string \<Rightarrow> string) \<Rightarrow> policy_event \<Rightarrow> machine \<Rightarrow> machine" where
  "policy_step sha (Saw p ok now base org key caps) (ms, d) =
     (case remember sha ok now base org key caps (ms p, d) of (m, d') \<Rightarrow> (ms(p := m), d'))"
| "policy_step sha (Asked p base org key) (ms, d) =
     (ms(p := snd (lookup sha (policy_key sha base org key) (ms p, d))), d)"
| "policy_step sha (Restarted p) (ms, d) = (ms(p := Map.empty), d)"

definition no_machine :: machine where
  "no_machine = ((\<lambda>_. Map.empty), Map.empty)"

text \<open>What an event told about a key.\<close>

definition told :: "(string \<Rightarrow> string) \<Rightarrow> policy_event \<Rightarrow> policy_key \<Rightarrow> string option" where
  "told sha e k = (case e of
     Saw p ok now base org key caps \<Rightarrow> if policy_key sha base org key = k then policy_from_capabilities caps else None
   | _ \<Rightarrow> None)"

definition said :: "(string \<Rightarrow> string) \<Rightarrow> policy_event list \<Rightarrow> policy_key \<Rightarrow> string \<Rightarrow> bool" where
  "said sha es k p \<longleftrightarrow> (\<exists>e\<in>set es. told sha e k = Some p)"

definition paths_apart :: "(string \<Rightarrow> string) \<Rightarrow> policy_key set \<Rightarrow> bool" where
  "paths_apart sha K \<longleftrightarrow> inj_on (policy_path sha) K"

text \<open>Everything a process remembers, and everything on the disk, was said for that very key.\<close>

definition policy_ok :: "(string \<Rightarrow> string) \<Rightarrow> policy_key set \<Rightarrow> policy_event list \<Rightarrow> machine \<Rightarrow> bool" where
  "policy_ok sha K es s \<longleftrightarrow> (\<forall>p k e. fst s p k = Some e \<longrightarrow> k \<in> K \<and> said sha es k (pe_policy e)) \<and>
     (\<forall>k e. k \<in> K \<longrightarrow> stored_entry k (snd s (policy_path sha k)) = Some e \<longrightarrow> said sha es k (pe_policy e))"

definition event_key :: "(string \<Rightarrow> string) \<Rightarrow> policy_event \<Rightarrow> policy_key set" where
  "event_key sha e = (case e of
     Saw p ok now base org key caps \<Rightarrow> {policy_key sha base org key}
   | Asked p base org key \<Rightarrow> {policy_key sha base org key} | Restarted p \<Rightarrow> {})"

lemma said_more: "said sha es k p \<Longrightarrow> said sha (es @ fs) k p"
  by (auto simp: said_def)

lemma remember_cases:
  "remember sha ok now base org key caps (m, d) = (m, d) \<or>
   (\<exists>p r. policy_from_capabilities caps = Some p \<and>
      remember sha ok now base org key caps (m, d) =
        (m(policy_key sha base org key \<mapsto> \<lparr>pe_policy = p, pe_org = r\<rparr>),
         if ok then d(policy_path sha (policy_key sha base org key) \<mapsto>
           Some (PDict [(''when_unreachable'', PStr p), (''org_id'', PStr r), (''seen_at'', PFloat (Fin now) [])])) else d))"
  by (auto simp: remember_def Let_def split: option.splits if_splits)

lemma stored_fst:
  "stored_entry k (Some (Some (PDict [(''when_unreachable'', PStr p), (''org_id'', PStr r), (''seen_at'', t)]))) = Some e
    \<Longrightarrow> pe_policy e = p"
  by (auto simp: stored_entry_def kw_def split: if_splits)

lemma policy_step_ok:
  assumes "policy_ok sha K es s" "event_key sha x \<subseteq> K" "paths_apart sha K"
  shows "policy_ok sha K (es @ [x]) (policy_step sha x s)"
proof -
  obtain ms d where s: "s = (ms, d)" by (cases s)
  have mem: "ms p k = Some e \<Longrightarrow> k \<in> K \<and> said sha (es @ [x]) k (pe_policy e)" for p k e
    using assms(1) said_more unfolding policy_ok_def s by fastforce
  have disk: "k \<in> K \<Longrightarrow> stored_entry k (d (policy_path sha k)) = Some e \<Longrightarrow> said sha (es @ [x]) k (pe_policy e)" for k e
    using assms(1) said_more unfolding policy_ok_def s by fastforce
  show ?thesis
  proof (cases x)
    case (Saw p ok now base org key caps)
    let ?k = "policy_key sha base org key"
    have k: "?k \<in> K" using assms(2) Saw by (simp add: event_key_def)
    from remember_cases [of sha ok now base org key caps "ms p" d] show ?thesis
    proof
      assume "remember sha ok now base org key caps (ms p, d) = (ms p, d)"
      then show ?thesis using mem disk by (simp add: policy_ok_def s Saw)
    next
      assume "\<exists>v r. policy_from_capabilities caps = Some v \<and> remember sha ok now base org key caps (ms p, d) =
        ((ms p)(?k \<mapsto> \<lparr>pe_policy = v, pe_org = r\<rparr>), if ok then d(policy_path sha ?k \<mapsto>
           Some (PDict [(''when_unreachable'', PStr v), (''org_id'', PStr r), (''seen_at'', PFloat (Fin now) [])])) else d)"
      then obtain v r where v: "policy_from_capabilities caps = Some v" and r: "remember sha ok now base org key caps (ms p, d) =
        ((ms p)(?k \<mapsto> \<lparr>pe_policy = v, pe_org = r\<rparr>), if ok then d(policy_path sha ?k \<mapsto>
           Some (PDict [(''when_unreachable'', PStr v), (''org_id'', PStr r), (''seen_at'', PFloat (Fin now) [])])) else d)"
        by blast
      have new: "said sha (es @ [x]) ?k v" using v by (auto simp: said_def told_def Saw)
      have same: "policy_path sha k' = policy_path sha ?k \<longleftrightarrow> k' = ?k" if "k' \<in> K" for k'
        using assms(3) k that by (auto simp: paths_apart_def inj_on_def)
      show ?thesis unfolding policy_ok_def
      proof (intro conjI allI impI)
        fix q k' e assume "fst (policy_step sha x s) q k' = Some e"
        then have "q = p \<and> k' = ?k \<and> e = \<lparr>pe_policy = v, pe_org = r\<rparr> \<or> ms q k' = Some e"
          by (auto simp: s Saw r split: if_splits)
        then show "k' \<in> K" "said sha (es @ [x]) k' (pe_policy e)" using mem k new by auto
      next
        fix k' e assume "k' \<in> K" "stored_entry k' (snd (policy_step sha x s) (policy_path sha k')) = Some e"
        then show "said sha (es @ [x]) k' (pe_policy e)"
          using disk new same stored_fst by (auto simp: s Saw r split: if_splits)
      qed
    qed
  next
    case (Asked p base org key)
    let ?k = "policy_key sha base org key"
    have k: "?k \<in> K" using assms(2) Asked by (simp add: event_key_def)
    have "snd (lookup sha ?k (ms p, d)) k' = Some e \<Longrightarrow> ms p k' = Some e \<or> k' = ?k \<and> stored_entry ?k (d (policy_path sha ?k)) = Some e"
      for k' e by (auto simp: lookup_def split: if_splits option.splits)
    then have "k' \<in> K \<and> said sha (es @ [x]) k' (pe_policy e)" if "snd (lookup sha ?k (ms p, d)) k' = Some e" for k' e
      using that mem disk k by blast
    then show ?thesis using mem disk by (simp add: policy_ok_def s Asked)
  next
    case (Restarted p)
    then show ?thesis using mem disk by (auto simp: policy_ok_def s split: if_splits)
  qed
qed

lemma policy_run_ok:
  assumes "\<forall>e\<in>set es. event_key sha e \<subseteq> K" "paths_apart sha K"
  shows "policy_ok sha K es (fold (policy_step sha) es no_machine)"
  using assms(1)
proof (induction es rule: rev_induct)
  case Nil
  show ?case by (simp add: policy_ok_def no_machine_def stored_entry_def)
next
  case (snoc e es)
  then show ?case using policy_step_ok [OF _ _ assms(2)] by simp
qed

text \<open>What identifies an API key: a part of its digest, nothing for an empty key.\<close>

definition secret_digest :: "(string \<Rightarrow> string) \<Rightarrow> string \<Rightarrow> string" where
  "secret_digest sha key = (if py_strip key = [] then [] else take 32 (sha (py_strip key)))"

text \<open>C27: fail-open is the organization's own choice. However many processes share the settings folder, and
  whatever documents, restarts and failed writes happen, a process lets a call through for a FinOps URL,
  org and API key only if Agent FinOps sent \<open>fail_open\<close> for exactly that URL, org and key (by its digest)
  before.\<close>

theorem fail_open_was_chosen:
  assumes "\<forall>e\<in>set es. event_key sha e \<subseteq> K" and "policy_key sha base org key \<in> K" and "paths_apart sha K"
    and "fold (policy_step sha) es no_machine = (ms, d)"
    and "allows_fail_open sha base org key (ms p, d)"
  shows "\<exists>q ok now base' org' key' caps. Saw q ok now base' org' key' caps \<in> set es \<and>
    policy_from_capabilities caps = Some ''fail_open'' \<and>
    rstrip_char (CHR ''/'') base' = rstrip_char (CHR ''/'') base \<and> py_strip org' = py_strip org \<and>
    secret_digest sha key' = secret_digest sha key"
proof -
  let ?k = "policy_key sha base org key"
  from policy_run_ok [OF assms(1,3)] assms(4) have ok: "policy_ok sha K es (ms, d)" by simp
  obtain e where e: "fst (lookup sha ?k (ms p, d)) = Some e" "pe_policy e = ''fail_open''"
    using assms(5) by (auto simp: allows_fail_open_def split: option.splits)
  from e(1) have "ms p ?k = Some e \<or> stored_entry ?k (d (policy_path sha ?k)) = Some e"
    by (auto simp: lookup_def split: if_splits option.splits)
  then have "said sha es ?k (pe_policy e)" using ok assms(2) by (auto simp: policy_ok_def)
  with e(2) obtain x where x: "x \<in> set es" "told sha x ?k = Some ''fail_open''" by (auto simp: said_def)
  obtain q ok now base' org' key' caps where saw: "x = Saw q ok now base' org' key' caps"
    using x(2) by (cases x) (simp_all add: told_def)
  with x(2) have "policy_key sha base' org' key' = ?k" "policy_from_capabilities caps = Some ''fail_open''"
    by (auto simp: told_def split: if_splits)
  moreover from this(1) have "rstrip_char (CHR ''/'') base' = rstrip_char (CHR ''/'') base" "py_strip org' = py_strip org"
    "secret_digest sha key' = secret_digest sha key"
    by (simp_all add: policy_key_def secret_digest_def Let_def)
  ultimately show ?thesis using x(1) saw by blast
qed

section \<open>The last setting seen\<close>

text \<open>The abstract component: one process, the last setting it saw for each key.\<close>

definition last_told :: "(string \<Rightarrow> string) \<Rightarrow> policy_event \<Rightarrow> (policy_key \<Rightarrow> string option) \<Rightarrow> policy_key \<Rightarrow> string option" where
  "last_told sha e a k = (case told sha e k of Some p \<Rightarrow> if usable k then Some p else a k | None \<Rightarrow> a k)"

definition abs_policy :: "(string \<Rightarrow> string) \<Rightarrow> policy_memory \<times> policy_disk \<Rightarrow> policy_key \<Rightarrow> string option" where
  "abs_policy sha s k = map_option pe_policy (fst (lookup sha k s))"

text \<open>The events of one process whose writes succeed.\<close>

definition alone :: "nat \<Rightarrow> policy_event \<Rightarrow> bool" where
  "alone p e \<longleftrightarrow> (case e of Saw q ok now base org key caps \<Rightarrow> q = p \<and> ok | Asked q base org key \<Rightarrow> q = p | Restarted q \<Rightarrow> q = p)"

definition disk_agrees :: "(string \<Rightarrow> string) \<Rightarrow> policy_key set \<Rightarrow> policy_memory \<times> policy_disk \<Rightarrow> bool" where
  "disk_agrees sha K s \<longleftrightarrow> (\<forall>k e. fst s k = Some e \<longrightarrow> k \<in> K \<and> usable k \<and>
     map_option pe_policy (stored_entry k (snd s (policy_path sha k))) = Some (pe_policy e))"

lemma stored_new:
  "p \<in> set policies \<Longrightarrow> map_option pe_policy (stored_entry k (Some (Some (PDict [(''when_unreachable'', PStr p), (''org_id'', PStr r), (''seen_at'', t)])))) = Some p"
  by (simp add: stored_entry_def kw_def)

lemma from_caps_policy: "policy_from_capabilities caps = Some p \<Longrightarrow> p \<in> set policies"
  by (auto simp: policy_from_capabilities_def Let_def split: pyval.splits if_splits)

lemma lookup_abs:
  assumes "disk_agrees sha K (m, d)"
  shows "abs_policy sha (m, d) k = (if usable k then map_option pe_policy (stored_entry k (d (policy_path sha k))) else None)"
proof (cases "m k")
  case (Some e)
  then have "usable k" "map_option pe_policy (stored_entry k (d (policy_path sha k))) = Some (pe_policy e)"
    using assms unfolding disk_agrees_def by auto
  then show ?thesis using Some by (auto simp: abs_policy_def lookup_def)
qed (simp add: abs_policy_def lookup_def split: option.split)

lemma policy_step_refines:
  assumes "alone p x" "event_key sha x \<subseteq> K" "paths_apart sha K" "disk_agrees sha K (ms p, d)"
    and "policy_step sha x (ms, d) = (ms', d')" "k \<in> K"
  shows "disk_agrees sha K (ms' p, d') \<and> abs_policy sha (ms' p, d') k = last_told sha x (abs_policy sha (ms p, d)) k"
proof (cases x)
  case (Saw q ok now base org key caps)
  let ?k = "policy_key sha base org key"
  have q: "q = p" "ok" and kk: "?k \<in> K" using assms(1,2) by (simp_all add: alone_def Saw event_key_def)
  have same: "policy_path sha k' = policy_path sha ?k \<longleftrightarrow> k' = ?k" if "k' \<in> K" for k'
    using assms(3) kk that by (auto simp: paths_apart_def inj_on_def)
  show ?thesis
  proof (cases "policy_from_capabilities caps")
    case None
    then show ?thesis using assms(4,5)
      by (auto simp: Saw q remember_def last_told_def told_def)
  next
    case (Some v)
    define entry where "entry = \<lparr>pe_policy = v, pe_org = or_str (reported_org caps) (pk_org ?k)\<rparr>"
    define doc where "doc = PDict [(''when_unreachable'', PStr v), (''org_id'', PStr (pe_org entry)), (''seen_at'', PFloat (Fin now) [])]"
    have doc: "map_option pe_policy (stored_entry k' (Some (Some doc))) = Some v" for k'
      unfolding doc_def by (rule stored_new [OF from_caps_policy [OF Some]])
    have tl: "told sha x k = (if ?k = k then Some v else None)" by (simp add: told_def Saw Some)
    consider (skip) "\<not> usable ?k" | (same) "usable ?k" "ms p ?k = Some entry" | (new) "usable ?k" "ms p ?k \<noteq> Some entry"
      by blast
    then show ?thesis
    proof cases
      case skip
      then have "(ms', d') = (ms, d)" using assms(5) by (simp add: Saw q remember_def Some Let_def)
      then show ?thesis using assms(4) skip by (auto simp: last_told_def tl)
    next
      case same
      then have *: "(ms', d') = (ms, d)" using assms(5) by (simp add: Saw q remember_def Some Let_def entry_def)
      have "abs_policy sha (ms p, d) ?k = Some v" using same by (simp add: abs_policy_def lookup_def entry_def)
      with * show ?thesis using assms(4) same by (auto simp: last_told_def tl)
    next
      case new
      then have *: "ms' = ms(p := (ms p)(?k \<mapsto> entry))" "d' = d(policy_path sha ?k \<mapsto> Some doc)"
        using assms(5) by (simp_all add: Saw q remember_def Some Let_def entry_def doc_def)
      have da: "disk_agrees sha K (ms' p, d')"
        using assms(4) new doc kk same by (auto simp: disk_agrees_def * entry_def)
      have "abs_policy sha (ms' p, d') k = (if k = ?k then Some v else abs_policy sha (ms p, d) k)"
        unfolding lookup_abs [OF da] lookup_abs [OF assms(4)]
        using same [OF assms(6)] new doc by (auto simp: *)
      then show ?thesis using da new by (auto simp: last_told_def tl)
    qed
  qed
next
  case (Asked q base org key)
  let ?k = "policy_key sha base org key"
  have q: "q = p" and kk: "?k \<in> K" using assms(1,2) by (simp_all add: alone_def Asked event_key_def)
  have *: "ms' p = snd (lookup sha ?k (ms p, d))" "d' = d" using assms(5) by (auto simp: Asked q)
  have da: "disk_agrees sha K (ms' p, d')"
    using assms(4) kk by (auto simp: * disk_agrees_def lookup_def split: if_splits option.splits)
  have "abs_policy sha (ms' p, d') k = abs_policy sha (ms p, d) k"
    unfolding lookup_abs [OF da] lookup_abs [OF assms(4)] by (simp add: *)
  then show ?thesis using da by (simp add: last_told_def told_def Asked)
next
  case (Restarted q)
  then have *: "ms' p = Map.empty" "d' = d" using assms(1,5) by (auto simp: alone_def)
  have da: "disk_agrees sha K (ms' p, d')" by (simp add: * disk_agrees_def)
  have "abs_policy sha (ms' p, d') k = abs_policy sha (ms p, d) k"
    unfolding lookup_abs [OF da] lookup_abs [OF assms(4)] by (simp add: *)
  then show ?thesis using da by (simp add: last_told_def told_def Restarted)
qed


text \<open>A sample machine: two keys, the digest being the text itself.\<close>

definition caps_of :: "string \<Rightarrow> pyval" where
  "caps_of p = PDict [(''org_policy'', PDict [(''when_unreachable'', PStr p), (''org_id'', PStr ''o1'')])]"

definition sample_key :: policy_key where
  "sample_key = policy_key id ''https://f/'' ''o1'' ''k''"

theorem fail_open_was_chosen_witness:
  "let es = [Saw 0 True 0 ''https://f/'' ''o1'' ''k'' (caps_of ''fail_open''), Restarted 1] in
   (\<exists>q ok now base org key caps. Saw q ok now base org key caps \<in> set es \<and> policy_from_capabilities caps = Some ''fail_open'' \<and>
      py_strip org = ''o1'' \<and> secret_digest id key = ''k'')"
proof -
  let ?es = "[Saw 0 True 0 ''https://f/'' ''o1'' ''k'' (caps_of ''fail_open''), Restarted 1]"
  obtain ms d where f: "fold (policy_step id) ?es no_machine = (ms, d)" by fastforce
  have "allows_fail_open id ''https://f/'' ''o1'' ''k'' (fst (fold (policy_step id) ?es no_machine) 1,
      snd (fold (policy_step id) ?es no_machine))" by code_simp
  then have a: "allows_fail_open id ''https://f/'' ''o1'' ''k'' (ms 1, d)" by (simp only: f fst_conv snd_conv)
  have "\<forall>e\<in>set ?es. event_key id e \<subseteq> {sample_key}" by (simp add: event_key_def sample_key_def)
  moreover have "policy_key id ''https://f/'' ''o1'' ''k'' \<in> {sample_key}" "paths_apart id {sample_key}"
    by (simp_all add: sample_key_def paths_apart_def)
  moreover have "py_strip ''o1'' = ''o1''" "secret_digest id ''k'' = ''k''" by code_simp+
  ultimately show ?thesis unfolding Let_def using fail_open_was_chosen [OF _ _ _ f a] by metis
qed


text \<open>With two processes the disk may keep a setting every process has seen withdrawn: the first process, whose
  memory already says \<open>fail_closed\<close>, does not write it again over the \<open>fail_open\<close> the second one saw in between,
  and reads \<open>fail_open\<close> after its next restart.\<close>

theorem withdrawn_setting_returns:
  "let es = [Saw 0 True 0 ''https://f/'' ''o1'' ''k'' (caps_of ''fail_closed''),
             Saw 1 True 1 ''https://f/'' ''o1'' ''k'' (caps_of ''fail_open''),
             Saw 0 True 2 ''https://f/'' ''o1'' ''k'' (caps_of ''fail_closed''), Restarted 0]
   in allows_fail_open id ''https://f/'' ''o1'' ''k'' (fst (fold (policy_step id) es no_machine) 0, snd (fold (policy_step id) es no_machine))"
  by code_simp

end
