(* ===== verification/Guard.thy ===== *)
theory Guard
  imports Org_Policy Attribution Ownership Stream_Attempt Settle_Delivery
begin

text \<open>
  Admission of a call by Agent FinOps: the reservation side of kazenai/spine/guard.py. What FinOps and the
  network answer, the clock, fresh ids and the price engine are fields of a world; the process state is the
  capability cache, the remembered organization policy, the owner and attribution scopes, the settlement
  queue and the trace of what was sent. Floats are exact rationals; one call reads the clock once.
\<close>

section \<open>Reservation handles\<close>

record reservation_handle =
  rh_cost :: rat
  rh_id :: string
  rh_call :: string
  rh_attempt :: int
  rh_micros :: int
  rh_lifecycle :: bool
  rh_idem :: string
  rh_decision :: string
  rh_subject :: string
  rh_feature :: string
  rh_workflow :: string
  rh_base :: string
  rh_key :: string
  rh_org :: string
  rh_workspace :: string
  rh_failure_policy :: string
  rh_accounting_owner :: string
  rh_enforcement_owner :: string
  rh_lifecycle_version :: string
  rh_config_version :: string
  rh_capability :: "string option"
  rh_fail_open :: bool
  rh_pricing :: "call_pricing option"

text \<open>The defaults of the dataclass.\<close>

definition bare_handle :: reservation_handle where
  "bare_handle = \<lparr>rh_cost = 0, rh_id = [], rh_call = [], rh_attempt = 1, rh_micros = 0, rh_lifecycle = False, rh_idem = [],
     rh_decision = [], rh_subject = [], rh_feature = [], rh_workflow = [], rh_base = [], rh_key = [], rh_org = [],
     rh_workspace = [], rh_failure_policy = [], rh_accounting_owner = [], rh_enforcement_owner = [],
     rh_lifecycle_version = [], rh_config_version = [], rh_capability = None, rh_fail_open = False, rh_pricing = None\<rparr>"

definition handle_truth :: "reservation_handle \<Rightarrow> bool" where
  "handle_truth h \<longleftrightarrow> rh_id h \<noteq> [] \<or> rh_cost h > 0"

definition handle_eq :: "reservation_handle \<Rightarrow> reservation_handle \<Rightarrow> bool" where
  "handle_eq a b \<longleftrightarrow> rh_id a = rh_id b \<and> rh_cost a = rh_cost b"

text \<open>What a reservation call returns: a handle, or the float of the legacy check.\<close>

datatype reserved = Handle reservation_handle | Amount fl

definition api_key :: "env \<Rightarrow> string" where
  "api_key e = py_strip (case dget e ''KAZENAI_FINOPS_API_KEY'' of
     Some (c # cs) \<Rightarrow> c # cs
   | _ \<Rightarrow> (case dget e ''KAZENAI_API_KEY'' of None \<Rightarrow> [] | Some s \<Rightarrow> s))"

definition settlement_base_url :: "env \<Rightarrow> reservation_handle \<Rightarrow> string" where
  "settlement_base_url e h = rstrip_char (CHR ''/'') (or_str (rh_base h) (finops_url (dget e)))"

definition settlement_api_key :: "env \<Rightarrow> reservation_handle \<Rightarrow> string" where
  "settlement_api_key e h = py_strip (or_str (rh_key h) (api_key e))"

definition settlement_org_id :: "reservation_handle \<Rightarrow> string \<Rightarrow> string" where
  "settlement_org_id h fallback = py_strip (or_str (rh_org h) fallback)"

text \<open>Headers without the trace headers of OpenTelemetry.\<close>

definition finops_headers :: "env \<Rightarrow> string \<Rightarrow> string option \<Rightarrow> (string \<times> string) list" where
  "finops_headers e org_id key0 =
     (let key = py_strip (case key0 of None \<Rightarrow> api_key e | Some k \<Rightarrow> k); tenant = py_strip org_id;
          h = [(''Content-Type'', ''application/json''), (''X-API-Key'', key)]
            @ (if key = [] then [] else [(''Authorization'', ''Bearer '' @ key)])
      in if tenant = [] then h else h @ [(''X-Kazen-Act-As-Org'', tenant)])"

text \<open>\<open>_usd_to_micros_ceil\<close>: to nano-dollars first, then up to whole micro-dollars.\<close>

definition usd_to_micros_ceil :: "rat \<Rightarrow> int res" where
  "usd_to_micros_ceil usd = bnd (quantize_nanos usd) (\<lambda>nanos. Inr (max 0 \<lceil>d_mul nanos 1000000\<rceil>))"

definition micros_to_usd :: "int \<Rightarrow> rat" where
  "micros_to_usd m = of_int m / 1000000"

section \<open>Answers of Agent FinOps\<close>

text \<open>An answer below 400 with its JSON (\<open>None\<close> when it does not parse), an HTTP error with its body, no
  answer (an \<open>OSError\<close>, a dropped connection, a timeout), another exception.\<close>

datatype reserve_reply =
    Reply_Ok "pyval option"
  | Reply_Http int string
  | Reply_Down string
  | Reply_Broke string

datatype guard_exn =
    Budget_Exceeded string
  | Budget_Unavailable string
  | Guard_Raised exn
  | Cancelled_Error

type_synonym 'a gres = "guard_exn + 'a"

definition reserve_retry_statuses :: "int list" where
  "reserve_retry_statuses = [502, 503, 504]"

definition unavailable_statuses :: "int list" where
  "unavailable_statuses = [408, 429]"

definition unavailable_status :: "int \<Rightarrow> bool" where
  "unavailable_status code \<longleftrightarrow> code \<in> set unavailable_statuses \<or> code \<ge> 500"

text \<open>\<open>_is_unavailable\<close> on what a reply raises; an answer raises nothing.\<close>

definition is_unavailable :: "reserve_reply \<Rightarrow> bool" where
  "is_unavailable r = (case r of Reply_Http code _ \<Rightarrow> unavailable_status code | Reply_Down _ \<Rightarrow> True | _ \<Rightarrow> False)"

definition reserve_retryable :: "reserve_reply \<Rightarrow> bool" where
  "reserve_retryable r = (case r of
     Reply_Ok _ \<Rightarrow> False | Reply_Http code _ \<Rightarrow> code \<in> set reserve_retry_statuses | _ \<Rightarrow> is_unavailable r)"

definition is_tier_breaker :: "int option \<Rightarrow> pyval \<Rightarrow> bool" where
  "is_tier_breaker status detail \<longleftrightarrow> status = Some 409 \<and> is_mapping detail \<and> str_or_empty (field detail ''error_code'') = ''tier_breaker''"

definition denial_reason :: "pyval \<Rightarrow> string list \<Rightarrow> string" where
  "denial_reason detail0 names =
     (if \<not> is_mapping detail0 then ''budget exhausted''
      else
        let detail = (if is_mapping (field detail0 ''detail'') then field detail0 ''detail'' else detail0)
        in case find (\<lambda>n. truthy (field detail n)) names of
             Some n \<Rightarrow> py_str (field detail n)
           | None \<Rightarrow>
               let receipt = field detail ''decision_receipt'';
                   constraint = (if is_mapping receipt then field receipt ''determining_constraint'' else PNone)
               in if is_mapping constraint \<and> truthy (field constraint ''detail'')
                  then py_str (field constraint ''detail'') else ''budget exhausted'')"

definition parse_finops_http_error :: "(string \<Rightarrow> pyval option) \<Rightarrow> string \<Rightarrow> pyval" where
  "parse_finops_http_error loads raw =
     (if raw = [] then PDict []
      else case loads raw of
             Some (PDict d) \<Rightarrow> (case kw d ''detail'' of PDict x \<Rightarrow> PDict x | _ \<Rightarrow> PDict d)
           | _ \<Rightarrow> PDict [(''reason'', PStr raw)])"

section \<open>The world and the process\<close>

datatype caps_reply = Caps_Doc pyval | Caps_Fail

record guard_world =
  gw_env :: env
  gw_post :: post_env
  gw_ids :: "string \<times> string \<times> string"
  gw_catalog :: catalog
  gw_engine :: "cost_engine res"
  gw_pricing :: "call_pricing option"
  gw_format :: "rat \<Rightarrow> string"
  gw_caps :: caps_reply
  gw_reserve :: "nat \<Rightarrow> payload \<Rightarrow> reserve_reply"
  gw_check :: "payload \<Rightarrow> reserve_reply"
  gw_settle :: "nat \<Rightarrow> payload \<Rightarrow> http_result"
  gw_cancel :: "nat \<Rightarrow> bool"
  gw_reconcile :: bool
  gw_write_ok :: bool
  gw_litellm :: "string \<Rightarrow> pyval \<Rightarrow> rat option"

definition gw_now :: "guard_world \<Rightarrow> rat" where
  "gw_now w = pe_now (gw_post w)"

datatype guard_effect =
    Caps_Requested
  | Reserve_Sent payload
  | Check_Sent payload
  | Settle_Sent payload
  | Reconcile_Sent payload
  | Provider_Called
  | Reserve_Event bool "string option"
  | Model_Event "int option" "rat option"

type_synonym cap_key = "string \<times> string \<times> string"

record guard_state =
  gs_caps :: "cap_key \<Rightarrow> (rat \<times> pyval) option"
  gs_policy :: "policy_memory \<times> policy_disk"
  gs_warned :: warned
  gs_owner :: owner_stack
  gs_scopes :: "attribution list"
  gs_queue :: settle_queue
  gs_trace :: "guard_effect list"

definition log_effect :: "guard_effect \<Rightarrow> guard_state \<Rightarrow> guard_state" where
  "log_effect x s = s\<lparr>gs_trace := gs_trace s @ [x]\<rparr>"

section \<open>Settlement binding and server capabilities\<close>

record binding =
  bd_base :: string
  bd_key :: string
  bd_org :: string
  bd_workspace :: string
  bd_failure_policy :: string
  bd_accounting_owner :: string
  bd_enforcement_owner :: string
  bd_lifecycle_version :: string
  bd_config_version :: string

definition capture_settlement_binding :: "env \<Rightarrow> string \<Rightarrow> string \<Rightarrow> string \<Rightarrow> binding res" where
  "capture_settlement_binding e base org_id workspace_id =
     bnd (resolve_effective_lifecycle e None ''sdk'' None) (\<lambda>cfg. Inr
       \<lparr>bd_base = rstrip_char (CHR ''/'') base, bd_key = api_key e, bd_org = py_strip org_id,
        bd_workspace = or_str (py_strip workspace_id) ''default'', bd_failure_policy = lc_failure_policy cfg,
        bd_accounting_owner = lc_accounting_owner cfg,
        bd_enforcement_owner = map_accounting_owner_to_enforcement (lc_accounting_owner cfg),
        bd_lifecycle_version = lc_lifecycle_version cfg, bd_config_version = lc_config_version cfg\<rparr>)"

definition lifecycle_cap_cache_key :: "(string \<Rightarrow> string) \<Rightarrow> string \<Rightarrow> string \<Rightarrow> string \<Rightarrow> cap_key" where
  "lifecycle_cap_cache_key sha base org_id key =
     (let k = py_strip key
      in (rstrip_char (CHR ''/'') base, py_strip org_id, if k = [] then [] else take 16 (sha k)))"

text \<open>\<open>_fetch_server_lifecycle_capabilities\<close>: the document, from the cache for 30 seconds.\<close>

definition fetch_capabilities :: "guard_world \<Rightarrow> string \<Rightarrow> string \<Rightarrow> string \<Rightarrow> guard_state \<Rightarrow> pyval \<times> guard_state" where
  "fetch_capabilities w base org_id key s =
     (let sha = pe_sha (gw_post w); ck = lifecycle_cap_cache_key sha base org_id key; url = fst ck; now = gw_now w in
      if url = [] then (PDict [], s)
      else case (case gs_caps s ck of Some (t, doc) \<Rightarrow> if now - t < 30 then Some doc else None | None \<Rightarrow> None) of
             Some doc \<Rightarrow> (doc, s)
           | None \<Rightarrow>
               (case gw_caps w of
                  Caps_Fail \<Rightarrow> (PDict [], log_effect Caps_Requested s)
                | Caps_Doc v \<Rightarrow>
                    let p = (if is_mapping v then v else PDict [])
                    in (p, (log_effect Caps_Requested s)\<lparr>gs_caps := (gs_caps s)(ck \<mapsto> (now, p)),
                           gs_policy := remember sha (gw_write_ok w) now url org_id (py_strip key) p (gs_policy s)\<rparr>)))"

definition looks_like_lifecycle_capabilities :: "pyval \<Rightarrow> bool" where
  "looks_like_lifecycle_capabilities p \<longleftrightarrow> (case p of
     PDict d \<Rightarrow> d \<noteq> [] \<and>
       ((case kw d ''capabilities'' of PDict c \<Rightarrow> has_key c ''reservation_settlement'' | _ \<Rightarrow> False) \<or>
        has_key d ''reservation_settlement'' \<and> \<not> has_key d ''reservation_id'' \<or> is_mapping (kw d ''effective_lifecycle''))
   | _ \<Rightarrow> False)"

text \<open>Reading the organization's policy; a value read from the disk stays in memory.\<close>

definition ask_fail_open :: "guard_world \<Rightarrow> string \<Rightarrow> string \<Rightarrow> string \<Rightarrow> guard_state \<Rightarrow> bool \<times> guard_state" where
  "ask_fail_open w base org_id key s =
     (let sha = pe_sha (gw_post w)
      in (allows_fail_open sha base org_id key (gs_policy s),
          s\<lparr>gs_policy := (snd (lookup sha (policy_key sha base org_id key) (gs_policy s)), snd (gs_policy s))\<rparr>))"

definition apply_lifecycle_capability_gate ::
  "guard_world \<Rightarrow> pyval \<Rightarrow> string \<Rightarrow> string \<Rightarrow> string \<Rightarrow> guard_state \<Rightarrow> unit gres \<times> guard_state" where
  "apply_lifecycle_capability_gate w caps base org_id key s =
     (if \<not> looks_like_lifecycle_capabilities caps
      then if enforcement_fail_closed (gw_env w) \<or> finops_reservation_fail_closed (gw_env w)
           then (case ask_fail_open w base org_id (py_strip key) s of
                   (ok, s') \<Rightarrow> (if ok then Inr ()
                     else Inl (Budget_Unavailable ''FinOps lifecycle capabilities unavailable before Control reserve''), s'))
           else (Inr (), s)
      else (case assert_compatible_with_server (gw_env w) caps of
              Inr _ \<Rightarrow> Inr ()
            | Inl ClientServerLifecycleMismatch \<Rightarrow> Inl (Budget_Unavailable ''lifecycle mismatch'')
            | Inl x \<Rightarrow> Inl (Guard_Raised x), s))"

definition ensure_server_lifecycle_compatible ::
  "guard_world \<Rightarrow> string \<Rightarrow> string \<Rightarrow> string \<Rightarrow> guard_state \<Rightarrow> unit gres \<times> guard_state" where
  "ensure_server_lifecycle_compatible w base org_id key s =
     (case lifecycle_budget_enabled (gw_env w) of
        Inl x \<Rightarrow> (Inl (Guard_Raised x), s)
      | Inr False \<Rightarrow> (Inr (), s)
      | Inr True \<Rightarrow> (case fetch_capabilities w base org_id key s of
          (caps, s') \<Rightarrow> apply_lifecycle_capability_gate w caps base org_id key s'))"

section \<open>The reservation\<close>

definition handle_to_reservation ::
  "pyval \<Rightarrow> string \<Rightarrow> int \<Rightarrow> int \<Rightarrow> string \<Rightarrow> attribution \<Rightarrow> binding \<Rightarrow> reservation_handle gres" where
  "handle_to_reservation p cid att micros idem asked bind =
     (case py_int (or_val (field p ''reserved_usd_micros'') (PInt micros)) of
        Inl x \<Rightarrow> Inl (Guard_Raised x)
      | Inr reserved_micros \<Rightarrow>
          let receipt = (if is_mapping (field p ''decision_receipt'') then field p ''decision_receipt'' else PDict []);
              decision = or_str (str_or_empty (field p ''decision_id'')) (str_or_empty (field receipt ''decision_id''));
              direct = (if is_mapping (field receipt ''economics'') then field receipt ''economics'' else PDict []);
              legacy = field receipt ''attribution'';
              economics = (if \<not> truthy direct \<and> is_mapping legacy
                           then (if is_mapping (field legacy ''economics'') then field legacy ''economics'' else PDict [])
                           else direct);
              capability = py_strip (str_or_empty (field p ''settlement_capability''));
              rid = str_or_empty (field p ''reservation_id'');
              ref = (\<lambda>k asked'. or_str (or_str (str_or_empty (field p k)) (str_or_empty (field economics k)))
                       (case asked' of None \<Rightarrow> [] | Some t \<Rightarrow> t))
          in if field p ''allowed'' \<noteq> PBool False \<and> rid \<noteq> [] \<and> capability = []
             then Inl (Budget_Unavailable ''lifecycle reserve response omitted settlement_capability'')
             else case py_int (or_val (field p ''attempt'') (PInt att)) of
                    Inl x \<Rightarrow> Inl (Guard_Raised x)
                  | Inr att' \<Rightarrow> Inr
                      \<lparr>rh_cost = micros_to_usd reserved_micros, rh_id = rid,
                       rh_call = or_str (str_or_empty (field p ''call_id'')) cid, rh_attempt = att',
                       rh_micros = reserved_micros, rh_lifecycle = True, rh_idem = idem, rh_decision = decision,
                       rh_subject = ref ''business_subject_ref'' (at_subject asked), rh_feature = ref ''feature_id'' (at_feature asked),
                       rh_workflow = ref ''workflow_id'' (at_workflow asked),
                       rh_base = bd_base bind, rh_key = bd_key bind, rh_org = bd_org bind, rh_workspace = bd_workspace bind,
                       rh_failure_policy = bd_failure_policy bind, rh_accounting_owner = bd_accounting_owner bind,
                       rh_enforcement_owner = bd_enforcement_owner bind, rh_lifecycle_version = bd_lifecycle_version bind,
                       rh_config_version = bd_config_version bind,
                       rh_capability = (if capability = [] then None else Some capability), rh_fail_open = False,
                       rh_pricing = None\<rparr>)"

definition catalog_reserve_overlay :: "call_pricing option \<Rightarrow> int \<Rightarrow> int \<times> payload" where
  "catalog_reserve_overlay pricing micros = (case pricing of
     None \<Rightarrow> (micros, [])
   | Some cp \<Rightarrow>
       let exact = pd_reserved_micro_usd (cp_decision cp)
       in (if exact \<ge> 0 then exact else micros, reserve_body_fields (cp_decision cp)))"

text \<open>\<open>_apply_attribution\<close>.\<close>

definition apply_attribution :: "attribution list \<Rightarrow> string option \<Rightarrow> attribution \<Rightarrow> payload \<Rightarrow> payload" where
  "apply_attribution scopes feature asked body =
     (let attrs = attribution_for_reserve_body asked feature scopes;
          feat = py_strip (case feature of None \<Rightarrow> [] | Some f \<Rightarrow> f);
          body1 = (if feature \<noteq> None \<and> feature \<noteq> Some [] \<and> dget attrs ''feature'' = None \<and> feat \<noteq> []
                   then dset ''feature'' (PStr feat) body else body)
      in dupdate body1 (map (\<lambda>(k, v). (k, PStr v)) attrs))"

text \<open>What a caller asks for.\<close>

record reserve_call =
  rc_org :: string
  rc_workspace :: string
  rc_run :: string
  rc_model :: string
  rc_input_tokens :: int
  rc_estimate :: "rat option"
  rc_increment_step :: bool
  rc_feature :: "string option"
  rc_call_id :: "string option"
  rc_attempt :: int
  rc_idem :: "string option"
  rc_given :: attribution

definition estimate_usd :: "guard_world \<Rightarrow> reserve_call \<Rightarrow> rat" where
  "estimate_usd w c =
     (let est = (case rc_estimate c of
        Some q \<Rightarrow> q
      | None \<Rightarrow> (case bnd (gw_engine w) (\<lambda>en. engine_cost_usd (gw_env w) (gw_catalog w) en
                          (or_str (rc_model c) ''unknown'') (rc_input_tokens c) 0) of
                  Inr q \<Rightarrow> if q = 0 then 1 / 100 else q
                | Inl _ \<Rightarrow> 1 / 100))
      in if est \<le> 0 then 1 / 100 else est)"

text \<open>\<open>_build_lifecycle_reserve_body\<close>, which \<open>_reserve_lifecycle\<close> repeats: the body, the identities, the
  reserved amount.\<close>

definition build_lifecycle_reserve_body ::
  "guard_world \<Rightarrow> reserve_call \<Rightarrow> attribution list \<Rightarrow> (payload \<times> attempt_identities \<times> int) res" where
  "build_lifecycle_reserve_body w c scopes =
     (case gw_ids w of (n1, n2, n3) \<Rightarrow>
      (let i = create_attempt_identities n1 n2 n3 (at_operation (rc_given c)) (rc_call_id c) (rc_attempt c)
                 (at_attempt (rc_given c)) (rc_idem c)
       in bnd (usd_to_micros_ceil (estimate_usd w c)) (\<lambda>m0.
          let (micros, fields) = catalog_reserve_overlay (gw_pricing w) m0;
              body = dupdate [(''lifecycle_version'', PStr ''reservation.lifecycle.v1''), (''call_id'', PStr (ai_call_id i)),
                (''attempt'', PInt (ai_attempt i)), (''idempotency_key'', PStr (idempotency_key i)), (''org_id'', PStr (rc_org c)),
                (''workspace_id'', PStr (rc_workspace c)), (''estimated_usd_micros'', PInt micros), (''run_id'', PStr (rc_run c))]
                fields
          in Inr (apply_attribution scopes (rc_feature c)
                    ((rc_given c)\<lparr>at_attempt := or_opt (at_attempt (rc_given c)) (Some (attempt_id i))\<rparr>) body, i, micros))))"

text \<open>A reservation is sent once more, the same, when it got no answer.\<close>

definition reserve_urlopen :: "guard_world \<Rightarrow> payload \<Rightarrow> guard_state \<Rightarrow> reserve_reply \<times> guard_state" where
  "reserve_urlopen w body s =
     (if reserve_retryable (gw_reserve w 0 body)
      then (gw_reserve w 1 body, log_effect (Reserve_Sent body) (log_effect (Reserve_Sent body) s))
      else (gw_reserve w 0 body, log_effect (Reserve_Sent body) s))"

definition fail_open_handle ::
  "guard_world \<Rightarrow> string \<Rightarrow> int \<Rightarrow> string \<Rightarrow> string \<Rightarrow> string \<Rightarrow> guard_state \<Rightarrow> reservation_handle \<times> guard_state" where
  "fail_open_handle w cid att base org_id key s =
     (let reported = reported_org_id (pe_sha (gw_post w)) base org_id key (gs_policy s)
      in (bare_handle\<lparr>rh_call := cid, rh_attempt := att, rh_lifecycle := True, rh_fail_open := True, rh_base := base, rh_org := org_id\<rparr>,
          s\<lparr>gs_warned := snd (note_fail_open_call (gw_now w) reported (gs_warned s))\<rparr>))"

text \<open>No decision from FinOps: the organization's choice, a refusal, or (when control failures are let
  through) a handle without a reservation.\<close>

definition reserve_undecided ::
  "guard_world \<Rightarrow> bool \<Rightarrow> bool \<Rightarrow> string \<Rightarrow> string \<Rightarrow> int \<Rightarrow> string \<Rightarrow> string \<Rightarrow> string \<Rightarrow> guard_state
    \<Rightarrow> reservation_handle gres \<times> guard_state" where
  "reserve_undecided w shut unavailable why cid att base org_id key s =
     (if shut
      then (case (if unavailable then ask_fail_open w base org_id key s else (False, s)) of
              (True, s') \<Rightarrow> (case fail_open_handle w cid att base org_id key s' of (h, s'') \<Rightarrow> (Inr h, s''))
            | (False, s') \<Rightarrow> (Inl (Budget_Unavailable why), s'))
      else (Inr (bare_handle\<lparr>rh_call := cid, rh_attempt := att, rh_lifecycle := True\<rparr>), s))"

text \<open>What \<open>_reserve_lifecycle\<close> and \<open>_reserve_lifecycle_async\<close> make of the reply.\<close>

record admission =
  ad_identities :: attempt_identities
  ad_micros :: int
  ad_base :: string
  ad_binding :: binding

definition undecided ::
  "guard_world \<Rightarrow> reserve_call \<Rightarrow> admission \<Rightarrow> bool \<Rightarrow> bool \<Rightarrow> string \<Rightarrow> guard_state \<Rightarrow> reservation_handle gres \<times> guard_state" where
  "undecided w c a shut unavailable why s =
     reserve_undecided w shut unavailable why (ai_call_id (ad_identities a)) (ai_attempt (ad_identities a))
       (ad_base a) (rc_org c) (bd_key (ad_binding a)) s"

definition any_fail_closed :: "env \<Rightarrow> bool" where
  "any_fail_closed e \<longleftrightarrow> finops_reservation_fail_closed e \<or> enforcement_fail_closed e"

definition no_answer :: string where
  "no_answer = ''Pre-call reservation unavailable''"

definition admitted ::
  "guard_world \<Rightarrow> reserve_call \<Rightarrow> admission \<Rightarrow> pyval \<Rightarrow> guard_state \<Rightarrow> reservation_handle gres \<times> guard_state" where
  "admitted w c a p s =
     (case handle_to_reservation p (ai_call_id (ad_identities a)) (ai_attempt (ad_identities a)) (ad_micros a)
             (idempotency_key (ad_identities a))
             ((rc_given c)\<lparr>at_feature := or_opt (at_feature (rc_given c)) (rc_feature c)\<rparr>) (ad_binding a) of
        Inr h \<Rightarrow> (Inr h, s)
      | Inl (Guard_Raised x) \<Rightarrow> undecided w c a (any_fail_closed (gw_env w)) False no_answer s
      | Inl x \<Rightarrow> (Inl x, s))"

definition reserve_answer ::
  "guard_world \<Rightarrow> reserve_call \<Rightarrow> admission \<Rightarrow> reserve_reply \<Rightarrow> guard_state \<Rightarrow> reservation_handle gres \<times> guard_state" where
  "reserve_answer w c a reply s = (case reply of
     Reply_Ok (Some p) \<Rightarrow>
       if is_mapping p then admitted w c a p s
       else undecided w c a (any_fail_closed (gw_env w)) False no_answer s
   | Reply_Http status raw \<Rightarrow>
       let detail = parse_finops_http_error (pe_loads (gw_post w)) raw
       in if status = 402 \<or> is_tier_breaker (Some status) detail
          then (Inl (Budget_Exceeded (''Pre-call reservation denied: '' @ denial_reason detail [''reason'', ''error_code''])), s)
          else undecided w c a (finops_reservation_fail_closed (gw_env w)) (unavailable_status status)
                 (''Pre-call reservation HTTP '' @ int_str status) s
   | _ \<Rightarrow> undecided w c a (any_fail_closed (gw_env w)) (is_unavailable reply) no_answer s)"

definition reserve_answer_async ::
  "guard_world \<Rightarrow> reserve_call \<Rightarrow> admission \<Rightarrow> reserve_reply \<Rightarrow> guard_state \<Rightarrow> reservation_handle gres \<times> guard_state" where
  "reserve_answer_async w c a reply s = (case reply of
     Reply_Ok (Some p) \<Rightarrow> admitted w c a (if is_mapping p then p else PDict []) s
   | Reply_Http status raw \<Rightarrow>
       if status = 402
       then let detail = (case pe_loads (gw_post w) raw of
                  Some (PDict d) \<Rightarrow> (case kw d ''detail'' of PDict x \<Rightarrow> PDict x | _ \<Rightarrow> PDict d)
                | _ \<Rightarrow> PDict [(''reason'', PStr raw)])
            in (Inl (Budget_Exceeded (''Pre-call reservation denied: '' @ denial_reason detail [''reason'', ''error_code''])), s)
       else let detail = parse_finops_http_error (pe_loads (gw_post w)) raw
            in if is_tier_breaker (Some status) detail
               then (Inl (Budget_Exceeded (''Pre-call reservation denied: '' @
                       py_str (or_val (field detail ''reason'') (PStr ''tier breaker open'')))), s)
               else undecided w c a (finops_reservation_fail_closed (gw_env w)) (unavailable_status status)
                      (''Pre-call reservation HTTP '' @ int_str status) s
   | _ \<Rightarrow> undecided w c a (any_fail_closed (gw_env w)) (is_unavailable reply) no_answer s)"

definition lifecycle_with ::
  "(guard_world \<Rightarrow> reserve_call \<Rightarrow> admission \<Rightarrow> reserve_reply \<Rightarrow> guard_state \<Rightarrow> reservation_handle gres \<times> guard_state)
    \<Rightarrow> guard_world \<Rightarrow> string \<Rightarrow> reserve_call \<Rightarrow> guard_state \<Rightarrow> reservation_handle gres \<times> guard_state" where
  "lifecycle_with answer w base c s =
     (case build_lifecycle_reserve_body w c (gs_scopes s) of
        Inl x \<Rightarrow> (Inl (Guard_Raised x), s)
      | Inr (body, i, micros) \<Rightarrow>
          (case capture_settlement_binding (gw_env w) base (rc_org c) (rc_workspace c) of
             Inl x \<Rightarrow> (Inl (Guard_Raised x), s)
           | Inr bind \<Rightarrow>
               (case ensure_server_lifecycle_compatible w base (rc_org c) (bd_key bind) s of
                  (Inl x, s1) \<Rightarrow> (Inl x, s1)
                | (Inr _, s1) \<Rightarrow>
                    (case reserve_urlopen w body s1 of
                       (reply, s2) \<Rightarrow> answer w c \<lparr>ad_identities = i, ad_micros = micros, ad_base = base, ad_binding = bind\<rparr> reply s2))))"

definition reserve_lifecycle :: "guard_world \<Rightarrow> string \<Rightarrow> reserve_call \<Rightarrow> guard_state \<Rightarrow> reservation_handle gres \<times> guard_state" where
  "reserve_lifecycle = lifecycle_with reserve_answer"

definition reserve_lifecycle_async :: "guard_world \<Rightarrow> string \<Rightarrow> reserve_call \<Rightarrow> guard_state \<Rightarrow> reservation_handle gres \<times> guard_state" where
  "reserve_lifecycle_async = lifecycle_with reserve_answer_async"

section \<open>Reserving a call\<close>

definition owner_noop_handle :: "env \<Rightarrow> owner_stack \<Rightarrow> string option \<Rightarrow> int \<Rightarrow> reservation_handle res" where
  "owner_noop_handle e st cid att =
     bnd (lifecycle_budget_enabled e) (\<lambda>enabled.
       let text_of = (\<lambda>x. case x of None \<Rightarrow> [] | Some t \<Rightarrow> t);
           own = (\<lambda>f. case st of [] \<Rightarrow> [] | current # outer \<Rightarrow> text_of (f current));
           own_att = (case st of [] \<Rightarrow> None | current # outer \<Rightarrow> attempt current)
       in Inr (bare_handle\<lparr>rh_id := own reservation_id, rh_call := or_str (own call_id) (text_of cid),
            rh_attempt := (case own_att of Some a \<Rightarrow> if a \<noteq> 0 then a else if att \<noteq> 0 then att else 1
                           | None \<Rightarrow> if att \<noteq> 0 then att else 1),
            rh_lifecycle := (enabled \<or> gateway_owns_enforcement e st), rh_decision := own decision_id\<rparr>))"

definition text_or_none :: "string \<Rightarrow> string option" where
  "text_or_none t = (if t = [] then None else Some t)"

text \<open>The legacy check and its answer.\<close>

definition legacy_check_body :: "reserve_call \<Rightarrow> attribution list \<Rightarrow> payload" where
  "legacy_check_body c scopes =
     (let body0 = [(''org_id'', PStr (rc_org c)), (''workspace_id'', PStr (rc_workspace c)), (''run_id'', PStr (rc_run c)),
            (''reserve'', PBool True), (''increment_step'', PBool (rc_increment_step c)),
            (''model'', if rc_model c = [] then PNone else PStr (rc_model c)), (''input_tokens'', PInt (rc_input_tokens c))];
          body1 = (case rc_estimate c of None \<Rightarrow> body0
            | Some q \<Rightarrow> body0 @ [(''estimated_cost_usd'', PFloat (Fin q) []), (''projected_spend_usd'', PFloat (Fin q) [])])
      in filter (\<lambda>(k, v). v \<noteq> PNone) (apply_attribution scopes (rc_feature c) (rc_given c) body1))"

definition legacy_check ::
  "guard_world \<Rightarrow> reserve_call \<Rightarrow> guard_state \<Rightarrow> reserved gres \<times> guard_state" where
  "legacy_check w c s =
     (let body = legacy_check_body c (gs_scopes s); reply = gw_check w body; s1 = log_effect (Check_Sent body) s;
          reservation_closed = finops_reservation_fail_closed (gw_env w);
          any_closed = (reservation_closed \<or> enforcement_fail_closed (gw_env w));
          broken = (\<lambda>shut why. (if shut then Inl (Budget_Unavailable why) else Inr (Amount (Fin 0)), s1))
      in case reply of
           Reply_Ok (Some (PDict d)) \<Rightarrow>
             (case py_float (or_val (kw d ''estimated_cost_usd'') (PInt 0)) of
                Inl _ \<Rightarrow> broken any_closed ''Pre-call reservation unavailable''
              | Inr f \<Rightarrow>
                  let decision = text_or_none (str_or_empty (kw d ''decision_id''));
                      reservation = text_or_none (str_or_empty (kw d ''reservation_id''))
                  in (Inr (Amount f),
                      if decision = None \<and> reservation = None then s1
                      else s1\<lparr>gs_owner := bind_decision_refs \<lparr>decision_id = decision, reservation_id = reservation,
                             call_id = rc_call_id c, attempt = Some (rc_attempt c)\<rparr> (gs_owner s1)\<rparr>))
         | Reply_Http status raw \<Rightarrow>
             if status = 402
             then (Inl (Budget_Exceeded (''Pre-call reservation denied: '' @
                     (case pe_loads (gw_post w) raw of None \<Rightarrow> ''budget exhausted'' | Some v \<Rightarrow> denial_reason v [''reason'', ''detail'']))), s1)
             else broken reservation_closed (''Pre-call reservation HTTP '' @ int_str status)
         | _ \<Rightarrow> broken any_closed ''Pre-call reservation unavailable'')"

definition bind_handle_refs :: "reserve_call \<Rightarrow> reservation_handle \<Rightarrow> guard_state \<Rightarrow> guard_state" where
  "bind_handle_refs c h s =
     (if rh_id h = [] \<and> rh_decision h = [] then s
      else s\<lparr>gs_owner := bind_decision_refs
             \<lparr>decision_id = text_or_none (rh_decision h), reservation_id = text_or_none (rh_id h),
              call_id = Some (or_str (rh_call h) (case rc_call_id c of None \<Rightarrow> [] | Some t \<Rightarrow> t)),
              attempt = Some (if rh_attempt h \<noteq> 0 then rh_attempt h else if rc_attempt c \<noteq> 0 then rc_attempt c else 1)\<rparr>
             (gs_owner s)\<rparr>)"

text \<open>The common part of \<open>reserve_budget\<close> and its async twin, over their lifecycle reservation.\<close>

definition reserve_with ::
  "(guard_world \<Rightarrow> string \<Rightarrow> reserve_call \<Rightarrow> guard_state \<Rightarrow> reservation_handle gres \<times> guard_state)
    \<Rightarrow> guard_world \<Rightarrow> reserve_call \<Rightarrow> guard_state \<Rightarrow> reserved gres \<times> guard_state" where
  "reserve_with lifecycle w c s =
     (let e = gw_env w in
      if should_skip_sdk_reserve e (gs_owner s)
      then (case owner_noop_handle e (gs_owner s) (rc_call_id c) (rc_attempt c) of
              Inl x \<Rightarrow> (Inl (Guard_Raised x), s) | Inr h \<Rightarrow> (Inr (Handle h), s))
      else case assert_sdk_may_reserve e (gs_owner s) of
        Inl x \<Rightarrow> (Inl (Guard_Raised x), s)
      | Inr _ \<Rightarrow>
          let base = finops_url (dget e) in
          if base = []
          then if enforcement_fail_closed e then (Inl (Budget_Unavailable ''FinOps URL not configured''), s)
               else (case lifecycle_budget_enabled e of
                       Inl x \<Rightarrow> (Inl (Guard_Raised x), s)
                     | Inr True \<Rightarrow> (Inr (Handle bare_handle), s)
                     | Inr False \<Rightarrow> (Inr (Amount (Fin 0)), s))
          else case lifecycle_budget_enabled e of
                 Inl x \<Rightarrow> (Inl (Guard_Raised x), s)
               | Inr True \<Rightarrow> (case lifecycle w base c s of
                     (Inl x, s1) \<Rightarrow> (Inl x, s1)
                   | (Inr h, s1) \<Rightarrow> (Inr (Handle h), bind_handle_refs c h s1))
               | Inr False \<Rightarrow> legacy_check w c s)"

definition reserve_budget_async :: "guard_world \<Rightarrow> reserve_call \<Rightarrow> guard_state \<Rightarrow> reserved gres \<times> guard_state" where
  "reserve_budget_async = reserve_with reserve_lifecycle_async"

definition reserve_budget :: "guard_world \<Rightarrow> reserve_call \<Rightarrow> guard_state \<Rightarrow> reserved gres \<times> guard_state" where
  "reserve_budget = reserve_with reserve_lifecycle"

end
