(* ===== verification/Guarded_Call.thy ===== *)
theory Guarded_Call
  imports Guard
begin

text \<open>
  The life of a guarded call after its admission (kazenai/spine/guard.py): \<open>provider_started\<close> before the
  provider is called, then one outcome, \<open>usage_known\<close> with the exact cost or \<open>outcome_unknown\<close>; the legacy
  reconcile; and the guarded call itself, sync and async. The n-th settlement request gets the world's n-th
  answer; an async one may be cancelled while it waits for it.
\<close>

section \<open>One settlement request\<close>

definition is_settle :: "guard_effect \<Rightarrow> bool" where
  "is_settle x \<longleftrightarrow> (case x of Settle_Sent _ \<Rightarrow> True | _ \<Rightarrow> False)"

definition settles :: "guard_state \<Rightarrow> nat" where
  "settles s = length (filter is_settle (gs_trace s))"

text \<open>\<open>_post_settle_sync\<close> with its defaults.\<close>

definition settle_request :: "guard_world \<Rightarrow> string \<Rightarrow> string \<Rightarrow> payload \<Rightarrow> guard_state \<Rightarrow> bool gres \<times> guard_state" where
  "settle_request w base org body s =
     (case post_settle (gw_post w) (gw_settle w (settles s)) base org body True True False (gs_queue s) of
        (Posted b, q) \<Rightarrow> (Inr b, log_effect (Settle_Sent body) (s\<lparr>gs_queue := q\<rparr>))
      | (Post_Raised x, q) \<Rightarrow> (Inl (Guard_Raised x), s\<lparr>gs_queue := q\<rparr>)
      | (_, q) \<Rightarrow> (Inl (Guard_Raised (OtherExn ''SettleRejected'')), s\<lparr>gs_queue := q\<rparr>))"

text \<open>The same exchange as the async functions write it out: journal, send, acknowledge or release. A
  journal that fails is tried once more and the request not sent.\<close>

datatype async_settle = Acked | Unacked | Not_Journaled | Was_Cancelled

definition release_intent :: "guard_world \<Rightarrow> string \<times> string \<Rightarrow> settle_queue \<Rightarrow> settle_queue" where
  "release_intent w pf q = snd (release (gw_now w) (fst pf) (Some (snd pf)) q)"

definition settle_request_async :: "guard_world \<Rightarrow> string \<Rightarrow> string \<Rightarrow> payload \<Rightarrow> guard_state \<Rightarrow> async_settle \<times> guard_state" where
  "settle_request_async w base org body s =
     (case journal_settle_intent (gw_post w) body base org ''pre_send'' (gs_queue s) of
        (Inl _, q) \<Rightarrow> (Not_Journaled, s\<lparr>gs_queue := enqueue_settle_intent (gw_post w) body base org ''transport_or_cancel'' q\<rparr>)
      | (Inr pf, q) \<Rightarrow>
          let n = settles s; sent = (\<lambda>q'. log_effect (Settle_Sent body) (s\<lparr>gs_queue := q'\<rparr>))
          in if gw_cancel w n then (Was_Cancelled, sent (release_intent w pf q))
             else case gw_settle w n body of
                    Http_Ok raw \<Rightarrow>
                      if finops_result_ack (case pe_loads (gw_post w) raw of Some (PDict d) \<Rightarrow> PDict d | _ \<Rightarrow> PDict [])
                           (str_or_empty (kw body ''event''))
                      then (Acked, sent (snd (ack (pe_sha (gw_post w)) (fst pf) (Some (snd pf)) True q)))
                      else (Unacked, sent (release_intent w pf q))
                  | _ \<Rightarrow> (Unacked, sent (release_intent w pf q)))"

section \<open>Lifecycle events\<close>

definition lifecycle_events :: "string list" where
  "lifecycle_events = [''provider_started'', ''usage_known'', ''outcome_unknown'', ''cancel_before_call'', ''replay_pending'']"

definition has_capability :: "reservation_handle \<Rightarrow> bool" where
  "has_capability h \<longleftrightarrow> rh_capability h \<noteq> None \<and> rh_capability h \<noteq> Some []"

text \<open>The body \<open>signal_reservation_event\<close> and \<open>reconcile_budget\<close> settle with.\<close>

definition settle_body :: "guard_world \<Rightarrow> string \<Rightarrow> string \<Rightarrow> reservation_handle \<Rightarrow> string \<Rightarrow> int option \<Rightarrow> payload res" where
  "settle_body w org run h event micros =
     build_settle_payload (rh_id h) (or_str (rh_call h) (''call_'' @ run)) (if rh_attempt h = 0 then 1 else rh_attempt h)
       (settlement_org_id h org) event micros ''reservation.lifecycle.v1'' None (rh_capability h)
       (settlement_evidence (gw_format w) (rh_pricing h))"

definition event_micros :: "string \<Rightarrow> rat option \<Rightarrow> int option res" where
  "event_micros event cost =
     (if event = ''usage_known''
      then bnd (usd_to_micros_ceil (case cost of None \<Rightarrow> 0 | Some q \<Rightarrow> q)) (\<lambda>m. Inr (Some m)) else Inr None)"

text \<open>What both twins do before anything is sent: \<open>Inr (Inl b)\<close> is an early return.\<close>

definition prepare_event ::
  "guard_world \<Rightarrow> string \<Rightarrow> string \<Rightarrow> reserved \<Rightarrow> string \<Rightarrow> rat option \<Rightarrow> bool \<Rightarrow> (bool + (string \<times> string \<times> payload)) gres" where
  "prepare_event w org run rsv event cost required = (case rsv of
     Amount _ \<Rightarrow> Inr (Inl True)
   | Handle h \<Rightarrow>
       if \<not> (rh_lifecycle h \<and> rh_id h \<noteq> []) then Inr (Inl True)
       else if event \<notin> set lifecycle_events then Inl (Guard_Raised PyValueError)
       else if event = ''usage_known'' \<and> cost = None then Inl (Guard_Raised PyValueError)
       else
         let base = settlement_base_url (gw_env w) h
         in if base = []
            then if required then Inl (Budget_Unavailable ''FinOps URL not configured for reservation lifecycle'') else Inr (Inl False)
            else case event_micros event cost of
                   Inl x \<Rightarrow> Inl (Guard_Raised x)
                 | Inr micros \<Rightarrow>
                     if \<not> has_capability h then Inl (Budget_Unavailable ''lifecycle reservation has no settlement capability'')
                     else case settle_body w org run h event micros of
                            Inl x \<Rightarrow> Inl (Guard_Raised x)
                          | Inr body \<Rightarrow> Inr (Inr (base, settlement_org_id h org, body)))"

definition event_failed :: "string \<Rightarrow> bool \<Rightarrow> bool gres" where
  "event_failed event required =
     (if required then Inl (Budget_Unavailable (''reservation lifecycle '' @ event @ '' unavailable'')) else Inr False)"

definition signal_reservation_event ::
  "guard_world \<Rightarrow> string \<Rightarrow> string \<Rightarrow> reserved \<Rightarrow> string \<Rightarrow> rat option \<Rightarrow> bool \<Rightarrow> guard_state \<Rightarrow> bool gres \<times> guard_state" where
  "signal_reservation_event w org run rsv event cost required s =
     (case prepare_event w org run rsv event cost required of
        Inl x \<Rightarrow> (Inl x, s)
      | Inr (Inl b) \<Rightarrow> (Inr b, s)
      | Inr (Inr (base, settle_org, body)) \<Rightarrow>
          (case settle_request w base settle_org body s of
             (Inl x, s') \<Rightarrow> (Inl x, s')
           | (Inr ok, s') \<Rightarrow> (if ok then Inr True else event_failed event required, s')))"

definition signal_reservation_event_async ::
  "guard_world \<Rightarrow> string \<Rightarrow> string \<Rightarrow> reserved \<Rightarrow> string \<Rightarrow> rat option \<Rightarrow> bool \<Rightarrow> guard_state \<Rightarrow> bool gres \<times> guard_state" where
  "signal_reservation_event_async w org run rsv event cost required s =
     (case prepare_event w org run rsv event cost required of
        Inl x \<Rightarrow> (Inl x, s)
      | Inr (Inl b) \<Rightarrow> (Inr b, s)
      | Inr (Inr (base, settle_org, body)) \<Rightarrow>
          (case settle_request_async w base settle_org body s of
             (Acked, s') \<Rightarrow> (Inr True, s')
           | (Was_Cancelled, s') \<Rightarrow> (Inl Cancelled_Error, s')
           | (_, s') \<Rightarrow> (event_failed event required, s')))"

section \<open>Reconciling\<close>

definition rsv_usd :: "reserved \<Rightarrow> fl" where
  "rsv_usd r = (case r of Handle h \<Rightarrow> Fin (rh_cost h) | Amount f \<Rightarrow> f)"

definition legacy_reconcile_body :: "reserve_call \<Rightarrow> reserved \<Rightarrow> rat \<Rightarrow> payload" where
  "legacy_reconcile_body c rsv actual =
     (let body = [(''org_id'', PStr (rc_org c)), (''workspace_id'', PStr (rc_workspace c)), (''run_id'', PStr (rc_run c)),
            (''reserved_cost_usd'', PFloat (rsv_usd rsv) []), (''actual_cost_usd'', PFloat (Fin actual) [])];
          feat = py_strip (case rc_feature c of None \<Rightarrow> [] | Some f \<Rightarrow> f)
      in if feat = [] then body else dset ''feature'' (PStr feat) body)"

text \<open>The part of \<open>reconcile_budget\<close> before its requests: an early \<open>False\<close>, the legacy reconcile, or a
  lifecycle settlement of a handle at a destination.\<close>

datatype reconcile_way = Skip_Reconcile | Legacy_Reconcile | Settle_Handle string reservation_handle

definition reconcile_way :: "guard_world \<Rightarrow> reserve_call \<Rightarrow> reserved \<Rightarrow> reconcile_way res" where
  "reconcile_way w c rsv =
     (let e = gw_env w;
          base = (case rsv of Handle h \<Rightarrow> settlement_base_url e h | Amount _ \<Rightarrow> finops_url (dget e));
          owned = (case rsv of Handle h \<Rightarrow> rh_lifecycle h \<and> rh_id h \<noteq> [] | Amount _ \<Rightarrow> False)
      in bnd (if owned then Inr True else lifecycle_budget_enabled e) (\<lambda>use_lifecycle.
           Inr (if base = [] then Skip_Reconcile
                else case rsv of
                       Amount _ \<Rightarrow> if use_lifecycle \<or> rc_run c = [] then Skip_Reconcile else Legacy_Reconcile
                     | Handle h \<Rightarrow>
                         if rh_fail_open h then Skip_Reconcile
                         else if use_lifecycle then if rh_id h = [] then Skip_Reconcile else Settle_Handle base h
                         else if rc_run c = [] then Skip_Reconcile else Legacy_Reconcile)))"

definition reconcile_budget :: "guard_world \<Rightarrow> reserve_call \<Rightarrow> reserved \<Rightarrow> rat \<Rightarrow> guard_state \<Rightarrow> bool gres \<times> guard_state" where
  "reconcile_budget w c rsv actual s =
     (case reconcile_way w c rsv of
        Inl x \<Rightarrow> (Inl (Guard_Raised x), s)
      | Inr Skip_Reconcile \<Rightarrow> (Inr False, s)
      | Inr Legacy_Reconcile \<Rightarrow> (Inr (gw_reconcile w), log_effect (Reconcile_Sent (legacy_reconcile_body c rsv actual)) s)
      | Inr (Settle_Handle base h) \<Rightarrow>
          (case usd_to_micros_ceil actual of
             Inl x \<Rightarrow> (Inl (Guard_Raised x), s)
           | Inr micros \<Rightarrow>
               if \<not> has_capability h then (Inl (Budget_Unavailable ''lifecycle reservation has no settlement capability''), s)
               else case settle_body w (rc_org c) (rc_run c) h ''usage_known'' (Some micros) of
                      Inl x \<Rightarrow> (Inl (Guard_Raised x), s)
                    | Inr body \<Rightarrow> settle_request w base (settlement_org_id h (rc_org c)) body s))"

text \<open>The async twin does all of it inside one \<open>try\<close>: every exception but a cancellation is \<open>False\<close>.\<close>

definition reconcile_budget_async :: "guard_world \<Rightarrow> reserve_call \<Rightarrow> reserved \<Rightarrow> rat \<Rightarrow> guard_state \<Rightarrow> bool gres \<times> guard_state" where
  "reconcile_budget_async w c rsv actual s =
     (case reconcile_way w c rsv of
        Inl x \<Rightarrow> (Inl (Guard_Raised x), s)
      | Inr Skip_Reconcile \<Rightarrow> (Inr False, s)
      | Inr Legacy_Reconcile \<Rightarrow> (Inr (gw_reconcile w), log_effect (Reconcile_Sent (legacy_reconcile_body c rsv actual)) s)
      | Inr (Settle_Handle base h) \<Rightarrow>
          (case usd_to_micros_ceil actual of
             Inl x \<Rightarrow> (Inr False, s)
           | Inr micros \<Rightarrow>
               if \<not> has_capability h then (Inr False, s)
               else case settle_body w (rc_org c) (rc_run c) h ''usage_known'' (Some micros) of
                      Inl x \<Rightarrow> (Inr False, s)
                    | Inr body \<Rightarrow>
                        (case settle_request_async w base (settlement_org_id h (rc_org c)) body s of
                           (Acked, s') \<Rightarrow> (Inr True, s')
                         | (Was_Cancelled, s') \<Rightarrow> (Inl Cancelled_Error, s')
                         | (_, s') \<Rightarrow> (Inr False, s'))))"

section \<open>Pricing an answer\<close>

definition extract_usage_cost :: "guard_world \<Rightarrow> string \<Rightarrow> pyval \<Rightarrow> (int option \<times> rat) res" where
  "extract_usage_cost w mdl resp =
     (let usage = field resp ''usage''; total = field usage ''total_tokens'' in
      if usage = PNone then Inr (None, 0)
      else case (case gw_litellm w mdl resp of
                   Some c \<Rightarrow> if c > 0 then (if total = PNone then Some (None, c)
                                else case py_int total of Inr t \<Rightarrow> Some (Some t, c) | Inl _ \<Rightarrow> None) else None
                 | None \<Rightarrow> None) of
             Some r \<Rightarrow> Inr r
           | None \<Rightarrow>
               bnd (gw_engine w) (\<lambda>en. bnd (from_usage_row (gw_env w) (gw_catalog w) en mdl usage) (\<lambda>(i, j, c).
                 Inr (if i + j = 0 then None else Some (i + j), c))))"

definition guard_llm_price :: "guard_world \<Rightarrow> string \<Rightarrow> pyval \<Rightarrow> (int option \<times> rat option) res" where
  "guard_llm_price w mdl resp =
     (if field resp ''usage'' = PNone then Inr (None, None)
      else bnd (extract_usage_cost w mdl resp) (\<lambda>(t, c). Inr (t, Some c)))"

definition usage_total_tokens :: "pyval \<Rightarrow> int option res" where
  "usage_total_tokens resp =
     (let total = field (field resp ''usage'') ''total_tokens'' in
      if total = PNone then Inr None
      else case py_int total of Inr t \<Rightarrow> Inr (Some t) | Inl PyOverflowError \<Rightarrow> Inl PyOverflowError | Inl _ \<Rightarrow> Inr None)"

definition estimated_tokens :: "string list \<Rightarrow> int" where
  "estimated_tokens texts = sum_list (map (\<lambda>t. max 1 (int (length t) div 4)) texts)"

definition embedding_cost :: "guard_world \<Rightarrow> string \<Rightarrow> pyval \<Rightarrow> string list \<Rightarrow> rat res" where
  "embedding_cost w mdl resp texts =
     (case (case gw_litellm w mdl resp of Some c \<Rightarrow> if c > 0 then Some c else None | None \<Rightarrow> None) of
        Some c \<Rightarrow> Inr c
      | None \<Rightarrow> bnd (gw_engine w) (\<lambda>en.
          let usage = (case resp of PObj _ \<Rightarrow> if truthy (field resp ''usage'') then field resp ''usage'' else PNone | _ \<Rightarrow> field resp ''usage'');
              fallback = engine_cost_usd (gw_env w) (gw_catalog w) en mdl (estimated_tokens texts) 0
          in if usage = PNone then fallback
             else bnd (from_usage_row (gw_env w) (gw_catalog w) en mdl usage) (\<lambda>(i, j, c). if c > 0 then Inr c else fallback)))"

definition guard_embedding_price :: "guard_world \<Rightarrow> string \<Rightarrow> string list \<Rightarrow> pyval \<Rightarrow> (int option \<times> rat option) res" where
  "guard_embedding_price w mdl texts resp =
     bnd (usage_total_tokens resp) (\<lambda>t. bnd (embedding_cost w mdl resp texts) (\<lambda>c. Inr (t, Some c)))"

section \<open>The guarded call\<close>

definition guard_sdk_settles :: "reserved \<Rightarrow> bool" where
  "guard_sdk_settles r \<longleftrightarrow> (case r of
     Handle h \<Rightarrow> rh_lifecycle h \<and> rh_id h \<noteq> [] \<and> has_capability h \<and> \<not> rh_fail_open h | Amount _ \<Rightarrow> False)"

definition guard_legacy :: "reserved \<Rightarrow> bool" where
  "guard_legacy r \<longleftrightarrow> (case r of Handle _ \<Rightarrow> False | Amount _ \<Rightarrow> True)"

text \<open>The two families of operations: a guarded call is the same over either. A signal or a reconcile that
  raises an \<open>Exception\<close> is swallowed after the call; a cancellation is a \<open>BaseException\<close> and goes on.\<close>

record guard_ops =
  go_reserve :: "guard_world \<Rightarrow> reserve_call \<Rightarrow> guard_state \<Rightarrow> reserved gres \<times> guard_state"
  go_signal :: "guard_world \<Rightarrow> string \<Rightarrow> string \<Rightarrow> reserved \<Rightarrow> string \<Rightarrow> rat option \<Rightarrow> bool \<Rightarrow> guard_state \<Rightarrow> bool gres \<times> guard_state"
  go_reconcile :: "guard_world \<Rightarrow> reserve_call \<Rightarrow> reserved \<Rightarrow> rat \<Rightarrow> guard_state \<Rightarrow> bool gres \<times> guard_state"

definition sync_ops :: guard_ops where
  "sync_ops = \<lparr>go_reserve = reserve_budget, go_signal = signal_reservation_event, go_reconcile = reconcile_budget\<rparr>"

definition async_ops :: guard_ops where
  "async_ops = \<lparr>go_reserve = reserve_budget_async, go_signal = signal_reservation_event_async,
     go_reconcile = reconcile_budget_async\<rparr>"

text \<open>\<open>_guard_signal\<close>.\<close>

definition guard_signal ::
  "guard_ops \<Rightarrow> guard_world \<Rightarrow> reserve_call \<Rightarrow> reserved \<Rightarrow> string \<Rightarrow> rat option \<Rightarrow> guard_state \<Rightarrow> unit gres \<times> guard_state" where
  "guard_signal ops w c rsv event cost s =
     (case go_signal ops w (rc_org c) (rc_run c) rsv event cost False s of
        (Inl Cancelled_Error, s') \<Rightarrow> (Inl Cancelled_Error, s')
      | (_, s') \<Rightarrow> (Inr (), s'))"

definition guard_start :: "guard_ops \<Rightarrow> guard_world \<Rightarrow> reserve_call \<Rightarrow> reserved \<Rightarrow> guard_state \<Rightarrow> unit gres \<times> guard_state" where
  "guard_start ops w c rsv s =
     (if \<not> guard_sdk_settles rsv then (Inr (), s)
      else case go_signal ops w (rc_org c) (rc_run c) rsv ''provider_started'' None
                  (finops_reservation_fail_closed (gw_env w)) s of
             (Inr _, s1) \<Rightarrow> (Inr (), s1)
           | (Inl x, s1) \<Rightarrow>
               (case guard_signal ops w c rsv ''cancel_before_call'' None s1 of
                  (Inl y, s2) \<Rightarrow> (Inl y, s2)
                | (Inr _, s2) \<Rightarrow> (Inl x, s2)))"

text \<open>What the provider did: an answer, or an exception with whether it is an \<open>Exception\<close>.\<close>

datatype provider_result = Answers pyval | Fails pyval bool

definition guard_rejected :: "pyval \<Rightarrow> bool \<Rightarrow> bool res" where
  "guard_rejected exc is_exception = (if is_exception then is_definitive_provider_rejection exc else Inr False)"

definition guard_legacy_reconcile ::
  "guard_ops \<Rightarrow> guard_world \<Rightarrow> reserve_call \<Rightarrow> reserved \<Rightarrow> rat \<Rightarrow> guard_state \<Rightarrow> unit gres \<times> guard_state" where
  "guard_legacy_reconcile ops w c rsv actual s =
     (case go_reconcile ops w c rsv actual s of
        (Inl Cancelled_Error, s') \<Rightarrow> (Inl Cancelled_Error, s')
      | (_, s') \<Rightarrow> (Inr (), s'))"

definition guard_failed ::
  "guard_ops \<Rightarrow> guard_world \<Rightarrow> reserve_call \<Rightarrow> reserved \<Rightarrow> pyval \<Rightarrow> bool \<Rightarrow> guard_state \<Rightarrow> unit gres \<times> guard_state" where
  "guard_failed ops w c rsv exc is_exception s =
     (case guard_rejected exc is_exception of
        Inl x \<Rightarrow> (Inl (Guard_Raised x), s)
      | Inr rejected \<Rightarrow>
          if guard_sdk_settles rsv
          then if rejected then guard_signal ops w c rsv ''usage_known'' (Some 0) s
               else guard_signal ops w c rsv ''outcome_unknown'' None s
          else if guard_legacy rsv \<and> rejected then guard_legacy_reconcile ops w c rsv 0 s
          else (Inr (), s))"

definition guard_settle ::
  "guard_ops \<Rightarrow> guard_world \<Rightarrow> reserve_call \<Rightarrow> reserved \<Rightarrow> rat option \<Rightarrow> guard_state \<Rightarrow> unit gres \<times> guard_state" where
  "guard_settle ops w c rsv cost s =
     (if guard_sdk_settles rsv
      then (case cost of
              None \<Rightarrow> guard_signal ops w c rsv ''outcome_unknown'' None s
            | Some q \<Rightarrow>
                (case go_reconcile ops w c rsv q s of
                   (Inl Cancelled_Error, s1) \<Rightarrow> (Inl Cancelled_Error, s1)
                 | (Inr True, s1) \<Rightarrow> (Inr (), s1)
                 | (_, s1) \<Rightarrow> guard_signal ops w c rsv ''usage_known'' (Some q) s1))
      else if guard_legacy rsv
      then (case cost of None \<Rightarrow> (Inr (), s) | Some q \<Rightarrow> guard_legacy_reconcile ops w c rsv q s)
      else (Inr (), s))"

text \<open>What the guarded call returns or raises: the provider's answer, the provider's exception, or one of
  its own.\<close>

datatype call_result = Gave pyval | Provider_Raised pyval | Guard_Refused guard_exn

definition denied_text :: "guard_exn \<Rightarrow> string option" where
  "denied_text x = (case x of Budget_Exceeded t \<Rightarrow> Some t | Budget_Unavailable t \<Rightarrow> Some t | _ \<Rightarrow> None)"

text \<open>The reservation a guarded call makes names no call, attempt or attribution of its own.\<close>

definition guard_request :: "reserve_call \<Rightarrow> reserve_call" where
  "guard_request c = c\<lparr>rc_call_id := None, rc_attempt := 1, rc_idem := None, rc_given := no_attribution\<rparr>"

definition guard_reserve ::
  "guard_ops \<Rightarrow> guard_world \<Rightarrow> reserve_call \<Rightarrow> guard_state \<Rightarrow> reserved gres \<times> guard_state" where
  "guard_reserve ops w c s =
     (case go_reserve ops w (guard_request c) s of
        (Inl x, s1) \<Rightarrow> (Inl x, case denied_text x of None \<Rightarrow> s1 | Some t \<Rightarrow> log_effect (Reserve_Event False (Some t)) s1)
      | (Inr r, s1) \<Rightarrow> (Inr r, log_effect (Reserve_Event True None) s1))"

definition guarded_call ::
  "guard_ops \<Rightarrow> guard_world \<Rightarrow> (pyval \<Rightarrow> (int option \<times> rat option) res) \<Rightarrow> reserve_call \<Rightarrow> provider_result \<Rightarrow> guard_state
    \<Rightarrow> call_result \<times> guard_state" where
  "guarded_call ops w price_of c prov s =
     (case guard_reserve ops w c s of
        (Inl x, s1) \<Rightarrow> (Guard_Refused x, s1)
      | (Inr rsv, s1) \<Rightarrow>
     (case guard_start ops w c rsv s1 of
        (Inl x, s2) \<Rightarrow> (Guard_Refused x, s2)
      | (Inr _, s2) \<Rightarrow>
          let s3 = log_effect Provider_Called s2 in
          (case prov of
             Fails exc is_exception \<Rightarrow>
               (case guard_failed ops w c rsv exc is_exception s3 of
                  (Inl x, s4) \<Rightarrow> (Guard_Refused x, s4)
                | (Inr _, s4) \<Rightarrow> (Provider_Raised exc, s4))
           | Answers resp \<Rightarrow>
               (case price_of resp of
                  Inl x \<Rightarrow>
                    (case guard_signal ops w c rsv ''outcome_unknown'' None s3 of
                       (Inl y, s4) \<Rightarrow> (Guard_Refused y, s4)
                     | (Inr _, s4) \<Rightarrow> (Guard_Refused (Guard_Raised x), s4))
                | Inr (tokens_used, cost) \<Rightarrow>
                    (case guard_settle ops w c rsv cost s3 of
                       (Inl y, s4) \<Rightarrow> (Guard_Refused y, s4)
                     | (Inr _, s4) \<Rightarrow> (Gave resp, log_effect (Model_Event tokens_used cost) s4))))))"

definition guarded_llm_call :: "guard_world \<Rightarrow> reserve_call \<Rightarrow> provider_result \<Rightarrow> guard_state \<Rightarrow> call_result \<times> guard_state" where
  "guarded_llm_call w c = guarded_call sync_ops w (guard_llm_price w (rc_model c)) c"

definition aguarded_llm_call :: "guard_world \<Rightarrow> reserve_call \<Rightarrow> provider_result \<Rightarrow> guard_state \<Rightarrow> call_result \<times> guard_state" where
  "aguarded_llm_call w c = guarded_call async_ops w (guard_llm_price w (rc_model c)) c"

definition guarded_embedding_call ::
  "guard_world \<Rightarrow> reserve_call \<Rightarrow> string list \<Rightarrow> provider_result \<Rightarrow> guard_state \<Rightarrow> call_result \<times> guard_state" where
  "guarded_embedding_call w c texts =
     guarded_call sync_ops w (guard_embedding_price w (rc_model c) texts)
       (c\<lparr>rc_estimate := None, rc_input_tokens := estimated_tokens texts, rc_increment_step := True\<rparr>)"

end
