(* ===== verification/Guard_Facts.thy ===== *)
theory Guard_Facts
  imports Guarded_Call Settle_Facts
begin

text \<open>
  What a guarded call guarantees. The contract its two families of operations share is a locale: what a
  signal and a reconcile may send, and what it means that they succeed. The guarded call's own guarantees
  are proved once in it and hold for the sync and the async functions, which interpret it.
\<close>

section \<open>What a request adds to the trace\<close>

text \<open>The body of one lifecycle event of a reservation.\<close>

definition event_body :: "guard_world \<Rightarrow> string \<Rightarrow> string \<Rightarrow> reserved \<Rightarrow> string \<Rightarrow> rat option \<Rightarrow> payload \<Rightarrow> bool" where
  "event_body w org run r ev cost b \<longleftrightarrow>
     (\<exists>h m. r = Handle h \<and> rh_id h \<noteq> [] \<and> has_capability h \<and> event_micros ev cost = Inr m \<and> settle_body w org run h ev m = Inr b)"

definition parsed_ack :: "post_env \<Rightarrow> string \<Rightarrow> payload \<Rightarrow> bool" where
  "parsed_ack pe raw b \<longleftrightarrow> (\<exists>d. pe_loads pe raw = Some (PDict d) \<and> finops_result_ack (PDict d) (str_or_empty (kw b ''event'')))"

definition settle_acked :: "guard_world \<Rightarrow> nat \<Rightarrow> payload \<Rightarrow> bool" where
  "settle_acked w n b \<longleftrightarrow> (\<exists>raw. gw_settle w n b = Http_Ok raw \<and>
     (parsed_ack (gw_post w) raw b \<or> parsed_ack (gw_post w) (or_str raw ''{}'') b))"

text \<open>Entries without a provider call, with at most so many settlements, all of them as described.\<close>

definition more :: "nat \<Rightarrow> (payload \<Rightarrow> bool) \<Rightarrow> guard_state \<Rightarrow> guard_state \<Rightarrow> bool" where
  "more n P s s' \<longleftrightarrow> (\<exists>new. gs_trace s' = gs_trace s @ new \<and> length (filter is_settle new) \<le> n \<and> Provider_Called \<notin> set new \<and>
     (\<forall>b. Settle_Sent b \<in> set new \<longrightarrow> P b))"

lemma more_same: "gs_trace s' = gs_trace s \<Longrightarrow> more n P s s'"
  by (simp add: more_def)

lemma more_settle: "gs_trace s' = gs_trace s @ [Settle_Sent b] \<Longrightarrow> P b \<Longrightarrow> 0 < n \<Longrightarrow> more n P s s'"
  by (simp add: more_def is_settle_def)

lemma more_other: "x \<noteq> Provider_Called \<Longrightarrow> \<not> is_settle x \<Longrightarrow> gs_trace s' = gs_trace s @ [x] \<Longrightarrow> more n P s s'"
  by (auto simp: more_def is_settle_def)

lemma more_trans:
  assumes "more m P s s1" "more n P s1 s2" shows "more (m + n) P s s2"
proof -
  obtain u v where "gs_trace s1 = gs_trace s @ u" "length (filter is_settle u) \<le> m" "Provider_Called \<notin> set u"
    "\<forall>b. Settle_Sent b \<in> set u \<longrightarrow> P b" "gs_trace s2 = gs_trace s1 @ v" "length (filter is_settle v) \<le> n"
    "Provider_Called \<notin> set v" "\<forall>b. Settle_Sent b \<in> set v \<longrightarrow> P b"
    using assms unfolding more_def by blast
  then show ?thesis unfolding more_def by (intro exI [of _ "u @ v"]) auto
qed

lemma more_mono: "more m P s s' \<Longrightarrow> m \<le> n \<Longrightarrow> (\<And>b. P b \<Longrightarrow> Q b) \<Longrightarrow> more n Q s s'"
  unfolding more_def by (meson le_trans)

lemma log_trace [simp]: "gs_trace (log_effect x s) = gs_trace s @ [x]"
  by (simp add: log_effect_def)

lemma log_queue [simp]: "gs_queue (log_effect x s) = gs_queue s"
  by (simp add: log_effect_def)

lemma not_acked_empty: "\<not> finops_result_ack (PDict []) ev"
  by (simp add: finops_result_ack_def kw_def or_val_def str_or_empty_def py_lower_def)

lemma enqueue_path:
  assumes "enqueue sha dump now grace rid body error base key org persist q = (Inr name, q')"
  shows "\<exists>fp. name = record_name fp"
  using assms unfolding enqueue_def Let_def by (auto split: sum.splits prod.splits if_splits)

lemma journal_path: "journal_settle_intent pe b base org error q = (Inr (path, fp), q') \<Longrightarrow> path \<noteq> []"
  by (auto simp: journal_settle_intent_def split: sum.splits prod.splits dest!: enqueue_path)

lemma ack_of_document:
  "finops_result_ack (case pe_loads pe raw of Some (PDict d) \<Rightarrow> PDict d | _ \<Rightarrow> PDict []) (str_or_empty (kw b ''event''))
    \<longleftrightarrow> parsed_ack pe raw b"
  by (auto simp: parsed_ack_def not_acked_empty split: option.splits pyval.splits)

text \<open>One settlement request: it raises before anything is sent, or the intent is journaled and the record
  removed exactly when FinOps acknowledged it.\<close>

definition journal_then :: "post_env \<Rightarrow> (payload \<Rightarrow> http_result) \<Rightarrow> payload \<Rightarrow> string \<Rightarrow> string \<Rightarrow> settle_queue \<Rightarrow> post_result \<times> settle_queue" where
  "journal_then pe http b path fp q1 =
     (let given_back = (if fp = [] then q1 else snd (release (pe_now pe) path (Some fp) q1)) in
      case http b of
        Http_Ok raw \<Rightarrow> if parsed_ack pe (or_str raw ''{}'') b
                       then (Posted True, if fp = [] then q1 else snd (ack (pe_sha pe) path (Some fp) True q1))
                       else (Posted False, given_back)
      | _ \<Rightarrow> (Posted False, given_back))"

lemma post_settle_journaled:
  "post_settle pe http base org b True True False q =
     (case payload_ints b of
        Inl x \<Rightarrow> (Post_Raised x, q)
      | Inr _ \<Rightarrow> (case journal_settle_intent pe b base org ''pre_send'' q of
          (Inl x, q1) \<Rightarrow> (Post_Raised x, q1)
        | (Inr (path, fp), q1) \<Rightarrow> journal_then pe http b path fp q1))"
proof (cases "payload_ints b")
  case (Inr u)
  obtain jr q1 where j: "journal_settle_intent pe b base org ''pre_send'' q = (jr, q1)" by fastforce
  show ?thesis
  proof (cases jr)
    case (Inl x)
    with Inr j show ?thesis by (simp add: post_settle_def)
  next
    case jr: (Inr pf)
    obtain path fp where pf: "pf = (path, fp)" by (cases pf)
    have "path \<noteq> []" using journal_path j jr pf by blast
    with Inr j jr pf show ?thesis
      by (cases "http b") (simp_all add: post_settle_def journal_then_def ack_of_document Let_def)
  qed
qed (simp add: post_settle_def)

lemma settle_request_cases:
  assumes "settle_request w base org b s = (x, s')"
  shows "(\<exists>ok. x = Inr ok \<and> gs_trace s' = gs_trace s @ [Settle_Sent b] \<and> (ok \<longrightarrow> settle_acked w (settles s) b)) \<or>
    (\<exists>e. x = Inl (Guard_Raised e) \<and> gs_trace s' = gs_trace s)"
proof -
  obtain r q where p: "post_settle (gw_post w) (gw_settle w (settles s)) base org b True True False (gs_queue s) = (r, q)"
    by (cases "post_settle (gw_post w) (gw_settle w (settles s)) base org b True True False (gs_queue s)")
  have "ok \<Longrightarrow> settle_acked w (settles s) b" if "r = Posted ok" for ok
    using p that by (auto simp: post_settle_journaled journal_then_def settle_acked_def Let_def
        split: sum.splits prod.splits http_result.splits if_splits)
  with assms p show ?thesis by (cases r) (auto simp: settle_request_def)
qed

lemma settle_request_async_cases:
  assumes "settle_request_async w base org b s = (x, s')"
  shows "(x = Not_Journaled \<and> gs_trace s' = gs_trace s) \<or>
    (x \<noteq> Not_Journaled \<and> gs_trace s' = gs_trace s @ [Settle_Sent b] \<and> (x = Acked \<longrightarrow> settle_acked w (settles s) b))"
proof -
  obtain jr q where jr: "journal_settle_intent (gw_post w) b base org ''pre_send'' (gs_queue s) = (jr, q)" by fastforce
  show ?thesis
  proof (cases jr)
    case (Inr pf)
    with assms jr show ?thesis
      by (cases "gw_settle w (settles s) b")
        (auto simp: settle_request_async_def Let_def settle_acked_def ack_of_document split: if_splits)
  qed (use assms jr in \<open>auto simp: settle_request_async_def\<close>)
qed

section \<open>The contract\<close>

text \<open>The outcome the provider's answer calls for: its exact cost, nothing for a definitive refusal, unknown
  otherwise.\<close>

definition outcome :: "(pyval \<Rightarrow> (int option \<times> rat option) res) \<Rightarrow> provider_result \<Rightarrow> string \<times> rat option" where
  "outcome price_of prov = (case prov of
     Answers resp \<Rightarrow> (case price_of resp of Inr (_, Some q) \<Rightarrow> (''usage_known'', Some q) | _ \<Rightarrow> (''outcome_unknown'', None))
   | Fails exc ie \<Rightarrow> if guard_rejected exc ie = Inr True then (''usage_known'', Some 0) else (''outcome_unknown'', None))"

locale lifecycle_ops =
  fixes ops :: guard_ops
  assumes reserve_adds: "\<And>w c s x s'. go_reserve ops w c s = (x, s') \<Longrightarrow>
      more 0 (\<lambda>_. False) s s'"
    and signal_adds: "\<And>w org run r ev cost req s x s'. go_signal ops w org run r ev cost req s = (x, s') \<Longrightarrow> more 1 (event_body w org run r ev cost) s s'"
    and signal_required: "\<And>w org run r ev cost req s ok s'. go_signal ops w org run r ev cost req s = (Inr ok, s') \<Longrightarrow> guard_sdk_settles r \<Longrightarrow> req \<Longrightarrow>
      \<exists>b. gs_trace s' = gs_trace s @ [Settle_Sent b] \<and> event_body w org run r ev cost b \<and> settle_acked w (settles s) b"
    and reconcile_adds: "\<And>w c r q s x s'. go_reconcile ops w c r q s = (x, s') \<Longrightarrow>
      more 1 (event_body w (rc_org c) (rc_run c) r ''usage_known'' (Some q)) s s'"
begin

lemma guard_signal_adds:
  "guard_signal ops w c r ev cost s = (x, s') \<Longrightarrow> more 1 (event_body w (rc_org c) (rc_run c) r ev cost) s s'"
  by (cases "go_signal ops w (rc_org c) (rc_run c) r ev cost False s")
     (auto simp: guard_signal_def dest!: signal_adds split: sum.splits guard_exn.splits)

lemma guard_settle_adds:
  assumes "guard_settle ops w c r cost s = (x, s')"
  shows "\<exists>s1. more 1 (event_body w (rc_org c) (rc_run c) r (if cost = None then ''outcome_unknown'' else ''usage_known'') cost) s s1 \<and>
    more 1 (event_body w (rc_org c) (rc_run c) r (if cost = None then ''outcome_unknown'' else ''usage_known'') cost) s1 s'"
proof (cases cost)
  case None
  have "more 1 (event_body w (rc_org c) (rc_run c) r ''outcome_unknown'' None) s s'"
    using assms None by (auto simp: guard_settle_def more_same split: if_splits dest: guard_signal_adds)
  then show ?thesis using None by (auto intro!: exI [of _ s] more_same)
next
  case (Some q)
  obtain y s1 where rec: "go_reconcile ops w c r q s = (y, s1)" by fastforce
  note a = reconcile_adds [OF rec]
  have "more 1 (event_body w (rc_org c) (rc_run c) r ''usage_known'' (Some q)) s1 s' \<or> s' = s"
    using assms Some rec
    by (auto simp: guard_settle_def guard_legacy_reconcile_def more_same
        split: if_splits sum.splits guard_exn.splits bool.splits dest: guard_signal_adds)
  then show ?thesis using a Some by (auto intro: more_same)
qed

lemma guard_failed_adds:
  assumes "guard_failed ops w c r exc is_exception s = (x, s')"
  shows "more 1 (if guard_rejected exc is_exception = Inr True then event_body w (rc_org c) (rc_run c) r ''usage_known'' (Some 0)
    else event_body w (rc_org c) (rc_run c) r ''outcome_unknown'' None) s s'"
proof (cases "guard_rejected exc is_exception")
  case (Inl e)
  with assms show ?thesis by (simp add: guard_failed_def more_same)
next
  case (Inr rej)
  show ?thesis
  proof (cases "guard_sdk_settles r")
    case True
    with assms Inr show ?thesis by (auto simp: guard_failed_def split: if_splits dest: guard_signal_adds)
  next
    case False
    with assms Inr show ?thesis
      by (auto simp: guard_failed_def guard_legacy_reconcile_def more_same
          split: if_splits sum.splits guard_exn.splits prod.splits dest: reconcile_adds)
  qed
qed

lemma guard_reserve_adds:
  assumes "guard_reserve ops w c s = (x, s')" shows "more 0 P s s'"
proof -
  obtain y s1 where r: "go_reserve ops w (guard_request c) s = (y, s1)" by fastforce
  have "more 0 P s1 s'"
    using assms r by (auto simp: guard_reserve_def more_same more_def is_settle_def split: sum.splits option.splits)
  with more_trans [OF more_mono [OF reserve_adds [OF r], of 0 P]] show ?thesis by simp
qed

lemma guard_start_adds:
  assumes "guard_start ops w c r s = (x, s')"
  shows "x = Inr () \<Longrightarrow> more 1 (event_body w (rc_org c) (rc_run c) r ''provider_started'' None) s s'"
    "more 2 (\<lambda>b. event_body w (rc_org c) (rc_run c) r ''provider_started'' None b \<or>
       event_body w (rc_org c) (rc_run c) r ''cancel_before_call'' None b) s s'"
proof -
  let ?P = "event_body w (rc_org c) (rc_run c) r ''provider_started'' None"
  let ?Q = "event_body w (rc_org c) (rc_run c) r ''cancel_before_call'' None"
  obtain y s1 where g: "go_signal ops w (rc_org c) (rc_run c) r ''provider_started'' None (finops_reservation_fail_closed (gw_env w)) s = (y, s1)"
    by fastforce
  note a = signal_adds [OF g]
  show "x = Inr () \<Longrightarrow> more 1 ?P s s'"
    using assms g a by (auto simp: guard_start_def more_same split: if_splits sum.splits prod.splits)
  have "more 1 ?Q s1 s' \<or> s' = s1 \<or> s' = s"
    using assms g by (auto simp: guard_start_def split: if_splits sum.splits prod.splits dest: guard_signal_adds)
  then show "more 2 (\<lambda>b. ?P b \<or> ?Q b) s s'"
  proof (elim disjE)
    assume "more 1 ?Q s1 s'"
    with more_trans [OF more_mono [OF a, of 1 "\<lambda>b. ?P b \<or> ?Q b"] more_mono [of 1 ?Q s1 s' 1 "\<lambda>b. ?P b \<or> ?Q b"]]
    show ?thesis by (simp add: numeral_2_eq_2)
  next
    assume "s' = s1" then show ?thesis using more_mono [OF a] by simp
  qed (simp add: more_same)
qed

text \<open>The guarded call: nothing but the start of the reservation is settled before the provider is called,
  and after it every settlement is of the one outcome its answer calls for.\<close>

lemma guarded_call_trace:
  assumes "guarded_call ops w price_of c prov s = (res, s')"
  shows "\<exists>r. more 2 (\<lambda>b. event_body w (rc_org c) (rc_run c) r ''provider_started'' None b \<or>
       event_body w (rc_org c) (rc_run c) r ''cancel_before_call'' None b) s s' \<or>
    (\<exists>s2. more 1 (event_body w (rc_org c) (rc_run c) r ''provider_started'' None) s s2 \<and>
       more 2 (event_body w (rc_org c) (rc_run c) r (fst (outcome price_of prov)) (snd (outcome price_of prov)))
         (log_effect Provider_Called s2) s')"
proof -
  obtain x s1 where r: "guard_reserve ops w c s = (x, s1)" by fastforce
  show ?thesis
  proof (cases x)
    case (Inl e)
    with assms r have "s' = s1" by (simp add: guarded_call_def)
    then show ?thesis using more_mono [OF guard_reserve_adds [OF r]] by blast
  next
    case (Inr rsv)
    obtain y s2 where st: "guard_start ops w c rsv s1 = (y, s2)" by fastforce
    show ?thesis
    proof (cases y)
      case (Inl e)
      with assms r Inr st have "s' = s2" by (simp add: guarded_call_def)
      then show ?thesis
        using more_trans [OF guard_reserve_adds [OF r] guard_start_adds(2) [OF st]] by (auto simp: numeral_2_eq_2)
    next
      case y: (Inr u)
      have 1: "more 1 (event_body w (rc_org c) (rc_run c) rsv ''provider_started'' None) s s2"
        using more_trans [OF guard_reserve_adds [OF r] guard_start_adds(1) [OF st]] y by simp
      let ?s3 = "log_effect Provider_Called s2"
      let ?E = "event_body w (rc_org c) (rc_run c) rsv (fst (outcome price_of prov)) (snd (outcome price_of prov))"
      have "more 2 ?E ?s3 s'"
      proof (cases prov)
        case (Fails exc ie)
        obtain z s4 where f: "guard_failed ops w c rsv exc ie ?s3 = (z, s4)" by fastforce
        have "s' = s4" using assms r Inr st y Fails f by (auto simp: guarded_call_def split: sum.splits)
        then show ?thesis using more_mono [OF guard_failed_adds [OF f], of 2 ?E] Fails
          by (auto simp: outcome_def split: if_splits)
      next
        case (Answers resp)
        show ?thesis
        proof (cases "price_of resp")
          case (Inl e)
          obtain z s4 where f: "guard_signal ops w c rsv ''outcome_unknown'' None ?s3 = (z, s4)" by fastforce
          have "s' = s4" using assms r Inr st y Answers Inl f by (auto simp: guarded_call_def split: sum.splits)
          then show ?thesis using more_mono [OF guard_signal_adds [OF f], of 2 ?E] Answers Inl by (simp add: outcome_def)
        next
          case tc: (Inr tc)
          obtain t cost where tc': "tc = (t, cost)" by (cases tc)
          obtain z s4 where f: "guard_settle ops w c rsv cost ?s3 = (z, s4)" by fastforce
          from guard_settle_adds [OF f] obtain s5 where 5: "more 1 ?E ?s3 s5" "more 1 ?E s5 s4"
            using Answers tc tc' by (auto simp: outcome_def split: option.splits if_splits)
          then have m: "more 2 ?E ?s3 s4" using more_trans [OF 5] by (simp add: numeral_2_eq_2)
          have "s' = s4 \<or> s' = log_effect (Model_Event t cost) s4"
            using assms r Inr st y Answers tc tc' f by (auto simp: guarded_call_def split: sum.splits)
          moreover have "more 0 ?E s4 (log_effect (Model_Event t cost) s4)"
            by (rule more_other [of "Model_Event t cost"]) (simp_all add: is_settle_def)
          ultimately show ?thesis using m more_trans [OF m, of 0 "log_effect (Model_Event t cost) s4"] by fastforce
        qed
      qed
      with 1 show ?thesis by blast
    qed
  qed
qed

end

section \<open>The sync and the async functions\<close>

lemma reserve_urlopen_adds: "reserve_urlopen w b s = (x, s') \<Longrightarrow> more 0 P s s'"
  by (auto simp: reserve_urlopen_def more_def is_settle_def split: if_splits)

lemma fetch_adds: "fetch_capabilities w base org key s = (x, s') \<Longrightarrow> more 0 P s s'"
  by (auto simp: fetch_capabilities_def Let_def more_def is_settle_def split: if_splits option.splits caps_reply.splits)

lemma ask_adds: "ask_fail_open w base org key s = (x, s') \<Longrightarrow> more 0 P s s'"
  by (auto simp: ask_fail_open_def Let_def more_same)

lemma gate_adds: "apply_lifecycle_capability_gate w caps base org key s = (x, s') \<Longrightarrow> more 0 P s s'"
  by (auto simp: apply_lifecycle_capability_gate_def more_same split: if_splits prod.splits dest: ask_adds)

lemma ensure_adds:
  assumes "ensure_server_lifecycle_compatible w base org key s = (x, s')" shows "more 0 P s s'"
proof -
  obtain caps s1 where f: "fetch_capabilities w base org key s = (caps, s1)" by fastforce
  show ?thesis using assms f more_trans [OF fetch_adds [OF f, of P]]
    by (auto simp: ensure_server_lifecycle_compatible_def more_same split: sum.splits bool.splits dest: gate_adds)
qed

lemma undecided_adds: "undecided w c a shut un why s = (x, s') \<Longrightarrow> more 0 P s s'"
  by (rule more_same) (auto simp: undecided_def reserve_undecided_def fail_open_handle_def ask_fail_open_def Let_def
      split: if_splits prod.splits bool.splits)

lemma admitted_adds: "admitted w c a p s = (x, s') \<Longrightarrow> more 0 P s s'"
  by (auto simp: admitted_def more_same split: sum.splits guard_exn.splits dest: undecided_adds)

lemma answer_adds: "reserve_answer w c a reply s = (x, s') \<Longrightarrow> more 0 P s s'"
  "reserve_answer_async w c a reply s = (x, s') \<Longrightarrow> more 0 P s s'"
  by (auto simp: reserve_answer_def reserve_answer_async_def Let_def more_same
      split: reserve_reply.splits option.splits if_splits dest: undecided_adds admitted_adds)

lemma lifecycle_adds:
  assumes "\<And>a reply s x s'. answer w c a reply s = (x, s') \<Longrightarrow> more 0 P s s'"
    and "lifecycle_with answer w base c s = (x, s')"
  shows "more 0 P s s'"
proof -
  have step: "more 0 P s1 s'"
    if "(case reserve_urlopen w body s1 of (reply, s2) \<Rightarrow> answer w c a reply s2) = (x, s')" for s1 body a
  proof -
    obtain reply s2 where u: "reserve_urlopen w body s1 = (reply, s2)" by fastforce
    show ?thesis using more_trans [OF reserve_urlopen_adds [OF u] assms(1)] that u by simp
  qed
  show ?thesis
  proof (cases "build_lifecycle_reserve_body w c (gs_scopes s)")
    case (Inr bim)
    obtain body i micros where bim: "bim = (body, i, micros)" by (cases bim)
    show ?thesis
    proof (cases "capture_settlement_binding (gw_env w) base (rc_org c) (rc_workspace c)")
      case b: (Inr bind)
      obtain y s1 where e: "ensure_server_lifecycle_compatible w base (rc_org c) (bd_key bind) s = (y, s1)" by fastforce
      show ?thesis
      proof (cases y)
        case (Inl e')
        then show ?thesis using assms(2) Inr bim b e ensure_adds [OF e] by (simp add: lifecycle_with_def)
      next
        case y: (Inr u)
        then have "(case reserve_urlopen w body s1 of (reply, s2) \<Rightarrow>
            answer w c \<lparr>ad_identities = i, ad_micros = micros, ad_base = base, ad_binding = bind\<rparr> reply s2) = (x, s')"
          using assms(2) Inr bim b e by (simp add: lifecycle_with_def)
        from more_trans [OF ensure_adds [OF e] step [OF this]] show ?thesis by simp
      qed
    qed (use assms(2) Inr bim in \<open>simp add: lifecycle_with_def more_same\<close>)
  qed (use assms(2) in \<open>simp add: lifecycle_with_def more_same\<close>)
qed

lemma legacy_check_adds: "legacy_check w c s = (x, s') \<Longrightarrow> more 0 P s s'"
  by (rule more_other [of "Check_Sent (legacy_check_body c (gs_scopes s))"])
     (auto simp: legacy_check_def Let_def is_settle_def split: reserve_reply.splits option.splits pyval.splits sum.splits if_splits)

lemma reserve_with_adds:
  assumes "\<And>base s x s'. lifecycle w base c s = (x, s') \<Longrightarrow> more 0 P s s'" and "reserve_with lifecycle w c s = (x, s')"
  shows "more 0 P s s'"
proof -
  obtain y s1 where l: "lifecycle w (finops_url (dget (gw_env w))) c s = (y, s1)" by fastforce
  have "s' = s \<or> s' = s1 \<or> (\<exists>h. s' = bind_handle_refs c h s1) \<or> legacy_check w c s = (x, s')"
    using assms(2) l
    by (auto simp: reserve_with_def Let_def split: if_splits sum.splits bool.splits prod.splits)
  moreover have "more 0 P s (bind_handle_refs c h s1)" for h
    using assms(1) [OF l] by (auto simp: bind_handle_refs_def more_def)
  ultimately show ?thesis using assms(1) [OF l] legacy_check_adds more_same by metis
qed

lemma reserve_adds_both:
  "reserve_budget w c s = (x, s') \<Longrightarrow> more 0 P s s'"
  "reserve_budget_async w c s = (x, s') \<Longrightarrow> more 0 P s s'"
  unfolding reserve_budget_def reserve_budget_async_def reserve_lifecycle_def reserve_lifecycle_async_def
  by (erule reserve_with_adds [rotated], erule lifecycle_adds [rotated], erule answer_adds)+

lemma prepare_event_body:
  "prepare_event w org run r ev cost req = Inr (Inr (base, org', b)) \<Longrightarrow> event_body w org run r ev cost b"
  by (auto simp: prepare_event_def event_body_def Let_def split: reserved.splits if_splits sum.splits)

lemma more_known:
  "usd_to_micros_ceil q = Inr m \<Longrightarrow> rh_id h \<noteq> [] \<Longrightarrow> has_capability h \<Longrightarrow>
     settle_body w org run h ''usage_known'' (Some m) = Inr b \<Longrightarrow> gs_trace s' = gs_trace s @ [Settle_Sent b] \<Longrightarrow>
     more (Suc 0) (event_body w org run (Handle h) ''usage_known'' (Some q)) s s'"
  by (rule more_settle) (auto simp: event_body_def event_micros_def)

lemma prepare_event_early:
  "prepare_event w org run r ev cost True = Inr (Inl ok) \<Longrightarrow> \<not> guard_sdk_settles r"
  by (auto simp: prepare_event_def guard_sdk_settles_def Let_def split: reserved.splits if_splits sum.splits)

lemma reconcile_way_handle: "reconcile_way w c r = Inr (Settle_Handle base h) \<Longrightarrow> r = Handle h \<and> rh_id h \<noteq> []"
  by (auto simp: reconcile_way_def Let_def bnd_eq_Inr split: reserved.splits if_splits)

interpretation sync: lifecycle_ops sync_ops
proof unfold_locales
  show "more 0 (\<lambda>_. False) s s'" if "go_reserve sync_ops w c s = (x, s')" for w c s x s'
    using that by (simp add: sync_ops_def reserve_adds_both)
next
  fix w org run r ev cost req s x s'
  assume g: "go_signal sync_ops w org run r ev cost req s = (x, s')"
  then show "more 1 (event_body w org run r ev cost) s s'"
    by (auto simp: sync_ops_def signal_reservation_event_def more_same dest!: prepare_event_body settle_request_cases
        intro: more_settle split: sum.splits prod.splits)
next
  fix w org run r ev cost req s ok s'
  assume g: "go_signal sync_ops w org run r ev cost req s = (Inr ok, s')" "guard_sdk_settles r" req
  then show "\<exists>b. gs_trace s' = gs_trace s @ [Settle_Sent b] \<and> event_body w org run r ev cost b \<and> settle_acked w (settles s) b"
    by (auto simp: sync_ops_def signal_reservation_event_def event_failed_def dest!: prepare_event_body settle_request_cases prepare_event_early
        split: sum.splits prod.splits if_splits)
next
  fix w c r q s x s'
  assume g: "go_reconcile sync_ops w c r q s = (x, s')"
  show "more 1 (event_body w (rc_org c) (rc_run c) r ''usage_known'' (Some q)) s s'"
  proof (cases "\<exists>base h. reconcile_way w c r = Inr (Settle_Handle base h)")
    case True
    with g show ?thesis
      by (auto simp: sync_ops_def reconcile_budget_def more_same
          dest!: settle_request_cases reconcile_way_handle intro: more_known split: sum.splits if_splits)
  next
    case False
    with g show ?thesis
      by (auto simp: sync_ops_def reconcile_budget_def more_same more_def is_settle_def split: sum.splits reconcile_way.splits)
  qed
qed

interpretation async: lifecycle_ops async_ops
proof unfold_locales
  show "more 0 (\<lambda>_. False) s s'" if "go_reserve async_ops w c s = (x, s')" for w c s x s'
    using that by (simp add: async_ops_def reserve_adds_both)
next
  fix w org run r ev cost req s x s'
  assume g: "go_signal async_ops w org run r ev cost req s = (x, s')"
  then show "more 1 (event_body w org run r ev cost) s s'"
    by (auto simp: async_ops_def signal_reservation_event_async_def more_same dest!: prepare_event_body settle_request_async_cases
        intro: more_settle split: sum.splits prod.splits async_settle.splits)
next
  fix w org run r ev cost req s ok s'
  assume g: "go_signal async_ops w org run r ev cost req s = (Inr ok, s')" "guard_sdk_settles r" req
  then show "\<exists>b. gs_trace s' = gs_trace s @ [Settle_Sent b] \<and> event_body w org run r ev cost b \<and> settle_acked w (settles s) b"
    by (auto simp: async_ops_def signal_reservation_event_async_def event_failed_def dest!: prepare_event_body settle_request_async_cases prepare_event_early
        split: sum.splits prod.splits if_splits async_settle.splits)
next
  fix w c r q s x s'
  assume g: "go_reconcile async_ops w c r q s = (x, s')"
  show "more 1 (event_body w (rc_org c) (rc_run c) r ''usage_known'' (Some q)) s s'"
  proof (cases "\<exists>base h. reconcile_way w c r = Inr (Settle_Handle base h)")
    case True
    with g show ?thesis
      by (auto simp: async_ops_def reconcile_budget_async_def more_same
          dest!: settle_request_async_cases reconcile_way_handle intro: more_known
          split: sum.splits if_splits prod.splits async_settle.splits)
  next
    case False
    with g show ?thesis
      by (auto simp: async_ops_def reconcile_budget_async_def more_same more_def is_settle_def split: sum.splits reconcile_way.splits)
  qed
qed

end
