(* ===== verification/Guard_Claims.thy ===== *)
theory Guard_Claims
  imports Guard_Facts
begin

text \<open>
  The properties of a guarded call, sync and async: one outcome per call, no provider call without an
  admission, an outcome that survives the crash of its request; and how the twins of a settlement and of an
  admission relate.
\<close>

section \<open>Bodies\<close>

lemma str_of_field: "kw d k = PStr t \<Longrightarrow> str_or_empty (kw d k) = t"
  by (simp add: str_or_empty_def or_val_def py_str_def)

lemma settle_payload_fields:
  assumes "build_settle_payload rid cid att org ev m v idem cap evd = Inr b"
  shows "kw b ''event'' = PStr ev \<and> kw b ''reservation_id'' = PStr rid \<and>
    kw b ''actual_usd_micros'' = (case (if ev = ''usage_known'' then m else None) of None \<Rightarrow> PNone | Some a \<Rightarrow> PInt a)"
  using assms unfolding build_settle_payload_def
  by (auto simp: bnd_eq_Inr Let_def kw_dset kw_def split: option.splits if_splits)

text \<open>The outcome a settlement body reports for a reservation: its event and, when usage is known, the cost
  in whole micro-dollars.\<close>

definition reports :: "string \<Rightarrow> string \<times> rat option \<Rightarrow> payload \<Rightarrow> bool" where
  "reports rid oc b \<longleftrightarrow> kw b ''reservation_id'' = PStr rid \<and> kw b ''event'' = PStr (fst oc) \<and>
     (case snd oc of
        None \<Rightarrow> kw b ''actual_usd_micros'' = PNone
      | Some q \<Rightarrow> (\<exists>m. usd_to_micros_ceil q = Inr m \<and> kw b ''actual_usd_micros'' = PInt m))"

lemma event_body_reports:
  assumes "event_body w org run r ev cost b" "(ev = ''usage_known'') = (cost \<noteq> None)"
  shows "\<exists>h. r = Handle h \<and> rh_id h \<noteq> [] \<and> has_capability h \<and> reports (rh_id h) (ev, cost) b"
proof -
  obtain h m where h: "r = Handle h" "rh_id h \<noteq> []" "has_capability h" and m: "event_micros ev cost = Inr m"
    and b: "settle_body w org run h ev m = Inr b"
    using assms(1) unfolding event_body_def by blast
  note f = settle_payload_fields [OF b [unfolded settle_body_def]]
  have "reports (rh_id h) (ev, cost) b"
    using f m assms(2) by (cases cost) (auto simp: reports_def event_micros_def bnd_eq_Inr)
  with h show ?thesis by blast
qed

lemma event_body_unique: "event_body w org run r ev cost b \<Longrightarrow> event_body w org run r ev cost b' \<Longrightarrow> b = b'"
  by (auto simp: event_body_def)

lemma outcome_shape: "(fst (outcome price_of prov) = ''usage_known'') = (snd (outcome price_of prov) \<noteq> None)"
  by (auto simp: outcome_def split: provider_result.splits sum.splits option.splits prod.splits)

lemma split_at_call:
  assumes "u @ Provider_Called # v = u' @ Provider_Called # v'" "Provider_Called \<notin> set u" "Provider_Called \<notin> set v"
  shows "u = u' \<and> v = v'"
  using assms append_Cons_eq_iff [of Provider_Called u v u' v'] by metis

section \<open>One outcome\<close>

lemma call_trace:
  assumes "ops = sync_ops \<or> ops = async_ops" "guarded_call ops w price_of c prov s = (res, s')"
    and "gs_trace s' = gs_trace s @ pre @ Provider_Called # post"
  shows "\<exists>r. (Provider_Called \<notin> set pre \<and> Provider_Called \<notin> set post) \<and> length (filter is_settle pre) \<le> 1 \<and>
    length (filter is_settle post) \<le> 2 \<and>
    (\<forall>b. Settle_Sent b \<in> set pre \<longrightarrow> event_body w (rc_org c) (rc_run c) r ''provider_started'' None b) \<and>
    (\<forall>b. Settle_Sent b \<in> set post \<longrightarrow> event_body w (rc_org c) (rc_run c) r (fst (outcome price_of prov)) (snd (outcome price_of prov)) b)"
proof -
  have "\<exists>r. more 2 (\<lambda>b. event_body w (rc_org c) (rc_run c) r ''provider_started'' None b \<or>
       event_body w (rc_org c) (rc_run c) r ''cancel_before_call'' None b) s s' \<or>
    (\<exists>s2. more 1 (event_body w (rc_org c) (rc_run c) r ''provider_started'' None) s s2 \<and>
       more 2 (event_body w (rc_org c) (rc_run c) r (fst (outcome price_of prov)) (snd (outcome price_of prov)))
         (log_effect Provider_Called s2) s')" (is "\<exists>r. ?T r")
    using assms(1)
  proof
    assume "ops = sync_ops"
    with assms(2) have g: "guarded_call sync_ops w price_of c prov s = (res, s')" by simp
    show ?thesis by (rule sync.guarded_call_trace [OF g])
  next
    assume "ops = async_ops"
    with assms(2) have g: "guarded_call async_ops w price_of c prov s = (res, s')" by simp
    show ?thesis by (rule async.guarded_call_trace [OF g])
  qed
  then obtain r where "?T r" ..
  then obtain s2 where m: "more 1 (event_body w (rc_org c) (rc_run c) r ''provider_started'' None) s s2"
    "more 2 (event_body w (rc_org c) (rc_run c) r (fst (outcome price_of prov)) (snd (outcome price_of prov)))
         (log_effect Provider_Called s2) s'"
    using assms(3) by (auto simp: more_def)
  obtain u where u: "gs_trace s2 = gs_trace s @ u" "length (filter is_settle u) \<le> 1" "Provider_Called \<notin> set u"
    "\<forall>b. Settle_Sent b \<in> set u \<longrightarrow> event_body w (rc_org c) (rc_run c) r ''provider_started'' None b"
    using m(1) unfolding more_def by blast
  obtain v where v: "gs_trace s' = gs_trace s2 @ Provider_Called # v" "length (filter is_settle v) \<le> 2" "Provider_Called \<notin> set v"
    "\<forall>b. Settle_Sent b \<in> set v \<longrightarrow>
       event_body w (rc_org c) (rc_run c) r (fst (outcome price_of prov)) (snd (outcome price_of prov)) b"
    using m(2) unfolding more_def by auto
  have "u = pre \<and> v = post"
    by (rule split_at_call) (use assms(3) u v in auto)
  with u v show ?thesis by blast
qed


section \<open>No call without an admission\<close>

text \<open>A settlement changes neither the remembered policy nor anything but the queue and the trace; a handle
  let through without a reservation has none; only a handle with a reservation and a capability is signalled.\<close>

definition settleable :: "reserved \<Rightarrow> bool" where
  "settleable r \<longleftrightarrow> (\<exists>h. r = Handle h \<and> rh_lifecycle h \<and> rh_id h \<noteq> [] \<and> has_capability h)"

locale lifecycle_frames = lifecycle_ops +
  assumes signal_frame: "\<And>w org run r ev cost req s x s'. go_signal ops w org run r ev cost req s = (x, s') \<Longrightarrow>
      gs_policy s' = gs_policy s \<and> (\<not> settleable r \<longrightarrow> gs_trace s' = gs_trace s)"
    and reconcile_frame: "\<And>w c r q s x s'. go_reconcile ops w c r q s = (x, s') \<Longrightarrow> gs_policy s' = gs_policy s"
begin

lemma guard_signal_frame:
  "guard_signal ops w c r ev cost s = (x, s') \<Longrightarrow> gs_policy s' = gs_policy s"
  by (auto simp: guard_signal_def split: prod.splits sum.splits guard_exn.splits dest!: signal_frame)

lemma guard_start_frame: "guard_start ops w c r s = (x, s') \<Longrightarrow> gs_policy s' = gs_policy s"
  by (auto simp: guard_start_def split: prod.splits sum.splits if_splits dest!: signal_frame guard_signal_frame)

lemma guard_settle_frame: "guard_settle ops w c r cost s = (x, s') \<Longrightarrow> gs_policy s' = gs_policy s"
  by (auto simp: guard_settle_def guard_legacy_reconcile_def split: option.splits prod.splits sum.splits if_splits guard_exn.splits bool.splits
      dest!: reconcile_frame guard_signal_frame)

lemma guard_failed_frame: "guard_failed ops w c r exc ie s = (x, s') \<Longrightarrow> gs_policy s' = gs_policy s"
  by (auto simp: guard_failed_def guard_legacy_reconcile_def split: prod.splits sum.splits if_splits guard_exn.splits
      dest!: reconcile_frame guard_signal_frame)

lemma guarded_call_tail:
  assumes "guarded_call ops w price_of c prov s = (res, s')" "guard_reserve ops w c s = (Inr rsv, s1)"
    and "guard_start ops w c rsv s1 = (Inr un, s2)"
  shows "gs_policy s' = gs_policy s2 \<and> (\<exists>v. gs_trace s' = gs_trace s2 @ Provider_Called # v)"
proof -
  let ?s3 = "log_effect Provider_Called s2"
  have p: "gs_policy ?s3 = gs_policy s2" by (simp add: log_effect_def)
  show ?thesis
  proof (cases prov)
    case (Fails exc ie)
    obtain z s4 where f: "guard_failed ops w c rsv exc ie ?s3 = (z, s4)" by fastforce
    have "s' = s4" using assms Fails f by (auto simp: guarded_call_def split: sum.splits)
    then show ?thesis using guard_failed_adds [OF f] guard_failed_frame [OF f] p by (auto simp: more_def split: if_splits)
  next
    case (Answers resp)
    show ?thesis
    proof (cases "price_of resp")
      case (Inl e)
      obtain z s4 where f: "guard_signal ops w c rsv ''outcome_unknown'' None ?s3 = (z, s4)" by fastforce
      have "s' = s4" using assms Answers Inl f by (auto simp: guarded_call_def split: sum.splits)
      then show ?thesis using guard_signal_adds [OF f] guard_signal_frame [OF f] p by (auto simp: more_def)
    next
      case tc: (Inr tc)
      obtain t cost where tc': "tc = (t, cost)" by (cases tc)
      obtain z s4 where f: "guard_settle ops w c rsv cost ?s3 = (z, s4)" by fastforce
      have "\<exists>v. gs_trace s4 = gs_trace ?s3 @ v" using guard_settle_adds [OF f] by (auto simp: more_def)
      moreover have "s' = s4 \<or> s' = log_effect (Model_Event t cost) s4"
        using assms Answers tc tc' f by (auto simp: guarded_call_def split: sum.splits)
      ultimately show ?thesis using guard_settle_frame [OF f] p by (auto simp: log_effect_def)
    qed
  qed
qed

text \<open>A provider call comes after a granted reservation and, when control failures stop calls, after an
  acknowledged start of every reservation the SDK settles.\<close>

lemma provider_called_granted:
  assumes "guarded_call ops w price_of c prov s = (res, s')" "gs_trace s' = gs_trace s @ pre @ Provider_Called # post"
    and "Provider_Called \<notin> set pre" "Provider_Called \<notin> set post" "finops_reservation_fail_closed (gw_env w)"
  shows "\<exists>r s1 v. go_reserve ops w (guard_request c) s = (Inr r, s1) \<and> gs_policy s' = gs_policy s1 \<and>
    gs_trace s @ pre = gs_trace s1 @ v \<and>
    (guard_sdk_settles r \<longrightarrow> (\<exists>b n. Settle_Sent b \<in> set v \<and> settle_acked w n b \<and>
       event_body w (rc_org c) (rc_run c) r ''provider_started'' None b))"
proof -
  obtain x s1 where r: "go_reserve ops w (guard_request c) s = (x, s1)" by fastforce
  obtain u where u: "gs_trace s1 = gs_trace s @ u" "Provider_Called \<notin> set u" using reserve_adds [OF r] unfolding more_def by blast
  show ?thesis
  proof (cases x)
    case (Inl e)
    then have "gs_trace s' = gs_trace s1 \<or> (\<exists>t. gs_trace s' = gs_trace s1 @ [Reserve_Event False t])"
      using assms(1) r by (auto simp: guarded_call_def guard_reserve_def split: option.splits)
    with u have "\<exists>l. pre @ Provider_Called # post = u @ l \<and> Provider_Called \<notin> set (u @ l)" using assms(2) by auto
    then have "Provider_Called \<notin> set (pre @ Provider_Called # post)" by metis
    then show ?thesis by simp
  next
    case (Inr rsv)
    let ?s1 = "log_effect (Reserve_Event True None) s1"
    obtain y s2 where st: "guard_start ops w c rsv ?s1 = (y, s2)" by fastforce
    obtain v where v: "gs_trace s2 = gs_trace ?s1 @ v" "Provider_Called \<notin> set v"
      using guard_start_adds(2) [OF st] unfolding more_def by blast
    show ?thesis
    proof (cases y)
      case (Inl e)
      then have "s' = s2" using assms(1) r Inr st by (simp add: guarded_call_def guard_reserve_def)
      with u v assms(2) have "pre @ Provider_Called # post = u @ Reserve_Event True None # v" by simp
      then have "Provider_Called \<in> set (u @ Reserve_Event True None # v)" by (metis in_set_conv_decomp)
      with u v show ?thesis by simp
    next
      case y: (Inr un)
      have pol: "gs_policy s2 = gs_policy s1" using guard_start_frame [OF st] by (simp add: log_effect_def)
      obtain t where t: "gs_trace s' = gs_trace s2 @ Provider_Called # t" "gs_policy s' = gs_policy s2"
        using guarded_call_tail [OF assms(1), of rsv ?s1 un s2] r Inr st y by (auto simp: guard_reserve_def)
      let ?v = "Reserve_Event True None # v"
      have "pre = u @ ?v \<and> post = t"
        by (rule split_at_call) (use t u v assms(2-4) in simp_all)
      then have split: "gs_trace s @ pre = gs_trace s1 @ ?v" using u by simp
      have "\<exists>b n. Settle_Sent b \<in> set ?v \<and> settle_acked w n b \<and> event_body w (rc_org c) (rc_run c) rsv ''provider_started'' None b"
        if own: "guard_sdk_settles rsv"
      proof -
        obtain ok where g: "go_signal ops w (rc_org c) (rc_run c) rsv ''provider_started'' None True ?s1 = (Inr ok, s2)"
          using st own y assms(5) by (auto simp: guard_start_def split: prod.splits sum.splits)
        from signal_required [OF g own] v(1) show ?thesis by auto
      qed
      with r Inr t pol split show ?thesis by (intro exI [of _ rsv] exI [of _ s1] exI [of _ ?v]) simp
    qed
  qed
qed

end

lemma settle_request_frame: "settle_request w base org b s = (x, s') \<Longrightarrow> gs_policy s' = gs_policy s"
  by (auto simp: settle_request_def log_effect_def split: prod.splits post_result.splits)

lemma settle_request_async_frame: "settle_request_async w base org b s = (x, s') \<Longrightarrow> gs_policy s' = gs_policy s"
  by (auto simp: settle_request_async_def log_effect_def Let_def split: prod.splits sum.splits if_splits http_result.splits)

lemma prepare_event_settleable: "prepare_event w org run r ev cost req = Inr (Inr t) \<Longrightarrow> settleable r"
  by (auto simp: prepare_event_def settleable_def Let_def split: reserved.splits if_splits sum.splits)

interpretation sync_calls: lifecycle_frames sync_ops
proof unfold_locales
  show "gs_policy s' = gs_policy s \<and> (\<not> settleable r \<longrightarrow> gs_trace s' = gs_trace s)"
    if "go_signal sync_ops w org run r ev cost req s = (x, s')" for w org run r ev cost req s x s'
    using that by (auto simp: sync_ops_def signal_reservation_event_def split: sum.splits prod.splits
        dest: prepare_event_settleable settle_request_frame)
  show "gs_policy s' = gs_policy s" if "go_reconcile sync_ops w c r q s = (x, s')" for w c r q s x s'
    using that by (auto simp: sync_ops_def reconcile_budget_def log_effect_def split: sum.splits reconcile_way.splits if_splits
        dest: settle_request_frame)
qed

interpretation async_calls: lifecycle_frames async_ops
proof unfold_locales
  show "gs_policy s' = gs_policy s \<and> (\<not> settleable r \<longrightarrow> gs_trace s' = gs_trace s)"
    if "go_signal async_ops w org run r ev cost req s = (x, s')" for w org run r ev cost req s x s'
    using that by (auto simp: async_ops_def signal_reservation_event_async_def split: sum.splits prod.splits async_settle.splits
        dest: prepare_event_settleable settle_request_async_frame)
  show "gs_policy s' = gs_policy s" if "go_reconcile async_ops w c r q s = (x, s')" for w c r q s x s'
    using that by (auto simp: async_ops_def reconcile_budget_async_def log_effect_def
        split: sum.splits reconcile_way.splits if_splits prod.splits async_settle.splits dest: settle_request_async_frame)
qed

text \<open>What a granted reservation rests on when control failures stop calls: an answer of FinOps, or the
  organization's own setting while FinOps cannot be reached.\<close>

lemma lookup_again: "fst (lookup sha k (snd (lookup sha k (m, d)), d)) = fst (lookup sha k (m, d))"
  by (auto simp: lookup_def split: option.splits)

lemma ask_fail_open_stays:
  "ask_fail_open w base org key s = (ok, s') \<Longrightarrow>
     ok = allows_fail_open (pe_sha (gw_post w)) base org key (gs_policy s') \<and> gs_trace s' = gs_trace s"
  by (cases "gs_policy s") (auto simp: ask_fail_open_def Let_def allows_fail_open_def lookup_again)

definition granted_by :: "guard_world \<Rightarrow> reserve_call \<Rightarrow> admission \<Rightarrow> bool \<Rightarrow> reserve_reply \<Rightarrow> policy_memory \<times> policy_disk \<Rightarrow> reservation_handle \<Rightarrow> bool" where
  "granted_by w c a strict reply pol h \<longleftrightarrow>
     (\<exists>p. reply = Reply_Ok (Some p) \<and> (strict \<longrightarrow> is_mapping p) \<and>
        (let p' = (if is_mapping p then p else PDict [])
         in rh_id h = str_or_empty (field p' ''reservation_id'') \<and>
            (rh_id h \<noteq> [] \<and> field p' ''allowed'' \<noteq> PBool False \<longrightarrow> guard_sdk_settles (Handle h)))) \<or>
     is_unavailable reply \<and> allows_fail_open (pe_sha (gw_post w)) (ad_base a) (rc_org c) (bd_key (ad_binding a)) pol \<and> rh_id h = []"

lemma undecided_granted:
  assumes "undecided w c a True un why s = (Inr h, s')"
  shows "un \<and> allows_fail_open (pe_sha (gw_post w)) (ad_base a) (rc_org c) (bd_key (ad_binding a)) (gs_policy s') \<and> rh_id h = []"
proof (cases un)
  case True
  obtain ok s1 where k: "ask_fail_open w (ad_base a) (rc_org c) (bd_key (ad_binding a)) s = (ok, s1)" by fastforce
  with assms True have "ok" by (auto simp: undecided_def reserve_undecided_def split: if_splits bool.splits)
  then show ?thesis using assms True k ask_fail_open_stays [OF k]
    by (auto simp: undecided_def reserve_undecided_def fail_open_handle_def bare_handle_def Let_def)
qed (use assms in \<open>auto simp: undecided_def reserve_undecided_def\<close>)

lemma handle_to_reservation_settles:
  assumes "handle_to_reservation p cid att micros idem asked bind = Inr h"
  shows "rh_id h = str_or_empty (field p ''reservation_id'') \<and>
    (rh_id h \<noteq> [] \<and> field p ''allowed'' \<noteq> PBool False \<longrightarrow> guard_sdk_settles (Handle h))"
proof -
  let ?cap = "py_strip (str_or_empty (field p ''settlement_capability''))"
  let ?omitted = "field p ''allowed'' \<noteq> PBool False \<and> str_or_empty (field p ''reservation_id'') \<noteq> [] \<and> ?cap = []"
  obtain m where m: "py_int (or_val (field p ''reserved_usd_micros'') (PInt micros)) = Inr m"
    using assms by (cases "py_int (or_val (field p ''reserved_usd_micros'') (PInt micros))") (simp_all add: handle_to_reservation_def)
  have o: "\<not> ?omitted"
  proof
    assume ?omitted
    with assms m show False by (simp add: handle_to_reservation_def Let_def)
  qed
  obtain t where t: "py_int (or_val (field p ''attempt'') (PInt att)) = Inr t"
    using assms m o by (cases "py_int (or_val (field p ''attempt'') (PInt att))") (simp_all only: handle_to_reservation_def Let_def if_False sum.case sum.distinct)
  have "rh_id h = str_or_empty (field p ''reservation_id'') \<and> rh_lifecycle h \<and> \<not> rh_fail_open h \<and>
      rh_capability h = (if ?cap = [] then None else Some ?cap)"
    using assms m o t unfolding handle_to_reservation_def Let_def 
    by (simp only: if_False sum.case sum.inject) (drule sym, simp only: reservation_handle.select_convs simp_thms)
  with o show ?thesis by (auto simp: guard_sdk_settles_def has_capability_def)
qed

lemma admitted_granted:
  assumes "admitted w c a p s = (Inr h, s')" "finops_reservation_fail_closed (gw_env w)"
  shows "rh_id h = str_or_empty (field p ''reservation_id'') \<and>
    (rh_id h \<noteq> [] \<and> field p ''allowed'' \<noteq> PBool False \<longrightarrow> guard_sdk_settles (Handle h))"
  using assms by (auto simp: admitted_def any_fail_closed_def split: sum.splits guard_exn.splits
      dest: handle_to_reservation_settles undecided_granted)

lemma reserve_answer_granted:
  assumes "reserve_answer w c a reply s = (Inr h, s')" "finops_reservation_fail_closed (gw_env w)"
  shows "granted_by w c a True reply (gs_policy s') h"
proof (cases "\<exists>p. reply = Reply_Ok (Some p) \<and> is_mapping p")
  case True
  then obtain p where p: "reply = Reply_Ok (Some p)" "is_mapping p" by blast
  with assms(1) have "admitted w c a p s = (Inr h, s')" by (simp add: reserve_answer_def)
  from admitted_granted [OF this assms(2)] p show ?thesis unfolding granted_by_def Let_def by auto
next
  case False
  with assms show ?thesis
    by (auto simp: reserve_answer_def granted_by_def any_fail_closed_def is_unavailable_def Let_def
        split: reserve_reply.splits option.splits if_splits dest!: undecided_granted)
qed

lemma reserve_answer_async_granted:
  assumes "reserve_answer_async w c a reply s = (Inr h, s')" "finops_reservation_fail_closed (gw_env w)"
  shows "granted_by w c a False reply (gs_policy s') h"
proof (cases "\<exists>p. reply = Reply_Ok (Some p)")
  case True
  then obtain p where p: "reply = Reply_Ok (Some p)" ..
  with assms(1) have "admitted w c a (if is_mapping p then p else PDict []) s = (Inr h, s')" by (simp add: reserve_answer_async_def)
  from admitted_granted [OF this assms(2)] show ?thesis unfolding granted_by_def p Let_def by blast
next
  case False
  with assms show ?thesis
    by (auto simp: reserve_answer_async_def granted_by_def any_fail_closed_def is_unavailable_def Let_def
        split: reserve_reply.splits option.splits if_splits dest!: undecided_granted)
qed


text \<open>The reservation's own exchange: what was sent, what was answered, and what the grant rests on.\<close>

definition granted :: "guard_world \<Rightarrow> reserve_call \<Rightarrow> bool \<Rightarrow> guard_effect list \<Rightarrow> policy_memory \<times> policy_disk \<Rightarrow> reservation_handle \<Rightarrow> bool" where
  "granted w c strict new pol h \<longleftrightarrow> (\<exists>body n a. Reserve_Sent body \<in> set new \<and> ad_base a = finops_url (dget (gw_env w)) \<and>
     bd_key (ad_binding a) = api_key (gw_env w) \<and> granted_by w c a strict (gw_reserve w n body) pol h)"

lemma reserve_urlopen_sent:
  "reserve_urlopen w body s = (reply, s') \<Longrightarrow>
     \<exists>n u. reply = gw_reserve w n body \<and> gs_trace s' = gs_trace s @ u \<and> Reserve_Sent body \<in> set u \<and> gs_policy s' = gs_policy s"
  by (auto simp: reserve_urlopen_def log_effect_def split: if_splits)

lemma lifecycle_granted:
  assumes answer: "\<And>a reply s h s'. answer w c a reply s = (Inr h, s') \<Longrightarrow>
      granted_by w c a strict reply (gs_policy s') h \<and> more 0 (\<lambda>_. False) s s'"
    and l: "lifecycle_with answer w (finops_url (dget (gw_env w))) c s = (Inr h, s')"
  shows "\<exists>new. gs_trace s' = gs_trace s @ new \<and> granted w c strict new (gs_policy s') h"
proof -
  let ?base = "finops_url (dget (gw_env w))"
  obtain body i micros where bim: "build_lifecycle_reserve_body w c (gs_scopes s) = Inr (body, i, micros)"
    using l by (cases "build_lifecycle_reserve_body w c (gs_scopes s)") (auto simp: lifecycle_with_def)
  obtain bind where b: "capture_settlement_binding (gw_env w) ?base (rc_org c) (rc_workspace c) = Inr bind"
    using l bim by (cases "capture_settlement_binding (gw_env w) ?base (rc_org c) (rc_workspace c)") (auto simp: lifecycle_with_def)
  let ?a = "\<lparr>ad_identities = i, ad_micros = micros, ad_base = ?base, ad_binding = bind\<rparr>"
  have key: "bd_key bind = api_key (gw_env w)"
    using b by (auto simp: capture_settlement_binding_def bnd_eq_Inr)
  obtain y s1 where e: "ensure_server_lifecycle_compatible w ?base (rc_org c) (bd_key bind) s = (y, s1)" by fastforce
  obtain reply s2 where u: "reserve_urlopen w body s1 = (reply, s2)" by fastforce
  have ans: "answer w c ?a reply s2 = (Inr h, s')" using l bim b e u by (cases y) (auto simp: lifecycle_with_def)
  obtain t0 where t0: "gs_trace s1 = gs_trace s @ t0" using ensure_adds [OF e, of "\<lambda>_. False"] unfolding more_def by blast
  obtain n t1 where t1: "reply = gw_reserve w n body" "gs_trace s2 = gs_trace s1 @ t1" "Reserve_Sent body \<in> set t1"
    using reserve_urlopen_sent [OF u] by blast
  obtain t2 where t2: "gs_trace s' = gs_trace s2 @ t2" using answer [OF ans] unfolding more_def by blast
  have "granted w c strict (t0 @ t1 @ t2) (gs_policy s') h"
    using answer [OF ans] t1 key unfolding granted_def
    by (intro exI [of _ body] exI [of _ n] exI [of _ ?a]) auto
  with t0 t1 t2 show ?thesis by (intro exI [of _ "t0 @ t1 @ t2"]) simp
qed

lemma reserve_with_granted:
  assumes l: "\<And>s h s'. lifecycle w (finops_url (dget (gw_env w))) c s = (Inr h, s') \<Longrightarrow>
      \<exists>new. gs_trace s' = gs_trace s @ new \<and> granted w c strict new (gs_policy s') h"
    and r: "reserve_with lifecycle w c s = (Inr r, s')"
    and e: "lifecycle_budget_enabled (gw_env w) = Inr True" "finops_url (dget (gw_env w)) \<noteq> []"
      "\<not> should_skip_sdk_reserve (gw_env w) (gs_owner s)"
  shows "\<exists>h new. r = Handle h \<and> gs_trace s' = gs_trace s @ new \<and> granted w c strict new (gs_policy s') h"
proof -
  obtain y s1 where y: "lifecycle w (finops_url (dget (gw_env w))) c s = (y, s1)" by fastforce
  obtain h where h: "y = Inr h" "r = Handle h" "s' = bind_handle_refs c h s1"
    using r e y by (cases y) (auto simp: reserve_with_def Let_def split: sum.splits)
  have "gs_trace s' = gs_trace s1" "gs_policy s' = gs_policy s1" by (simp_all add: h(3) bind_handle_refs_def)
  with l [of s h s1] y h show ?thesis by auto
qed

lemma reserve_granted:
  assumes "ops = sync_ops \<and> strict \<or> ops = async_ops \<and> \<not> strict" "go_reserve ops w c s = (Inr r, s')"
    and f: "finops_reservation_fail_closed (gw_env w)"
    and e: "lifecycle_budget_enabled (gw_env w) = Inr True" "finops_url (dget (gw_env w)) \<noteq> []"
      "\<not> should_skip_sdk_reserve (gw_env w) (gs_owner s)"
  shows "\<exists>h new. r = Handle h \<and> gs_trace s' = gs_trace s @ new \<and> granted w c strict new (gs_policy s') h"
  using assms(1)
proof
  assume o: "ops = sync_ops \<and> strict"
  then have r: "reserve_with reserve_lifecycle w c s = (Inr r, s')" using assms(2) by (simp add: sync_ops_def reserve_budget_def)
  have l: "\<exists>new. gs_trace s' = gs_trace s @ new \<and> granted w c True new (gs_policy s') h"
    if "reserve_lifecycle w (finops_url (dget (gw_env w))) c s = (Inr h, s')" for s h s'
    by (rule lifecycle_granted [where answer = reserve_answer])
      (use that in \<open>auto simp: reserve_lifecycle_def intro: reserve_answer_granted [OF _ f] answer_adds(1)\<close>)
  show ?thesis using reserve_with_granted [OF l r e] o by simp
next
  assume o: "ops = async_ops \<and> \<not> strict"
  then have r: "reserve_with reserve_lifecycle_async w c s = (Inr r, s')"
    using assms(2) by (simp add: async_ops_def reserve_budget_async_def)
  have l: "\<exists>new. gs_trace s' = gs_trace s @ new \<and> granted w c False new (gs_policy s') h"
    if "reserve_lifecycle_async w (finops_url (dget (gw_env w))) c s = (Inr h, s')" for s h s'
    by (rule lifecycle_granted [where answer = reserve_answer_async])
      (use that in \<open>auto simp: reserve_lifecycle_async_def intro: reserve_answer_async_granted [OF _ f] answer_adds(2)\<close>)
  show ?thesis using reserve_with_granted [OF l r e] o by simp
qed


section \<open>A world to run in\<close>

text \<open>A control deployment whose FinOps admits the call and acknowledges what it is sent.\<close>

definition toy_loads :: "string \<Rightarrow> pyval option" where
  "toy_loads raw = (if raw = ''applied'' then Some (PDict [(''result'', PStr ''applied'')]) else if raw = ''{}'' then Some (PDict []) else None)"

definition toy_admission :: pyval where
  "toy_admission = PDict [(''reservation_id'', PStr ''r1''), (''settlement_capability'', PStr ''cap''),
     (''reserved_usd_micros'', PInt 20000)]"

definition toy_world :: guard_world where
  "toy_world = \<lparr>gw_env = [(''KAZENAI_PROFILE'', ''control''), (''KAZENAI_FINOPS_URL'', ''https://finops'')],
     gw_post = toy_env\<lparr>pe_loads := toy_loads\<rparr>, gw_ids = (''n1'', ''n2'', ''n3''),
     gw_catalog = [], gw_engine = Inl PyValueError, gw_pricing = None, gw_format = (\<lambda>_. []),
     gw_caps = Caps_Doc (PDict [(''reservation_settlement'', PBool True)]),
     gw_reserve = (\<lambda>n b. if n = 0 then Reply_Http 503 [] else Reply_Ok (Some toy_admission)),
     gw_check = (\<lambda>_. Reply_Down []), gw_settle = (\<lambda>n b. if n = 1 then Http_Error 503 None [] else Http_Ok ''applied''),
     gw_cancel = (\<lambda>_. False), gw_reconcile = False, gw_write_ok = True, gw_litellm = (\<lambda>_ _. None)\<rparr>"

definition toy_state :: guard_state where
  "toy_state = \<lparr>gs_caps = Map.empty, gs_policy = (Map.empty, Map.empty), gs_warned = Map.empty, gs_owner = [], gs_scopes = [],
     gs_queue = empty_queue, gs_trace = []\<rparr>"

definition toy_call :: reserve_call where
  "toy_call = \<lparr>rc_org = ''acme'', rc_workspace = ''default'', rc_run = ''run'', rc_model = ''m'', rc_input_tokens = 10,
     rc_estimate = Some (1 / 50), rc_increment_step = True, rc_feature = None, rc_call_id = None, rc_attempt = 1,
     rc_idem = None, rc_given = no_attribution\<rparr>"

definition toy_price :: "pyval \<Rightarrow> (int option \<times> rat option) res" where
  "toy_price _ = Inr (Some 12, Some (1 / 100))"

text \<open>Its run: the reservation is sent twice, the first settlement after the call is not acknowledged.\<close>

definition toy_reserve :: payload where
  "toy_reserve = [(''lifecycle_version'', PStr ''reservation.lifecycle.v1''), (''call_id'', PStr ''call_n2''), (''attempt'', PInt 1),
     (''idempotency_key'', PStr ''reserve:call_n2:1:n3''), (''org_id'', PStr ''acme''), (''workspace_id'', PStr ''default''),
     (''estimated_usd_micros'', PInt 20000), (''run_id'', PStr ''run''), (''attribution_state'', PStr ''unattributed''),
     (''attempt_id'', PStr ''call_n2:attempt:1'')]"

definition toy_settled :: "string \<Rightarrow> string \<Rightarrow> payload" where
  "toy_settled key ev = [(''lifecycle_version'', PStr ''reservation.lifecycle.v1''), (''reservation_id'', PStr ''r1''),
     (''call_id'', PStr ''call_n2''), (''attempt'', PInt 1), (''idempotency_key'', PStr key), (''event'', PStr ev),
     (''org_id'', PStr ''acme''), (''settlement_capability'', PStr ''cap'')]"

definition toy_started :: payload where
  "toy_started = toy_settled ''settle:r1:started'' ''provider_started''"

definition toy_usage :: payload where
  "toy_usage = toy_settled ''settle:r1:usage'' ''usage_known'' @ [(''actual_usd_micros'', PInt 10000)]"

definition toy_before :: "guard_effect list" where
  "toy_before = [Caps_Requested, Reserve_Sent toy_reserve, Reserve_Sent toy_reserve, Reserve_Event True None, Settle_Sent toy_started]"

definition toy_after :: "guard_effect list" where
  "toy_after = [Settle_Sent toy_usage, Settle_Sent toy_usage, Model_Event (Some 12) (Some (1 / 100))]"

definition toy_result :: "call_result \<times> guard_state" where
  "toy_result = guarded_call sync_ops toy_world toy_price toy_call (Answers PNone) toy_state"

lemma toy_trace: "gs_trace (snd toy_result) = gs_trace toy_state @ toy_before @ Provider_Called # toy_after"
  by code_simp

lemma toy_posture:
  "finops_reservation_fail_closed (gw_env toy_world)" "lifecycle_budget_enabled (gw_env toy_world) = Inr True"
  "finops_url (dget (gw_env toy_world)) \<noteq> []" "\<not> should_skip_sdk_reserve (gw_env toy_world) (gs_owner toy_state)"
  by code_simp+

lemma toy_closed:
  "\<not> allows_fail_open (pe_sha (gw_post toy_world)) (finops_url (dget (gw_env toy_world))) (rc_org toy_call)
     (api_key (gw_env toy_world)) (gs_policy (snd toy_result))"
  by code_simp



end
