(* ===== verification/Guard_Durable.thy ===== *)
theory Guard_Durable
  imports Guard_Claims
begin

text \<open>
  What outlives a settlement request: the journaled outcome of a guarded call stays until FinOps acknowledges
  it, and the sync and async requests, and the sync and async reservations, do the same wherever they are
  meant to. Amounts: the micro-dollars of a cost.
\<close>

section \<open>One request keeps what it has journaled\<close>

lemma release_exists: "release now name fp q = (x, q') \<Longrightarrow> record_exists q nm \<Longrightarrow> record_exists q' nm"
  by (auto simp: release_def record_exists_map write_record_def update_conv' split: option.splits if_splits)

lemma ack_exists: "ack sha name fp rel q = (x, q') \<Longrightarrow> queue_ok sha q \<Longrightarrow> nm \<noteq> name \<Longrightarrow> record_exists q nm \<Longrightarrow> record_exists q' nm"
  using ack_spec [of sha name fp rel q x q'] by (auto simp: ok_exists)

lemma journal_keeps:
  assumes "journal_settle_intent pe b base org error q = (r, q')" "queue_ok (pe_sha pe) q" "\<forall>x. pe_sha pe x \<noteq> []"
  shows "queue_ok (pe_sha pe) q' \<and> (\<forall>nm. record_exists q nm \<longrightarrow> record_exists q' nm) \<and>
    (case r of Inl _ \<Rightarrow> True | Inr pf \<Rightarrow> record_exists q' (fst pf) \<and> snd pf \<noteq> [])"
proof (cases "intent_fingerprint (pe_sha pe) (pe_dump pe) b org base")
  case (Inr fp)
  obtain y q2 where e: "enqueue (pe_sha pe) (pe_dump pe) (pe_now pe) (pe_grace pe) (pe_record_id pe) b error base [] org False q = (y, q2)"
    by fastforce
  then have r: "q' = q2" "r = (case y of Inl x \<Rightarrow> Inl x | Inr path \<Rightarrow> Inr (path, fp))"
    using assms(1) Inr by (auto simp: journal_settle_intent_def split: sum.splits)
  have fp: "fp \<noteq> []" using Inr assms(3) by (auto simp: intent_fingerprint_def bnd_eq_Inr Let_def raise_if_def split: if_splits)
  note s = enqueue_spec [OF e assms(2,3)]
  show ?thesis
  proof (cases y)
    case (Inl x)
    with s r show ?thesis by (simp add: record_exists_def)
  next
    case (Inr path)
    have "record_exists q2 nm" if "record_exists q nm" for nm
      using that s Inr ok_exists [OF assms(2), of nm] ok_exists [of "pe_sha pe" q2 nm]
      by (cases "nm = path") (auto simp: record_exists_def)
    then show ?thesis using s r Inr fp by (simp add: record_exists_def)
  qed
qed (use assms in \<open>auto simp: journal_settle_intent_def\<close>)

text \<open>A record is still there, or the request journaled under its name was acknowledged.\<close>

definition kept :: "guard_world \<Rightarrow> payload \<Rightarrow> string \<Rightarrow> guard_state \<Rightarrow> guard_state \<Rightarrow> bool" where
  "kept w b path s s' \<longleftrightarrow> record_exists (gs_queue s') path \<or>
     (\<exists>n. settles s \<le> n \<and> n < settles s' \<and> settle_acked w n b)"

lemma kept_trans: "kept w b path s s1 \<Longrightarrow> settles s1 \<le> settles s' \<Longrightarrow> settles s \<le> settles s1 \<Longrightarrow>
    (record_exists (gs_queue s1) path \<Longrightarrow> kept w b path s1 s') \<Longrightarrow> kept w b path s s'"
  unfolding kept_def by (meson le_trans less_le_trans)

lemma settles_log [simp]: "settles (log_effect x s) = (if is_settle x then Suc (settles s) else settles s)"
  by (simp add: settles_def)

lemma settles_queue [simp]: "settles (s\<lparr>gs_queue := q\<rparr>) = settles s"
  by (simp add: settles_def)

lemma settle_request_keeps:
  assumes "settle_request w base org b s = (x, s')" "queue_ok (pe_sha (gw_post w)) (gs_queue s)" "\<forall>x. pe_sha (gw_post w) x \<noteq> []"
    and "record_exists (gs_queue s) path \<or> payload_ints b = Inr () \<and>
      (\<exists>fp q. journal_settle_intent (gw_post w) b base org ''pre_send'' (gs_queue s) = (Inr (path, fp), q))"
  shows "queue_ok (pe_sha (gw_post w)) (gs_queue s') \<and> settles s \<le> settles s' \<and> kept w b path s s'"
proof -
  let ?pe = "gw_post w" let ?http = "gw_settle w (settles s)"
  obtain r q where p: "post_settle ?pe ?http base org b True True False (gs_queue s) = (r, q)" by fastforce
  obtain jr q1 where j: "journal_settle_intent ?pe b base org ''pre_send'' (gs_queue s) = (jr, q1)" by fastforce
  note k = journal_keeps [OF j assms(2,3)]
  show ?thesis
  proof (cases "payload_ints b")
    case (Inl e)
    then show ?thesis using p assms by (auto simp: post_settle_journaled settle_request_def kept_def)
  next
    case (Inr u)
    show ?thesis
    proof (cases jr)
      case (Inl e)
      then show ?thesis using p j k Inr \<open>payload_ints b = Inr u\<close> assms by (auto simp: post_settle_journaled settle_request_def kept_def)
    next
      case jr: (Inr pf)
      obtain name fp where pf: "pf = (name, fp)" by (cases pf)
      have jt: "journal_then ?pe ?http b name fp q1 = (r, q)" using p Inr j jr pf by (simp add: post_settle_journaled)
      have k1: "queue_ok (pe_sha ?pe) q1" "record_exists q1 path" "fp \<noteq> []" using k jr pf j assms(4) by auto
      obtain ra qa where a: "ack (pe_sha ?pe) name (Some fp) True q1 = (ra, qa)" by fastforce
      obtain rr qr where rel: "release (pe_now ?pe) name (Some fp) q1 = (rr, qr)" by fastforce
      have qr: "queue_ok (pe_sha ?pe) qr \<and> record_exists qr path"
        using release_spec [OF rel k1(1)] release_exists [OF rel k1(2)] by blast
      have qa: "queue_ok (pe_sha ?pe) qa" using ack_spec [OF a k1(1)] by blast
      have "(r = Posted False \<and> q = qr) \<or> (r = Posted True \<and> q = qa \<and> settle_acked w (settles s) b)"
        using jt k1(3) a rel by (auto simp: journal_then_def settle_acked_def Let_def split: http_result.splits if_splits)
      then show ?thesis using p qr qa assms(1) by (auto simp: settle_request_def kept_def is_settle_def)
    qed
  qed
qed

lemma settle_request_async_keeps:
  assumes "settle_request_async w base org b s = (x, s')" "queue_ok (pe_sha (gw_post w)) (gs_queue s)" "\<forall>x. pe_sha (gw_post w) x \<noteq> []"
    and "record_exists (gs_queue s) path \<or>
      (\<exists>fp q. journal_settle_intent (gw_post w) b base org ''pre_send'' (gs_queue s) = (Inr (path, fp), q))"
  shows "queue_ok (pe_sha (gw_post w)) (gs_queue s') \<and> settles s \<le> settles s' \<and> kept w b path s s'"
proof -
  let ?pe = "gw_post w"
  obtain jr q1 where j: "journal_settle_intent ?pe b base org ''pre_send'' (gs_queue s) = (jr, q1)" by fastforce
  note k = journal_keeps [OF j assms(2,3)]
  show ?thesis
  proof (cases jr)
    case (Inl e)
    obtain r2 q2 where j2: "journal_settle_intent ?pe b base org ''transport_or_cancel'' q1 = (r2, q2)" by fastforce
    have "queue_ok (pe_sha ?pe) q1" using k by blast
    from journal_keeps [OF j2 this assms(3)] k Inl assms j j2 show ?thesis
      by (auto simp: settle_request_async_def enqueue_settle_intent_def kept_def)
  next
    case jr: (Inr pf)
    have k1: "queue_ok (pe_sha ?pe) q1" "record_exists q1 path" using k jr j assms(4) by auto
    obtain ra qa where a: "ack (pe_sha ?pe) (fst pf) (Some (snd pf)) True q1 = (ra, qa)" by fastforce
    obtain rr qr where rel: "release (pe_now ?pe) (fst pf) (Some (snd pf)) q1 = (rr, qr)" by fastforce
    have qr: "queue_ok (pe_sha ?pe) qr \<and> record_exists qr path"
      using release_spec [OF rel k1(1)] release_exists [OF rel k1(2)] by blast
    have qa: "queue_ok (pe_sha ?pe) qa" using ack_spec [OF a k1(1)] by blast
    from rel have "release_intent w pf q1 = qr" by (simp add: release_intent_def gw_now_def)
    then have "(gs_queue s' = qr \<or> gs_queue s' = qa \<and> settle_acked w (settles s) b) \<and> settles s' = Suc (settles s)"
      using assms(1) j jr a
      by (auto simp: settle_request_async_def Let_def settle_acked_def ack_of_document is_settle_def
          split: if_splits http_result.splits)
    with qr qa show ?thesis by (auto simp: kept_def)
  qed
qed

section \<open>The outcome of a call survives\<close>

lemma payload_ints_settle:
  assumes "build_settle_payload rid cid att org ev m v idem cap evd = Inr b" shows "payload_ints b = Inr ()"
proof -
  have "\<exists>i. kw b ''attempt'' = PInt i"
    using assms unfolding build_settle_payload_def by (auto simp: bnd_eq_Inr Let_def kw_dset kw_def split: option.splits if_splits)
  moreover have "kw b ''actual_usd_micros'' = PNone \<or> (\<exists>i. kw b ''actual_usd_micros'' = PInt i)"
    using settle_payload_fields [OF assms] by (auto split: option.splits)
  ultimately show ?thesis by (auto simp: payload_ints_def or_val_def bnd_def)
qed

text \<open>An outcome of a handle: where it is settled and with which body.\<close>

definition outcome_of :: "guard_world \<Rightarrow> reserve_call \<Rightarrow> reservation_handle \<Rightarrow> rat option \<Rightarrow> payload \<Rightarrow> bool" where
  "outcome_of w c h cost b \<longleftrightarrow> guard_sdk_settles (Handle h) \<and> settlement_base_url (gw_env w) h \<noteq> [] \<and>
     (\<exists>m. event_micros (if cost = None then ''outcome_unknown'' else ''usage_known'') cost = Inr m \<and>
        settle_body w (rc_org c) (rc_run c) h (if cost = None then ''outcome_unknown'' else ''usage_known'') m = Inr b)"

lemma outcome_prepared:
  assumes "outcome_of w c h cost b"
  shows "prepare_event w (rc_org c) (rc_run c) (Handle h) (if cost = None then ''outcome_unknown'' else ''usage_known'') cost False
    = Inr (Inr (settlement_base_url (gw_env w) h, settlement_org_id h (rc_org c), b))"
  using assms by (cases cost) (auto simp: outcome_of_def prepare_event_def guard_sdk_settles_def lifecycle_events_def Let_def)

lemma outcome_ints: "outcome_of w c h cost b \<Longrightarrow> payload_ints b = Inr ()"
  by (auto simp: outcome_of_def settle_body_def dest: payload_ints_settle)

text \<open>The record of the outcome is there, or this request would put it there.\<close>

definition journaled :: "guard_world \<Rightarrow> reserve_call \<Rightarrow> reservation_handle \<Rightarrow> payload \<Rightarrow> string \<Rightarrow> guard_state \<Rightarrow> bool" where
  "journaled w c h b path s \<longleftrightarrow> record_exists (gs_queue s) path \<or>
     (\<exists>fp q. journal_settle_intent (gw_post w) b (settlement_base_url (gw_env w) h) (settlement_org_id h (rc_org c)) ''pre_send''
        (gs_queue s) = (Inr (path, fp), q))"

lemma more_settles: "more n P s s' \<Longrightarrow> settles s \<le> settles s'"
  by (auto simp: more_def settles_def)

text \<open>What the operations of one family promise for the outcome of a handle: each keeps its record until it
  is acknowledged.\<close>

locale keeping_ops = lifecycle_ops +
  assumes signal_keeps: "\<And>w c h cost b path s x s'. outcome_of w c h cost b \<Longrightarrow> \<forall>x. pe_sha (gw_post w) x \<noteq> [] \<Longrightarrow>
      go_signal ops w (rc_org c) (rc_run c) (Handle h) (if cost = None then ''outcome_unknown'' else ''usage_known'') cost False s
        = (x, s') \<Longrightarrow>
      queue_ok (pe_sha (gw_post w)) (gs_queue s) \<Longrightarrow> journaled w c h b path s \<Longrightarrow> kept w b path s s'"
    and reconcile_keeps: "\<And>w c h q b path s x s'. outcome_of w c h (Some q) b \<Longrightarrow> \<forall>x. pe_sha (gw_post w) x \<noteq> [] \<Longrightarrow>
      go_reconcile ops w c (Handle h) q s = (x, s') \<Longrightarrow>
      queue_ok (pe_sha (gw_post w)) (gs_queue s) \<Longrightarrow> journaled w c h b path s \<Longrightarrow>
      queue_ok (pe_sha (gw_post w)) (gs_queue s') \<and> kept w b path s s'"
begin

lemma guard_signal_keeps:
  "outcome_of w c h cost b \<Longrightarrow> \<forall>x. pe_sha (gw_post w) x \<noteq> [] \<Longrightarrow>
     guard_signal ops w c (Handle h) (if cost = None then ''outcome_unknown'' else ''usage_known'') cost s = (x, s') \<Longrightarrow>
     queue_ok (pe_sha (gw_post w)) (gs_queue s) \<Longrightarrow> journaled w c h b path s \<Longrightarrow> kept w b path s s'"
  by (cases "go_signal ops w (rc_org c) (rc_run c) (Handle h)
        (if cost = None then ''outcome_unknown'' else ''usage_known'') cost False s")
     (auto simp: guard_signal_def split: sum.splits guard_exn.splits dest: signal_keeps)

lemma guard_settle_keeps:
  assumes o: "outcome_of w c h cost b" and sha: "\<forall>x. pe_sha (gw_post w) x \<noteq> []"
    and "guard_settle ops w c (Handle h) cost s = (x, s')"
    and q: "queue_ok (pe_sha (gw_post w)) (gs_queue s)" "journaled w c h b path s"
  shows "kept w b path s s'"
proof (cases cost)
  case None
  then have "guard_signal ops w c (Handle h) ''outcome_unknown'' None s = (x, s')"
    using assms(3) o by (simp add: guard_settle_def outcome_of_def)
  with guard_signal_keeps [OF o sha, of s x s'] None q show ?thesis by simp
next
  case (Some a)
  obtain y s1 where rec: "go_reconcile ops w c (Handle h) a s = (y, s1)" by fastforce
  have k: "queue_ok (pe_sha (gw_post w)) (gs_queue s1)" "kept w b path s s1"
    using reconcile_keeps [OF o [unfolded Some] sha rec q] by blast+
  have m: "settles s \<le> settles s1" using more_settles [OF reconcile_adds [OF rec]] .
  have "s' = s1 \<or> (\<exists>x. guard_signal ops w c (Handle h) ''usage_known'' (Some a) s1 = (x, s'))"
    using assms(3) o Some rec by (auto simp: guard_settle_def outcome_of_def split: sum.splits guard_exn.splits bool.splits)
  then show ?thesis
  proof (elim disjE exE)
    fix z assume g: "guard_signal ops w c (Handle h) ''usage_known'' (Some a) s1 = (z, s')"
    show ?thesis
    proof (rule kept_trans [OF k(2) more_settles [OF guard_signal_adds [OF g]] m])
      assume "record_exists (gs_queue s1) path"
      then show "kept w b path s1 s'" using guard_signal_keeps [OF o sha, of s1 z s' path] g Some k(1) by (simp add: journaled_def)
    qed
  qed (use k in simp)
qed

end

lemma outcome_reconciled:
  "outcome_of w c h (Some q) b \<Longrightarrow> reconcile_way w c (Handle h) = Inr (Settle_Handle (settlement_base_url (gw_env w) h) h)"
  by (auto simp: outcome_of_def reconcile_way_def guard_sdk_settles_def bnd_def Let_def)

interpretation sync_keeping: keeping_ops sync_ops
proof (unfold_locales, goal_cases)
  case (1 w c h cost b path s x s')
  obtain y s1 where r: "settle_request w (settlement_base_url (gw_env w) h) (settlement_org_id h (rc_org c)) b s = (y, s1)" by fastforce
  have "s' = s1" using 1(3) r
    by (simp add: sync_ops_def signal_reservation_event_def outcome_prepared [OF 1(1)] split: sum.splits)
  then show ?case using settle_request_keeps [OF r 1(4,2)] 1(5) outcome_ints [OF 1(1)] by (auto simp: journaled_def)
next
  case (2 w c h q b path s x s')
  obtain y s1 where r: "settle_request w (settlement_base_url (gw_env w) h) (settlement_org_id h (rc_org c)) b s = (y, s1)" by fastforce
  have "s' = s1" using 2(1,3) r outcome_reconciled [OF 2(1)]
    by (auto simp: sync_ops_def reconcile_budget_def outcome_of_def event_micros_def guard_sdk_settles_def bnd_eq_Inr split: sum.splits)
  then show ?case using settle_request_keeps [OF r 2(4,2)] 2(5) outcome_ints [OF 2(1)] by (auto simp: journaled_def)
qed

interpretation async_keeping: keeping_ops async_ops
proof (unfold_locales, goal_cases)
  case (1 w c h cost b path s x s')
  obtain y s1 where r: "settle_request_async w (settlement_base_url (gw_env w) h) (settlement_org_id h (rc_org c)) b s = (y, s1)" by fastforce
  have "s' = s1" using 1(3) r
    by (simp add: async_ops_def signal_reservation_event_async_def outcome_prepared [OF 1(1)] split: async_settle.splits)
  then show ?case using settle_request_async_keeps [OF r 1(4,2)] 1(5) by (auto simp: journaled_def)
next
  case (2 w c h q b path s x s')
  obtain y s1 where r: "settle_request_async w (settlement_base_url (gw_env w) h) (settlement_org_id h (rc_org c)) b s = (y, s1)" by fastforce
  have "s' = s1" using 2(1,3) r outcome_reconciled [OF 2(1)]
    by (auto simp: async_ops_def reconcile_budget_async_def outcome_of_def event_micros_def guard_sdk_settles_def bnd_eq_Inr
        split: async_settle.splits)
  then show ?case using settle_request_async_keeps [OF r 2(4,2)] 2(5) by (auto simp: journaled_def)
qed


section \<open>The twins\<close>


lemma denial_reason_blank: "denial_reason (PDict [(''reason'', PStr [])]) [''reason'', ''error_code''] = denial_reason (PDict []) [''reason'', ''error_code'']"
  by (simp add: denial_reason_def field_def kw_def)

lemma reserve_answers_agree:
  assumes "case reply of Reply_Ok (Some p) \<Rightarrow> is_mapping p
      | Reply_Http st raw \<Rightarrow> \<not> is_tier_breaker (Some st) (parse_finops_http_error (pe_loads (gw_post w)) raw) | _ \<Rightarrow> True"
    and "pe_loads (gw_post w) [] = None"
  shows "reserve_answer_async w c a reply s = reserve_answer w c a reply s"
proof (cases reply)
  case (Reply_Http st raw)
  show ?thesis
  proof (cases "st = 402")
    case True
    have "denial_reason (case pe_loads (gw_post w) raw of
                  Some (PDict d) \<Rightarrow> (case kw d ''detail'' of PDict x \<Rightarrow> PDict x | _ \<Rightarrow> PDict d)
                | _ \<Rightarrow> PDict [(''reason'', PStr raw)]) [''reason'', ''error_code'']
        = denial_reason (parse_finops_http_error (pe_loads (gw_post w)) raw) [''reason'', ''error_code'']"
      using assms(2) denial_reason_blank by (cases "raw = []") (simp_all add: parse_finops_http_error_def)
    then show ?thesis by (simp add: Reply_Http True reserve_answer_def reserve_answer_async_def Let_def)
  next
    case False
    with assms(1) show ?thesis by (simp add: Reply_Http reserve_answer_def reserve_answer_async_def Let_def)
  qed
next
  case (Reply_Ok p)
  with assms(1) show ?thesis by (cases p) (simp_all add: reserve_answer_def reserve_answer_async_def)
qed (simp_all add: reserve_answer_def reserve_answer_async_def)


section \<open>A denial\<close>

lemma lifecycle_denied:
  assumes "\<And>a s. fst (answer w c a (Reply_Http 402 raw) s) \<noteq> Inr h" and "\<And>body. gw_reserve w 0 body = Reply_Http 402 raw"
  shows "lifecycle_with answer w base c s \<noteq> (Inr h, s')"
proof -
  have "reserve_urlopen w body s = (Reply_Http 402 raw, log_effect (Reserve_Sent body) s)" for body s
    by (simp add: reserve_urlopen_def assms(2) reserve_retryable_def reserve_retry_statuses_def)
  then show ?thesis using assms(1) unfolding lifecycle_with_def by (auto split: sum.splits prod.splits) (metis fst_conv)+
qed

lemma reserve_with_denied:
  assumes "\<And>s h s'. lifecycle w (finops_url (dget (gw_env w))) c s \<noteq> (Inr h, s')"
    and e: "lifecycle_budget_enabled (gw_env w) = Inr True" "finops_url (dget (gw_env w)) \<noteq> []"
      "\<not> should_skip_sdk_reserve (gw_env w) (gs_owner s)"
  shows "reserve_with lifecycle w c s \<noteq> (Inr r, s')"
  using assms by (auto simp: reserve_with_def Let_def split: sum.splits prod.splits)

lemma denied_answers:
  "fst (reserve_answer w c a (Reply_Http 402 raw) s) \<noteq> Inr h" "fst (reserve_answer_async w c a (Reply_Http 402 raw) s) \<noteq> Inr h"
  by (simp_all add: reserve_answer_def reserve_answer_async_def Let_def)

text \<open>C16: a denial is final. When FinOps answers the reservation of a lifecycle call with 402, the guarded
  call raises, sync and async and under every failure policy: the provider is not called, nothing is
  settled, and no fail-open setting of the organization or the deployment lets the call through.\<close>

theorem denial_is_final:
  assumes "ops = sync_ops \<or> ops = async_ops" and "lifecycle_budget_enabled (gw_env w) = Inr True"
    and "finops_url (dget (gw_env w)) \<noteq> []" and "\<not> should_skip_sdk_reserve (gw_env w) (gs_owner s)"
    and "\<And>body. gw_reserve w 0 body = Reply_Http 402 raw"
    and "guarded_call ops w price_of c prov s = (res, s')"
  shows "\<exists>e new. res = Guard_Refused e \<and> gs_trace s' = gs_trace s @ new \<and> Provider_Called \<notin> set new \<and> filter is_settle new = []"
proof -
  obtain y s1 where r: "go_reserve ops w (guard_request c) s = (y, s1)" by fastforce
  have "go_reserve ops w (guard_request c) s \<noteq> (Inr rsv, s')" for rsv s'
    using assms(1)
  proof
    assume o: "ops = sync_ops"
    have "reserve_lifecycle w base (guard_request c) s \<noteq> (Inr h, s')" for base s h s'
      unfolding reserve_lifecycle_def by (rule lifecycle_denied) (simp_all add: denied_answers assms(5))
    from reserve_with_denied [of reserve_lifecycle, OF this assms(2-4)] show ?thesis by (simp add: o sync_ops_def reserve_budget_def)
  next
    assume o: "ops = async_ops"
    have "reserve_lifecycle_async w base (guard_request c) s \<noteq> (Inr h, s')" for base s h s'
      unfolding reserve_lifecycle_async_def by (rule lifecycle_denied) (simp_all add: denied_answers assms(5))
    from reserve_with_denied [of reserve_lifecycle_async, OF this assms(2-4)] show ?thesis
      by (simp add: o async_ops_def reserve_budget_async_def)
  qed
  then obtain e where e: "y = Inl e" using r by (cases y) auto
  have m: "more 0 (\<lambda>_. False) s s1" using sync.reserve_adds async.reserve_adds r assms(1) by blast
  have "res = Guard_Refused e" "s' = s1 \<or> (\<exists>t. s' = log_effect (Reserve_Event False t) s1)"
    using assms(6) r e by (auto simp: guarded_call_def guard_reserve_def split: option.splits)
  with m show ?thesis by (auto simp: more_def is_settle_def)
qed

section \<open>Amounts\<close>

text \<open>The micro-dollars of a cost are its micro-dollars rounded up, after a rounding to nano-dollars:
  never negative, never more than half a nano-dollar below the cost, and less than a micro-dollar and half
  a nano-dollar above it.\<close>
theorem usd_to_micros_ceil_bounds:
  assumes "usd_to_micros_ceil q = Inr m"
  shows "0 \<le> m \<and> q * 10 ^ 6 - 1 / 2000 \<le> of_int m \<and> (0 \<le> q \<longrightarrow> of_int m < q * 10 ^ 6 + 1 + 1 / 2000)"
proof -
  define k where "k = round_half_even (q * 10 ^ 9)"
  have d: "ndigits \<bar>k\<bar> \<le> 28" and m: "m = max 0 \<lceil>d_mul (of_int k / 10 ^ 9) 1000000\<rceil>"
    using assms unfolding usd_to_micros_ceil_def quantize_nanos_def Let_def k_def [symmetric]
    by (simp_all add: bnd_def split: if_splits)
  have "\<bar>k\<bar> < 10 ^ ndigits \<bar>k\<bar>" by (rule ndigits_upper)
  also have "\<dots> \<le> 10 ^ 28" using d by (rule power_increasing) simp
  finally have "dec_repr (of_int k * 10 powi - 3)" by (intro dec_reprI [where k = k and m = "- 3"]) simp_all
  then have "dec_round (of_int k * 10 powi - 3) = of_int k * 10 powi - 3" by (rule dec_round_exact)
  then have x: "d_mul (of_int k / 10 ^ 9) 1000000 = of_int k / 1000" by (simp add: d_mul_def power_int_minus field_simps)
  have k: "of_int k \<le> q * 10 ^ 9 + 1 / 2" "q * 10 ^ 9 - 1 / 2 \<le> of_int k"
    using round_half_even_bounds [of "q * 10 ^ 9"] by (simp_all add: k_def)
  have c: "of_int k / 1000 \<le> (of_int \<lceil>of_int k / 1000 :: rat\<rceil> :: rat)" "of_int \<lceil>of_int k / 1000 :: rat\<rceil> < of_int k / 1000 + (1::rat)"
    by linarith+
  have m: "m = max 0 \<lceil>of_int k / 1000 :: rat\<rceil>" using m unfolding x .
  have "0 \<le> \<lceil>of_int k / 1000 :: rat\<rceil>" if "0 \<le> q" using that round_half_even_nonneg [of "q * 10 ^ 9"] by (simp add: k_def)
  then have up: "(of_int m :: rat) = of_int \<lceil>of_int k / 1000 :: rat\<rceil>" if "0 \<le> q" using that m by simp
  have lo: "(of_int \<lceil>of_int k / 1000 :: rat\<rceil> :: rat) \<le> of_int m" and "0 \<le> m" using m by simp_all
  have p: "(10::rat) ^ 9 = 1000000000" "(10::rat) ^ 6 = 1000000" by simp_all
  have "q * 10 ^ 6 - 1 / 2000 \<le> of_int m" using k(2) c(1) lo unfolding p by linarith
  moreover have "of_int m < q * 10 ^ 6 + 1 + 1 / 2000" if "0 \<le> q" using k(1) c(2) up [OF that] unfolding p by linarith
  ultimately show ?thesis using \<open>0 \<le> m\<close> by blast
qed

section \<open>Applied\<close>

text \<open>A handle the SDK settles, in a world where FinOps acknowledges nothing.\<close>

definition toy_handle :: reservation_handle where
  "toy_handle = bare_handle\<lparr>rh_id := ''r1'', rh_call := ''call_n2'', rh_lifecycle := True, rh_capability := Some ''cap'',
     rh_base := ''https://finops''\<rparr>"

definition mute_world :: guard_world where
  "mute_world = toy_world\<lparr>gw_settle := \<lambda>_ _. Http_Error 503 None []\<rparr>"

definition toy_journaled :: "(string \<times> string) res" where
  "toy_journaled = fst (journal_settle_intent (gw_post mute_world) toy_usage (settlement_base_url (gw_env mute_world) toy_handle)
     (settlement_org_id toy_handle (rc_org toy_call)) ''pre_send'' (gs_queue toy_state))"

lemma toy_sha_nonempty: "\<forall>x. pe_sha (gw_post mute_world) x \<noteq> []" "\<forall>x. pe_sha (gw_post toy_world) x \<noteq> []"
  by (simp_all add: mute_world_def toy_world_def toy_env_def toy_sha_def)

lemma toy_outcome: "outcome_of mute_world toy_call toy_handle (Some (1 / 100)) toy_usage"
proof -
  have "guard_sdk_settles (Handle toy_handle) \<and> settlement_base_url (gw_env mute_world) toy_handle \<noteq> []"
    "event_micros ''usage_known'' (Some (1 / 100)) = Inr (Some 10000)"
    "settle_body mute_world (rc_org toy_call) (rc_run toy_call) toy_handle ''usage_known'' (Some 10000) = Inr toy_usage"
    by code_simp+
  then show ?thesis by (auto simp: outcome_of_def)
qed




definition denying_world :: guard_world where
  "denying_world = toy_world\<lparr>gw_reserve := \<lambda>_ _. Reply_Http 402 []\<rparr>"

theorem denial_is_final_witness:
  "\<exists>e. fst (guarded_call sync_ops denying_world toy_price toy_call (Answers PNone) toy_state) = Guard_Refused e"
proof -
  let ?r = "guarded_call sync_ops denying_world toy_price toy_call (Answers PNone) toy_state"
  have p: "lifecycle_budget_enabled (gw_env denying_world) = Inr True" "finops_url (dget (gw_env denying_world)) \<noteq> []"
    "\<not> should_skip_sdk_reserve (gw_env denying_world) (gs_owner toy_state)"
    by code_simp+
  have d: "gw_reserve denying_world 0 body = Reply_Http 402 []" for body by (simp add: denying_world_def)
  have g: "guarded_call sync_ops denying_world toy_price toy_call (Answers PNone) toy_state = (fst ?r, snd ?r)" by simp
  from denial_is_final [OF _ p d g] show ?thesis by blast
qed

theorem usd_to_micros_ceil_bounds_witness:
  "usd_to_micros_ceil (1 / 3) = Inr 333334 \<and> (1 / 3) * 10 ^ 6 - 1 / 2000 \<le> (of_int 333334 :: rat)"
proof -
  have "usd_to_micros_ceil (1 / 3) = Inr 333334" by code_simp
  with usd_to_micros_ceil_bounds [OF this] show ?thesis by blast
qed

section \<open>Where the twins and the clients part\<close>

text \<open>An admission that is no JSON object: the sync reservation fails closed, the async one takes it for an
  empty admission and lets the call through with a handle that settles nothing.\<close>

definition odd_world :: guard_world where
  "odd_world = toy_world\<lparr>gw_reserve := \<lambda>_ _. Reply_Ok (Some PNone)\<rparr>"

theorem non_object_admission:
  "fst (guarded_call sync_ops odd_world toy_price toy_call (Answers PNone) toy_state)
     = Guard_Refused (Budget_Unavailable no_answer)"
  "fst (guarded_call async_ops odd_world toy_price toy_call (Answers PNone) toy_state) = Gave PNone"
  by code_simp+

text \<open>An answer of status 200 that says \<open>allowed: false\<close> is an admission for the guarded call (the LiteLLM
  control client takes it for a denial): the provider is called.\<close>

definition refusing_world :: guard_world where
  "refusing_world = toy_world\<lparr>gw_reserve := \<lambda>_ _. Reply_Ok (Some (PDict [(''allowed'', PBool False)]))\<rparr>"

theorem allowed_false_is_admitted:
  "fst (guarded_call sync_ops refusing_world toy_price toy_call (Answers PNone) toy_state) = Gave PNone"
  by code_simp

end
