(* ===== verification/Principal.thy ===== *)
theory Principal
  imports Pyval
begin

text \<open>
  Who a request acts for (kazenai/auth/_principal_impl.py): the principal of a credential, the privileged
  headers, and the organization and workspace a request is let into. Headers are an association list in the
  order of the mapping; a value may be missing.
\<close>

section \<open>Principals\<close>

definition service_act_as_roles :: "string list" where
  "service_act_as_roles = [''service'', ''internal_admin'', ''growthops_service'', ''gateway_service'', ''brain_service'',
     ''finops_service'', ''lens_service'', ''platform_service'']"

definition privileged_headers :: "string list" where
  "privileged_headers = [''x-kazen-act-as-org'', ''x-kazen-user-scope'']"

definition untrusted_ingress :: "string list" where
  "untrusted_ingress = [''browser_client'', ''untrusted_client'', ''human_jwt'']"

record delegation =
  dl_kind :: string
  dl_org :: "string option"
  dl_actor :: "string option"
  dl_audience :: "string option"
  dl_scope :: "string list"

record principal =
  pr_role :: string
  pr_auth :: string
  pr_identity :: string
  pr_subject :: "string option"
  pr_actor :: "string option"
  pr_user :: "string option"
  pr_org :: "string option"
  pr_workspace :: "string option"
  pr_orgs :: "string list option"
  pr_workspaces :: "string list option"
  pr_delegation :: delegation

definition no_delegation :: delegation where
  "no_delegation = \<lparr>dl_kind = ''none'', dl_org = None, dl_actor = None, dl_audience = None, dl_scope = []\<rparr>"

text \<open>\<open>a or b\<close> on optional texts.\<close>

definition opt_or :: "string option \<Rightarrow> string option \<Rightarrow> string option" where
  "opt_or a b = (if a = None \<or> a = Some [] then b else a)"

definition opt_pyval :: "string option \<Rightarrow> pyval" where
  "opt_pyval a = (case a of None \<Rightarrow> PNone | Some s \<Rightarrow> PStr s)"

definition audit_ids :: "principal \<Rightarrow> pyval" where
  "audit_ids p = PDict
     [(''subject_id'', opt_pyval (opt_or (pr_subject p) (opt_or (pr_user p) (pr_actor p)))),
      (''actor_id'', opt_pyval (opt_or (pr_actor p) (opt_or (pr_user p) (pr_subject p)))),
      (''org_id'', opt_pyval (pr_org p)), (''workspace_id'', opt_pyval (pr_workspace p)),
      (''identity_kind'', PStr (pr_identity p)),
      (''delegation'', PDict [(''kind'', PStr (dl_kind (pr_delegation p))),
         (''asserted_org_id'', opt_pyval (dl_org (pr_delegation p))),
         (''asserted_actor_id'', opt_pyval (dl_actor (pr_delegation p)))])]"

section \<open>Headers\<close>

type_synonym headers = "(string \<times> string option) list"

definition norm_header_map :: "headers \<Rightarrow> (string \<times> string) list" where
  "norm_header_map hs = fold (\<lambda>(k, v) d. case v of None \<Rightarrow> d | Some t \<Rightarrow> dset (py_lower k) (py_strip t) d) hs []"

text \<open>\<open>normalized.get(name) or ""\<close>.\<close>

definition header :: "headers \<Rightarrow> string \<Rightarrow> string" where
  "header hs name = (case dget (norm_header_map hs) name of None \<Rightarrow> [] | Some t \<Rightarrow> t)"

definition strip_privileged_headers :: "headers \<Rightarrow> string \<Rightarrow> (string \<times> string) list" where
  "strip_privileged_headers hs ingress =
     (let out = map (\<lambda>(k, v). (k, case v of None \<Rightarrow> ''None'' | Some t \<Rightarrow> t)) hs
      in if ingress \<in> set untrusted_ingress then filter (\<lambda>(k, v). py_lower k \<notin> set privileged_headers) out else out)"

definition reject_client_privileged_headers :: "headers \<Rightarrow> string \<Rightarrow> unit res" where
  "reject_client_privileged_headers hs ingress =
     (if ingress \<notin> set untrusted_ingress then Inr ()
      else raise_if (list_ex (\<lambda>h. header hs h \<noteq> []) privileged_headers)
             (PrincipalError ''client must not set privileged identity headers''))"

section \<open>A principal from claims\<close>

definition text_field :: "pyval \<Rightarrow> string \<Rightarrow> string option" where
  "text_field v k = (if truthy (field v k) then Some (py_strip (py_str (field v k))) else None)"

definition id_list :: "(string \<times> pyval) list \<Rightarrow> string \<Rightarrow> string list option res" where
  "id_list d k =
     (if \<not> has_key d k then Inr None
      else bnd (py_iter (kw d k)) (\<lambda>l. Inr (Some (filter (\<lambda>t. py_strip t \<noteq> []) (map py_str l)))))"

definition first_id :: "(string \<times> pyval) list \<Rightarrow> string list \<Rightarrow> string option" where
  "first_id d ks =
     (let t = py_strip (str_or_empty (case find (\<lambda>k. truthy (kw d k)) ks of None \<Rightarrow> PNone | Some k \<Rightarrow> kw d k))
      in if t = [] then None else Some t)"

definition principal_from_mapping :: "(string \<times> pyval) list \<Rightarrow> principal res" where
  "principal_from_mapping d =
     (let raw = (if is_mapping (kw d ''delegation'') then kw d ''delegation'' else PDict []) in
      bnd (py_iter (field raw ''scope'')) (\<lambda>scope.
      bnd (id_list d ''authorized_org_ids'') (\<lambda>orgs.
      bnd (id_list d ''authorized_workspace_ids'') (\<lambda>wss.
        let role = str_or_empty (kw d ''role'') in
        Inr \<lparr>pr_role = role, pr_auth = str_or_empty (kw d ''auth_type''),
             pr_identity = py_str (or_val (kw d ''identity_kind'')
               (PStr (if role \<in> set service_act_as_roles then ''service'' else ''human''))),
             pr_subject = first_id d [''subject_id'', ''user_id'', ''actor_id''],
             pr_actor = first_id d [''actor_id'', ''user_id'', ''subject_id''],
             pr_user = text_field (PDict d) ''user_id'', pr_org = text_field (PDict d) ''org_id'',
             pr_workspace = text_field (PDict d) ''workspace_id'', pr_orgs = orgs, pr_workspaces = wss,
             pr_delegation = \<lparr>dl_kind = py_str (or_val (field raw ''kind'') (PStr ''none'')),
               dl_org = text_field raw ''asserted_org_id'', dl_actor = text_field raw ''asserted_actor_id'',
               dl_audience = text_field raw ''audience'', dl_scope = map py_str scope\<rparr>\<rparr>))))"

section \<open>Membership\<close>

definition membership_revoked :: "(string \<times> pyval) list option \<Rightarrow> bool" where
  "membership_revoked m = (case m of None \<Rightarrow> False | Some d \<Rightarrow> truthy (kw d ''revoked_at''))"

definition membership_allows_org :: "principal \<Rightarrow> string \<Rightarrow> bool" where
  "membership_allows_org p org_id =
     (let org = py_strip org_id in
      org \<noteq> [] \<and> (case pr_orgs p of Some l \<Rightarrow> org \<in> set l | None \<Rightarrow> pr_org p \<noteq> None \<and> pr_org p \<noteq> Some [] \<and> pr_org p = Some org))"

text \<open>\<open>str(ws or "default").strip() or "default"\<close>.\<close>

definition or_default :: "string \<Rightarrow> string" where
  "or_default ws = or_str (py_strip (or_str ws ''default'')) ''default''"

definition membership_allows_workspace :: "principal \<Rightarrow> string \<Rightarrow> bool" where
  "membership_allows_workspace p workspace_id =
     (let ws = or_default workspace_id in
      case pr_workspaces p of
        Some l \<Rightarrow> ws \<in> set l
      | None \<Rightarrow> (case pr_workspace p of Some (c # cs) \<Rightarrow> ws = c # cs | _ \<Rightarrow> True))"

section \<open>The organization a request acts for\<close>

definition text_of :: "string option \<Rightarrow> string" where
  "text_of x = (case x of None \<Rightarrow> [] | Some t \<Rightarrow> t)"

definition delegated :: "principal \<Rightarrow> string \<Rightarrow> principal" where
  "delegated p org = p\<lparr>pr_identity := ''service'', pr_subject := opt_or (pr_subject p) (pr_actor p),
     pr_actor := opt_or (pr_actor p) (pr_subject p), pr_org := Some org,
     pr_delegation := \<lparr>dl_kind = ''act_as_org'', dl_org = Some org, dl_actor = None,
       dl_audience = dl_audience (pr_delegation p), dl_scope = dl_scope (pr_delegation p)\<rparr>\<rparr>"

definition resolve_effective_org :: "principal \<Rightarrow> headers \<Rightarrow> string \<Rightarrow> string \<Rightarrow> (string \<times> principal) res" where
  "resolve_effective_org p hs body_org_id ingress =
     bnd (reject_client_privileged_headers hs ingress) (\<lambda>_.
      let org = py_strip body_org_id;
          header_org = or_str (header hs ''x-kazen-org-id'') (header hs ''x-org-id'');
          act_as = header hs ''x-kazen-act-as-org'';
          service = pr_role p \<in> set service_act_as_roles;
          own = text_of (pr_org p)
      in bnd (raise_if (org = []) (PrincipalError ''org_id required'')) (\<lambda>_.
         bnd (raise_if (header_org \<noteq> [] \<and> header_org \<noteq> org) (PrincipalError ''org_id must match X-Kazen-Org-Id'')) (\<lambda>_.
         bnd (if act_as \<noteq> [] \<and> \<not> service
              then bnd (raise_if (act_as \<noteq> own) (PrincipalError ''X-Kazen-Act-As-Org not authorized for this credential'')) (\<lambda>_.
                   bnd (raise_if (org \<noteq> act_as) (PrincipalError ''org_id must match X-Kazen-Act-As-Org'')) (\<lambda>_. Inr []))
              else Inr act_as) (\<lambda>act.
         if act \<noteq> []
         then bnd (raise_if (org \<noteq> act) (PrincipalError ''org_id must match X-Kazen-Act-As-Org'')) (\<lambda>_. Inr (act, delegated p act))
         else if \<not> membership_allows_org p org
         then if service \<and> org \<noteq> own
              then Inl (PrincipalError ''service credential requires X-Kazen-Act-As-Org for tenant operations'')
              else if pr_orgs p = Some [] then Inl (PrincipalError ''membership revoked or missing'')
              else Inl (PrincipalError ''requested org not in authorized membership'')
         else if org \<noteq> own
         then if service then Inl (PrincipalError ''service credential requires X-Kazen-Act-As-Org for tenant operations'')
              else if pr_role p \<notin> {''admin'', ''owner'', ''internal_admin''} then Inl (PrincipalError ''cross-org request forbidden'')
              else Inl (PrincipalError ''cross-org request requires X-Kazen-Act-As-Org'')
         else Inr (org, p)))))"

definition act_as_delegation_active :: "principal \<Rightarrow> headers \<Rightarrow> bool" where
  "act_as_delegation_active p hs \<longleftrightarrow> header hs ''x-kazen-act-as-org'' \<noteq> [] \<and> pr_role p \<in> set service_act_as_roles"

definition resolve_effective_workspace :: "principal \<Rightarrow> headers \<Rightarrow> string \<Rightarrow> bool \<Rightarrow> string res" where
  "resolve_effective_workspace p hs body_workspace_id act_as_active =
     (if act_as_active then Inr (or_default body_workspace_id)
      else let ws0 = or_str (or_str (py_strip body_workspace_id) (header hs ''x-kazen-workspace-id'')) ''default'';
               ws = or_str (py_strip ws0) ''default''
           in if membership_allows_workspace p ws then Inr ws else Inl (PrincipalError ''requested workspace not authorized''))"

text \<open>A request of a membership: the organization and the workspace it is let into, with the principal the
  audit records (the checks \<open>evaluate_fixture\<close> composes).\<close>

record access =
  ac_org :: string
  ac_workspace :: string
  ac_principal :: principal

definition admit_request ::
  "(string \<times> pyval) list option \<Rightarrow> principal \<Rightarrow> headers \<Rightarrow> string \<Rightarrow> string \<Rightarrow> string \<Rightarrow> access res" where
  "admit_request membership p hs ingress body_org body_ws =
     (if membership_revoked membership then Inl (PrincipalError ''membership revoked or missing'')
      else bnd (resolve_effective_org p hs body_org ingress) (\<lambda>(org, audited).
           bnd (resolve_effective_workspace audited hs body_ws (act_as_delegation_active p hs)) (\<lambda>ws.
             Inr \<lparr>ac_org = org, ac_workspace = ws, ac_principal = audited\<rparr>)))"

section \<open>Isolation of tenants\<close>

lemma effective_org:
  assumes "resolve_effective_org p hs body ingress = Inr (org, p')"
  shows "org = py_strip body \<and> org \<noteq> [] \<and>
    (p' = p \<and> pr_org p = Some org \<and> membership_allows_org p org \<and> \<not> act_as_delegation_active p hs \<or>
     p' = delegated p org \<and> act_as_delegation_active p hs \<and> header hs ''x-kazen-act-as-org'' = org \<and> ingress \<notin> set untrusted_ingress)"
proof -
  let ?act = "header hs ''x-kazen-act-as-org''" and ?own = "text_of (pr_org p)"
  let ?service = "pr_role p \<in> set service_act_as_roles"
  have rej: "reject_client_privileged_headers hs ingress = Inr ()" and org: "py_strip body \<noteq> []"
    using assms by (auto simp: resolve_effective_org_def bnd_eq_Inr Let_def)
  have own: "pr_org p = Some (py_strip body)" if "py_strip body = ?own"
    using that org by (cases "pr_org p") (auto simp: text_of_def)
  show ?thesis
  proof (cases "?act \<noteq> [] \<and> ?service")
    case True
    then have "ingress \<notin> set untrusted_ingress"
      using rej by (auto simp: reject_client_privileged_headers_def privileged_headers_def raise_if_def split: if_splits)
    moreover have "org = py_strip body \<and> p' = delegated p org \<and> ?act = org"
      using assms True by (auto simp: resolve_effective_org_def bnd_eq_Inr Let_def split: if_splits)
    ultimately show ?thesis using True org by (simp add: act_as_delegation_active_def)
  next
    case False
    then have "org = py_strip body \<and> p' = p \<and> py_strip body = ?own \<and> membership_allows_org p (py_strip body)"
      using assms by (auto simp: resolve_effective_org_def bnd_eq_Inr Let_def split: if_splits)
    with own org False show ?thesis by (auto simp: act_as_delegation_active_def)
  qed
qed

lemma effective_workspace:
  assumes "resolve_effective_workspace p hs body False = Inr ws" shows "membership_allows_workspace p ws"
  using assms by (auto simp: resolve_effective_workspace_def Let_def split: if_splits)

text \<open>C19: tenants are isolated. A request is let into one organization only, the one its body names, and
  only if no revoked membership stands behind it; and then either this is the principal's own organization,
  in its authorized list where there is one, and the workspace is one its membership allows; or a service
  credential acts for exactly this organization through the header, which no untrusted ingress can carry,
  and the audit records the delegation.\<close>

theorem tenant_isolation:
  assumes "admit_request m p hs ingress body_org body_ws = Inr a"
  shows "\<not> membership_revoked m \<and> ac_org a = py_strip body_org \<and> ac_org a \<noteq> [] \<and>
    (ac_principal a = p \<and> pr_org p = Some (ac_org a) \<and> (\<forall>l. pr_orgs p = Some l \<longrightarrow> py_strip (ac_org a) \<in> set l) \<and>
       membership_allows_workspace p (ac_workspace a) \<or>
     pr_role p \<in> set service_act_as_roles \<and> header hs ''x-kazen-act-as-org'' = ac_org a \<and> ingress \<notin> set untrusted_ingress \<and>
       pr_org (ac_principal a) = Some (ac_org a) \<and> dl_kind (pr_delegation (ac_principal a)) = ''act_as_org'' \<and>
       dl_org (pr_delegation (ac_principal a)) = Some (ac_org a))"
proof -
  obtain org p' where o: "resolve_effective_org p hs body_org ingress = Inr (org, p')" and m: "\<not> membership_revoked m"
    and w: "resolve_effective_workspace p' hs body_ws (act_as_delegation_active p hs) = Inr (ac_workspace a)"
    and a: "ac_org a = org" "ac_principal a = p'"
    using assms by (auto simp: admit_request_def bnd_eq_Inr split: if_splits)
  note e = effective_org [OF o]
  show ?thesis
  proof (cases "act_as_delegation_active p hs")
    case True
    with e have "p' = delegated p org" "header hs ''x-kazen-act-as-org'' = org" "ingress \<notin> set untrusted_ingress" by blast+
    with True m e a show ?thesis by (simp add: act_as_delegation_active_def delegated_def)
  next
    case False
    with e have p': "p' = p" "pr_org p = Some org" "membership_allows_org p org" by blast+
    have "membership_allows_workspace p (ac_workspace a)" using w False p' by (intro effective_workspace) simp
    with False m e a p' show ?thesis by (auto simp: membership_allows_org_def Let_def)
  qed
qed

definition sample_service :: principal where
  "sample_service = \<lparr>pr_role = ''service'', pr_auth = ''api_key'', pr_identity = ''service'', pr_subject = Some ''svc'', pr_actor = None,
     pr_user = None, pr_org = None, pr_workspace = None, pr_orgs = None, pr_workspaces = None, pr_delegation = no_delegation\<rparr>"

theorem tenant_isolation_witness:
  "case admit_request None sample_service [(''X-Kazen-Act-As-Org'', Some '' acme '')] ''api'' ''acme'' [] of
     Inl x \<Rightarrow> False
   | Inr a \<Rightarrow> ac_org a = ''acme'' \<and> dl_kind (pr_delegation (ac_principal a)) = ''act_as_org''"
proof -
  let ?r = "admit_request None sample_service [(''X-Kazen-Act-As-Org'', Some '' acme '')] ''api'' ''acme'' []"
  have "(case ?r of Inl x \<Rightarrow> True | Inr a \<Rightarrow> False) = False" by code_simp
  then obtain a where a: "?r = Inr a" by (metis sum.case(1) sum.exhaust)
  have "py_strip ''acme'' = ''acme''" by code_simp
  with tenant_isolation [OF a] a show ?thesis by (auto simp: sample_service_def)
qed

text \<open>Headers stripped at an untrusted ingress carry no delegation any more.\<close>

lemma norm_keys: "k \<in> set (map fst (norm_header_map hs)) \<longleftrightarrow> (\<exists>j t. (j, Some t) \<in> set hs \<and> py_lower j = k)"
proof (induction hs rule: rev_induct)
  case (snoc x hs)
  obtain j v where "x = (j, v)" by (cases x)
  with snoc show ?case by (cases v) (auto simp: norm_header_map_def map_fst_dset simp del: set_map split: if_splits)
qed (simp add: norm_header_map_def)

lemma stripped_headers_pass:
  assumes "ingress \<in> set untrusted_ingress" and "h \<in> set privileged_headers"
  shows "header (map (\<lambda>(k, v). (k, Some v)) (strip_privileged_headers hs ingress)) h = []"
proof -
  have "h \<notin> set (map fst (norm_header_map (map (\<lambda>(k, v). (k, Some v)) (strip_privileged_headers hs ingress))))"
    using assms unfolding norm_keys by (auto simp: strip_privileged_headers_def Let_def)
  then have "dget (norm_header_map (map (\<lambda>(k, v). (k, Some v)) (strip_privileged_headers hs ingress))) h = None"
    by (simp add: dget_def map_of_eq_None_iff)
  then show ?thesis by (simp add: header_def)
qed

end
