(* ===== verification/Jwt.thy ===== *)
theory Jwt
  imports Lifecycle_Config
begin

text \<open>
  Token verification (kazenai/auth/jwt.py). The JWT library is an argument: what it reads as the header and
  the unverified payload of a token, and what decoding with a key gives or raises. A token is its text;
  the clock is in seconds. A \<open>JwtVerifyError\<close> carries its category.
\<close>

section \<open>The library\<close>

text \<open>The exceptions of PyJWT the code tells apart.\<close>

datatype pyjwt_error =
    Expired_Signature | Immature_Signature | Invalid_Subject | Invalid_Jti | Invalid_Signature | Missing_Claim
  | Invalid_Audience | Invalid_Issuer | Decode_Failed | Other_Failure

record jwt_lib =
  jl_header :: "string \<Rightarrow> (string \<times> pyval) list option"
  jl_payload :: "string \<Rightarrow> (string \<times> pyval) list option"
  jl_decode :: "string \<Rightarrow> string \<Rightarrow> string list \<Rightarrow> string list \<Rightarrow> pyjwt_error + (string \<times> pyval) list"

definition error_categories :: "string list" where
  "error_categories = [''malformed'', ''signature'', ''algorithm'', ''issuer'', ''audience'', ''expired'', ''not_yet_valid'',
     ''missing_claim'', ''unavailable_key'', ''token_use'']"

definition jwt_fail :: "string \<Rightarrow> 'a res" where
  "jwt_fail cat = Inl (JwtVerifyError (if cat \<in> set error_categories then cat else ''malformed''))"

definition map_pyjwt_error :: "pyjwt_error \<Rightarrow> string" where
  "map_pyjwt_error x = (case x of
     Expired_Signature \<Rightarrow> ''expired'' | Immature_Signature \<Rightarrow> ''not_yet_valid'' | Invalid_Subject \<Rightarrow> ''malformed''
   | Invalid_Jti \<Rightarrow> ''malformed'' | Invalid_Signature \<Rightarrow> ''signature'' | Missing_Claim \<Rightarrow> ''missing_claim''
   | Invalid_Audience \<Rightarrow> ''audience'' | Invalid_Issuer \<Rightarrow> ''issuer'' | Decode_Failed \<Rightarrow> ''malformed'' | Other_Failure \<Rightarrow> ''signature'')"

section \<open>Profiles\<close>

record issuer_profile =
  ip_name :: string
  ip_issuer :: string
  ip_algorithms :: "string list"
  ip_audiences :: "string list"
  ip_identity :: string
  ip_keys :: "string list"
  ip_kid_keys :: "(string \<times> string) list"
  ip_require_sub :: bool
  ip_require_exp :: bool
  ip_validate_nbf :: bool
  ip_validate_iat :: bool
  ip_leeway :: int
  ip_allow_missing_kid :: bool

text \<open>A profile with the defaults of the dataclass.\<close>

definition hs256_profile :: "string \<Rightarrow> string \<Rightarrow> string \<Rightarrow> string \<Rightarrow> string list \<Rightarrow> int \<Rightarrow> issuer_profile" where
  "hs256_profile nm iss aud identity keys leeway =
     \<lparr>ip_name = nm, ip_issuer = iss, ip_algorithms = [''HS256''], ip_audiences = [aud], ip_identity = identity, ip_keys = keys,
      ip_kid_keys = [], ip_require_sub = True, ip_require_exp = True, ip_validate_nbf = True, ip_validate_iat = True,
      ip_leeway = leeway, ip_allow_missing_kid = True\<rparr>"

record jwt_config =
  jc_profiles :: "issuer_profile list"
  jc_secret :: string
  jc_issuer :: string
  jc_audience :: string
  jc_supabase :: string
  jc_enforce :: bool
  jc_leeway :: int

definition env_text :: "env \<Rightarrow> string \<Rightarrow> string" where
  "env_text e k = (case dget e k of None \<Rightarrow> [] | Some v \<Rightarrow> py_strip v)"

definition unique_nonempty :: "string list \<Rightarrow> string list" where
  "unique_nonempty vs = fold (\<lambda>v seen. let t = py_strip v in if t \<noteq> [] \<and> t \<notin> set seen then seen @ [t] else seen) vs []"

definition supabase_issuer_from_env :: "env \<Rightarrow> string" where
  "supabase_issuer_from_env e =
     (let explicit = env_text e ''SUPABASE_JWT_ISSUER''; base = rstrip_char (CHR ''/'') (env_text e ''SUPABASE_URL'')
      in if explicit \<noteq> [] then explicit else if base = [] then [] else base @ ''/auth/v1'')"

definition leeway_from_env :: "env \<Rightarrow> int res" where
  "leeway_from_env e =
     (case int_of_text (case dget e ''KAZENAI_JWT_LEEWAY_SECONDS'' of Some (c # cs) \<Rightarrow> c # cs | _ \<Rightarrow> ''0'') of
        None \<Rightarrow> Inl PyValueError
      | Some i \<Rightarrow> Inr (max 0 (min i 300)))"

definition jwt_config_from_env :: "env \<Rightarrow> string option \<Rightarrow> bool option \<Rightarrow> jwt_config res" where
  "jwt_config_from_env e secret enforce0 =
     (let enforce = (case enforce0 of Some b \<Rightarrow> b
        | None \<Rightarrow> env_norm e ''KAZENAI_JWT_RELAX_ISSUER'' \<notin> {''1'', ''true'', ''yes''});
          issuer = or_str (env_text e ''KAZENAI_JWT_ISSUER'') ''kazenai'';
          audience = or_str (env_text e ''KAZENAI_JWT_AUDIENCE'') ''authenticated'';
          supabase = supabase_issuer_from_env e;
          given_secret = (case secret of None \<Rightarrow> [] | Some t \<Rightarrow> py_strip t)
      in bnd (leeway_from_env e) (\<lambda>leeway.
         let keys0 = unique_nonempty [given_secret, env_text e ''KAZENAI_JWT_SECRET'', env_text e ''SUPABASE_JWT_SECRET'',
               env_text e ''KAZENAI_PLATFORM_JWT_SECRET'', env_text e ''JWT_SECRET''];
             supabase_keys = unique_nonempty [env_text e ''SUPABASE_JWT_SECRET'', env_text e ''KAZENAI_SUPABASE_JWT_SECRET''];
             keys = (if given_secret \<noteq> [] \<and> keys0 = [] then [given_secret] else keys0);
             kazen = (if keys = [] then [] else [hs256_profile ''kazenai-hs256'' issuer audience ''kazen_session'' keys leeway]);
             supa = (if supabase \<noteq> [] \<and> supabase_keys \<noteq> []
                     then [hs256_profile ''supabase-hs256-legacy'' supabase (or_str (env_text e ''SUPABASE_JWT_AUDIENCE'') ''authenticated'')
                             ''supabase_hs256_legacy'' supabase_keys leeway] else [])
         in Inr \<lparr>jc_profiles = kazen @ supa, jc_secret = or_str given_secret (case keys of [] \<Rightarrow> [] | k # ks \<Rightarrow> k), jc_issuer = issuer,
                 jc_audience = audience, jc_supabase = supabase, jc_enforce = enforce, jc_leeway = leeway\<rparr>))"

definition resolved_profiles :: "jwt_config \<Rightarrow> issuer_profile list" where
  "resolved_profiles c =
     (if jc_profiles c \<noteq> [] then jc_profiles c
      else let keys = unique_nonempty [jc_secret c]; aud = or_str (jc_audience c) ''authenticated''
           in (if keys = [] then []
               else [hs256_profile ''kazenai-hs256'' (or_str (jc_issuer c) ''kazenai'') aud ''kazen_session'' keys (jc_leeway c)])
            @ (if py_strip (jc_supabase c) \<noteq> [] \<and> keys \<noteq> []
               then [hs256_profile ''supabase-hs256-legacy'' (jc_supabase c) aud ''supabase_hs256_legacy'' keys (jc_leeway c)] else []))"

definition jwt_secret_from_env :: "env \<Rightarrow> string" where
  "jwt_secret_from_env e =
     (case filter (\<lambda>t. t \<noteq> []) (map (env_text e) [''KAZENAI_JWT_SECRET'', ''SUPABASE_JWT_SECRET'', ''KAZENAI_SUPABASE_JWT_SECRET'',
        ''KAZENAI_PLATFORM_JWT_SECRET'', ''JWT_SECRET'']) of [] \<Rightarrow> [] | t # ts \<Rightarrow> t)"

section \<open>Claims\<close>

definition app_metadata :: "(string \<times> pyval) list \<Rightarrow> pyval" where
  "app_metadata p = (if is_mapping (kw p ''app_metadata'') then kw p ''app_metadata'' else PDict [])"

definition extract_org_id :: "(string \<times> pyval) list \<Rightarrow> string" where
  "extract_org_id p = py_strip (str_or_empty (or_val (kw p ''org_id'') (field (app_metadata p) ''org_id'')))"

definition extract_role :: "(string \<times> pyval) list \<Rightarrow> string \<Rightarrow> string" where
  "extract_role p dflt =
     or_str (py_strip (py_str (or_val (or_val (kw p ''role'') (field (app_metadata p) ''role'')) (PStr dflt)))) dflt"

text \<open>\<open>_as_numeric_date\<close>; an infinite number raises \<open>OverflowError\<close>.\<close>

definition as_numeric_date :: "pyval \<Rightarrow> int res" where
  "as_numeric_date v = (case v of
     PBool _ \<Rightarrow> jwt_fail ''malformed'' | PList _ \<Rightarrow> jwt_fail ''malformed'' | PDict _ \<Rightarrow> jwt_fail ''malformed''
   | _ \<Rightarrow> (case py_int v of
             Inl PyTypeError \<Rightarrow> jwt_fail ''malformed'' | Inl PyValueError \<Rightarrow> jwt_fail ''malformed'' | r \<Rightarrow> r))"

definition assert_subject_claim :: "(string \<times> pyval) list \<Rightarrow> bool \<Rightarrow> unit res" where
  "assert_subject_claim p required = (case kw p ''sub'' of
     PNone \<Rightarrow> if required then jwt_fail ''missing_claim'' else Inr ()
   | PStr s \<Rightarrow> if required \<and> py_strip s = [] then jwt_fail ''missing_claim'' else Inr ()
   | _ \<Rightarrow> jwt_fail ''malformed'')"

definition audience_texts :: "pyval \<Rightarrow> string list" where
  "audience_texts aud = filter (\<lambda>t. t \<noteq> []) (case aud of PList l \<Rightarrow> map py_str l | v \<Rightarrow> [py_str v])"

definition audience_matches :: "(string \<times> pyval) list \<Rightarrow> string list \<Rightarrow> bool" where
  "audience_matches p allowed \<longleftrightarrow> kw p ''aud'' \<noteq> PNone \<and> list_ex (\<lambda>t. t \<in> set allowed) (audience_texts (kw p ''aud''))"

definition jti_ok :: "(string \<times> pyval) list \<Rightarrow> bool" where
  "jti_ok p \<longleftrightarrow> \<not> has_key p ''jti'' \<or> (case kw p ''jti'' of PStr _ \<Rightarrow> True | _ \<Rightarrow> False)"

text \<open>An optional date must not lie in the future.\<close>

definition not_future :: "(string \<times> pyval) list \<Rightarrow> string \<Rightarrow> int \<Rightarrow> unit res" where
  "not_future p k limit =
     (if kw p k = PNone then Inr ()
      else bnd (as_numeric_date (kw p k)) (\<lambda>t. if t > limit then jwt_fail ''not_yet_valid'' else Inr ()))"

definition not_expired :: "(string \<times> pyval) list \<Rightarrow> int \<Rightarrow> int res" where
  "not_expired p limit =
     (if kw p ''exp'' = PNone then jwt_fail ''missing_claim''
      else bnd (as_numeric_date (kw p ''exp'')) (\<lambda>t. if t \<le> limit then jwt_fail ''expired'' else Inr t))"

section \<open>HS256\<close>

definition hs256_verification_keys :: "issuer_profile \<Rightarrow> (string \<times> pyval) list \<Rightarrow> string list res" where
  "hs256_verification_keys pr hdr =
     (let ring = dupdate [] (ip_kid_keys pr); kid = kw hdr ''kid'';
          missing = (if ip_allow_missing_kid pr \<and> ip_keys pr \<noteq> [] then Inr (ip_keys pr) else jwt_fail ''missing_claim'')
      in case kid of
           PNone \<Rightarrow> if ring = [] then Inr (ip_keys pr) else missing
         | PStr k \<Rightarrow> if ring = [] then Inr (ip_keys pr)
                    else if py_strip k = [] then missing
                    else (case dget ring k of None \<Rightarrow> jwt_fail ''unavailable_key'' | Some key \<Rightarrow> Inr [key])
         | _ \<Rightarrow> jwt_fail ''malformed'')"

text \<open>Critical headers must be understood and present.\<close>

definition crit_ok :: "(string \<times> pyval) list \<Rightarrow> bool" where
  "crit_ok hdr \<longleftrightarrow> (case kw hdr ''crit'' of
     PNone \<Rightarrow> True
   | PList l \<Rightarrow> list_all (\<lambda>v. case v of PStr n \<Rightarrow> n \<in> {''alg'', ''typ'', ''kid''} \<and> has_key hdr n | _ \<Rightarrow> False) l
   | _ \<Rightarrow> False)"

definition decode_with_clock :: "jwt_lib \<Rightarrow> string \<Rightarrow> issuer_profile \<Rightarrow> int \<Rightarrow> string \<Rightarrow> (string \<times> pyval) list res" where
  "decode_with_clock lib token pr clock key =
     (case jl_decode lib token key (ip_algorithms pr) (if ip_require_sub pr then [''sub''] else []) of
        Inl x \<Rightarrow> jwt_fail (map_pyjwt_error x)
      | Inr p \<Rightarrow>
          bnd (if ip_require_exp pr then bnd (not_expired p (clock - ip_leeway pr)) (\<lambda>_. Inr ()) else Inr ()) (\<lambda>_.
          bnd (if ip_validate_nbf pr then not_future p ''nbf'' (clock + ip_leeway pr) else Inr ()) (\<lambda>_.
          bnd (if ip_validate_iat pr then not_future p ''iat'' (clock + ip_leeway pr) else Inr ()) (\<lambda>_.
          if \<not> jti_ok p then jwt_fail ''malformed''
          else bnd (assert_subject_claim p (ip_require_sub pr)) (\<lambda>_. Inr p)))))"

text \<open>The keys of one profile, one after the other; only a wrong signature lets the next one try.\<close>

fun try_keys :: "(string \<Rightarrow> (string \<times> pyval) list res) \<Rightarrow> exn \<Rightarrow> string list \<Rightarrow> (string \<times> pyval) list res" where
  "try_keys decode err [] = Inl err"
| "try_keys decode err (k # ks) = (case decode k of
     Inr p \<Rightarrow> Inr p
   | Inl x \<Rightarrow> if x = JwtVerifyError ''signature'' then try_keys decode x ks else Inl x)"

definition three_parts :: "string \<Rightarrow> bool" where
  "three_parts token \<longleftrightarrow> length (filter (\<lambda>c. c = CHR ''.'') token) = 2"

definition verify_hs256_token :: "jwt_lib \<Rightarrow> string \<Rightarrow> jwt_config \<Rightarrow> int \<Rightarrow> (string \<times> pyval) list res" where
  "verify_hs256_token lib token c clock =
     (let profiles = resolved_profiles c in
      if \<not> three_parts token then jwt_fail ''malformed''
      else if profiles = [] then jwt_fail ''unavailable_key''
      else case jl_header lib token of
        None \<Rightarrow> jwt_fail ''malformed''
      | Some hdr \<Rightarrow>
          let alg = str_or_empty (kw hdr ''alg'') in
          if alg = ''none'' \<or> alg = [] then jwt_fail ''algorithm''
          else if list_all (\<lambda>p. alg \<notin> set (ip_algorithms p)) profiles then jwt_fail ''algorithm''
          else if \<not> crit_ok hdr then jwt_fail ''malformed''
          else if kw hdr ''kid'' \<noteq> PNone \<and> (case kw hdr ''kid'' of PStr _ \<Rightarrow> False | _ \<Rightarrow> True) then jwt_fail ''malformed''
          else case jl_payload lib token of
            None \<Rightarrow> jwt_fail ''malformed''
          | Some unverified \<Rightarrow>
              let iss = py_strip (str_or_empty (kw unverified ''iss'')) in
              if iss = [] then jwt_fail ''missing_claim''
              else case find (\<lambda>p. ip_issuer p = iss) profiles of
                None \<Rightarrow> jwt_fail ''issuer''
              | Some pr \<Rightarrow>
                  if alg \<notin> set (ip_algorithms pr) then jwt_fail ''algorithm''
                  else bnd (hs256_verification_keys pr hdr) (\<lambda>keys.
                    if keys = [] then jwt_fail ''unavailable_key''
                    else bnd (try_keys (decode_with_clock lib token pr clock) (JwtVerifyError ''signature'') keys) (\<lambda>p.
                      if py_strip (str_or_empty (kw p ''iss'')) \<noteq> ip_issuer pr then jwt_fail ''issuer''
                      else if \<not> audience_matches p (ip_audiences pr) then jwt_fail ''audience''
                      else bnd (assert_subject_claim p (ip_require_sub pr)) (\<lambda>_. Inr p))))"

section \<open>EdDSA\<close>

record eddsa_profile =
  ep_name :: string
  ep_issuer :: string
  ep_audience :: string
  ep_token_use :: string
  ep_public_keys :: "(string \<times> string) list"
  ep_leeway :: int
  ep_max_ttl :: "int option"

text \<open>A literal backslash and n in a one-line environment value is a line end.\<close>

fun unescape_newlines :: "string \<Rightarrow> string" where
  "unescape_newlines (a # b # s) =
     (if a = char_of (92::nat) \<and> b = CHR ''n'' then char_of (10::nat) # unescape_newlines s else a # unescape_newlines (b # s))"
| "unescape_newlines s = s"

text \<open>\<open>loads\<close> is the JSON parser.\<close>

definition load_public_keys :: "(string \<Rightarrow> pyval option) \<Rightarrow> string \<Rightarrow> (string \<times> string) list res" where
  "load_public_keys loads raw =
     (let text = py_strip raw in
      if text = [] then Inr []
      else case loads text of
        Some (PDict d) \<Rightarrow> map_res (\<lambda>(kid, pem). case pem of
            PStr t \<Rightarrow> if py_strip kid = [] \<or> \<not> has_infix t ''PUBLIC KEY'' then jwt_fail ''unavailable_key''
                       else Inr (py_strip kid, unescape_newlines t)
          | _ \<Rightarrow> jwt_fail ''unavailable_key'') d
      | _ \<Rightarrow> jwt_fail ''unavailable_key'')"

definition platform_token_profile ::
  "env \<Rightarrow> (string \<Rightarrow> pyval option) \<Rightarrow> string \<Rightarrow> string \<Rightarrow> int option \<Rightarrow> (string \<times> string) list option \<Rightarrow> eddsa_profile res" where
  "platform_token_profile e loads audience token_use max_ttl public_keys =
     bnd (leeway_from_env e) (\<lambda>leeway.
     bnd (case public_keys of Some ks \<Rightarrow> Inr ks
          | None \<Rightarrow> load_public_keys loads (env_text e ''KAZENAI_SESSION_JWT_PUBLIC_KEYS'')) (\<lambda>keys.
       Inr \<lparr>ep_name = ''platform-eddsa-'' @ token_use,
            ep_issuer = or_str (env_text e ''KAZENAI_PLATFORM_JWT_ISSUER'') ''kazenai-platform'',
            ep_audience = audience, ep_token_use = token_use, ep_public_keys = keys, ep_leeway = leeway, ep_max_ttl = max_ttl\<rparr>))"

definition eddsa_claims :: "eddsa_profile \<Rightarrow> int \<Rightarrow> (string \<times> pyval) list \<Rightarrow> (string \<times> pyval) list res" where
  "eddsa_claims pr clock p =
     (if str_or_empty (kw p ''iss'') \<noteq> ep_issuer pr then jwt_fail ''issuer''
      else if \<not> audience_matches p [ep_audience pr] then jwt_fail ''audience''
      else if str_or_empty (kw p ''token_use'') \<noteq> ep_token_use pr then jwt_fail ''token_use''
      else bnd (not_expired p (clock - ep_leeway pr)) (\<lambda>exp.
           bnd (not_future p ''nbf'' (clock + ep_leeway pr)) (\<lambda>_.
           bnd (not_future p ''iat'' (clock + ep_leeway pr)) (\<lambda>_.
           bnd (case ep_max_ttl pr of None \<Rightarrow> Inr ()
                | Some ttl \<Rightarrow> if kw p ''iat'' = PNone then jwt_fail ''expired''
                    else bnd (as_numeric_date (kw p ''iat'')) (\<lambda>iat. if exp - iat > ttl then jwt_fail ''expired'' else Inr ())) (\<lambda>_.
           if \<not> jti_ok p then jwt_fail ''malformed''
           else bnd (assert_subject_claim p True) (\<lambda>_. Inr p))))))"

definition verify_eddsa_token :: "jwt_lib \<Rightarrow> string \<Rightarrow> eddsa_profile \<Rightarrow> int \<Rightarrow> (string \<times> pyval) list res" where
  "verify_eddsa_token lib token pr clock =
     (if \<not> three_parts token then jwt_fail ''malformed''
      else if ep_public_keys pr = [] then jwt_fail ''unavailable_key''
      else case jl_header lib token of
        None \<Rightarrow> jwt_fail ''malformed''
      | Some hdr \<Rightarrow>
          if str_or_empty (kw hdr ''alg'') \<noteq> ''EdDSA'' then jwt_fail ''algorithm''
          else if \<not> crit_ok hdr then jwt_fail ''malformed''
          else case kw hdr ''kid'' of
            PStr kid \<Rightarrow>
              if py_strip kid = [] then jwt_fail ''missing_claim''
              else (case dget (dupdate [] (ep_public_keys pr)) kid of
                      None \<Rightarrow> jwt_fail ''unavailable_key''
                    | Some pem \<Rightarrow> (case jl_decode lib token pem [''EdDSA''] [] of
                        Inl x \<Rightarrow> jwt_fail (map_pyjwt_error x)
                      | Inr p \<Rightarrow> eddsa_claims pr clock p))
          | _ \<Rightarrow> jwt_fail ''missing_claim'')"

section \<open>What an accepted token is\<close>

lemma jwt_fail_neq [simp]: "jwt_fail cat \<noteq> Inr x" "(Inr x = jwt_fail cat) = False"
  by (simp_all add: jwt_fail_def)

lemma not_expired_Inr: "not_expired p limit = Inr t \<longleftrightarrow> kw p ''exp'' \<noteq> PNone \<and> as_numeric_date (kw p ''exp'') = Inr t \<and> limit < t"
  by (cases "as_numeric_date (kw p ''exp'')") (auto simp: not_expired_def split: if_splits)

lemma not_future_Inr: "not_future p k limit = Inr u \<longleftrightarrow> kw p k = PNone \<or> (\<exists>t. as_numeric_date (kw p k) = Inr t \<and> t \<le> limit)"
  by (cases "as_numeric_date (kw p k)") (auto simp: not_future_def split: if_splits)

lemma subject_Inr: "assert_subject_claim p True = Inr u \<longleftrightarrow> (\<exists>s. kw p ''sub'' = PStr s \<and> py_strip s \<noteq> [])"
  by (cases "kw p ''sub''") (auto simp: assert_subject_claim_def split: if_splits)

lemma try_keys_Inr: "try_keys decode err ks = Inr p \<Longrightarrow> \<exists>k\<in>set ks. decode k = Inr p"
  by (induction decode err ks rule: try_keys.induct) (auto split: sum.splits if_splits)

text \<open>The claims every accepted token satisfies: its dates against the clock, its subject.\<close>

definition fresh :: "(string \<times> pyval) list \<Rightarrow> int \<Rightarrow> int \<Rightarrow> bool" where
  "fresh p clock leeway \<longleftrightarrow> (\<exists>t. as_numeric_date (kw p ''exp'') = Inr t \<and> clock - leeway < t)"

definition started :: "(string \<times> pyval) list \<Rightarrow> string \<Rightarrow> int \<Rightarrow> bool" where
  "started p k limit \<longleftrightarrow> kw p k = PNone \<or> (\<exists>t. as_numeric_date (kw p k) = Inr t \<and> t \<le> limit)"

lemma decode_with_clock_Inr:
  assumes "decode_with_clock lib token pr clock key = Inr p"
  shows "jl_decode lib token key (ip_algorithms pr) (if ip_require_sub pr then [''sub''] else []) = Inr p \<and>
    (ip_require_exp pr \<longrightarrow> fresh p clock (ip_leeway pr)) \<and>
    (ip_validate_nbf pr \<longrightarrow> started p ''nbf'' (clock + ip_leeway pr)) \<and>
    (ip_validate_iat pr \<longrightarrow> started p ''iat'' (clock + ip_leeway pr)) \<and> assert_subject_claim p (ip_require_sub pr) = Inr ()"
proof (cases "jl_decode lib token key (ip_algorithms pr) (if ip_require_sub pr then [''sub''] else [])")
  case (Inr p')
  with assms have "p' = p" by (auto simp: decode_with_clock_def bnd_eq_Inr split: if_splits)
  with assms Inr show ?thesis
    by (auto simp: decode_with_clock_def bnd_eq_Inr not_expired_Inr not_future_Inr fresh_def started_def split: if_splits)
qed (use assms in \<open>simp add: decode_with_clock_def\<close>)

lemma verification_keys_of_profile:
  assumes "hs256_verification_keys pr hdr = Inr keys" shows "set keys \<subseteq> set (ip_keys pr) \<union> snd ` set (ip_kid_keys pr)"
proof -
  have "v \<in> snd ` set kvs" if "dget (dupdate [] kvs) k = Some v" for k v and kvs :: "(string \<times> string) list"
    using that
  proof (induction kvs rule: rev_induct)
    case (snoc x xs)
    then show ?case by (cases x) (auto simp: dupdate_def split: if_splits)
  qed simp
  with assms show ?thesis
    by (auto simp: hs256_verification_keys_def Let_def image_iff split: pyval.splits if_splits option.splits)
qed

text \<open>C20: an accepted HS256 token was signed, by an algorithm of the profile, with a key of the one profile
  whose issuer it names (never with the key of another issuer), if the library only decodes what the key
  signed; and its audience, dates and subject are what this profile asks for.\<close>

theorem hs256_accepts_signed:
  assumes "\<And>tok key algs req p. jl_decode lib tok key algs req = Inr p \<Longrightarrow> \<exists>alg\<in>set algs. signed key alg tok"
    and "verify_hs256_token lib token c clock = Inr p"
  shows "\<exists>pr key alg. find (\<lambda>q. ip_issuer q = py_strip (str_or_empty (kw p ''iss''))) (resolved_profiles c) = Some pr \<and>
    ip_issuer pr = py_strip (str_or_empty (kw p ''iss'')) \<and>
    key \<in> set (ip_keys pr) \<union> snd ` set (ip_kid_keys pr) \<and> alg \<in> set (ip_algorithms pr) \<and> signed key alg token \<and>
    audience_matches p (ip_audiences pr) \<and> (ip_require_exp pr \<longrightarrow> fresh p clock (ip_leeway pr)) \<and>
    (ip_validate_nbf pr \<longrightarrow> started p ''nbf'' (clock + ip_leeway pr)) \<and>
    (ip_validate_iat pr \<longrightarrow> started p ''iat'' (clock + ip_leeway pr)) \<and>
    (ip_require_sub pr \<longrightarrow> (\<exists>s. kw p ''sub'' = PStr s \<and> py_strip s \<noteq> []))"
proof -
  obtain hdr where h: "jl_header lib token = Some hdr"
    using assms(2) by (auto simp: verify_hs256_token_def Let_def split: if_splits option.splits)
  obtain un where u: "jl_payload lib token = Some un"
    using assms(2) h by (auto simp: verify_hs256_token_def Let_def split: if_splits option.splits)
  let ?iss = "py_strip (str_or_empty (kw un ''iss''))"
  obtain pr where pr: "find (\<lambda>q. ip_issuer q = ?iss) (resolved_profiles c) = Some pr"
    using assms(2) h u by (auto simp: verify_hs256_token_def Let_def split: if_splits option.splits)
  obtain keys where k: "hs256_verification_keys pr hdr = Inr keys"
    and t: "try_keys (decode_with_clock lib token pr clock) (JwtVerifyError ''signature'') keys = Inr p"
    and i: "py_strip (str_or_empty (kw p ''iss'')) = ip_issuer pr" and a: "audience_matches p (ip_audiences pr)"
    using assms(2) h u pr by (auto simp: verify_hs256_token_def Let_def bnd_eq_Inr split: if_splits)
  obtain key where key: "key \<in> set keys" "decode_with_clock lib token pr clock key = Inr p" using try_keys_Inr [OF t] by blast
  note d = decode_with_clock_Inr [OF key(2)]
  obtain alg where alg: "alg \<in> set (ip_algorithms pr)" "signed key alg token" using assms(1) d by blast
  have "ip_issuer pr = ?iss" using pr by (auto simp: find_Some_iff)
  with i pr have "find (\<lambda>q. ip_issuer q = py_strip (str_or_empty (kw p ''iss''))) (resolved_profiles c) = Some pr" by simp
  moreover have "ip_require_sub pr \<longrightarrow> (\<exists>s. kw p ''sub'' = PStr s \<and> py_strip s \<noteq> [])" using d subject_Inr by auto
  ultimately show ?thesis
    using verification_keys_of_profile [OF k] key(1) alg a d i by (intro exI [of _ pr] exI [of _ key] exI [of _ alg]) auto
qed

lemma eddsa_claims_Inr:
  assumes "eddsa_claims pr clock p = Inr q"
  shows "q = p \<and> str_or_empty (kw p ''iss'') = ep_issuer pr \<and> audience_matches p [ep_audience pr] \<and>
    str_or_empty (kw p ''token_use'') = ep_token_use pr \<and> fresh p clock (ep_leeway pr) \<and>
    started p ''nbf'' (clock + ep_leeway pr) \<and> started p ''iat'' (clock + ep_leeway pr) \<and>
    (case ep_max_ttl pr of None \<Rightarrow> True
     | Some ttl \<Rightarrow> \<exists>e i. as_numeric_date (kw p ''exp'') = Inr e \<and> as_numeric_date (kw p ''iat'') = Inr i \<and> e - i \<le> ttl) \<and>
    (\<exists>s. kw p ''sub'' = PStr s \<and> py_strip s \<noteq> [])"
  using assms unfolding eddsa_claims_def
  by (auto simp: bnd_eq_Inr not_expired_Inr not_future_Inr subject_Inr fresh_def started_def split: if_splits option.splits)

text \<open>C22: an accepted platform token was signed with the one public key its key id names, for exactly this
  issuer, audience and use, is not expired, and does not outlive the longest life the profile allows.\<close>

theorem eddsa_accepts_signed:
  assumes "\<And>tok key algs req p. jl_decode lib tok key algs req = Inr p \<Longrightarrow> \<exists>alg\<in>set algs. signed key alg tok"
    and "verify_eddsa_token lib token pr clock = Inr p"
  shows "\<exists>hdr kid pem. jl_header lib token = Some hdr \<and> kw hdr ''kid'' = PStr kid \<and> dget (dupdate [] (ep_public_keys pr)) kid = Some pem \<and>
    signed pem ''EdDSA'' token \<and> str_or_empty (kw p ''iss'') = ep_issuer pr \<and> audience_matches p [ep_audience pr] \<and>
    str_or_empty (kw p ''token_use'') = ep_token_use pr \<and> fresh p clock (ep_leeway pr) \<and>
    (case ep_max_ttl pr of None \<Rightarrow> True
     | Some ttl \<Rightarrow> \<exists>e i. as_numeric_date (kw p ''exp'') = Inr e \<and> as_numeric_date (kw p ''iat'') = Inr i \<and> e - i \<le> ttl) \<and>
    (\<exists>s. kw p ''sub'' = PStr s \<and> py_strip s \<noteq> [])"
proof -
  obtain hdr where h: "jl_header lib token = Some hdr"
    using assms(2) by (auto simp: verify_eddsa_token_def split: if_splits option.splits)
  obtain kid where kid: "kw hdr ''kid'' = PStr kid"
    using assms(2) h by (auto simp: verify_eddsa_token_def split: if_splits pyval.splits)
  obtain pem where pem: "dget (dupdate [] (ep_public_keys pr)) kid = Some pem"
    using assms(2) h kid by (auto simp: verify_eddsa_token_def split: if_splits option.splits)
  obtain p' where d: "jl_decode lib token pem [''EdDSA''] [] = Inr p'" "eddsa_claims pr clock p' = Inr p"
    using assms(2) h kid pem by (auto simp: verify_eddsa_token_def split: if_splits sum.splits)
  have "signed pem ''EdDSA'' token" using assms(1) [OF d(1)] by simp
  with eddsa_claims_Inr [OF d(2)] h kid pem show ?thesis by blast
qed

section \<open>How verification fails\<close>

text \<open>Results of verification: a payload, or a \<open>JwtVerifyError\<close> with one of the public categories.\<close>

definition stable :: "'a res \<Rightarrow> bool" where
  "stable r \<longleftrightarrow> (case r of Inr _ \<Rightarrow> True | Inl (JwtVerifyError cat) \<Rightarrow> cat \<in> set error_categories | Inl _ \<Rightarrow> False)"

definition finite_dates :: "(string \<times> pyval) list \<Rightarrow> bool" where
  "finite_dates p \<longleftrightarrow> list_all (\<lambda>k. case kw p k of PFloat PosInf _ \<Rightarrow> False | PFloat NegInf _ \<Rightarrow> False | _ \<Rightarrow> True) [''exp'', ''nbf'', ''iat'']"

lemma stable_simps [simp]: "stable (Inr x)" "stable (jwt_fail cat)"
  by (simp_all add: stable_def jwt_fail_def error_categories_def)

lemma stable_bnd: "stable m \<Longrightarrow> (\<And>x. m = Inr x \<Longrightarrow> stable (f x)) \<Longrightarrow> stable (bnd m f)"
  by (cases m) (auto simp: stable_def split: exn.splits)

lemma stable_if: "(b \<Longrightarrow> stable x) \<Longrightarrow> (\<not> b \<Longrightarrow> stable y) \<Longrightarrow> stable (if b then x else y)"
  by simp

lemma stable_option: "stable x \<Longrightarrow> (\<And>v. o' = Some v \<Longrightarrow> stable (f v)) \<Longrightarrow> stable (case o' of None \<Rightarrow> x | Some v \<Rightarrow> f v)"
  by (cases o') simp_all

lemma stable_date: "(\<And>t. v \<noteq> PFloat PosInf t \<and> v \<noteq> PFloat NegInf t) \<Longrightarrow> stable (as_numeric_date v)"
  by (cases v rule: py_int.cases) (auto simp: as_numeric_date_def split: option.splits)

lemma stable_dates:
  assumes "finite_dates p" shows "stable (not_expired p limit)" "stable (not_future p ''nbf'' limit)" "stable (not_future p ''iat'' limit)"
    "stable (as_numeric_date (kw p ''iat''))"
proof -
  have d: "stable (as_numeric_date (kw p k))" if "k = ''exp'' \<or> k = ''nbf'' \<or> k = ''iat''" for k
    using assms that by (intro stable_date) (auto simp: finite_dates_def)
  show "stable (not_expired p limit)" unfolding not_expired_def
    by (intro stable_if stable_bnd stable_simps d) simp
  have f: "stable (not_future p k limit)" if "k = ''exp'' \<or> k = ''nbf'' \<or> k = ''iat''" for k
    unfolding not_future_def by (intro stable_if stable_bnd stable_simps d that)
  show "stable (not_future p ''nbf'' limit)" "stable (not_future p ''iat'' limit)" by (intro f; simp)+
  show "stable (as_numeric_date (kw p ''iat''))" by (intro d) simp
qed

lemma stable_subject: "stable (assert_subject_claim p req)"
  by (simp add: assert_subject_claim_def split: pyval.splits)

lemma stable_try_keys: "(\<And>k. stable (decode k)) \<Longrightarrow> stable (Inl err :: unit res) \<Longrightarrow> stable (try_keys decode err ks)"
proof (induction decode err ks rule: try_keys.induct)
  case (2 decode err k ks)
  have "stable (Inl x :: unit res) \<and> stable (Inl x :: (string \<times> pyval) list res)" if "decode k = Inl x" for x
    using 2(2) [of k] that by (auto simp: stable_def split: exn.splits)
  with 2 show ?case by (auto split: sum.splits)
qed (simp add: stable_def)

text \<open>Verification has two outcomes only. Whatever the token, its header and its payload, HS256 and
  EdDSA verification return the payload or raise a \<open>JwtVerifyError\<close> whose category is one of the public
  ones, unless a signed date is infinite.\<close>
theorem verification_errors_are_stable:
  assumes "\<And>tok key algs req p. jl_decode lib tok key algs req = Inr p \<Longrightarrow> finite_dates p"
  shows "stable (verify_hs256_token lib token c clock) \<and> stable (verify_eddsa_token lib token pr clock)"
proof
  have keys: "stable (hs256_verification_keys q hdr)" for q hdr
    by (auto simp: hs256_verification_keys_def Let_def split: pyval.splits option.splits)
  have dec: "stable (decode_with_clock lib token q clock key)" for q key
    using assms [of token key] unfolding decode_with_clock_def
    by (auto intro!: stable_bnd stable_dates stable_subject split: sum.splits)
  have err: "stable (Inl (JwtVerifyError ''signature'') :: unit res)" by (simp add: stable_def error_categories_def)
  show "stable (verify_hs256_token lib token c clock)"
    unfolding verify_hs256_token_def Let_def
    by (intro stable_if stable_option stable_bnd keys stable_try_keys dec err stable_subject stable_simps)
  have "stable (eddsa_claims pr clock p)" if "finite_dates p" for p
    unfolding eddsa_claims_def
    by (intro stable_if stable_option stable_bnd stable_dates [OF that] stable_subject stable_simps)
  with assms show "stable (verify_eddsa_token lib token pr clock)"
    unfolding verify_eddsa_token_def by (auto split: option.splits pyval.splits sum.splits)
qed

section \<open>Applied\<close>

text \<open>A library that decodes what the key \<open>k\<close> signed.\<close>

definition claims_until :: "pyval \<Rightarrow> (string \<times> pyval) list" where
  "claims_until until = [(''iss'', PStr ''kazenai''), (''aud'', PList [PStr ''authenticated'']), (''sub'', PStr ''u1''), (''exp'', until),
     (''iat'', PInt 90), (''token_use'', PStr ''session'')]"

definition lib_for :: "string \<Rightarrow> (string \<times> pyval) list \<Rightarrow> jwt_lib" where
  "lib_for alg p = \<lparr>jl_header = (\<lambda>_. Some [(''alg'', PStr alg), (''kid'', PStr ''k1'')]), jl_payload = (\<lambda>_. Some p),
     jl_decode = (\<lambda>tok key algs req. if key = ''k'' \<and> algs \<noteq> [] then Inr p else Inl Invalid_Signature)\<rparr>"

definition sample_config :: jwt_config where
  "sample_config = \<lparr>jc_profiles = [hs256_profile ''kazenai-hs256'' ''kazenai'' ''authenticated'' ''kazen_session'' [''old'', ''k''] 0],
     jc_secret = ''k'', jc_issuer = ''kazenai'', jc_audience = ''authenticated'', jc_supabase = [], jc_enforce = True, jc_leeway = 0\<rparr>"

definition sample_platform :: eddsa_profile where
  "sample_platform = \<lparr>ep_name = ''platform-eddsa-session'', ep_issuer = ''kazenai'', ep_audience = ''authenticated'',
     ep_token_use = ''session'', ep_public_keys = [(''k1'', ''k'')], ep_leeway = 0, ep_max_ttl = Some 60\<rparr>"

lemma lib_signs: "jl_decode (lib_for alg p) tok key algs req = Inr q \<Longrightarrow> \<exists>a\<in>set algs. key = ''k''"
  by (cases algs) (auto simp: lib_for_def split: if_splits)

theorem hs256_accepts_signed_witness:
  "verify_hs256_token (lib_for ''HS256'' (claims_until (PInt 100))) ''a.b.c'' sample_config 95 = Inr (claims_until (PInt 100)) \<and>
   (\<exists>pr. find (\<lambda>q. ip_issuer q = ''kazenai'') (resolved_profiles sample_config) = Some pr \<and>
      fresh (claims_until (PInt 100)) 95 (ip_leeway pr))"
proof -
  let ?p = "claims_until (PInt 100)"
  have v: "verify_hs256_token (lib_for ''HS256'' ?p) ''a.b.c'' sample_config 95 = Inr ?p" by code_simp
  have i: "py_strip (str_or_empty (kw ?p ''iss'')) = ''kazenai''" by code_simp
  have e: "find (\<lambda>q. ip_issuer q = ''kazenai'') (resolved_profiles sample_config) = Some pr \<Longrightarrow> ip_require_exp pr" for pr
    by (auto simp: sample_config_def resolved_profiles_def hs256_profile_def)
  note a = hs256_accepts_signed [where signed = "\<lambda>key alg tok. key = ''k''", OF _ v, unfolded i]
  obtain pr where pr: "find (\<lambda>q. ip_issuer q = ''kazenai'') (resolved_profiles sample_config) = Some pr"
    "ip_require_exp pr \<longrightarrow> fresh ?p 95 (ip_leeway pr)"
    using a lib_signs by blast
  then have "fresh ?p 95 (ip_leeway pr)" using e by blast
  with v pr(1) show ?thesis by blast
qed

theorem eddsa_accepts_signed_witness:
  "verify_eddsa_token (lib_for ''EdDSA'' (claims_until (PInt 140))) ''a.b.c'' sample_platform 95 = Inr (claims_until (PInt 140)) \<and>
   (\<exists>e i. as_numeric_date (kw (claims_until (PInt 140)) ''exp'') = Inr e \<and>
      as_numeric_date (kw (claims_until (PInt 140)) ''iat'') = Inr i \<and> e - i \<le> 60)"
proof -
  let ?p = "claims_until (PInt 140)"
  have v: "verify_eddsa_token (lib_for ''EdDSA'' ?p) ''a.b.c'' sample_platform 95 = Inr ?p" by code_simp
  have t: "ep_max_ttl sample_platform = Some 60" by (simp add: sample_platform_def)
  note a = eddsa_accepts_signed [where signed = "\<lambda>key alg tok. key = ''k''", OF _ v, unfolded t option.case]
  have "\<exists>e i. as_numeric_date (kw ?p ''exp'') = Inr e \<and> as_numeric_date (kw ?p ''iat'') = Inr i \<and> e - i \<le> 60"
    using a lib_signs by blast
  with v show ?thesis by (rule conjI)
qed

theorem verification_errors_are_stable_witness:
  "stable (verify_hs256_token (lib_for ''HS256'' (claims_until (PInt 90))) ''a.b.c'' sample_config 95) \<and>
   verify_hs256_token (lib_for ''HS256'' (claims_until (PInt 90))) ''a.b.c'' sample_config 95 = Inl (JwtVerifyError ''expired'')"
proof -
  have "finite_dates (claims_until (PInt 90))" by code_simp
  then have f: "jl_decode (lib_for ''HS256'' (claims_until (PInt 90))) tok key algs req = Inr q \<Longrightarrow> finite_dates q" for tok key algs req q
    by (simp add: lib_for_def split: if_splits)
  have "stable (verify_hs256_token (lib_for ''HS256'' (claims_until (PInt 90))) ''a.b.c'' sample_config 95)"
    by (rule conjunct1 [OF verification_errors_are_stable]) (rule f)
  moreover have "verify_hs256_token (lib_for ''HS256'' (claims_until (PInt 90))) ''a.b.c'' sample_config 95 = Inl (JwtVerifyError ''expired'')"
    by code_simp
  ultimately show ?thesis by (rule conjI)
qed

text \<open>An infinite date, which JSON can spell \<open>1e999\<close>, escapes as an \<open>OverflowError\<close>.\<close>

theorem infinite_exp_escapes:
  "verify_hs256_token (lib_for ''HS256'' (claims_until (PFloat PosInf ''inf''))) ''a.b.c'' sample_config 95 = Inl PyOverflowError"
  by code_simp

end
