(* ===== verification/Catalog_Document.thy ===== *)
theory Catalog_Document
  imports Price_Engine
begin

text \<open>
  Signed price catalogs (kazenai/catalog_document.py): the parser of a catalog document, the check of its
  envelope, and what a process accepts. Signature verification, the digest and JSON are arguments; bytes are
  texts.
\<close>

section \<open>Field checks\<close>

definition doc_fail :: "'a res" where
  "doc_fail = Inl CatalogDocumentError"

definition exact_keys :: "pyval \<Rightarrow> string list \<Rightarrow> string list \<Rightarrow> (string \<times> pyval) list res" where
  "exact_keys v allowed required = (case v of
     PDict d \<Rightarrow> if unknown_fields d allowed then doc_fail
                else if list_ex (\<lambda>k. \<not> has_key d k) required then doc_fail else Inr d
   | _ \<Rightarrow> doc_fail)"

definition doc_decimal :: "rat \<Rightarrow> pyval \<Rightarrow> rat res" where
  "doc_decimal minimum v =
     (let number = (\<lambda>t. case parse_dec t of Some (DFin q) \<Rightarrow> if q < minimum then doc_fail else Inr q | _ \<Rightarrow> doc_fail)
      in case v of PStr s \<Rightarrow> number s | PInt i \<Rightarrow> number (int_str i) | _ \<Rightarrow> doc_fail)"

definition doc_int :: "int \<Rightarrow> pyval \<Rightarrow> int res" where
  "doc_int minimum v = (case v of PInt i \<Rightarrow> if i < minimum then doc_fail else Inr i | _ \<Rightarrow> doc_fail)"

definition doc_text :: "pyval \<Rightarrow> string res" where
  "doc_text v = (case v of PStr s \<Rightarrow> if py_strip s = [] then doc_fail else Inr (py_strip s) | _ \<Rightarrow> doc_fail)"

definition doc_lower :: "pyval \<Rightarrow> string res" where
  "doc_lower v = bnd (doc_text v) (\<lambda>t. Inr (py_lower t))"

definition doc_instant :: "pyval \<Rightarrow> string option res" where
  "doc_instant v =
     (if v = PNone then Inr None
      else bnd (doc_text v) (\<lambda>t. case parse_instant (Some t) of Inr _ \<Rightarrow> Inr (Some t) | Inl _ \<Rightarrow> doc_fail))"

section \<open>Versions\<close>

text \<open>\<open>YYYY-MM-DD\<close> or \<open>YYYY-MM-DD.N\<close>; a final line end is let pass by the pattern's dollar.\<close>

definition digits_of :: "string \<Rightarrow> int option" where
  "digits_of t = (if t \<noteq> [] \<and> list_all is_digit t then Some (int (digits_nat t)) else None)"

definition version_key :: "string \<Rightarrow> int list res" where
  "version_key version =
     (let t = (if version \<noteq> [] \<and> char_code (last version) = 10 then butlast version else version);
          day = take 10 t; rest = drop 10 t; dash = CHR ''-'';
          serial = (case rest of [] \<Rightarrow> Some 0
            | c # n \<Rightarrow> if c = CHR ''.'' \<and> length n \<le> 6 then digits_of n else None)
      in case split_on dash day of
           [y, m, d] \<Rightarrow> (case (digits_of y, digits_of m, digits_of d, serial) of
               (Some yv, Some mv, Some dv, Some s) \<Rightarrow>
                 if length y = 4 \<and> length m = 2 \<and> length d = 2 then Inr [yv, mv, dv, s] else doc_fail
             | _ \<Rightarrow> doc_fail)
         | _ \<Rightarrow> doc_fail)"

text \<open>Tuples compare from the left.\<close>

fun key_less :: "int list \<Rightarrow> int list \<Rightarrow> bool" where
  "key_less (a # as) (b # bs) \<longleftrightarrow> a < b \<or> a = b \<and> key_less as bs"
| "key_less [] (b # bs) \<longleftrightarrow> True"
| "key_less as [] \<longleftrightarrow> False"

section \<open>The document\<close>

definition catalog_schema :: string where "catalog_schema = ''kazenai.price-catalog.v1''"
definition rounding_rule_name :: string where "rounding_rule_name = ''decimal_half_even_to_nanos_then_ceil_micro_usd''"

definition top_keys :: "string list" where
  "top_keys = [''schema'', ''catalog_version'', ''issued_at'', ''expires_at'', ''currency'', ''unit'', ''rounding_rule'', ''rows'',
     ''aliases'', ''anthropic'', ''openai'', ''endpoints'']"

definition row_keys :: "string list" where
  "row_keys = [''provider'', ''model'', ''request_tier'', ''context_band'', ''expected_reported_tier'', ''rates'', ''certified'',
     ''source_url'', ''verified_on'', ''long_context_threshold'', ''pricing_rule'', ''scheduled'', ''valid_until'']"

definition row_required :: "string list" where
  "row_required = [''provider'', ''model'', ''request_tier'', ''context_band'', ''expected_reported_tier'', ''rates'', ''source_url'',
     ''verified_on'', ''pricing_rule'']"

definition rates_keys :: "string list" where
  "rates_keys = [''input'', ''cached_input'', ''cache_write_5m'', ''cache_write_1h'', ''output'', ''image'', ''tool_per_call'',
     ''audio_input'', ''audio_cached_input'']"

definition anthropic_keys :: "string list" where
  "anthropic_keys = [''client_tool_versions'', ''tool_system_prompt_tokens'', ''tool_system_prompt_fallback'', ''tool_definition_tokens'',
     ''allowed_speeds'', ''inference_geo_multipliers'']"

definition openai_keys :: "string list" where
  "openai_keys = [''image_tile_models'', ''image_patch_multipliers'', ''image_patch_sizing'']"

definition endpoint_keys :: "string list" where
  "endpoint_keys = [''first_party_api_hosts'', ''non_first_party_uplift'']"

definition opt_rate :: "(string \<times> pyval) list \<Rightarrow> string \<Rightarrow> rat option res" where
  "opt_rate d k = (if kw d k = PNone then Inr None else bnd (doc_decimal 0 (kw d k)) (\<lambda>q. Inr (Some q)))"

definition parse_doc_rates :: "pyval \<Rightarrow> rate_vector res" where
  "parse_doc_rates v =
     bnd (exact_keys v rates_keys [''input'', ''output'']) (\<lambda>d.
     bnd (doc_decimal 0 (kw d ''input'')) (\<lambda>i. bnd (opt_rate d ''cached_input'') (\<lambda>c.
     bnd (opt_rate d ''cache_write_5m'') (\<lambda>w5. bnd (opt_rate d ''cache_write_1h'') (\<lambda>w1.
     bnd (doc_decimal 0 (kw d ''output'')) (\<lambda>ou. bnd (opt_rate d ''image'') (\<lambda>im.
     bnd (opt_rate d ''tool_per_call'') (\<lambda>tl. bnd (opt_rate d ''audio_input'') (\<lambda>au.
     bnd (opt_rate d ''audio_cached_input'') (\<lambda>ac.
       Inr \<lparr>r_input = i, r_cached_input = c, r_cache_write_5m = w5, r_cache_write_1h = w1, r_output = ou, r_image = im,
            r_tool_per_call = tl, r_audio_input = au, r_audio_cached_input = ac\<rparr>))))))))))"

text \<open>A scheduled change without an instant is kept with an empty one, which \<open>parse_instant\<close> reads the same.\<close>

definition parse_scheduled :: "pyval \<Rightarrow> (string \<times> rate_vector) res" where
  "parse_scheduled v =
     bnd (exact_keys v [''effective_from'', ''rates''] [''effective_from'', ''rates'']) (\<lambda>d.
     bnd (doc_instant (kw d ''effective_from'')) (\<lambda>t. bnd (parse_doc_rates (kw d ''rates'')) (\<lambda>r.
       Inr (case t of None \<Rightarrow> [] | Some s \<Rightarrow> s, r))))"

definition parse_doc_row :: "string \<Rightarrow> pyval \<Rightarrow> catalog_row res" where
  "parse_doc_row version v =
     bnd (exact_keys v row_keys row_required) (\<lambda>d.
     bnd (py_iter (kw d ''scheduled'')) (\<lambda>entries.
     bnd (map_res parse_scheduled entries) (\<lambda>sched.
     bnd (case dget d ''certified'' of None \<Rightarrow> Inr True | Some (PBool b) \<Rightarrow> Inr b | Some _ \<Rightarrow> doc_fail) (\<lambda>cert.
     bnd (doc_lower (kw d ''provider'')) (\<lambda>prov. bnd (doc_lower (kw d ''model'')) (\<lambda>mdl.
     bnd (doc_lower (kw d ''request_tier'')) (\<lambda>tier. bnd (doc_lower (kw d ''context_band'')) (\<lambda>band.
     bnd (doc_text (kw d ''expected_reported_tier'')) (\<lambda>reported. bnd (parse_doc_rates (kw d ''rates'')) (\<lambda>rv.
     bnd (doc_text (kw d ''source_url'')) (\<lambda>src. bnd (doc_text (kw d ''verified_on'')) (\<lambda>ver.
     bnd (if kw d ''long_context_threshold'' = PNone then Inr None
          else bnd (doc_int 1 (kw d ''long_context_threshold'')) (\<lambda>i. Inr (Some i))) (\<lambda>threshold.
     bnd (doc_text (kw d ''pricing_rule'')) (\<lambda>rule. bnd (doc_instant (kw d ''valid_until'')) (\<lambda>until.
       Inr \<lparr>provider = prov, model = mdl, request_tier = tier, context_band = band, expected_reported_tier = reported,
            row_rates = rv, certified = cert, source_url = src, verified_on = ver, long_context_threshold = threshold,
            pricing_rule = rule, label = ''catalog'', catalog_version = version, scheduled = sched, valid_until = until\<rparr>)))))))))))))))"

fun parse_doc_rows :: "string \<Rightarrow> catalog \<Rightarrow> pyval list \<Rightarrow> catalog res" where
  "parse_doc_rows version acc [] = Inr acc"
| "parse_doc_rows version acc (v # vs) =
     bnd (parse_doc_row version v) (\<lambda>row.
       if row_key row \<in> set (map fst acc) then doc_fail
       else parse_doc_rows version (acc @ [(row_key row, row)]) vs)"

fun parse_doc_aliases :: "string list \<Rightarrow> (string \<times> string) list \<Rightarrow> (string \<times> pyval) list \<Rightarrow> (string \<times> string) list res" where
  "parse_doc_aliases models acc [] = Inr acc"
| "parse_doc_aliases models acc ((presented, target) # es) =
     bnd (doc_lower (PStr presented)) (\<lambda>name. bnd (doc_lower target) (\<lambda>canonical.
       if list_ex (\<lambda>c. c \<in> set alias_forbidden) name \<or> canonical \<notin> set models then doc_fail
       else parse_doc_aliases models (dset name canonical acc) es))"

text \<open>A dictionary comprehension over pairs: a later binding of a key replaces an earlier one.\<close>

fun comprehend :: "(pyval \<Rightarrow> string res) \<Rightarrow> (pyval \<Rightarrow> 'a res) \<Rightarrow> (string \<times> 'a) list \<Rightarrow> (pyval \<times> pyval) list \<Rightarrow> (string \<times> 'a) list res" where
  "comprehend key val acc [] = Inr acc"
| "comprehend key val acc ((k, v) # es) = bnd (key k) (\<lambda>n. bnd (val v) (\<lambda>x. comprehend key val (dset n x acc) es))"

text \<open>The loops test and convert the value before the key \<open>str(key).lower()\<close> is bound; the key cannot fail.\<close>

definition lower_key :: "pyval \<Rightarrow> string res" where
  "lower_key k = Inr (py_lower (py_str k))"

definition int_pair :: "int \<Rightarrow> pyval \<Rightarrow> (int \<times> int) res" where
  "int_pair minimum v = (case v of
     PList [a, b] \<Rightarrow> bnd (doc_int minimum a) (\<lambda>x. bnd (doc_int minimum b) (\<lambda>y. Inr (x, y)))
   | _ \<Rightarrow> doc_fail)"

definition sizing_limit :: "pyval \<Rightarrow> (int \<times> int option) res" where
  "sizing_limit v = (case v of
     PList [edge, budget] \<Rightarrow>
       bnd (if budget = PNone then Inr None else bnd (doc_int 1 budget) (\<lambda>i. Inr (Some i))) (\<lambda>b.
       bnd (doc_int 1 edge) (\<lambda>e. Inr (e, b)))
   | _ \<Rightarrow> doc_fail)"

definition sizing_detail :: "pyval \<Rightarrow> string res" where
  "sizing_detail k = (case k of PStr t \<Rightarrow> if t \<in> {''low'', ''high'', ''original''} then Inr t else doc_fail | _ \<Rightarrow> doc_fail)"

definition sizing_entry :: "pyval \<Rightarrow> (string \<times> (int \<times> int option)) list res" where
  "sizing_entry v = (case v of
     PDict d \<Rightarrow> if d = [] then doc_fail else comprehend sizing_detail sizing_limit [] (map (\<lambda>(k, x). (PStr k, x)) d)
   | _ \<Rightarrow> doc_fail)"

text \<open>\<open>set(node)\<close> and then \<open>_exact_keys\<close>: an object, or an error of the one or the other.\<close>

definition prompt_items :: "pyval \<Rightarrow> (pyval \<times> pyval) list res" where
  "prompt_items v = (case v of
     PDict d \<Rightarrow> Inr (map (\<lambda>(k, x). (PStr k, x)) d)
   | PStr _ \<Rightarrow> doc_fail
   | PList l \<Rightarrow> if list_ex (\<lambda>x. case x of PList _ \<Rightarrow> True | PDict _ \<Rightarrow> True | _ \<Rightarrow> False) l then Inl PyTypeError else doc_fail
   | _ \<Rightarrow> Inl PyTypeError)"

definition text_tuple :: "(pyval \<Rightarrow> string res) \<Rightarrow> pyval \<Rightarrow> string list res" where
  "text_tuple f v = bnd (py_elems v) (map_res f)"

definition doc_period :: "rat option \<Rightarrow> rat option \<Rightarrow> unit res" where
  "doc_period ends starts = (case (ends, starts) of
     (Some e, Some i) \<Rightarrow> if e \<le> i then doc_fail else Inr () | _ \<Rightarrow> Inl PyTypeError)"

definition doc_rows :: "string \<Rightarrow> pyval \<Rightarrow> catalog res" where
  "doc_rows version v = (case v of PList l \<Rightarrow> if l = [] then doc_fail else parse_doc_rows version [] l | _ \<Rightarrow> doc_fail)"

definition doc_aliases :: "string list \<Rightarrow> pyval \<Rightarrow> (string \<times> string) list res" where
  "doc_aliases models v = (case v of PDict d \<Rightarrow> parse_doc_aliases models [] d | _ \<Rightarrow> doc_fail)"

definition doc_prompts :: "pyval \<Rightarrow> (string \<times> (int \<times> int)) list res" where
  "doc_prompts v = bnd (prompt_items v) (comprehend lower_key (int_pair 0) [])"

text \<open>A comprehension, or a loop, over \<open>dict(v).items()\<close>.\<close>

definition doc_dict :: "(pyval \<Rightarrow> string res) \<Rightarrow> (pyval \<Rightarrow> 'a res) \<Rightarrow> pyval \<Rightarrow> (string \<times> 'a) list res" where
  "doc_dict key val v = bnd (py_dict v) (comprehend key val [])"

definition parse_payload :: "pyval \<Rightarrow> string option \<Rightarrow> catalog_bundle res" where
  "parse_payload payload sha256 =
     bnd (exact_keys payload top_keys top_keys) (\<lambda>top.
     bnd (raise_if (kw top ''schema'' \<noteq> PStr catalog_schema) CatalogDocumentError) (\<lambda>_.
     bnd (doc_text (kw top ''catalog_version'')) (\<lambda>version.
     bnd (version_key version) (\<lambda>_.
     bnd (raise_if (kw top ''currency'' \<noteq> PStr ''USD'' \<or> kw top ''unit'' \<noteq> PStr ''per_1m_tokens'') CatalogDocumentError) (\<lambda>_.
     bnd (raise_if (kw top ''rounding_rule'' \<noteq> PStr rounding_rule_name) CatalogDocumentError) (\<lambda>_.
     bnd (doc_instant (kw top ''issued_at'')) (\<lambda>issued.
     bnd (doc_instant (kw top ''expires_at'')) (\<lambda>expires.
     bnd (parse_instant expires) (\<lambda>ends. bnd (parse_instant issued) (\<lambda>starts.
     bnd (doc_period ends starts) (\<lambda>_.
     bnd (doc_rows version (kw top ''rows'')) (\<lambda>rows.
     bnd (doc_aliases (map (model \<circ> snd) rows) (kw top ''aliases'')) (\<lambda>aliases.
     bnd (exact_keys (kw top ''anthropic'') anthropic_keys anthropic_keys) (\<lambda>anth.
     bnd (doc_prompts (kw anth ''tool_system_prompt_tokens'')) (\<lambda>prompts.
     bnd (doc_dict doc_text (doc_int 0) (kw anth ''tool_definition_tokens'')) (\<lambda>definitions.
     bnd (doc_dict doc_lower (doc_decimal 1) (kw anth ''inference_geo_multipliers'')) (\<lambda>geo.
     bnd (text_tuple doc_lower (kw anth ''allowed_speeds'')) (\<lambda>speeds.
     bnd (text_tuple doc_text (kw anth ''client_tool_versions'')) (\<lambda>tools.
     bnd (exact_keys (kw top ''openai'') openai_keys openai_keys) (\<lambda>oai.
     bnd (doc_dict lower_key (int_pair 1) (kw oai ''image_tile_models'')) (\<lambda>tiles.
     bnd (doc_dict lower_key (doc_decimal 1) (kw oai ''image_patch_multipliers'')) (\<lambda>patches.
     bnd (doc_dict lower_key sizing_entry (kw oai ''image_patch_sizing'')) (\<lambda>sizing.
     bnd (exact_keys (kw top ''endpoints'') endpoint_keys endpoint_keys) (\<lambda>ep.
     bnd (doc_dict doc_lower (text_tuple doc_lower) (kw ep ''first_party_api_hosts'')) (\<lambda>hosts.
     bnd (doc_decimal 1 (kw ep ''non_first_party_uplift'')) (\<lambda>uplift.
     bnd (doc_int 0 (kw anth ''tool_system_prompt_fallback'')) (\<lambda>fallback.
       Inr \<lparr>b_version = version, b_source = ''live'', b_rows = rows, b_aliases = aliases, b_client_tool_versions = tools,
            b_tool_prompt_tokens = prompts, b_tool_prompt_fallback = fallback, b_tool_definition_tokens = definitions,
            b_tile_models = tiles, b_patch_multipliers = patches, b_patch_sizing = sizing, b_inference_geo = geo,
            b_allowed_speeds = speeds, b_first_party_hosts = hosts, b_non_first_party_uplift = uplift,
            b_issued_at = issued, b_expires_at = expires, b_sha256 = sha256\<rparr>)))))))))))))))))))))))))))"

end
