(* ===== verification/Catalog_Accept.thy ===== *)
theory Catalog_Accept
  imports Catalog_Document
begin

text \<open>
  What a process accepts as its price catalog (kazenai/catalog_document.py from line 414 on, and
  kazenai/catalog_feed.py): the trusted keys, the check of an envelope's signatures, the floor under which no
  version is accepted, and the feed that offers cached and fetched envelopes. \<open>ed_verify key message signature\<close>
  is the Ed25519 check of the cryptography package, \<open>sha\<close> the hex digest, \<open>loads\<close> and \<open>dumps\<close> are
  \<open>json.loads\<close> and \<open>canonical_bytes\<close>.
\<close>

section \<open>Base64url\<close>

definition sextet :: "char \<Rightarrow> nat option" where
  "sextet c = (let n = char_code c in
     if 65 \<le> n \<and> n \<le> 90 then Some (n - 65) else if 97 \<le> n \<and> n \<le> 122 then Some (n - 71)
     else if 48 \<le> n \<and> n \<le> 57 then Some (n + 4) else if n = 45 then Some 62 else if n = 95 then Some 63 else None)"

definition byte_of :: "nat \<Rightarrow> char" where
  "byte_of n = char_of (n mod 256)"

fun sextets_bytes :: "nat list \<Rightarrow> string option" where
  "sextets_bytes (a # b # c # d # r) = map_option
     (\<lambda>t. byte_of (a * 4 + b div 16) # byte_of (b * 16 + c div 4) # byte_of (c * 64 + d) # t) (sextets_bytes r)"
| "sextets_bytes [a, b, c] = Some [byte_of (a * 4 + b div 16), byte_of (b * 16 + c div 4)]"
| "sextets_bytes [a, b] = Some [byte_of (a * 4 + b div 16)]"
| "sextets_bytes [a] = None"
| "sextets_bytes [] = Some []"

definition b64url_decode :: "pyval \<Rightarrow> string res" where
  "b64url_decode v = (case v of
     PStr s \<Rightarrow> if s = [] \<or> \<not> list_all (\<lambda>c. sextet c \<noteq> None) s then doc_fail
               else (case sextets_bytes (map (\<lambda>c. case sextet c of Some n \<Rightarrow> n | None \<Rightarrow> 0) s) of
                       None \<Rightarrow> doc_fail | Some b \<Rightarrow> Inr b)
   | _ \<Rightarrow> doc_fail)"

section \<open>Keys\<close>

definition pinned_keys :: "(string \<times> string) list" where
  "pinned_keys = [(''kzprice-2026-10'', ''pOKKh2JTvCt0n4IevCeIBy7_gbmRougGttWcoHlt8TQ'')]"

text \<open>The pattern \<open>[A-Za-z0-9_.-]{1,64}\<close>, whose dollar lets a final line end pass.\<close>

definition kid_ok :: "string \<Rightarrow> bool" where
  "kid_ok kid = (let t = (if kid \<noteq> [] \<and> char_code (last kid) = 10 then butlast kid else kid) in
     t \<noteq> [] \<and> length t \<le> 64 \<and> list_all (\<lambda>c. sextet c \<noteq> None \<or> c = CHR ''.'') t)"

fun add_extra_keys :: "(string \<times> string) list \<Rightarrow> (string \<times> pyval) list \<Rightarrow> (string \<times> string) list res" where
  "add_extra_keys keys [] = Inr keys"
| "add_extra_keys keys ((kid, v) # es) =
     (case dget keys kid of
        Some k \<Rightarrow> if v \<noteq> PStr k then doc_fail else add_extra_keys (dset kid (py_str v) keys) es
      | None \<Rightarrow> add_extra_keys (dset kid (py_str v) keys) es)"

fun decode_keys :: "(string \<times> string) list \<Rightarrow> (string \<times> string) list res" where
  "decode_keys [] = Inr []"
| "decode_keys ((kid, v) # ks) =
     (if \<not> kid_ok kid then doc_fail
      else bnd (b64url_decode (PStr v)) (\<lambda>raw.
        if length raw \<noteq> 32 then doc_fail else bnd (decode_keys ks) (\<lambda>out. Inr ((kid, raw) # out))))"

definition trusted_keys :: "(string \<Rightarrow> pyval option) \<Rightarrow> string option \<Rightarrow> (string \<times> string) list res" where
  "trusted_keys loads setting =
     (let raw = py_strip (case setting of None \<Rightarrow> [] | Some s \<Rightarrow> s)
      in bnd (if raw = [] then Inr pinned_keys
              else (case loads raw of Some (PDict extra) \<Rightarrow> add_extra_keys pinned_keys extra | _ \<Rightarrow> doc_fail)) decode_keys)"

section \<open>Envelopes\<close>

definition max_envelope_bytes :: nat where "max_envelope_bytes = 2 * 1024 * 1024"
definition envelope_format :: string where "envelope_format = ''kazenai.price-catalog.signed.v1''"

text \<open>The argument of \<open>verify_envelope\<close>: bytes or an object.\<close>

datatype envelope = RawBytes string | Parsed pyval

text \<open>The library functions the code calls; \<open>has_ed25519\<close> is false when the package is not installed.\<close>

record crypto =
  has_ed25519 :: bool
  ed_verify :: "string \<Rightarrow> string \<Rightarrow> string \<Rightarrow> bool"
  sha_hex :: "string \<Rightarrow> string"
  loads :: "string \<Rightarrow> pyval option"
  dumps :: "pyval \<Rightarrow> string"

definition verify_signature :: "crypto \<Rightarrow> string \<Rightarrow> string \<Rightarrow> string \<Rightarrow> bool res" where
  "verify_signature lib key message sig =
     (if \<not> has_ed25519 lib then doc_fail else Inr (ed_verify lib key message sig))"

text \<open>The loop over the signatures, up to the first that verifies.\<close>

fun first_verified :: "crypto \<Rightarrow> (string \<times> string) list \<Rightarrow> string \<Rightarrow> pyval list \<Rightarrow> string res" where
  "first_verified lib trusted message [] = Inr []"
| "first_verified lib trusted message (entry # es) =
     bnd (exact_keys entry [''kid'', ''alg'', ''sig''] [''kid'', ''alg'', ''sig'']) (\<lambda>item.
     if kw item ''alg'' \<noteq> PStr ''Ed25519'' then first_verified lib trusted message es
     else (case dget trusted (py_str (kw item ''kid'')) of
        None \<Rightarrow> first_verified lib trusted message es
      | Some public \<Rightarrow>
          bnd (b64url_decode (kw item ''sig'')) (\<lambda>sig.
          bnd (verify_signature lib public message sig) (\<lambda>ok.
            if ok then Inr (py_str (kw item ''kid'')) else first_verified lib trusted message es))))"

definition envelope_node :: "crypto \<Rightarrow> envelope \<Rightarrow> pyval res" where
  "envelope_node lib env = (case env of
     Parsed v \<Rightarrow> Inr v
   | RawBytes b \<Rightarrow> if length b > max_envelope_bytes then doc_fail
                   else (case loads lib b of None \<Rightarrow> doc_fail | Some v \<Rightarrow> Inr v))"

definition verify_envelope ::
  "crypto \<Rightarrow> string option \<Rightarrow> (string \<times> string) list option \<Rightarrow> envelope \<Rightarrow> (pyval \<times> string \<times> string) res" where
  "verify_envelope lib setting keys env =
     bnd (envelope_node lib env) (\<lambda>v.
     bnd (exact_keys v [''format'', ''payload'', ''signatures''] [''format'', ''payload'', ''signatures'']) (\<lambda>node.
     bnd (raise_if (kw node ''format'' \<noteq> PStr envelope_format) CatalogDocumentError) (\<lambda>_.
     bnd (case kw node ''payload'' of
            PStr t \<Rightarrow> if length t > max_envelope_bytes then doc_fail else Inr t | _ \<Rightarrow> doc_fail) (\<lambda>message.
     bnd (case keys of Some ks \<Rightarrow> Inr ks | None \<Rightarrow> trusted_keys (loads lib) setting) (\<lambda>trusted.
     bnd (raise_if (trusted = []) CatalogDocumentError) (\<lambda>_.
     bnd (case kw node ''signatures'' of PList l \<Rightarrow> if l = [] then doc_fail else Inr l | _ \<Rightarrow> doc_fail) (\<lambda>sigs.
     bnd (first_verified lib trusted message sigs) (\<lambda>kid.
     bnd (raise_if (kid = []) CatalogDocumentError) (\<lambda>_.
     bnd (case loads lib message of None \<Rightarrow> doc_fail | Some p \<Rightarrow> Inr p) (\<lambda>payload.
     bnd (raise_if (dumps lib payload \<noteq> message) CatalogDocumentError) (\<lambda>_.
       Inr (payload, kid, sha_hex lib message))))))))))))"

section \<open>Acceptance\<close>

text \<open>The module variables \<open>_LIVE\<close> and \<open>_HIGHEST_ACCEPTED\<close>.\<close>

record catalog_state =
  live_bundle :: "catalog_bundle option"
  highest_accepted :: "string option"

definition fresh_catalogs :: catalog_state where
  "fresh_catalogs = \<lparr>live_bundle = None, highest_accepted = None\<rparr>"

definition older_than :: "string \<Rightarrow> string \<Rightarrow> bool res" where
  "older_than version seen = bnd (version_key version) (\<lambda>v. bnd (version_key seen) (\<lambda>s. Inr (key_less v s)))"

definition refuse_older :: "string \<Rightarrow> string \<Rightarrow> unit res" where
  "refuse_older version seen = bnd (older_than version seen) (\<lambda>b. raise_if b CatalogDocumentError)"

text \<open>The versions that bind: the caller's and the process's, where there is one.\<close>

definition floors :: "string option \<Rightarrow> string option \<Rightarrow> string list" where
  "floors minimum highest =
     filter (\<lambda>s. s \<noteq> []) ((case minimum of None \<Rightarrow> [] | Some s \<Rightarrow> [s]) @ (case highest of None \<Rightarrow> [] | Some s \<Rightarrow> [s]))"

definition issued_skew :: rat where "issued_skew = 3600"

text \<open>The checks of \<open>accept_envelope\<close>, in its order; \<open>Inr\<close> the bundle it may install.\<close>

definition acceptable ::
  "crypto \<Rightarrow> string option \<Rightarrow> (string \<times> string) list option \<Rightarrow> string option \<Rightarrow> rat \<Rightarrow> string option \<Rightarrow> envelope
   \<Rightarrow> catalog_bundle res" where
  "acceptable lib setting keys minimum now highest env =
     bnd (verify_envelope lib setting keys env) (\<lambda>(payload, kid, digest).
     bnd (parse_payload payload (Some digest)) (\<lambda>b.
     bnd (refuse_older (b_version b) (b_version bundled)) (\<lambda>_.
     bnd (for_each (refuse_older (b_version b)) (floors minimum highest)) (\<lambda>_.
     bnd (bundle_expired now b) (\<lambda>over.
     bnd (raise_if over CatalogDocumentError) (\<lambda>_.
     bnd (parse_instant (b_issued_at b)) (\<lambda>issued.
     bnd (raise_if (case issued of None \<Rightarrow> False | Some t \<Rightarrow> t - now > issued_skew) CatalogDocumentError) (\<lambda>_.
       Inr b))))))))"

definition raise_floor :: "string option \<Rightarrow> string \<Rightarrow> string option res" where
  "raise_floor highest version = (case highest of None \<Rightarrow> Inr (Some version)
     | Some h \<Rightarrow> bnd (older_than h version) (\<lambda>b. Inr (if b then Some version else Some h)))"

definition accept_envelope ::
  "crypto \<Rightarrow> string option \<Rightarrow> (string \<times> string) list option \<Rightarrow> string option \<Rightarrow> rat \<Rightarrow> bool \<Rightarrow> envelope \<Rightarrow> catalog_state
   \<Rightarrow> catalog_state \<times> catalog_bundle res" where
  "accept_envelope lib setting keys minimum now install env s =
     (case acceptable lib setting keys minimum now (highest_accepted s) env of
        Inl e \<Rightarrow> (s, Inl e)
      | Inr b \<Rightarrow>
          if install
          then (let s' = s\<lparr>live_bundle := Some b\<rparr> in
                case raise_floor (highest_accepted s') (b_version b) of
                  Inl e \<Rightarrow> (s', Inl e)
                | Inr h \<Rightarrow> (s'\<lparr>highest_accepted := h\<rparr>, Inr b))
          else (s, Inr b))"

section \<open>The feed\<close>

text \<open>\<open>refresh_now\<close> and \<open>_load_cache\<close> of catalog_feed.py. \<open>offer\<close> is what the request to FinOps
  gives; \<open>cache_file\<close> the private cache file of \<open>cache_path\<close>, absent when the directory is not usable.\<close>

datatype offer = Fetched string "string option" | HttpStatus nat | Unreachable

record feed =
  catalogs :: catalog_state
  feed_etag :: "string option"
  cache_usable :: bool
  cache_file :: "string option"

definition feed_take :: "crypto \<Rightarrow> string option \<Rightarrow> rat \<Rightarrow> string \<Rightarrow> feed \<Rightarrow> feed \<times> catalog_bundle res" where
  "feed_take lib setting now raw f =
     (let (s, r) = accept_envelope lib setting None None now True (RawBytes raw) (catalogs f) in (f\<lparr>catalogs := s\<rparr>, r))"

definition load_cache :: "crypto \<Rightarrow> string option \<Rightarrow> rat \<Rightarrow> feed \<Rightarrow> feed \<times> unit res" where
  "load_cache lib setting now f =
     (case cache_file f of
        None \<Rightarrow> (f, Inr ())
      | Some raw \<Rightarrow>
          if \<not> cache_usable f then (f, Inr ())
          else (let (f', r) = feed_take lib setting now (take (max_envelope_bytes + 1) raw) f in
                (f', case r of Inl e \<Rightarrow> raise_if (e \<notin> {CatalogDocumentError, PyOSError}) e | Inr _ \<Rightarrow> Inr ())))"

definition write_cache :: "string \<Rightarrow> feed \<Rightarrow> feed" where
  "write_cache raw f = (if cache_usable f then f\<lparr>cache_file := Some raw\<rparr> else f)"

definition refresh_now :: "crypto \<Rightarrow> string option \<Rightarrow> rat \<Rightarrow> string \<Rightarrow> offer \<Rightarrow> feed \<Rightarrow> feed \<times> string res" where
  "refresh_now lib setting now base off f =
     (if rstrip_char CHR ''/'' base = [] then (f, Inr ''unconfigured'')
      else case off of
        HttpStatus n \<Rightarrow> (f, Inr (if n = 304 then ''not_modified'' else if n \<in> {204, 404} then ''none_published'' else ''http_error''))
      | Unreachable \<Rightarrow> (f, Inr ''unreachable'')
      | Fetched raw etag \<Rightarrow>
          (let body = take (max_envelope_bytes + 1) raw; (f', r) = feed_take lib setting now body f in
           case r of
             Inl e \<Rightarrow> (f', if e = CatalogDocumentError then Inr ''refused'' else Inl e)
           | Inr _ \<Rightarrow> (write_cache body (f'\<lparr>feed_etag := etag\<rparr>), Inr ''installed'')))"

section \<open>The hook on the call path\<close>

text \<open>\<open>ensure_current\<close>: what \<open>_STATE\<close> holds besides the etag; \<open>worker_alive\<close> says whether the last started
  thread still runs. An exception is swallowed and leaves what was done before it.\<close>

record feed_hook =
  hook_pid :: "nat option"
  cache_loaded :: bool
  last_attempt :: rat
  worker_alive :: bool

definition reset_after_fork :: feed_hook where
  "reset_after_fork = \<lparr>hook_pid = None, cache_loaded = False, last_attempt = 0, worker_alive = False\<rparr>"

text \<open>\<open>parse\<close> is \<open>float(text)\<close>; \<open>max(30.0, x)\<close> is 30 when \<open>x\<close> is not a number.\<close>

definition refresh_interval :: "(string \<Rightarrow> fl option) \<Rightarrow> string option \<Rightarrow> fl" where
  "refresh_interval parse setting =
     (case parse (case setting of None \<Rightarrow> ''900.0'' | Some s \<Rightarrow> s) of
        None \<Rightarrow> Fin 900
      | Some (Fin q) \<Rightarrow> Fin (max 30 q) | Some PosInf \<Rightarrow> PosInf | Some _ \<Rightarrow> Fin 30)"

definition feed_enabled :: "crypto \<Rightarrow> string option \<Rightarrow> string option \<Rightarrow> string \<Rightarrow> bool" where
  "feed_enabled lib setting live base =
     (py_strip (case live of None \<Rightarrow> ''1'' | Some s \<Rightarrow> s) \<noteq> ''0'' \<and> rstrip_char CHR ''/'' base \<noteq> [] \<and>
      (case trusted_keys (loads lib) setting of Inr ks \<Rightarrow> ks \<noteq> [] | Inl _ \<Rightarrow> False) \<and> has_ed25519 lib)"

definition refresh_due :: "fl \<Rightarrow> rat \<Rightarrow> feed_hook \<Rightarrow> bool" where
  "refresh_due interval clock h \<longleftrightarrow> last_attempt h = 0 \<or> (case interval of Fin q \<Rightarrow> q \<le> clock - last_attempt h | _ \<Rightarrow> False)"

definition ensure_current ::
  "crypto \<Rightarrow> string option \<Rightarrow> bool \<Rightarrow> nat \<Rightarrow> rat \<Rightarrow> rat \<Rightarrow> fl \<Rightarrow> feed_hook \<times> feed \<Rightarrow> feed_hook \<times> feed" where
  "ensure_current lib setting on pid now clock interval hf =
     (if \<not> on then hf
      else let same = (hook_pid (fst hf) = Some pid);
               h = (if same then fst hf else reset_after_fork\<lparr>hook_pid := Some pid\<rparr>);
               f = (if same then snd hf else (snd hf)\<lparr>feed_etag := None\<rparr>);
               (f', r) = (if cache_loaded h then (f, Inr ()) else load_cache lib setting now f);
               h' = h\<lparr>cache_loaded := True\<rparr>
           in if r \<noteq> Inr () then (h', f')
              else if refresh_due interval clock h' \<and> \<not> worker_alive h'
              then (h'\<lparr>last_attempt := clock, worker_alive := True\<rparr>, f') else (h', f'))"

text \<open>Offers over time: a restart keeps only the cache file.\<close>

datatype feed_event = Refresh rat string offer | LoadCache rat | Restart

definition feed_step :: "crypto \<Rightarrow> string option \<Rightarrow> feed_event \<Rightarrow> feed \<Rightarrow> feed" where
  "feed_step lib setting ev f = (case ev of
     Refresh now base off \<Rightarrow> fst (refresh_now lib setting now base off f)
   | LoadCache now \<Rightarrow> fst (load_cache lib setting now f)
   | Restart \<Rightarrow> f\<lparr>catalogs := fresh_catalogs, feed_etag := None\<rparr>)"

fun feed_run :: "crypto \<Rightarrow> string option \<Rightarrow> feed_event list \<Rightarrow> feed \<Rightarrow> feed" where
  "feed_run lib setting [] f = f"
| "feed_run lib setting (ev # evs) f = feed_run lib setting evs (feed_step lib setting ev f)"

end
