(* ===== verification/Document_Facts.thy ===== *)
theory Document_Facts
  imports Catalog_Accept
begin

text \<open>
  What the parser of catalog documents guarantees, and what a process that accepts signed catalogs keeps:
  the lemmas and the properties of Catalog_Document and Catalog_Accept.
\<close>

section \<open>The parser\<close>

lemma raise_ifE: "raise_if c e = Inr u \<Longrightarrow> (\<not> c \<Longrightarrow> P) \<Longrightarrow> P"
  by simp

lemma doc_fail_neq [simp]: "doc_fail \<noteq> Inr x"
  by (simp add: doc_fail_def)

lemma doc_decimal_ge: "doc_decimal m v = Inr q \<Longrightarrow> m \<le> q"
  by (auto simp: doc_decimal_def Let_def split: pyval.splits option.splits dec.splits if_splits)

lemma doc_int_ge: "doc_int m v = Inr i \<Longrightarrow> m \<le> i"
  by (auto simp: doc_int_def split: pyval.splits if_splits)

lemma int_pair_ge: "int_pair m v = Inr x \<Longrightarrow> m \<le> fst x \<and> m \<le> snd x"
  by (auto simp: int_pair_def bnd_eq_Inr doc_int_ge split: pyval.splits list.splits)

lemma opt_rate_nonneg: "opt_rate d k = Inr x \<Longrightarrow> opt_nonneg x"
  by (auto simp: opt_rate_def bnd_eq_Inr opt_nonneg_def dest: doc_decimal_ge split: if_splits)

lemma parse_doc_rates_nonneg: "parse_doc_rates v = Inr r \<Longrightarrow> rates_nonneg r"
  by (auto simp: parse_doc_rates_def bnd_eq_Inr rates_nonneg_opt dest: opt_rate_nonneg doc_decimal_ge)

lemma map_res_values: "map_res f xs = Inr ys \<Longrightarrow> (\<And>x y. f x = Inr y \<Longrightarrow> P y) \<Longrightarrow> \<forall>y \<in> set ys. P y"
  by (induction xs arbitrary: ys) (auto simp: bnd_eq_Inr)

lemma comprehend_all:
  assumes "comprehend key val acc es = Inr d" "\<And>v x. val v = Inr x \<Longrightarrow> P x"
    "distinct (map fst acc)" "\<forall>(k, x) \<in> set acc. P x"
  shows "distinct (map fst d) \<and> (\<forall>(k, x) \<in> set d. P x)"
  using assms(1,3,4)
proof (induction es arbitrary: acc)
  case (Cons e es)
  obtain k v where e: "e = (k, v)" by (cases e)
  with Cons.prems(1) obtain n x where x: "key k = Inr n" "val v = Inr x" "comprehend key val (dset n x acc) es = Inr d"
    by (auto simp: bnd_eq_Inr)
  have "\<forall>(j, y) \<in> set (dset n x acc). P y"
    using set_dset [OF Cons.prems(2), of n x] assms(2) [OF x(2)] Cons.prems(3) by blast
  moreover have "distinct (map fst (dset n x acc))" using Cons.prems(2) by (simp add: map_fst_dset)
  ultimately show ?case using Cons.IH [OF x(3)] by blast
qed simp

definition doc_row_ok :: "string \<Rightarrow> catalog_row \<Rightarrow> bool" where
  "doc_row_ok version r \<longleftrightarrow> catalog_version r = version \<and> rates_nonneg (row_rates r) \<and>
     (\<forall>(t, rv) \<in> set (scheduled r). rates_nonneg rv) \<and>
     (case long_context_threshold r of None \<Rightarrow> True | Some n \<Rightarrow> 1 \<le> n)"

lemma parse_scheduled_nonneg: "parse_scheduled v = Inr (t, rv) \<Longrightarrow> rates_nonneg rv"
  by (auto simp: parse_scheduled_def bnd_eq_Inr dest: parse_doc_rates_nonneg)

lemma scheduled_nonneg: "map_res parse_scheduled vs = Inr s \<Longrightarrow> (t, rv) \<in> set s \<Longrightarrow> rates_nonneg rv"
  by (drule map_res_values [where P = "\<lambda>e. rates_nonneg (snd e)"]) (metis parse_scheduled_nonneg prod.collapse, auto)

lemma parse_doc_row_ok:
  assumes "parse_doc_row version v = Inr r"
  shows "doc_row_ok version r"
  using assms
  by (auto simp: parse_doc_row_def bnd_eq_Inr doc_row_ok_def dest: parse_doc_rates_nonneg doc_int_ge scheduled_nonneg
      split: if_splits)

lemma parse_doc_rows_ok:
  assumes "parse_doc_rows version acc vs = Inr rows"
    "distinct (map fst acc)" "\<forall>(k, r) \<in> set acc. k = row_key r \<and> doc_row_ok version r"
  shows "distinct (map fst rows) \<and> (\<forall>(k, r) \<in> set rows. k = row_key r \<and> doc_row_ok version r)
    \<and> length rows = length acc + length vs"
  using assms
proof (induction vs arbitrary: acc)
  case (Cons v vs)
  from Cons.prems(1) obtain r where r: "parse_doc_row version v = Inr r" "row_key r \<notin> set (map fst acc)"
    "parse_doc_rows version (acc @ [(row_key r, r)]) vs = Inr rows"
    by (auto simp: bnd_eq_Inr split: if_splits)
  from Cons.IH [OF r(3)] r(2) Cons.prems(2,3) parse_doc_row_ok [OF r(1)] show ?case by auto
qed auto

lemma parse_doc_aliases_ok:
  assumes "parse_doc_aliases models acc es = Inr d" "distinct (map fst acc)"
    "\<forall>(a, m) \<in> set acc. m \<in> set models \<and> (\<forall>c \<in> set a. c \<notin> set alias_forbidden)"
  shows "distinct (map fst d) \<and> (\<forall>(a, m) \<in> set d. m \<in> set models \<and> (\<forall>c \<in> set a. c \<notin> set alias_forbidden))"
  using assms
proof (induction es arbitrary: acc)
  case (Cons e es)
  obtain k v where e: "e = (k, v)" by (cases e)
  with Cons.prems(1) obtain n m where x: "parse_doc_aliases models (dset n m acc) es = Inr d"
    "m \<in> set models" "\<not> list_ex (\<lambda>c. c \<in> set alias_forbidden) n"
    by (auto simp: bnd_eq_Inr split: if_splits)
  then have n: "\<forall>c \<in> set n. c \<notin> set alias_forbidden" by (auto simp: list_ex_iff)
  have "\<forall>(a, m) \<in> set (dset n m acc). m \<in> set models \<and> (\<forall>c \<in> set a. c \<notin> set alias_forbidden)"
    using set_dset [OF Cons.prems(2), of n m] Cons.prems(3) x(2) n by blast
  moreover have "distinct (map fst (dset n m acc))" using Cons.prems(2) by (simp add: map_fst_dset)
  ultimately show ?case using Cons.IH [OF x(1)] by blast
qed simp

definition in_lower_bounds :: "catalog_bundle \<Rightarrow> bool" where
  "in_lower_bounds b \<longleftrightarrow>
     0 \<le> b_tool_prompt_fallback b \<and> 1 \<le> b_non_first_party_uplift b \<and>
     (\<forall>(m, x, y) \<in> set (b_tool_prompt_tokens b). 0 \<le> x \<and> 0 \<le> y) \<and>
     (\<forall>(n, i) \<in> set (b_tool_definition_tokens b). 0 \<le> i) \<and>
     (\<forall>(g, q) \<in> set (b_inference_geo b). 1 \<le> q) \<and>
     (\<forall>(m, x, y) \<in> set (b_tile_models b). 1 \<le> x \<and> 1 \<le> y) \<and>
     (\<forall>(m, q) \<in> set (b_patch_multipliers b). 1 \<le> q)"

definition sound_catalog :: "catalog_bundle \<Rightarrow> bool" where
  "sound_catalog b \<longleftrightarrow>
     b_rows b \<noteq> [] \<and> distinct (map fst (b_rows b)) \<and>
     (\<forall>(k, r) \<in> set (b_rows b). k = row_key r \<and> doc_row_ok (b_version b) r) \<and>
     (\<forall>(a, m) \<in> set (b_aliases b). m \<in> model ` snd ` set (b_rows b) \<and> (\<forall>c \<in> set a. c \<notin> set alias_forbidden)) \<and>
     in_lower_bounds b"

definition dated_catalog :: "catalog_bundle \<Rightarrow> bool" where
  "dated_catalog b \<longleftrightarrow> (\<exists>k. version_key (b_version b) = Inr k) \<and>
     (\<exists>i e. parse_instant (b_issued_at b) = Inr (Some i) \<and> parse_instant (b_expires_at b) = Inr (Some e) \<and> i < e)"

lemma bndE: "bnd m f = Inr y \<Longrightarrow> (\<And>x. m = Inr x \<Longrightarrow> f x = Inr y \<Longrightarrow> P) \<Longrightarrow> P"
  by (auto simp: bnd_eq_Inr)

lemma comprehended:
  assumes "bnd items (comprehend key val []) = Inr d" "\<And>v x. val v = Inr x \<Longrightarrow> P x"
  shows "\<forall>(k, x) \<in> set d. P x"
proof -
  from assms(1) obtain es where "comprehend key val [] es = Inr d" by (auto simp: bnd_eq_Inr)
  from comprehend_all [OF this assms(2)] show ?thesis by simp
qed

lemma parse_payload_parts:
  assumes "parse_payload p sha = Inr b"
  shows "(\<exists>k. version_key (b_version b) = Inr k) \<and>
    (\<exists>e i. parse_instant (b_expires_at b) = Inr e \<and> parse_instant (b_issued_at b) = Inr i \<and> (\<exists>u. doc_period e i = Inr u)) \<and>
    b_sha256 b = sha \<and> b_source b = ''live'' \<and>
    (\<exists>x. doc_rows (b_version b) x = Inr (b_rows b)) \<and>
    (\<exists>x. doc_aliases (map (model \<circ> snd) (b_rows b)) x = Inr (b_aliases b)) \<and>
    (\<exists>x. doc_prompts x = Inr (b_tool_prompt_tokens b)) \<and>
    (\<exists>x. doc_dict doc_text (doc_int 0) x = Inr (b_tool_definition_tokens b)) \<and>
    (\<exists>x. doc_dict doc_lower (doc_decimal 1) x = Inr (b_inference_geo b)) \<and>
    (\<exists>x. doc_dict lower_key (int_pair 1) x = Inr (b_tile_models b)) \<and>
    (\<exists>x. doc_dict lower_key (doc_decimal 1) x = Inr (b_patch_multipliers b)) \<and>
    (\<exists>x. doc_decimal 1 x = Inr (b_non_first_party_uplift b)) \<and> (\<exists>x. doc_int 0 x = Inr (b_tool_prompt_fallback b))"
proof -
  from assms show ?thesis
    unfolding parse_payload_def
    by (elim bndE, elim Inr_inject [elim_format], hypsubst, simp (no_asm) only: catalog_bundle.simps)
      (intro conjI refl; fast)
qed

lemma doc_rows_Inr: "doc_rows v x = Inr r \<Longrightarrow> \<exists>l. l \<noteq> [] \<and> parse_doc_rows v [] l = Inr r"
  by (cases x) (auto simp: doc_rows_def split: if_splits)

lemma doc_aliases_Inr: "doc_aliases m x = Inr r \<Longrightarrow> \<exists>d. parse_doc_aliases m [] d = Inr r"
  by (cases x) (auto simp: doc_aliases_def)

lemma doc_period_Inr: "doc_period e i = Inr u \<Longrightarrow> \<exists>y x. e = Some y \<and> i = Some x \<and> x < y"
  by (cases e; cases i) (auto simp: doc_period_def split: if_splits)

lemma parse_payload_sound:
  assumes "parse_payload p sha = Inr b"
  shows "sound_catalog b"
proof -
  note parts = parse_payload_parts [OF assms]
  from parts obtain l where l: "l \<noteq> []" "parse_doc_rows (b_version b) [] l = Inr (b_rows b)"
    using doc_rows_Inr by blast
  from parts obtain d where d: "parse_doc_aliases (map (model \<circ> snd) (b_rows b)) [] d = Inr (b_aliases b)"
    using doc_aliases_Inr by blast
  from parts obtain x1 x2 x3 x4 x5 x6 x7 where x:
    "doc_prompts x1 = Inr (b_tool_prompt_tokens b)"
    "doc_dict doc_text (doc_int 0) x2 = Inr (b_tool_definition_tokens b)"
    "doc_dict doc_lower (doc_decimal 1) x3 = Inr (b_inference_geo b)"
    "doc_dict lower_key (int_pair 1) x4 = Inr (b_tile_models b)"
    "doc_dict lower_key (doc_decimal 1) x5 = Inr (b_patch_multipliers b)"
    "doc_decimal 1 x6 = Inr (b_non_first_party_uplift b)" "doc_int 0 x7 = Inr (b_tool_prompt_fallback b)"
    by (elim conjE exE) rule
  have "in_lower_bounds b"
    using comprehended [OF x(1) [unfolded doc_prompts_def], of "\<lambda>(x, y). 0 \<le> x \<and> 0 \<le> y"]
      comprehended [OF x(2) [unfolded doc_dict_def], of "\<lambda>i. 0 \<le> i"]
      comprehended [OF x(3) [unfolded doc_dict_def], of "\<lambda>i. 1 \<le> i"]
      comprehended [OF x(4) [unfolded doc_dict_def], of "\<lambda>(x, y). 1 \<le> x \<and> 1 \<le> y"]
      comprehended [OF x(5) [unfolded doc_dict_def], of "\<lambda>i. 1 \<le> i"]
      doc_decimal_ge [OF x(6)] doc_int_ge [OF x(7)]
    unfolding in_lower_bounds_def
    by (intro conjI) (simp_all add: int_pair_ge doc_int_ge doc_decimal_ge split_beta)
  with parse_doc_rows_ok [OF l(2)] parse_doc_aliases_ok [OF d] l(1) show ?thesis
    by (auto simp: sound_catalog_def image_image)
qed

lemma parse_payload_dated:
  assumes "parse_payload p sha = Inr b"
  shows "dated_catalog b"
proof -
  from parse_payload_parts [OF assms] obtain k e i u where
    d: "version_key (b_version b) = Inr k" "parse_instant (b_expires_at b) = Inr e"
      "parse_instant (b_issued_at b) = Inr i" "doc_period e i = Inr u"
    by (elim conjE exE) rule
  from doc_period_Inr [OF d(4)] d(1-3) show ?thesis by (auto simp: dated_catalog_def)
qed

lemma parse_payload_sha: "parse_payload p sha = Inr b \<Longrightarrow> b_sha256 b = sha"
  using parse_payload_parts by blast

section \<open>The order of versions\<close>

lemma key_less_irrefl: "\<not> key_less k k"
  by (induction k) auto

lemma key_less_trans: "key_less a b \<Longrightarrow> key_less b c \<Longrightarrow> key_less a c"
  by (induction a b arbitrary: c rule: key_less.induct) (case_tac c; auto)+

lemma key_less_total: "key_less a b \<or> a = b \<or> key_less b a"
proof (induction a b rule: key_less.induct)
  case (3 as) then show ?case by (cases as) auto
qed auto

lemma key_less_flip:
  assumes "\<not> key_less b a" "\<not> key_less c b"
  shows "\<not> key_less c a"
  using assms key_less_total [of a b] key_less_total [of b c] by (metis key_less_trans)

text \<open>\<open>v\<close> is a version and not older than \<open>w\<close>.\<close>

definition not_older :: "string \<Rightarrow> string \<Rightarrow> bool" where
  "not_older v w \<longleftrightarrow> (case (version_key v, version_key w) of (Inr a, Inr b) \<Rightarrow> \<not> key_less a b | _ \<Rightarrow> False)"

lemma refuse_older_Inr: "refuse_older v w = Inr u \<longleftrightarrow> not_older v w"
  by (auto simp: refuse_older_def older_than_def not_older_def bnd_eq_Inr raise_if_def split: sum.split)

lemma not_older_trans: "not_older u v \<Longrightarrow> not_older v w \<Longrightarrow> not_older u w"
  by (auto simp: not_older_def split: sum.splits dest: key_less_flip)

lemma not_older_refl: "version_key v = Inr k \<Longrightarrow> not_older v v"
  by (simp add: not_older_def key_less_irrefl)

section \<open>Acceptance\<close>

lemma first_verified_signed:
  assumes "first_verified lib trusted message es = Inr kid" "kid \<noteq> []"
  shows "\<exists>key sig. (kid, key) \<in> set trusted \<and> ed_verify lib key message sig"
  using assms(1)
proof (induction es)
  case (Cons e es)
  then obtain item where i: "bnd (exact_keys e [''kid'', ''alg'', ''sig''] [''kid'', ''alg'', ''sig'']) (\<lambda>item.
     if kw item ''alg'' \<noteq> PStr ''Ed25519'' then first_verified lib trusted message es
     else (case dget trusted (py_str (kw item ''kid'')) of
        None \<Rightarrow> first_verified lib trusted message es
      | Some public \<Rightarrow>
          bnd (b64url_decode (kw item ''sig'')) (\<lambda>sig.
          bnd (verify_signature lib public message sig) (\<lambda>ok.
            if ok then Inr (py_str (kw item ''kid'')) else first_verified lib trusted message es)))) = Inr kid" by simp
  from this Cons.IH show ?case
    by (elim bndE) (auto simp: bnd_eq_Inr verify_signature_def doc_fail_def split: if_splits option.splits dest: dget_in)
qed (use assms(2) in simp)

definition keys_in_force :: "crypto \<Rightarrow> string option \<Rightarrow> (string \<times> string) list option \<Rightarrow> (string \<times> string) list \<Rightarrow> bool" where
  "keys_in_force lib setting keys ks \<longleftrightarrow>
     (case keys of Some k \<Rightarrow> ks = k | None \<Rightarrow> trusted_keys (loads lib) setting = Inr ks)"

lemma verify_envelope_signed:
  assumes "verify_envelope lib setting keys env = Inr (payload, kid, digest)"
  shows "\<exists>ks key sig message. keys_in_force lib setting keys ks \<and> (kid, key) \<in> set ks \<and> ed_verify lib key message sig \<and>
    loads lib message = Some payload \<and> dumps lib payload = message \<and> digest = sha_hex lib message"
proof -
  from assms obtain ks message sigs where
    "keys_in_force lib setting keys ks" "first_verified lib ks message sigs = Inr kid" "kid \<noteq> []"
    "loads lib message = Some payload" "dumps lib payload = message" "digest = sha_hex lib message"
    unfolding verify_envelope_def
    by (elim bndE raise_ifE) (auto simp: keys_in_force_def doc_fail_def split: option.splits)
  with first_verified_signed show ?thesis by blast
qed

text \<open>The bundle comes from a message that a trusted key signed.\<close>

definition signed_bundle :: "crypto \<Rightarrow> string option \<Rightarrow> (string \<times> string) list option \<Rightarrow> catalog_bundle \<Rightarrow> bool" where
  "signed_bundle lib setting keys b \<longleftrightarrow> (\<exists>ks kid key sig message payload.
     keys_in_force lib setting keys ks \<and> (kid, key) \<in> set ks \<and> ed_verify lib key message sig \<and>
     loads lib message = Some payload \<and> dumps lib payload = message \<and>
     parse_payload payload (Some (sha_hex lib message)) = Inr b)"

definition in_time :: "rat \<Rightarrow> catalog_bundle \<Rightarrow> bool" where
  "in_time now b \<longleftrightarrow> (\<exists>i e. parse_instant (b_issued_at b) = Inr (Some i) \<and> i \<le> now + issued_skew \<and>
     parse_instant (b_expires_at b) = Inr (Some e) \<and> now < e)"

lemma acceptable_checked:
  assumes "acceptable lib setting keys minimum now highest env = Inr b"
  shows "signed_bundle lib setting keys b \<and> not_older (b_version b) (b_version bundled) \<and>
    (\<forall>v \<in> set (floors minimum highest). not_older (b_version b) v) \<and> in_time now b"
proof -
  from assms obtain payload kid digest over issued where a:
    "verify_envelope lib setting keys env = Inr (payload, kid, digest)" "parse_payload payload (Some digest) = Inr b"
    "not_older (b_version b) (b_version bundled)" "\<forall>v \<in> set (floors minimum highest). not_older (b_version b) v"
    "bundle_expired now b = Inr over" "\<not> over" "parse_instant (b_issued_at b) = Inr issued"
    "\<not> (case issued of None \<Rightarrow> False | Some t \<Rightarrow> t - now > issued_skew)"
    unfolding acceptable_def
    by (elim bndE) (auto simp: for_each_Inr refuse_older_Inr bnd_raise_if bnd_eq_Inr split: if_splits)
  from verify_envelope_signed [OF a(1)] a(2) have "signed_bundle lib setting keys b"
    unfolding signed_bundle_def by blast
  moreover from parse_payload_dated [OF a(2)] a(5-8) have "in_time now b"
    by (auto simp: dated_catalog_def in_time_def bundle_expired_def)
  ultimately show ?thesis using a(3,4) by blast
qed

lemma signed_bundle_sound: "signed_bundle lib setting keys b \<Longrightarrow> sound_catalog b \<and> dated_catalog b"
  using parse_payload_sound parse_payload_dated unfolding signed_bundle_def by blast

text \<open>What a process keeps: the highest version is that of the installed catalog.\<close>

definition catalogs_ok :: "catalog_state \<Rightarrow> bool" where
  "catalogs_ok s \<longleftrightarrow> (case (live_bundle s, highest_accepted s) of
     (None, None) \<Rightarrow> True
   | (Some b, Some h) \<Rightarrow> (\<exists>k. version_key h = Inr k \<and> version_key (b_version b) = Inr k)
   | _ \<Rightarrow> False)"

lemma version_key_Nil [simp]: "version_key [] \<noteq> Inr k"
  by (simp add: version_key_def doc_fail_def)

lemma accept_cases:
  assumes "catalogs_ok s" "accept_envelope lib setting keys minimum now True env s = (s', r)"
  shows "(\<exists>e. r = Inl e) \<and> s' = s \<or>
    (\<exists>b. r = Inr b \<and> live_bundle s' = Some b \<and> catalogs_ok s' \<and> signed_bundle lib setting keys b \<and> in_time now b \<and>
      (case live_bundle s of None \<Rightarrow> True | Some old \<Rightarrow> not_older (b_version b) (b_version old)))"
proof (cases "acceptable lib setting keys minimum now (highest_accepted s) env")
  case (Inl e) with assms(2) have "s' = s \<and> r = Inl e" by (auto simp: accept_envelope_def)
  then show ?thesis by blast
next
  case (Inr b)
  note checks = acceptable_checked [OF Inr]
  then obtain k where k: "version_key (b_version b) = Inr k" using signed_bundle_sound unfolding dated_catalog_def by blast
  show ?thesis
  proof (cases "live_bundle s")
    case None
    with assms(1) have "highest_accepted s = None" by (auto simp: catalogs_ok_def split: option.splits)
    with assms(2) Inr None checks k show ?thesis
      by (auto simp: accept_envelope_def raise_floor_def catalogs_ok_def)
  next
    case (Some old)
    with assms(1) obtain h j where h: "highest_accepted s = Some h" "version_key h = Inr j" "version_key (b_version old) = Inr j"
      by (auto simp: catalogs_ok_def split: option.splits)
    then have "h \<in> set (floors minimum (highest_accepted s))" by (auto simp: floors_def)
    with checks have "not_older (b_version b) h" by blast
    with h k have n: "\<not> key_less k j" by (simp add: not_older_def)
    then have "key_less j k \<or> j = k" using key_less_total by blast
    with h k n assms(2) Inr Some checks show ?thesis
      by (auto simp: accept_envelope_def raise_floor_def older_than_def catalogs_ok_def not_older_def)
  qed
qed

section \<open>The feed over time\<close>

lemma feed_take_catalogs:
  "feed_take lib setting now raw f = (f', r) \<Longrightarrow>
   f' = f\<lparr>catalogs := catalogs f'\<rparr> \<and>
   accept_envelope lib setting None None now True (RawBytes raw) (catalogs f) = (catalogs f', r)"
  by (auto simp: feed_take_def Let_def split: prod.splits)

lemma catalogs_write_cache [simp]: "catalogs (write_cache raw f) = catalogs f"
  by (simp add: write_cache_def)

text \<open>An event other than a restart leaves the catalogs alone or takes one offered envelope.\<close>

lemma feed_step_catalogs:
  assumes "ev \<noteq> Restart"
  shows "catalogs (feed_step lib setting ev f) = catalogs f \<or>
    (\<exists>now raw r. accept_envelope lib setting None None now True (RawBytes raw) (catalogs f) =
      (catalogs (feed_step lib setting ev f), r))"
proof (cases ev)
  case (Refresh now base off)
  then show ?thesis
    by (cases off) (auto simp: feed_step_def refresh_now_def Let_def dest!: feed_take_catalogs split: prod.splits sum.splits)
next
  case (LoadCache now)
  then show ?thesis
    by (auto simp: feed_step_def load_cache_def Let_def dest!: feed_take_catalogs split: prod.splits option.splits)
qed (use assms in simp)

definition kept_signed :: "crypto \<Rightarrow> string option \<Rightarrow> catalog_state \<Rightarrow> bool" where
  "kept_signed lib setting s \<longleftrightarrow> catalogs_ok s \<and>
     (case live_bundle s of None \<Rightarrow> True | Some b \<Rightarrow> signed_bundle lib setting None b)"

definition no_newer_lost :: "catalog_state \<Rightarrow> catalog_state \<Rightarrow> bool" where
  "no_newer_lost s s' \<longleftrightarrow> (case live_bundle s of None \<Rightarrow> True
     | Some old \<Rightarrow> (\<exists>new. live_bundle s' = Some new \<and> not_older (b_version new) (b_version old)))"

lemma kept_signed_fresh: "kept_signed lib setting fresh_catalogs"
  by (simp add: kept_signed_def fresh_catalogs_def catalogs_ok_def)

lemma signed_not_older: "signed_bundle lib setting keys b \<Longrightarrow> not_older (b_version b) (b_version b)"
  using signed_bundle_sound not_older_refl unfolding dated_catalog_def by blast

lemma no_newer_lost_refl: "kept_signed lib setting s \<Longrightarrow> no_newer_lost s s"
  by (auto simp: no_newer_lost_def kept_signed_def signed_not_older split: option.splits)

lemma no_newer_lost_trans: "no_newer_lost a b \<Longrightarrow> no_newer_lost b c \<Longrightarrow> no_newer_lost a c"
  by (auto simp: no_newer_lost_def split: option.splits intro: not_older_trans)

lemma accept_keeps:
  assumes "kept_signed lib setting s" "accept_envelope lib setting None minimum now True env s = (s', r)"
  shows "kept_signed lib setting s' \<and> no_newer_lost s s'"
  using accept_cases [OF _ assms(2)] assms(1) no_newer_lost_refl [OF assms(1)]
  by (auto simp: kept_signed_def no_newer_lost_def split: option.splits)

lemma feed_step_keeps:
  assumes "kept_signed lib setting (catalogs f)"
  shows "kept_signed lib setting (catalogs (feed_step lib setting ev f)) \<and>
    (ev \<noteq> Restart \<longrightarrow> no_newer_lost (catalogs f) (catalogs (feed_step lib setting ev f)))"
proof (cases "ev = Restart")
  case True then show ?thesis by (simp add: feed_step_def kept_signed_fresh)
next
  case False
  from feed_step_catalogs [OF False] show ?thesis
    using accept_keeps [OF assms] no_newer_lost_refl [OF assms] assms by metis
qed

lemma feed_run_signed: "kept_signed lib setting (catalogs f) \<Longrightarrow> kept_signed lib setting (catalogs (feed_run lib setting evs f))"
  by (induction evs arbitrary: f) (simp_all add: feed_step_keeps)

lemma feed_run_newer:
  "kept_signed lib setting (catalogs f) \<Longrightarrow> Restart \<notin> set evs \<Longrightarrow>
   no_newer_lost (catalogs f) (catalogs (feed_run lib setting evs f))"
proof (induction evs arbitrary: f)
  case (Cons ev evs)
  then show ?case using feed_step_keeps [OF Cons.prems(1), of ev] by (auto intro: no_newer_lost_trans)
qed (simp add: no_newer_lost_refl)

section \<open>Properties\<close>

text \<open>C18: an accepted price catalog is what a trusted key signed: the parsed form of a text in canonical form
  whose signature verifies under a key in force, at least as new as the bundled catalog, as the caller's and as
  the newest one this process has accepted, issued at most an hour ahead of the clock and not expired.\<close>

theorem accepted_catalog_is_signed:
  assumes "snd (accept_envelope lib setting keys minimum now install env s) = Inr b"
  shows "signed_bundle lib setting keys b \<and> in_time now b \<and>
    not_older (b_version b) (b_version bundled) \<and>
    (\<forall>v. minimum = Some v \<and> v \<noteq> [] \<longrightarrow> not_older (b_version b) v) \<and>
    (\<forall>v. highest_accepted s = Some v \<and> v \<noteq> [] \<longrightarrow> not_older (b_version b) v)"
proof -
  from assms have "acceptable lib setting keys minimum now (highest_accepted s) env = Inr b"
    by (auto simp: accept_envelope_def Let_def split: sum.splits if_splits)
  from acceptable_checked [OF this] show ?thesis by (auto simp: floors_def)
qed

text \<open>C21: whatever FinOps serves and whatever lies in the cache file, and across restarts, prices come from the
  bundled catalog or from one that a trusted key signed and that has not expired; and until the process restarts
  an installed catalog is only replaced by one at least as new.\<close>

theorem feed_prices_are_trusted:
  assumes "catalogs f = fresh_catalogs"
    "active_bundle (live_bundle (catalogs (feed_run lib setting evs f))) now = Inr b"
    "live_bundle (catalogs (feed_run lib setting evs f)) = Some old" "Restart \<notin> set later"
  shows "(b = bundled \<or> signed_bundle lib setting None b \<and> bundle_expired now b = Inr False) \<and>
    (\<exists>new. live_bundle (catalogs (feed_run lib setting later (feed_run lib setting evs f))) = Some new \<and>
       not_older (b_version new) (b_version old))"
proof -
  have k: "kept_signed lib setting (catalogs (feed_run lib setting evs f))"
    using feed_run_signed kept_signed_fresh assms(1) by metis
  with assms(2,3) have "b = bundled \<or> signed_bundle lib setting None b \<and> bundle_expired now b = Inr False"
    by (auto simp: active_bundle_def kept_signed_def bnd_eq_Inr split: if_splits)
  with feed_run_newer [OF k assms(4)] assms(3) show ?thesis by (auto simp: no_newer_lost_def)
qed

text \<open>C37: a payload that the parser takes describes a well-formed catalog: no negative rate, no key twice,
  thresholds and multipliers of at least one, aliases that are exact and point at its own models, a version that
  can be compared, and an expiry after its issue.\<close>

theorem parsed_catalog_is_sound:
  assumes "parse_payload payload digest = Inr b"
  shows "sound_catalog b \<and> dated_catalog b \<and> b_sha256 b = digest"
  using parse_payload_sound parse_payload_dated parse_payload_sha assms by blast

section \<open>Witnesses\<close>

definition sample_row :: pyval where
  "sample_row = PDict [(''provider'', PStr ''openai''), (''model'', PStr ''gpt-x''), (''request_tier'', PStr ''standard''),
     (''context_band'', PStr ''short''), (''expected_reported_tier'', PStr ''default''),
     (''rates'', PDict [(''input'', PStr ''1.5''), (''output'', PInt 6)]), (''source_url'', PStr ''u''),
     (''verified_on'', PStr ''2026-10-20''), (''pricing_rule'', PStr ''per_token''), (''long_context_threshold'', PInt 272000)]"

definition sample_anthropic :: "(string \<times> pyval) list" where
  "sample_anthropic = [(''client_tool_versions'', PList []), (''tool_system_prompt_tokens'', PDict [(''m'', PList [PInt 1, PInt 2])]),
     (''tool_system_prompt_fallback'', PInt 804), (''tool_definition_tokens'', PDict []), (''allowed_speeds'', PList []),
     (''inference_geo_multipliers'', PDict [(''us'', PStr ''1.1'')])]"

definition sample_openai :: "(string \<times> pyval) list" where
  "sample_openai = [(''image_tile_models'', PDict []), (''image_patch_multipliers'', PDict []), (''image_patch_sizing'', PDict [])]"

definition sample_endpoints :: "(string \<times> pyval) list" where
  "sample_endpoints = [(''first_party_api_hosts'', PDict []), (''non_first_party_uplift'', PStr ''1.1'')]"

definition sample_top :: "string \<Rightarrow> (string \<times> pyval) list" where
  "sample_top version = [(''schema'', PStr catalog_schema), (''catalog_version'', PStr version),
     (''issued_at'', PStr ''2026-10-20T00:00:00Z''), (''expires_at'', PStr ''2026-11-20T00:00:00Z''),
     (''currency'', PStr ''USD''), (''unit'', PStr ''per_1m_tokens''), (''rounding_rule'', PStr rounding_rule_name),
     (''rows'', PList [sample_row]), (''aliases'', PDict [(''GPT-x-latest'', PStr ''gpt-x'')]),
     (''anthropic'', PDict sample_anthropic), (''openai'', PDict sample_openai), (''endpoints'', PDict sample_endpoints)]"

definition sample_document :: "string \<Rightarrow> pyval" where
  "sample_document version = PDict (sample_top version)"

definition sample_fields :: "string \<Rightarrow> (string \<times> pyval) list" where
  "sample_fields text = [(''format'', PStr envelope_format), (''payload'', PStr text),
     (''signatures'', PList [PDict [(''kid'', PStr ''kzprice-2026-10''), (''alg'', PStr ''Ed25519''), (''sig'', PStr ''QQ'')]])]"

definition sample_envelope :: "string \<Rightarrow> pyval" where
  "sample_envelope text = PDict (sample_fields text)"

text \<open>A library in which the texts \<open>a\<close> and \<open>b\<close> are documents, \<open>A\<close> and \<open>B\<close> their envelopes.\<close>

definition sample_lib :: crypto where
  "sample_lib = \<lparr>has_ed25519 = True, ed_verify = (\<lambda>key message sig. sig = ''A''), sha_hex = (\<lambda>t. ''sha-'' @ t),
     loads = (\<lambda>t. if t = ''a'' then Some (sample_document ''2026-10-20'') else if t = ''b'' then Some (sample_document ''2026-10-20.1'')
        else if t = ''A'' then Some (sample_envelope ''a'') else if t = ''B'' then Some (sample_envelope ''b'') else None),
     dumps = (\<lambda>v. if v = sample_document ''2026-10-20'' then ''a'' else ''b'')\<rparr>"

definition sample_now :: rat where "sample_now = 1792800000"

definition sample_rates :: rate_vector where
  "sample_rates = \<lparr>r_input = 3/2, r_cached_input = None, r_cache_write_5m = None, r_cache_write_1h = None, r_output = 6,
     r_image = None, r_tool_per_call = None, r_audio_input = None, r_audio_cached_input = None\<rparr>"

definition sample_parsed_row :: "string \<Rightarrow> catalog_row" where
  "sample_parsed_row version = \<lparr>provider = ''openai'', model = ''gpt-x'', request_tier = ''standard'', context_band = ''short'',
     expected_reported_tier = ''default'', row_rates = sample_rates, certified = True, source_url = ''u'',
     verified_on = ''2026-10-20'', long_context_threshold = Some 272000, pricing_rule = ''per_token'', label = ''catalog'',
     catalog_version = version, scheduled = [], valid_until = None\<rparr>"

definition sample_bundle :: "string \<Rightarrow> string option \<Rightarrow> catalog_bundle" where
  "sample_bundle version digest = \<lparr>b_version = version, b_source = ''live'',
     b_rows = [((''openai'', ''gpt-x'', ''standard'', ''short''), sample_parsed_row version)],
     b_aliases = [(''gpt-x-latest'', ''gpt-x'')], b_client_tool_versions = [], b_tool_prompt_tokens = [(''m'', 1, 2)],
     b_tool_prompt_fallback = 804, b_tool_definition_tokens = [], b_tile_models = [], b_patch_multipliers = [],
     b_patch_sizing = [], b_inference_geo = [(''us'', 11/10)], b_allowed_speeds = [], b_first_party_hosts = [],
     b_non_first_party_uplift = 11/10, b_issued_at = Some ''2026-10-20T00:00:00Z'',
     b_expires_at = Some ''2026-11-20T00:00:00Z'', b_sha256 = digest\<rparr>"

lemma sample_objects:
  "exact_keys (sample_document v) top_keys top_keys = Inr (sample_top v)"
  "exact_keys (kw (sample_top v) ''anthropic'') anthropic_keys anthropic_keys = Inr sample_anthropic"
  "exact_keys (kw (sample_top v) ''openai'') openai_keys openai_keys = Inr sample_openai"
  "exact_keys (kw (sample_top v) ''endpoints'') endpoint_keys endpoint_keys = Inr sample_endpoints"
  by code_simp+

lemma sample_scalars:
  "kw (sample_top v) ''schema'' = PStr catalog_schema" "kw (sample_top v) ''currency'' = PStr ''USD''"
  "kw (sample_top v) ''unit'' = PStr ''per_1m_tokens''" "kw (sample_top v) ''rounding_rule'' = PStr rounding_rule_name"
  "doc_text (kw (sample_top ''2026-10-20'') ''catalog_version'') = Inr ''2026-10-20''"
  "doc_text (kw (sample_top ''2026-10-20.1'') ''catalog_version'') = Inr ''2026-10-20.1''"
  "doc_instant (kw (sample_top v) ''issued_at'') = Inr (Some ''2026-10-20T00:00:00Z'')"
  "doc_instant (kw (sample_top v) ''expires_at'') = Inr (Some ''2026-11-20T00:00:00Z'')"
  "doc_int 0 (kw sample_anthropic ''tool_system_prompt_fallback'') = Inr 804"
  "version_key ''2026-10-20'' = Inr [2026, 10, 20, 0]" "version_key ''2026-10-20.1'' = Inr [2026, 10, 20, 1]"
  by code_simp+

lemma sample_period:
  "parse_instant (Some ''2026-10-20T00:00:00Z'') = Inr (Some 1792454400)"
  "parse_instant (Some ''2026-11-20T00:00:00Z'') = Inr (Some 1795132800)"
  by code_simp+

lemma sample_tables:
  "doc_aliases [''gpt-x''] (kw (sample_top v) ''aliases'') = Inr [(''gpt-x-latest'', ''gpt-x'')]"
  "doc_prompts (kw sample_anthropic ''tool_system_prompt_tokens'') = Inr [(''m'', 1, 2)]"
  "doc_dict doc_text (doc_int 0) (kw sample_anthropic ''tool_definition_tokens'') = Inr []"
  "text_tuple doc_lower (kw sample_anthropic ''allowed_speeds'') = Inr []"
  "text_tuple doc_text (kw sample_anthropic ''client_tool_versions'') = Inr []"
  "doc_dict lower_key (int_pair 1) (kw sample_openai ''image_tile_models'') = Inr []"
  "doc_dict lower_key (doc_decimal 1) (kw sample_openai ''image_patch_multipliers'') = Inr []"
  "doc_dict lower_key sizing_entry (kw sample_openai ''image_patch_sizing'') = Inr []"
  "doc_dict doc_lower (text_tuple doc_lower) (kw sample_endpoints ''first_party_api_hosts'') = Inr []"
  by code_simp+

lemma sample_decimals:
  "doc_dict doc_lower (doc_decimal 1) (kw sample_anthropic ''inference_geo_multipliers'') = Inr [(''us'', 11/10)]"
  "doc_decimal 1 (kw sample_endpoints ''non_first_party_uplift'') = Inr (11/10)"
  "parse_doc_rates (kw [(''rates'', PDict [(''input'', PStr ''1.5''), (''output'', PInt 6)])] ''rates'') = Inr sample_rates"
  by code_simp+

lemma sample_rows:
  "doc_rows v (kw (sample_top v) ''rows'') = Inr [((''openai'', ''gpt-x'', ''standard'', ''short''), sample_parsed_row v)]"
  by code_simp

lemma sample_parses:
  assumes "v = ''2026-10-20'' \<or> v = ''2026-10-20.1''"
  shows "parse_payload (sample_document v) digest = Inr (sample_bundle v digest)"
  using assms
  by (elim disjE; simp add: parse_payload_def sample_objects sample_scalars sample_period sample_tables sample_decimals
      sample_rows doc_period_def sample_bundle_def sample_parsed_row_def cong: bnd_weak)
lemma sample_trusted: "\<exists>raw. trusted_keys l None = Inr [(''kzprice-2026-10'', raw)]"
  by (simp add: trusted_keys_def pinned_keys_def kid_ok_def b64url_decode_def sextet_def char_code_def Let_def)

lemma sample_signatures:
  "exact_keys (sample_envelope t) [''format'', ''payload'', ''signatures''] [''format'', ''payload'', ''signatures''] = Inr (sample_fields t)"
  "kw (sample_fields t) ''format'' = PStr envelope_format" "kw (sample_fields t) ''payload'' = PStr t"
  "kw (sample_fields t) ''signatures'' =
     PList [PDict [(''kid'', PStr ''kzprice-2026-10''), (''alg'', PStr ''Ed25519''), (''sig'', PStr ''QQ'')]]"
  by code_simp+

lemma sample_verifies:
  assumes "text = ''a'' \<and> raw = ''A'' \<and> v = ''2026-10-20'' \<or> text = ''b'' \<and> raw = ''B'' \<and> v = ''2026-10-20.1''"
  shows "verify_envelope sample_lib None None (RawBytes raw) = Inr (sample_document v, ''kzprice-2026-10'', ''sha-'' @ text)"
proof -
  have l: "loads sample_lib raw = Some (sample_envelope text)" "loads sample_lib text = Some (sample_document v)"
    "dumps sample_lib (sample_document v) = text" "sha_hex sample_lib text = ''sha-'' @ text"
    using assms by (auto simp: sample_lib_def sample_document_def sample_top_def)
  have n: "length raw \<le> max_envelope_bytes" "length text \<le> max_envelope_bytes"
    using assms by (auto simp: max_envelope_bytes_def)
  have s: "first_verified sample_lib [(''kzprice-2026-10'', key)] text
     [PDict [(''kid'', PStr ''kzprice-2026-10''), (''alg'', PStr ''Ed25519''), (''sig'', PStr ''QQ'')]] = Inr ''kzprice-2026-10''" for key
    by code_simp
  obtain raw_key where "trusted_keys (loads sample_lib) None = Inr [(''kzprice-2026-10'', raw_key)]"
    using sample_trusted by blast
  then show ?thesis
    using l n s
    by (simp add: verify_envelope_def envelope_node_def sample_signatures cong: bnd_weak)
qed

lemma sample_expiry: "bundle_expired sample_now (sample_bundle v d) = Inr False"
  by (simp add: bundle_expired_def sample_bundle_def sample_period sample_now_def)

lemma sample_not_older:
  "not_older ''2026-10-20'' catalog_version_const" "not_older ''2026-10-20.1'' catalog_version_const"
  "not_older ''2026-10-20.1'' ''2026-10-20''" "not_older ''2026-10-20'' ''2026-10-20''" "\<not> not_older ''2026-10-20'' ''2026-10-20.1''"
  by code_simp+

lemma sample_acceptable:
  assumes "text = ''a'' \<and> raw = ''A'' \<and> v = ''2026-10-20'' \<or> text = ''b'' \<and> raw = ''B'' \<and> v = ''2026-10-20.1''"
    "\<forall>w \<in> set (floors minimum highest). not_older v w"
  shows "acceptable sample_lib None None minimum sample_now highest (RawBytes raw) = Inr (sample_bundle v (Some (''sha-'' @ text)))"
proof -
  have v: "v = ''2026-10-20'' \<or> v = ''2026-10-20.1''" using assms(1) by blast
  have "refuse_older v (b_version bundled) = Inr ()" using v sample_not_older by (auto simp: refuse_older_Inr bundled_def)
  moreover have "for_each (refuse_older v) (floors minimum highest) = Inr ()"
    using assms(2) by (simp add: for_each_Inr refuse_older_Inr)
  moreover have "b_version (sample_bundle v d) = v" "b_issued_at (sample_bundle v d) = Some ''2026-10-20T00:00:00Z''" for d
    by (simp_all add: sample_bundle_def)
  ultimately show ?thesis
    using sample_verifies [OF assms(1)] sample_parses [OF v]
    by (simp add: acceptable_def sample_expiry [unfolded sample_now_def] sample_period sample_now_def issued_skew_def raise_if_def cong: bnd_weak)
qed
theorem parsed_catalog_is_sound_witness:
  "sound_catalog (sample_bundle ''2026-10-20'' None) \<and> dated_catalog (sample_bundle ''2026-10-20'' None)"
  using parsed_catalog_is_sound [OF sample_parses [of "''2026-10-20''" None]] by simp

lemma sample_accept:
  "accept_envelope sample_lib None None None sample_now True (RawBytes ''A'') fresh_catalogs =
     (\<lparr>live_bundle = Some (sample_bundle ''2026-10-20'' (Some ''sha-a'')), highest_accepted = Some ''2026-10-20''\<rparr>,
      Inr (sample_bundle ''2026-10-20'' (Some ''sha-a'')))"
  using sample_acceptable [of "''a''" "''A''" "''2026-10-20''" None None]
  by (simp add: accept_envelope_def fresh_catalogs_def floors_def raise_floor_def Let_def sample_bundle_def)

theorem accepted_catalog_is_signed_witness:
  "in_time sample_now (sample_bundle ''2026-10-20'' (Some ''sha-a'')) \<and>
   not_older ''2026-10-20'' (b_version bundled)"
  using accepted_catalog_is_signed [of sample_lib None None None sample_now True "RawBytes ''A''" fresh_catalogs
      "sample_bundle ''2026-10-20'' (Some ''sha-a'')"]
  by (simp add: sample_accept) (simp add: sample_bundle_def)

definition sample_feed :: feed where
  "sample_feed = \<lparr>catalogs = fresh_catalogs, feed_etag = None, cache_usable = True, cache_file = None\<rparr>"

lemma sample_refresh:
  "feed_run sample_lib None [Refresh sample_now ''https://f'' (Fetched ''A'' None)] sample_feed =
     \<lparr>catalogs = \<lparr>live_bundle = Some (sample_bundle ''2026-10-20'' (Some ''sha-a'')), highest_accepted = Some ''2026-10-20''\<rparr>,
      feed_etag = None, cache_usable = True, cache_file = Some ''A''\<rparr>"
  by (simp add: feed_step_def refresh_now_def feed_take_def sample_feed_def sample_accept Let_def rstrip_char_def write_cache_def
      max_envelope_bytes_def)

theorem feed_prices_are_trusted_witness:
  "\<exists>new. live_bundle (catalogs (feed_run sample_lib None [LoadCache sample_now, Refresh sample_now ''https://f'' (Fetched ''B'' None)]
       (feed_run sample_lib None [Refresh sample_now ''https://f'' (Fetched ''A'' None)] sample_feed))) = Some new \<and>
     not_older (b_version new) ''2026-10-20''"
  using feed_prices_are_trusted [of sample_feed sample_lib None "[Refresh sample_now ''https://f'' (Fetched ''A'' None)]"
      sample_now "sample_bundle ''2026-10-20'' (Some ''sha-a'')" "sample_bundle ''2026-10-20'' (Some ''sha-a'')"
      "[LoadCache sample_now, Refresh sample_now ''https://f'' (Fetched ''B'' None)]"]
  by (simp only: sample_refresh) (simp add: active_bundle_def sample_expiry sample_feed_def; simp add: sample_bundle_def)
section \<open>A document without dates\<close>

text \<open>Dates of \<open>null\<close> pass \<open>_instant\<close> and are then compared: the parser ends with a \<open>TypeError\<close>, which neither
  \<open>_load_cache\<close> nor \<open>refresh_now\<close> catches.\<close>

lemma undated_document_is_a_type_error:
  "parse_payload (PDict (dset ''issued_at'' PNone (sample_top ''2026-10-20''))) digest = Inl PyTypeError"
proof -
  have "exact_keys (PDict (dset ''issued_at'' PNone (sample_top ''2026-10-20''))) top_keys top_keys =
      Inr (dset ''issued_at'' PNone (sample_top ''2026-10-20''))"
    by code_simp
  moreover have "doc_instant PNone = Inr None" by (simp add: doc_instant_def)
  ultimately show ?thesis
    by (simp add: parse_payload_def kw_dset sample_scalars sample_period doc_period_def cong: bnd_weak)
qed

end
