(* ===== verification/Gateway_Control.thy ===== *)
theory Gateway_Control
  imports Guard
begin

text \<open>
  Control inside a LiteLLM gateway (kazenai/integrations/litellm_control.py), first part: identities of
  attempts, what an attempt is estimated to cost, what its metadata says, and who settles it. The price engine,
  the catalogs, JSON and the digest are fields of a world (\<open>gl_format\<close> is \<open>format(x, "f")\<close>); floats are exact rationals.
\<close>

section \<open>Attempts\<close>

record attempt_identity =
  at_operation :: string
  at_call :: string
  at_attempt :: string
  at_number :: int
  at_key :: string

record attempt_reservation =
  ar_identity :: attempt_identity
  ar_reservation :: string
  ar_decision :: string
  ar_estimated :: int
  ar_status :: string
  ar_settled :: pyval
  ar_meta :: "(string \<times> pyval) list"

text \<open>\<open>fresh\<close> holds the three \<open>uuid4().hex\<close> of a call.\<close>

definition new_attempt_identity ::
  "(string \<Rightarrow> string) \<Rightarrow> string \<times> string \<times> string \<Rightarrow> string \<Rightarrow> string \<Rightarrow> int \<Rightarrow> string \<Rightarrow> attempt_identity" where
  "new_attempt_identity sha fresh op0 cid0 number aid0 =
     (let (u1, u2, u3) = fresh;
          op = or_str (py_strip op0) (''op_'' @ u1);
          cid = or_str (py_strip cid0) (''call_'' @ u2);
          att = max 1 number;
          aid = or_str (py_strip aid0) (''att_'' @ u3)
      in \<lparr>at_operation = op, at_call = cid, at_attempt = aid, at_number = att,
          at_key = sha (op @ '':'' @ cid @ '':'' @ aid @ '':'' @ int_str att)\<rparr>)"

definition gateway_micros :: "rat \<Rightarrow> int" where
  "gateway_micros usd =
     (let v = max 0 usd; m = trunc_rat (v * 1000000 + 999999 / 1000000) in if v > 0 then max 1 m else 0)"

definition gateway_usd :: "int \<Rightarrow> rat" where
  "gateway_usd micros = of_int micros / 1000000"

section \<open>Usage\<close>

text \<open>The attribute \<open>model_dump\<close> of a response stands for what calling it returns, \<open>None\<close> when there is no
  such method or it raises.\<close>

definition response_usage :: "pyval \<Rightarrow> pyval" where
  "response_usage r = (if field r ''usage'' \<noteq> PNone then field r ''usage''
     else if is_mapping (field r ''model_dump'') \<and> \<not> is_mapping r then field (field r ''model_dump'') ''usage'' else PNone)"

definition usage_int :: "pyval \<Rightarrow> string \<Rightarrow> string \<Rightarrow> int res" where
  "usage_int u a b = py_int (or_val (field u a) (or_val (field u b) (PInt 0)))"

definition extract_usage_tokens :: "pyval \<Rightarrow> (int \<times> int \<times> int) res" where
  "extract_usage_tokens r =
     (let u = response_usage r in
      if u = PNone then Inr (0, 0, 0)
      else bnd (usage_int u ''prompt_tokens'' ''input_tokens'') (\<lambda>prompt.
           bnd (usage_int u ''completion_tokens'' ''output_tokens'') (\<lambda>completion.
           bnd (py_int (or_val (field u ''total_tokens'') (PInt (prompt + completion)))) (\<lambda>total.
             Inr (prompt, completion, total)))))"

section \<open>Prices\<close>

record gateway_world =
  gl_env :: env
  gl_sha :: "string \<Rightarrow> string"
  gl_loads :: "string \<Rightarrow> pyval option"
  gl_engine :: "cost_engine res"
  gl_catalog :: catalog
  gl_bundle :: catalog_bundle
  gl_format :: "rat \<Rightarrow> string"

definition after_last :: "char \<Rightarrow> string \<Rightarrow> string" where
  "after_last c s = rev (takeWhile (\<lambda>x. x \<noteq> c) (rev s))"

definition canonical_model_name :: "string \<Rightarrow> string" where
  "canonical_model_name mdl = (let t = py_strip mdl in
     or_str (if CHR ''/'' \<in> set t then py_strip (after_last (CHR ''/'') t) else t) ''unknown'')"

text \<open>The counts \<open>estimate_cost_usd\<close> is given; the audio share may be unknown.\<close>

record prompt_parts =
  pp_prompt :: int
  pp_completion :: int
  pp_audio :: "int option"
  pp_cached :: int
  pp_write_5m :: int
  pp_write_1h :: int

definition audio_share :: "rate_vector \<Rightarrow> prompt_parts \<Rightarrow> int" where
  "audio_share r p =
     (let prompt = max 0 (pp_prompt p) in
      case pp_audio p of
        None \<Rightarrow> (case r_audio_input r of Some q \<Rightarrow> if q > r_input r then prompt else 0 | None \<Rightarrow> 0)
      | Some a \<Rightarrow> min prompt (max 0 a))"

definition priced_tokens :: "rate_vector \<Rightarrow> prompt_parts \<Rightarrow> tokens" where
  "priced_tokens r p =
     (let prompt = max 0 (pp_prompt p); audio = audio_share r p; cached = max 0 (pp_cached p);
          w5 = max 0 (pp_write_5m p); w1 = max 0 (pp_write_1h p)
      in no_tokens\<lparr>t_input := max 0 (prompt - audio - cached - w5 - w1), t_audio_input := audio, t_cached_input := cached,
           t_cache_write_5m := w5, t_cache_write_1h := w1, t_output := max 0 (pp_completion p)\<rparr>)"

fun first_price :: "gateway_world \<Rightarrow> cost_engine \<Rightarrow> prompt_parts \<Rightarrow> rat \<Rightarrow> string list \<Rightarrow> rat option res" where
  "first_price w en p m [] = Inr None"
| "first_price w en p m (c # cs) =
     (if resolve_model_key c (dkeys (te_pricing en)) [] = None then first_price w en p m cs
      else case engine_row (gl_catalog w) en c ''standard'' ''short'' of
             Some row \<Rightarrow> (let r = scaled m (row_rates row)
                          in bnd (cost_micro_usd r (priced_tokens r p)) (\<lambda>i. Inr (Some (micro_usd_to_decimal i))))
           | None \<Rightarrow> bnd (engine_cost_usd (gl_env w) (gl_catalog w) en c (max 0 (pp_prompt p)) (pp_completion p))
                      (\<lambda>q. Inr (Some (q * m))))"

definition price_names :: "string \<Rightarrow> string list" where
  "price_names mdl = (let raw = or_str (py_strip mdl) ''unknown''; canon = canonical_model_name raw
     in if raw = canon then [canon] else [canon, raw])"

text \<open>Every exception on the way is the answer \<open>None\<close>.\<close>

definition estimate_cost_usd :: "gateway_world \<Rightarrow> string \<Rightarrow> prompt_parts \<Rightarrow> rat \<Rightarrow> rat option" where
  "estimate_cost_usd w mdl p m =
     (case bnd (gl_engine w) (\<lambda>en. first_price w en p m (price_names mdl)) of Inr x \<Rightarrow> x | Inl _ \<Rightarrow> None)"

definition plain_parts :: "int \<Rightarrow> int \<Rightarrow> int option \<Rightarrow> prompt_parts" where
  "plain_parts prompt completion audio =
     \<lparr>pp_prompt = prompt, pp_completion = completion, pp_audio = audio, pp_cached = 0, pp_write_5m = 0, pp_write_1h = 0\<rparr>"

definition parts_of_usage :: "tokens \<Rightarrow> prompt_parts" where
  "parts_of_usage t =
     \<lparr>pp_prompt = t_input t + t_audio_input t + t_cached_input t + t_cache_write_5m t + t_cache_write_1h t,
      pp_completion = t_output t, pp_audio = Some (t_audio_input t), pp_cached = t_cached_input t,
      pp_write_5m = t_cache_write_5m t, pp_write_1h = t_cache_write_1h t\<rparr>"

definition estimate_cost_from_response :: "gateway_world \<Rightarrow> string \<Rightarrow> pyval \<Rightarrow> rat \<Rightarrow> rat option res" where
  "estimate_cost_from_response w mdl response m =
     (if field response ''usage'' = PNone
      then bnd (extract_usage_tokens response) (\<lambda>(prompt, completion, _).
             Inr (estimate_cost_usd w mdl (plain_parts prompt completion (Some 0)) m))
      else bnd (usage_components (field response ''usage'')) (\<lambda>t. Inr (estimate_cost_usd w mdl (parts_of_usage t) m)))"

definition estimate_reserve_usd :: "gateway_world \<Rightarrow> string \<Rightarrow> int \<Rightarrow> int \<Rightarrow> int option \<Rightarrow> rat \<Rightarrow> rat" where
  "estimate_reserve_usd w mdl prompt completion audio m =
     (case estimate_cost_usd w mdl (plain_parts prompt completion audio) m of
        Some q \<Rightarrow> if q > 0 then q else max (1 / 100) (of_int (prompt + completion) * (2 / 1000000))
      | None \<Rightarrow> max (1 / 100) (of_int (prompt + completion) * (2 / 1000000)))"

section \<open>Bounds of a request\<close>

definition chat_call_types :: "string list" where "chat_call_types = [''completion'', ''acompletion'', ''anthropic_messages'']"
definition responses_call_types :: "string list" where "responses_call_types = [''responses'', ''aresponses'']"

definition request_input_fields :: "string list" where
  "request_input_fields = [''messages'', ''input'', ''prompt'', ''system'', ''instructions'', ''tools'', ''functions'',
     ''tool_choice'', ''response_format'']"

definition precall_min_tokens :: int where "precall_min_tokens = 2000"

text \<open>\<open>int(v)\<close> where \<open>TypeError\<close> and \<open>ValueError\<close> give a default.\<close>

definition int_or :: "int \<Rightarrow> pyval \<Rightarrow> int res" where
  "int_or d v = (case py_int v of Inr i \<Rightarrow> Inr i | Inl PyOverflowError \<Rightarrow> Inl PyOverflowError | Inl _ \<Rightarrow> Inr d)"

text \<open>The loop over the limit parameters: the request takes the bounded value, the bound the largest.\<close>

fun take_limits :: "kwargs \<Rightarrow> string list \<Rightarrow> kwargs \<Rightarrow> int \<Rightarrow> (kwargs \<times> int) res" where
  "take_limits limits [] kws bound = Inr (kws, bound)"
| "take_limits limits (k # ks) kws bound =
     (case dget limits k of
        None \<Rightarrow> take_limits limits ks kws bound
      | Some v \<Rightarrow> bnd (int_or bound v) (\<lambda>i. take_limits limits ks (dset k v kws) (max bound i)))"

definition reserve_bound_tokens :: "kwargs \<Rightarrow> string \<Rightarrow> (kwargs \<times> int \<times> int) res" where
  "reserve_bound_tokens kws kind =
     (let input_bound = estimate_input_tokens (map (\<lambda>k. (k, kw kws k)) (filter (has_key kws) request_input_fields));
          responses = kind \<in> set responses_call_types
      in if \<not> responses \<and> kind \<notin> set chat_call_types \<and> (kind \<noteq> [] \<or> \<not> has_key kws ''messages'') then Inr (kws, input_bound, 0)
         else let params = (if responses then [''max_output_tokens''] else [''max_tokens'', ''max_completion_tokens'']);
                  limits = map (\<lambda>k. (k, kw kws k)) (filter (\<lambda>k. kw kws k \<noteq> PNone) params) @
                    [(''model'', PStr (canonical_model_name (str_or_empty (kw kws ''model''))))]
              in bnd (apply_output_token_bound responses limits) (\<lambda>bounded.
                 bnd (take_limits bounded params kws 0) (\<lambda>(kws', output).
                 bnd (int_or 1 (or_val (kw kws' ''n'') (PInt 1))) (\<lambda>n.
                   Inr (kws', input_bound, (if output = 0 then precall_min_tokens else output) * max 1 n)))))"

section \<open>Metadata\<close>

definition mapping_of :: "pyval \<Rightarrow> (string \<times> pyval) list" where
  "mapping_of v = (case v of PDict d \<Rightarrow> d | _ \<Rightarrow> [])"

definition metadata_blocks :: "kwargs \<Rightarrow> (string \<times> pyval) list list" where
  "metadata_blocks kws =
     map mapping_of (filter is_mapping [kw kws ''metadata'', kw kws ''litellm_metadata'',
       (if is_mapping (kw kws ''litellm_params'') then field (kw kws ''litellm_params'') ''metadata'' else PNone)])"

definition resolve_customer_id :: "kwargs \<Rightarrow> string option" where
  "resolve_customer_id kws =
     (case find (\<lambda>b. truthy (kw b ''user_api_key_end_user_id'')) (metadata_blocks kws) of
        Some b \<Rightarrow> Some (py_str (kw b ''user_api_key_end_user_id''))
      | None \<Rightarrow> if truthy (kw kws ''user'') then Some (py_str (kw kws ''user'')) else None)"

definition client_disconnected :: "kwargs \<Rightarrow> bool" where
  "client_disconnected kws \<longleftrightarrow> list_ex (\<lambda>b. truthy (kw b ''client_disconnected'')) (metadata_blocks kws)"

definition customer_id_required :: "env \<Rightarrow> bool" where
  "customer_id_required e \<longleftrightarrow> env_norm e ''KAZENAI_REQUIRE_CUSTOMER_ID'' \<in> {''1'', ''true'', ''yes'', ''on''}"

definition url_client :: "pyval \<Rightarrow> provider_client option" where
  "url_client base = (if truthy base
     then Some \<lparr>cl_base_url = PStr (py_str base), cl_inner_base_url = PNone, cl_anthropic_counter = None,
                cl_openai_counter = None, cl_accepts = None, cl_text_format = (\<lambda>_. None)\<rparr>
     else None)"

definition endpoint_price_multiplier :: "gateway_world \<Rightarrow> kwargs \<Rightarrow> rat res" where
  "endpoint_price_multiplier w kws =
     (let mdl = str_or_empty (kw kws ''model'');
          p0 = py_lower (py_strip (str_or_empty (kw kws ''custom_llm_provider'')));
          p1 = (if p0 = [] \<and> CHR ''/'' \<in> set mdl then py_lower (py_strip (before (CHR ''/'') mdl)) else p0);
          p2 = (if p1 = [] then (case provider_for_model (gl_catalog w) (canonical_model_name mdl) of None \<Rightarrow> [] | Some p \<Rightarrow> p) else p1)
      in bnd (price_multiplier (gl_loads w) (gl_env w) (gl_bundle w) p2 (url_client (or_val (kw kws ''api_base'') (kw kws ''base_url''))) kws)
           (\<lambda>(m, _). Inr m))"

text \<open>\<open>None\<close> when the stream keeps no chunks; only objects have attributes, and \<open>choices\<close> is a list.\<close>

definition attr :: "pyval \<Rightarrow> string \<Rightarrow> pyval" where
  "attr v k = (case v of PObj d \<Rightarrow> kw d k | _ \<Rightarrow> PNone)"

definition provider_finished_and_reported :: "pyval \<Rightarrow> bool option" where
  "provider_finished_and_reported s = (case attr s ''chunks'' of
     PList cs \<Rightarrow> Some (list_ex (\<lambda>c. list_ex (\<lambda>x. truthy (attr x ''finish_reason''))
                                (case attr c ''choices'' of PList xs \<Rightarrow> xs | _ \<Rightarrow> [])) cs \<and>
                       list_ex (\<lambda>c. attr c ''usage'' \<noteq> PNone) cs)
   | _ \<Rightarrow> None)"

definition gateway_owns_enforcement :: "env \<Rightarrow> bool" where
  "gateway_owns_enforcement e \<longleftrightarrow> env_norm e ''KAZENAI_ENFORCEMENT_OWNER'' = ''gateway''"

definition control_attempt_marker :: "attempt_identity \<Rightarrow> (string \<times> pyval) list" where
  "control_attempt_marker i =
     [(''kazenai_control_attempt'', PBool True), (''kazenai_budget_accounting_owner'', PStr ''gateway''),
      (''kazenai_operation_id'', PStr (at_operation i)), (''kazenai_call_id'', PStr (at_call i)),
      (''kazenai_attempt_id'', PStr (at_attempt i)), (''kazenai_attempt_number'', PInt (at_number i))]"

definition block_is_owned :: "(string \<times> pyval) list \<Rightarrow> bool" where
  "block_is_owned b =
     (let own = py_lower (str_or_empty (kw b ''kazenai_budget_accounting_owner''))
      in kw b ''kazenai_control_attempt'' = PBool True \<or> own = ''gateway'' \<or>
         truthy (kw b ''kazenai_attempt_id'') \<and> own \<in> {[], ''gateway''} \<and> (truthy (kw b ''kazenai_control_attempt'') \<or> own = ''gateway''))"

definition is_control_owned_callback :: "(string \<times> pyval) list \<Rightarrow> bool" where
  "is_control_owned_callback payload =
     (list_ex block_is_owned [payload, mapping_of (kw payload ''metadata''),
        mapping_of (field (PDict (mapping_of (kw payload ''litellm_params''))) ''metadata'')] \<or>
      kw payload ''kazenai_control_attempt'' = PBool True)"

definition resolve_attempt_from_kwargs ::
  "(string \<Rightarrow> string) \<Rightarrow> string \<times> string \<times> string \<Rightarrow> kwargs \<Rightarrow> int option \<Rightarrow> attempt_identity res" where
  "resolve_attempt_from_kwargs sha fresh kws number =
     (let meta = dupdate (dupdate [] (mapping_of (kw kws ''metadata'')))
            (mapping_of (if is_mapping (kw kws ''litellm_params'') then field (kw kws ''litellm_params'') ''metadata'' else PNone));
          op = str_or_empty (or_val (kw meta ''kazenai_operation_id'') (or_val (kw meta ''operation_id'') (kw kws ''kazenai_operation_id'')));
          call = str_or_empty (or_val (kw meta ''kazenai_call_id'') (kw meta ''call_id''));
          aid = str_or_empty (kw meta ''kazenai_attempt_id'')
      in bnd (case number of Some n \<Rightarrow> Inr n
              | None \<Rightarrow> int_or 1 (or_val (kw meta ''kazenai_attempt_number'') (or_val (kw kws ''attempt'') (PInt 1))))
           (\<lambda>n. Inr (new_attempt_identity sha fresh op call n aid)))"

text \<open>\<open>kwargs.setdefault(k, {})\<close> and an update of the dictionary found there.\<close>

definition set_default :: "string \<Rightarrow> pyval \<Rightarrow> kwargs \<Rightarrow> kwargs" where
  "set_default k v d = (if has_key d k then d else dset k v d)"

definition update_under :: "string \<Rightarrow> ((string \<times> pyval) list \<Rightarrow> (string \<times> pyval) list) \<Rightarrow> kwargs \<Rightarrow> kwargs" where
  "update_under k f d = (case kw d k of PDict x \<Rightarrow> dset k (PDict (f x)) d | _ \<Rightarrow> d)"

definition inject_traceparent :: "string \<Rightarrow> kwargs \<Rightarrow> kwargs" where
  "inject_traceparent tp kws =
     (if tp = [] then kws
      else let k1 = set_default ''headers'' (PDict []) kws in
           if \<not> is_mapping (kw k1 ''headers'') then k1
           else update_under ''metadata'' (set_default ''kazenai_traceparent'' (PStr tp))
                  (set_default ''metadata'' (PDict []) (update_under ''headers'' (set_default ''traceparent'' (PStr tp)) k1)))"

definition bind_kwargs_metadata :: "attempt_reservation \<Rightarrow> kwargs \<Rightarrow> kwargs" where
  "bind_kwargs_metadata r kws =
     (let marker = control_attempt_marker (ar_identity r) @
            [(''kazenai_reservation_id'', PStr (ar_reservation r)), (''kazenai_decision_id'', PStr (ar_decision r))];
          k1 = update_under ''litellm_params''
                 (\<lambda>p. update_under ''metadata'' (\<lambda>m. dupdate m marker) (set_default ''metadata'' (PDict []) p)) kws
      in update_under ''metadata'' (\<lambda>m. dupdate m marker) (set_default ''metadata'' (PDict []) k1))"

end
