(* ===== verification/Gateway_Store.thy ===== *)
theory Gateway_Store
  imports Gateway_Control
begin

text \<open>
  The second part of kazenai/integrations/litellm_control.py: the files that keep what FinOps has not
  acknowledged, and the client that reserves, starts and settles attempts. A reservation is an object the
  client's table and its callers share, so the state holds a heap of them; what FinOps answers is a list in the
  state, consumed one answer a request (none left: no connection) and kept with what was sent; \<open>gx_disk\<close> says whether writes and removals succeed now.
\<close>

section \<open>Files\<close>

datatype post_answer = Post_Ok int string | Post_Http int "string option" string | Post_Down

record gateway_state =
  gx_heap :: "attempt_reservation list"
  gx_open :: "(string \<times> nat) list"
  gx_open_files :: "(string \<times> pyval) list"
  gx_pending :: "(string \<times> pyval) list"
  gx_aside :: "pyval list"
  gx_answers :: "post_answer list"
  gx_sent :: "(string \<times> (string \<times> pyval) list \<times> post_answer) list"
  gx_disk :: bool

definition is_alnum :: "char \<Rightarrow> bool" where
  "is_alnum c \<longleftrightarrow> (let n = char_code c in 48 \<le> n \<and> n \<le> 57 \<or> 65 \<le> n \<and> n \<le> 90 \<or> 97 \<le> n \<and> n \<le> 122)"

definition open_name :: "string \<Rightarrow> string" where
  "open_name aid = take 180 (map (\<lambda>c. if is_alnum c \<or> c = CHR ''-'' \<or> c = CHR ''_'' then c else CHR ''_'') aid)"

definition pending_name :: "(string \<Rightarrow> string) \<Rightarrow> string \<Rightarrow> string" where
  "pending_name sha key = take 40 (sha key)"

definition reservation_doc :: "attempt_reservation \<Rightarrow> pyval" where
  "reservation_doc r = (let i = ar_identity r in PDict
     [(''reservation_id'', PStr (ar_reservation r)), (''decision_id'', PStr (ar_decision r)),
      (''estimated_usd_micros'', PInt (ar_estimated r)), (''status'', PStr (ar_status r)),
      (''settled_usd_micros'', ar_settled r), (''meta'', PDict (ar_meta r)),
      (''identity'', PDict [(''operation_id'', PStr (at_operation i)), (''call_id'', PStr (at_call i)),
         (''attempt_id'', PStr (at_attempt i)), (''attempt'', PInt (at_number i)), (''idempotency_key'', PStr (at_key i))])])"

text \<open>What \<open>get_open\<close> makes of a file; every exception is \<open>None\<close>.\<close>

definition doc_reservation :: "string \<Rightarrow> pyval \<Rightarrow> attempt_reservation option" where
  "doc_reservation aid raw = (case raw of
     PDict d \<Rightarrow>
       (case (or_val (kw d ''identity'') (PDict []), or_val (kw d ''meta'') (PDict [])) of
          (PDict i, PDict m) \<Rightarrow>
            (case (py_int (or_val (kw i ''attempt'') (PInt 1)), py_int (or_val (kw d ''estimated_usd_micros'') (PInt 0))) of
               (Inr n, Inr est) \<Rightarrow> Some
                 \<lparr>ar_identity = \<lparr>at_operation = str_or_empty (kw i ''operation_id''), at_call = str_or_empty (kw i ''call_id''),
                     at_attempt = py_str (or_val (kw i ''attempt_id'') (PStr aid)), at_number = n,
                     at_key = str_or_empty (kw i ''idempotency_key'')\<rparr>,
                  ar_reservation = str_or_empty (kw d ''reservation_id''), ar_decision = str_or_empty (kw d ''decision_id''),
                  ar_estimated = est, ar_status = py_str (or_val (kw d ''status'') (PStr ''reserved'')),
                  ar_settled = kw d ''settled_usd_micros'', ar_meta = m\<rparr>
             | _ \<Rightarrow> None)
        | _ \<Rightarrow> None)
   | _ \<Rightarrow> None)"

definition put_open :: "nat \<Rightarrow> gateway_state \<Rightarrow> gateway_state" where
  "put_open ref s = (let r = gx_heap s ! ref in
     if gx_disk s then s\<lparr>gx_open_files := dset (open_name (at_attempt (ar_identity r))) (reservation_doc r) (gx_open_files s)\<rparr> else s)"

definition drop_open :: "string \<Rightarrow> gateway_state \<Rightarrow> gateway_state" where
  "drop_open aid s =
     (if gx_disk s then s\<lparr>gx_open_files := AList.delete (open_name aid) (gx_open_files s)\<rparr> else s)"

definition enqueue_pending :: "(string \<Rightarrow> string) \<Rightarrow> rat \<Rightarrow> (string \<times> pyval) list \<Rightarrow> string \<Rightarrow> gateway_state \<Rightarrow> gateway_state" where
  "enqueue_pending sha now body err s =
     (if gx_disk s
      then s\<lparr>gx_pending := dset (pending_name sha (str_or_empty (kw body ''idempotency_key'')))
             (PDict [(''body'', PDict body), (''error'', PStr err), (''enqueued_at'', PFloat (Fin now) [])]) (gx_pending s)\<rparr>
      else s)"

text \<open>Files that hold an object; their names stand for the paths.\<close>

definition gateway_pending :: "gateway_state \<Rightarrow> (string \<times> (string \<times> pyval) list) list" where
  "gateway_pending s = map (\<lambda>(n, v). (n, mapping_of v)) (filter (\<lambda>(n, v). is_mapping v) (gx_pending s))"

definition ack_pending :: "string \<Rightarrow> gateway_state \<Rightarrow> gateway_state" where
  "ack_pending name s = (if gx_disk s then s\<lparr>gx_pending := AList.delete name (gx_pending s)\<rparr> else s)"

definition ack_body :: "(string \<Rightarrow> string) \<Rightarrow> (string \<times> pyval) list \<Rightarrow> gateway_state \<Rightarrow> gateway_state" where
  "ack_body sha body s = ack_pending (pending_name sha (str_or_empty (kw body ''idempotency_key''))) s"

definition quarantine_pending :: "string \<Rightarrow> gateway_state \<Rightarrow> gateway_state" where
  "quarantine_pending name s = (case dget (gx_pending s) name of
     None \<Rightarrow> s
   | Some v \<Rightarrow> if gx_disk s then s\<lparr>gx_pending := AList.delete name (gx_pending s), gx_aside := v # gx_aside s\<rparr> else s)"

section \<open>Requests\<close>

text \<open>\<open>GatewayAdmissionDenied(message, code, http_status)\<close>, or an exception of another kind.\<close>

datatype gateway_exn = Denied string int string | Gateway_Raised exn

type_synonym 'a gwres = "gateway_exn + 'a"

record gateway_client =
  gc_base_url :: string
  gc_api_key :: string
  gc_org :: string
  gc_workspace :: string

definition gateway_headers :: "gateway_client \<Rightarrow> (string \<times> string) list" where
  "gateway_headers c = [(''Content-Type'', ''application/json''), (''Accept'', ''application/json'')] @
     (if gc_api_key c = [] then [] else [(''X-API-Key'', gc_api_key c), (''Authorization'', ''Bearer '' @ gc_api_key c)]) @
     (if gc_org c = [] then [] else [(''X-Org-Id'', gc_org c), (''X-Kazen-Act-As-Org'', gc_org c)])"

definition unavailable :: "'a gwres" where
  "unavailable = Inl (Denied ''finops_unavailable'' 503 ''FinOps unavailable'')"

definition answer_of :: "(string \<Rightarrow> pyval option) \<Rightarrow> post_answer \<Rightarrow> (int \<times> (string \<times> pyval) list) gwres" where
  "answer_of loads a = (case a of
     Post_Ok status raw \<Rightarrow>
       if raw = [] then Inr (status, [])
       else (case loads raw of None \<Rightarrow> unavailable | Some v \<Rightarrow> Inr (status, mapping_of v))
   | Post_Http status raw reason \<Rightarrow>
       Inr (status, case Option.bind raw loads of
         Some (PDict d) \<Rightarrow> (case kw d ''detail'' of PDict x \<Rightarrow> x | _ \<Rightarrow> d)
       | _ \<Rightarrow> [(''reason'', PStr reason)])
   | Post_Down \<Rightarrow> unavailable)"

definition gateway_post ::
  "gateway_world \<Rightarrow> gateway_client \<Rightarrow> string \<Rightarrow> (string \<times> pyval) list \<Rightarrow> gateway_state
    \<Rightarrow> (int \<times> (string \<times> pyval) list) gwres \<times> gateway_state" where
  "gateway_post w c path body s =
     (if gc_base_url c = [] then (Inl (Denied ''finops_unconfigured'' 503 ''KAZENAI_FINOPS_URL not configured''), s)
      else let a = (case gx_answers s of [] \<Rightarrow> Post_Down | x # _ \<Rightarrow> x)
           in (answer_of (gl_loads w) a, s\<lparr>gx_answers := tl (gx_answers s), gx_sent := gx_sent s @ [(path, body, a)]\<rparr>))"

definition result_code :: "(string \<times> pyval) list \<Rightarrow> string" where
  "result_code p = py_lower (py_strip (str_or_empty (or_val (kw p ''result'') (kw p ''status''))))"

definition permanent_refusals :: "int list" where "permanent_refusals = [400, 404, 409, 410, 422]"
definition pending_max_age :: rat where "pending_max_age = 7 * 24 * 3600"

definition settlement_delivered :: "string \<Rightarrow> int \<Rightarrow> string \<Rightarrow> bool" where
  "settlement_delivered event status code \<longleftrightarrow>
     \<not> status \<ge> 400 \<and> (code \<in> {''applied'', ''duplicate''} \<or> event = ''outcome_unknown'' \<and> code = ''pending'')"

section \<open>Attempts at FinOps\<close>

definition lifecycle_version_v1 :: string where "lifecycle_version_v1 = ''reservation.lifecycle.v1''"

definition gateway_reserve_body ::
  "gateway_client \<Rightarrow> attempt_identity \<Rightarrow> int \<Rightarrow> string \<Rightarrow> string \<Rightarrow> string option \<Rightarrow> (string \<times> pyval) list" where
  "gateway_reserve_body c i micros run_id feature customer =
     [(''lifecycle_version'', PStr lifecycle_version_v1), (''call_id'', PStr (at_call i)), (''attempt'', PInt (at_number i)),
      (''idempotency_key'', PStr (at_key i)), (''org_id'', PStr (gc_org c)), (''workspace_id'', PStr (gc_workspace c)),
      (''estimated_usd_micros'', PInt micros), (''run_id'', PStr (or_str run_id (at_operation i))), (''feature'', PStr feature),
      (''operation_id'', PStr (at_operation i)), (''attempt_id'', PStr (at_attempt i)), (''workflow_id'', PStr (at_operation i))] @
     (case customer of Some (x # xs) \<Rightarrow> [(''business_subject_ref'', PStr (x # xs))] | _ \<Rightarrow> [])"

text \<open>What the answer to the reservation means: the reservation's id and decision, or a denial.\<close>

definition reserve_verdict :: "int \<Rightarrow> (string \<times> pyval) list \<Rightarrow> (string \<times> string) gwres" where
  "reserve_verdict status p =
     (if kw p ''error_code'' = PStr ''invalid_attribution''
      then Inl (Denied ''invalid_attribution'' 400
             (''gateway reserve refused: '' @ denial_reason (PDict p) [''reason'', ''message'', ''error'']))
      else if status = 402 \<or> kw p ''allowed'' = PBool False
      then Inl (Denied ''budget_denied'' 402 (''gateway admission denied: '' @ denial_reason (PDict p) [''reason'', ''error_code'']))
      else if status \<ge> 400 \<or> \<not> truthy (kw p ''reservation_id'')
      then Inl (Denied ''reserve_failed'' (max status 500)
             (''gateway reserve failed: '' @ py_str (or_val (kw p ''reason'') (or_val (kw p ''error_code'') (PStr (''HTTP '' @ int_str status))))))
      else Inr (py_str (kw p ''reservation_id''), str_or_empty (kw p ''decision_id'')))"

definition reserve_attempt ::
  "gateway_world \<Rightarrow> gateway_client \<Rightarrow> attempt_identity \<Rightarrow> string \<Rightarrow> rat \<Rightarrow> string \<Rightarrow> string \<Rightarrow> string option \<Rightarrow> gateway_state
    \<Rightarrow> nat gwres \<times> gateway_state" where
  "reserve_attempt w c i mdl usd run_id feature customer s =
     (let micros = gateway_micros usd;
          (r, s1) = gateway_post w c ''/v1/budget/reserve'' (gateway_reserve_body c i micros run_id feature customer) s
      in case r of
           Inl e \<Rightarrow> (Inl e, s1)
         | Inr (status, p) \<Rightarrow>
             (case reserve_verdict status p of
                Inl e \<Rightarrow> (Inl e, s1)
              | Inr (rid, decision) \<Rightarrow>
                  let ref = length (gx_heap s1);
                      obj = \<lparr>ar_identity = i, ar_reservation = rid, ar_decision = decision, ar_estimated = micros,
                             ar_status = ''reserved'', ar_settled = PNone, ar_meta = [(''model'', PStr mdl)]\<rparr>
                  in (Inr ref, put_open ref (s1\<lparr>gx_heap := gx_heap s1 @ [obj], gx_open := dset (at_attempt i) ref (gx_open s1)\<rparr>))))"

text \<open>The body of a settlement event; \<open>more\<close> holds the fields an event adds.\<close>

definition event_body ::
  "gateway_client \<Rightarrow> attempt_reservation \<Rightarrow> string \<Rightarrow> string \<Rightarrow> (string \<times> pyval) list \<Rightarrow> (string \<times> pyval) list" where
  "event_body c r suffix event extra = (let i = ar_identity r in
     [(''lifecycle_version'', PStr lifecycle_version_v1), (''reservation_id'', PStr (ar_reservation r)), (''call_id'', PStr (at_call i)),
      (''attempt'', PInt (at_number i)), (''idempotency_key'', PStr (at_key i @ '':'' @ suffix)), (''event'', PStr event),
      (''org_id'', PStr (gc_org c))] @ extra)"

definition set_object :: "nat \<Rightarrow> (attempt_reservation \<Rightarrow> attempt_reservation) \<Rightarrow> gateway_state \<Rightarrow> gateway_state" where
  "set_object ref f s = s\<lparr>gx_heap := (gx_heap s)[ref := f (gx_heap s ! ref)]\<rparr>"

definition mark_start :: "gateway_world \<Rightarrow> gateway_client \<Rightarrow> nat \<Rightarrow> gateway_state \<Rightarrow> unit gwres \<times> gateway_state" where
  "mark_start w c ref s =
     (let (r, s1) = gateway_post w c ''/v1/budget/settle''
            (event_body c (gx_heap s ! ref) ''provider_started'' ''provider_started'' []) s
      in case r of
           Inl e \<Rightarrow> (Inl e, s1)
         | Inr (status, p) \<Rightarrow>
             if status \<ge> 400 \<or> result_code p \<notin> {''applied'', ''duplicate''}
             then (Inl (Denied ''start_failed'' 503
                     (''gateway start mark failed: '' @ py_str (or_val (kw p ''error'') (or_val (kw p ''error_code'') (PInt status))))), s1)
             else (Inr (), put_open ref (set_object ref (\<lambda>ob. ob\<lparr>ar_status := ''started''\<rparr>) s1)))"

definition persist_delivery ::
  "(string \<Rightarrow> string) \<Rightarrow> rat \<Rightarrow> nat \<Rightarrow> (string \<times> pyval) list \<Rightarrow> string \<Rightarrow> gateway_state \<Rightarrow> gateway_state" where
  "persist_delivery sha now ref body err s = enqueue_pending sha now body err (put_open ref s)"

text \<open>The answers of the settlement calls, as the dictionaries they return; the text of a transport error is not
  modelled.\<close>

definition pending_result :: "(string \<times> pyval) list \<Rightarrow> (string \<times> pyval) list" where
  "pending_result extra = dupdate [(''result'', PStr ''pending''), (''status'', PStr ''pending'')] extra"

definition settle_cancel_or_pending ::
  "gateway_world \<Rightarrow> gateway_client \<Rightarrow> rat \<Rightarrow> nat \<Rightarrow> bool \<Rightarrow> string \<Rightarrow> gateway_state \<Rightarrow> (string \<times> pyval) list \<times> gateway_state" where
  "settle_cancel_or_pending w c now ref dispatched err s =
     (let event = (if dispatched then ''outcome_unknown'' else ''cancel_before_call'');
          body = event_body c (gx_heap s ! ref) event event
            [(''usage_evidence'', PDict [(''error'', PStr err), (''dispatched'', PBool dispatched)])];
          s1 = persist_delivery (gl_sha w) now ref body (or_str err ''pre_send'')
                 (set_object ref (\<lambda>ob. ob\<lparr>ar_status := (if dispatched then ''pending'' else ''cancelled'')\<rparr>) s);
          (r, s2) = gateway_post w c ''/v1/budget/settle'' body s1
      in case r of
           Inl _ \<Rightarrow> (pending_result [], persist_delivery (gl_sha w) now ref body ''transport'' s2)
         | Inr (status, p) \<Rightarrow>
             let code = result_code p in
             if \<not> settlement_delivered event status code
             then (pending_result ((''http_status'', PInt status) # p),
                   persist_delivery (gl_sha w) now ref body (or_str err (or_str code (int_str status))) s2)
             else let s3 = ack_body (gl_sha w) body s2;
                      a = at_attempt (ar_identity (gx_heap s ! ref))
                  in (dupdate [(''result'', PStr code)] p,
                      if dispatched then s3 else (drop_open a s3)\<lparr>gx_open := AList.delete a (gx_open s3)\<rparr>))"

definition ack_matching :: "string \<Rightarrow> gateway_state \<Rightarrow> gateway_state" where
  "ack_matching key s = fold (\<lambda>(name, item) st.
     if str_or_empty (field (PDict (mapping_of (kw item ''body''))) ''idempotency_key'') = key then ack_pending name st else st)
     (gateway_pending s) s"

definition settle_success ::
  "gateway_world \<Rightarrow> gateway_client \<Rightarrow> rat \<Rightarrow> nat \<Rightarrow> rat option \<Rightarrow> (string \<times> pyval) list \<Rightarrow> gateway_state
    \<Rightarrow> (string \<times> pyval) list \<times> gateway_state" where
  "settle_success w c now ref actual evidence s = (case actual of
     None \<Rightarrow> settle_cancel_or_pending w c now ref True ''authoritative_price_unavailable'' s
   | Some usd \<Rightarrow>
       let micros = gateway_micros usd;
           body = event_body c (gx_heap s ! ref) ''usage_known'' ''usage_known''
             [(''actual_usd_micros'', PInt micros), (''usage_evidence'', PDict evidence)];
           s1 = persist_delivery (gl_sha w) now ref body ''pre_send_usage_known''
                  (set_object ref (\<lambda>ob. ob\<lparr>ar_status := ''pending'', ar_settled := PInt micros\<rparr>) s);
           (r, s2) = gateway_post w c ''/v1/budget/settle'' body s1
       in case r of
            Inl _ \<Rightarrow> (pending_result [], persist_delivery (gl_sha w) now ref body ''transport'' s2)
          | Inr (status, p) \<Rightarrow>
              let code = result_code p in
              if status \<ge> 400 \<or> code \<notin> {''applied'', ''duplicate''}
              then (pending_result ((''http_status'', PInt status) # p),
                    persist_delivery (gl_sha w) now ref body (py_str (or_val (kw p ''error'') (or_val (PStr code) (PInt status)))) s2)
              else let a = at_attempt (ar_identity (gx_heap s ! ref));
                       s3 = set_object ref (\<lambda>ob. ob\<lparr>ar_status := ''settled'', ar_settled := PInt micros\<rparr>) s2;
                       s4 = ack_matching (py_str (kw body ''idempotency_key'')) (drop_open a s3)
                   in (dupdate [(''result'', PStr code)] p, s4\<lparr>gx_open := AList.delete a (gx_open s4)\<rparr>))"

text \<open>\<open>_signal_pending\<close> keeps its record whatever the answer is.\<close>

definition signal_pending :: "gateway_world \<Rightarrow> gateway_client \<Rightarrow> rat \<Rightarrow> nat \<Rightarrow> string \<Rightarrow> gateway_state \<Rightarrow> gateway_state" where
  "signal_pending w c now ref err s =
     (let body = event_body c (gx_heap s ! ref) ''outcome_unknown_signal'' ''outcome_unknown''
            [(''usage_evidence'', PDict [(''error'', PStr err)])]
      in snd (gateway_post w c ''/v1/budget/settle'' body (persist_delivery (gl_sha w) now ref body err s)))"

section \<open>Resending\<close>

text \<open>The open attempts a delivered amount settles: the same reservation and call.\<close>

definition finish_open :: "(string \<times> pyval) list \<Rightarrow> string \<times> nat \<Rightarrow> gateway_state \<Rightarrow> unit res \<times> gateway_state" where
  "finish_open body entry s =
     (let (aid, ref) = entry; r = gx_heap s ! ref in
      if PStr (ar_reservation r) = kw body ''reservation_id'' \<and> at_call (ar_identity r) = str_or_empty (kw body ''call_id'')
      then let s1 = set_object ref (\<lambda>ob. ob\<lparr>ar_status := ''settled''\<rparr>) s in
           case (if kw body ''actual_usd_micros'' = PNone then Inr (ar_settled r)
                 else bnd (py_int (kw body ''actual_usd_micros'')) (\<lambda>i. Inr (PInt i))) of
             Inl x \<Rightarrow> (Inl x, s1)
           | Inr v \<Rightarrow> let s2 = drop_open aid (set_object ref (\<lambda>ob. ob\<lparr>ar_settled := v\<rparr>) s1)
                      in (Inr (), s2\<lparr>gx_open := AList.delete aid (gx_open s2)\<rparr>)
      else (Inr (), s))"

fun finish_all :: "(string \<times> pyval) list \<Rightarrow> (string \<times> nat) list \<Rightarrow> gateway_state \<Rightarrow> unit res \<times> gateway_state" where
  "finish_all body [] s = (Inr (), s)"
| "finish_all body (e # es) s =
     (case finish_open body e s of (Inl x, s1) \<Rightarrow> (Inl x, s1) | (Inr _, s1) \<Rightarrow> finish_all body es s1)"

text \<open>One record of \<open>flush_pending\<close>: applied, failed, set aside, left alone, or the end of the round.\<close>

datatype resent = Applied | Failed | Quarantined | Skipped | Unreached

definition too_old :: "rat \<Rightarrow> fl \<Rightarrow> bool" where
  "too_old now t \<longleftrightarrow> (case t of Fin q \<Rightarrow> now - q > pending_max_age | NegInf \<Rightarrow> True | _ \<Rightarrow> False)"

definition resend ::
  "gateway_world \<Rightarrow> gateway_client \<Rightarrow> rat \<Rightarrow> string \<times> (string \<times> pyval) list \<Rightarrow> gateway_state \<Rightarrow> resent res \<times> gateway_state" where
  "resend w c now entry s =
     (let (name, item) = entry; body = mapping_of (kw item ''body'') in
      if body = [] then (Inr Skipped, s)
      else case py_float (or_val (kw item ''enqueued_at'') (PInt 0)) of
        Inl x \<Rightarrow> (Inl x, s)
      | Inr t \<Rightarrow>
        if too_old now t then (Inr Quarantined, quarantine_pending name s)
        else let (r, s1) = gateway_post w c ''/v1/budget/settle'' body s in
          case r of
            Inl _ \<Rightarrow> (Inr Unreached, s1)
          | Inr (status, p) \<Rightarrow>
              if status \<in> set permanent_refusals then (Inr Quarantined, quarantine_pending name s1)
              else if settlement_delivered (str_or_empty (kw body ''event'')) status (result_code p)
              then let s2 = ack_pending name s1 in
                   if str_or_empty (kw body ''event'') = ''usage_known''
                   then (case finish_all body (gx_open s2) s2 of (Inl x, s3) \<Rightarrow> (Inl x, s3) | (Inr _, s3) \<Rightarrow> (Inr Applied, s3))
                   else (Inr Applied, s2)
              else (Inr Failed, s1))"

text \<open>The counts of a round: applied, failed, quarantined. An exception ends it.\<close>

fun resend_all ::
  "gateway_world \<Rightarrow> gateway_client \<Rightarrow> rat \<Rightarrow> (string \<times> (string \<times> pyval) list) list \<Rightarrow> nat \<times> nat \<times> nat \<Rightarrow> gateway_state
    \<Rightarrow> (nat \<times> nat \<times> nat) res \<times> gateway_state" where
  "resend_all w c now [] n s = (Inr n, s)"
| "resend_all w c now (e # es) (a, f, q) s =
     (case resend w c now e s of
        (Inl x, s1) \<Rightarrow> (Inl x, s1)
      | (Inr Applied, s1) \<Rightarrow> resend_all w c now es (a + 1, f, q) s1
      | (Inr Failed, s1) \<Rightarrow> resend_all w c now es (a, f + 1, q) s1
      | (Inr Quarantined, s1) \<Rightarrow> resend_all w c now es (a, f, q + 1) s1
      | (Inr Skipped, s1) \<Rightarrow> resend_all w c now es (a, f, q) s1
      | (Inr Unreached, s1) \<Rightarrow> (Inr (a, f + 1, q), s1))"

definition flush_gateway :: "gateway_world \<Rightarrow> gateway_client \<Rightarrow> rat \<Rightarrow> gateway_state \<Rightarrow> (nat \<times> nat \<times> nat) res \<times> gateway_state" where
  "flush_gateway w c now s = resend_all w c now (gateway_pending s) (0, 0, 0) s"

definition client_get_open :: "string \<Rightarrow> gateway_state \<Rightarrow> nat option \<times> gateway_state" where
  "client_get_open aid s = (case dget (gx_open s) aid of
     Some ref \<Rightarrow> (Some ref, s)
   | None \<Rightarrow> (case Option.bind (dget (gx_open_files s) (open_name aid)) (doc_reservation aid) of
        None \<Rightarrow> (None, s)
      | Some r \<Rightarrow> (Some (length (gx_heap s)),
                   s\<lparr>gx_heap := gx_heap s @ [r], gx_open := dset aid (length (gx_heap s)) (gx_open s)\<rparr>)))"

end
