(* ===== verification/Gateway_Hooks.thy ===== *)
theory Gateway_Hooks
  imports Gateway_Store
begin

text \<open>
  The callbacks of kazenai/integrations/litellm_gateway.py, which LiteLLM calls around each deployment attempt:
  reserve and mark the start before the provider is called, settle what came back. Each hook is one step of the
  logger's state; what is sent in the background is a step of its own. \<open>litellm_errors\<close> says whether LiteLLM's
  exception classes can be imported.
\<close>

section \<open>The logger\<close>

record gateway_logger =
  lg_state :: gateway_state
  lg_counter :: int
  lg_by_call :: "(string \<times> string) list"
  lg_evidence :: "(string \<times> bool) list"
  lg_last_flush :: "rat option"
  lg_flushing :: bool

datatype hook_error =
    Budget_Exceeded_Error int string
  | Bad_Request string
  | Hook_Denied string int string
  | Hook_Raised exn

definition flush_interval :: "env \<Rightarrow> fl res" where
  "flush_interval e = (case dget e ''KAZENAI_GATEWAY_FLUSH_INTERVAL_S'' of
     Some (c # cs) \<Rightarrow> py_float (PStr (c # cs)) | _ \<Rightarrow> Inr (Fin 30))"

text \<open>\<open>_last_flush\<close> starts at minus infinity.\<close>

definition schedule_flush :: "fl \<Rightarrow> rat \<Rightarrow> gateway_logger \<Rightarrow> gateway_logger" where
  "schedule_flush interval clock g =
     (if lg_flushing g then g
      else if (case (lg_last_flush g, interval) of
                 (Some t, Fin q) \<Rightarrow> clock - t < q | (Some _, PosInf) \<Rightarrow> True | _ \<Rightarrow> False) then g
      else g\<lparr>lg_last_flush := Some clock, lg_flushing := True\<rparr>)"

definition run_flush :: "gateway_world \<Rightarrow> gateway_client \<Rightarrow> rat \<Rightarrow> gateway_logger \<Rightarrow> gateway_logger" where
  "run_flush w c now g = g\<lparr>lg_state := snd (flush_gateway w c now (lg_state g)), lg_flushing := False\<rparr>"

definition next_attempt_number :: "kwargs \<Rightarrow> gateway_logger \<Rightarrow> int res \<times> gateway_logger" where
  "next_attempt_number kws g =
     (let n = lg_counter g + 1; meta = mapping_of (kw kws ''metadata'') in
      (if kw meta ''kazenai_attempt_number'' = PNone then Inr n else int_or n (kw meta ''kazenai_attempt_number''),
       g\<lparr>lg_counter := n\<rparr>))"

section \<open>Before the call\<close>

definition hook_run_id :: "kwargs \<Rightarrow> attempt_identity \<Rightarrow> string" where
  "hook_run_id kws i = (case kw kws ''metadata'' of PDict m \<Rightarrow> py_str (kw m ''run_id'') | _ \<Rightarrow> at_operation i)"

definition required_customer :: "env \<Rightarrow> string option \<Rightarrow> unit gwres" where
  "required_customer e customer =
     (if customer = None \<and> customer_id_required e
      then Inl (Denied ''customer_id_required'' 400 ''this call names no customer'') else Inr ())"

text \<open>What the hold is computed from: the request with its output limit, the estimate, and the multiplier.\<close>

definition hold_of_request :: "gateway_world \<Rightarrow> kwargs \<Rightarrow> string \<Rightarrow> (kwargs \<times> rat \<times> rat) res" where
  "hold_of_request w kws kind =
     bnd (require_multiplier_when_control (gl_env w)) (\<lambda>_.
     bnd (endpoint_price_multiplier w kws) (\<lambda>m.
     bnd (reserve_bound_tokens kws kind) (\<lambda>(kws', input, output).
       Inr (kws', estimate_reserve_usd w (py_str (or_val (kw kws ''model'') (PStr ''unknown''))) input output None m, m))))"

definition admission_error :: "exn \<Rightarrow> gateway_exn" where
  "admission_error x = Denied ''admission_error'' 503 ''gateway admission error''"

text \<open>The \<open>try\<close> block: the bounded request and the reservation that was started, or a denial.\<close>

definition admit_attempt ::
  "gateway_world \<Rightarrow> gateway_client \<Rightarrow> attempt_identity \<Rightarrow> kwargs \<Rightarrow> string \<Rightarrow> gateway_state \<Rightarrow> (kwargs \<times> nat) gwres \<times> gateway_state" where
  "admit_attempt w c i kws kind s =
     (let customer = resolve_customer_id kws in
      case required_customer (gl_env w) customer of
        Inl e \<Rightarrow> (Inl e, s)
      | Inr _ \<Rightarrow>
          (case hold_of_request w kws kind of
             Inl x \<Rightarrow> (Inl (admission_error x), s)
           | Inr (kws', usd, m) \<Rightarrow>
               (case reserve_attempt w c i (py_str (or_val (kw kws ''model'') (PStr ''unknown''))) usd (hook_run_id kws' i)
                       ''litellm_gateway'' customer s of
                  (Inl e, s1) \<Rightarrow> (Inl e, s1)
                | (Inr ref, s1) \<Rightarrow>
                    let s2 = set_object ref (\<lambda>ob. ob\<lparr>ar_meta := dset ''price_multiplier'' (PStr (gl_format w m)) (ar_meta ob)\<rparr>) s1 in
                    (case mark_start w c ref s2 of (Inl e, s3) \<Rightarrow> (Inl e, s3) | (Inr _, s3) \<Rightarrow> (Inr (kws', ref), s3)))))"

definition hook_error_of :: "bool \<Rightarrow> gateway_exn \<Rightarrow> hook_error" where
  "hook_error_of litellm_errors e = (case e of
     Gateway_Raised x \<Rightarrow> Hook_Denied ''admission_error'' 503 ''gateway admission error''
   | Denied code status msg \<Rightarrow>
       if code = ''budget_denied'' \<and> litellm_errors then Budget_Exceeded_Error (if status = 0 then 402 else status) msg
       else if code \<noteq> ''budget_denied'' \<and> status = 400 \<and> litellm_errors then Bad_Request msg
       else Hook_Denied code status msg)"

definition request_traceparent :: "kwargs \<Rightarrow> string" where
  "request_traceparent kws =
     (let tp = (case kw kws ''headers'' of PDict h \<Rightarrow> or_val (kw h ''traceparent'') (kw h ''Traceparent'') | _ \<Rightarrow> PNone)
      in str_or_empty (if \<not> truthy tp \<and> is_mapping (kw kws ''metadata'') then field (kw kws ''metadata'') ''kazenai_traceparent'' else tp))"

definition pre_call_hook ::
  "gateway_world \<Rightarrow> gateway_client \<Rightarrow> bool \<Rightarrow> fl \<Rightarrow> rat \<Rightarrow> (string \<times> string \<times> string) \<times> (string \<times> string \<times> string)
    \<Rightarrow> kwargs \<Rightarrow> string \<Rightarrow> gateway_logger \<Rightarrow> (hook_error + kwargs) \<times> gateway_logger" where
  "pre_call_hook w c litellm_errors interval clock fresh kws kind g0 =
     (if py_lower (py_strip (or_str (case dget (gl_env w) ''KAZENAI_ENFORCEMENT_OWNER'' of None \<Rightarrow> [] | Some t \<Rightarrow> t) ''gateway'')) \<noteq> ''gateway''
      then (Inr kws, g0)
      else let (number, g1) = next_attempt_number kws (schedule_flush interval clock g0) in
        case bnd number (\<lambda>n. bnd (resolve_attempt_from_kwargs (gl_sha w) (fst fresh) kws (Some n)) (\<lambda>b. Inr (n, b))) of
          Inl x \<Rightarrow> (Inl (Hook_Raised x), g1)
        | Inr (n, b) \<Rightarrow>
            let i = new_attempt_identity (gl_sha w) (snd fresh) (at_operation b) (at_call b) n [];
                (r, s) = admit_attempt w c i kws kind (lg_state g1); g2 = g1\<lparr>lg_state := s\<rparr>
            in case r of
                 Inl e \<Rightarrow> (Inl (hook_error_of litellm_errors e), g2)
               | Inr (kws', ref) \<Rightarrow>
                   let bound = bind_kwargs_metadata (gx_heap s ! ref) kws';
                       cid = str_or_empty (kw bound ''litellm_call_id'');
                       g3 = (if cid = [] then g2 else g2\<lparr>lg_by_call := dset cid (at_attempt i) (lg_by_call g2)\<rparr>)
                   in (Inr (inject_traceparent (request_traceparent bound) bound), g3))"

section \<open>After the call\<close>

definition attempt_of_request :: "kwargs \<Rightarrow> gateway_logger \<Rightarrow> string" where
  "attempt_of_request kws g =
     (let blocks = [mapping_of (kw kws ''metadata''),
            mapping_of (field (PDict (mapping_of (kw kws ''litellm_params''))) ''metadata''), kws]
      in case find (\<lambda>b. truthy (kw b ''kazenai_attempt_id'')) blocks of
           Some b \<Rightarrow> py_str (kw b ''kazenai_attempt_id'')
         | None \<Rightarrow> (case dget (lg_by_call g) (str_or_empty (kw kws ''litellm_call_id'')) of None \<Rightarrow> [] | Some a \<Rightarrow> a))"

definition reservation_for :: "kwargs \<Rightarrow> gateway_logger \<Rightarrow> nat option \<times> gateway_logger" where
  "reservation_for kws g =
     (let a = attempt_of_request kws g in
      if a = [] then (None, g)
      else let (r, s) = client_get_open a (lg_state g) in (r, g\<lparr>lg_state := s\<rparr>))"

definition forget_call :: "kwargs \<Rightarrow> gateway_logger \<Rightarrow> gateway_logger" where
  "forget_call kws g = (let cid = str_or_empty (kw kws ''litellm_call_id'') in
     g\<lparr>lg_by_call := AList.delete cid (lg_by_call g), lg_evidence := AList.delete cid (lg_evidence g)\<rparr>)"

definition usage_evidence_doc :: "int \<Rightarrow> int \<Rightarrow> int \<Rightarrow> string \<Rightarrow> bool \<Rightarrow> (string \<times> pyval) list" where
  "usage_evidence_doc prompt completion tot mdl unverified =
     [(''prompt_tokens'', PInt prompt), (''completion_tokens'', PInt completion), (''total_tokens'', PInt tot),
      (''model'', PStr mdl), (''cost_confidence'', PStr ''estimated'')] @
     (if unverified then [(''usage_source'', PStr ''unverified'')] else [])"

text \<open>The multiplier the hook stored with the reservation; a price that is not finite is no price.\<close>

definition stored_multiplier :: "attempt_reservation \<Rightarrow> rat option res" where
  "stored_multiplier r =
     (case parse_dec (py_str (or_val (kw (ar_meta r) ''price_multiplier'') (PStr ''1''))) of
        None \<Rightarrow> Inl InvalidOperation | Some (DFin q) \<Rightarrow> Inr (Some q) | Some _ \<Rightarrow> Inr None)"

text \<open>\<open>_settle_usage\<close>: what to settle, \<open>None\<close> for an unknown outcome.\<close>

definition usage_settlement ::
  "gateway_world \<Rightarrow> attempt_reservation \<Rightarrow> kwargs \<Rightarrow> pyval \<Rightarrow> bool \<Rightarrow> (rat option \<times> (string \<times> pyval) list) option res" where
  "usage_settlement w r kws response unverified =
     (let mdl = py_str (or_val (kw kws ''model'') (or_val (kw (ar_meta r) ''model'') (PStr ''unknown''))) in
      bnd (extract_usage_tokens response) (\<lambda>(prompt, completion, total).
      if total \<le> 0 then Inr None
      else bnd (stored_multiplier r) (\<lambda>m.
           bnd (case m of None \<Rightarrow> Inr None | Some q \<Rightarrow> estimate_cost_from_response w mdl response q) (\<lambda>usd.
             Inr (Some (usd, usage_evidence_doc prompt completion total mdl unverified))))))"

definition settle_usage ::
  "gateway_world \<Rightarrow> gateway_client \<Rightarrow> rat \<Rightarrow> nat \<Rightarrow> kwargs \<Rightarrow> pyval \<Rightarrow> bool \<Rightarrow> gateway_logger \<Rightarrow> unit res \<times> gateway_logger" where
  "settle_usage w c now ref kws response unverified g =
     (case usage_settlement w (gx_heap (lg_state g) ! ref) kws response unverified of
        Inl x \<Rightarrow> (Inl x, g)
      | Inr None \<Rightarrow> (Inr (), g\<lparr>lg_state := snd (settle_cancel_or_pending w c now ref True ''missing_usage'' (lg_state g))\<rparr>)
      | Inr (Some (usd, evidence)) \<Rightarrow> (Inr (), g\<lparr>lg_state := snd (settle_success w c now ref usd evidence (lg_state g))\<rparr>))"

definition then_forget :: "kwargs \<Rightarrow> unit res \<times> gateway_logger \<Rightarrow> unit res \<times> gateway_logger" where
  "then_forget kws rg = (case rg of (Inl x, g) \<Rightarrow> (Inl x, g) | (Inr _, g) \<Rightarrow> (Inr (), forget_call kws g))"

definition post_call_success_hook ::
  "gateway_world \<Rightarrow> gateway_client \<Rightarrow> rat \<Rightarrow> kwargs \<Rightarrow> pyval \<Rightarrow> gateway_logger \<Rightarrow> unit res \<times> gateway_logger" where
  "post_call_success_hook w c now kws response g =
     (if truthy (kw kws ''stream'') then (Inr (), g)
      else case reservation_for kws g of
        (None, g1) \<Rightarrow> (Inr (), g1)
      | (Some ref, g1) \<Rightarrow> then_forget kws (settle_usage w c now ref kws response False g1))"

definition max_stream_evidence :: nat where "max_stream_evidence = 10000"

text \<open>What the streaming hook notes when the stream has ended.\<close>

definition note_stream_end :: "kwargs \<Rightarrow> pyval \<Rightarrow> gateway_logger \<Rightarrow> gateway_logger" where
  "note_stream_end kws stream g =
     (let cid = str_or_empty (kw kws ''litellm_call_id'') in
      case provider_finished_and_reported stream of
        None \<Rightarrow> g
      | Some reported \<Rightarrow>
          if cid = [] then g
          else let ev = (if length (lg_evidence g) \<ge> max_stream_evidence then tl (lg_evidence g) else lg_evidence g)
               in g\<lparr>lg_evidence := dset cid reported ev\<rparr>)"

definition log_success_event ::
  "gateway_world \<Rightarrow> gateway_client \<Rightarrow> rat \<Rightarrow> fl \<Rightarrow> rat \<Rightarrow> kwargs \<Rightarrow> pyval \<Rightarrow> gateway_logger \<Rightarrow> unit res \<times> gateway_logger" where
  "log_success_event w c now interval clock kws response g0 =
     (let g1 = schedule_flush interval clock g0;
          reported = dget (lg_evidence g1) (str_or_empty (kw kws ''litellm_call_id''))
      in case reservation_for kws g1 of
           (None, g2) \<Rightarrow> (Inr (), forget_call kws g2)
         | (Some ref, g2) \<Rightarrow>
             then_forget kws
               (if truthy (kw kws ''cache_hit'')
                then (Inr (), g2\<lparr>lg_state := snd (settle_success w c now ref (Some 0)
                       [(''cache_hit'', PBool True), (''cost_confidence'', PStr ''exact'')] (lg_state g2))\<rparr>)
                else if client_disconnected kws
                then (Inr (), g2\<lparr>lg_state := snd (settle_cancel_or_pending w c now ref True ''client_disconnected'' (lg_state g2))\<rparr>)
                else if truthy (kw kws ''stream'') \<and> reported = Some False
                then (Inr (), g2\<lparr>lg_state := snd (settle_cancel_or_pending w c now ref True ''missing_usage'' (lg_state g2))\<rparr>)
                else settle_usage w c now ref kws response (truthy (kw kws ''stream'') \<and> reported = None) g2))"

text \<open>\<open>failed\<close> is the name of the exception's class.\<close>

definition log_failure_event ::
  "gateway_world \<Rightarrow> gateway_client \<Rightarrow> rat \<Rightarrow> kwargs \<Rightarrow> string \<Rightarrow> gateway_logger \<Rightarrow> gateway_logger" where
  "log_failure_event w c now kws failed g =
     (if \<not> truthy (kw kws ''stream'') then g
      else case reservation_for kws g of
        (None, g1) \<Rightarrow> g1
      | (Some ref, g1) \<Rightarrow> forget_call kws
          (g1\<lparr>lg_state := snd (settle_cancel_or_pending w c now ref True (''stream_failed:'' @ or_str failed ''unknown'') (lg_state g1))\<rparr>))"

text \<open>\<open>admission\<close> tells a \<open>GatewayAdmissionDenied\<close> from an exception of the provider, whose fields are \<open>exc\<close> and
  whose name and text are \<open>shown\<close>.\<close>

definition post_call_failure_hook ::
  "gateway_world \<Rightarrow> gateway_client \<Rightarrow> rat \<Rightarrow> kwargs \<Rightarrow> bool \<Rightarrow> pyval \<Rightarrow> string \<Rightarrow> gateway_logger \<Rightarrow> unit res \<times> gateway_logger" where
  "post_call_failure_hook w c now kws admission exc shown g =
     (case reservation_for kws g of
        (None, g1) \<Rightarrow> (Inr (), g1)
      | (Some ref, g1) \<Rightarrow>
          (case (if admission then Inr False else is_definitive_provider_rejection exc) of
             Inl x \<Rightarrow> (Inl x, g1)
           | Inr True \<Rightarrow> (Inr (), forget_call kws (g1\<lparr>lg_state := snd (settle_success w c now ref (Some 0)
                [(''provider_rejected'', PBool True), (''status_code'', attr exc ''status_code''), (''cost_confidence'', PStr ''exact'')]
                (lg_state g1))\<rparr>))
           | Inr False \<Rightarrow> (Inr (), forget_call kws (g1\<lparr>lg_state :=
                snd (settle_cancel_or_pending w c now ref (\<not> admission) shown (lg_state g1))\<rparr>))))"

end
