(* ===== verification/Gateway_Facts.thy ===== *)
theory Gateway_Facts
  imports Gateway_Hooks Spool Document_Facts
begin

text \<open>
  What the gateway guarantees: an admitted attempt was reserved and started, a settlement is sent with its exact
  amount and kept until FinOps acknowledges it or an operator has it, and the files restore what they hold.
\<close>

section \<open>Requests and files\<close>

lemma post_frame:
  assumes "gateway_post w c path body s = (r, s')"
  shows "gx_pending s' = gx_pending s" "gx_aside s' = gx_aside s" "gx_disk s' = gx_disk s" "gx_heap s' = gx_heap s"
    "gx_open s' = gx_open s" "gx_open_files s' = gx_open_files s"
  using assms by (auto simp: gateway_post_def Let_def split: if_splits)

lemma put_open_frame [simp]:
  "gx_pending (put_open ref s) = gx_pending s" "gx_aside (put_open ref s) = gx_aside s" "gx_disk (put_open ref s) = gx_disk s"
  "gx_heap (put_open ref s) = gx_heap s" "gx_sent (put_open ref s) = gx_sent s" "gx_answers (put_open ref s) = gx_answers s"
  "gx_open (put_open ref s) = gx_open s"
  by (simp_all add: put_open_def Let_def)

lemma drop_open_frame [simp]:
  "gx_pending (drop_open a s) = gx_pending s" "gx_aside (drop_open a s) = gx_aside s" "gx_disk (drop_open a s) = gx_disk s"
  "gx_heap (drop_open a s) = gx_heap s" "gx_sent (drop_open a s) = gx_sent s" "gx_open (drop_open a s) = gx_open s"
  by (simp_all add: drop_open_def)

lemma set_object_frame [simp]:
  "gx_pending (set_object ref f s) = gx_pending s" "gx_aside (set_object ref f s) = gx_aside s" "gx_disk (set_object ref f s) = gx_disk s"
  "gx_sent (set_object ref f s) = gx_sent s" "gx_answers (set_object ref f s) = gx_answers s" "gx_open (set_object ref f s) = gx_open s"
  "length (gx_heap (set_object ref f s)) = length (gx_heap s)"
  by (simp_all add: set_object_def)

lemma enqueue_frame [simp]:
  "gx_aside (enqueue_pending sha now body err s) = gx_aside s" "gx_disk (enqueue_pending sha now body err s) = gx_disk s"
  "gx_heap (enqueue_pending sha now body err s) = gx_heap s" "gx_sent (enqueue_pending sha now body err s) = gx_sent s"
  "gx_answers (enqueue_pending sha now body err s) = gx_answers s" "gx_open (enqueue_pending sha now body err s) = gx_open s"
  by (simp_all add: enqueue_pending_def)

lemma ack_frame [simp]:
  "gx_aside (ack_pending n s) = gx_aside s" "gx_disk (ack_pending n s) = gx_disk s" "gx_heap (ack_pending n s) = gx_heap s"
  "gx_sent (ack_pending n s) = gx_sent s" "gx_open (ack_pending n s) = gx_open s"
  by (simp_all add: ack_pending_def)

lemma ack_matching_frame [simp]:
  "gx_aside (ack_matching k s) = gx_aside s" "gx_disk (ack_matching k s) = gx_disk s" "gx_sent (ack_matching k s) = gx_sent s"
proof -
  have "gx_aside (ack_matching k s) = gx_aside s \<and> gx_disk (ack_matching k s) = gx_disk s \<and> gx_sent (ack_matching k s) = gx_sent s"
    unfolding ack_matching_def
    by (rule fold_invariant [where Q = "\<lambda>_. True"]) (auto split: prod.splits)
  then show "gx_aside (ack_matching k s) = gx_aside s" "gx_disk (ack_matching k s) = gx_disk s"
    "gx_sent (ack_matching k s) = gx_sent s" by blast+
qed

section \<open>What is journaled\<close>

text \<open>The settlements on disk: the name of a pending file with the body it holds.\<close>

definition journaled :: "gateway_state \<Rightarrow> (string \<times> (string \<times> pyval) list) set" where
  "journaled s = {(n, body). \<exists>doc. dget (gx_pending s) n = Some (PDict doc) \<and> kw doc ''body'' = PDict body}"

definition set_apart :: "gateway_state \<Rightarrow> (string \<times> pyval) list set" where
  "set_apart s = {body. \<exists>doc. PDict doc \<in> set (gx_aside s) \<and> kw doc ''body'' = PDict body}"

text \<open>The bodies FinOps acknowledged: sent, with an answer that delivers their event.\<close>

definition acknowledged :: "gateway_world \<Rightarrow> gateway_state \<Rightarrow> (string \<times> pyval) list set" where
  "acknowledged w s = {body. \<exists>a status p. (''/v1/budget/settle'', body, a) \<in> set (gx_sent s) \<and>
     answer_of (gl_loads w) a = Inr (status, p) \<and> settlement_delivered (str_or_empty (kw body ''event'')) status (result_code p)}"

lemma post_answered:
  assumes "gateway_post w c path body s = (Inr (status, p), s')"
  shows "\<exists>a. gx_sent s' = gx_sent s @ [(path, body, a)] \<and> answer_of (gl_loads w) a = Inr (status, p)"
  using assms by (auto simp: gateway_post_def Let_def split: if_splits)

lemma post_sent_mono: "gateway_post w c path body s = (r, s') \<Longrightarrow> set (gx_sent s) \<subseteq> set (gx_sent s')"
  by (auto simp: gateway_post_def Let_def split: if_splits)

lemma dget_alist_update [simp]: "dget (AList.update k v d) j = (if j = k then Some v else dget d j)"
  by (simp add: dget_def update_conv)

lemma kw_body_item [simp]: "kw [(''body'', b), (''error'', e), (''enqueued_at'', t)] ''body'' = b"
  by (simp add: kw_def)

lemma journaled_enqueue:
  "journaled (enqueue_pending sha now body err s) =
     (if gx_disk s then insert (pending_name sha (str_or_empty (kw body ''idempotency_key'')), body)
        {j \<in> journaled s. fst j \<noteq> pending_name sha (str_or_empty (kw body ''idempotency_key''))} else journaled s)"
  by (auto simp: journaled_def enqueue_pending_def split: if_splits)

lemma journaled_ack: "journaled (ack_pending n s) = (if gx_disk s then {j \<in> journaled s. fst j \<noteq> n} else journaled s)"
  by (auto simp: journaled_def ack_pending_def dget_delete split: if_splits)

lemma journaled_cong: "gx_pending s' = gx_pending s \<Longrightarrow> journaled s' = journaled s"
  by (simp add: journaled_def)

section \<open>Settlements\<close>

abbreviation key_of :: "(string \<times> pyval) list \<Rightarrow> string" where
  "key_of body \<equiv> str_or_empty (kw body ''idempotency_key'')"

abbreviation name_of :: "gateway_world \<Rightarrow> (string \<times> pyval) list \<Rightarrow> string" where
  "name_of w body \<equiv> pending_name (gl_sha w) (key_of body)"

definition known_body :: "gateway_client \<Rightarrow> attempt_reservation \<Rightarrow> rat \<Rightarrow> (string \<times> pyval) list \<Rightarrow> (string \<times> pyval) list" where
  "known_body c r usd evidence = event_body c r ''usage_known'' ''usage_known''
     [(''actual_usd_micros'', PInt (gateway_micros usd)), (''usage_evidence'', PDict evidence)]"

definition unknown_body :: "gateway_client \<Rightarrow> attempt_reservation \<Rightarrow> bool \<Rightarrow> string \<Rightarrow> (string \<times> pyval) list" where
  "unknown_body c r dispatched err = (let event = (if dispatched then ''outcome_unknown'' else ''cancel_before_call'') in
     event_body c r event event [(''usage_evidence'', PDict [(''error'', PStr err), (''dispatched'', PBool dispatched)])])"

lemma event_body_fields [simp]:
  "kw (event_body c r suffix event extra) ''event'' = PStr event"
  "kw (event_body c r suffix event extra) ''idempotency_key'' = PStr (at_key (ar_identity r) @ '':'' @ suffix)"
  by (simp_all add: event_body_def kw_def Let_def)

text \<open>A settlement that returns: the settlement is on disk or was acknowledged, the rest of the journal stands.\<close>

definition settled_safely ::
  "gateway_world \<Rightarrow> (string \<times> pyval) list \<Rightarrow> gateway_state \<Rightarrow> gateway_state \<Rightarrow> bool" where
  "settled_safely w body s s' \<longleftrightarrow>
     set (gx_sent s) \<subseteq> set (gx_sent s') \<and> gx_aside s' = gx_aside s \<and> gx_disk s' = gx_disk s \<and>
     (gx_disk s \<longrightarrow> (name_of w body, body) \<in> journaled s' \<or> body \<in> acknowledged w s') \<and>
     {j \<in> journaled s. fst j \<noteq> name_of w body} \<subseteq> journaled s' \<and>
     (if gx_disk s then journaled s' \<subseteq> insert (name_of w body, body) {j \<in> journaled s. fst j \<noteq> name_of w body}
      else journaled s' = journaled s)"

lemma journaled_frame [simp]:
  "journaled (put_open ref s) = journaled s" "journaled (set_object ref f s) = journaled s" "journaled (drop_open a s) = journaled s"
  "journaled (s\<lparr>gx_open := t\<rparr>) = journaled s" "journaled (s\<lparr>gx_heap := h, gx_open := t\<rparr>) = journaled s"
  by (rule journaled_cong, simp)+

lemma journaled_persist:
  "journaled (persist_delivery (gl_sha w) now ref body err s) =
     (if gx_disk s then insert (name_of w body, body) {j \<in> journaled s. fst j \<noteq> name_of w body} else journaled s)"
  by (simp add: persist_delivery_def journaled_enqueue)

lemma persist_frame [simp]:
  "gx_aside (persist_delivery sha now ref body err s) = gx_aside s" "gx_disk (persist_delivery sha now ref body err s) = gx_disk s"
  "gx_sent (persist_delivery sha now ref body err s) = gx_sent s" "gx_answers (persist_delivery sha now ref body err s) = gx_answers s"
  by (simp_all add: persist_delivery_def)

lemma acked_in_trace:
  assumes "gateway_post w c ''/v1/budget/settle'' body s = (Inr (status, p), s1)"
    "settlement_delivered (str_or_empty (kw body ''event'')) status (result_code p)" "set (gx_sent s1) \<subseteq> set (gx_sent s')"
  shows "body \<in> acknowledged w s'"
proof -
  obtain a where "gx_sent s1 = gx_sent s @ [(''/v1/budget/settle'', body, a)]" and a: "answer_of (gl_loads w) a = Inr (status, p)"
    using post_answered [OF assms(1)] by blast
  then have "(''/v1/budget/settle'', body, a) \<in> set (gx_sent s')" using assms(3) by auto
  with a assms(2) show ?thesis unfolding acknowledged_def by blast
qed

lemma settle_cancel_unfold:
  "settle_cancel_or_pending w c now ref d err s =
     (let event = (if d then ''outcome_unknown'' else ''cancel_before_call''); body = unknown_body c (gx_heap s ! ref) d err;
          s1 = persist_delivery (gl_sha w) now ref body (or_str err ''pre_send'')
                 (set_object ref (\<lambda>ob. ob\<lparr>ar_status := (if d then ''pending'' else ''cancelled'')\<rparr>) s);
          (r, s2) = gateway_post w c ''/v1/budget/settle'' body s1
      in case r of
           Inl _ \<Rightarrow> (pending_result [], persist_delivery (gl_sha w) now ref body ''transport'' s2)
         | Inr (status, p) \<Rightarrow>
             if \<not> settlement_delivered event status (result_code p)
             then (pending_result ((''http_status'', PInt status) # p),
                   persist_delivery (gl_sha w) now ref body (or_str err (or_str (result_code p) (int_str status))) s2)
             else let s3 = ack_body (gl_sha w) body s2; a = at_attempt (ar_identity (gx_heap s ! ref))
                  in (dupdate [(''result'', PStr (result_code p))] p,
                      if d then s3 else (drop_open a s3)\<lparr>gx_open := AList.delete a (gx_open s3)\<rparr>))"
  by (simp only: settle_cancel_or_pending_def unknown_body_def Let_def)

lemma settle_cancel_safely:
  assumes "settle_cancel_or_pending w c now ref d err s = (res, s')"
  shows "settled_safely w (unknown_body c (gx_heap s ! ref) d err) s s'"
proof -
  let ?body = "unknown_body c (gx_heap s ! ref) d err"
  let ?event = "if d then ''outcome_unknown'' else ''cancel_before_call''"
  let ?s1 = "persist_delivery (gl_sha w) now ref ?body (or_str err ''pre_send'')
      (set_object ref (\<lambda>ob. ob\<lparr>ar_status := (if d then ''pending'' else ''cancelled'')\<rparr>) s)"
  have j1: "journaled ?s1 = (if gx_disk s then insert (name_of w ?body, ?body) {j \<in> journaled s. fst j \<noteq> name_of w ?body} else journaled s)"
    by (simp add: journaled_persist)
  have ev: "str_or_empty (kw ?body ''event'') = ?event" by (simp add: unknown_body_def Let_def)
  obtain r s2 where p: "gateway_post w c ''/v1/budget/settle'' ?body ?s1 = (r, s2)" by (cases "gateway_post w c ''/v1/budget/settle'' ?body ?s1")
  note f = post_frame [OF p] and m = post_sent_mono [OF p]
  have j2: "journaled s2 = journaled ?s1" by (rule journaled_cong) (rule f(1))
  show ?thesis
  proof (cases "\<exists>status q. r = Inr (status, q) \<and> settlement_delivered ?event status (result_code q)")
    case True
    then obtain status q where r: "r = Inr (status, q)" and d: "settlement_delivered ?event status (result_code q)" by blast
    let ?s3 = "ack_body (gl_sha w) ?body s2"
    have s': "journaled s' = journaled ?s3 \<and> gx_sent s' = gx_sent s2 \<and> gx_aside s' = gx_aside s2 \<and> gx_disk s' = gx_disk s2"
      using assms unfolding settle_cancel_unfold Let_def p r
      by (cases d) (use \<open>settlement_delivered _ _ _\<close> in \<open>auto simp: ack_body_def journaled_def\<close>)
    have "journaled ?s3 = (if gx_disk s then {j \<in> journaled s. fst j \<noteq> name_of w ?body} else journaled s)"
      using j1 j2 f(3) by (auto simp: ack_body_def journaled_ack)
    moreover have "?body \<in> acknowledged w s'"
      using acked_in_trace [OF p [unfolded r], of s'] d ev s' by simp
    ultimately show ?thesis using s' f m by (auto simp: settled_safely_def)
  next
    case False
    then have "\<exists>e. s' = persist_delivery (gl_sha w) now ref ?body e s2"
      using assms unfolding settle_cancel_unfold Let_def p
      by (cases r) auto
    then obtain e where "s' = persist_delivery (gl_sha w) now ref ?body e s2" by blast
    then show ?thesis using j1 j2 f m by (auto simp: settled_safely_def journaled_persist)
  qed
qed

text \<open>The pending directory: one file a name, named for the key of the body it holds.\<close>

definition names_ok :: "gateway_world \<Rightarrow> gateway_state \<Rightarrow> bool" where
  "names_ok w s \<longleftrightarrow> distinct (map fst (gx_pending s)) \<and> (\<forall>(n, b) \<in> journaled s. n = name_of w b)"

lemma in_gateway_pending:
  "distinct (map fst (gx_pending s)) \<Longrightarrow> (n, item) \<in> set (gateway_pending s) \<longleftrightarrow> dget (gx_pending s) n = Some (PDict item)"
proof -
  assume d: "distinct (map fst (gx_pending s))"
  have "(n, item) \<in> set (gateway_pending s) \<longleftrightarrow> (n, PDict item) \<in> set (gx_pending s)"
  proof
    assume "(n, item) \<in> set (gateway_pending s)"
    then obtain v where v: "(n, v) \<in> set (gx_pending s)" "is_mapping v" "item = mapping_of v"
      by (auto simp: gateway_pending_def)
    then show "(n, PDict item) \<in> set (gx_pending s)" by (cases v) (auto simp: is_mapping_def mapping_of_def)
  next
    assume "(n, PDict item) \<in> set (gx_pending s)"
    then show "(n, item) \<in> set (gateway_pending s)"
      unfolding gateway_pending_def by (force simp: is_mapping_def mapping_of_def)
  qed
  also have "\<dots> \<longleftrightarrow> dget (gx_pending s) n = Some (PDict item)"
    using d by (auto simp: in_dget dest: dget_in)
  finally show ?thesis .
qed

lemma journaled_ack_fold:
  "journaled (fold (\<lambda>(n, item) st. if P item then ack_pending n st else st) l s) =
     (if gx_disk s then {j \<in> journaled s. \<forall>(n, item) \<in> set l. P item \<longrightarrow> fst j \<noteq> n} else journaled s)"
proof (induction l arbitrary: s)
  case (Cons e l)
  obtain n item where e: "e = (n, item)" by (cases e)
  show ?case
  proof (cases "P item")
    case True then show ?thesis by (auto simp: e Cons.IH journaled_ack)
  next
    case False then show ?thesis by (simp add: e Cons.IH)
  qed
qed simp

lemma journaled_ack_matching:
  assumes "names_ok w s" "key \<noteq> []"
  shows "{j \<in> journaled s. key_of (snd j) \<noteq> key} \<subseteq> journaled (ack_matching key s)"
    "journaled (ack_matching key s) \<subseteq> journaled s" "\<not> gx_disk s \<Longrightarrow> journaled (ack_matching key s) = journaled s"
proof -
  let ?P = "\<lambda>item. str_or_empty (field (PDict (mapping_of (kw item ''body''))) ''idempotency_key'') = key"
  have d: "distinct (map fst (gx_pending s))" using assms(1) by (simp add: names_ok_def)
  have m: "journaled (ack_matching key s) =
      (if gx_disk s then {j \<in> journaled s. \<forall>(n, item) \<in> set (gateway_pending s). ?P item \<longrightarrow> fst j \<noteq> n} else journaled s)"
    unfolding ack_matching_def by (rule journaled_ack_fold)
  then show "journaled (ack_matching key s) \<subseteq> journaled s" by auto
  from m show "\<not> gx_disk s \<Longrightarrow> journaled (ack_matching key s) = journaled s" by simp
  show "{j \<in> journaled s. key_of (snd j) \<noteq> key} \<subseteq> journaled (ack_matching key s)"
  proof
    fix j assume "j \<in> {j \<in> journaled s. key_of (snd j) \<noteq> key}"
    then obtain n b doc where j: "j = (n, b)" "dget (gx_pending s) n = Some (PDict doc)" "kw doc ''body'' = PDict b"
      "key_of b \<noteq> key" "j \<in> journaled s" by (auto simp: journaled_def)
    then have "\<forall>(n', item) \<in> set (gateway_pending s). ?P item \<longrightarrow> n \<noteq> n'"
      using in_gateway_pending [OF d] by (auto simp: mapping_of_def kw_def)
    with j m show "j \<in> journaled (ack_matching key s)" by auto
  qed
qed

lemma names_ok_persist:
  assumes "names_ok w s"
  shows "names_ok w (persist_delivery (gl_sha w) now ref body err s)"
proof -
  have "map fst (gx_pending (persist_delivery (gl_sha w) now ref body err s)) =
      (if gx_disk s \<and> name_of w body \<notin> set (map fst (gx_pending s)) then map fst (gx_pending s) @ [name_of w body] else map fst (gx_pending s))"
    by (simp add: persist_delivery_def enqueue_pending_def map_fst_dset)
  with assms show ?thesis unfolding names_ok_def journaled_persist by (auto split: if_splits)
qed

lemma names_ok_cong: "gx_pending s' = gx_pending s \<Longrightarrow> names_ok w s' \<longleftrightarrow> names_ok w s"
  by (simp add: names_ok_def journaled_def)

lemma settle_success_unfold:
  "settle_success w c now ref (Some usd) evidence s =
     (let micros = gateway_micros usd; body = known_body c (gx_heap s ! ref) usd evidence;
          s1 = persist_delivery (gl_sha w) now ref body ''pre_send_usage_known''
                 (set_object ref (\<lambda>ob. ob\<lparr>ar_status := ''pending'', ar_settled := PInt micros\<rparr>) s);
          (r, s2) = gateway_post w c ''/v1/budget/settle'' body s1
      in case r of
           Inl _ \<Rightarrow> (pending_result [], persist_delivery (gl_sha w) now ref body ''transport'' s2)
         | Inr (status, p) \<Rightarrow>
             if status \<ge> 400 \<or> result_code p \<notin> {''applied'', ''duplicate''}
             then (pending_result ((''http_status'', PInt status) # p),
                   persist_delivery (gl_sha w) now ref body
                     (py_str (or_val (kw p ''error'') (or_val (PStr (result_code p)) (PInt status)))) s2)
             else let a = at_attempt (ar_identity (gx_heap s ! ref));
                      s3 = set_object ref (\<lambda>ob. ob\<lparr>ar_status := ''settled'', ar_settled := PInt micros\<rparr>) s2;
                      s4 = ack_matching (py_str (kw body ''idempotency_key'')) (drop_open a s3)
                  in (dupdate [(''result'', PStr (result_code p))] p, s4\<lparr>gx_open := AList.delete a (gx_open s4)\<rparr>))"
  by (simp only: settle_success_def known_body_def Let_def option.case)

lemma known_body_fields:
  "kw (known_body c r usd evidence) ''event'' = PStr ''usage_known''"
  "kw (known_body c r usd evidence) ''idempotency_key'' = PStr (at_key (ar_identity r) @ '':usage_known'')"
  by (simp_all add: known_body_def)

lemma settle_success_safely:
  assumes "settle_success w c now ref (Some usd) evidence s = (res, s')" "names_ok w s"
  shows "settled_safely w (known_body c (gx_heap s ! ref) usd evidence) s s'"
proof -
  let ?body = "known_body c (gx_heap s ! ref) usd evidence"
  let ?s0 = "set_object ref (\<lambda>ob. ob\<lparr>ar_status := ''pending'', ar_settled := PInt (gateway_micros usd)\<rparr>) s"
  let ?s1 = "persist_delivery (gl_sha w) now ref ?body ''pre_send_usage_known'' ?s0"
  let ?key = "at_key (ar_identity (gx_heap s ! ref)) @ '':usage_known''"
  have k: "key_of ?body = ?key" "py_str (kw ?body ''idempotency_key'') = ?key" by (simp_all add: known_body_fields)
  have ok1: "names_ok w ?s1" by (rule names_ok_persist) (simp add: assms(2) names_ok_cong [of ?s0 s])
  have j1: "journaled ?s1 = (if gx_disk s then insert (name_of w ?body, ?body) {j \<in> journaled s. fst j \<noteq> name_of w ?body} else journaled s)"
    by (simp add: journaled_persist)
  obtain r s2 where p: "gateway_post w c ''/v1/budget/settle'' ?body ?s1 = (r, s2)" by (cases "gateway_post w c ''/v1/budget/settle'' ?body ?s1")
  note f = post_frame [OF p] and m = post_sent_mono [OF p]
  have j2: "journaled s2 = journaled ?s1" by (rule journaled_cong) (rule f(1))
  show ?thesis
  proof (cases "\<exists>status q. r = Inr (status, q) \<and> \<not> status \<ge> 400 \<and> result_code q \<in> {''applied'', ''duplicate''}")
    case True
    then obtain status q where r: "r = Inr (status, q)" and d: "\<not> status \<ge> 400" "result_code q \<in> {''applied'', ''duplicate''}" by blast
    let ?s3 = "drop_open (at_attempt (ar_identity (gx_heap s ! ref)))
        (set_object ref (\<lambda>ob. ob\<lparr>ar_status := ''settled'', ar_settled := PInt (gateway_micros usd)\<rparr>) s2)"
    have s': "journaled s' = journaled (ack_matching ?key ?s3) \<and> gx_sent s' = gx_sent s2 \<and> gx_aside s' = gx_aside s2 \<and> gx_disk s' = gx_disk s2"
      using assms(1) d unfolding settle_success_unfold Let_def p r k(2) by auto
    have ok3: "names_ok w ?s3" using ok1 f(1) by (simp add: names_ok_cong [of ?s3 ?s1])
    have j3: "journaled ?s3 = journaled ?s1" using j2 by simp
    note a = journaled_ack_matching [OF ok3, of ?key]
    have keep: "{j \<in> journaled s. fst j \<noteq> name_of w ?body} \<subseteq> journaled s'"
    proof
      fix j assume "j \<in> {j \<in> journaled s. fst j \<noteq> name_of w ?body}"
      then have "j \<in> journaled ?s3" "fst j \<noteq> name_of w ?body" using j1 j3 by (auto split: if_splits)
      moreover from this ok3 have "fst j = name_of w (snd j)" by (auto simp: names_ok_def)
      ultimately have "key_of (snd j) \<noteq> ?key" using k(1) by metis
      with a(1) \<open>j \<in> journaled ?s3\<close> s' show "j \<in> journaled s'" by auto
    qed
    have "?body \<in> acknowledged w s'"
      using acked_in_trace [OF p [unfolded r], of s'] d s' by (simp add: known_body_fields settlement_delivered_def)
    with keep a(2,3) j1 j3 s' f m show ?thesis by (auto simp: settled_safely_def)
  next
    case False
    then have "\<exists>e. s' = persist_delivery (gl_sha w) now ref ?body e s2"
      using assms(1) unfolding settle_success_unfold Let_def p by (cases r) auto
    then obtain e where "s' = persist_delivery (gl_sha w) now ref ?body e s2" by blast
    then show ?thesis using j1 j2 f m by (auto simp: settled_safely_def journaled_persist)
  qed
qed

section \<open>Resending\<close>

definition round_safe :: "gateway_world \<Rightarrow> gateway_state \<Rightarrow> gateway_state \<Rightarrow> bool" where
  "round_safe w s s' \<longleftrightarrow> set (gx_sent s) \<subseteq> set (gx_sent s') \<and> set (gx_aside s) \<subseteq> set (gx_aside s') \<and> gx_disk s' = gx_disk s \<and>
     (distinct (map fst (gx_pending s)) \<longrightarrow> distinct (map fst (gx_pending s'))) \<and>
     (\<forall>n. dget (gx_pending s') n \<in> {dget (gx_pending s) n, None}) \<and>
     (\<forall>(n, b) \<in> journaled s. (n, b) \<in> journaled s' \<or> b \<in> set_apart s' \<or> b \<in> acknowledged w s')"

lemma set_apart_mono: "set (gx_aside s) \<subseteq> set (gx_aside s') \<Longrightarrow> set_apart s \<subseteq> set_apart s'"
  by (auto simp: set_apart_def)

lemma acknowledged_mono: "set (gx_sent s) \<subseteq> set (gx_sent s') \<Longrightarrow> acknowledged w s \<subseteq> acknowledged w s'"
  unfolding acknowledged_def by blast

lemma round_safe_trans:
  assumes "round_safe w s t" "round_safe w t u"
  shows "round_safe w s u"
proof -
  have "\<forall>n. dget (gx_pending u) n \<in> {dget (gx_pending s) n, None}"
    using assms unfolding round_safe_def by (metis insertE insertI1 insert_commute singletonD)
  moreover have "(n, b) \<in> journaled u \<or> b \<in> set_apart u \<or> b \<in> acknowledged w u" if "(n, b) \<in> journaled s" for n b
    using that assms set_apart_mono [of t u] acknowledged_mono [of t u w] unfolding round_safe_def by blast
  ultimately show ?thesis using assms unfolding round_safe_def by auto
qed

lemma round_safe_same:
  assumes "gx_pending s' = gx_pending s" "gx_aside s' = gx_aside s" "gx_disk s' = gx_disk s" "set (gx_sent s) \<subseteq> set (gx_sent s')"
  shows "round_safe w s s'"
  using assms journaled_cong [OF assms(1)] by (auto simp: round_safe_def)

lemma round_safe_post: "gateway_post w c path body s = (r, s') \<Longrightarrow> round_safe w s s'"
  by (rule round_safe_same) (auto dest: post_frame post_sent_mono)

lemma round_safe_drop:
  assumes "gx_pending s' = (if gx_disk s then AList.delete n (gx_pending s) else gx_pending s)" "set (gx_aside s) \<subseteq> set (gx_aside s')"
    "gx_disk s' = gx_disk s" "gx_sent s' = gx_sent s"
    "\<And>doc b. gx_disk s \<Longrightarrow> dget (gx_pending s) n = Some (PDict doc) \<Longrightarrow> kw doc ''body'' = PDict b \<Longrightarrow> b \<in> set_apart s' \<or> b \<in> acknowledged w s'"
  shows "round_safe w s s'"
proof -
  have "(m, b) \<in> journaled s' \<or> b \<in> set_apart s' \<or> b \<in> acknowledged w s'" if "(m, b) \<in> journaled s" for m b
  proof (cases "gx_disk s \<and> m = n")
    case True with that assms(5) show ?thesis by (auto simp: journaled_def)
  next
    case False with that assms(1) show ?thesis by (auto simp: journaled_def dget_delete)
  qed
  then have "\<forall>(m, b) \<in> journaled s. (m, b) \<in> journaled s' \<or> b \<in> set_apart s' \<or> b \<in> acknowledged w s'" by blast
  with assms(1-4) show ?thesis
    by (cases "gx_disk s") (simp_all add: round_safe_def dget_delete distinct_delete)
qed

lemma finish_open_frame:
  "finish_open body e s = (r, s') \<Longrightarrow> gx_pending s' = gx_pending s \<and> gx_aside s' = gx_aside s \<and> gx_disk s' = gx_disk s \<and> gx_sent s' = gx_sent s"
  by (cases e) (auto simp: finish_open_def Let_def split: if_splits sum.splits)

lemma finish_all_frame:
  "finish_all body es s = (r, s') \<Longrightarrow> gx_pending s' = gx_pending s \<and> gx_aside s' = gx_aside s \<and> gx_disk s' = gx_disk s \<and> gx_sent s' = gx_sent s"
proof (induction es arbitrary: s)
  case (Cons e es)
  obtain x s1 where x: "finish_open body e s = (x, s1)" by (cases "finish_open body e s")
  with Cons finish_open_frame [OF x] show ?case by (cases x) auto
qed simp

lemma round_safe_quarantine: "round_safe w s (quarantine_pending n s)"
proof (cases "dget (gx_pending s) n")
  case None then show ?thesis by (simp add: quarantine_pending_def round_safe_same)
next
  case (Some v)
  show ?thesis
    by (rule round_safe_drop [where n = n]) (auto simp: quarantine_pending_def Some set_apart_def)
qed

lemma resend_safe:
  assumes "resend w c now (n, item) s = (r, s')" "dget (gx_pending s) n \<in> {Some (PDict item), None}"
  shows "round_safe w s s'"
proof -
  let ?body = "mapping_of (kw item ''body'')"
  have refl: "round_safe w s s" by (rule round_safe_same) auto
  show ?thesis
  proof (cases "?body = []")
    case True with assms(1) refl show ?thesis by (auto simp: resend_def Let_def)
  next
    case nonempty: False
    show ?thesis
    proof (cases "py_float (or_val (kw item ''enqueued_at'') (PInt 0))")
      case (Inl x) with assms(1) refl nonempty show ?thesis by (auto simp: resend_def Let_def)
    next
      case (Inr t)
      show ?thesis
      proof (cases "too_old now t")
        case True with assms(1) nonempty Inr round_safe_quarantine show ?thesis by (auto simp: resend_def Let_def)
      next
        case young: False
        obtain a s1 where p: "gateway_post w c ''/v1/budget/settle'' ?body s = (a, s1)"
          by (cases "gateway_post w c ''/v1/budget/settle'' ?body s")
        note ps = round_safe_post [OF p] and f = post_frame [OF p]
        show ?thesis
        proof (cases a)
          case (Inl e) with assms(1) nonempty Inr young p ps show ?thesis by (auto simp: resend_def Let_def)
        next
          case answer: (Inr q)
          obtain status d where q: "q = (status, d)" by (cases q)
          show ?thesis
          proof (cases "status \<in> set permanent_refusals \<or>
              \<not> settlement_delivered (str_or_empty (kw ?body ''event'')) status (result_code d)")
            case True
            with assms(1) nonempty Inr young p ps answer q round_safe_trans [OF ps round_safe_quarantine]
            show ?thesis by (auto simp: resend_def Let_def split: if_splits)
          next
            case False
            have ack: "gx_pending (ack_pending n s1) = (if gx_disk s then AList.delete n (gx_pending s) else gx_pending s)"
              using f by (simp add: ack_pending_def)
            have s': "gx_pending s' = gx_pending (ack_pending n s1) \<and> gx_aside s' = gx_aside s1 \<and> gx_disk s' = gx_disk s1 \<and> gx_sent s' = gx_sent s1"
              using assms(1) nonempty Inr young p answer q False
              by (auto simp: resend_def Let_def split: if_splits prod.splits sum.splits dest: finish_all_frame)
            have acked: "?body \<in> acknowledged w s'"
              using acked_in_trace [OF p [unfolded answer q], of s'] False s' by auto
            have "round_safe w s1 s'"
            proof (rule round_safe_drop [where n = n])
              fix doc b assume "dget (gx_pending s1) n = Some (PDict doc)" "kw doc ''body'' = PDict b"
              with assms(2) f(1) have "b = ?body" by (auto simp: mapping_of_def)
              with acked show "b \<in> set_apart s' \<or> b \<in> acknowledged w s'" by blast
            qed (use s' ack f in auto)
            with round_safe_trans [OF ps] show ?thesis by blast
          qed
        qed
      qed
    qed
  qed
qed

lemma resend_all_safe:
  assumes "resend_all w c now es k s = (r, s')" "\<forall>(n, item) \<in> set es. dget (gx_pending s) n \<in> {Some (PDict item), None}"
  shows "round_safe w s s'"
  using assms
proof (induction es arbitrary: k s)
  case Nil then show ?case by (auto intro: round_safe_same)
next
  case (Cons e es)
  obtain n item where e: "e = (n, item)" by (cases e)
  obtain x s1 where x: "resend w c now e s = (x, s1)" by (cases "resend w c now e s")
  have one: "round_safe w s s1" using resend_safe x e Cons.prems(2) by simp
  then have sh: "dget (gx_pending s1) m = dget (gx_pending s) m \<or> dget (gx_pending s1) m = None" for m
    unfolding round_safe_def by simp
  have "\<forall>(m, it) \<in> set es. dget (gx_pending s1) m \<in> {Some (PDict it), None}"
  proof (intro ballI, unfold split_paired_all prod.case)
    fix m it assume "(m, it) \<in> set es"
    with Cons.prems(2) have "dget (gx_pending s) m \<in> {Some (PDict it), None}" by auto
    with sh [of m] show "dget (gx_pending s1) m \<in> {Some (PDict it), None}" by auto
  qed
  with Cons.IH have rest: "resend_all w c now es k1 s1 = (r, s') \<Longrightarrow> round_safe w s1 s'" for k1 by blast
  from Cons.prems(1) x have "s' = s1 \<or> (\<exists>k1. resend_all w c now es k1 s1 = (r, s'))"
    by (cases k) (auto split: sum.splits resent.splits)
  with one rest round_safe_trans show ?case by blast
qed

lemma flush_gateway_safe:
  assumes "distinct (map fst (gx_pending s))"
  shows "round_safe w s (snd (flush_gateway w c now s))"
proof -
  have "\<forall>(n, item) \<in> set (gateway_pending s). dget (gx_pending s) n \<in> {Some (PDict item), None}"
    using in_gateway_pending [OF assms] by auto
  moreover obtain r s' where f: "resend_all w c now (gateway_pending s) (0, 0, 0) s = (r, s')"
    by (cases "resend_all w c now (gateway_pending s) (0, 0, 0) s")
  ultimately have "round_safe w s s'" using resend_all_safe by blast
  with f show ?thesis by (simp add: flush_gateway_def)
qed

section \<open>The journal over any sequence of operations\<close>

datatype gateway_op =
    Op_Settle rat nat "rat option" "(string \<times> pyval) list"
  | Op_Cancel rat nat bool string
  | Op_Signal rat nat string
  | Op_Reserve attempt_identity string rat
  | Op_Start nat
  | Op_Get string
  | Op_Flush rat

definition op_step :: "gateway_world \<Rightarrow> gateway_client \<Rightarrow> gateway_op \<Rightarrow> gateway_state \<Rightarrow> gateway_state" where
  "op_step w c op s = (case op of
     Op_Settle now ref actual evidence \<Rightarrow> snd (settle_success w c now ref actual evidence s)
   | Op_Cancel now ref d err \<Rightarrow> snd (settle_cancel_or_pending w c now ref d err s)
   | Op_Signal now ref err \<Rightarrow> signal_pending w c now ref err s
   | Op_Reserve i mdl usd \<Rightarrow> snd (reserve_attempt w c i mdl usd [] ''litellm_gateway'' None s)
   | Op_Start ref \<Rightarrow> snd (mark_start w c ref s)
   | Op_Get a \<Rightarrow> snd (client_get_open a s)
   | Op_Flush now \<Rightarrow> snd (flush_gateway w c now s))"

definition signal_body :: "gateway_client \<Rightarrow> attempt_reservation \<Rightarrow> string \<Rightarrow> (string \<times> pyval) list" where
  "signal_body c r err = event_body c r ''outcome_unknown_signal'' ''outcome_unknown'' [(''usage_evidence'', PDict [(''error'', PStr err)])]"

text \<open>The settlement an operation writes before it sends it.\<close>

definition op_body :: "gateway_client \<Rightarrow> gateway_op \<Rightarrow> gateway_state \<Rightarrow> (string \<times> pyval) list option" where
  "op_body c op s = (case op of
     Op_Settle now ref (Some usd) evidence \<Rightarrow> Some (known_body c (gx_heap s ! ref) usd evidence)
   | Op_Settle now ref None evidence \<Rightarrow> Some (unknown_body c (gx_heap s ! ref) True ''authoritative_price_unavailable'')
   | Op_Cancel now ref d err \<Rightarrow> Some (unknown_body c (gx_heap s ! ref) d err)
   | Op_Signal now ref err \<Rightarrow> Some (signal_body c (gx_heap s ! ref) err)
   | _ \<Rightarrow> None)"

definition op_adds :: "gateway_world \<Rightarrow> gateway_client \<Rightarrow> gateway_op \<Rightarrow> gateway_state \<Rightarrow> (string \<times> (string \<times> pyval) list) set" where
  "op_adds w c op s = (case op_body c op s of Some b \<Rightarrow> if gx_disk s then {(name_of w b, b)} else {} | None \<Rightarrow> {})"

text \<open>Why a settlement leaves the journal: acknowledged, set aside, or replaced by a later one under its key.\<close>

definition op_drops :: "gateway_world \<Rightarrow> gateway_client \<Rightarrow> gateway_op \<Rightarrow> gateway_state \<Rightarrow> (string \<times> (string \<times> pyval) list) set" where
  "op_drops w c op s = {(n, b). b \<in> acknowledged w (op_step w c op s) \<or> b \<in> set_apart (op_step w c op s) \<or>
     (\<exists>b'. op_body c op s = Some b' \<and> n = name_of w b' \<and> b \<noteq> b')}"

lemma names_ok_subset:
  assumes "names_ok w s" "distinct (map fst (gx_pending s'))" "journaled s' \<subseteq> journaled s"
  shows "names_ok w s'"
  using assms unfolding names_ok_def by blast

lemma names_ok_ack:
  assumes "names_ok w s"
  shows "names_ok w (ack_pending n s)"
proof (rule names_ok_subset [OF assms])
  show "distinct (map fst (gx_pending (ack_pending n s)))" using assms by (simp add: names_ok_def ack_pending_def distinct_delete)
qed (auto simp: journaled_ack)

lemma names_ok_ack_matching: "names_ok w s \<Longrightarrow> names_ok w (ack_matching key s)"
  unfolding ack_matching_def
  by (rule fold_invariant [where Q = "\<lambda>_. True" and P = "names_ok w"]) (auto simp: names_ok_ack split: prod.splits)

lemma names_ok_frame [simp]:
  "names_ok w (put_open ref s) \<longleftrightarrow> names_ok w s" "names_ok w (set_object ref f s) \<longleftrightarrow> names_ok w s"
  "names_ok w (drop_open a s) \<longleftrightarrow> names_ok w s" "names_ok w (s\<lparr>gx_open := t\<rparr>) \<longleftrightarrow> names_ok w s"
  "names_ok w (s\<lparr>gx_heap := h, gx_open := t\<rparr>) \<longleftrightarrow> names_ok w s"
  by (rule names_ok_cong, simp)+

lemma names_ok_post: "gateway_post w c path body s = (r, s') \<Longrightarrow> names_ok w s' \<longleftrightarrow> names_ok w s"
  by (rule names_ok_cong) (simp add: post_frame(1))

lemma names_ok_settle:
  assumes "names_ok w s"
  shows "names_ok w (snd (settle_cancel_or_pending w c now ref d err s))" "names_ok w (snd (settle_success w c now ref actual evidence s))"
proof -
  show cancel: "names_ok w (snd (settle_cancel_or_pending w c now ref d err s))" for d err
    unfolding settle_cancel_unfold Let_def
    by (auto simp: names_ok_persist names_ok_ack ack_body_def assms dest!: names_ok_post split: prod.splits sum.splits)
  show "names_ok w (snd (settle_success w c now ref actual evidence s))"
  proof (cases actual)
    case None then show ?thesis using cancel by (simp add: settle_success_def)
  next
    case (Some usd)
    show ?thesis unfolding Some settle_success_unfold Let_def
      by (auto simp: names_ok_persist names_ok_ack_matching assms dest!: names_ok_post split: prod.splits sum.splits)
  qed
qed

lemma settle_step_safely:
  assumes "names_ok w s" "op_body c op s = Some body" "op = Op_Settle now ref actual ev \<or> op = Op_Cancel now ref d err"
  shows "settled_safely w body s (op_step w c op s)"
proof -
  show ?thesis
  proof (cases "op = Op_Cancel now ref d err")
    case True
    then show ?thesis using assms(2) settle_cancel_safely [of w c now ref d err s, OF prod.collapse [symmetric]] by (auto simp: op_step_def op_body_def)
  next
    case False
    with assms(3) have op: "op = Op_Settle now ref actual ev" by blast
    show ?thesis
    proof (cases actual)
      case None
      with op assms(2) show ?thesis
        using settle_cancel_safely [of w c now ref True "''authoritative_price_unavailable''" s, OF prod.collapse [symmetric]]
        by (auto simp: op_step_def op_body_def settle_success_def)
    next
      case (Some usd)
      with op assms(1,2) show ?thesis
        using settle_success_safely [of w c now ref usd ev s, OF prod.collapse [symmetric]] by (auto simp: op_step_def op_body_def)
    qed
  qed
qed

lemma settled_safely_journal:
  assumes "settled_safely w body s s'" "op_body c op s = Some body" "s' = op_step w c op s"
  shows "journaled s \<union> op_adds w c op s \<subseteq> journaled s' \<union> op_drops w c op s" "journaled s' \<subseteq> journaled s \<union> op_adds w c op s"
proof -
  from assms(1) have keep: "{j \<in> journaled s. fst j \<noteq> name_of w body} \<subseteq> journaled s'"
    and new: "gx_disk s \<Longrightarrow> (name_of w body, body) \<in> journaled s' \<or> body \<in> acknowledged w s'"
    and upper: "gx_disk s \<Longrightarrow> journaled s' \<subseteq> insert (name_of w body, body) {j \<in> journaled s. fst j \<noteq> name_of w body}"
    and same: "\<not> gx_disk s \<Longrightarrow> journaled s' = journaled s"
    by (auto simp: settled_safely_def)
  from upper same assms(2) show "journaled s' \<subseteq> journaled s \<union> op_adds w c op s"
    by (cases "gx_disk s") (auto simp: op_adds_def)
  have "(n, b) \<in> journaled s' \<or> (n, b) \<in> op_drops w c op s" if "(n, b) \<in> journaled s" for n b
  proof (cases "n = name_of w body")
    case False with that keep show ?thesis by auto
  next
    case n: True
    show ?thesis
    proof (cases "b = body \<and> gx_disk s")
      case True with new n assms(3) show ?thesis by (auto simp: op_drops_def)
    next
      case False with that same n assms(2,3) show ?thesis by (auto simp: op_drops_def)
    qed
  qed
  then show "journaled s \<union> op_adds w c op s \<subseteq> journaled s' \<union> op_drops w c op s"
    using new assms(2,3) by (auto simp: op_adds_def op_drops_def)
qed

lemma signal_pending_step:
  assumes "names_ok w s"
  shows "names_ok w (signal_pending w c now ref err s)"
    "settled_safely w (signal_body c (gx_heap s ! ref) err) s (signal_pending w c now ref err s)"
proof -
  let ?body = "signal_body c (gx_heap s ! ref) err"
  let ?s1 = "persist_delivery (gl_sha w) now ref ?body err s"
  obtain r s2 where p: "gateway_post w c ''/v1/budget/settle'' ?body ?s1 = (r, s2)"
    by (cases "gateway_post w c ''/v1/budget/settle'' ?body ?s1")
  have s2: "signal_pending w c now ref err s = s2"
    using p by (simp add: signal_pending_def signal_body_def Let_def)
  show "names_ok w (signal_pending w c now ref err s)"
    unfolding s2 names_ok_post [OF p] by (rule names_ok_persist [OF assms])
  have "journaled s2 = journaled ?s1" by (rule journaled_cong) (rule post_frame(1) [OF p])
  then show "settled_safely w ?body s (signal_pending w c now ref err s)"
    unfolding s2 using post_frame [OF p] post_sent_mono [OF p] by (auto simp: settled_safely_def journaled_persist)
qed

text \<open>Operations that journal nothing leave the pending directory alone, or resend it.\<close>

lemma quiet_step:
  assumes "op_body c op s = None" "\<And>now. op \<noteq> Op_Flush now"
  shows "gx_pending (op_step w c op s) = gx_pending s"
  using assms
  by (cases op) (auto simp: op_step_def op_body_def reserve_attempt_def mark_start_def client_get_open_def Let_def
      dest: post_frame(1) split: prod.splits sum.splits option.splits)

lemma round_journal:
  assumes "round_safe w s s'" "names_ok w s"
  shows "names_ok w s'" "journaled s' \<subseteq> journaled s" "\<And>n b. (n, b) \<in> journaled s \<Longrightarrow> (n, b) \<in> journaled s' \<or> b \<in> set_apart s' \<or> b \<in> acknowledged w s'"
proof -
  have "dget (gx_pending s') n = Some v \<Longrightarrow> dget (gx_pending s) n = Some v" for n v
    using assms(1) unfolding round_safe_def by (metis insertE option.distinct(1) singletonD)
  then show j: "journaled s' \<subseteq> journaled s" by (auto simp: journaled_def)
  show "names_ok w s'"
    by (rule names_ok_subset [OF assms(2) _ j]) (use assms in \<open>auto simp: round_safe_def names_ok_def\<close>)
  show "(n, b) \<in> journaled s' \<or> b \<in> set_apart s' \<or> b \<in> acknowledged w s'" if "(n, b) \<in> journaled s" for n b
    using assms(1) that unfolding round_safe_def by blast
qed

lemma op_body_cases:
  assumes "op_body c op s = Some body"
  obtains (settle) now ref actual ev where "op = Op_Settle now ref actual ev"
    | (cancel) now ref d err where "op = Op_Cancel now ref d err"
    | (signal) now ref err where "op = Op_Signal now ref err" "body = signal_body c (gx_heap s ! ref) err"
  using assms by (cases op) (auto simp: op_body_def)

lemma names_ok_step:
  assumes "names_ok w s"
  shows "names_ok w (op_step w c op s)"
proof (cases "op_body c op s")
  case (Some body)
  then show ?thesis
    by (cases rule: op_body_cases) (simp_all add: op_step_def names_ok_settle [OF assms] signal_pending_step(1) [OF assms])
next
  case None
  show ?thesis
  proof (cases "\<exists>now. op = Op_Flush now")
    case True
    then obtain now where op: "op = Op_Flush now" by blast
    have d: "distinct (map fst (gx_pending s))" using assms by (simp add: names_ok_def)
    from round_journal(1) [OF flush_gateway_safe [OF d] assms] show ?thesis by (simp add: op op_step_def)
  next
    case False
    with quiet_step [OF None] have "gx_pending (op_step w c op s) = gx_pending s" by blast
    from names_ok_cong [OF this] assms show ?thesis by blast
  qed
qed

lemma journal_step:
  assumes "names_ok w s"
  shows "journaled s \<union> op_adds w c op s \<subseteq> journaled (op_step w c op s) \<union> op_drops w c op s"
    "journaled (op_step w c op s) \<subseteq> journaled s \<union> op_adds w c op s"
proof -
  have "journaled s \<union> op_adds w c op s \<subseteq> journaled (op_step w c op s) \<union> op_drops w c op s \<and>
    journaled (op_step w c op s) \<subseteq> journaled s \<union> op_adds w c op s"
  proof (cases "op_body c op s")
    case (Some body)
    then have "settled_safely w body s (op_step w c op s)"
    proof (cases rule: op_body_cases)
      case (signal now ref err)
      with signal_pending_step(2) [OF assms, where c = c and now = now and ref = ref and err = err] show ?thesis by (simp add: op_step_def)
    qed (use settle_step_safely [OF assms Some] in blast)+
    from settled_safely_journal [OF this Some refl] show ?thesis by blast
  next
    case None
    show ?thesis
    proof (cases "\<exists>now. op = Op_Flush now")
      case True
      then obtain now where op: "op = Op_Flush now" by blast
      have "round_safe w s (op_step w c op s)"
        using flush_gateway_safe [of s w c now] assms by (simp add: op op_step_def names_ok_def)
      from round_journal(2,3) [OF this assms] None show ?thesis by (auto simp: op_adds_def op_drops_def)
    next
      case False
      with quiet_step [OF None] have "gx_pending (op_step w c op s) = gx_pending s" by blast
      then have "journaled (op_step w c op s) = journaled s" by (rule journaled_cong)
      with None show ?thesis by (simp add: op_adds_def)
    qed
  qed
  then show "journaled s \<union> op_adds w c op s \<subseteq> journaled (op_step w c op s) \<union> op_drops w c op s"
    "journaled (op_step w c op s) \<subseteq> journaled s \<union> op_adds w c op s" by blast+
qed

interpretation gateway_journal: spool "names_ok w" journaled "op_step w c" "op_adds w c" "op_drops w c" for w c
  by unfold_locales (rule names_ok_step journal_step; assumption)+

section \<open>Admission\<close>

text \<open>FinOps granted the reservation of the attempt and acknowledged its start, in this order, and the attempt is
  open under the id that FinOps gave.\<close>

definition granted ::
  "gateway_world \<Rightarrow> gateway_client \<Rightarrow> attempt_identity \<Rightarrow> (string \<times> pyval) list \<Rightarrow> gateway_state \<Rightarrow> gateway_state \<Rightarrow> bool" where
  "granted w c i body s s' \<longleftrightarrow> (\<exists>a1 a2 status1 status2 p1 p2 ref start.
     gx_sent s' = gx_sent s @ [(''/v1/budget/reserve'', body, a1), (''/v1/budget/settle'', start, a2)] \<and>
     answer_of (gl_loads w) a1 = Inr (status1, p1) \<and> status1 < 400 \<and> kw p1 ''allowed'' \<noteq> PBool False \<and>
     answer_of (gl_loads w) a2 = Inr (status2, p2) \<and> status2 < 400 \<and> result_code p2 \<in> {''applied'', ''duplicate''} \<and>
     start = event_body c (gx_heap s' ! ref) ''provider_started'' ''provider_started'' [] \<and>
     dget (gx_open s') (at_attempt i) = Some ref \<and> ref < length (gx_heap s') \<and>
     ar_identity (gx_heap s' ! ref) = i \<and> ar_status (gx_heap s' ! ref) = ''started'' \<and>
     kw p1 ''reservation_id'' \<noteq> PNone \<and> ar_reservation (gx_heap s' ! ref) = py_str (kw p1 ''reservation_id''))"

lemma reserve_attempt_Inr:
  assumes "reserve_attempt w c i mdl usd run feature customer s = (Inr ref, s')"
  shows "\<exists>a status p. gx_sent s' = gx_sent s @ [(''/v1/budget/reserve'', gateway_reserve_body c i (gateway_micros usd) run feature customer, a)] \<and>
    answer_of (gl_loads w) a = Inr (status, p) \<and> status < 400 \<and> kw p ''allowed'' \<noteq> PBool False \<and> kw p ''reservation_id'' \<noteq> PNone \<and>
    ref = length (gx_heap s) \<and> length (gx_heap s') = Suc ref \<and> dget (gx_open s') (at_attempt i) = Some ref \<and>
    ar_identity (gx_heap s' ! ref) = i \<and> ar_reservation (gx_heap s' ! ref) = py_str (kw p ''reservation_id'')"
proof -
  let ?body = "gateway_reserve_body c i (gateway_micros usd) run feature customer"
  obtain r s1 where p: "gateway_post w c ''/v1/budget/reserve'' ?body s = (r, s1)" by (cases "gateway_post w c ''/v1/budget/reserve'' ?body s")
  with assms obtain status q where r: "r = Inr (status, q)" by (cases r) (auto simp: reserve_attempt_def Let_def)
  with assms p obtain rid dec where v: "reserve_verdict status q = Inr (rid, dec)"
    by (cases "reserve_verdict status q") (auto simp: reserve_attempt_def Let_def)
  then have ok: "status < 400 \<and> kw q ''allowed'' \<noteq> PBool False \<and> kw q ''reservation_id'' \<noteq> PNone \<and> rid = py_str (kw q ''reservation_id'')"
    by (auto simp: reserve_verdict_def split: if_splits)
  from post_answered [OF p [unfolded r]] obtain a where a: "gx_sent s1 = gx_sent s @ [(''/v1/budget/reserve'', ?body, a)]"
    "answer_of (gl_loads w) a = Inr (status, q)" by blast
  have h: "gx_heap s1 = gx_heap s" by (rule post_frame(4) [OF p])
  from assms p r v have "ref = length (gx_heap s1) \<and> s' = put_open ref (s1\<lparr>gx_heap := gx_heap s1 @
      [\<lparr>ar_identity = i, ar_reservation = rid, ar_decision = dec, ar_estimated = gateway_micros usd,
        ar_status = ''reserved'', ar_settled = PNone, ar_meta = [(''model'', PStr mdl)]\<rparr>],
      gx_open := dset (at_attempt i) ref (gx_open s1)\<rparr>)"
    by (auto simp: reserve_attempt_def Let_def)
  with a ok h show ?thesis by (simp add: dset_def)
qed

lemma set_object_nth: "ref < length (gx_heap s) \<Longrightarrow> gx_heap (set_object ref f s) ! ref = f (gx_heap s ! ref)"
  by (simp add: set_object_def)

lemma mark_start_Inr:
  assumes "mark_start w c ref s = (Inr u, s')" "ref < length (gx_heap s)"
  shows "\<exists>a status p. gx_sent s' = gx_sent s @ [(''/v1/budget/settle'', event_body c (gx_heap s ! ref) ''provider_started'' ''provider_started'' [], a)] \<and>
    answer_of (gl_loads w) a = Inr (status, p) \<and> status < 400 \<and> result_code p \<in> {''applied'', ''duplicate''} \<and>
    gx_open s' = gx_open s \<and> length (gx_heap s') = length (gx_heap s) \<and>
    gx_heap s' ! ref = (gx_heap s ! ref)\<lparr>ar_status := ''started''\<rparr>"
proof -
  let ?body = "event_body c (gx_heap s ! ref) ''provider_started'' ''provider_started'' []"
  obtain r s1 where p: "gateway_post w c ''/v1/budget/settle'' ?body s = (r, s1)" by (cases "gateway_post w c ''/v1/budget/settle'' ?body s")
  with assms(1) obtain status q where r: "r = Inr (status, q)" by (cases r) (auto simp: mark_start_def Let_def)
  with assms(1) p have ok: "status < 400" "result_code q \<in> {''applied'', ''duplicate''}"
    and s': "s' = put_open ref (set_object ref (\<lambda>ob. ob\<lparr>ar_status := ''started''\<rparr>) s1)"
    by (auto simp: mark_start_def Let_def split: if_splits)
  from post_answered [OF p [unfolded r]] post_frame [OF p] ok s' assms(2) show ?thesis
    by (auto simp: set_object_nth)
qed

lemma event_body_cong:
  "ar_reservation r' = ar_reservation r \<Longrightarrow> ar_identity r' = ar_identity r \<Longrightarrow> event_body c r' x y z = event_body c r x y z"
  by (simp add: event_body_def)

lemma admit_attempt_granted:
  assumes "admit_attempt w c i kws kind s = (Inr (kws', ref), s')"
  shows "\<exists>usd m. hold_of_request w kws kind = Inr (kws', usd, m) \<and>
    granted w c i (gateway_reserve_body c i (gateway_micros usd) (hook_run_id kws' i) ''litellm_gateway'' (resolve_customer_id kws)) s s' \<and>
    (resolve_customer_id kws \<noteq> None \<or> \<not> customer_id_required (gl_env w))"
proof -
  obtain x usd m where h: "hold_of_request w kws kind = Inr (x, usd, m)" and req: "required_customer (gl_env w) (resolve_customer_id kws) = Inr ()"
    using assms by (cases "required_customer (gl_env w) (resolve_customer_id kws)"; cases "hold_of_request w kws kind")
      (auto simp: admit_attempt_def Let_def)
  let ?mdl = "py_str (or_val (kw kws ''model'') (PStr ''unknown''))"
  let ?f = "\<lambda>ob. ob\<lparr>ar_meta := dset ''price_multiplier'' (PStr (gl_format w m)) (ar_meta ob)\<rparr>"
  obtain r1 s1 where r1: "reserve_attempt w c i ?mdl usd (hook_run_id x i) ''litellm_gateway'' (resolve_customer_id kws) s = (r1, s1)"
    by (cases "reserve_attempt w c i ?mdl usd (hook_run_id x i) ''litellm_gateway'' (resolve_customer_id kws) s")
  with assms h req obtain ref1 where i1: "r1 = Inr ref1" by (cases r1) (auto simp: admit_attempt_def Let_def)
  obtain u s3 where m3: "mark_start w c ref1 (set_object ref1 ?f s1) = (u, s3)"
    by (cases "mark_start w c ref1 (set_object ref1 ?f s1)")
  with assms h req r1 i1 have u: "u = Inr ()" "kws' = x" "s' = s3" "ref = ref1"
    by (cases u; auto simp: admit_attempt_def Let_def)+
  obtain a status p where A: "gx_sent s1 = gx_sent s @ [(''/v1/budget/reserve'', gateway_reserve_body c i (gateway_micros usd) (hook_run_id x i) ''litellm_gateway'' (resolve_customer_id kws), a)]"
    "answer_of (gl_loads w) a = Inr (status, p)" "status < 400" "kw p ''allowed'' \<noteq> PBool False" "kw p ''reservation_id'' \<noteq> PNone"
    "length (gx_heap s1) = Suc ref1" "dget (gx_open s1) (at_attempt i) = Some ref1"
    "ar_identity (gx_heap s1 ! ref1) = i" "ar_reservation (gx_heap s1 ! ref1) = py_str (kw p ''reservation_id'')"
    using reserve_attempt_Inr [OF r1 [unfolded i1]] by blast
  have l: "ref1 < length (gx_heap (set_object ref1 ?f s1))" "ref1 < length (gx_heap s1)" using A(6) by simp_all
  let ?ob = "?f (gx_heap s1 ! ref1)"
  obtain b status2 p2 where B: "gx_sent s3 = gx_sent s1 @ [(''/v1/budget/settle'', event_body c ?ob ''provider_started'' ''provider_started'' [], b)]"
    "answer_of (gl_loads w) b = Inr (status2, p2)" "status2 < 400" "result_code p2 \<in> {''applied'', ''duplicate''}"
    "gx_open s3 = gx_open s1" "length (gx_heap s3) = Suc ref1" "gx_heap s3 ! ref1 = ?ob\<lparr>ar_status := ''started''\<rparr>"
    using mark_start_Inr [OF m3 [unfolded u(1)] l(1)] A(6) by (auto simp: set_object_nth [OF l(2)])
  have e: "event_body c ?ob ''provider_started'' ''provider_started'' [] = event_body c (gx_heap s3 ! ref1) ''provider_started'' ''provider_started'' []"
    by (rule event_body_cong) (simp_all add: B(7))
  have "granted w c i (gateway_reserve_body c i (gateway_micros usd) (hook_run_id x i) ''litellm_gateway'' (resolve_customer_id kws)) s s3"
    unfolding granted_def
    by (rule exI [of _ a], rule exI [of _ b], rule exI [of _ status], rule exI [of _ status2], rule exI [of _ p], rule exI [of _ p2],
        rule exI [of _ ref1], rule exI [of _ "event_body c (gx_heap s3 ! ref1) ''provider_started'' ''provider_started'' []"])
      (use A B e in simp)
  with h u req show ?thesis by (auto simp: required_customer_def split: if_splits)
qed

section \<open>Properties\<close>


text \<open>C10: a settlement on the gateway's disk stays there through any sequence of reservations, starts,
  settlements and resends, whatever FinOps answers, until FinOps acknowledges it, it is set aside for an
  operator, or a later settlement of the same event of the same attempt takes its place.\<close>

theorem gateway_journal_survives:
  assumes "names_ok w s" "(n, b) \<in> journaled s"
  shows "(n, b) \<in> journaled (fold (op_step w c) ops s) \<or>
    (\<exists>pre op post. ops = pre @ op # post \<and>
      (let t = fold (op_step w c) pre s; t' = op_step w c op t in
        b \<in> acknowledged w t' \<or> b \<in> set_apart t' \<or>
        (\<exists>b'. op_body c op t = Some b' \<and> n = pending_name (gl_sha w) (key_of b') \<and> b \<noteq> b')))"
proof (cases "(n, b) \<in> gateway_journal.dropped w c ops s")
  case True
  from gateway_journal.dropped_when [OF this] show ?thesis
    by (auto simp: gateway_journal.run_def op_drops_def Let_def)
next
  case False
  with gateway_journal.kept_until_dropped [OF assms] show ?thesis by (simp add: gateway_journal.run_def)
qed

text \<open>C9: the gateway lets an attempt through to the provider only after Agent FinOps granted a reservation over
  the bounded request's estimate, in micro-dollars rounded up, for the customer the request names, and
  acknowledged the start of just that reservation; the attempt is then open for its settlement. A request
  without a customer goes through only where none is required.\<close>

theorem gateway_admission_is_reserved:
  assumes "pre_call_hook w c litellm_errors interval clock fresh kws kind g = (Inr kws', g')"
    "py_lower (py_strip (or_str (case dget (gl_env w) ''KAZENAI_ENFORCEMENT_OWNER'' of None \<Rightarrow> [] | Some t \<Rightarrow> t) ''gateway'')) = ''gateway''"
  shows "\<exists>i bounded usd m. hold_of_request w kws kind = Inr (bounded, usd, m) \<and>
    granted w c i (gateway_reserve_body c i (gateway_micros usd) (hook_run_id bounded i) ''litellm_gateway'' (resolve_customer_id kws))
      (lg_state g) (lg_state g') \<and>
    (resolve_customer_id kws \<noteq> None \<or> \<not> customer_id_required (gl_env w))"
proof -
  let ?g = "schedule_flush interval clock g"
  obtain number g1 where n: "next_attempt_number kws ?g = (number, g1)" by (cases "next_attempt_number kws ?g")
  then have g1: "lg_state g1 = lg_state g" by (auto simp: next_attempt_number_def schedule_flush_def Let_def)
  from assms n obtain k b where b: "bnd number (\<lambda>n. bnd (resolve_attempt_from_kwargs (gl_sha w) (fst fresh) kws (Some n)) (\<lambda>b. Inr (n, b))) = Inr (k, b)"
    by (auto simp: pre_call_hook_def split: sum.splits)
  let ?i = "new_attempt_identity (gl_sha w) (snd fresh) (at_operation b) (at_call b) k []"
  obtain r s where a: "admit_attempt w c ?i kws kind (lg_state g1) = (r, s)" by (cases "admit_attempt w c ?i kws kind (lg_state g1)")
  from assms n b a obtain x ref where r: "r = Inr (x, ref)" by (cases r) (auto simp: pre_call_hook_def Let_def)
  have "lg_state g' = s" using assms n b a r by (auto simp: pre_call_hook_def Let_def split: if_splits)
  with admit_attempt_granted [OF a [unfolded r]] g1 show ?thesis by auto
qed

text \<open>C38: an attempt written to the gateway's disk is restored by a restarted process as it was.\<close>

theorem restart_restores_attempt:
  assumes "gx_disk s" "ref < length (gx_heap s)" "r = gx_heap s ! ref"
    "at_attempt (ar_identity r) \<noteq> []" "at_number (ar_identity r) \<noteq> 0" "ar_status r \<noteq> []"
  shows "\<exists>s'. client_get_open (at_attempt (ar_identity r)) ((put_open ref s)\<lparr>gx_heap := [], gx_open := []\<rparr>) = (Some 0, s') \<and>
    gx_heap s' ! 0 = r"
proof -
  have "doc_reservation (at_attempt (ar_identity r)) (reservation_doc r) = Some r"
    using assms(4-6) by (simp add: doc_reservation_def reservation_doc_def Let_def kw_def or_val_def str_or_empty_def)
  then show ?thesis using assms(1-3) by (simp add: client_get_open_def put_open_def Let_def)
qed

section \<open>Findings\<close>

text \<open>A request whose metadata names no run reserves under the run \<open>None\<close>, the text of Python's null.\<close>

lemma run_is_the_text_none: "kw m ''run_id'' = PNone \<Longrightarrow> kw kws ''metadata'' = PDict m \<Longrightarrow> hook_run_id kws i = ''None''"
  by (simp add: hook_run_id_def)

text \<open>A hold whose start FinOps refused is not released: the failed hook has not bound the attempt to the request,
  so the failure hook finds no reservation to cancel.\<close>

lemma unstarted_hold_is_not_released:
  assumes "pre_call_hook w c litellm_errors interval clock fresh kws kind g = (Inl e, g')" "attempt_of_request kws g = []"
  shows "post_call_failure_hook w c now kws True exc shown g' = (Inr (), g')"
proof -
  have "lg_by_call g' = lg_by_call g"
    using assms(1)
    by (auto simp: pre_call_hook_def next_attempt_number_def schedule_flush_def Let_def split: if_splits prod.splits sum.splits)
  then have "attempt_of_request kws g' = attempt_of_request kws g" by (simp only: attempt_of_request_def)
  then have "attempt_of_request kws g' = []" using assms(2) by simp
  then show ?thesis by (simp add: post_call_failure_hook_def reservation_for_def)
qed

text \<open>A refused fallback cancels the attempt its metadata still names, started or not.\<close>

lemma refused_fallback_cancels_started_attempt:
  assumes "reservation_for kws g = (Some ref, g1)" "gc_base_url c \<noteq> []"
  shows "\<exists>body a. (''/v1/budget/settle'', body, a) \<in> set (gx_sent (lg_state (snd (post_call_failure_hook w c now kws True exc shown g)))) \<and>
    kw body ''event'' = PStr ''cancel_before_call'' \<and> kw body ''reservation_id'' = PStr (ar_reservation (gx_heap (lg_state g1) ! ref))"
proof -
  let ?s = "lg_state g1"
  let ?body = "unknown_body c (gx_heap ?s ! ref) False shown"
  have "\<exists>a. (''/v1/budget/settle'', ?body, a) \<in> set (gx_sent (snd (settle_cancel_or_pending w c now ref False shown ?s)))"
    using assms(2) unfolding settle_cancel_unfold Let_def gateway_post_def ack_body_def
    by (auto split: sum.splits)
  moreover have "kw ?body ''event'' = PStr ''cancel_before_call''" "kw ?body ''reservation_id'' = PStr (ar_reservation (gx_heap ?s ! ref))"
    by (simp_all add: unknown_body_def event_body_def kw_def Let_def)
  ultimately show ?thesis using assms(1) by (auto simp: post_call_failure_hook_def forget_call_def Let_def)
qed

text \<open>A pending file whose time is no number ends every round before the files behind it are sent.\<close>

lemma bad_time_ends_the_round:
  assumes "gx_pending s = (n, PDict item) # rest" "mapping_of (kw item ''body'') \<noteq> []"
    "py_float (or_val (kw item ''enqueued_at'') (PInt 0)) = Inl x"
  shows "flush_gateway w c now s = (Inl x, s)"
  using assms by (simp add: flush_gateway_def gateway_pending_def is_mapping_def mapping_of_def resend_def Let_def)

section \<open>Witnesses\<close>

definition sample_gateway :: gateway_world where
  "sample_gateway = \<lparr>gl_env = [(''KAZENAI_TIER_MISMATCH_MULTIPLIER'', ''2'')], gl_sha = (\<lambda>t. t),
     gl_loads = (\<lambda>t. if t = ''R'' then Some (PDict [(''reservation_id'', PStr ''r1''), (''allowed'', PBool True)])
                      else if t = ''S'' then Some (PDict [(''result'', PStr ''applied'')]) else None),
     gl_engine = Inl PricingConfigError, gl_catalog = [], gl_bundle = sample_bundle ''2026-10-20'' None, gl_format = (\<lambda>_. ''1'')\<rparr>"

definition sample_gateway_client :: gateway_client where
  "sample_gateway_client = \<lparr>gc_base_url = ''https://f'', gc_api_key = ''k'', gc_org = ''o'', gc_workspace = ''default''\<rparr>"

definition sample_attempt :: attempt_reservation where
  "sample_attempt = \<lparr>ar_identity = \<lparr>at_operation = ''op'', at_call = ''c'', at_attempt = ''a'', at_number = 1, at_key = ''k''\<rparr>,
     ar_reservation = ''r1'', ar_decision = [], ar_estimated = 10, ar_status = ''started'', ar_settled = PNone, ar_meta = []\<rparr>"

definition sample_disk :: "post_answer list \<Rightarrow> (string \<times> pyval) list \<Rightarrow> gateway_state" where
  "sample_disk answers pending = \<lparr>gx_heap = [sample_attempt], gx_open = [(''a'', 0)], gx_open_files = [], gx_pending = pending,
     gx_aside = [], gx_answers = answers, gx_sent = [], gx_disk = True\<rparr>"


theorem gateway_journal_survives_witness:
  "let b = [(''idempotency_key'', PStr ''k:usage_known'')]; s = sample_disk [] [(''k:usage_known'', PDict [(''body'', PDict b)])] in
   (''k:usage_known'', b) \<in> journaled (fold (op_step sample_gateway sample_gateway_client) [Op_Get ''a'', Op_Get ''a''] s) \<or>
   (\<exists>pre op post. [Op_Get ''a'', Op_Get ''a''] = pre @ op # post \<and>
      (let t = fold (op_step sample_gateway sample_gateway_client) pre s; t' = op_step sample_gateway sample_gateway_client op t in
        b \<in> acknowledged sample_gateway t' \<or> b \<in> set_apart t' \<or>
        (\<exists>b'. op_body sample_gateway_client op t = Some b' \<and> ''k:usage_known'' = pending_name (gl_sha sample_gateway) (key_of b') \<and> b \<noteq> b')))"
  unfolding Let_def
  by (rule gateway_journal_survives [unfolded Let_def])
    (simp_all add: names_ok_def sample_disk_def journaled_def kw_def pending_name_def sample_gateway_def)

theorem restart_restores_attempt_witness:
  "\<exists>s'. client_get_open ''a'' ((put_open 0 (sample_disk [] []))\<lparr>gx_heap := [], gx_open := []\<rparr>) = (Some 0, s') \<and> gx_heap s' ! 0 = sample_attempt"
  using restart_restores_attempt [of "sample_disk [] []" 0 sample_attempt]
  by (simp add: sample_disk_def sample_attempt_def)

definition sample_logger :: gateway_logger where
  "sample_logger = \<lparr>lg_state = sample_disk [Post_Ok 200 ''R'', Post_Ok 200 ''S''] [], lg_counter = 0, lg_by_call = [], lg_evidence = [],
     lg_last_flush = None, lg_flushing = False\<rparr>"

definition sample_request :: kwargs where
  "sample_request = [(''model'', PStr ''m''), (''messages'', PList []), (''user'', PStr ''u'')]"

lemma sample_hold: "case hold_of_request sample_gateway sample_request ''completion'' of Inr (_, usd, m) \<Rightarrow> True | Inl _ \<Rightarrow> False"
  by code_simp


definition sample_run :: "(hook_error + kwargs) \<times> gateway_logger" where
  "sample_run = pre_call_hook sample_gateway sample_gateway_client True (Fin 30) 0
     ((''1'', ''2'', ''3''), (''4'', ''5'', ''6'')) sample_request ''completion'' sample_logger"

lemma sample_admitted: "case fst sample_run of Inr _ \<Rightarrow> True | Inl _ \<Rightarrow> False"
  by code_simp

theorem gateway_admission_is_reserved_witness:
  "\<exists>i bounded usd m. hold_of_request sample_gateway sample_request ''completion'' = Inr (bounded, usd, m) \<and>
    granted sample_gateway sample_gateway_client i
      (gateway_reserve_body sample_gateway_client i (gateway_micros usd) (hook_run_id bounded i) ''litellm_gateway''
        (resolve_customer_id sample_request))
      (lg_state sample_logger) (lg_state (snd sample_run)) \<and>
    (resolve_customer_id sample_request \<noteq> None \<or> \<not> customer_id_required (gl_env sample_gateway))"
proof -
  obtain k where "fst sample_run = Inr k" using sample_admitted by (cases "fst sample_run") simp_all
  then have r: "sample_run = (Inr k, snd sample_run)" by (metis prod.collapse)
  have "py_lower (py_strip (or_str (case dget (gl_env sample_gateway) ''KAZENAI_ENFORCEMENT_OWNER'' of None \<Rightarrow> [] | Some t \<Rightarrow> t)
      ''gateway'')) = ''gateway''" by code_simp
  from gateway_admission_is_reserved [OF r [unfolded sample_run_def] this] show ?thesis by (simp add: sample_run_def)
qed

end
