(* ===== verification/Finops_Events.thy ===== *)
theory Finops_Events
  imports Local_Guards Request_Pricing
begin

text \<open>
  The events derived from a model call: \<open>FinOpsController\<close> of kazenai/finops.py over the trajectory, the
  circuit breaker and the price engine. An event is what the controller reads of it (its cost, its tokens
  and its payload); a derived event is what it computes, without the ids, the time and the tenant it copies.
  The alert webhook never raises and is left out.
\<close>

section \<open>The controller\<close>

record finops_controller =
  fc_trajectory :: trajectory
  fc_breaker :: circuit_breaker
  fc_threshold :: rat
  fc_engine :: cost_engine
  fc_last_tokens :: "string set option"
  fc_last_cost :: rat

definition finops_controller_init :: "rat option \<Rightarrow> rat \<Rightarrow> rat \<Rightarrow> cost_engine \<Rightarrow> finops_controller" where
  "finops_controller_init budget soft threshold en =
     \<lparr>fc_trajectory = trajectory_init budget soft (3 / 10), fc_breaker = circuit_breaker_init budget soft,
      fc_threshold = threshold, fc_engine = en, fc_last_tokens = None, fc_last_cost = 0\<rparr>"

text \<open>\<open>text.lower().split()\<close> and the letters and digits of each word.\<close>

fun split_words :: "string \<Rightarrow> string \<Rightarrow> string list" where
  "split_words acc [] = (if acc = [] then [] else [rev acc])"
| "split_words acc (c # cs) =
     (if \<not> is_ws c then split_words (c # acc) cs
      else if acc = [] then split_words [] cs else rev acc # split_words [] cs)"

definition novelty_tokens :: "string \<Rightarrow> string set" where
  "novelty_tokens text = set (filter (\<lambda>t. t \<noteq> []) (map (filter token_char) (split_words [] (py_lower text))))"

record anomaly =
  an_score :: rat
  an_novelty :: "rat option"
  an_slope :: rat

record finops_events =
  fe_tokens :: "int option"
  fe_cost :: rat
  fe_point :: trajectory_point
  fe_remaining :: "rat option"
  fe_success :: "rat option"
  fe_quality :: "rat option"
  fe_anomaly :: "anomaly option"
  fe_opened :: "(breaker_decision \<times> rat) option"

section \<open>One event\<close>

definition event_model :: "(string \<times> pyval) list \<Rightarrow> string" where
  "event_model p = str_or_empty (or_val (kw p ''model'') (or_val (kw p ''resolved_model'') (kw p ''method'')))"

definition event_cost :: "env \<Rightarrow> catalog \<Rightarrow> cost_engine \<Rightarrow> rat option \<Rightarrow> (string \<times> pyval) list \<Rightarrow> rat option res" where
  "event_cost e cur en cost p =
     (if cost = None \<and> kw p ''usage'' \<noteq> PNone \<and> event_model p \<noteq> []
      then bnd (from_usage_row e cur en (event_model p) (kw p ''usage'')) (\<lambda>(_, _, c). Inr (Some c)) else Inr cost)"

definition event_tokens :: "int option \<Rightarrow> (string \<times> pyval) list \<Rightarrow> int option" where
  "event_tokens tokens p = (case tokens of
     Some t \<Rightarrow> Some t
   | None \<Rightarrow> (case bnd (py_int (or_val (kw p ''input_tokens'') (PInt 0))) (\<lambda>i.
                   bnd (py_int (or_val (kw p ''output_tokens'') (PInt 0))) (\<lambda>j. Inr (i + j))) of
               Inr t \<Rightarrow> Some t | Inl _ \<Rightarrow> None))"

definition event_depth :: "(string \<times> pyval) list \<Rightarrow> int" where
  "event_depth p = (case py_int (or_val (kw p ''depth'') (PInt 0)) of Inr d \<Rightarrow> d | Inl _ \<Rightarrow> 0)"

definition expected_success :: "trajectory_point \<Rightarrow> rat option" where
  "expected_success t =
     (let projected = tp_projected_total_cost_usd t;
          budget = (case tp_budget_usd t of Some b \<Rightarrow> if b = 0 then projected else b | None \<Rightarrow> projected)
      in if projected > 0 then Some (max 0 (min 1 (1 - projected / max budget (1 / 1000000)))) else None)"

text \<open>The novelty of the output against the last one: \<open>outputs_ref\<close> with no \<open>get\<close> leaves it unknown and the
  remembered words as they are.\<close>

definition output_text :: "(string \<times> pyval) list \<Rightarrow> string option" where
  "output_text p =
     (if \<not> has_key p ''outputs_ref'' then Some (str_or_empty (kw p ''output''))
      else (case kw p ''outputs_ref'' of
              PDict d \<Rightarrow> Some (str_or_empty (or_val (kw d ''value'') (kw p ''output'')))
            | _ \<Rightarrow> None))"

definition note_output :: "(string \<times> pyval) list \<Rightarrow> finops_controller \<Rightarrow> rat option \<times> finops_controller" where
  "note_output p fc = (case output_text p of
     None \<Rightarrow> (None, fc)
   | Some text \<Rightarrow>
       let words = novelty_tokens text in
       (map_option (\<lambda>l. 1 - jaccard words l) (fc_last_tokens fc), fc\<lparr>fc_last_tokens := Some words\<rparr>))"

definition anomaly_of :: "rat \<Rightarrow> rat option \<Rightarrow> rat \<Rightarrow> anomaly option" where
  "anomaly_of threshold novelty slope =
     (let score = (case novelty of None \<Rightarrow> 0 | Some n \<Rightarrow> max 0 (min 1 (slope * 10 + (1 - n))))
      in if score \<ge> threshold
         then Some \<lparr>an_score = score, an_novelty = novelty, an_slope = slope\<rparr> else None)"

definition handle_llm_call ::
  "env \<Rightarrow> catalog \<Rightarrow> pyval res option \<Rightarrow> rat option \<Rightarrow> int option \<Rightarrow> (string \<times> pyval) list \<Rightarrow> finops_controller
    \<Rightarrow> finops_events res \<times> finops_controller" where
  "handle_llm_call e cur serializer cost0 tokens p fc =
     (case event_cost e cur (fc_engine fc) cost0 p of
        Inl x \<Rightarrow> (Inl x, fc)
      | Inr cost \<Rightarrow>
          let step_cost = (case cost of None \<Rightarrow> 0 | Some c \<Rightarrow> c);
              (point, tr) = trajectory_update (Some step_cost) (event_depth p) (fc_trajectory fc);
              success = expected_success point;
              (novelty, fc1) = note_output p (fc\<lparr>fc_trajectory := tr\<rparr>);
              slope = step_cost - fc_last_cost fc1;
              (dec, cb) = cb_evaluate serializer (tp_projected_total_cost_usd point) (fc_breaker fc1)
          in (Inr \<lparr>fe_tokens = event_tokens tokens p, fe_cost = step_cost, fe_point = point,
                 fe_remaining = map_option (\<lambda>b. max 0 (b - tp_current_spend_usd point)) (tp_budget_usd point),
                 fe_success = success, fe_quality = map_option (\<lambda>q. q / tp_projected_total_cost_usd point) success,
                 fe_anomaly = anomaly_of (fc_threshold fc1) novelty slope,
                 fe_opened = (if bd_opened dec
                   then Some (dec, max 0 (tp_projected_total_cost_usd point - tp_current_spend_usd point)) else None)\<rparr>,
              fc1\<lparr>fc_last_cost := step_cost, fc_breaker := cb\<rparr>))"

definition raise_if_blocked :: "finops_events \<Rightarrow> unit res" where
  "raise_if_blocked d = raise_if (fe_opened d \<noteq> None) (OtherExn ''KazenCircuitBreaker'')"

section \<open>Facts\<close>

lemma event_step:
  assumes "handle_llm_call e cur ser cost tokens p fc = (Inr d, fc')"
  shows "fc_trajectory fc' = snd (trajectory_update (Some (fe_cost d)) (event_depth p) (fc_trajectory fc))"
    "fe_point d = fst (trajectory_update (Some (fe_cost d)) (event_depth p) (fc_trajectory fc))"
    "(fe_opened d \<noteq> None) = bd_opened (fst (cb_evaluate ser (tp_projected_total_cost_usd (fe_point d)) (fc_breaker fc)))"
    "fc_breaker fc' = snd (cb_evaluate ser (tp_projected_total_cost_usd (fe_point d)) (fc_breaker fc))"
  using assms
  by (auto simp: handle_llm_call_def note_output_def Let_def split: sum.splits prod.splits option.splits if_splits)

end
