(* ===== verification/Monitored_Request.thy ===== *)
theory Monitored_Request
  imports Guarded_Call Enforcement Finops_Events
begin

text \<open>
  A request of a monitored client until it is dispatched: the first half of what \<open>monitor()\<close> puts in the place
  of \<open>create\<close> of OpenAI's chat completions and responses and of Anthropic's messages (the \<open>wrapped\<close> functions
  of kazenai/monitor.py and, for async clients, kazenai/_async_provider.py): the context, the owner and
  attribution scopes, the loop detector, the bounds and the price of the request, the local budget and the
  reservation. Requests have no positional arguments.
\<close>

section \<open>Context\<close>

record run_context =
  cx_org :: string
  cx_workspace :: string
  cx_run :: string
  cx_step :: string
  cx_parent :: "string option"

text \<open>\<open>_call_context\<close>: the ambient run, under the client's tenant where the ambient one is a default.\<close>

definition call_context :: "run_context option \<Rightarrow> run_context \<Rightarrow> run_context" where
  "call_context ambient client = (case ambient of
     None \<Rightarrow> client
   | Some a \<Rightarrow>
       if cx_org a = ''local'' \<and> cx_org client \<notin> {[], ''local''}
       then a\<lparr>cx_org := cx_org client,
              cx_workspace := (if cx_workspace a = ''default'' then cx_workspace client else cx_workspace a)\<rparr>
       else a)"

definition child_step :: "string \<Rightarrow> run_context \<Rightarrow> run_context" where
  "child_step step cx = cx\<lparr>cx_step := step, cx_parent := Some (cx_step cx)\<rparr>"

section \<open>The client, the world, the process\<close>

text \<open>The arguments of \<open>monitor()\<close> and the patched method: its surface is \<open>chat\<close>, \<open>responses\<close> or
  \<open>messages\<close>.\<close>

record monitored_client =
  mc_surface :: string
  mc_method :: string
  mc_loop_guard :: string
  mc_loop_threshold :: rat
  mc_rate :: "rat option"
  mc_stream_enforcement :: bool
  mc_cutoff :: "rat option"
  mc_attribution :: attribution
  mc_observe :: "string list"
  mc_require_customer :: bool
  mc_sink :: bool
  mc_client :: "provider_client option"
  mc_context :: run_context

definition client_provider :: "monitored_client \<Rightarrow> string" where
  "client_provider c = (if mc_surface c = ''messages'' then ''anthropic'' else ''openai'')"

record monitor_world =
  mw_guard :: guard_world
  mw_pricing :: pricing_world
  mw_sha1 :: "string \<Rightarrow> string"
  mw_clock :: rat
  mw_step :: string
  mw_ambient :: "run_context option"
  mw_bypass :: bool
  mw_serializer :: "pyval res option"
  mw_capture :: "pyval \<Rightarrow> pyval"

datatype monitor_event = Loop_Anomaly loop_scores bool | Model_Call "int option" "rat option" | Derived finops_events

record monitor_state =
  ms_guard :: guard_state
  ms_local :: enforcement
  ms_loops :: loop_detector
  ms_breaker :: tier_breaker
  ms_pricing :: "call_pricing option"
  ms_finops :: "finops_controller option"
  ms_events :: "monitor_event list"

definition monitor_env :: "monitor_world \<Rightarrow> env" where
  "monitor_env w = gw_env (mw_guard w)"

section \<open>Reading a request\<close>

definition extract_openai_input :: "kwargs \<Rightarrow> kwargs" where
  "extract_openai_input kws =
     (if has_key kws ''messages'' then [(''messages'', kw kws ''messages''), (''model'', kw kws ''model'')]
      else if has_key kws ''input''
      then [(''input'', kw kws ''input''), (''instructions'', kw kws ''instructions''), (''model'', kw kws ''model'')]
      else [(''model'', kw kws ''model'')])"

definition text_of_str :: "pyval \<Rightarrow> string list" where
  "text_of_str v = (case v of PStr s \<Rightarrow> [s] | _ \<Rightarrow> [])"

definition lines :: "string list \<Rightarrow> string" where
  "lines = joined [char_of (10 :: nat)]"

definition item_texts :: "pyval \<Rightarrow> string list" where
  "item_texts item = (case item of
     PDict d \<Rightarrow>
       (case kw d ''content'' of
          PStr s \<Rightarrow> [s]
        | PList ps \<Rightarrow> concat (map (\<lambda>p. case p of PDict q \<Rightarrow> text_of_str (kw q ''text'') | _ \<Rightarrow> []) ps)
        | _ \<Rightarrow> [])
       @ text_of_str (kw d ''output'') @ text_of_str (kw d ''arguments'')
   | _ \<Rightarrow> [])"

definition responses_input_text :: "pyval \<Rightarrow> pyval \<Rightarrow> string" where
  "responses_input_text instructions items =
     lines (filter (\<lambda>t. t \<noteq> []) (text_of_str instructions) @
       (case items of
          PStr s \<Rightarrow> [s]
        | PList xs \<Rightarrow> concat (map item_texts xs)
        | PNone \<Rightarrow> []
        | _ \<Rightarrow> [py_str items]))"

definition extract_input_text :: "kwargs \<Rightarrow> string" where
  "extract_input_text p = (case (has_key p ''messages'', kw p ''messages'') of
     (True, PList ms) \<Rightarrow> lines (concat (map (\<lambda>m. case m of PDict d \<Rightarrow> text_of_str (kw d ''content'') | _ \<Rightarrow> []) ms))
   | _ \<Rightarrow> if has_key p ''input'' then responses_input_text (kw p ''instructions'') (kw p ''input'') else py_str (PDict p))"

definition tool_name :: "pyval \<Rightarrow> string list" where
  "tool_name t = (case t of
     PDict d \<Rightarrow>
       let fn = or_val (kw d ''function'') (PDict []);
           name = or_val (if is_mapping fn then field fn ''name'' else PNone) (kw d ''name'')
       in if truthy name then [py_str name] else []
   | _ \<Rightarrow> [py_str t])"

definition extract_tool_names :: "kwargs \<Rightarrow> string list option" where
  "extract_tool_names kws =
     (case iter_or_empty (kw kws ''tools'') of
        Inl _ \<Rightarrow> None
      | Inr ts \<Rightarrow> (let names = concat (map tool_name ts) in if names = [] then None else Some names))"

section \<open>Checks before the price\<close>

text \<open>Entering the scopes of the call: the owner, the attribution, the customer.\<close>

definition enter_scopes :: "monitor_world \<Rightarrow> monitored_client \<Rightarrow> guard_state \<Rightarrow> guard_state res" where
  "enter_scopes w c g =
     bnd (claim_configured_enforcement_owner (monitor_env w) no_refs (gs_owner g)) (\<lambda>own.
     bnd (use_attribution (mc_attribution c) (gs_scopes g)) (\<lambda>scopes.
     bnd (assert_customer_id (mc_require_customer c) scopes) (\<lambda>_.
       Inr (g\<lparr>gs_owner := own, gs_scopes := scopes\<rparr>))))"

definition leave_scopes :: "guard_state \<Rightarrow> monitor_state \<Rightarrow> monitor_state" where
  "leave_scopes g0 s = s\<lparr>ms_guard := (ms_guard s)\<lparr>gs_owner := gs_owner g0, gs_scopes := gs_scopes g0\<rparr>\<rparr>"

definition loop_subject :: "attribution list \<Rightarrow> string option" where
  "loop_subject scopes = (case scopes of [] \<Rightarrow> None | current # outer \<Rightarrow> at_subject (normalized current))"

definition emit :: "monitored_client \<Rightarrow> monitor_event \<Rightarrow> monitor_state \<Rightarrow> monitor_state" where
  "emit c x s = (if mc_sink c then s\<lparr>ms_events := ms_events s @ [x]\<rparr> else s)"

definition loop_guard_check ::
  "monitor_world \<Rightarrow> monitored_client \<Rightarrow> kwargs \<Rightarrow> monitor_state \<Rightarrow> unit res \<times> monitor_state" where
  "loop_guard_check w c kws s =
     (if mc_loop_guard c = ''off'' then (Inr (), s)
      else case score (mw_sha1 w) (extract_input_text (extract_openai_input kws)) (extract_tool_names kws)
                  (loop_subject (gs_scopes (ms_guard s))) (ms_loops s) of
        (Inl _, d) \<Rightarrow> (Inr (), s\<lparr>ms_loops := d\<rparr>)
      | (Inr sc, d) \<Rightarrow>
          let s1 = s\<lparr>ms_loops := d\<rparr>; blocked = (mc_loop_guard c = ''block'') in
          if \<not> (combined sc \<ge> mc_loop_threshold c \<and> is_loop d sc) then (Inr (), s1)
          else (if blocked then Inl LoopDetected else Inr (), emit c (Loop_Anomaly sc blocked) s1))"

definition streaming_explicitly_denied :: "env \<Rightarrow> bool" where
  "streaming_explicitly_denied e \<longleftrightarrow> env_norm e ''KAZENAI_DENY_STREAMING'' \<in> {''1'', ''true'', ''yes''}"

definition reject_streaming_if_unsupported :: "env \<Rightarrow> kwargs \<Rightarrow> unit res" where
  "reject_streaming_if_unsupported e kws =
     raise_if (truthy (kw kws ''stream'') \<and> streaming_explicitly_denied e) (UnsupportedMode ''unsupported_mode'')"

definition responses_token_billed_tools :: "pyval list" where
  "responses_token_billed_tools = [PStr ''function'', PStr ''custom'']"

definition validate_responses_request :: "kwargs \<Rightarrow> unit res" where
  "validate_responses_request kws0 =
     bnd (effective_request kws0) (\<lambda>kws.
     bnd (raise_if (truthy (kw kws ''background'')) (UnsupportedMode ''responses_background_unsupported'')) (\<lambda>_.
     bnd (raise_if (list_ex (\<lambda>k. truthy (kw kws k)) [''previous_response_id'', ''conversation'', ''prompt''])
            (UnsupportedMode ''responses_server_state_unsupported'')) (\<lambda>_.
     bnd (iter_or_empty (kw kws ''tools'')) (\<lambda>tools.
       for_each (\<lambda>t. raise_if (field t ''type'' \<notin> set responses_token_billed_tools)
                       (UnsupportedMode ''responses_builtin_tool_unsupported'')) tools))))"

definition merge_stream_options :: "kwargs \<Rightarrow> kwargs" where
  "merge_stream_options kws =
     (let out = dset ''stream'' (PBool True) kws in
      case kw out ''stream_options'' of
        PNone \<Rightarrow> dset ''stream_options'' (PDict [(''include_usage'', PBool True)]) out
      | PDict d \<Rightarrow> dset ''stream_options'' (PDict (dset ''include_usage'' (PBool True) d)) out
      | _ \<Rightarrow> out)"

definition stream_output_rate :: "monitor_world \<Rightarrow> string \<Rightarrow> rat option \<Rightarrow> rat res" where
  "stream_output_rate w mdl explicit =
     (if explicit \<noteq> None \<and> the explicit > 0 then Inr (the explicit)
      else if mdl = [] then Inr 0
      else bnd (price (monitor_env w) (gw_catalog (mw_guard w)) (w_engine (mw_pricing w)) mdl) (\<lambda>p. Inr (output_per_1k p)))"

text \<open>The output rate and the cutoff of a stream; a call that is none has neither check.\<close>

definition stream_cutoff ::
  "monitor_world \<Rightarrow> monitored_client \<Rightarrow> kwargs \<Rightarrow> (rat \<times> rat option) res" where
  "stream_cutoff w c kws =
     (if \<not> truthy (kw kws ''stream'') then Inr (0, mc_cutoff c)
      else bnd (stream_output_rate w (str_or_empty (kw kws ''model'')) (mc_rate c)) (\<lambda>r.
        let cutoff = (if mc_cutoff c = None \<and> mc_surface c \<noteq> ''messages'' \<and> mc_stream_enforcement c \<and> r > 0
                   then Some (max (1 / 100) (r * (5 / 100))) else mc_cutoff c)
        in if cutoff \<noteq> None \<and> r \<le> 0 then refuse ''stream_cutoff_pricing_unavailable'' else Inr (r, cutoff)))"

section \<open>The price of a request\<close>

text \<open>\<open>prepare_provider_call_async\<close>: the local refusals, the awaited count, then the same \<open>_prepare\<close>.\<close>

definition awaited_count ::
  "pricing_world \<Rightarrow> string \<Rightarrow> string \<Rightarrow> provider_client option \<Rightarrow> string list \<Rightarrow> kwargs \<Rightarrow> int option res" where
  "awaited_count w prov surface client observe_unbounded view =
     bnd (integer_n (kw view ''n'')) (\<lambda>_.
     bnd (validate_tools (w_bundle w) prov surface view) (\<lambda>_.
     bnd (validate_request_modifiers (w_bundle w) prov view) (\<lambda>_.
     let (images, document) = collect_images view; has = has_exact_counter client prov surface in
     bnd (raise_if document (UnsupportedMode ''document_reference_unsupported'')) (\<lambda>_.
     bnd (resolve_canonical w (py_lower (py_strip (str_or_empty (kw view ''model''))))) (\<lambda>canonical.
     let long_band = model_declares_long_band (w_table w) prov canonical ''standard'' in
     bnd (if long_band \<and> surface = ''chat'' then require_chat_below_long_band w view prov canonical images else Inr ()) (\<lambda>_.
     if long_band \<and> surface \<noteq> ''chat'' \<or> images \<noteq> [] \<and> ''images'' \<notin> set observe_unbounded \<and> has
     then if \<not> has then refuse ''input_counter_unavailable''
          else bnd (call_counter client prov view) (\<lambda>n. Inr (Some n))
     else Inr None))))))"

definition prepare_async ::
  "pricing_world \<Rightarrow> string \<Rightarrow> string \<Rightarrow> provider_client option \<Rightarrow> string \<Rightarrow> string list \<Rightarrow> kwargs
    \<Rightarrow> tier_breaker \<Rightarrow> (call_pricing \<times> kwargs) res \<times> tier_breaker" where
  "prepare_async w prov surface client org observe_unbounded kws0 tb =
     (case bnd (pin_service_tier prov kws0) (\<lambda>kws. bnd (effective_request kws) (\<lambda>view. Inr (kws, view))) of
        Inl x \<Rightarrow> (Inl x, tb)
      | Inr (kws, view) \<Rightarrow>
          (case check_breaker (w_now w) org prov (str_or_empty (kw view ''model'')) tb of
             (Inl x, tb1) \<Rightarrow> (Inl x, tb1)
           | (Inr _, tb1) \<Rightarrow>
               (case awaited_count w prov surface client observe_unbounded view of
                  Inl x \<Rightarrow> (Inl x, tb1)
                | Inr counted \<Rightarrow> prepare w prov surface client org observe_unbounded counted kws tb1)))"

definition has_rate :: "monitored_client \<Rightarrow> bool" where
  "has_rate c \<longleftrightarrow> mc_rate c \<noteq> None \<and> mc_rate c \<noteq> Some 0"

text \<open>The end of \<open>_precall_projection_usd\<close>: the price of the engine, else the caller's own rate.\<close>

definition unpriced_projection :: "monitor_world \<Rightarrow> monitored_client \<Rightarrow> string \<Rightarrow> int \<Rightarrow> int \<Rightarrow> rat res" where
  "unpriced_projection w c mdl inp out =
     (let flat = (if has_rate c then the (mc_rate c) * (of_int (inp + out) / 1000) else 0) in
      if mdl = [] then Inr flat
      else case engine_cost_usd (monitor_env w) (gw_catalog (mw_guard w)) (w_engine (mw_pricing w)) mdl inp out of
             Inr q \<Rightarrow> Inr (if q > 0 then q else flat)
           | Inl UnknownModelError \<Rightarrow> if has_rate c then Inr flat else Inl UnknownModelError
           | Inl _ \<Rightarrow> Inr flat)"

text \<open>The projection of a priced request, or of one no catalog prices; \<open>v\<close> is the request whose tokens are
  estimated.\<close>

definition projection_of ::
  "monitor_world \<Rightarrow> monitored_client \<Rightarrow> string \<Rightarrow> kwargs \<Rightarrow> kwargs \<Rightarrow> call_pricing option \<Rightarrow> (rat \<times> kwargs) res" where
  "projection_of w c mdl v k pricing =
     bnd (max_output_tokens v) (\<lambda>out.
       let priced = (case pricing of None \<Rightarrow> 0 | Some cp \<Rightarrow> reserved_usd (cp_decision cp)) in
       if priced > 0 then Inr (priced, k)
       else bnd (unpriced_projection w c mdl (estimate_input_tokens v) out) (\<lambda>q. Inr (q, k)))"

text \<open>\<open>_arm_price_scope\<close>, then \<open>_precall_projection_usd\<close>, which prices the request it was armed for; async,
  \<open>_priced_projection\<close> has priced it before. \<open>pin_service_tier\<close> pins the tier in the request that is sent.\<close>

definition priced_projection ::
  "bool \<Rightarrow> monitor_world \<Rightarrow> monitored_client \<Rightarrow> string \<Rightarrow> kwargs \<Rightarrow> monitor_state \<Rightarrow> (rat \<times> kwargs) res \<times> monitor_state" where
  "priced_projection asyn w c org kws s =
     (let prov = client_provider c; mdl = py_strip (str_or_empty (kw kws ''model'')); s0 = s\<lparr>ms_pricing := None\<rparr> in
      if asyn
      then (case prepare_async (mw_pricing w) prov (mc_surface c) (mc_client c) org (mc_observe c) kws (ms_breaker s) of
              (Inl x, tb) \<Rightarrow> (Inl x, s0\<lparr>ms_breaker := tb\<rparr>)
            | (Inr (cp, k), tb) \<Rightarrow> (projection_of w c mdl k k (Some cp), s\<lparr>ms_breaker := tb, ms_pricing := Some cp\<rparr>))
      else case max_output_tokens kws of
        Inl x \<Rightarrow> (Inl x, s0)
      | Inr _ \<Rightarrow>
          (case prepare (mw_pricing w) prov (mc_surface c) (mc_client c) org (mc_observe c) None kws (ms_breaker s) of
             (Inr (cp, k), tb) \<Rightarrow> (projection_of w c mdl kws k (Some cp), s\<lparr>ms_breaker := tb, ms_pricing := Some cp\<rparr>)
           | (Inl x, tb) \<Rightarrow>
               (if x = UnknownModelError \<and> has_rate c
                then projection_of w c mdl kws (case pin_service_tier prov kws of Inr k \<Rightarrow> k | Inl _ \<Rightarrow> kws) None
                else Inl x, s0\<lparr>ms_breaker := tb\<rparr>)))"

section \<open>Admission\<close>

definition call_request :: "monitored_client \<Rightarrow> run_context \<Rightarrow> kwargs \<Rightarrow> rat \<Rightarrow> reserve_call" where
  "call_request c cx kws projected =
     \<lparr>rc_org = cx_org cx, rc_workspace = cx_workspace cx, rc_run = cx_run cx, rc_model = str_or_empty (kw kws ''model''),
      rc_input_tokens = estimate_input_tokens kws, rc_estimate = Some projected, rc_increment_step = False, rc_feature = None,
      rc_call_id = text_or_none (cx_step cx), rc_attempt = 1, rc_idem = None, rc_given = mc_attribution c\<rparr>"

definition attach_pricing :: "reserved \<Rightarrow> call_pricing option \<Rightarrow> reserved" where
  "attach_pricing rsv pricing = (case (rsv, pricing) of
     (Handle h, Some cp) \<Rightarrow> Handle (h\<lparr>rh_pricing := Some cp\<rparr>) | _ \<Rightarrow> rsv)"

text \<open>An \<open>except Exception\<close> that gives the hold back; a cancellation passes it by.\<close>

definition give_back :: "guard_exn \<Rightarrow> rat \<Rightarrow> enforcement \<Rightarrow> enforcement" where
  "give_back x held e = (if x = Cancelled_Error then e else release_projection held e)"

text \<open>\<open>_reserve_with_local_hold\<close>: the local budget, then FinOps.\<close>

definition reserve_with_local_hold ::
  "guard_ops \<Rightarrow> monitor_world \<Rightarrow> reserve_call \<Rightarrow> rat \<Rightarrow> monitor_state \<Rightarrow> (rat \<times> reserved) gres \<times> monitor_state" where
  "reserve_with_local_hold ops w req projected s =
     (case check_local (mw_clock w) projected (ms_local s) of
        (Inl x, e) \<Rightarrow> (Inl (Guard_Raised x), s\<lparr>ms_local := e\<rparr>)
      | (Inr held, e) \<Rightarrow>
          (case go_reserve ops ((mw_guard w)\<lparr>gw_pricing := ms_pricing s\<rparr>) req (ms_guard s) of
             (Inl x, g) \<Rightarrow> (Inl x, s\<lparr>ms_guard := g, ms_local := give_back x held e\<rparr>)
           | (Inr r, g) \<Rightarrow> (Inr (held, attach_pricing r (ms_pricing s)), s\<lparr>ms_guard := g, ms_local := e\<rparr>)))"

text \<open>\<open>_mark_stream_started_or_release\<close>, for streams and other calls alike.\<close>

definition start_or_release ::
  "guard_ops \<Rightarrow> monitor_world \<Rightarrow> run_context \<Rightarrow> rat \<Rightarrow> reserved \<Rightarrow> monitor_state \<Rightarrow> unit gres \<times> monitor_state" where
  "start_or_release ops w cx held rsv s =
     (case go_signal ops (mw_guard w) (cx_org cx) (cx_run cx) rsv ''provider_started'' None
             (finops_reservation_fail_closed (monitor_env w)) (ms_guard s) of
        (Inr _, g) \<Rightarrow> (Inr (), s\<lparr>ms_guard := g\<rparr>)
      | (Inl x, g) \<Rightarrow> (Inl x, s\<lparr>ms_guard := g, ms_local := give_back x held (ms_local s)\<rparr>))"

text \<open>What is dispatched: the context, the request, the stream's rate and cutoff, the hold, the reservation.\<close>

record dispatch =
  dp_context :: run_context
  dp_kwargs :: kwargs
  dp_rate :: rat
  dp_cutoff :: "rat option"
  dp_held :: rat
  dp_reserved :: reserved

definition is_stream :: "dispatch \<Rightarrow> bool" where
  "is_stream d \<longleftrightarrow> truthy (kw (dp_kwargs d) ''stream'')"

text \<open>The checks in the order of \<open>wrapped\<close>, inside the scopes of the call.\<close>

definition bounded_request ::
  "monitor_world \<Rightarrow> monitored_client \<Rightarrow> kwargs \<Rightarrow> (kwargs \<times> rat \<times> rat option) res" where
  "bounded_request w c kws =
     bnd (reject_streaming_if_unsupported (monitor_env w) kws) (\<lambda>_.
     bnd (apply_output_token_bound (mc_surface c = ''responses'') kws) (\<lambda>bounded.
     let k = (if truthy (kw bounded ''stream'') \<and> mc_surface c = ''chat'' then merge_stream_options bounded else bounded) in
     bnd (stream_cutoff w c k) (\<lambda>(r, cutoff). Inr (k, r, cutoff))))"

definition admit ::
  "bool \<Rightarrow> guard_ops \<Rightarrow> monitor_world \<Rightarrow> monitored_client \<Rightarrow> run_context \<Rightarrow> kwargs \<Rightarrow> monitor_state \<Rightarrow> dispatch gres \<times> monitor_state" where
  "admit asyn ops w c cx kws s =
     (case bounded_request w c kws of
        Inl x \<Rightarrow> (Inl (Guard_Raised x), s)
      | Inr (k0, r, cutoff) \<Rightarrow>
          (case priced_projection asyn w c (cx_org cx) k0 s of
             (Inl x, s1) \<Rightarrow> (Inl (Guard_Raised x), s1)
           | (Inr (projected, k), s1) \<Rightarrow>
               (case reserve_with_local_hold ops w (call_request c cx k projected) projected s1 of
                  (Inl x, s2) \<Rightarrow> (Inl x, s2)
                | (Inr (held, rsv), s2) \<Rightarrow>
                    (case start_or_release ops w cx held rsv s2 of
                       (Inl x, s3) \<Rightarrow> (Inl x, s3)
                     | (Inr _, s3) \<Rightarrow> (Inr \<lparr>dp_context = cx, dp_kwargs = k, dp_rate = r, dp_cutoff = cutoff, dp_held = held,
                                         dp_reserved = rsv\<rparr>, s3)))))"

end
