(* ===== verification/Monitored_Call.thy ===== *)
theory Monitored_Call
  imports Monitored_Request
begin

text \<open>
  A call of a monitored client from its dispatch on, and the whole \<open>wrapped\<close> function (kazenai/monitor.py,
  kazenai/_async_provider.py): the provider's answer or exception, the price of its usage, the settlement,
  the local ledger, the events; a stream is handed over with its attempt. \<open>asyn\<close> tells the async twin.
\<close>

section \<open>The answer\<close>

definition extract_usage :: "pyval \<Rightarrow> int option \<times> pyval" where
  "extract_usage resp =
     (let usage = field resp ''usage''; total = field usage ''total_tokens'' in
      if \<not> truthy usage then (None, PNone)
      else if total = PNone then (None, usage)
      else case py_int total of Inr t \<Rightarrow> (Some t, usage) | Inl _ \<Rightarrow> (None, PNone))"

text \<open>\<open>getattr(v, k, None)\<close>: only objects have attributes.\<close>

definition getattr :: "pyval \<Rightarrow> string \<Rightarrow> pyval" where
  "getattr v k = (case v of PObj d \<Rightarrow> kw d k | _ \<Rightarrow> PNone)"

definition extract_anthropic_usage :: "pyval \<Rightarrow> int option \<times> pyval" where
  "extract_anthropic_usage resp =
     (let usage = getattr resp ''usage''; i = getattr usage ''input_tokens''; j = getattr usage ''output_tokens'' in
      if \<not> truthy usage then (None, PNone)
      else if i = PNone \<and> j = PNone then (None, usage)
      else case bnd (py_int (or_val i (PInt 0))) (\<lambda>a. bnd (py_int (or_val j (PInt 0))) (\<lambda>b. Inr (a + b))) of
             Inr t \<Rightarrow> (Some t, usage) | Inl _ \<Rightarrow> (None, PNone))"

definition usage_of_answer :: "monitored_client \<Rightarrow> pyval \<Rightarrow> int option \<times> pyval" where
  "usage_of_answer c resp = (if mc_surface c = ''messages'' then extract_anthropic_usage resp else extract_usage resp)"

text \<open>The cost of the answer. \<open>settle_usage\<close> updates the frozen basis, which the reservation shares.\<close>

definition priced_answer ::
  "monitor_world \<Rightarrow> monitored_client \<Rightarrow> dispatch \<Rightarrow> pyval \<Rightarrow> monitor_state
    \<Rightarrow> int option \<times> pyval \<times> rat option \<times> reserved \<times> monitor_state" where
  "priced_answer w c d resp s =
     (let (tokens, usage) = usage_of_answer c resp;
          (cost, cp, tb) = postcall_cost_usd (mw_pricing w) (gw_catalog (mw_guard w)) (gw_format (mw_guard w))
             (cx_org (dp_context d)) (str_or_empty (kw (dp_kwargs d) ''model'')) usage tokens (mc_rate c) (ms_pricing s) (ms_breaker s)
      in (tokens, usage, cost, attach_pricing (dp_reserved d) cp, s\<lparr>ms_pricing := cp, ms_breaker := tb\<rparr>))"

definition pricing_holds_reconciliation :: "call_pricing option \<Rightarrow> bool" where
  "pricing_holds_reconciliation pricing = (case pricing of None \<Rightarrow> False | Some cp \<Rightarrow> cp_hold_for_reconciliation cp)"

section \<open>Settlement\<close>

text \<open>\<open>_try_mark_stream_pending\<close>: the known amount, or an unknown outcome.\<close>

definition mark_pending ::
  "guard_ops \<Rightarrow> monitor_world \<Rightarrow> run_context \<Rightarrow> reserved \<Rightarrow> rat option \<Rightarrow> guard_state \<Rightarrow> bool gres \<times> guard_state" where
  "mark_pending ops w cx rsv cost g =
     go_signal ops (mw_guard w) (cx_org cx) (cx_run cx) rsv (if cost = None then ''outcome_unknown'' else ''usage_known'') cost False g"

text \<open>\<open>try: ... except Exception: pass\<close>.\<close>

definition swallow :: "bool gres \<times> guard_state \<Rightarrow> unit gres \<times> guard_state" where
  "swallow rg = (case rg of (Inl Cancelled_Error, g) \<Rightarrow> (Inl Cancelled_Error, g) | (_, g) \<Rightarrow> (Inr (), g))"

definition discard :: "bool gres \<times> guard_state \<Rightarrow> unit gres \<times> guard_state" where
  "discard rg = (case rg of (Inl x, g) \<Rightarrow> (Inl x, g) | (Inr _, g) \<Rightarrow> (Inr (), g))"

definition settle_answer ::
  "guard_ops \<Rightarrow> monitor_world \<Rightarrow> monitored_client \<Rightarrow> dispatch \<Rightarrow> reserved \<Rightarrow> rat option \<Rightarrow> bool \<Rightarrow> guard_state \<Rightarrow> unit gres \<times> guard_state" where
  "settle_answer ops w c d rsv cost hold g =
     (let cx = dp_context d in
      case (if hold then None else cost) of
        None \<Rightarrow> discard (mark_pending ops w cx rsv None g)
      | Some q \<Rightarrow>
          (case go_reconcile ops (mw_guard w) (call_request c cx (dp_kwargs d) q) rsv q g of
             (Inl x, g1) \<Rightarrow> (Inl x, g1)
           | (Inr True, g1) \<Rightarrow> (Inr (), g1)
           | (Inr False, g1) \<Rightarrow> discard (mark_pending ops w cx rsv (Some q) g1)))"

text \<open>The async twin: a settlement that raises is marked as an unknown outcome; an \<open>Exception\<close> is then marked
  with the amount too, a cancellation goes on.\<close>

definition settle_answer_async ::
  "guard_ops \<Rightarrow> monitor_world \<Rightarrow> monitored_client \<Rightarrow> dispatch \<Rightarrow> reserved \<Rightarrow> rat option \<Rightarrow> bool \<Rightarrow> guard_state \<Rightarrow> unit gres \<times> guard_state" where
  "settle_answer_async ops w c d rsv cost hold g =
     (let cx = dp_context d in
      case (if hold then None else cost) of
        None \<Rightarrow> discard (mark_pending ops w cx rsv None g)
      | Some q \<Rightarrow>
          (case go_reconcile ops (mw_guard w) (call_request c cx (dp_kwargs d) q) rsv q g of
             (Inl x, g1) \<Rightarrow>
               (case swallow (mark_pending ops w cx rsv None g1) of
                  (Inl y, g2) \<Rightarrow> (Inl y, g2)
                | (Inr _, g2) \<Rightarrow> if x = Cancelled_Error then (Inl x, g2) else swallow (mark_pending ops w cx rsv (Some q) g2))
           | (Inr True, g1) \<Rightarrow> (Inr (), g1)
           | (Inr False, g1) \<Rightarrow> swallow (mark_pending ops w cx rsv (Some q) g1)))"

section \<open>Streams\<close>

definition new_stream_attempt :: "bool \<Rightarrow> monitored_client \<Rightarrow> dispatch \<Rightarrow> call_pricing option \<Rightarrow> stream_attempt" where
  "new_stream_attempt asyn c d pricing =
     \<lparr>held_projection = dp_held d, reserved = True, sa_model = str_or_empty (kw (dp_kwargs d) ''model''),
      sa_usd_per_1k = dp_rate d, stream_cutoff_usd = dp_cutoff d, settle_usd_per_1k = mc_rate c,
      has_reconcile = (\<not> asyn), has_pending = (\<not> asyn), has_reconcile_async = asyn, has_pending_async = asyn,
      has_postcall = True, first_byte = None, observed_usage = no_usage, estimated_output_tokens = 0,
      estimated_spend_usd = 0, upstream_close_attempted = False, upstream_close_ok = False, finalized = False,
      finalize_in_progress = False, terminal_outcome = None, financial_pending = False, cost_confidence = ''unknown'',
      pricing_call = pricing\<rparr>"

text \<open>The attempt's callbacks: \<open>_try_settle_stream_budget\<close>, and \<open>_try_mark_stream_pending\<close>, which it calls
  without an amount.\<close>

definition stream_settle ::
  "guard_ops \<Rightarrow> monitor_world \<Rightarrow> run_context \<Rightarrow> reserved \<Rightarrow> guard_state \<Rightarrow> rat \<Rightarrow> bool gres \<times> guard_state" where
  "stream_settle ops w cx rsv g q =
     go_signal ops (mw_guard w) (cx_org cx) (cx_run cx) rsv ''usage_known'' (Some q) False g"

definition callback_of :: "bool gres \<Rightarrow> callback" where
  "callback_of r = (case r of Inr b \<Rightarrow> Returned b | Inl Cancelled_Error \<Rightarrow> Interrupted | Inl _ \<Rightarrow> Raised)"

definition stream_effect_step ::
  "guard_ops \<Rightarrow> monitor_world \<Rightarrow> run_context \<Rightarrow> reserved \<Rightarrow> stream_effect \<Rightarrow> guard_state \<Rightarrow> guard_state" where
  "stream_effect_step ops w cx rsv x g = (case x of
     Reconcile_Called q \<Rightarrow> snd (stream_settle ops w cx rsv g q)
   | Pending_Called \<Rightarrow> snd (mark_pending ops w cx rsv None g)
   | _ \<Rightarrow> g)"

text \<open>\<open>_bound_postcall\<close> is called with the observed usage; what it does to the tier breaker.\<close>

definition stream_postcall ::
  "monitor_world \<Rightarrow> run_context \<Rightarrow> tier_breaker \<Rightarrow> string \<Rightarrow> pyval \<Rightarrow> int option \<Rightarrow> rat option \<Rightarrow> call_pricing option
    \<Rightarrow> rat option \<times> call_pricing option \<times> tier_breaker" where
  "stream_postcall w cx tb mdl usage tokens rate p =
     postcall_cost_usd (mw_pricing w) (gw_catalog (mw_guard w)) (gw_format (mw_guard w)) (cx_org cx) mdl usage tokens rate p tb"

definition price_of_stream ::
  "monitor_world \<Rightarrow> run_context \<Rightarrow> tier_breaker \<Rightarrow> string \<Rightarrow> pyval \<Rightarrow> int option \<Rightarrow> rat option \<Rightarrow> call_pricing option
    \<Rightarrow> rat option \<times> call_pricing option" where
  "price_of_stream w cx tb mdl usage tokens rate p = (case stream_postcall w cx tb mdl usage tokens rate p of (q, p', _) \<Rightarrow> (q, p'))"

definition breaker_after_stream :: "monitor_world \<Rightarrow> run_context \<Rightarrow> stream_attempt \<Rightarrow> tier_breaker \<Rightarrow> tier_breaker" where
  "breaker_after_stream w cx a tb =
     (let u = observed_usage a; d = as_openai_style u in
      if authoritative u \<and> has_postcall a
      then snd (snd (stream_postcall w cx tb (sa_model a)
             (if usage_raw u \<noteq> PNone then usage_raw u
              else case d of None \<Rightarrow> PNone | Some m \<Rightarrow> PDict (map (\<lambda>(k, i). (k, PInt i)) m))
             (case d of None \<Rightarrow> None | Some m \<Rightarrow> dget m ''total_tokens'')
             (if settle_usd_per_1k a = Some 0 then None else settle_usd_per_1k a) (pricing_call a)))
      else tb)"

text \<open>\<open>_emit_stream_model_call\<close>: only an exact cost is reported, and only a settled attempt reaches the
  controller. Of the exceptions, the product's refusals and the breaker's are raised.\<close>

definition expected_fail_open :: "exn \<Rightarrow> bool" where
  "expected_fail_open x = (case x of
     BudgetExceeded \<Rightarrow> True | BudgetUnavailable \<Rightarrow> True | LoopDetected \<Rightarrow> True | RateLimitExceeded \<Rightarrow> True
   | StreamCutoff _ \<Rightarrow> True | UnsupportedMode _ \<Rightarrow> True | _ \<Rightarrow> False)"

definition stream_payload :: "monitored_client \<Rightarrow> stream_attempt \<Rightarrow> (string \<times> pyval) list" where
  "stream_payload c a =
     [(''method'', PStr (mc_method c)), (''model'', PStr (sa_model a)),
      (''usage'', case as_openai_style (observed_usage a) of None \<Rightarrow> PNone | Some d \<Rightarrow> PDict (map (\<lambda>(k, i). (k, PInt i)) d))]"

definition emit_stream_model_call ::
  "monitor_world \<Rightarrow> monitored_client \<Rightarrow> stream_attempt \<Rightarrow> rat \<Rightarrow> int option \<Rightarrow> monitor_state \<Rightarrow> unit res \<times> monitor_state" where
  "emit_stream_model_call w c a cost tokens s0 =
     (let reported = (if starts_with (cost_confidence a) ''exact'' then Some cost else None);
          s = emit c (Model_Call tokens reported) s0 in
      case ms_finops s of
        None \<Rightarrow> (Inr (), s)
      | Some fc \<Rightarrow>
          if financial_pending a then (Inr (), s)
          else (case handle_llm_call (monitor_env w) (gw_catalog (mw_guard w)) (mw_serializer w) reported tokens (stream_payload c a) fc of
             (Inl x, fc') \<Rightarrow> (if expected_fail_open x then Inl x else Inr (), s\<lparr>ms_finops := Some fc'\<rparr>)
           | (Inr ev, fc') \<Rightarrow> (raise_if_blocked ev, emit c (Derived ev) (s\<lparr>ms_finops := Some fc'\<rparr>))))"

text \<open>What the effect of a finalized attempt does to the sink and the controller; an exception of the
  asynchronous \<open>finalize_async\<close> is swallowed.\<close>

definition stream_event ::
  "bool \<Rightarrow> monitor_world \<Rightarrow> monitored_client \<Rightarrow> stream_attempt \<Rightarrow> stream_effect \<Rightarrow> unit res \<times> monitor_state \<Rightarrow> unit res \<times> monitor_state" where
  "stream_event asyn w c a x rs = (case x of
     Event_Emitted q t \<Rightarrow>
       (case emit_stream_model_call w c a q t (snd rs) of (r, s) \<Rightarrow> (if asyn then fst rs else bnd (fst rs) (\<lambda>_. r), s))
   | _ \<Rightarrow> rs)"

text \<open>The end of an attempt: \<open>finalize\<close> or \<open>finalize_async\<close> with the callbacks of the monitored call.\<close>

definition end_stream ::
  "bool \<Rightarrow> guard_ops \<Rightarrow> monitor_world \<Rightarrow> monitored_client \<Rightarrow> run_context \<Rightarrow> reserved \<Rightarrow> stream_outcome \<Rightarrow> stream_usage option
    \<Rightarrow> stream_attempt \<Rightarrow> monitor_state \<Rightarrow> unit res \<times> stream_attempt \<times> monitor_state" where
  "end_stream asyn ops w c cx rsv outcome usage a0 s =
     (let settle = (\<lambda>q. callback_of (fst (stream_settle ops w cx rsv (ms_guard s) q)));
          (r, effs, a, e) = (if asyn then finalize_async else finalize) (mw_clock w) (price_of_stream w cx (ms_breaker s)) settle
             outcome usage a0 (ms_local s);
          tb = (if finalized a0 \<or> asyn \<and> finalize_in_progress a0 then ms_breaker s
                else breaker_after_stream w cx (begin_finalize outcome usage a0) (ms_breaker s));
          (r', s') = fold (stream_event asyn w c a) effs (r, s\<lparr>ms_guard := fold (stream_effect_step ops w cx rsv) effs (ms_guard s),
             ms_local := e, ms_breaker := tb\<rparr>)
      in (r', a, s'))"

text \<open>The attempt whose dispatch fails.\<close>

definition failed_dispatch ::
  "bool \<Rightarrow> guard_ops \<Rightarrow> monitor_world \<Rightarrow> monitored_client \<Rightarrow> dispatch \<Rightarrow> stream_outcome \<Rightarrow> monitor_state \<Rightarrow> unit res \<times> monitor_state" where
  "failed_dispatch asyn ops w c d outcome s =
     (case end_stream asyn ops w c (dp_context d) (dp_reserved d) outcome None (new_stream_attempt asyn c d (ms_pricing s)) s of
        (r, _, s') \<Rightarrow> (r, s'))"

text \<open>An exception of \<open>finalize\<close>: a callback's interruption, or the product's own.\<close>

definition from_finalize :: "exn \<Rightarrow> guard_exn" where
  "from_finalize x = (if x = OtherExn ''BaseException'' then Cancelled_Error else Guard_Raised x)"

section \<open>The end of a call\<close>

datatype monitored_result = Ended call_result | Streams stream_attempt reserved

text \<open>The payload the controller reads of the event of a call.\<close>

definition call_payload :: "bool \<Rightarrow> monitor_world \<Rightarrow> monitored_client \<Rightarrow> dispatch \<Rightarrow> pyval \<Rightarrow> pyval \<Rightarrow> (string \<times> pyval) list" where
  "call_payload asyn w c d usage resp =
     [(''method'', PStr (mc_method c)), (''model'', kw (dp_kwargs d) ''model''), (''outputs_ref'', mw_capture w resp),
      (''usage'', if mc_surface c = ''messages'' \<and> \<not> asyn
        then if usage = PNone then PNone
             else PDict [(''input_tokens'', getattr usage ''input_tokens''), (''output_tokens'', getattr usage ''output_tokens'')]
        else if is_mapping usage then usage else PNone)]"

text \<open>The event goes to the sink, then through the FinOps controller, whose breaker may stop the run.\<close>

definition call_events ::
  "bool \<Rightarrow> monitor_world \<Rightarrow> monitored_client \<Rightarrow> dispatch \<Rightarrow> int option \<Rightarrow> pyval \<Rightarrow> rat option \<Rightarrow> pyval \<Rightarrow> monitor_state
    \<Rightarrow> unit res \<times> monitor_state" where
  "call_events asyn w c d tokens usage cost resp s0 =
     (let s = emit c (Model_Call tokens cost) s0 in
      case ms_finops s of
        None \<Rightarrow> (Inr (), s)
      | Some fc \<Rightarrow>
          (case handle_llm_call (monitor_env w) (gw_catalog (mw_guard w)) (mw_serializer w) cost tokens
                  (call_payload asyn w c d usage resp) fc of
             (Inl x, fc') \<Rightarrow> (Inl x, s\<lparr>ms_finops := Some fc'\<rparr>)
           | (Inr ev, fc') \<Rightarrow> (raise_if_blocked ev, emit c (Derived ev) (s\<lparr>ms_finops := Some fc'\<rparr>))))"

definition book :: "monitor_world \<Rightarrow> dispatch \<Rightarrow> rat option \<Rightarrow> monitor_state \<Rightarrow> monitor_state" where
  "book w d cost s = s\<lparr>ms_local := snd (record_call (mw_clock w) cost False (dp_held d) (ms_local s))\<rparr>"

definition call_answered ::
  "bool \<Rightarrow> guard_ops \<Rightarrow> monitor_world \<Rightarrow> monitored_client \<Rightarrow> dispatch \<Rightarrow> pyval \<Rightarrow> monitor_state \<Rightarrow> call_result \<times> monitor_state" where
  "call_answered asyn ops w c d resp s =
     (let (tokens, usage, cost, rsv, s1) = priced_answer w c d resp s;
          settle = (if asyn then settle_answer_async else settle_answer)
      in case settle ops w c d rsv cost (pricing_holds_reconciliation (ms_pricing s1)) (ms_guard s1) of
           (Inl x, g) \<Rightarrow> (Guard_Refused x, s1\<lparr>ms_guard := g\<rparr>)
         | (Inr _, g) \<Rightarrow>
             (case call_events asyn w c d tokens usage cost resp (book w d cost (s1\<lparr>ms_guard := g\<rparr>)) of
                (Inl x, s2) \<Rightarrow> (Guard_Refused (Guard_Raised x), s2)
              | (Inr _, s2) \<Rightarrow> (Gave resp, s2)))"

text \<open>The handlers of an exception of the provider; \<open>is_exception\<close> is false for a \<open>BaseException\<close> such as a
  cancellation, which only the async function handles.\<close>

definition call_failed ::
  "bool \<Rightarrow> guard_ops \<Rightarrow> monitor_world \<Rightarrow> monitored_client \<Rightarrow> dispatch \<Rightarrow> pyval \<Rightarrow> bool \<Rightarrow> monitor_state \<Rightarrow> call_result \<times> monitor_state" where
  "call_failed asyn ops w c d exc is_exception s =
     (let cx = dp_context d; rsv = dp_reserved d in
      if is_exception
      then case is_definitive_provider_rejection exc of
             Inl x \<Rightarrow> (Guard_Refused (Guard_Raised x), s)
           | Inr rejected \<Rightarrow>
               if is_stream d
               then (case failed_dispatch asyn ops w c d (if rejected then REJECTED else PROVIDER_ERROR) s of
                       (Inl x, s1) \<Rightarrow> (Guard_Refused (from_finalize x), s1)
                     | (Inr _, s1) \<Rightarrow> (Provider_Raised exc, s1))
               else (case mark_pending ops w cx rsv (if rejected then Some 0 else None) (ms_guard s) of
                       (Inl x, g) \<Rightarrow> (Guard_Refused x, s\<lparr>ms_guard := g\<rparr>)
                     | (Inr _, g) \<Rightarrow> (Provider_Raised exc, book w d (Some 0) (s\<lparr>ms_guard := g\<rparr>)))
      else if \<not> asyn then (Provider_Raised exc, s)
      else if is_stream d
      then (case failed_dispatch asyn ops w c d CLIENT_CANCELLED s of
              (Inl x, s1) \<Rightarrow> (Guard_Refused (from_finalize x), s1)
            | (Inr _, s1) \<Rightarrow> (Provider_Raised exc, s1))
      else (case swallow (mark_pending ops w cx rsv None (ms_guard s)) of
              (Inl x, g) \<Rightarrow> (Guard_Refused x, s\<lparr>ms_guard := g\<rparr>)
            | (Inr _, g) \<Rightarrow> (Provider_Raised exc, s\<lparr>ms_guard := g\<rparr>)))"

section \<open>The wrapped function\<close>

definition dispatch_call ::
  "bool \<Rightarrow> guard_ops \<Rightarrow> monitor_world \<Rightarrow> monitored_client \<Rightarrow> dispatch \<Rightarrow> (kwargs \<Rightarrow> provider_result) \<Rightarrow> monitor_state
    \<Rightarrow> monitored_result \<times> monitor_state" where
  "dispatch_call asyn ops w c d fn s =
     (let s1 = s\<lparr>ms_guard := log_effect Provider_Called (ms_guard s)\<rparr> in
      case fn (dp_kwargs d) of
        Fails exc is_exception \<Rightarrow> (case call_failed asyn ops w c d exc is_exception s1 of (r, s2) \<Rightarrow> (Ended r, s2))
      | Answers resp \<Rightarrow>
          if is_stream d then (Streams (new_stream_attempt asyn c d (ms_pricing s1)) (dp_reserved d), s1)
          else (case call_answered asyn ops w c d resp s1 of (r, s2) \<Rightarrow> (Ended r, s2)))"

definition scoped_call ::
  "bool \<Rightarrow> guard_ops \<Rightarrow> monitor_world \<Rightarrow> monitored_client \<Rightarrow> kwargs \<Rightarrow> (kwargs \<Rightarrow> provider_result) \<Rightarrow> monitor_state
    \<Rightarrow> monitored_result \<times> monitor_state" where
  "scoped_call asyn ops w c kws fn s =
     (let cx = child_step (mw_step w) (call_context (mw_ambient w) (mc_context c)) in
      case loop_guard_check w c kws s of
        (Inl x, s1) \<Rightarrow> (Ended (Guard_Refused (Guard_Raised x)), s1)
      | (Inr _, s1) \<Rightarrow>
          (case admit asyn ops w c cx kws s1 of
             (Inl x, s2) \<Rightarrow> (Ended (Guard_Refused x), s2)
           | (Inr d, s2) \<Rightarrow> dispatch_call asyn ops w c d fn s2))"

definition monitored_call ::
  "bool \<Rightarrow> guard_ops \<Rightarrow> monitor_world \<Rightarrow> monitored_client \<Rightarrow> kwargs \<Rightarrow> (kwargs \<Rightarrow> provider_result) \<Rightarrow> monitor_state
    \<Rightarrow> monitored_result \<times> monitor_state" where
  "monitored_call asyn ops w c kws fn s =
     (if mw_bypass w
      then (Ended (case fn kws of Answers r \<Rightarrow> Gave r | Fails exc _ \<Rightarrow> Provider_Raised exc),
            s\<lparr>ms_guard := log_effect Provider_Called (ms_guard s)\<rparr>)
      else case (if mc_surface c = ''responses'' then validate_responses_request kws else Inr ()) of
        Inl x \<Rightarrow> (Ended (Guard_Refused (Guard_Raised x)), s)
      | Inr _ \<Rightarrow>
          (case enter_scopes w c (ms_guard s) of
             Inl x \<Rightarrow> (Ended (Guard_Refused (Guard_Raised x)), s)
           | Inr g \<Rightarrow> (case scoped_call asyn ops w c kws fn (s\<lparr>ms_guard := g\<rparr>) of
               (r, s1) \<Rightarrow> (r, leave_scopes (ms_guard s) s1))))"

text \<open>The call of a sync and of an async client.\<close>

definition monitored_sync :: "monitor_world \<Rightarrow> monitored_client \<Rightarrow> kwargs \<Rightarrow> (kwargs \<Rightarrow> provider_result) \<Rightarrow> monitor_state
    \<Rightarrow> monitored_result \<times> monitor_state" where
  "monitored_sync = monitored_call False sync_ops"

definition monitored_async :: "monitor_world \<Rightarrow> monitored_client \<Rightarrow> kwargs \<Rightarrow> (kwargs \<Rightarrow> provider_result) \<Rightarrow> monitor_state
    \<Rightarrow> monitored_result \<times> monitor_state" where
  "monitored_async = monitored_call True async_ops"

end
