(* ===== verification/Monitored_Facts.thy ===== *)
theory Monitored_Facts
  imports Monitored_Call Guard_Claims Stream_Facts
begin

text \<open>
  What a monitored call does to the local ledger and to the trace of the guard, step by step: the hold and what
  becomes of it, the events settled before and after the provider is called, the admission. The properties are in
  Monitored_Claims.
\<close>

section \<open>The ledger through a call\<close>

text \<open>What the budget of a ledger is: its cap, what was spent, what is held.\<close>

definition budget_of :: "enforcement \<Rightarrow> rat option \<times> rat \<times> rat" where
  "budget_of e = (max_cost_usd e, cumulative_cost_usd e, pending_projected_usd e)"

text \<open>\<open>e'\<close> holds \<open>h\<close> more than \<open>e\<close>, within the cap.\<close>

definition holds_more :: "rat \<Rightarrow> enforcement \<Rightarrow> enforcement \<Rightarrow> bool" where
  "holds_more h e e' \<longleftrightarrow> max_cost_usd e' = max_cost_usd e \<and> cumulative_cost_usd e' = cumulative_cost_usd e \<and>
     pending_projected_usd e' = pending_projected_usd e + max 0 h \<and>
     (\<forall>m. max_cost_usd e = Some m \<longrightarrow> cumulative_cost_usd e + pending_projected_usd e + h \<le> m)"

lemma check_local_holds:
  assumes "check_local now p e = (Inr h, e')" "max_cost_usd e = Some m"
  shows "h = p \<and> holds_more p e e'"
proof -
  from assms(1) have "h = p \<and> cumulative_cost_usd e + pending_projected_usd e + p \<le> m \<and>
      e' = (if p > 0 then (prune_locked now e)\<lparr>pending_projected_usd := pending_projected_usd e + p\<rparr> else prune_locked now e)"
    by (auto simp: check_local_def Let_def assms(2) not_less split: if_split_asm)
  then show ?thesis using assms(2) by (simp add: holds_more_def)
qed

lemma check_local_refusal: "check_local now p e = (Inl x, e') \<Longrightarrow> budget_of e' = budget_of e"
  by (drule check_local_refused) (simp add: budget_of_def)

lemma release_held:
  "holds_more h e e' \<Longrightarrow> 0 \<le> pending_projected_usd e \<Longrightarrow> budget_of (release_projection h e') = budget_of e"
  by (auto simp: holds_more_def budget_of_def release_projection_def)

lemma record_held:
  "holds_more h e e' \<Longrightarrow> 0 \<le> pending_projected_usd e \<Longrightarrow>
     budget_of (snd (record_call now k enf h e')) =
       (max_cost_usd e, cumulative_cost_usd e + (case k of None \<Rightarrow> 0 | Some q \<Rightarrow> q), pending_projected_usd e)"
  by (auto simp: holds_more_def budget_of_def record_call_def Let_def split: option.splits)

lemma priced_projection_frame:
  "priced_projection asyn w c org kws s = (x, s') \<Longrightarrow> ms_local s' = ms_local s \<and> ms_guard s' = ms_guard s"
  by (auto simp: priced_projection_def Let_def split: if_splits prod.splits sum.splits)

lemma loop_guard_frame:
  "loop_guard_check w c kws s = (x, s') \<Longrightarrow> ms_local s' = ms_local s \<and> ms_guard s' = ms_guard s"
  by (auto simp: loop_guard_check_def emit_def Let_def split: if_splits prod.splits sum.splits)

lemma reserve_hold:
  assumes "reserve_with_local_hold ops w req p s = (x, s')" "max_cost_usd (ms_local s) = Some m"
    and "0 \<le> pending_projected_usd (ms_local s)"
  shows "(\<exists>e. x = Inl e \<and> (e \<noteq> Cancelled_Error \<longrightarrow> budget_of (ms_local s') = budget_of (ms_local s))) \<or>
    (\<exists>r. x = Inr (p, r) \<and> holds_more p (ms_local s) (ms_local s'))"
proof -
  obtain y e where y: "check_local (mw_clock w) p (ms_local s) = (y, e)" by force
  show ?thesis
  proof (cases y)
    case (Inl z)
    with assms(1) y show ?thesis by (auto simp: reserve_with_local_hold_def dest: check_local_refusal)
  next
    case (Inr h)
    with check_local_holds y assms(2) have h: "h = p" "holds_more p (ms_local s) e" by blast+
    with assms(1) y Inr release_held [OF h(2) assms(3)] show ?thesis
      by (auto simp: reserve_with_local_hold_def give_back_def split: prod.splits sum.splits)
  qed
qed

lemma start_hold:
  assumes "start_or_release ops w cx h rsv s = (x, s')" "holds_more h e (ms_local s)" "0 \<le> pending_projected_usd e"
  shows "(\<exists>y. x = Inl y \<and> (y \<noteq> Cancelled_Error \<longrightarrow> budget_of (ms_local s') = budget_of e)) \<or>
    (x = Inr () \<and> ms_local s' = ms_local s)"
  using assms by (auto simp: start_or_release_def give_back_def dest: release_held split: prod.splits sum.splits)

lemma admit_hold:
  assumes "admit asyn ops w c cx kws s = (x, s')" "max_cost_usd (ms_local s) = Some m"
    and "0 \<le> pending_projected_usd (ms_local s)"
  shows "(\<exists>y. x = Inl y \<and> (y \<noteq> Cancelled_Error \<longrightarrow> budget_of (ms_local s') = budget_of (ms_local s))) \<or>
    (\<exists>d. x = Inr d \<and> dp_context d = cx \<and> holds_more (dp_held d) (ms_local s) (ms_local s'))"
proof -
  show ?thesis
  proof (cases "bounded_request w c kws")
    case (Inl y)
    with assms(1) show ?thesis by (auto simp: admit_def)
  next
    case (Inr b)
    obtain k0 r cutoff where b: "b = (k0, r, cutoff)" by (cases b)
    obtain y s1 where y: "priced_projection asyn w c (cx_org cx) k0 s = (y, s1)" by force
    note f = priced_projection_frame [OF y]
    show ?thesis
    proof (cases y)
      case (Inl z)
      with assms(1) Inr b y f show ?thesis by (auto simp: admit_def)
    next
      case (Inr pk)
      obtain p k where pk: "pk = (p, k)" by (cases pk)
      obtain z s2 where z: "reserve_with_local_hold ops w (call_request c cx k p) p s1 = (z, s2)" by force
      from reserve_hold [OF z] f assms(2,3) have h: "(\<exists>e. z = Inl e \<and> (e \<noteq> Cancelled_Error \<longrightarrow> budget_of (ms_local s2) = budget_of (ms_local s))) \<or>
        (\<exists>r. z = Inr (p, r) \<and> holds_more p (ms_local s) (ms_local s2))" by auto
      then show ?thesis
      proof (elim disjE exE conjE)
        fix e assume "z = Inl e" "e \<noteq> Cancelled_Error \<longrightarrow> budget_of (ms_local s2) = budget_of (ms_local s)"
        then show ?thesis using assms(1) \<open>bounded_request w c kws = Inr b\<close> b y Inr pk z by (auto simp: admit_def)
      next
        fix rsv assume zr: "z = Inr (p, rsv)" and hm: "holds_more p (ms_local s) (ms_local s2)"
        obtain u s3 where u: "start_or_release ops w cx p rsv s2 = (u, s3)" by force
        from start_hold [OF u hm assms(3)] show ?thesis
          using assms(1) \<open>bounded_request w c kws = Inr b\<close> b y Inr pk z zr hm u by (auto simp: admit_def)
      qed
    qed
  qed
qed

section \<open>The trace of a call\<close>

text \<open>Only settlements and reservations are added to the trace, no provider call.\<close>

definition quiet :: "guard_state \<Rightarrow> guard_state \<Rightarrow> bool" where
  "quiet g g' \<longleftrightarrow> (\<exists>new. gs_trace g' = gs_trace g @ new \<and> Provider_Called \<notin> set new)"

lemma quiet_refl [simp, intro]: "quiet g g"
  by (auto simp: quiet_def)

lemma quiet_trans [trans]: "quiet g g1 \<Longrightarrow> quiet g1 g2 \<Longrightarrow> quiet g g2"
  by (auto simp: quiet_def)

lemma quiet_more: "more n P g g' \<Longrightarrow> quiet g g'"
  by (auto simp: quiet_def more_def)

text \<open>A settlement leaves the remembered policy as it is.\<close>

definition steady :: "guard_state \<Rightarrow> guard_state \<Rightarrow> bool" where
  "steady g g' \<longleftrightarrow> quiet g g' \<and> gs_policy g' = gs_policy g"

lemma steady_refl [simp, intro]: "steady g g"
  by (simp add: steady_def)

lemma steady_trans [trans]: "steady g g1 \<Longrightarrow> steady g1 g2 \<Longrightarrow> steady g g2"
  by (auto simp: steady_def intro: quiet_trans)

lemma fold_steady: "(\<And>x g. steady g (f x g)) \<Longrightarrow> steady g (fold f xs g)"
  by (induction xs arbitrary: g) (auto intro: steady_trans)

lemma emit_frame [simp]:
  "ms_guard (emit c x s) = ms_guard s" "ms_local (emit c x s) = ms_local s" "ms_finops (emit c x s) = ms_finops s"
  by (simp_all add: emit_def)

lemma book_frame [simp]: "ms_guard (book w d q s) = ms_guard s"
  by (simp add: book_def)

lemma call_events_frame:
  "call_events asyn w c d tokens usage cost resp s = (x, s') \<Longrightarrow> ms_guard s' = ms_guard s \<and> ms_local s' = ms_local s"
  by (auto simp: call_events_def Let_def split: option.splits prod.splits sum.splits)

lemma priced_answer_frame:
  "priced_answer w c d resp s = (tokens, usage, cost, rsv, s1) \<Longrightarrow> ms_guard s1 = ms_guard s \<and> ms_local s1 = ms_local s"
  by (auto simp: priced_answer_def Let_def split: prod.splits)

lemma emit_stream_frame:
  "emit_stream_model_call w c a q t s = (x, s') \<Longrightarrow> ms_guard s' = ms_guard s \<and> ms_local s' = ms_local s"
  by (auto simp: emit_stream_model_call_def Let_def split: option.splits prod.splits sum.splits if_splits)

lemma stream_event_frame:
  "ms_guard (snd (stream_event asyn w c a x rs)) = ms_guard (snd rs)"
  "ms_local (snd (stream_event asyn w c a x rs)) = ms_local (snd rs)"
  by (auto simp: stream_event_def dest: emit_stream_frame split: stream_effect.splits prod.splits)

lemma stream_events_frame:
  "ms_guard (snd (fold (stream_event asyn w c a) xs rs)) = ms_guard (snd rs)"
  "ms_local (snd (fold (stream_event asyn w c a) xs rs)) = ms_local (snd rs)"
  by (induction xs arbitrary: rs) (simp_all add: stream_event_frame)

lemma stream_events_eq:
  "fold (stream_event asyn w c a) xs (r0, s0) = (r, s') \<Longrightarrow> ms_guard s' = ms_guard s0 \<and> ms_local s' = ms_local s0"
  using stream_events_frame [of asyn w c a xs "(r0, s0)"] by simp

context lifecycle_frames begin

lemma signal_steady: "go_signal ops w org run r ev cost req g = (x, g') \<Longrightarrow> steady g g'"
  using signal_adds [of w org run r ev cost req g x g'] signal_frame [of w org run r ev cost req g x g']
  by (auto simp: steady_def dest: quiet_more)

lemma signal_steady': "steady g (snd (go_signal ops w org run r ev cost req g))"
  using signal_steady [of w org run r ev cost req g] by (metis prod.collapse)

lemma mark_pending_steady: "mark_pending ops w cx rsv cost g = (x, g') \<Longrightarrow> steady g g'"
  by (auto simp: mark_pending_def dest: signal_steady)

lemma reconcile_steady: "go_reconcile ops w c r q g = (x, g') \<Longrightarrow> steady g g'"
  by (auto simp: steady_def dest: reconcile_frame quiet_more [OF reconcile_adds])

lemma swallow_eq: "swallow rg = (x, g) \<Longrightarrow> snd rg = g"
  by (auto simp: swallow_def split: prod.splits sum.splits guard_exn.splits)

lemma discard_eq: "discard rg = (x, g) \<Longrightarrow> snd rg = g"
  by (auto simp: discard_def split: prod.splits sum.splits)

lemma mark_pending_steady': "steady g (snd (mark_pending ops w cx rsv cost g))"
  using mark_pending_steady [of w cx rsv cost g] by (metis prod.collapse)

lemma settle_answer_steady:
  assumes "settle_answer ops w c d rsv cost hold g = (x, g')"
  shows "steady g g'"
proof -
  have m: "steady g1 g2" if "discard (mark_pending ops w cx rsv k g1) = (y, g2)" for y g1 g2 cx k
    using discard_eq [OF that] mark_pending_steady' by metis
  from assms show ?thesis
    by (auto simp: settle_answer_def Let_def dest!: m dest: reconcile_steady intro: steady_trans
        split: option.splits prod.splits sum.splits bool.splits)
qed

lemma settle_answer_async_steady:
  assumes "settle_answer_async ops w c d rsv cost hold g = (x, g')"
  shows "steady g g'"
proof -
  have m: "steady g1 g2" if "discard (mark_pending ops w cx rsv k g1) = (y, g2)" for y g1 g2 cx k
    using discard_eq [OF that] mark_pending_steady' by metis
  have n: "steady g1 g2" if "swallow (mark_pending ops w cx rsv k g1) = (y, g2)" for y g1 g2 cx k
    using swallow_eq [OF that] mark_pending_steady' by metis
  from assms show ?thesis
    by (auto simp: settle_answer_async_def Let_def dest!: m n dest: reconcile_steady intro: steady_trans
        split: option.splits prod.splits sum.splits bool.splits if_splits)
qed

lemma stream_step_steady: "steady g (stream_effect_step ops w cx rsv x g)"
  by (auto simp: stream_effect_step_def stream_settle_def mark_pending_def signal_steady' split: stream_effect.splits)

lemma end_stream_steady:
  "end_stream asyn ops w c cx rsv oc usage a s = (r, a', s') \<Longrightarrow> steady (ms_guard s) (ms_guard s')"
  by (auto simp: end_stream_def Let_def stream_step_steady dest!: stream_events_eq intro!: fold_steady split: prod.splits)

lemma call_failed_steady:
  "call_failed asyn ops w c d exc is_exception s = (r, s') \<Longrightarrow> steady (ms_guard s) (ms_guard s')"
  by (auto simp: call_failed_def failed_dispatch_def Let_def dest!: swallow_eq
      dest: end_stream_steady mark_pending_steady intro: mark_pending_steady'
      split: prod.splits sum.splits if_splits)

lemma call_answered_steady:
  "call_answered asyn ops w c d resp s = (r, s') \<Longrightarrow> steady (ms_guard s) (ms_guard s')"
  by (auto simp: call_answered_def Let_def dest!: priced_answer_frame call_events_frame
      dest: settle_answer_steady settle_answer_async_steady split: prod.splits sum.splits if_splits)

lemma dispatch_traced:
  assumes "dispatch_call asyn ops w c d fn s = (r, s')"
  shows "\<exists>v. gs_trace (ms_guard s') = gs_trace (ms_guard s) @ Provider_Called # v \<and> Provider_Called \<notin> set v \<and>
    gs_policy (ms_guard s') = gs_policy (ms_guard s)"
proof -
  have "steady (log_effect Provider_Called (ms_guard s)) (ms_guard s')"
    using assms by (auto simp: dispatch_call_def Let_def dest!: call_failed_steady call_answered_steady
        split: prod.splits provider_result.splits if_splits)
  then show ?thesis by (auto simp: steady_def quiet_def log_effect_def)
qed

lemma reserve_hold_quiet:
  "reserve_with_local_hold ops w req p s = (x, s') \<Longrightarrow> quiet (ms_guard s) (ms_guard s')"
  by (auto simp: reserve_with_local_hold_def dest!: reserve_adds quiet_more split: prod.splits sum.splits)

lemma start_quiet: "start_or_release ops w cx h rsv s = (x, s') \<Longrightarrow> quiet (ms_guard s) (ms_guard s')"
  by (auto simp: start_or_release_def dest!: signal_adds quiet_more split: prod.splits sum.splits)

lemma start_policy: "start_or_release ops w cx h rsv s = (x, s') \<Longrightarrow> gs_policy (ms_guard s') = gs_policy (ms_guard s)"
  by (auto simp: start_or_release_def dest: signal_frame split: prod.splits sum.splits)

lemma admit_quiet: "admit asyn ops w c cx kws s = (x, s') \<Longrightarrow> quiet (ms_guard s) (ms_guard s')"
  by (auto simp: admit_def dest!: priced_projection_frame reserve_hold_quiet start_quiet intro: quiet_trans
      split: prod.splits sum.splits)

end

section \<open>The ledger after the dispatch\<close>

lemma begin_progress: "finalize_in_progress (begin_finalize oc u a) = finalize_in_progress a"
  by (simp add: begin_finalize_def observe_usage_def Let_def split: option.split)

lemma price_held: "price_attempt pc a = (cost, tok, b) \<Longrightarrow> held_projection b = held_projection a"
  by (auto dest: price_frame)

text \<open>A finalization that returns records the call with its hold; of a call that did not complete, at no cost.\<close>

lemma complete_local_ledger:
  "complete_local now sc tok au pend conf acked a e = (effs, a', e') \<Longrightarrow>
     \<exists>q. e' = snd (record_call now (Some q) False (held_projection a) e) \<and> (q = sc \<or> q = 0)"
  by (auto dest: complete_local_spec)

lemma settle_plan_free: "settle_plan oc auth cost hold = (sc, conf, pend, au) \<Longrightarrow> oc \<noteq> COMPLETE \<Longrightarrow> sc = 0"
  by (simp add: settle_plan_def split: if_splits)

lemma finalize_ledger:
  assumes "finalize now pc rec oc u a e = (Inr x, effs, a', e')" "\<not> finalized a"
  shows "\<exists>q. e' = snd (record_call now (Some q) False (held_projection a) e) \<and> (oc \<noteq> COMPLETE \<longrightarrow> q = 0)"
proof -
  obtain cost tok b where p: "price_attempt pc (begin_finalize oc u (a\<lparr>finalized := True\<rparr>)) = (cost, tok, b)" by (metis prod_cases3)
  obtain sc conf pend au where s: "settle_plan oc (authoritative (observed_usage b)) cost (tier_hold_usd b) = (sc, conf, pend, au)"
    by (metis prod_cases4)
  have h: "held_projection b = held_projection a" using price_held [OF p] by simp
  have "\<exists>pend conf acked effs a1. complete_local now sc tok au pend conf acked b e = (effs, a1, e')"
    using assms p s by (auto simp: finalize_def Let_def split: if_splits callback.splits prod.splits) blast+
  then show ?thesis using complete_local_ledger h settle_plan_free [OF s] by metis
qed

lemma finalize_async_ledger:
  assumes "finalize_async now pc rec oc u a e = (r, effs, a', e')" "\<not> finalized a" "\<not> finalize_in_progress a"
  shows "\<exists>q. e' = snd (record_call now (Some q) False (held_projection a) e) \<and> (oc \<noteq> COMPLETE \<longrightarrow> q = 0)"
proof -
  obtain cost tok b where p: "price_attempt pc (begin_finalize oc u (a\<lparr>finalize_in_progress := True\<rparr>)) = (cost, tok, b)" by (metis prod_cases3)
  obtain sc conf pend au where s: "settle_plan oc (authoritative (observed_usage b)) cost (tier_hold_usd b) = (sc, conf, pend, au)"
    by (metis prod_cases4)
  have h: "held_projection b = held_projection a" using price_held [OF p] by simp
  have "\<exists>pend conf acked effs a1. complete_local now sc tok au pend conf acked b e = (effs, a1, e')"
    using assms p s by (auto simp: finalize_async_def Let_def split: if_splits callback.splits prod.splits) blast+
  then show ?thesis using complete_local_ledger h settle_plan_free [OF s] by metis
qed

lemma new_attempt_simps [simp]:
  "held_projection (new_stream_attempt asyn c d p) = dp_held d" "\<not> finalized (new_stream_attempt asyn c d p)"
  "\<not> finalize_in_progress (new_stream_attempt asyn c d p)"
  by (simp_all add: new_stream_attempt_def)

text \<open>A stream's end, with or without an exception of the product, records it.\<close>

lemma end_stream_local:
  assumes "end_stream asyn ops w c cx rsv oc usage a s = (r, a', s')" "\<not> finalized a" "\<not> finalize_in_progress a"
    and "r = Inr () \<or> asyn"
  shows "\<exists>q. ms_local s' = snd (record_call (mw_clock w) (Some q) False (held_projection a) (ms_local s)) \<and> (oc \<noteq> COMPLETE \<longrightarrow> q = 0)"
proof -
  let ?fin = "(if asyn then finalize_async else finalize) (mw_clock w) (price_of_stream w cx (ms_breaker s))
     (\<lambda>q. callback_of (fst (stream_settle ops w cx rsv (ms_guard s) q))) oc usage a (ms_local s)"
  obtain r0 effs b e where f: "?fin = (r0, effs, b, e)" by (metis prod_cases4)
  then have r: "\<exists>s0. fold (stream_event asyn w c b) effs (r0, s0) = (r, s') \<and> ms_local s0 = e"
    using assms(1) by (auto simp: end_stream_def Let_def split: prod.splits)
  then have l: "ms_local s' = e" by (auto dest: stream_events_eq)
  show ?thesis
  proof (cases asyn)
    case True
    with f l finalize_async_ledger assms(2,3) show ?thesis by fastforce
  next
    case False
    have "isl r0 \<Longrightarrow> isl (fst (fold (stream_event False w c b) xs (r0, s0)))" for xs s0
    proof (induction xs arbitrary: r0 s0)
      case (Cons x xs)
      have "isl (fst (stream_event False w c b x (r0, s0)))"
        using Cons.prems by (auto simp: stream_event_def isl_def split: stream_effect.splits prod.splits)
      then show ?case using Cons.IH [of "fst (stream_event False w c b x (r0, s0))" "snd (stream_event False w c b x (r0, s0))"] by simp
    qed simp
    moreover obtain s0 where "fold (stream_event False w c b) effs (r0, s0) = (r, s')" using r False by auto
    ultimately have "isl r0 \<Longrightarrow> isl r" by (metis fst_conv)
    with assms(4) False have "\<not> isl r0" by auto
    then show ?thesis using f l finalize_ledger assms(2) False by (cases r0) fastforce+
  qed
qed

section \<open>The hold comes back\<close>

lemma answered_ledger:
  assumes "call_answered asyn ops w c d resp s = (Gave y, s')" "holds_more (dp_held d) e (ms_local s)" "0 \<le> pending_projected_usd e"
  shows "\<exists>q. budget_of (ms_local s') = (max_cost_usd e, cumulative_cost_usd e + q, pending_projected_usd e)"
proof -
  obtain tokens usage cost rsv s1 where p: "priced_answer w c d resp s = (tokens, usage, cost, rsv, s1)" by (metis prod_cases5)
  note f = priced_answer_frame [OF p]
  from assms(1) p obtain g s2 where "call_events asyn w c d tokens usage cost resp (book w d cost (s1\<lparr>ms_guard := g\<rparr>)) = (Inr (), s2)" "s' = s2"
    by (auto simp: call_answered_def Let_def split: prod.splits sum.splits)
  then have "ms_local s' = ms_local (book w d cost (s1\<lparr>ms_guard := g\<rparr>))" by (auto dest: call_events_frame)
  then show ?thesis using record_held [OF assms(2,3)] f by (auto simp: book_def)
qed

lemma failed_ledger:
  assumes "call_failed asyn ops w c d exc True s = (Provider_Raised y, s')" "holds_more (dp_held d) e (ms_local s)"
    and "0 \<le> pending_projected_usd e"
  shows "budget_of (ms_local s') = budget_of e"
proof (cases "is_stream d")
  case True
  with assms(1) obtain oc a where "oc \<noteq> COMPLETE"
    and "end_stream asyn ops w c (dp_context d) (dp_reserved d) oc None (new_stream_attempt asyn c d (ms_pricing s)) s = (Inr (), a, s')"
    by (auto simp: call_failed_def failed_dispatch_def Let_def split: prod.splits sum.splits if_splits)
  from end_stream_local [OF this(2)] this(1) record_held [OF assms(2,3)] show ?thesis by (auto simp: budget_of_def)
next
  case False
  with assms(1) show ?thesis using record_held [OF assms(2,3)]
    by (auto simp: call_failed_def book_def budget_of_def Let_def split: prod.splits sum.splits if_splits)
qed

lemma dispatched_ledger:
  assumes "dispatch_call asyn ops w c d fn s = (Ended r, s')" "holds_more (dp_held d) e (ms_local s)" "0 \<le> pending_projected_usd e"
  shows "r = Gave y \<Longrightarrow> \<exists>q. budget_of (ms_local s') = (max_cost_usd e, cumulative_cost_usd e + q, pending_projected_usd e)"
    and "r = Provider_Raised y \<Longrightarrow> (\<And>k exc b. fn k = Fails exc b \<Longrightarrow> b) \<Longrightarrow> budget_of (ms_local s') = budget_of e"
proof -
  let ?s = "s\<lparr>ms_guard := log_effect Provider_Called (ms_guard s)\<rparr>"
  have h: "holds_more (dp_held d) e (ms_local ?s)" using assms(2) by simp
  show "\<exists>q. budget_of (ms_local s') = (max_cost_usd e, cumulative_cost_usd e + q, pending_projected_usd e)" if "r = Gave y"
  proof (cases "fn (dp_kwargs d)")
    case (Answers resp)
    with assms(1) that have "call_answered asyn ops w c d resp ?s = (Gave y, s')"
      by (auto simp: dispatch_call_def Let_def split: if_splits prod.splits)
    from answered_ledger [OF this h assms(3)] show ?thesis .
  next
    case (Fails exc b)
    with assms(1) that show ?thesis
      by (auto simp: dispatch_call_def call_failed_def Let_def split: if_splits prod.splits sum.splits)
  qed
  show "budget_of (ms_local s') = budget_of e" if "r = Provider_Raised y" "\<And>k exc b. fn k = Fails exc b \<Longrightarrow> b"
  proof (cases "fn (dp_kwargs d)")
    case (Answers resp)
    with assms(1) that show ?thesis
      by (auto simp: dispatch_call_def call_answered_def Let_def split: if_splits prod.splits sum.splits)
  next
    case (Fails exc b)
    moreover have b using that(2) [OF Fails] .
    ultimately have "call_failed asyn ops w c d exc True ?s = (Provider_Raised y, s')"
      using assms(1) that(1) by (auto simp: dispatch_call_def Let_def split: prod.splits)
    from failed_ledger [OF this h assms(3)] show ?thesis .
  qed
qed

text \<open>The three ways through \<open>wrapped\<close>: not monitored; refused before the dispatch; dispatched.\<close>

lemma monitored_cases:
  assumes "monitored_call asyn ops w c kws fn s = (r, s')"
  obtains (bypass) x where "mw_bypass w" "r = Ended x" "\<And>y. x \<noteq> Guard_Refused y"
      "s' = s\<lparr>ms_guard := log_effect Provider_Called (ms_guard s)\<rparr>"
  | (early) x where "\<not> mw_bypass w" "r = Ended (Guard_Refused x)" "ms_local s' = ms_local s"
      "gs_trace (ms_guard s') = gs_trace (ms_guard s)"
  | (refused) g s1 x s2 where "\<not> mw_bypass w" "enter_scopes w c (ms_guard s) = Inr g" "ms_local s1 = ms_local s" "ms_guard s1 = g"
      "ms_breaker s1 = ms_breaker s"
      "admit asyn ops w c (child_step (mw_step w) (call_context (mw_ambient w) (mc_context c))) kws s1 = (Inl x, s2)"
      "r = Ended (Guard_Refused x)" "s' = leave_scopes (ms_guard s) s2"
  | (dispatched) g s1 d s2 s3 where "\<not> mw_bypass w" "enter_scopes w c (ms_guard s) = Inr g" "ms_local s1 = ms_local s" "ms_guard s1 = g"
      "ms_breaker s1 = ms_breaker s"
      "admit asyn ops w c (child_step (mw_step w) (call_context (mw_ambient w) (mc_context c))) kws s1 = (Inr d, s2)"
      "dispatch_call asyn ops w c d fn s2 = (r, s3)" "s' = leave_scopes (ms_guard s) s3"
proof (cases "mw_bypass w")
  case True
  with assms show ?thesis using bypass by (cases "fn kws") (auto simp: monitored_call_def)
next
  case nb: False
  show ?thesis
  proof (cases "if mc_surface c = ''responses'' then validate_responses_request kws else Inr ()")
    case (Inl x)
    with assms nb show ?thesis using early by (auto simp: monitored_call_def)
  next
    case v: (Inr u)
    show ?thesis
    proof (cases "enter_scopes w c (ms_guard s)")
      case (Inl x)
      with assms nb v show ?thesis using early by (auto simp: monitored_call_def)
    next
      case g: (Inr g)
      obtain q s0 where l: "loop_guard_check w c kws (s\<lparr>ms_guard := g\<rparr>) = (q, s0)" by force
      have b: "ms_breaker s0 = ms_breaker s"
        using l by (auto simp: loop_guard_check_def emit_def Let_def split: if_splits prod.splits sum.splits)
      from loop_guard_frame [OF l] have f: "ms_local s0 = ms_local s" "ms_guard s0 = g" by simp_all
      have t: "gs_trace g = gs_trace (ms_guard s)"
        using g by (auto simp: enter_scopes_def bnd_eq_Inr)
      show ?thesis
      proof (cases q)
        case (Inl x)
        with assms nb v g l f t show ?thesis using early by (auto simp: monitored_call_def scoped_call_def leave_scopes_def Let_def)
      next
        case (Inr u')
        obtain a s2 where a: "admit asyn ops w c (child_step (mw_step w) (call_context (mw_ambient w) (mc_context c))) kws s0 = (a, s2)" by force
        show ?thesis
        proof (cases a)
          case (Inl x)
          with assms nb v g l f a \<open>q = Inr u'\<close> b show ?thesis
            using refused [of g s0 x s2] by (auto simp: monitored_call_def scoped_call_def Let_def)
        next
          case (Inr d)
          obtain r' s3 where "dispatch_call asyn ops w c d fn s2 = (r', s3)" by force
          with assms nb v g l f a Inr \<open>q = Inr u'\<close> b show ?thesis
            using dispatched [of g s0 d s2 s3] by (auto simp: monitored_call_def scoped_call_def Let_def)
        qed
      qed
    qed
  qed
qed

lemma leave_frame [simp]:
  "ms_local (leave_scopes g s) = ms_local s" "gs_trace (ms_guard (leave_scopes g s)) = gs_trace (ms_guard s)"
  "gs_policy (ms_guard (leave_scopes g s)) = gs_policy (ms_guard s)"
  by (simp_all add: leave_scopes_def)

lemma enter_frame:
  "enter_scopes w c g = Inr g' \<Longrightarrow> gs_trace g' = gs_trace g \<and> gs_policy g' = gs_policy g \<and> gs_queue g' = gs_queue g"
  by (auto simp: enter_scopes_def bnd_eq_Inr)

section \<open>No call without an admission\<close>

lemma attach_simps:
  "guard_sdk_settles (attach_pricing r p) = guard_sdk_settles r"
  "\<exists>p'. attach_pricing (Handle h) p = Handle (h\<lparr>rh_pricing := p'\<rparr>)"
proof -
  show "guard_sdk_settles (attach_pricing r p) = guard_sdk_settles r"
    by (auto simp: attach_pricing_def guard_sdk_settles_def has_capability_def split: reserved.splits option.splits)
  show "\<exists>p'. attach_pricing (Handle h) p = Handle (h\<lparr>rh_pricing := p'\<rparr>)"
    by (cases p) (auto simp: attach_pricing_def intro: exI [of _ "rh_pricing h"])
qed

lemma admit_parts:
  assumes "admit asyn ops w c cx kws s = (Inr d, s')"
  obtains k0 q k s1 s2 r e where "bounded_request w c kws = Inr (k0, dp_rate d, dp_cutoff d)"
    "priced_projection asyn w c (cx_org cx) k0 s = (Inr (q, k), s1)" "dp_kwargs d = k" "dp_context d = cx"
    "check_local (mw_clock w) q (ms_local s) = (Inr (dp_held d), e)"
    "go_reserve ops ((mw_guard w)\<lparr>gw_pricing := ms_pricing s1\<rparr>) (call_request c cx k q) (ms_guard s) = (Inr r, ms_guard s2)"
    "dp_reserved d = attach_pricing r (ms_pricing s1)" "start_or_release ops w cx (dp_held d) (dp_reserved d) s2 = (Inr (), s')"
    "ms_local s2 = e" "ms_pricing s2 = ms_pricing s1" "ms_breaker s2 = ms_breaker s1"
proof -
  from assms obtain k0 rt cut where b: "bounded_request w c kws = Inr (k0, rt, cut)"
    by (cases "bounded_request w c kws") (auto simp: admit_def)
  with assms obtain q k s1 where p: "priced_projection asyn w c (cx_org cx) k0 s = (Inr (q, k), s1)"
    by (cases "priced_projection asyn w c (cx_org cx) k0 s") (auto simp: admit_def split: sum.splits)
  with assms b obtain h rsv s2 where h: "reserve_with_local_hold ops w (call_request c cx k q) q s1 = (Inr (h, rsv), s2)"
    by (cases "reserve_with_local_hold ops w (call_request c cx k q) q s1") (auto simp: admit_def split: sum.splits)
  with assms b p have st: "start_or_release ops w cx h rsv s2 = (Inr (), s')" and d: "d = \<lparr>dp_context = cx, dp_kwargs = k, dp_rate = rt,
      dp_cutoff = cut, dp_held = h, dp_reserved = rsv\<rparr>"
    by (auto simp: admit_def split: sum.splits prod.splits)
  from h priced_projection_frame [OF p] obtain e r g where "check_local (mw_clock w) q (ms_local s) = (Inr h, e)"
    "go_reserve ops ((mw_guard w)\<lparr>gw_pricing := ms_pricing s1\<rparr>) (call_request c cx k q) (ms_guard s) = (Inr r, g)"
    "rsv = attach_pricing r (ms_pricing s1)" "s2 = s1\<lparr>ms_guard := g, ms_local := e\<rparr>"
    by (auto simp: reserve_with_local_hold_def split: prod.splits sum.splits)
  with that [of k0 q k s1 e r s2] b p st d show ?thesis by simp
qed

context lifecycle_frames begin

lemma start_settled:
  assumes "start_or_release ops w cx h rsv s = (Inr (), s')" "finops_reservation_fail_closed (monitor_env w)" "guard_sdk_settles rsv"
  shows "\<exists>b. gs_trace (ms_guard s') = gs_trace (ms_guard s) @ [Settle_Sent b] \<and>
    event_body (mw_guard w) (cx_org cx) (cx_run cx) rsv ''provider_started'' None b \<and> settle_acked (mw_guard w) (settles (ms_guard s)) b"
  using assms by (auto simp: start_or_release_def dest: signal_required split: prod.splits sum.splits)

end

lemma priced_projection_again:
  "ms_breaker s1 = ms_breaker s \<Longrightarrow> fst (priced_projection asyn w c org k s1) = fst (priced_projection asyn w c org k s)"
  by (simp add: priced_projection_def Let_def split: prod.split sum.split)

lemma dispatched_at:
  assumes "ops = (if asyn then async_ops else sync_ops)" and "\<not> mw_bypass w"
    and "monitored_call asyn ops w c kws fn s = (r, s')"
    and "gs_trace (ms_guard s') = gs_trace (ms_guard s) @ pre @ Provider_Called # post"
  obtains g s1 d s2 s3 where "enter_scopes w c (ms_guard s) = Inr g" "ms_local s1 = ms_local s" "ms_guard s1 = g"
    "ms_breaker s1 = ms_breaker s"
    "admit asyn ops w c (child_step (mw_step w) (call_context (mw_ambient w) (mc_context c))) kws s1 = (Inr d, s2)"
    "dispatch_call asyn ops w c d fn s2 = (r, s3)" "s' = leave_scopes (ms_guard s) s3"
    "gs_trace (ms_guard s2) = gs_trace g @ pre" "gs_trace (ms_guard s3) = gs_trace (ms_guard s2) @ Provider_Called # post"
    "gs_policy (ms_guard s3) = gs_policy (ms_guard s2)"
proof -
  have traced: "\<exists>v. gs_trace (ms_guard s2) = gs_trace (ms_guard s1) @ Provider_Called # v \<and> Provider_Called \<notin> set v \<and>
      gs_policy (ms_guard s2) = gs_policy (ms_guard s1)"
    if "dispatch_call asyn ops w c d fn s1 = (q, s2)" for d s1 q s2
    using sync_calls.dispatch_traced [of asyn w c d fn s1] async_calls.dispatch_traced [of asyn w c d fn s1] that assms(1)
    by (auto split: if_splits)
  have quiet: "quiet (ms_guard s1) (ms_guard s2)" if "admit asyn ops w c cx kws s1 = (q, s2)" for cx s1 q s2
    using sync_calls.admit_quiet [of asyn w c cx kws s1] async_calls.admit_quiet [of asyn w c cx kws s1] that assms(1)
    by (auto split: if_splits)
  from assms(3) show ?thesis
  proof (cases rule: monitored_cases)
    case (bypass x)
    with assms(2) show ?thesis by simp
  next
    case (early x)
    with assms(4) show ?thesis by simp
  next
    case (refused g s1 x s2)
    with quiet [OF refused(6)] enter_frame [OF refused(2)] assms(4) show ?thesis by (auto simp: quiet_def)
  next
    case (dispatched g s1 d s2 s3)
    from traced [OF dispatched(7)] obtain v where v: "gs_trace (ms_guard s3) = gs_trace (ms_guard s2) @ Provider_Called # v"
      "Provider_Called \<notin> set v" "gs_policy (ms_guard s3) = gs_policy (ms_guard s2)" by blast
    from quiet [OF dispatched(6)] obtain u where u: "gs_trace (ms_guard s2) = gs_trace (ms_guard s1) @ u" "Provider_Called \<notin> set u"
      by (auto simp: quiet_def)
    have g: "gs_trace (ms_guard s1) = gs_trace (ms_guard s)" using enter_frame [OF dispatched(2)] dispatched(4) by simp
    have "u @ Provider_Called # v = pre @ Provider_Called # post" using assms(4) dispatched(8) v(1) u(1) g by simp
    then have "u = pre \<and> v = post" using split_at_call u(2) v(2) by blast
    with that [OF dispatched(2-8)] u v dispatched(4) show ?thesis by simp
  qed
qed

text \<open>FinOps admitted the call whose trace up to the dispatch is \<open>pre\<close>.\<close>

definition finops_admits :: "monitor_world \<Rightarrow> bool \<Rightarrow> string \<Rightarrow> guard_effect list \<Rightarrow> policy_memory \<times> policy_disk \<Rightarrow> bool" where
  "finops_admits w asyn org pre pol \<longleftrightarrow> (\<exists>body n. Reserve_Sent body \<in> set pre \<and>
    ((\<exists>p. gw_reserve (mw_guard w) n body = Reply_Ok (Some p) \<and> (\<not> asyn \<longrightarrow> is_mapping p) \<and>
        (let p' = (if is_mapping p then p else PDict []); rid = str_or_empty (field p' ''reservation_id'')
         in rid = [] \<or> field p' ''allowed'' = PBool False \<or>
            (\<exists>b k. Settle_Sent b \<in> set pre \<and> Guard_Claims.reports rid (''provider_started'', None) b \<and> settle_acked (mw_guard w) k b))) \<or>
     is_unavailable (gw_reserve (mw_guard w) n body) \<and>
       allows_fail_open (pe_sha (gw_post (mw_guard w))) (finops_url (dget (monitor_env w))) org (api_key (monitor_env w)) pol))"

lemma start_reports:
  assumes "ops = (if asyn then async_ops else sync_ops)" "start_or_release ops w cx held (attach_pricing (Handle h) pr) s = (Inr (), s')"
    and "finops_reservation_fail_closed (monitor_env w)" "guard_sdk_settles (Handle h)"
  shows "\<exists>b. gs_trace (ms_guard s') = gs_trace (ms_guard s) @ [Settle_Sent b] \<and>
    settle_acked (mw_guard w) (settles (ms_guard s)) b \<and> Guard_Claims.reports (rh_id h) (''provider_started'', None) b"
proof -
  let ?r = "attach_pricing (Handle h) pr"
  obtain pr' where pr: "?r = Handle (h\<lparr>rh_pricing := pr'\<rparr>)" using attach_simps(2) by metis
  have own: "guard_sdk_settles ?r" using assms(4) attach_simps(1) by simp
  obtain b where b: "gs_trace (ms_guard s') = gs_trace (ms_guard s) @ [Settle_Sent b]"
      "event_body (mw_guard w) (cx_org cx) (cx_run cx) ?r ''provider_started'' None b" "settle_acked (mw_guard w) (settles (ms_guard s)) b"
    using sync_calls.start_settled [OF _ assms(3) own] async_calls.start_settled [OF _ assms(3) own] assms(1,2)
    by (fastforce split: if_splits)
  then show ?thesis using event_body_reports [OF b(2)] pr by auto
qed

lemma admit_granted:
  assumes "ops = (if asyn then async_ops else sync_ops)" and a: "admit asyn ops w c cx kws s = (Inr d, s')"
    and f: "finops_reservation_fail_closed (monitor_env w)" and e: "lifecycle_budget_enabled (monitor_env w) = Inr True"
      "finops_url (dget (monitor_env w)) \<noteq> []" "\<not> should_skip_sdk_reserve (monitor_env w) (gs_owner (ms_guard s))"
    and t: "gs_trace (ms_guard s') = gs_trace (ms_guard s) @ pre"
  shows "finops_admits w asyn (cx_org cx) pre (gs_policy (ms_guard s'))"
proof -
  obtain k0 q k s4 s5 r' e where "bounded_request w c kws = Inr (k0, dp_rate d, dp_cutoff d)"
      and "priced_projection asyn w c (cx_org cx) k0 s = (Inr (q, k), s4)" "dp_kwargs d = k" "dp_context d = cx"
      and "check_local (mw_clock w) q (ms_local s) = (Inr (dp_held d), e)" and r: "go_reserve ops ((mw_guard w)\<lparr>gw_pricing := ms_pricing s4\<rparr>) (call_request c cx k q) (ms_guard s) = (Inr r', ms_guard s5)"
      and rs: "dp_reserved d = attach_pricing r' (ms_pricing s4)"
      and st0: "start_or_release ops w cx (dp_held d) (dp_reserved d) s5 = (Inr (), s')"
    by (rule admit_parts [OF a])
  note st = st0 [unfolded rs]
  have "ops = sync_ops \<and> \<not> asyn \<or> ops = async_ops \<and> \<not> \<not> asyn" using assms(1) by simp
  from reserve_granted [OF this r] f e obtain h new where h: "r' = Handle h" "gs_trace (ms_guard s5) = gs_trace (ms_guard s) @ new"
      "granted ((mw_guard w)\<lparr>gw_pricing := ms_pricing s4\<rparr>) (call_request c cx k q) (\<not> asyn) new (gs_policy (ms_guard s5)) h"
    by (auto simp: monitor_env_def)
  have pol: "gs_policy (ms_guard s') = gs_policy (ms_guard s5)" and quiet: "quiet (ms_guard s5) (ms_guard s')"
    using sync_calls.start_policy [of w cx "dp_held d" _ s5] async_calls.start_policy [of w cx "dp_held d" _ s5]
      sync_calls.start_quiet [of w cx "dp_held d" _ s5] async_calls.start_quiet [of w cx "dp_held d" _ s5] st assms(1)
    by (auto split: if_splits)
  then have sub: "set new \<subseteq> set pre" using t h(2) by (auto simp: quiet_def)
  have started: "\<exists>b n. Settle_Sent b \<in> set pre \<and> settle_acked (mw_guard w) n b \<and> Guard_Claims.reports (rh_id h) (''provider_started'', None) b"
    if "guard_sdk_settles (Handle h)"
    using start_reports [OF assms(1) _ f that] st h t by fastforce
  from h(3) obtain body n ad where b: "Reserve_Sent body \<in> set pre"
    and ad: "ad_base ad = finops_url (dget (monitor_env w))" "bd_key (ad_binding ad) = api_key (monitor_env w)"
    and gr: "granted_by ((mw_guard w)\<lparr>gw_pricing := ms_pricing s4\<rparr>) (call_request c cx k q) ad (\<not> asyn)
        (gw_reserve (mw_guard w) n body) (gs_policy (ms_guard s5)) h"
    using sub unfolding granted_def by (auto simp: monitor_env_def)
  show ?thesis
    using gr ad b started pol unfolding granted_by_def finops_admits_def Let_def
    by (intro exI [of _ body] exI [of _ n]) (fastforce simp: call_request_def)
qed

section \<open>One outcome, and the same amount in both ledgers\<close>

definition reserved_id :: "reserved \<Rightarrow> string" where
  "reserved_id r = (case r of Handle h \<Rightarrow> rh_id h | Amount _ \<Rightarrow> [])"

lemma reserved_id_attach [simp]: "reserved_id (attach_pricing r p) = reserved_id r"
  by (auto simp: reserved_id_def attach_pricing_def split: reserved.splits option.splits)

lemma event_body_id:
  "event_body w org run r ev cost b \<Longrightarrow> (ev = ''usage_known'') = (cost \<noteq> None) \<Longrightarrow> Guard_Claims.reports (reserved_id r) (ev, cost) b"
  by (drule event_body_reports) (auto simp: reserved_id_def)

text \<open>The event that reports a cost, or that there is none to report.\<close>

definition cost_event :: "rat option \<Rightarrow> string \<times> rat option" where
  "cost_event k = (if k = None then ''outcome_unknown'' else ''usage_known'', k)"

abbreviation cost_body :: "monitor_world \<Rightarrow> run_context \<Rightarrow> reserved \<Rightarrow> rat option \<Rightarrow> payload \<Rightarrow> bool" where
  "cost_body w cx rsv k \<equiv> event_body (mw_guard w) (cx_org cx) (cx_run cx) rsv (fst (cost_event k)) (snd (cost_event k))"

context lifecycle_frames begin

lemma mark_pending_adds: "mark_pending ops w cx rsv k g = (x, g') \<Longrightarrow> more 1 (cost_body w cx rsv k) g g'"
  by (auto simp: mark_pending_def cost_event_def dest: signal_adds)

lemma settle_answer_adds:
  assumes "settle_answer ops w c d rsv cost hold g = (x, g')"
  shows "more 2 (cost_body w (dp_context d) rsv (if hold then None else cost)) g g'"
proof (cases "if hold then None else cost")
  case None
  obtain y g1 where m: "mark_pending ops w (dp_context d) rsv None g = (y, g1)" by force
  with assms None have "g' = g1" by (auto simp: settle_answer_def Let_def discard_def split: sum.splits)
  with mark_pending_adds [OF m] show ?thesis unfolding None by (auto elim: more_mono)
next
  case (Some q)
  obtain y g1 where r: "go_reconcile ops (mw_guard w) (call_request c (dp_context d) (dp_kwargs d) q) rsv q g = (y, g1)" by force
  have one: "more 1 (cost_body w (dp_context d) rsv (Some q)) g g1"
    using reconcile_adds [OF r] by (simp add: call_request_def cost_event_def)
  show ?thesis
  proof (cases "y = Inr False")
    case True
    obtain z g2 where m: "mark_pending ops w (dp_context d) rsv (Some q) g1 = (z, g2)" by force
    with assms Some r True have "g' = g2" by (auto simp: settle_answer_def Let_def discard_def split: sum.splits)
    with more_trans [OF one mark_pending_adds [OF m]] show ?thesis unfolding Some by (simp add: numeral_2_eq_2)
  next
    case False
    with assms Some r have "g' = g1" by (auto simp: settle_answer_def Let_def split: sum.splits bool.splits)
    with one show ?thesis unfolding Some by (auto elim: more_mono)
  qed
qed

text \<open>What a call that is no stream settles once dispatched, and what it books.\<close>

lemma dispatched_outcome:
  assumes "dispatch_call False ops w c d fn s = (r, s')" "\<not> is_stream d"
  shows "\<exists>k rsv. reserved_id rsv = reserved_id (dp_reserved d) \<and>
    more 2 (cost_body w (dp_context d) rsv k) (log_effect Provider_Called (ms_guard s)) (ms_guard s') \<and>
    ((\<exists>y. r = Ended (Gave y)) \<or> (\<exists>y. r = Ended (Provider_Raised y)) \<longrightarrow>
      k = None \<or> cumulative_cost_usd (ms_local s') = cumulative_cost_usd (ms_local s) + the k)"
proof (cases "fn (dp_kwargs d)")
  case (Answers resp)
  let ?s = "s\<lparr>ms_guard := log_effect Provider_Called (ms_guard s)\<rparr>"
  obtain y where a: "call_answered False ops w c d resp ?s = (y, s')" "r = Ended y"
    using assms Answers by (auto simp: dispatch_call_def Let_def split: prod.splits)
  obtain tokens usage cost rsv s1 where p: "priced_answer w c d resp ?s = (tokens, usage, cost, rsv, s1)" by (metis prod_cases5)
  have rsv: "reserved_id rsv = reserved_id (dp_reserved d)" using p by (auto simp: priced_answer_def Let_def split: prod.splits)
  let ?hold = "pricing_holds_reconciliation (ms_pricing s1)"
  obtain x g where st: "settle_answer ops w c d rsv cost ?hold (ms_guard s1) = (x, g)" by force
  have g: "ms_guard s' = g"
    using a p st by (auto simp: call_answered_def Let_def dest!: call_events_frame split: sum.splits prod.splits)
  have b: "(if ?hold then None else cost) = None \<or> cumulative_cost_usd (ms_local s') = cumulative_cost_usd (ms_local s) + the (if ?hold then None else cost)"
    if "\<exists>z. y = Gave z"
  proof (cases cost)
    case (Some q)
    have "ms_local s' = ms_local (book w d cost s1)"
      using that a p st by (auto simp: call_answered_def book_def Let_def dest!: call_events_frame split: sum.splits prod.splits)
    then show ?thesis using Some priced_answer_frame [OF p] by (simp add: book_def)
  qed simp
  have "\<nexists>z. y = Provider_Raised z"
    using a(1) p by (auto simp: call_answered_def Let_def split: sum.splits prod.splits)
  with b settle_answer_adds [OF st] rsv g priced_answer_frame [OF p] a(2) show ?thesis
    by (intro exI [of _ "if ?hold then None else cost"] exI [of _ rsv]) auto
next
  case (Fails exc e)
  let ?g = "log_effect Provider_Called (ms_guard s)"
  show ?thesis
  proof (cases "\<exists>rejected. e \<and> is_definitive_provider_rejection exc = Inr rejected")
    case True
    then obtain rejected where rj: "is_definitive_provider_rejection exc = Inr rejected" and e by blast
    let ?k = "if rejected then Some 0 else None"
    obtain x g where m: "mark_pending ops w (dp_context d) (dp_reserved d) ?k ?g = (x, g)" by force
    have "ms_guard s' = g" and "cumulative_cost_usd (ms_local s') = cumulative_cost_usd (ms_local s)"
      using assms Fails rj m \<open>e\<close> by (auto simp: dispatch_call_def call_failed_def book_def Let_def split: sum.splits)
    with mark_pending_adds [OF m] show ?thesis
      by (intro exI [of _ ?k] exI [of _ "dp_reserved d"]) (auto elim: more_mono)
  next
    case False
    with assms Fails have "ms_guard s' = ?g"
      by (cases e) (auto simp: dispatch_call_def call_failed_def Let_def split: sum.splits)
    then show ?thesis by (intro exI [of _ None] exI [of _ "dp_reserved d"]) (auto simp: more_same)
  qed
qed

lemma admit_started:
  assumes "admit asyn ops w c cx kws s = (Inr d, s')"
  shows "more 1 (event_body (mw_guard w) (cx_org cx) (cx_run cx) (dp_reserved d) ''provider_started'' None) (ms_guard s) (ms_guard s')"
proof -
  obtain k0 q k s1 s2 r e where "bounded_request w c kws = Inr (k0, dp_rate d, dp_cutoff d)"
      "priced_projection asyn w c (cx_org cx) k0 s = (Inr (q, k), s1)" "dp_kwargs d = k" "dp_context d = cx"
      "check_local (mw_clock w) q (ms_local s) = (Inr (dp_held d), e)"
      and r: "go_reserve ops ((mw_guard w)\<lparr>gw_pricing := ms_pricing s1\<rparr>) (call_request c cx k q) (ms_guard s) = (Inr r, ms_guard s2)"
      and "dp_reserved d = attach_pricing r (ms_pricing s1)"
      and st: "start_or_release ops w cx (dp_held d) (dp_reserved d) s2 = (Inr (), s')"
    by (rule admit_parts [OF assms])
  have "more 1 (event_body (mw_guard w) (cx_org cx) (cx_run cx) (dp_reserved d) ''provider_started'' None) (ms_guard s2) (ms_guard s')"
    using st by (auto simp: start_or_release_def dest: signal_adds split: prod.splits sum.splits)
  moreover have "more 0 (event_body (mw_guard w) (cx_org cx) (cx_run cx) (dp_reserved d) ''provider_started'' None) (ms_guard s) (ms_guard s2)"
    using reserve_adds [OF r] by (rule more_mono) simp_all
  ultimately show ?thesis using more_trans by fastforce
qed

end

text \<open>What the bounds and the tier leave of the \<open>stream\<close> argument.\<close>

lemma bounded_stream:
  assumes "bounded_request w c kws = Inr (k, rest)" "\<not> truthy (kw kws ''stream'')"
  shows "kw k ''stream'' = kw kws ''stream''"
proof -
  have "kw v ''stream'' = kw kws ''stream''" if "apply_output_token_bound b kws = Inr v" for b v
    using that by (auto simp: apply_output_token_bound_def output_limit_param_def kw_dset Let_def
        split: if_splits option.splits sum.splits exn.splits)
  with assms show ?thesis by (auto simp: bounded_request_def bnd_eq_Inr Let_def split: if_splits)
qed

lemma pinned_stream: "pin_service_tier prov kws = Inr k \<Longrightarrow> kw k ''stream'' = kw kws ''stream''"
  by (auto simp: pin_service_tier_def bnd_eq_Inr kw_dset refuse_def Let_def split: pyval.splits if_splits)

lemma projection_request: "projection_of w c mdl v k pricing = Inr (q, k') \<Longrightarrow> k' = k"
  by (auto simp: projection_of_def bnd_eq_Inr Let_def split: if_splits)

lemma priced_stream:
  assumes "priced_projection asyn w c org kws s = (Inr (q, k), s')"
  shows "kw k ''stream'' = kw kws ''stream''"
proof -
  have p: "kw k' ''stream'' = kw kws ''stream''" if "prepare v prov su cl org ob n kws tb = (Inr (cp, k'), tb')" for v prov su cl ob n tb cp k' tb'
    using that by (auto simp: prepare_def bnd_eq_Inr dest!: pinned_stream split: sum.splits prod.splits)
  have pa: "kw k' ''stream'' = kw kws ''stream''" if "prepare_async v prov su cl org ob kws tb = (Inr (cp, k'), tb')" for v prov su cl ob tb cp k' tb'
    using that by (auto simp: prepare_async_def prepare_def bnd_eq_Inr dest!: pinned_stream split: sum.splits prod.splits)
  from assms show ?thesis
    by (auto simp: priced_projection_def Let_def dest!: projection_request p pa pinned_stream split: sum.splits prod.splits if_splits)
qed

lemma check_local_spent: "check_local now p e = (x, e') \<Longrightarrow> cumulative_cost_usd e' = cumulative_cost_usd e"
  by (auto simp: check_local_def Let_def split: if_splits option.splits)

lemma admit_local:
  assumes "admit asyn ops w c cx kws s = (Inr d, s')"
  shows "\<exists>q. check_local (mw_clock w) q (ms_local s) = (Inr (dp_held d), ms_local s')"
proof -
  obtain k0 q k s1 s2 r e where "bounded_request w c kws = Inr (k0, dp_rate d, dp_cutoff d)"
      "priced_projection asyn w c (cx_org cx) k0 s = (Inr (q, k), s1)" "dp_kwargs d = k" "dp_context d = cx"
      and l: "check_local (mw_clock w) q (ms_local s) = (Inr (dp_held d), e)"
      and "go_reserve ops ((mw_guard w)\<lparr>gw_pricing := ms_pricing s1\<rparr>) (call_request c cx k q) (ms_guard s) = (Inr r, ms_guard s2)"
      and "dp_reserved d = attach_pricing r (ms_pricing s1)"
      and st: "start_or_release ops w cx (dp_held d) (dp_reserved d) s2 = (Inr (), s')" and e: "ms_local s2 = e"
    by (rule admit_parts [OF assms])
  have "ms_local s' = e" using st e by (auto simp: start_or_release_def split: prod.splits sum.splits)
  with l show ?thesis by blast
qed

lemma admit_spent:
  "admit asyn ops w c cx kws s = (Inr d, s') \<Longrightarrow> cumulative_cost_usd (ms_local s') = cumulative_cost_usd (ms_local s)"
  using admit_local check_local_spent by fastforce

lemma admit_room:
  "admit asyn ops w c cx kws s = (Inr d, s') \<Longrightarrow> max_cost_usd (ms_local s) = Some m \<Longrightarrow> holds_more (dp_held d) (ms_local s) (ms_local s')"
  using admit_local check_local_holds by fastforce

lemma admit_stream:
  assumes "admit asyn ops w c cx kws s = (Inr d, s')" "\<not> truthy (kw kws ''stream'')"
  shows "\<not> is_stream d \<and> dp_context d = cx"
proof -
  obtain k0 q k s1 s2 r e where b: "bounded_request w c kws = Inr (k0, dp_rate d, dp_cutoff d)"
      and p: "priced_projection asyn w c (cx_org cx) k0 s = (Inr (q, k), s1)" "dp_kwargs d = k" "dp_context d = cx"
    by (rule admit_parts [OF assms(1)])
  with bounded_stream [OF b assms(2)] priced_stream [OF p(1)] assms(2) show ?thesis by (simp add: is_stream_def)
qed

end
