(* ===== verification/Monitored_Claims.thy ===== *)
theory Monitored_Claims
  imports Monitored_Facts
begin

text \<open>
  The properties of a monitored call, each with a run of a small client: the local ledger gets back what the call
  held, the provider is not called without room in the local budget and an admission of FinOps, a call has one
  outcome, which both ledgers hear.
\<close>

section \<open>Properties\<close>

text \<open>C5: a call gives its local hold back. With a cost cap, a monitored call that returns, that re-raises an
  exception of the provider, or that is refused before the provider is called (unless cancelled), leaves as
  much held as it found, sync or async, for streams whose dispatch fails too; and only a call that returns
  changes what is spent.\<close>

theorem monitored_call_frees_its_hold:
  assumes "ops = (if asyn then async_ops else sync_ops)"
    and "max_cost_usd (ms_local s) = Some m" and "0 \<le> pending_projected_usd (ms_local s)"
    and "monitored_call asyn ops w c kws fn s = (Ended r, s')"
    and "case r of Gave _ \<Rightarrow> True
      | Provider_Raised _ \<Rightarrow> \<forall>k exc is_exception. fn k = Fails exc is_exception \<longrightarrow> is_exception
      | Guard_Refused x \<Rightarrow> x \<noteq> Cancelled_Error \<and> (\<exists>v. gs_trace (ms_guard s') = gs_trace (ms_guard s) @ v \<and> Provider_Called \<notin> set v)"
  shows "max_cost_usd (ms_local s') = Some m \<and> pending_projected_usd (ms_local s') = pending_projected_usd (ms_local s) \<and>
    ((\<forall>y. r \<noteq> Gave y) \<longrightarrow> cumulative_cost_usd (ms_local s') = cumulative_cost_usd (ms_local s))"
proof -
  have traced: "\<exists>v. gs_trace (ms_guard s2) = gs_trace (ms_guard s1) @ Provider_Called # v"
    if "dispatch_call asyn ops w c d fn s1 = (q, s2)" for d s1 q s2
    using sync_calls.dispatch_traced [of asyn w c d fn s1] async_calls.dispatch_traced [of asyn w c d fn s1] that assms(1)
    by (auto split: if_splits)
  have quiet: "quiet (ms_guard s1) (ms_guard s2)" if "admit asyn ops w c cx kws s1 = (q, s2)" for cx s1 q s2
    using sync_calls.admit_quiet [of asyn w c cx kws s1] async_calls.admit_quiet [of asyn w c cx kws s1] that assms(1)
    by (auto split: if_splits)
  from assms(4) show ?thesis
  proof (cases rule: monitored_cases)
    case (bypass x)
    then show ?thesis using assms(2) by simp
  next
    case (early x)
    then show ?thesis using assms(2) by simp
  next
    case (refused g s1 x s2)
    from admit_hold [OF refused(6)] refused assms(2,3,5) show ?thesis by (auto simp: budget_of_def)
  next
    case (dispatched g s1 d s2 s3)
    from admit_hold [OF dispatched(6)] dispatched(3) assms(2,3)
    have h: "holds_more (dp_held d) (ms_local s) (ms_local s2)" by auto
    note l = dispatched_ledger [OF dispatched(7) h assms(3)]
    show ?thesis
    proof (cases r)
      case (Guard_Refused x)
      from quiet [OF dispatched(6)] traced [OF dispatched(7)] enter_frame [OF dispatched(2)] dispatched(4,8)
      have "\<exists>u v. gs_trace (ms_guard s') = gs_trace (ms_guard s) @ u @ Provider_Called # v" by (auto simp: quiet_def) blast
      with assms(5) Guard_Refused show ?thesis by auto
    next
      case (Gave y)
      from l(1) [OF this] Gave dispatched(8) assms(2) show ?thesis by (auto simp: budget_of_def)
    next
      case (Provider_Raised y)
      with l(2) assms(5) dispatched(8) assms(2) show ?thesis by (fastforce simp: budget_of_def)
    qed
  qed
qed





section \<open>A client to run\<close>

text \<open>A client with its own rate for a model no catalog prices, under the control deployment of \<open>toy_world\<close>, with a
  budget of a dollar.\<close>

definition tiny_bundle :: catalog_bundle where
  "tiny_bundle = \<lparr>b_version = ''v1'', b_source = [], b_rows = [], b_aliases = [], b_client_tool_versions = [],
     b_tool_prompt_tokens = [], b_tool_prompt_fallback = 0, b_tool_definition_tokens = [], b_tile_models = [], b_patch_multipliers = [],
     b_patch_sizing = [], b_inference_geo = [], b_allowed_speeds = [], b_first_party_hosts = [], b_non_first_party_uplift = 1,
     b_issued_at = None, b_expires_at = None, b_sha256 = None\<rparr>"

definition tiny_pricing :: pricing_world where
  "tiny_pricing = \<lparr>w_env = gw_env toy_world, w_loads = (\<lambda>_. None), w_pillow = (\<lambda>_. Pil_Missing), w_dump = (\<lambda>_. None),
     w_now = 0, w_bundle = tiny_bundle,
     w_engine = \<lparr>te_catalog = [], te_aliases = [], te_pricing = [], te_constructor_models = []\<rparr>\<rparr>"

definition tiny_client :: monitored_client where
  "tiny_client = \<lparr>mc_surface = ''chat'', mc_method = ''openai.chat.completions.create'', mc_loop_guard = ''off'', mc_loop_threshold = 1,
     mc_rate = Some (1 / 10), mc_stream_enforcement = False, mc_cutoff = None, mc_attribution = no_attribution, mc_observe = [],
     mc_require_customer = False, mc_sink = True, mc_client = None,
     mc_context = \<lparr>cx_org = ''acme'', cx_workspace = ''default'', cx_run = ''run'', cx_step = ''step0'', cx_parent = None\<rparr>\<rparr>"

definition tiny_world :: monitor_world where
  "tiny_world = \<lparr>mw_guard = toy_world, mw_pricing = tiny_pricing, mw_sha1 = (\<lambda>x. x), mw_clock = 10, mw_step = ''step1'',
     mw_ambient = None, mw_bypass = False, mw_serializer = None, mw_capture = (\<lambda>v. v)\<rparr>"

definition tiny_state :: monitor_state where
  "tiny_state = \<lparr>ms_guard = toy_state, ms_local = enforcement_init (Some 1) None 60, ms_loops = loop_detector_init 8 8 1 8,
     ms_breaker = clear_tier_breaker, ms_pricing = None, ms_finops = None, ms_events = []\<rparr>"

text \<open>Its request, streaming or not; what the bounds make of it; what is sent.\<close>

definition tiny_request :: "bool \<Rightarrow> kwargs" where
  "tiny_request streams = [(''model'', PStr ''m''), (''max_tokens'', PInt 100),
     (''messages'', PList [PDict [(''content'', PStr ''hi'')]])] @ (if streams then [(''stream'', PBool True)] else [])"

definition tiny_bounded :: "bool \<Rightarrow> kwargs" where
  "tiny_bounded streams = tiny_request streams @
     (if streams then [(''stream_options'', PDict [(''include_usage'', PBool True)])] else [])"

definition tiny_sent :: "bool \<Rightarrow> kwargs" where
  "tiny_sent streams = tiny_bounded streams @ [(''service_tier'', PStr ''default'')]"

definition tiny_answer :: pyval where
  "tiny_answer = PDict [(''usage'', PDict [(''prompt_tokens'', PInt 10), (''completion_tokens'', PInt 90), (''total_tokens'', PInt 100)])]"

text \<open>The steps of its admission.\<close>

lemma tiny_checks:
  "pin_service_tier ''openai'' (tiny_bounded b) = Inr (tiny_sent b)" "effective_request (tiny_sent b) = Inr (tiny_sent b)"
  "check_breaker 0 ''acme'' ''openai'' ''m'' clear_tier_breaker = (Inr (), clear_tier_breaker)"
  "integer_n (kw (tiny_sent b) ''n'') = Inr 1" "validate_tools tiny_bundle ''openai'' ''chat'' (tiny_sent b) = Inr ()"
  "validate_request_modifiers tiny_bundle ''openai'' (tiny_sent b) = Inr ()" "collect_images (tiny_sent b) = ([], False)"
  "resolve_canonical tiny_pricing ''m'' = Inl UnknownModelError" "py_lower (py_strip ''m'') = ''m''"
  "str_or_empty (kw (tiny_sent b) ''model'') = ''m''" "py_strip (str_or_empty (kw (tiny_bounded b) ''model'')) = ''m''"
  by (induct b; code_simp)+

lemma tiny_projects:
  "bounded_request tiny_world tiny_client (tiny_request b) = Inr (tiny_bounded b, if b then 1 / 10 else 0, None)"
  "max_output_tokens (tiny_bounded b) = Inr 100" "estimate_input_tokens (tiny_bounded b) = 2000" "estimate_input_tokens (tiny_sent b) = 2000"
  "engine_cost_usd (monitor_env tiny_world) (gw_catalog (mw_guard tiny_world)) (w_engine (mw_pricing tiny_world)) ''m'' 2000 100
     = Inl UnknownModelError"
  by (induct b; code_simp)+

lemma tiny_prepare:
  "prepare tiny_pricing ''openai'' ''chat'' None ''acme'' [] None (tiny_bounded b) clear_tier_breaker
     = (Inl UnknownModelError, clear_tier_breaker)"
proof -
  have "price_request tiny_pricing ''openai'' ''chat'' None [] None (tiny_sent b) = Inl UnknownModelError"
    using tiny_checks by (simp add: price_request_def tiny_pricing_def raise_if_def cong: bnd_weak)
  then show ?thesis using tiny_checks by (simp add: prepare_def tiny_pricing_def)
qed

lemma tiny_priced:
  assumes "ms_breaker s = clear_tier_breaker"
  shows "priced_projection False tiny_world tiny_client ''acme'' (tiny_bounded b) s = (Inr (21 / 100, tiny_sent b), s\<lparr>ms_pricing := None\<rparr>)"
proof -
  have c: "client_provider tiny_client = ''openai''" "mc_surface tiny_client = ''chat''" "mc_client tiny_client = None" "mc_observe tiny_client = []"
    "mc_rate tiny_client = Some (1 / 10)" "has_rate tiny_client" "mw_pricing tiny_world = tiny_pricing"
    by (simp_all add: tiny_client_def client_provider_def has_rate_def tiny_world_def)
  have "projection_of tiny_world tiny_client ''m'' (tiny_bounded b) k None = Inr (21 / 100, k)" for k
    using tiny_projects c by (simp add: projection_of_def unpriced_projection_def Let_def)
  then show ?thesis using assms c tiny_projects tiny_prepare tiny_checks by (simp add: priced_projection_def Let_def)
qed

definition tiny_context :: run_context where
  "tiny_context = child_step (mw_step tiny_world) (call_context (mw_ambient tiny_world) (mc_context tiny_client))"

definition tiny_entered :: guard_state where
  "tiny_entered = (case enter_scopes tiny_world tiny_client toy_state of Inr g \<Rightarrow> g | Inl _ \<Rightarrow> toy_state)"

lemma tiny_enters: "enter_scopes tiny_world tiny_client toy_state = Inr tiny_entered"
proof -
  have "\<not> isl (enter_scopes tiny_world tiny_client toy_state)" by code_simp
  then show ?thesis by (auto simp: tiny_entered_def split: sum.splits)
qed

definition tiny_reserved :: "reserved gres \<times> guard_state" where
  "tiny_reserved = go_reserve sync_ops (toy_world\<lparr>gw_pricing := None\<rparr>) (call_request tiny_client tiny_context (tiny_sent False) (21 / 100)) tiny_entered"

definition tiny_reservation :: reserved where
  "tiny_reservation = (case fst tiny_reserved of Inr r \<Rightarrow> r | Inl _ \<Rightarrow> Amount NaN)"

definition tiny_started :: "bool gres \<times> guard_state" where
  "tiny_started = go_signal sync_ops toy_world ''acme'' ''run'' tiny_reservation ''provider_started'' None True (snd tiny_reserved)"

definition tiny_dispatch :: "bool \<Rightarrow> dispatch" where
  "tiny_dispatch b = \<lparr>dp_context = tiny_context, dp_kwargs = tiny_sent b, dp_rate = (if b then 1 / 10 else 0), dp_cutoff = None, dp_held = 21 / 100,
     dp_reserved = tiny_reservation\<rparr>"

definition tiny_settled :: "unit gres \<times> guard_state" where
  "tiny_settled = settle_answer sync_ops tiny_world tiny_client (tiny_dispatch False) tiny_reservation (Some (1 / 100)) False
     (log_effect Provider_Called (snd tiny_started))"

lemma tiny_chain:
  "case go_reserve sync_ops (toy_world\<lparr>gw_pricing := None\<rparr>) (call_request tiny_client tiny_context (tiny_sent False) (21 / 100)) tiny_entered of
     (Inr r, g) \<Rightarrow>
       (case go_signal sync_ops toy_world ''acme'' ''run'' r ''provider_started'' None True g of
          (Inr k, g2) \<Rightarrow>
            (case settle_answer sync_ops tiny_world tiny_client
                \<lparr>dp_context = tiny_context, dp_kwargs = tiny_sent False, dp_rate = 0, dp_cutoff = None, dp_held = 21 / 100, dp_reserved = r\<rparr>
                r (Some (1 / 100)) False (log_effect Provider_Called g2) of
               (Inr u, g3) \<Rightarrow> True | (Inl x, g3) \<Rightarrow> False)
        | (Inl x, g2) \<Rightarrow> False)
   | (Inl x, g) \<Rightarrow> False"
  by code_simp

lemma case_success: "(case p of (Inr r, g) \<Rightarrow> P r g | (Inl x, g) \<Rightarrow> False) \<Longrightarrow> \<exists>r g. p = (Inr r, g) \<and> P r g"
  by (auto split: prod.splits sum.splits)

lemma tiny_runs:
  "tiny_reserved = (Inr tiny_reservation, snd tiny_reserved)" "\<exists>k. tiny_started = (Inr k, snd tiny_started)"
  "tiny_settled = (Inr (), snd tiny_settled)"
proof -
  obtain r g where r: "tiny_reserved = (Inr r, g)" and 1: "case go_signal sync_ops toy_world ''acme'' ''run'' r ''provider_started'' None True g of
      (Inr k, g2) \<Rightarrow> (case settle_answer sync_ops tiny_world tiny_client
          \<lparr>dp_context = tiny_context, dp_kwargs = tiny_sent False, dp_rate = 0, dp_cutoff = None, dp_held = 21 / 100, dp_reserved = r\<rparr>
          r (Some (1 / 100)) False (log_effect Provider_Called g2) of
         (Inr u, g3) \<Rightarrow> True | (Inl x, g3) \<Rightarrow> False)
    | (Inl x, g2) \<Rightarrow> False"
    using case_success [OF tiny_chain] unfolding tiny_reserved_def [symmetric] by (elim exE conjE) (rule that)
  have eq: "tiny_reservation = r" "snd tiny_reserved = g" unfolding tiny_reservation_def r by simp_all
  with r show "tiny_reserved = (Inr tiny_reservation, snd tiny_reserved)" by simp
  obtain k g2 where s: "go_signal sync_ops toy_world ''acme'' ''run'' r ''provider_started'' None True g = (Inr k, g2)" and 2: "case settle_answer sync_ops tiny_world tiny_client
          \<lparr>dp_context = tiny_context, dp_kwargs = tiny_sent False, dp_rate = 0, dp_cutoff = None, dp_held = 21 / 100, dp_reserved = r\<rparr>
          r (Some (1 / 100)) False (log_effect Provider_Called g2) of
         (Inr u, g3) \<Rightarrow> True | (Inl x, g3) \<Rightarrow> False"
    using case_success [OF 1] by (elim exE conjE) (rule that)
  have k: "tiny_started = (Inr k, g2)" unfolding tiny_started_def eq s ..
  show "\<exists>k. tiny_started = (Inr k, snd tiny_started)" unfolding k by simp
  from case_success [OF 2] show "tiny_settled = (Inr (), snd tiny_settled)"
    unfolding tiny_settled_def tiny_dispatch_def eq k by (elim exE conjE) simp
qed

lemma tiny_call_request:
  "call_request tiny_client tiny_context (tiny_sent b) q = call_request tiny_client tiny_context (tiny_sent False) q"
  using tiny_checks tiny_projects by (simp add: call_request_def)


lemma tiny_world_simps [simp]:
  "mw_guard tiny_world = toy_world" "mw_bypass tiny_world = False" "mw_clock tiny_world = 10" "mw_pricing tiny_world = tiny_pricing"
  "mc_surface tiny_client = ''chat''" "mc_loop_guard tiny_client = ''off''" "mc_rate tiny_client = Some (1 / 10)"
  "ms_guard tiny_state = toy_state" "ms_local tiny_state = enforcement_init (Some 1) None 60" "ms_breaker tiny_state = clear_tier_breaker"
  "ms_finops tiny_state = None" "ms_pricing tiny_state = None" "cx_org tiny_context = ''acme''" "cx_run tiny_context = ''run''"
  by (simp_all add: tiny_world_def tiny_client_def tiny_state_def tiny_context_def child_step_def call_context_def)

text \<open>What the admission leaves: the hold, and FinOps' answer in the trace.\<close>

definition tiny_admitted :: monitor_state where
  "tiny_admitted = tiny_state\<lparr>ms_guard := snd tiny_started,
     ms_local := (prune_locked 10 (enforcement_init (Some 1) None 60))\<lparr>pending_projected_usd := 21 / 100\<rparr>\<rparr>"

lemma tiny_admit:
  "admit False sync_ops tiny_world tiny_client tiny_context (tiny_request b) (tiny_state\<lparr>ms_guard := tiny_entered\<rparr>)
     = (Inr (tiny_dispatch b), tiny_admitted)"
proof -
  obtain g where r: "tiny_reserved = (Inr tiny_reservation, g)" using tiny_runs(1) by blast
  obtain k g' where k: "tiny_started = (Inr k, g')" using tiny_runs(2) by blast
  have l: "check_local 10 (21 / 100) (enforcement_init (Some 1) None 60) =
      (Inr (21 / 100), (prune_locked 10 (enforcement_init (Some 1) None 60))\<lparr>pending_projected_usd := 21 / 100\<rparr>)"
    by (simp add: check_local_def enforcement_init_def Let_def prune_locked_def)
  have p: "priced_projection False tiny_world tiny_client ''acme'' (tiny_bounded b) (tiny_state\<lparr>ms_guard := tiny_entered\<rparr>)
      = (Inr (21 / 100, tiny_sent b), tiny_state\<lparr>ms_guard := tiny_entered\<rparr>)"
    by (subst tiny_priced) (simp_all add: tiny_state_def)
  have a: "attach_pricing tiny_reservation None = tiny_reservation" by (simp add: attach_pricing_def split: reserved.splits)
  have f: "finops_reservation_fail_closed (monitor_env tiny_world)" using toy_posture(1) by (simp add: monitor_env_def)
  have r': "reserve_with_local_hold sync_ops tiny_world (call_request tiny_client tiny_context (tiny_sent b) (21 / 100)) (21 / 100)
      (tiny_state\<lparr>ms_guard := tiny_entered\<rparr>) =
      (Inr (21 / 100, tiny_reservation), tiny_state\<lparr>ms_guard := g, ms_local := (prune_locked 10 (enforcement_init (Some 1) None 60))\<lparr>pending_projected_usd := 21 / 100\<rparr>\<rparr>)"
    using r [unfolded tiny_reserved_def] l a by (simp add: reserve_with_local_hold_def tiny_state_def tiny_call_request [of b])
  have "start_or_release sync_ops tiny_world tiny_context h tiny_reservation (s\<lparr>ms_guard := g, ms_local := e\<rparr>) = (Inr (), s\<lparr>ms_guard := g', ms_local := e\<rparr>)" for h s e
    using k [unfolded tiny_started_def r snd_conv] f by (simp add: start_or_release_def)
  then show ?thesis
    using r' p arg_cong [OF k, of snd] tiny_projects(1) by (simp add: admit_def tiny_dispatch_def tiny_admitted_def)
qed

definition tiny_answered :: monitor_state where
  "tiny_answered = snd (dispatch_call False sync_ops tiny_world tiny_client (tiny_dispatch False) (\<lambda>_. Answers tiny_answer) tiny_admitted)"

lemma tiny_dispatches:
  "dispatch_call False sync_ops tiny_world tiny_client (tiny_dispatch False) (\<lambda>_. Answers tiny_answer) tiny_admitted
     = (Ended (Gave tiny_answer), tiny_answered)"
proof -
  have p: "priced_answer tiny_world tiny_client (tiny_dispatch False) tiny_answer s = (Some 100, usage, Some (1 / 100), tiny_reservation, s)"
    if "ms_pricing s = None" "usage = field tiny_answer ''usage''" for s usage
  proof -
    have "extract_usage tiny_answer = (Some 100, field tiny_answer ''usage'')" by code_simp
    moreover have "attach_pricing tiny_reservation None = tiny_reservation" by (simp add: attach_pricing_def split: reserved.splits)
    ultimately show ?thesis using that
      by (simp add: priced_answer_def usage_of_answer_def postcall_cost_usd_def tiny_dispatch_def)
  qed
  obtain g where g: "tiny_settled = (Inr (), g)" using tiny_runs(3) by blast
  have f: "ms_pricing (tiny_admitted\<lparr>ms_guard := x\<rparr>) = None" "ms_finops tiny_admitted = None" "ms_guard tiny_admitted = snd tiny_started" for x
    by (simp_all add: tiny_admitted_def)
  have "\<not> is_stream (tiny_dispatch False)" by code_simp
  moreover have "fst (call_answered False sync_ops tiny_world tiny_client (tiny_dispatch False) tiny_answer
      (tiny_admitted\<lparr>ms_guard := log_effect Provider_Called (snd tiny_started)\<rparr>)) = Gave tiny_answer"
    using g [unfolded tiny_settled_def] f
    by (simp add: call_answered_def p [OF f(1) refl] pricing_holds_reconciliation_def call_events_def book_def emit_def)
  ultimately have "fst (dispatch_call False sync_ops tiny_world tiny_client (tiny_dispatch False) (\<lambda>_. Answers tiny_answer) tiny_admitted) = Ended (Gave tiny_answer)"
    using f by (simp add: dispatch_call_def Let_def case_prod_unfold)
  then show ?thesis by (simp add: tiny_answered_def prod_eq_iff)
qed

definition tiny_final :: monitor_state where
  "tiny_final = leave_scopes toy_state tiny_answered"

lemma tiny_context_eq: "child_step (mw_step tiny_world) (call_context (mw_ambient tiny_world) (mc_context tiny_client)) = tiny_context"
  by (simp add: tiny_context_def)

lemma tiny_scoped:
  "monitored_call False sync_ops tiny_world tiny_client (tiny_request b) fn tiny_state =
     (case dispatch_call False sync_ops tiny_world tiny_client (tiny_dispatch b) fn tiny_admitted of
        (r, s) \<Rightarrow> (r, leave_scopes toy_state s))"
  by (simp add: monitored_call_def scoped_call_def loop_guard_check_def tiny_enters tiny_context_eq tiny_admit)

lemma tiny_call:
  "monitored_call False sync_ops tiny_world tiny_client (tiny_request False) (\<lambda>_. Answers tiny_answer) tiny_state
     = (Ended (Gave tiny_answer), tiny_final)"
  by (simp add: tiny_scoped tiny_dispatches tiny_final_def)

lemma tiny_traced:
  assumes "dispatch_call False sync_ops tiny_world tiny_client (tiny_dispatch b) fn tiny_admitted = (r, s)"
  shows "\<exists>pre post. gs_trace (ms_guard (leave_scopes toy_state s)) = gs_trace (ms_guard tiny_state) @ pre @ Provider_Called # post"
proof -
  have "gs_trace tiny_entered = gs_trace toy_state" using enter_frame [OF tiny_enters] by simp
  with sync_calls.admit_quiet [OF tiny_admit] sync_calls.dispatch_traced [OF assms] show ?thesis
    by (auto simp: quiet_def tiny_state_def) blast
qed


lemma tiny_before_after:
  obtains pre post where "gs_trace (ms_guard tiny_final) = gs_trace (ms_guard tiny_state) @ pre @ Provider_Called # post"
  using tiny_traced [OF tiny_dispatches] unfolding tiny_final_def by blast

text \<open>The same client interrupted, and its stream.\<close>

lemma tiny_interrupted:
  "monitored_call False sync_ops tiny_world tiny_client (tiny_request False) (\<lambda>_. Fails PNone False) tiny_state
     = (Ended (Provider_Raised PNone), leave_scopes toy_state
         (tiny_admitted\<lparr>ms_guard := log_effect Provider_Called (snd tiny_started)\<rparr>))"
  "dispatch_call False sync_ops tiny_world tiny_client (tiny_dispatch False) (\<lambda>_. Fails PNone False) tiny_admitted
     = (Ended (Provider_Raised PNone), tiny_admitted\<lparr>ms_guard := log_effect Provider_Called (snd tiny_started)\<rparr>)"
proof -
  have g: "ms_guard tiny_admitted = snd tiny_started" by (simp add: tiny_admitted_def)
  show d: "dispatch_call False sync_ops tiny_world tiny_client (tiny_dispatch False) (\<lambda>_. Fails PNone False) tiny_admitted
     = (Ended (Provider_Raised PNone), tiny_admitted\<lparr>ms_guard := log_effect Provider_Called (snd tiny_started)\<rparr>)"
    by (simp add: dispatch_call_def call_failed_def Let_def g)
  then show "monitored_call False sync_ops tiny_world tiny_client (tiny_request False) (\<lambda>_. Fails PNone False) tiny_state
     = (Ended (Provider_Raised PNone), leave_scopes toy_state
         (tiny_admitted\<lparr>ms_guard := log_effect Provider_Called (snd tiny_started)\<rparr>))"
    by (simp add: tiny_scoped)
qed

definition tiny_attempt :: stream_attempt where
  "tiny_attempt = new_stream_attempt False tiny_client (tiny_dispatch True) None"

definition tiny_streaming :: monitor_state where
  "tiny_streaming = leave_scopes toy_state (tiny_admitted\<lparr>ms_guard := log_effect Provider_Called (snd tiny_started)\<rparr>)"

lemma tiny_streams:
  "monitored_call False sync_ops tiny_world tiny_client (tiny_request True) (\<lambda>_. Answers PNone) tiny_state
     = (Streams tiny_attempt tiny_reservation, tiny_streaming)"
proof -
  have s: "is_stream (tiny_dispatch True)" by code_simp
  have "ms_guard tiny_admitted = snd tiny_started" "ms_pricing tiny_admitted = None" by (simp_all add: tiny_admitted_def)
  then have "dispatch_call False sync_ops tiny_world tiny_client (tiny_dispatch True) (\<lambda>_. Answers PNone) tiny_admitted
     = (Streams tiny_attempt tiny_reservation, tiny_admitted\<lparr>ms_guard := log_effect Provider_Called (snd tiny_started)\<rparr>)"
    using s by (simp add: dispatch_call_def Let_def tiny_attempt_def) (simp add: tiny_dispatch_def)
  then show ?thesis by (simp add: tiny_scoped tiny_streaming_def)
qed

lemma tiny_stream_ends:
  "\<exists>a s. end_stream False sync_ops tiny_world tiny_client tiny_context tiny_reservation CLIENT_CANCELLED None tiny_attempt tiny_streaming
     = (Inr (), a, s)"
proof -
  have f: "ms_finops tiny_streaming = None" "ms_local tiny_streaming = ms_local tiny_admitted"
    by (simp_all add: tiny_streaming_def leave_scopes_def tiny_admitted_def)
  have "authoritative (observed_usage (begin_finalize CLIENT_CANCELLED None (tiny_attempt\<lparr>finalized := True\<rparr>))) = False"
    by (simp add: begin_finalize_def tiny_attempt_def new_stream_attempt_def no_usage_def)
  then show ?thesis
    by (simp add: end_stream_def finalize_def price_attempt_def settle_plan_def complete_local_def stream_event_def
        emit_stream_model_call_def emit_def f Let_def split: prod.split option.split)
qed

section \<open>Witnesses\<close>

theorem monitored_call_frees_its_hold_witness:
  "pending_projected_usd (ms_local tiny_final) = 0 \<and> max_cost_usd (ms_local tiny_final) = Some 1"
  using monitored_call_frees_its_hold [OF _ _ _ tiny_call] by (simp add: enforcement_init_def)





end
