(* ===== verification/Spec2Isabelle.thy ===== *)
theory Spec2Isabelle
  imports Enforcement Catalog_Facts Catalog_Formulas Local_Guards Lifecycle_Config Urls Ownership
    Price_Engine Request_Facts Request_Pricing Settlement_Facts Retry_Facts Stream_Facts Settle_Facts
    Settle_Findings Settle_Race Attribution Org_Policy Guard_Durable Principal Jwt Document_Facts
    Gateway_Facts Monitored_Claims
begin

text \<open>
  A verification of kazenai-core: budget enforcement, pricing, settlement and delivery for calls of
  language models. All paths below are under src/kazenai/.

  The program. A call passes the local budget and rate limit, asks Agent FinOps (a service) for a reservation,
  is priced exactly from the catalog, is made, and is settled with one outcome: its exact cost, zero after a
  definitive refusal of the provider, or unknown. Settlements are journaled in a queue of files before they
  are sent; telemetry events wait in an SQLite queue. Who reserves (the SDK or a gateway), which lifecycle
  and failure policy hold, and what happens while FinOps cannot be reached is configuration. The modelled
  parts and their theories, each over the ones before it:

  \<^item> Prelude, Pyval, Decimal_Arith, Instants: the values the code computes with. Exceptions are the left
    of a sum (\<open>res\<close>, composed by \<open>bnd\<close>), JSON values and attribute access \<open>pyval\<close>, dictionaries association
    lists, Python ints \<open>int\<close>, floats exact rationals with NaN and infinities, \<open>decimal.Decimal\<close> with 28
    digits and half-even rounding, times rational seconds or calendar days.
  \<^item> Rates, Price_Catalog, Catalog_Facts, Catalog_Formulas: price_catalog.py, its published table, price
    components, schedules, image and patch formulas.
  \<^item> Price_Engine: pricing_policy.py, model_pricing.py, cost_engine.py, with overrides and aliases.
  \<^item> Request_Rules, Request_Pricing, Request_Facts, Settlement_Facts: request_pricing.py, the request side of
    monitor.py: what is admissible, the exposure reserved for a call, its settlement, the tier breaker.
  \<^item> Enforcement, Local_Guards: enforcement.py, budget.py, circuit_breaker.py, trajectory.py, loop_detector.py.
    A region under a lock is one step; the budget shared by threads is the relation \<open>budget_step\<close>.
  \<^item> Lifecycle_Config, Ownership, Urls: deployment.py, lifecycle_config.py, enforcement_owner.py,
    _dispatch_gate.py, ingest_url.py. The environment is an association list.
  \<^item> Spool, Retry_Queue, Retry_Facts: retry_queue.py, a transaction is one operation on two lists of rows.
  \<^item> Stream_Attempt, Stream_Facts: streaming/lifecycle.py, lifecycle_transitions.py, provider_errors.py.
  \<^item> Settle_Queue, Settle_Delivery, Settle_Facts, Settle_Race, Settle_Findings: spine/settle_queue.py and the
    settlement requests of spine/guard.py. One method is one operation on three directories; Settle_Race
    takes the file operations of several processes apart, as a step relation.
  \<^item> Attribution, Org_Policy: attribution.py and spine/org_policy.py, the organization's setting for calls made
    while FinOps cannot be reached, in the memories of processes and on their disk.
  \<^item> Guard, Guarded_Call, Guard_Facts, Guard_Claims, Guard_Durable: spine/guard.py, from the reservation to the
    guarded calls, sync and async. A \<open>guard_world\<close> holds every answer that can come from outside, a
    \<open>guard_state\<close> what a process keeps and the trace of what it sent.
  \<^item> Principal, Jwt: auth/_principal_impl.py and auth/jwt.py, who a request acts for, and the tokens that say so.
  \<^item> Catalog_Document, Catalog_Accept, Document_Facts: catalog_document.py and catalog_feed.py, the parser of signed
    price catalogs, the check of their signatures, the floor of versions, and the feed that offers them.
  \<^item> Gateway_Control, Gateway_Store, Gateway_Hooks, Gateway_Facts: integrations/litellm_control.py and
    litellm_gateway.py, the gateway that owns enforcement for a LiteLLM proxy. Attempts are a heap of mutable
    objects, since the process's map and the caller share them; the directories of open attempts and of unsent
    settlements are association lists, and the trace keeps each request with its answer.
  \<^item> Finops_Events: finops.py, what the controller derives from the event of a call.
  \<^item> Monitored_Request, Monitored_Call, Monitored_Facts, Monitored_Claims: what monitor() puts in the place of a
    client's create (the wrapped functions of monitor.py and _async_provider.py): the scopes, the loop detector,
    the bounds and the price of a request, the local hold, the reservation, the dispatch, the settlement, the ledger and
    the events, and the end of a stream, composed from the parts above. A \<open>monitor_state\<close> joins their states; \<open>asyn\<close>
    tells the async twin from the sync one.

  Interfaces. \<open>spool\<close> (Spool) is the contract of a journal that loses nothing, provided by the settlement
  queue, the retry queue and the gateway's unsent settlements; \<open>lifecycle_ops\<close>, \<open>lifecycle_frames\<close> and \<open>keeping_ops\<close> (Guard_Facts,
  Guard_Claims, Guard_Durable) are what a guarded call relies on, and a monitored call, provided by the sync and by the async
  operations: what they add to the trace, what they leave alone, what they keep journaled.

  The properties. Money: the cap is never exceeded by projections, a monitored call or stream gives its hold back
  and books what it reports (an interrupted one does not), a settlement stays within its
  reservation, costs are exact sums. Outcomes: one per call, for its own
  reservation, once finalized never again; journaled ones survive crashes, flushes, races of processes and
  failed deliveries. Control: no provider call without an admission when failures stop calls (behind the gateway, never), a denial is
  final, fail-open is chosen by the organization and withdrawn with its last setting, one enforcement owner. Trust: tokens and catalogs are
  accepted only signed by a key in force and in time, prices come from a trusted catalog, no request crosses its
  organization. The twins, sync and async, agree wherever they are meant to.

  Bounds. The claim of an idempotency key is tried for eight rounds, as in the code; every other recursion is
  structural or has a measure, and no definition needs fuel.

  Parameters. SHA-256, signature checks, JSON rendering and parsing, HTTP dates, LiteLLM's price, random ids, the clock and all
  answers of FinOps and of providers are arguments; the theorems state what they assume of them (a digest
  is not empty; an empty text is not JSON). A function under a lock is atomic; the operating system's
  \<open>O_EXCL\<close>, \<open>rename\<close> and \<open>link\<close> are.

  Not modelled: the rebinding of the methods of provider clients, Bedrock, the stream helper managers and positional
  arguments (monitor.py, _async_provider.py), and the
  integrations of crewai, langgraph and langchain, which wrap objects of third-party libraries; stream parsers; event sinks, transport threads
  and OpenTelemetry; the signing side of catalogs; scrubbing of captured texts; scripts.
\<close>

end
